(* ===== verification/Prelude.thy ===== *)
theory Prelude
  imports Complex_Main "HOL-Library.Char_ord" "HOL-Library.List_Lexorder"
begin

text \<open>
  The shared ground of the development: the exceptions of the program as values, the
  result type of code that may raise, the generic lemmas on results, options and lists,
  and the collections of facts the component proofs use.

  A Python call that may raise is a value of type \<open>'a res\<close>: \<open>Inl\<close> the exception,
  \<open>Inr\<close> the value returned. \<open>ebind\<close> sequences two such computations, so that the
  first exception ends the whole computation, as an uncaught \<open>raise\<close> does.
\<close>

named_theorems py_eval "facts that unfold the operations of the embedded language"

section \<open>Exceptions as values\<close>

text \<open>
  One constructor per exception class that the modelled code raises or catches; the
  string is the message where the code gives a fixed one.
\<close>

datatype exn =
    ValueError string
  | CandleSchemaError string
  | CandleTimestampError string
  | CandleLatestError string
  | TypeError
  | OverflowError
  | ZeroDivisionError
  | KeyError
  | IndexError
  | RuntimeError string
  | InvalidTransition
  | StoreError string
  | StoreCorruptionError string
  | IdempotencyConflictError string
  | CycleLeaseLostError string
  | PaperReconciliationError string
  | PaperServiceError string
  | HealthStateError string
  | DecimalSignal
  | OtherError string

type_synonym 'a res = "exn + 'a"

definition ebind :: "'a res \<Rightarrow> ('a \<Rightarrow> 'b res) \<Rightarrow> 'b res" where
  "ebind m f = (case m of Inl e \<Rightarrow> Inl e | Inr x \<Rightarrow> f x)"

definition ensure :: "bool \<Rightarrow> exn \<Rightarrow> unit res" where
  "ensure b e = (if b then Inr () else Inl e)"

text \<open>\<open>try: m except E: h\<close>, where \<open>c\<close> says which exceptions are caught.\<close>

definition catch :: "(exn \<Rightarrow> bool) \<Rightarrow> 'a res \<Rightarrow> (exn \<Rightarrow> 'a res) \<Rightarrow> 'a res" where
  "catch c m h = (case m of Inl e \<Rightarrow> if c e then h e else Inl e | Inr x \<Rightarrow> Inr x)"

definition is_ok :: "'a res \<Rightarrow> bool" where
  "is_ok m = (case m of Inl _ \<Rightarrow> False | Inr _ \<Rightarrow> True)"

text \<open>\<open>ValueError\<close> and its subclasses; \<open>except ValueError\<close> catches all of them.\<close>

fun is_value_error :: "exn \<Rightarrow> bool" where
  "is_value_error (ValueError _) = True"
| "is_value_error (CandleSchemaError _) = True"
| "is_value_error (CandleTimestampError _) = True"
| "is_value_error (CandleLatestError _) = True"
| "is_value_error InvalidTransition = True"
| "is_value_error (HealthStateError _) = True"
| "is_value_error _ = False"

lemma ebind_Inr [simp]: "ebind (Inr x) f = f x"
  by (simp add: ebind_def)

lemma ebind_Inl [simp]: "ebind (Inl e) f = Inl e"
  by (simp add: ebind_def)

lemma ebind_eq_Inr [simp]: "ebind m f = Inr y \<longleftrightarrow> (\<exists>x. m = Inr x \<and> f x = Inr y)"
  by (cases m) (auto simp: ebind_def)

lemma ebind_eq_Inl: "ebind m f = Inl e \<longleftrightarrow> m = Inl e \<or> (\<exists>x. m = Inr x \<and> f x = Inl e)"
  by (cases m) (auto simp: ebind_def)

lemma ebind_assoc: "ebind (ebind m f) g = ebind m (\<lambda>x. ebind (f x) g)"
  by (cases m) (auto simp: ebind_def)

lemma ebind_cong [fundef_cong]:
  "m = m' \<Longrightarrow> (\<And>x. m' = Inr x \<Longrightarrow> f x = f' x) \<Longrightarrow> ebind m f = ebind m' f'"
  by (cases m') (auto simp: ebind_def)

lemma ensure_eq_Inr [simp]: "ensure b e = Inr u \<longleftrightarrow> b"
  by (simp add: ensure_def)

lemma ensure_eq_Inl [simp]: "ensure b e = Inl e' \<longleftrightarrow> \<not> b \<and> e' = e"
  by (auto simp: ensure_def)

lemma ensure_True [simp]: "ensure True e = Inr ()"
  by (simp add: ensure_def)

lemma catch_Inr [simp]: "catch c (Inr x) h = Inr x"
  by (simp add: catch_def)

lemma catch_Inl [simp]: "catch c (Inl e) h = (if c e then h e else Inl e)"
  by (simp add: catch_def)

lemma is_ok_simps [simp]: "is_ok (Inr x)" "\<not> is_ok (Inl e)"
  by (simp_all add: is_ok_def)

lemma is_ok_iff: "is_ok m \<longleftrightarrow> (\<exists>x. m = Inr x)"
  by (cases m) (auto simp: is_ok_def)

lemma is_ok_ebind: "is_ok (ebind m f) \<longleftrightarrow> (\<exists>x. m = Inr x \<and> is_ok (f x))"
  by (cases m) (auto simp: ebind_def)

text \<open>A loop over a list that threads a state and may raise.\<close>

fun efold :: "('a \<Rightarrow> 's \<Rightarrow> 's res) \<Rightarrow> 'a list \<Rightarrow> 's \<Rightarrow> 's res" where
  "efold f [] s = Inr s"
| "efold f (x # xs) s = ebind (f x s) (efold f xs)"

lemma efold_append: "efold f (xs @ ys) s = ebind (efold f xs s) (efold f ys)"
proof (induction xs arbitrary: s)
  case (Cons x xs)
  then show ?case by (cases "f x s") auto
qed simp

text \<open>The loop rule: an invariant that every iteration keeps holds of the final state.\<close>

lemma efold_invariant:
  assumes "efold f xs s = Inr t" and "P s"
    and "\<And>x s t. x \<in> set xs \<Longrightarrow> P s \<Longrightarrow> f x s = Inr t \<Longrightarrow> P t"
  shows "P t"
  using assms
proof (induction xs arbitrary: s)
  case Nil
  then show ?case by simp
next
  case (Cons x xs)
  then obtain u where u: "f x s = Inr u" "efold f xs u = Inr t" by auto
  have "P u" using Cons.prems(2,3) u(1) by auto
  with Cons.IH u(2) Cons.prems(3) show ?case by auto
qed

fun emap :: "('a \<Rightarrow> 'b res) \<Rightarrow> 'a list \<Rightarrow> 'b list res" where
  "emap f [] = Inr []"
| "emap f (x # xs) = ebind (f x) (\<lambda>y. ebind (emap f xs) (\<lambda>ys. Inr (y # ys)))"

end
