(* ===== verification/Rounding.thy ===== *)
theory Rounding
  imports Prelude
begin

text \<open>
  Correctly rounded arithmetic in an arbitrary base, the common core of binary64 floats
  (base 2, 53 digits) and of Python's decimals (base 10, 28 digits).

  A number is a pair \<open>(m, e)\<close> of integers of value \<open>m * b ^ e\<close>, kept canonical
  (\<open>m\<close> not divisible by \<open>b\<close>, zero as \<open>(0, 0)\<close>). \<open>round_frac\<close> rounds an exact
  quotient of integers half to even at \<open>p\<close> digits, with integer operations only, so that
  it evaluates; \<open>round_prec\<close> is its specification on the rationals, and
  \<open>bval_round_frac\<close> says they agree. The lemmas proved of \<open>round_prec\<close> (it is monotone,
  it is the identity on representable numbers, it commutes with negation) then hold of
  the arithmetic that the program computes with.
\<close>

section \<open>Integer helpers that evaluate\<close>

function ipow :: "int \<Rightarrow> int \<Rightarrow> int" where
  "ipow b k = (if k \<le> 0 then 1
     else if even k then ipow (b * b) (k div 2) else b * ipow (b * b) (k div 2))"
  by pat_completeness auto
termination by (relation "measure (\<lambda>(b, k). nat k)") auto

declare ipow.simps [simp del]

lemma ipow_eq: "ipow b k = b ^ nat k"
proof (induction b k rule: ipow.induct)
  case (1 b k)
  show ?case
  proof (cases "k \<le> 0")
    case True
    then show ?thesis by (simp add: ipow.simps)
  next
    case False
    define j where "j = nat (k div 2)"
    have sq: "(b * b) ^ j = b ^ (2 * j)" by (simp add: power_mult power2_eq_square)
    show ?thesis
    proof (cases "even k")
      case True
      then have "nat k = 2 * j" using False by (auto simp: j_def)
      with 1 False True sq show ?thesis by (simp add: ipow.simps [of b k] j_def)
    next
      case odd: False
      then have "k = 2 * (k div 2) + 1" by presburger
      moreover have "0 \<le> k div 2" using False by simp
      ultimately have "nat k = Suc (2 * j)" unfolding j_def by linarith
      with 1 False odd sq show ?thesis by (simp add: ipow.simps [of b k] j_def)
    qed
  qed
qed

text \<open>The number of digits of a positive integer in base \<open>b\<close>.\<close>

function blen :: "int \<Rightarrow> int \<Rightarrow> int" where
  "blen b n = (if n \<le> 0 \<or> b < 2 then 0 else blen b (n div b) + 1)"
  by pat_completeness auto
termination
proof (relation "measure (\<lambda>(b, n). nat n)", goal_cases)
  case (2 b n)
  then have "n div b < n" by (intro int_div_less_self) auto
  with 2 show ?case by auto
qed auto

declare blen.simps [simp del]

lemma blen_nonneg: "0 \<le> blen b n"
proof (induction b n rule: blen.induct)
  case (1 b n)
  then show ?case by (cases "n \<le> 0 \<or> b < 2") (auto simp: blen.simps [of b n])
qed

lemma blen_bounds:
  assumes "2 \<le> b" and "0 < n"
  shows "b ^ nat (blen b n - 1) \<le> n \<and> n < b ^ nat (blen b n)"
  using assms
proof (induction b n rule: blen.induct)
  case (1 b n)
  have b: "\<not> b < 2" using 1 by simp
  have eq: "blen b n = blen b (n div b) + 1" using 1 b by (simp add: blen.simps [of b n])
  show ?case
  proof (cases "n < b")
    case True
    then have "n div b = 0" using 1 by simp
    then have "blen b n = 1" by (simp add: eq blen.simps [of b 0])
    with True 1 show ?thesis by simp
  next
    case False
    then have pos: "0 < n div b" using 1 by (simp add: pos_imp_zdiv_pos_iff)
    with 1 have IH: "b ^ nat (blen b (n div b) - 1) \<le> n div b"
      "n div b < b ^ nat (blen b (n div b))" by auto
    define k where "k = nat (blen b (n div b) - 1)"
    have "0 < blen b (n div b)"
      using pos 1 blen_nonneg [of b "n div b div b"] by (simp add: blen.simps [of b "n div b"])
    then have k: "nat (blen b (n div b)) = Suc k" "nat (blen b n) = Suc (Suc k)"
      "nat (blen b n - 1) = Suc k" by (auto simp: k_def eq)
    have "b * (n div b) \<le> n"
      using mult_div_mod_eq [of b n] pos_mod_sign [of b n] 1 by linarith
    have "n < b * (n div b + 1)"
      using mult_div_mod_eq [of b n] pos_mod_bound [of b n] b
      unfolding distrib_left mult_1_right by linarith
    have "b * b ^ k \<le> b * (n div b)" using IH 1 by (simp add: k_def)
    with \<open>b * (n div b) \<le> n\<close> have lo: "b ^ Suc k \<le> n" by simp
    have "n div b + 1 \<le> b ^ Suc k" using IH(2) k by simp
    then have "b * (n div b + 1) \<le> b * b ^ Suc k" using 1 by (intro mult_left_mono) auto
    with \<open>n < b * (n div b + 1)\<close> have "n < b ^ Suc (Suc k)" by simp
    with lo show ?thesis by (simp add: k)
  qed
qed


section \<open>Rounding to the nearest integer, ties to even\<close>

definition rhe :: "rat \<Rightarrow> int" where
  "rhe x = (let f = \<lfloor>x\<rfloor>; d = x - of_int f
            in if d < 1 / 2 then f else if 1 / 2 < d then f + 1 else if even f then f else f + 1)"

text \<open>The same on a quotient of integers, with integer division only.\<close>

definition rhe_div :: "int \<Rightarrow> int \<Rightarrow> int" where
  "rhe_div n d = (let f = n div d; r = 2 * (n mod d)
                  in if r < d then f else if d < r then f + 1 else if even f then f else f + 1)"

lemma rhe_div: "0 < d \<Longrightarrow> rhe_div n d = rhe (of_int n / of_int d)"
proof -
  assume d: "0 < d"
  have fl: "\<lfloor>(of_int n :: rat) / of_int d\<rfloor> = n div d" by (rule floor_divide_of_int_eq)
  have "(of_int n :: rat) = of_int (d * (n div d) + n mod d)" by simp
  also have "\<dots> = of_int d * of_int (n div d) + of_int (n mod d)"
    by (simp only: of_int_add of_int_mult)
  finally have "(of_int n :: rat) / of_int d - of_int (n div d) = of_int (n mod d) / of_int d"
    using d by (simp add: field_simps)
  moreover have "(of_int (n mod d) / of_int d < (1 / 2 :: rat)) = (2 * (n mod d) < d)"
  proof -
    have "(of_int (n mod d) / of_int d < (1 / 2 :: rat)) = (of_int (2 * (n mod d)) < (of_int d :: rat))"
      using d by (simp add: field_simps)
    then show ?thesis by (simp only: of_int_less_iff)
  qed
  moreover have "((1 / 2 :: rat) < of_int (n mod d) / of_int d) = (d < 2 * (n mod d))"
  proof -
    have "((1 / 2 :: rat) < of_int (n mod d) / of_int d) = ((of_int d :: rat) < of_int (2 * (n mod d)))"
      using d by (simp add: field_simps)
    then show ?thesis by (simp only: of_int_less_iff)
  qed
  ultimately show ?thesis unfolding rhe_def rhe_div_def Let_def fl by simp
qed

lemma rhe_of_int [simp]: "rhe (of_int n) = n"
  by (simp add: rhe_def)

lemma rhe_0 [simp]: "rhe 0 = 0"
  using rhe_of_int [of 0] by simp

lemma rhe_floor: "\<lfloor>x\<rfloor> \<le> rhe x" "rhe x \<le> \<lfloor>x\<rfloor> + 1"
  by (auto simp: rhe_def Let_def)

lemma rhe_mono: "x \<le> y \<Longrightarrow> rhe x \<le> rhe y"
proof -
  assume le: "x \<le> y"
  then have "\<lfloor>x\<rfloor> \<le> \<lfloor>y\<rfloor>" by (rule floor_mono)
  then consider "\<lfloor>x\<rfloor> = \<lfloor>y\<rfloor>" | "\<lfloor>x\<rfloor> + 1 \<le> \<lfloor>y\<rfloor>" by linarith
  then show ?thesis
  proof cases
    case 1
    then show ?thesis using le by (auto simp: rhe_def Let_def)
  next
    case 2
    then show ?thesis using rhe_floor [of x] rhe_floor [of y] by linarith
  qed
qed

lemma rhe_ge: "of_int n \<le> x \<Longrightarrow> n \<le> rhe x"
  using rhe_mono [of "of_int n" x] by simp

lemma rhe_le: "x \<le> of_int n \<Longrightarrow> rhe x \<le> n"
  using rhe_mono [of x "of_int n"] by simp

lemma rhe_error: "\<bar>of_int (rhe x) - x\<bar> \<le> 1 / 2"
proof -
  have "of_int \<lfloor>x\<rfloor> \<le> x" "x < of_int \<lfloor>x\<rfloor> + 1" by linarith+
  then show ?thesis by (auto simp: rhe_def Let_def abs_le_iff)
qed

section \<open>The exponent of a rational number\<close>

abbreviation pw :: "int \<Rightarrow> int \<Rightarrow> rat" where
  "pw b e \<equiv> (of_int b :: rat) powi e"

lemma pw_pos [simp]: "2 \<le> b \<Longrightarrow> 0 < pw b e"
  by (simp add: zero_less_power_int)

lemma pw_nonzero [simp]: "2 \<le> b \<Longrightarrow> of_int b \<noteq> (0 :: rat)"
  by simp

lemma pw_add: "2 \<le> b \<Longrightarrow> pw b (e + f) = pw b e * pw b f"
  by (simp add: power_int_add)

lemma pw_mono: "2 \<le> b \<Longrightarrow> e \<le> f \<Longrightarrow> pw b e \<le> pw b f"
  by (rule power_int_increasing) auto

lemma pw_less: "2 \<le> b \<Longrightarrow> e < f \<Longrightarrow> pw b e < pw b f"
  by (rule power_int_strict_increasing) auto

lemma pw_nat: "0 \<le> e \<Longrightarrow> pw b e = of_int (b ^ nat e)"
  by (simp add: power_int_nonneg_exp)

lemma pw_ipow: "0 \<le> e \<Longrightarrow> pw b e = of_int (ipow b e)"
  by (simp add: pw_nat ipow_eq)

definition is_expo :: "int \<Rightarrow> rat \<Rightarrow> int \<Rightarrow> bool" where
  "is_expo b x e \<longleftrightarrow> pw b e \<le> x \<and> x < pw b (e + 1)"

lemma is_expo_unique:
  assumes "2 \<le> b" "is_expo b x e" "is_expo b x f"
  shows "e = f"
proof (rule ccontr)
  assume "e \<noteq> f"
  then consider "e + 1 \<le> f" | "f + 1 \<le> e" by linarith
  then show False
    using assms pw_mono [of b "e + 1" f] pw_mono [of b "f + 1" e]
    by cases (auto simp: is_expo_def)
qed

text \<open>The exponent of \<open>n / d\<close>, from the digit counts of \<open>n\<close> and \<open>d\<close>.\<close>

definition expo_frac :: "int \<Rightarrow> int \<Rightarrow> int \<Rightarrow> int" where
  "expo_frac b n d =
     (let e = blen b n - blen b d
      in if (if 0 \<le> e then ipow b e * d \<le> n else d \<le> n * ipow b (- e)) then e else e - 1)"

lemma pw_le_frac:
  assumes "2 \<le> b" "0 < d"
  shows "(if 0 \<le> e then ipow b e * d \<le> n else d \<le> n * ipow b (- e))
    \<longleftrightarrow> pw b e \<le> of_int n / of_int d"
proof (cases "0 \<le> e")
  case True
  have "pw b e \<le> of_int n / of_int d \<longleftrightarrow> (of_int (ipow b e * d) :: rat) \<le> of_int n"
    using True assms by (simp add: pw_ipow field_simps)
  then show ?thesis using True by (simp only: of_int_le_iff) simp
next
  case False
  then have e: "pw b e = 1 / of_int (ipow b (- e))"
    using pw_ipow [of "- e" b] power_int_minus_divide [of "of_int b :: rat" "- e"] by simp
  have pos: "0 < (of_int (ipow b (- e)) :: rat)"
    using pw_ipow [of "- e" b] pw_pos [of b "- e"] False assms by simp
  have "pw b e \<le> of_int n / of_int d \<longleftrightarrow> (of_int d :: rat) \<le> of_int (n * ipow b (- e))"
    unfolding e using pos assms by (simp add: field_simps)
  then show ?thesis using False by (simp only: of_int_le_iff) simp
qed

lemma blen_pw:
  assumes "2 \<le> b" "0 < n"
  shows "pw b (blen b n - 1) \<le> of_int n" "of_int n < pw b (blen b n)"
proof -
  have "1 \<le> blen b n" using assms blen_nonneg [of b "n div b"] by (simp add: blen.simps [of b n])
  then show "pw b (blen b n - 1) \<le> of_int n" "of_int n < pw b (blen b n)"
    using blen_bounds [OF assms] by (simp_all only: pw_nat of_int_le_iff of_int_less_iff)
qed

lemma expo_frac:
  assumes b: "2 \<le> b" and n: "0 < n" and d: "0 < d"
  shows "is_expo b (of_int n / of_int d) (expo_frac b n d)"
proof -
  define e where "e = blen b n - blen b d"
  let ?x = "(of_int n / of_int d :: rat)"
  note B = blen_pw [OF b n] blen_pw [OF b d]
  have dp: "0 < (of_int d :: rat)" using d by simp
  have "e - 1 = (blen b n - 1) - blen b d" "e + 1 = blen b n - (blen b d - 1)"
    by (simp_all add: e_def)
  then have div: "pw b (e - 1) = pw b (blen b n - 1) / pw b (blen b d)"
    "pw b (e + 1) = pw b (blen b n) / pw b (blen b d - 1)"
    using power_int_diff [of "of_int b :: rat"] b by (simp_all only: pw_nonzero simp_thms)
  have "pw b (blen b n - 1) / pw b (blen b d) \<le> ?x"
    using B dp n by (intro frac_le) auto
  then have lo: "pw b (e - 1) \<le> ?x" by (simp only: div)
  have "?x < pw b (blen b n) / pw b (blen b d - 1)"
    using B dp b n by (intro frac_less) auto
  then have hi: "?x < pw b (e + 1)" by (simp only: div)
  show ?thesis
  proof (cases "pw b e \<le> ?x")
    case True
    then have "expo_frac b n d = e"
      using pw_le_frac [OF b d, of e n] by (simp add: expo_frac_def Let_def flip: e_def)
    with True hi show ?thesis by (simp add: is_expo_def)
  next
    case False
    then have "expo_frac b n d = e - 1"
      using pw_le_frac [OF b d, of e n] by (simp add: expo_frac_def Let_def flip: e_def)
    with False lo show ?thesis by (simp add: is_expo_def)
  qed
qed

definition expo :: "int \<Rightarrow> rat \<Rightarrow> int" where
  "expo b x = expo_frac b (fst (quotient_of x)) (snd (quotient_of x))"

lemma expo: "2 \<le> b \<Longrightarrow> 0 < x \<Longrightarrow> is_expo b x (expo b x)"
proof -
  assume b: "2 \<le> b" and x: "0 < x"
  obtain n d where nd: "quotient_of x = (n, d)" by force
  then have xq: "x = of_int n / of_int d" and d: "0 < d"
    by (auto intro: quotient_of_div quotient_of_denom_pos)
  with x have "0 < n" by (simp add: zero_less_divide_iff)
  from expo_frac [OF b this d] show ?thesis by (simp add: expo_def nd xq [symmetric])
qed

lemma expo_frac_eq:
  "2 \<le> b \<Longrightarrow> 0 < n \<Longrightarrow> 0 < d \<Longrightarrow> expo_frac b n d = expo b (of_int n / of_int d)"
  by (rule is_expo_unique [OF _ expo_frac expo]) auto


section \<open>The specification of rounding\<close>

definition qexp :: "int \<Rightarrow> int \<Rightarrow> int \<Rightarrow> rat \<Rightarrow> int" where
  "qexp b p emin x = max (expo b x) emin - (p - 1)"

definition round_prec :: "int \<Rightarrow> int \<Rightarrow> int \<Rightarrow> rat \<Rightarrow> rat" where
  "round_prec b p emin x = (if x = 0 then 0 else
     (let u = pw b (qexp b p emin \<bar>x\<bar>) in sgn x * (of_int (rhe (\<bar>x\<bar> / u)) * u)))"

text \<open>The numbers of at most \<open>p\<close> digits, of exponent no less than the least one.\<close>

definition on_grid :: "int \<Rightarrow> int \<Rightarrow> int \<Rightarrow> rat \<Rightarrow> bool" where
  "on_grid b p emin x \<longleftrightarrow>
     (\<exists>m e. x = of_int m * pw b e \<and> \<bar>m\<bar> \<le> b ^ nat p \<and> emin - (p - 1) \<le> e)"

lemma on_gridI:
  "x = of_int m * pw b e \<Longrightarrow> \<bar>m\<bar> \<le> b ^ nat p \<Longrightarrow> emin - (p - 1) \<le> e \<Longrightarrow> on_grid b p emin x"
  by (auto simp: on_grid_def)

lemma on_grid_0 [simp]: "2 \<le> b \<Longrightarrow> on_grid b p emin 0"
  by (rule on_gridI [of _ 0 b "emin - (p - 1)"]) auto

lemma on_grid_minus: "on_grid b p emin x \<Longrightarrow> on_grid b p emin (- x)"
  unfolding on_grid_def by (metis abs_minus_cancel mult_minus_left of_int_minus)

lemma on_grid_minus_iff [simp]: "on_grid b p emin (- x) = on_grid b p emin x"
  using on_grid_minus [of b p emin x] on_grid_minus [of b p emin "- x"] by auto

lemma round_prec_0 [simp]: "round_prec b p emin 0 = 0"
  by (simp add: round_prec_def)

lemma round_prec_minus: "round_prec b p emin (- x) = - round_prec b p emin x"
  by (simp add: round_prec_def Let_def sgn_minus)

lemma round_prec_pos:
  "0 < x \<Longrightarrow> round_prec b p emin x =
     of_int (rhe (x / pw b (qexp b p emin x))) * pw b (qexp b p emin x)"
  by (simp add: round_prec_def Let_def)

lemma round_prec_nonneg: "2 \<le> b \<Longrightarrow> 0 \<le> x \<Longrightarrow> 0 \<le> round_prec b p emin x"
proof (cases "x = 0")
  case False
  assume "2 \<le> b" "0 \<le> x"
  with False show ?thesis
    by (auto simp: round_prec_pos less_imp_le intro!: mult_nonneg_nonneg rhe_ge)
qed simp

text \<open>A multiple of the quantum lies on the same side of the rounded value.\<close>

lemma round_prec_ge_multiple:
  assumes "2 \<le> b" "0 < x" "g = of_int k * pw b (qexp b p emin x)" "g \<le> x"
  shows "g \<le> round_prec b p emin x"
proof -
  have u: "0 < pw b (qexp b p emin x)" using assms by simp
  then have "of_int k \<le> x / pw b (qexp b p emin x)" using assms by (simp add: field_simps)
  then have "k \<le> rhe (x / pw b (qexp b p emin x))" by (rule rhe_ge)
  then show ?thesis using assms u by (simp add: round_prec_pos)
qed

lemma round_prec_le_multiple:
  assumes "2 \<le> b" "0 < x" "g = of_int k * pw b (qexp b p emin x)" "x \<le> g"
  shows "round_prec b p emin x \<le> g"
proof -
  have u: "0 < pw b (qexp b p emin x)" using assms by simp
  then have "x / pw b (qexp b p emin x) \<le> of_int k" using assms by (simp add: field_simps)
  then have "rhe (x / pw b (qexp b p emin x)) \<le> k" by (rule rhe_le)
  then show ?thesis using assms u by (simp add: round_prec_pos)
qed

text \<open>
  A grid point is a multiple of the quantum at \<open>x\<close>, or no greater than the power of the
  base below \<open>x\<close>, which is one.
\<close>

lemma on_grid_cases:
  assumes b: "2 \<le> b" and p: "1 \<le> p" and x: "0 < x" and g: "on_grid b p emin g"
  obtains (multiple) k where "g = of_int k * pw b (qexp b p emin x)"
  | (small) k where "g \<le> pw b (expo b x)" "pw b (expo b x) = of_int k * pw b (qexp b p emin x)"
proof -
  let ?q = "qexp b p emin x"
  obtain m e where me: "g = of_int m * pw b e" "\<bar>m\<bar> \<le> b ^ nat p" "emin - (p - 1) \<le> e"
    using g by (auto simp: on_grid_def)
  show thesis
  proof (cases "?q \<le> e")
    case True
    have "pw b e = pw b (e - ?q) * pw b ?q" using pw_add [OF b, of "e - ?q" ?q] by simp
    also have "pw b (e - ?q) = of_int (b ^ nat (e - ?q))" using True by (simp add: pw_nat)
    finally have "g = of_int (m * b ^ nat (e - ?q)) * pw b ?q" by (simp add: me)
    then show thesis by (rule multiple)
  next
    case False
    then have q: "?q = expo b x - (p - 1)" using me(3) by (auto simp: qexp_def max_def split: if_splits)
    have "pw b (expo b x) = pw b (p - 1) * pw b ?q"
      using pw_add [OF b, of "p - 1" ?q] by (simp add: q)
    then have pE: "pw b (expo b x) = of_int (b ^ nat (p - 1)) * pw b ?q"
      using p by (simp add: pw_nat)
    have "of_int m \<le> (of_int (b ^ nat p) :: rat)" using me(2) by (simp only: of_int_le_iff)
    then have "g \<le> of_int (b ^ nat p) * pw b e" using b by (simp add: me mult_right_mono)
    also have "\<dots> = pw b (p + e)" using p by (simp add: pw_add [OF b] pw_nat)
    also have "\<dots> \<le> pw b (expo b x)" using False q by (intro pw_mono b) linarith
    finally show thesis using pE by (rule small)
  qed
qed

lemma round_prec_pos_ge:
  assumes "2 \<le> b" "1 \<le> p" "0 < x" "on_grid b p emin g" "g \<le> x"
  shows "g \<le> round_prec b p emin x"
  using assms(1-4)
proof (cases rule: on_grid_cases)
  case (multiple k)
  with assms show ?thesis by (intro round_prec_ge_multiple)
next
  case (small k)
  have "pw b (expo b x) \<le> x" using expo [of b x] assms by (simp add: is_expo_def)
  with small(2) have "pw b (expo b x) \<le> round_prec b p emin x"
    using assms by (intro round_prec_ge_multiple)
  with small(1) show ?thesis by simp
qed

lemma round_prec_pos_le:
  assumes "2 \<le> b" "1 \<le> p" "0 < x" "on_grid b p emin g" "x \<le> g"
  shows "round_prec b p emin x \<le> g"
  using assms(1-4)
proof (cases rule: on_grid_cases)
  case (multiple k)
  with assms show ?thesis by (intro round_prec_le_multiple)
next
  case (small k)
  have "pw b (expo b x) \<le> x" using expo [of b x] assms by (simp add: is_expo_def)
  with small assms have "g = of_int k * pw b (qexp b p emin x)" by simp
  with assms show ?thesis by (intro round_prec_le_multiple)
qed

text \<open>Rounding never crosses a representable number, whatever the sign.\<close>

lemma round_prec_ge:
  assumes "2 \<le> b" "1 \<le> p" "on_grid b p emin g" "g \<le> x"
  shows "g \<le> round_prec b p emin x"
proof -
  consider "0 < x" | "x = 0" | "x < 0" by linarith
  then show ?thesis
  proof cases
    case 1
    with assms show ?thesis by (intro round_prec_pos_ge)
  next
    case 2
    with assms show ?thesis by simp
  next
    case 3
    then have "round_prec b p emin (- x) \<le> - g"
      using assms by (intro round_prec_pos_le) auto
    then show ?thesis by (simp add: round_prec_minus)
  qed
qed

lemma round_prec_le:
  assumes "2 \<le> b" "1 \<le> p" "on_grid b p emin g" "x \<le> g"
  shows "round_prec b p emin x \<le> g"
  using round_prec_ge [of b p emin "- g" "- x"] assms by (simp add: round_prec_minus)

lemma round_prec_id:
  "2 \<le> b \<Longrightarrow> 1 \<le> p \<Longrightarrow> on_grid b p emin x \<Longrightarrow> round_prec b p emin x = x"
  by (intro antisym round_prec_le round_prec_ge) auto

lemma on_grid_round_prec:
  assumes b: "2 \<le> b" and p: "1 \<le> p"
  shows "on_grid b p emin (round_prec b p emin x)"
proof -
  have pos: "on_grid b p emin (round_prec b p emin y)" if y: "0 < y" for y
  proof -
    let ?q = "qexp b p emin y"
    have "y < pw b (expo b y + 1)" using expo [OF b y] by (simp add: is_expo_def)
    also have "\<dots> \<le> pw b (p + ?q)" by (intro pw_mono b) (simp add: qexp_def)
    also have "\<dots> = of_int (b ^ nat p) * pw b ?q" using p by (simp add: pw_add [OF b] pw_nat)
    finally have "y / pw b ?q \<le> of_int (b ^ nat p)" using b by (simp add: field_simps)
    then have "rhe (y / pw b ?q) \<le> b ^ nat p" by (rule rhe_le)
    moreover have "0 \<le> rhe (y / pw b ?q)" using y b by (intro rhe_ge) (simp add: less_imp_le)
    ultimately show ?thesis
      using y by (intro on_gridI [of _ "rhe (y / pw b ?q)" b ?q]) (auto simp: round_prec_pos qexp_def)
  qed
  consider "0 < x" | "x = 0" | "x < 0" by linarith
  then show ?thesis
    using pos [of x] pos [of "- x"] b by cases (auto simp: round_prec_minus)
qed

lemma round_prec_mono:
  assumes b: "2 \<le> b" and p: "1 \<le> p" and le: "x \<le> y"
  shows "round_prec b p emin x \<le> round_prec b p emin y"
proof -
  have pos: "round_prec b p emin x \<le> round_prec b p emin y" if x: "0 < x" and le: "x \<le> y" for x y
  proof (cases "qexp b p emin x = qexp b p emin y")
    case True
    have "rhe (x / pw b (qexp b p emin y)) \<le> rhe (y / pw b (qexp b p emin y))"
      using le b by (intro rhe_mono divide_right_mono) auto
    then show ?thesis using x le b True by (simp add: round_prec_pos mult_right_mono)
  next
    case False
    have ex: "is_expo b x (expo b x)" "is_expo b y (expo b y)" using b x le by (auto intro: expo)
    have "expo b x \<le> expo b y"
    proof (rule ccontr)
      assume "\<not> ?thesis"
      then have "pw b (expo b y + 1) \<le> pw b (expo b x)" using b by (intro pw_mono) auto
      with ex le show False by (auto simp: is_expo_def)
    qed
    with False have E: "expo b x + 1 \<le> expo b y" "emin \<le> expo b y" by (auto simp: qexp_def)
    let ?g = "pw b (expo b y)"
    have g: "on_grid b p emin ?g"
      using E p b by (intro on_gridI [of _ 1 b "expo b y"]) auto
    have "pw b (expo b x + 1) \<le> ?g" using E b by (intro pw_mono) auto
    then have "x \<le> ?g" "?g \<le> y" using ex by (auto simp: is_expo_def)
    then show ?thesis
      using round_prec_le [OF b p g, of x] round_prec_ge [OF b p g, of y] by simp
  qed
  consider "0 < x" | "x \<le> 0" "0 \<le> y" | "y < 0" by linarith
  then show ?thesis
  proof cases
    case 1
    then show ?thesis using pos le by blast
  next
    case 2
    then show ?thesis
      using round_prec_le [OF b p on_grid_0 [OF b], of x emin]
        round_prec_ge [OF b p on_grid_0 [OF b], of y emin] by simp
  next
    case 3
    then show ?thesis using pos [of "- y" "- x"] le by (simp add: round_prec_minus)
  qed
qed


text \<open>The error of one rounding: half a unit in the last place.\<close>

lemma round_prec_error:
  assumes b: "2 \<le> b"
  shows "\<bar>round_prec b p emin x - x\<bar> \<le> \<bar>x\<bar> * pw b (1 - p) / 2 + pw b (emin - (p - 1)) / 2"
proof -
  have pos: "\<bar>round_prec b p emin y - y\<bar> \<le> y * pw b (1 - p) / 2 + pw b (emin - (p - 1)) / 2"
    if y: "0 < y" for y
  proof -
    let ?u = "pw b (qexp b p emin y)"
    have u: "0 < ?u" using b by simp
    have "\<bar>of_int (rhe (y / ?u)) - y / ?u\<bar> * ?u \<le> 1 / 2 * ?u"
      using u by (intro mult_right_mono rhe_error) simp
    also have "\<bar>of_int (rhe (y / ?u)) - y / ?u\<bar> * ?u = \<bar>(of_int (rhe (y / ?u)) - y / ?u) * ?u\<bar>"
      using u by (simp add: abs_mult)
    also have "(of_int (rhe (y / ?u)) - y / ?u) * ?u = round_prec b p emin y - y"
      using u y b by (simp add: round_prec_pos left_diff_distrib)
    finally have err: "\<bar>round_prec b p emin y - y\<bar> \<le> ?u / 2" by simp
    have "pw b (expo b y) \<le> y" using expo [OF b y] by (simp add: is_expo_def)
    then have "pw b (expo b y) * pw b (1 - p) \<le> y * pw b (1 - p)"
      using pw_pos [OF b, of "1 - p"] by (intro mult_right_mono) auto
    moreover have "pw b (expo b y) * pw b (1 - p) = pw b (expo b y - (p - 1))"
      using pw_add [OF b, of "expo b y" "1 - p"] by (simp add: algebra_simps)
    moreover have "0 \<le> y * pw b (1 - p)" "0 \<le> pw b (emin - (p - 1))"
      using y pw_pos [OF b] by (auto intro!: mult_nonneg_nonneg less_imp_le)
    ultimately have "?u \<le> y * pw b (1 - p) + pw b (emin - (p - 1))"
      unfolding qexp_def max_def by auto
    with err show ?thesis by linarith
  qed
  consider "0 < x" | "x = 0" | "x < 0" by linarith
  then show ?thesis
  proof cases
    case 3
    then show ?thesis using pos [of "- x"] by (simp add: round_prec_minus abs_minus_commute)
  qed (use pos [of x] pw_pos [OF b, of "emin - (p - 1)"] in \<open>auto simp: less_imp_le\<close>)
qed

end
