(* ===== verification/Scaled.thy ===== *)
theory Scaled
  imports Rounding
begin

text \<open>
  Canonical base-\<open>b\<close> numbers \<open>(m, e)\<close> and the integer-only implementation of rounding.
  Everything here evaluates with \<open>code_simp\<close>; each operation has a lemma that gives its
  rational value.
\<close>

type_synonym scaled = "int \<times> int"

definition bval :: "int \<Rightarrow> scaled \<Rightarrow> rat" where
  "bval b x = of_int (fst x) * pw b (snd x)"

definition canon :: "int \<Rightarrow> scaled \<Rightarrow> bool" where
  "canon b x \<longleftrightarrow> (if fst x = 0 then snd x = 0 else fst x mod b \<noteq> 0)"

function bnorm :: "int \<Rightarrow> int \<Rightarrow> int \<Rightarrow> scaled" where
  "bnorm b m e = (if m = 0 then (0, 0) else if b < 2 then (m, e)
     else if m mod b = 0 then bnorm b (m div b) (e + 1) else (m, e))"
  by pat_completeness auto
termination
proof (relation "measure (\<lambda>(b, m, e). nat \<bar>m\<bar>)", goal_cases)
  case (2 b m e)
  then obtain k where k: "m = b * k" by (auto simp: mod_eq_0_iff_dvd)
  with 2 have "1 \<le> \<bar>k\<bar>" "2 \<le> b" by auto
  then have "2 * \<bar>k\<bar> \<le> b * \<bar>k\<bar>" by (intro mult_right_mono) auto
  then have "\<bar>k\<bar> < \<bar>b * k\<bar>" using \<open>1 \<le> \<bar>k\<bar>\<close> \<open>2 \<le> b\<close> by (simp add: abs_mult)
  then show ?case using k 2 by simp
qed auto

declare bnorm.simps [simp del]

lemma bval_bnorm: "2 \<le> b \<Longrightarrow> bval b (bnorm b m e) = of_int m * pw b e"
proof (induction b m e rule: bnorm.induct)
  case (1 b m e)
  show ?case
  proof (cases "m \<noteq> 0 \<and> m mod b = 0")
    case True
    then have m: "m = b * (m div b)" by auto
    have "bval b (bnorm b m e) = of_int (m div b) * pw b (e + 1)"
      using 1 True by (simp add: bnorm.simps [of b m e])
    also have "\<dots> = of_int (b * (m div b)) * pw b e"
      using 1(2) by (simp add: pw_add)
    finally show ?thesis using m by simp
  next
    case False
    with 1(2) show ?thesis by (auto simp: bnorm.simps [of b m e] bval_def)
  qed
qed

lemma canon_bnorm: "2 \<le> b \<Longrightarrow> canon b (bnorm b m e)"
proof (induction b m e rule: bnorm.induct)
  case (1 b m e)
  then show ?case by (auto simp: bnorm.simps [of b m e] canon_def)
qed

lemma bval_0 [simp]: "bval b (0, e) = 0"
  by (simp add: bval_def)

lemma bval_eq_0_iff: "2 \<le> b \<Longrightarrow> bval b x = 0 \<longleftrightarrow> fst x = 0"
  by (simp add: bval_def)

lemma bval_pos_iff: "2 \<le> b \<Longrightarrow> 0 < bval b x \<longleftrightarrow> 0 < fst x"
  using zero_less_mult_pos2 [of "of_int (fst x)" "pw b (snd x)"]
    mult_pos_pos [of "of_int (fst x)" "pw b (snd x)"]
  unfolding bval_def by (auto simp del: power_int_nonneg_exp)

lemma canon_inj:
  assumes b: "2 \<le> b" and "canon b x" "canon b y" "bval b x = bval b y"
  shows "x = y"
proof -
  obtain m e m' e' where xy: "x = (m, e)" "y = (m', e')" by (cases x, cases y)
  have aux: "f \<le> e" if eq: "of_int m * pw b e = of_int m' * pw b f" and nz: "m \<noteq> 0"
    and c: "m mod b \<noteq> 0" for m m' e f :: int
  proof (rule ccontr)
    assume "\<not> f \<le> e"
    then have "pw b f = pw b (f - e) * pw b e" using pw_add [OF b, of "f - e" e] by simp
    then have "of_int m * pw b e = of_int (m' * b ^ nat (f - e)) * pw b e"
      using eq \<open>\<not> f \<le> e\<close> by (simp add: pw_nat)
    then have "m = m' * b ^ nat (f - e)"
      using b by (simp only: mult_cancel_right of_int_eq_iff) auto
    moreover have "b dvd b ^ nat (f - e)" using \<open>\<not> f \<le> e\<close> by (intro dvd_power) auto
    ultimately have "b dvd m" by simp
    with c show False by (simp add: mod_eq_0_iff_dvd)
  qed
  show ?thesis
  proof (cases "m = 0 \<or> m' = 0")
    case True
    then have "m = 0" "m' = 0" using assms(4) b by (auto simp: xy bval_def)
    then show ?thesis using assms(2,3) by (auto simp: xy canon_def)
  next
    case False
    then have "e' \<le> e" "e \<le> e'"
      using assms(2-4) aux [of m e m' e'] aux [of m' e' m e] by (auto simp: xy canon_def bval_def)
    then show ?thesis using assms(4) b by (auto simp: xy bval_def)
  qed
qed

section \<open>Comparison\<close>

definition ble :: "int \<Rightarrow> scaled \<Rightarrow> scaled \<Rightarrow> bool" where
  "ble b x y = (if snd y \<le> snd x then fst x * ipow b (snd x - snd y) \<le> fst y
     else fst x \<le> fst y * ipow b (snd y - snd x))"

lemma ble: "2 \<le> b \<Longrightarrow> ble b x y \<longleftrightarrow> bval b x \<le> bval b y"
proof -
  assume b: "2 \<le> b"
  obtain m e m' e' where xy: "x = (m, e)" "y = (m', e')" by (cases x, cases y)
  show ?thesis
  proof (cases "e' \<le> e")
    case True
    have "pw b e = of_int (ipow b (e - e')) * pw b e'"
      using pw_add [OF b, of "e - e'" e'] True by (simp add: pw_ipow)
    then have "bval b x \<le> bval b y \<longleftrightarrow> of_int (m * ipow b (e - e')) * pw b e' \<le> of_int m' * pw b e'"
      by (simp add: xy bval_def mult.assoc)
    also have "\<dots> \<longleftrightarrow> m * ipow b (e - e') \<le> m'"
      using b by (simp only: mult_le_cancel_right_pos pw_pos of_int_le_iff)
    finally show ?thesis using True by (simp add: ble_def xy)
  next
    case False
    have "pw b e' = of_int (ipow b (e' - e)) * pw b e"
      using pw_add [OF b, of "e' - e" e] False by (simp add: pw_ipow)
    then have "bval b x \<le> bval b y \<longleftrightarrow> of_int m * pw b e \<le> of_int (m' * ipow b (e' - e)) * pw b e"
      by (simp add: xy bval_def mult.assoc)
    also have "\<dots> \<longleftrightarrow> m \<le> m' * ipow b (e' - e)"
      using b by (simp only: mult_le_cancel_right_pos pw_pos of_int_le_iff)
    finally show ?thesis using False by (simp add: ble_def xy)
  qed
qed

section \<open>Rounding a quotient, and exact sums and products\<close>

definition round_frac :: "int \<Rightarrow> int \<Rightarrow> int \<Rightarrow> int \<Rightarrow> int \<Rightarrow> scaled" where
  "round_frac b p emin n d = (if n = 0 then (0, 0) else
     (let a = \<bar>n\<bar>; q = max (expo_frac b a d) emin - (p - 1);
          k = (if 0 \<le> q then rhe_div a (d * ipow b q) else rhe_div (a * ipow b (- q)) d)
      in bnorm b (sgn n * k) q))"

lemma bval_round_frac:
  assumes b: "2 \<le> b" and d: "0 < d"
  shows "bval b (round_frac b p emin n d) = round_prec b p emin (of_int n / of_int d)"
proof (cases "n = 0")
  case False
  let ?x = "(of_int n / of_int d :: rat)"
  define q where "q = max (expo_frac b \<bar>n\<bar> d) emin - (p - 1)"
  have ax: "\<bar>?x\<bar> = of_int \<bar>n\<bar> / of_int d" using d by simp
  have qe: "qexp b p emin \<bar>?x\<bar> = q"
    unfolding qexp_def q_def ax using False d b by (simp add: expo_frac_eq)
  define k where "k = (if 0 \<le> q then rhe_div \<bar>n\<bar> (d * ipow b q) else rhe_div (\<bar>n\<bar> * ipow b (- q)) d)"
  have "(if 0 \<le> q then rhe_div \<bar>n\<bar> (d * ipow b q) else rhe_div (\<bar>n\<bar> * ipow b (- q)) d)
    = rhe (\<bar>?x\<bar> / pw b q)"
  proof (cases "0 \<le> q")
    case True
    have "0 < (of_int (ipow b q) :: rat)" using pw_ipow [OF True] pw_pos [OF b, of q] by simp
    then have "0 < d * ipow b q" using d by simp
    then show ?thesis using True d by (simp add: rhe_div ax pw_ipow field_simps abs_of_pos)
  next
    case neg: False
    then have "pw b q = 1 / of_int (ipow b (- q))"
      using pw_ipow [of "- q" b] power_int_minus_divide [of "of_int b :: rat" "- q"] by simp
    then show ?thesis using d neg by (simp add: rhe_div ax field_simps)
  qed
  then have k: "k = rhe (\<bar>?x\<bar> / pw b q)" by (simp only: k_def)
  have sg: "sgn ?x = of_int (sgn n)" using d False by (auto simp: sgn_if zero_less_divide_iff)
  have "round_frac b p emin n d = bnorm b (sgn n * k) q"
    using False by (simp only: round_frac_def Let_def k_def q_def if_False)
  then have "bval b (round_frac b p emin n d) = sgn ?x * (of_int k * pw b q)"
    unfolding sg using b by (simp add: bval_bnorm)
  also have "\<dots> = round_prec b p emin ?x"
    using False d unfolding round_prec_def Let_def qe k by simp
  finally show ?thesis .
qed (simp add: round_frac_def)

lemma canon_round_frac: "2 \<le> b \<Longrightarrow> canon b (round_frac b p emin n d)"
  by (auto simp: round_frac_def Let_def canon_bnorm) (simp add: canon_def)

text \<open>\<open>n / d\<close> scaled by \<open>b ^ s\<close>, then rounded.\<close>

definition round_scaled :: "int \<Rightarrow> int \<Rightarrow> int \<Rightarrow> int \<Rightarrow> int \<Rightarrow> int \<Rightarrow> scaled" where
  "round_scaled b p emin n d s =
     (if 0 \<le> s then round_frac b p emin (n * ipow b s) d else round_frac b p emin n (d * ipow b (- s)))"

lemma ipow_pos: "2 \<le> b \<Longrightarrow> 0 < ipow b k"
  by (simp add: ipow_eq)

lemma bval_round_scaled:
  assumes b: "2 \<le> b" and d: "0 < d"
  shows "bval b (round_scaled b p emin n d s) = round_prec b p emin (of_int n / of_int d * pw b s)"
proof (cases "0 \<le> s")
  case True
  then show ?thesis using assms by (simp add: round_scaled_def bval_round_frac pw_ipow)
next
  case False
  then have "pw b s = 1 / of_int (ipow b (- s))"
    using pw_ipow [of "- s" b] power_int_minus_divide [of "of_int b :: rat" "- s"] by simp
  then show ?thesis
    using assms False ipow_pos [OF b, of "- s"] by (simp add: round_scaled_def bval_round_frac)
qed

lemma canon_round_scaled: "2 \<le> b \<Longrightarrow> canon b (round_scaled b p emin n d s)"
  by (simp add: round_scaled_def canon_round_frac)

definition bround :: "int \<Rightarrow> int \<Rightarrow> int \<Rightarrow> scaled \<Rightarrow> scaled" where
  "bround b p emin x = round_scaled b p emin (fst x) 1 (snd x)"

definition badd :: "int \<Rightarrow> scaled \<Rightarrow> scaled \<Rightarrow> scaled" where
  "badd b x y = (if snd y \<le> snd x then (fst x * ipow b (snd x - snd y) + fst y, snd y)
     else (fst x + fst y * ipow b (snd y - snd x), snd x))"

definition bmul :: "scaled \<Rightarrow> scaled \<Rightarrow> scaled" where
  "bmul x y = (fst x * fst y, snd x + snd y)"

definition bneg :: "scaled \<Rightarrow> scaled" where
  "bneg x = (- fst x, snd x)"

definition bdiv_round :: "int \<Rightarrow> int \<Rightarrow> int \<Rightarrow> scaled \<Rightarrow> scaled \<Rightarrow> scaled" where
  "bdiv_round b p emin x y = round_scaled b p emin (fst x * sgn (fst y)) \<bar>fst y\<bar> (snd x - snd y)"

lemma bval_bround: "2 \<le> b \<Longrightarrow> bval b (bround b p emin x) = round_prec b p emin (bval b x)"
  unfolding bround_def by (simp add: bval_round_scaled) (simp add: bval_def)

lemma bval_badd: "2 \<le> b \<Longrightarrow> bval b (badd b x y) = bval b x + bval b y"
proof -
  assume b: "2 \<le> b"
  have "pw b e = of_int (ipow b (e - f)) * pw b f" if "f \<le> e" for e f
    using pw_add [OF b, of "e - f" f] that by (simp add: pw_ipow)
  from this [of "snd x" "snd y"] this [of "snd y" "snd x"] show ?thesis
    by (auto simp: badd_def bval_def distrib_right mult.assoc)
qed

lemma bval_bmul: "2 \<le> b \<Longrightarrow> bval b (bmul x y) = bval b x * bval b y"
  by (simp add: bmul_def bval_def pw_add)

lemma bval_bneg [simp]: "bval b (bneg x) = - bval b x"
  by (simp add: bneg_def bval_def)

lemma bval_bdiv_round:
  assumes b: "2 \<le> b" and y: "fst y \<noteq> 0"
  shows "bval b (bdiv_round b p emin x y) = round_prec b p emin (bval b x / bval b y)"
proof -
  have "of_int (fst x * sgn (fst y)) / of_int \<bar>fst y\<bar> = (of_int (fst x) / of_int (fst y) :: rat)"
    using y by (cases "0 < fst y") auto
  then show ?thesis
    unfolding bdiv_round_def using b y
    by (simp add: bval_round_scaled) (simp add: bval_def power_int_diff mult.commute)
qed

lemma canon_bneg: "canon b x \<Longrightarrow> canon b (bneg x)"
  by (auto simp: canon_def bneg_def mod_eq_0_iff_dvd)

lemma canon_bround: "2 \<le> b \<Longrightarrow> canon b (bround b p emin x)"
  by (simp add: bround_def canon_round_scaled)

lemma canon_bdiv_round: "2 \<le> b \<Longrightarrow> canon b (bdiv_round b p emin x y)"
  by (simp add: bdiv_round_def canon_round_scaled)

lemmas scaled_val = bval_bround bval_badd bval_bmul bval_bneg bval_bdiv_round

end
