(* ===== verification/PyFloat.thy ===== *)
theory PyFloat
  imports Scaled
begin

text \<open>
  Python's \<open>float\<close>: IEEE 754 binary64 with round to nearest, ties to even. A finite
  float is a canonical base-2 number; the two zeros are identified, since no modelled
  code observes the sign of a zero (division by either raises \<open>ZeroDivisionError\<close>).

  Arithmetic is exact arithmetic followed by one rounding, with overflow to an infinity;
  comparisons with NaN are false. \<open>rat_of\<close> is the rational value of a finite float,
  through which the order and the arithmetic are reasoned about.
\<close>

datatype pyfloat = Fin scaled | PInf | NInf | NaN

abbreviation rp :: "rat \<Rightarrow> rat" where
  "rp \<equiv> round_prec 2 53 (- 1022)"

definition mk64 :: "scaled \<Rightarrow> pyfloat" where
  "mk64 r = (if ble 2 (1, 1024) r then PInf else if ble 2 r (- 1, 1024) then NInf else Fin r)"

text \<open>The float nearest to the exact quotient \<open>n / d\<close>: a decimal literal of the source.\<close>

definition flit :: "int \<Rightarrow> int \<Rightarrow> pyfloat" where
  "flit n d = mk64 (round_frac 2 53 (- 1022) n d)"

fun isfinite :: "pyfloat \<Rightarrow> bool" where
  "isfinite (Fin _) = True"
| "isfinite _ = False"

fun rat_of :: "pyfloat \<Rightarrow> rat" where
  "rat_of (Fin x) = bval 2 x"
| "rat_of _ = 0"

fun fneg :: "pyfloat \<Rightarrow> pyfloat" where
  "fneg (Fin x) = Fin (bneg x)"
| "fneg PInf = NInf"
| "fneg NInf = PInf"
| "fneg NaN = NaN"

fun fadd :: "pyfloat \<Rightarrow> pyfloat \<Rightarrow> pyfloat" where
  "fadd (Fin x) (Fin y) = mk64 (bround 2 53 (- 1022) (badd 2 x y))"
| "fadd NaN _ = NaN"
| "fadd _ NaN = NaN"
| "fadd PInf NInf = NaN"
| "fadd NInf PInf = NaN"
| "fadd PInf _ = PInf"
| "fadd NInf _ = NInf"
| "fadd _ PInf = PInf"
| "fadd _ NInf = NInf"

text \<open>The sign of a float that is not NaN, as an integer.\<close>

fun fsgn :: "pyfloat \<Rightarrow> int" where
  "fsgn (Fin x) = sgn (fst x)"
| "fsgn PInf = 1"
| "fsgn NInf = - 1"
| "fsgn NaN = 0"

definition inf_of_sign :: "int \<Rightarrow> pyfloat" where
  "inf_of_sign s = (if 0 < s then PInf else if s < 0 then NInf else NaN)"

definition fmul :: "pyfloat \<Rightarrow> pyfloat \<Rightarrow> pyfloat" where
  "fmul x y = (case (x, y) of
     (Fin a, Fin b) \<Rightarrow> mk64 (bround 2 53 (- 1022) (bmul a b))
   | (NaN, _) \<Rightarrow> NaN
   | (_, NaN) \<Rightarrow> NaN
   | _ \<Rightarrow> inf_of_sign (fsgn x * fsgn y))"

text \<open>Division by a divisor that is not zero.\<close>

definition fdiv :: "pyfloat \<Rightarrow> pyfloat \<Rightarrow> pyfloat" where
  "fdiv x y = (case (x, y) of
     (Fin a, Fin b) \<Rightarrow> mk64 (bdiv_round 2 53 (- 1022) a b)
   | (NaN, _) \<Rightarrow> NaN
   | (_, NaN) \<Rightarrow> NaN
   | (Fin _, _) \<Rightarrow> Fin (0, 0)
   | (_, Fin b) \<Rightarrow> inf_of_sign (fsgn x * (if fst b < 0 then - 1 else 1))
   | _ \<Rightarrow> NaN)"

instantiation pyfloat :: "{zero, one, plus, minus, uminus, times, ord}"
begin

definition zero_pyfloat :: pyfloat where
  "0 = Fin (0, 0)"

definition one_pyfloat :: pyfloat where
  "1 = Fin (1, 0)"

definition plus_pyfloat :: "pyfloat \<Rightarrow> pyfloat \<Rightarrow> pyfloat" where
  "x + y = fadd x y"

definition uminus_pyfloat :: "pyfloat \<Rightarrow> pyfloat" where
  "- x = fneg x"

definition minus_pyfloat :: "pyfloat \<Rightarrow> pyfloat \<Rightarrow> pyfloat" where
  "x - y = fadd x (fneg y)"

definition times_pyfloat :: "pyfloat \<Rightarrow> pyfloat \<Rightarrow> pyfloat" where
  "x * y = fmul x y"

fun less_eq_pyfloat :: "pyfloat \<Rightarrow> pyfloat \<Rightarrow> bool" where
  "less_eq_pyfloat (Fin x) (Fin y) = ble 2 x y"
| "less_eq_pyfloat NaN _ = False"
| "less_eq_pyfloat _ NaN = False"
| "less_eq_pyfloat NInf _ = True"
| "less_eq_pyfloat _ PInf = True"
| "less_eq_pyfloat _ _ = False"

definition less_pyfloat :: "pyfloat \<Rightarrow> pyfloat \<Rightarrow> bool" where
  "x < y \<longleftrightarrow> x \<le> y \<and> \<not> y \<le> (x :: pyfloat)"

instance ..

end

text \<open>Python's \<open>==\<close> on floats, \<open>max\<close>, \<open>min\<close>, \<open>abs\<close> and \<open>/\<close>.\<close>

definition feq :: "pyfloat \<Rightarrow> pyfloat \<Rightarrow> bool" where
  "feq x y \<longleftrightarrow> x \<le> y \<and> y \<le> x"

definition pmax :: "pyfloat \<Rightarrow> pyfloat \<Rightarrow> pyfloat" where
  "pmax a b = (if a < b then b else a)"

definition pmin :: "pyfloat \<Rightarrow> pyfloat \<Rightarrow> pyfloat" where
  "pmin a b = (if b < a then b else a)"

definition py_div :: "pyfloat \<Rightarrow> pyfloat \<Rightarrow> pyfloat res" where
  "py_div x y = (if feq y 0 then Inl ZeroDivisionError else Inr (fdiv x y))"

text \<open>\<open>float(n)\<close> of an int, which raises when the result is not finite.\<close>

definition float_of_int :: "int \<Rightarrow> pyfloat res" where
  "float_of_int n = (let x = flit n 1 in if isfinite x then Inr x else Inl OverflowError)"

section \<open>Values\<close>

lemma two_le_two [simp]: "(2::int) \<le> 2" by simp

lemma ble2 [simp]: "ble 2 x y \<longleftrightarrow> bval 2 x \<le> bval 2 y"
  by (rule ble) simp

lemma isfinite_iff: "isfinite x \<longleftrightarrow> (\<exists>s. x = Fin s)"
  by (cases x) auto

lemma rat_of_0 [simp]: "rat_of 0 = 0"
  by (simp add: zero_pyfloat_def)

lemma rat_of_1 [simp]: "rat_of 1 = 1"
  by (simp add: one_pyfloat_def bval_def)

lemma isfinite_0 [simp]: "isfinite 0"
  by (simp add: zero_pyfloat_def)

lemma isfinite_1 [simp]: "isfinite 1"
  by (simp add: one_pyfloat_def)

lemma not_NaN_finite: "isfinite x \<Longrightarrow> x \<noteq> NaN"
  by auto

lemma le_iff_rat: "isfinite x \<Longrightarrow> isfinite y \<Longrightarrow> x \<le> y \<longleftrightarrow> rat_of x \<le> rat_of y"
  by (auto simp: isfinite_iff)

lemma less_iff_rat: "isfinite x \<Longrightarrow> isfinite y \<Longrightarrow> x < y \<longleftrightarrow> rat_of x < rat_of y"
  by (auto simp: isfinite_iff less_pyfloat_def)

lemma feq_iff_rat: "isfinite x \<Longrightarrow> isfinite y \<Longrightarrow> feq x y \<longleftrightarrow> rat_of x = rat_of y"
  by (auto simp: feq_def le_iff_rat)

lemmas fl_ord = le_iff_rat less_iff_rat feq_iff_rat

lemma NaN_le [simp]: "\<not> NaN \<le> x" "\<not> x \<le> NaN"
  by (cases x; simp)+

lemma NaN_less [simp]: "\<not> NaN < x" "\<not> x < NaN"
  by (auto simp: less_pyfloat_def)

lemma le_refl_iff: "x \<le> x \<longleftrightarrow> x \<noteq> (NaN :: pyfloat)"
  by (cases x) auto

lemma less_imp_le_float: "x < y \<Longrightarrow> x \<le> (y :: pyfloat)"
  by (simp add: less_pyfloat_def)

lemma not_less_float: "x \<noteq> NaN \<Longrightarrow> y \<noteq> NaN \<Longrightarrow> \<not> x < y \<longleftrightarrow> y \<le> (x :: pyfloat)"
  by (cases x; cases y) (auto simp: less_pyfloat_def)

lemma le_trans_float: "x \<le> y \<Longrightarrow> y \<le> z \<Longrightarrow> x \<le> (z :: pyfloat)"
  by (cases x; cases y; cases z) auto

lemma less_le_trans_float: "x < y \<Longrightarrow> y \<le> z \<Longrightarrow> x < (z :: pyfloat)"
  by (auto simp: less_pyfloat_def dest: le_trans_float)

lemma le_less_trans_float: "x \<le> y \<Longrightarrow> y < z \<Longrightarrow> x < (z :: pyfloat)"
  by (auto simp: less_pyfloat_def dest: le_trans_float)

lemma less_irrefl_float [simp]: "\<not> x < (x :: pyfloat)"
  by (simp add: less_pyfloat_def)

lemma less_not_le_float: "x < y \<Longrightarrow> \<not> y \<le> (x :: pyfloat)"
  by (simp add: less_pyfloat_def)

lemma le_finite_between: "isfinite a \<Longrightarrow> isfinite b \<Longrightarrow> a \<le> x \<Longrightarrow> x \<le> b \<Longrightarrow> isfinite x"
  by (cases x; cases a; cases b) auto


section \<open>The arithmetic is correctly rounded\<close>

definition fmax64 :: rat where
  "fmax64 = bval 2 (1, 1024)"

lemma fmax64_pos [simp]: "0 < fmax64" "\<not> fmax64 \<le> 0"
proof -
  show "0 < fmax64" unfolding fmax64_def bval_def fst_conv snd_conv by (intro mult_pos_pos pw_pos) auto
  then show "\<not> fmax64 \<le> 0" by simp
qed

text \<open>\<open>x\<close> is the float that the exact value \<open>q\<close> rounds to.\<close>

definition rounds_to :: "rat \<Rightarrow> pyfloat \<Rightarrow> bool" where
  "rounds_to q x \<longleftrightarrow>
     (if fmax64 \<le> rp q then x = PInf else if rp q \<le> - fmax64 then x = NInf
      else isfinite x \<and> rat_of x = rp q)"

lemma bval_overflow: "bval 2 (1, 1024) = fmax64" "bval 2 (- 1, 1024) = - fmax64"
  by (simp_all add: fmax64_def bval_def del: power_int_numeral)

lemma rounds_to_mk64: "bval 2 r = rp q \<Longrightarrow> rounds_to q (mk64 r)"
  by (simp add: rounds_to_def mk64_def bval_overflow)

lemma rt_add: "isfinite x \<Longrightarrow> isfinite y \<Longrightarrow> rounds_to (rat_of x + rat_of y) (x + y)"
  by (auto simp: isfinite_iff plus_pyfloat_def scaled_val intro!: rounds_to_mk64)

lemma isfinite_fneg [simp]: "isfinite (fneg x) = isfinite x"
  by (cases x) auto

lemma rat_of_fneg [simp]: "rat_of (fneg x) = - rat_of x"
  by (cases x) auto

lemma rt_sub: "isfinite x \<Longrightarrow> isfinite y \<Longrightarrow> rounds_to (rat_of x - rat_of y) (x - y)"
  using rt_add [of x "fneg y"] by (simp add: plus_pyfloat_def minus_pyfloat_def)

lemma rt_mul: "isfinite x \<Longrightarrow> isfinite y \<Longrightarrow> rounds_to (rat_of x * rat_of y) (x * y)"
  by (auto simp: isfinite_iff times_pyfloat_def fmul_def scaled_val intro!: rounds_to_mk64)

lemma rt_div: "isfinite x \<Longrightarrow> isfinite y \<Longrightarrow> rat_of y \<noteq> 0 \<Longrightarrow> rounds_to (rat_of x / rat_of y) (fdiv x y)"
  by (auto simp: isfinite_iff fdiv_def scaled_val bval_eq_0_iff intro!: rounds_to_mk64)

lemma rt_lit: "0 < d \<Longrightarrow> rounds_to (of_int n / of_int d) (flit n d)"
  by (auto simp: flit_def bval_round_frac intro!: rounds_to_mk64)

lemma rt_finite: "rounds_to q x \<Longrightarrow> isfinite x \<Longrightarrow> rat_of x = rp q"
  by (auto simp: rounds_to_def split: if_splits)

lemma rt_not_NaN: "rounds_to q x \<Longrightarrow> x \<noteq> NaN"
  by (auto simp: rounds_to_def split: if_splits)

lemma rp_mono: "q \<le> r \<Longrightarrow> rp q \<le> rp r"
  by (rule round_prec_mono) auto

lemma rt_mono:
  assumes "rounds_to q x" "rounds_to r y" "q \<le> r"
  shows "x \<le> y"
proof -
  have le: "rp q \<le> rp r" by (rule rp_mono) fact
  have "x \<noteq> NaN" "y \<noteq> NaN" using assms by (auto dest: rt_not_NaN)
  moreover have "x \<noteq> NInf \<Longrightarrow> - fmax64 < rp q" "x = PInf \<Longrightarrow> fmax64 \<le> rp q"
    "y = NInf \<Longrightarrow> rp r \<le> - fmax64"
    using assms fmax64_pos(1) by (auto simp: rounds_to_def not_le simp del: fmax64_pos split: if_splits)
  moreover have "y \<noteq> PInf \<Longrightarrow> rp r < fmax64"
    using assms by (auto simp: rounds_to_def split: if_splits)
  moreover have "isfinite x \<Longrightarrow> rat_of x = rp q" "isfinite y \<Longrightarrow> rat_of y = rp r"
    using assms by (auto dest: rt_finite)
  ultimately show ?thesis using le by (cases x; cases y) auto
qed

lemma rt_0 [simp]: "rounds_to 0 0"
  by (simp add: rounds_to_def)

lemma rt_nonneg: "rounds_to q x \<Longrightarrow> 0 \<le> q \<Longrightarrow> 0 \<le> x"
  using rt_mono [of 0 0 q x] by simp

lemma rt_nonpos: "rounds_to q x \<Longrightarrow> q \<le> 0 \<Longrightarrow> x \<le> 0"
  using rt_mono [of q x 0 0] by simp

section \<open>Well-formed floats\<close>

text \<open>
  A well-formed float is one that the hardware can hold: canonical, of at most 53 bits
  and in range. Every operation returns one, and on well-formed floats equality of value
  is equality.
\<close>

fun wf_float :: "pyfloat \<Rightarrow> bool" where
  "wf_float (Fin x) = (canon 2 x \<and> on_grid 2 53 (- 1022) (bval 2 x) \<and> \<bar>bval 2 x\<bar> < fmax64)"
| "wf_float _ = True"

lemma wf_mk64: "canon 2 r \<Longrightarrow> bval 2 r = rp q \<Longrightarrow> wf_float (mk64 r)"
  using on_grid_round_prec [of 2 53 "- 1022" q]
  by (auto simp: mk64_def bval_overflow abs_less_iff)

lemma wf_0 [simp]: "wf_float 0"
  by (simp add: zero_pyfloat_def canon_def)

lemma wf_lit [simp]: "0 < d \<Longrightarrow> wf_float (flit n d)"
  by (auto simp: flit_def canon_round_frac bval_round_frac intro!: wf_mk64)

lemma wf_1 [simp]: "wf_float 1"
proof -
  have eq: "flit 1 1 = 1" by code_simp
  show ?thesis using wf_lit [of 1 1] by (simp only: eq)
qed

lemma wf_fadd: "wf_float (fadd x y)"
  by (cases x; cases y) (auto simp: canon_bround scaled_val intro!: wf_mk64)

lemma wf_plus [simp]: "wf_float (x + y)" and wf_minus [simp]: "wf_float (x - y)"
  by (simp_all add: plus_pyfloat_def minus_pyfloat_def wf_fadd)

lemma wf_inf_of_sign [simp]: "wf_float (inf_of_sign s)"
  by (simp add: inf_of_sign_def)

lemma wf_times [simp]: "wf_float (x * y)"
  by (auto simp: times_pyfloat_def fmul_def canon_bround scaled_val split: pyfloat.split intro!: wf_mk64)

lemma wf_fdiv: "\<not> feq y 0 \<Longrightarrow> wf_float (fdiv x y)"
proof (cases "isfinite x \<and> isfinite y")
  case True
  assume nz: "\<not> feq y 0"
  from True obtain a b where "x = Fin a" "y = Fin b" by (auto simp: isfinite_iff)
  moreover from this nz have "fst b \<noteq> 0" by (simp add: feq_iff_rat bval_eq_0_iff)
  ultimately have ab: "x = Fin a" "y = Fin b" "fst b \<noteq> 0" by auto
  have "wf_float (mk64 (bdiv_round 2 53 (- 1022) a b))"
    by (rule wf_mk64 [OF canon_bdiv_round bval_bdiv_round]) (use ab in auto)
  then show ?thesis by (simp add: fdiv_def ab)
next
  case False
  then show ?thesis
    using wf_0 unfolding zero_pyfloat_def by (auto simp: fdiv_def split: pyfloat.split)
qed

lemma py_div_wf: "py_div x y = Inr z \<Longrightarrow> wf_float z"
  by (auto simp: py_div_def wf_fdiv split: if_splits)

lemma wf_eq: "wf_float x \<Longrightarrow> wf_float y \<Longrightarrow> isfinite x \<Longrightarrow> isfinite y \<Longrightarrow> rat_of x = rat_of y \<Longrightarrow> x = y"
  unfolding isfinite_iff using canon_inj [OF two_le_two] by fastforce

lemma rp_wf: "wf_float x \<Longrightarrow> isfinite x \<Longrightarrow> rp (rat_of x) = rat_of x"
  by (auto simp: isfinite_iff intro: round_prec_id)

lemma rt_self: "wf_float x \<Longrightarrow> isfinite x \<Longrightarrow> rounds_to (rat_of x) x"
  by (auto simp: isfinite_iff rounds_to_def round_prec_id abs_less_iff)

text \<open>An exact value between two floats rounds to a float between them.\<close>

lemma rt_le: "rounds_to q x \<Longrightarrow> wf_float b \<Longrightarrow> isfinite b \<Longrightarrow> q \<le> rat_of b \<Longrightarrow> x \<le> b"
  using rt_mono [OF _ rt_self] by blast

lemma rt_ge: "rounds_to q x \<Longrightarrow> wf_float a \<Longrightarrow> isfinite a \<Longrightarrow> rat_of a \<le> q \<Longrightarrow> a \<le> x"
  using rt_mono [OF rt_self] by blast

lemma py_div_Inr: "py_div x y = Inr z \<longleftrightarrow> \<not> feq y 0 \<and> z = fdiv x y"
  by (auto simp: py_div_def)

lemma pmax_ge: "a \<noteq> NaN \<Longrightarrow> b \<noteq> NaN \<Longrightarrow> a \<le> pmax a b" "a \<noteq> NaN \<Longrightarrow> b \<noteq> NaN \<Longrightarrow> b \<le> pmax a b"
  by (auto simp: pmax_def less_imp_le_float le_refl_iff not_less_float)

lemma pmax_ge1: "a \<noteq> NaN \<Longrightarrow> a \<le> pmax a b"
  by (auto simp: pmax_def less_imp_le_float le_refl_iff)

lemma pmin_le1: "a \<noteq> NaN \<Longrightarrow> pmin a b \<le> a"
  by (auto simp: pmin_def less_imp_le_float le_refl_iff)

lemma pmin_le: "a \<noteq> NaN \<Longrightarrow> b \<noteq> NaN \<Longrightarrow> pmin a b \<le> a" "a \<noteq> NaN \<Longrightarrow> b \<noteq> NaN \<Longrightarrow> pmin a b \<le> b"
  by (auto simp: pmin_def less_imp_le_float le_refl_iff not_less_float)

lemma pmax_cases: "pmax a b = a \<or> pmax a b = b"
  by (simp add: pmax_def)

lemma pmin_cases: "pmin a b = a \<or> pmin a b = b"
  by (simp add: pmin_def)


section \<open>Bounds used by the components\<close>

lemma isfinite_le: "isfinite b \<Longrightarrow> 0 \<le> x \<Longrightarrow> x \<le> b \<Longrightarrow> isfinite x"
  by (rule le_finite_between [of 0 b]) auto

lemma rat_nonneg: "0 \<le> x \<Longrightarrow> 0 \<le> rat_of x"
  by (cases x) (auto simp: zero_pyfloat_def)

lemma rat_pos: "0 < x \<Longrightarrow> isfinite x \<Longrightarrow> 0 < rat_of x"
  by (simp add: less_iff_rat)

lemma fadd_1_bounds:
  assumes "isfinite s" "0 \<le> s" "s \<le> 1"
  shows "1 \<le> 1 + s" "isfinite (1 + s)"
proof -
  have rt: "rounds_to (1 + rat_of s) (1 + s)" using rt_add [of 1 s] assms by simp
  show ge: "1 \<le> 1 + s" using rt_ge [OF rt wf_1] rat_nonneg [OF assms(2)] by simp
  have two: "rat_of (flit 2 1) = 2" "isfinite (flit 2 1)" by (code_simp, simp add: flit_def) code_simp
  show "isfinite (1 + s)"
    using rt_le [OF rt wf_lit two(2)] two assms ge
    by (auto simp: le_iff_rat intro: le_finite_between [of 1 "flit 2 1"])
qed

lemma fmul_ge_self:
  assumes "wf_float a" "0 < a" "isfinite b" "1 \<le> b"
  shows "a \<le> a * b"
proof (cases "isfinite a")
  case True
  have "rat_of a * 1 \<le> rat_of a * rat_of b"
    using assms True by (intro mult_left_mono) (auto simp: le_iff_rat less_iff_rat)
  then show ?thesis using rt_ge [OF rt_mul [OF True assms(3)] assms(1) True] by simp
next
  case False
  then have a: "a = PInf" using assms(2) by (cases a) (auto simp: less_pyfloat_def zero_pyfloat_def)
  have "0 < rat_of b" using assms(3,4) by (simp add: le_iff_rat)
  then obtain s where "b = Fin s" "0 < fst s"
    using assms(3) by (auto simp: isfinite_iff bval_pos_iff)
  then show ?thesis by (simp add: a times_pyfloat_def fmul_def inf_of_sign_def)
qed

lemma fmul_nonneg: "isfinite x \<Longrightarrow> isfinite y \<Longrightarrow> 0 \<le> x \<Longrightarrow> 0 \<le> y \<Longrightarrow> 0 \<le> x * (y :: pyfloat)"
  by (rule rt_nonneg [OF rt_mul]) (auto simp: rat_nonneg)

lemma fdiv_nonneg: "isfinite x \<Longrightarrow> isfinite y \<Longrightarrow> 0 \<le> x \<Longrightarrow> 0 < y \<Longrightarrow> 0 \<le> fdiv x y"
  by (rule rt_nonneg [OF rt_div]) (auto simp: rat_nonneg rat_pos less_imp_le dest: rat_pos)

lemma pos_not_zero: "0 < x \<Longrightarrow> \<not> feq x 0"
  by (auto simp: feq_def less_pyfloat_def)

lemma py_div_pos: "0 < y \<Longrightarrow> py_div x y = Inr (fdiv x y)"
  by (simp add: py_div_def pos_not_zero)


text \<open>The relative and the absolute error of one rounding.\<close>

abbreviation ulp64 :: rat where
  "ulp64 \<equiv> 1 / 2 ^ 53"

definition tiny64 :: rat where
  "tiny64 = pw 2 (- 1074) / 2"

lemma tiny64_nonneg: "0 \<le> tiny64"
proof -
  have "0 < pw 2 (- 1074)" by (rule pw_pos) simp
  then show ?thesis unfolding tiny64_def by linarith
qed

lemma rp_error: "\<bar>rp x - x\<bar> \<le> \<bar>x\<bar> * ulp64 + tiny64"
proof -
  have "\<bar>rp x - x\<bar> \<le> \<bar>x\<bar> * pw 2 (1 - 53) / 2 + pw 2 (- 1022 - (53 - 1)) / 2"
    by (rule round_prec_error) simp
  moreover have "pw 2 (1 - 53) / 2 = ulp64" by (simp add: power_int_def power_one_over)
  ultimately show ?thesis by (simp add: tiny64_def)
qed

text \<open>A quantity no greater than the float \<open>a / b\<close> spends no more than \<open>a\<close>, up to that error.\<close>

lemma quotient_budget:
  assumes "isfinite a" "0 \<le> a" "isfinite b" "0 < b" "isfinite q" "0 \<le> q" "q \<le> fdiv a b"
    and "isfinite (fdiv a b)"
  shows "rat_of q * rat_of b \<le> rat_of a * (1 + ulp64) + rat_of b * tiny64"
proof -
  have a: "0 \<le> rat_of a" and b: "0 < rat_of b"
    using assms by (auto simp: rat_nonneg rat_pos)
  let ?x = "rat_of a / rat_of b"
  have "rat_of q \<le> rat_of (fdiv a b)" using assms by (simp add: le_iff_rat)
  also have "\<dots> = rp ?x" using rt_finite [OF rt_div] assms b by simp
  also have "\<dots> \<le> ?x + (?x * ulp64 + tiny64)"
    using rp_error [of ?x] a b by (simp add: abs_le_iff)
  finally have "rat_of q * rat_of b \<le> (?x + (?x * ulp64 + tiny64)) * rat_of b"
    using b by (intro mult_right_mono) auto
  also have "\<dots> = rat_of a * (1 + ulp64) + rat_of b * tiny64"
    using b by (simp add: field_simps)
  finally show ?thesis .
qed

lemma fmul_mono_left:
  "isfinite x \<Longrightarrow> isfinite y \<Longrightarrow> isfinite z \<Longrightarrow> x \<le> y \<Longrightarrow> 0 \<le> z \<Longrightarrow> x * z \<le> y * (z :: pyfloat)"
  by (rule rt_mono [OF rt_mul rt_mul]) (auto simp: le_iff_rat rat_nonneg intro: mult_right_mono)

lemma fmul_mono_right:
  "isfinite x \<Longrightarrow> isfinite y \<Longrightarrow> isfinite z \<Longrightarrow> x \<le> y \<Longrightarrow> 0 \<le> z \<Longrightarrow> z * x \<le> z * (y :: pyfloat)"
  by (rule rt_mono [OF rt_mul rt_mul]) (auto simp: le_iff_rat rat_nonneg intro: mult_left_mono)

lemma fdiv_mono: "isfinite x \<Longrightarrow> isfinite y \<Longrightarrow> isfinite z \<Longrightarrow> x \<le> y \<Longrightarrow> 0 < z \<Longrightarrow> fdiv x z \<le> fdiv y z"
proof (rule rt_mono [OF rt_div rt_div])
  assume "isfinite z" "0 < z"
  then show "rat_of z \<noteq> 0" "rat_of z \<noteq> 0" by (auto dest: rat_pos)
  assume "isfinite x" "isfinite y" "x \<le> y"
  with \<open>isfinite z\<close> \<open>0 < z\<close> show "rat_of x / rat_of z \<le> rat_of y / rat_of z"
    by (auto simp: le_iff_rat dest: rat_pos intro!: divide_right_mono)
qed auto

lemma pmin_mono:
  "a \<le> b \<Longrightarrow> c \<le> d \<Longrightarrow> isfinite a \<Longrightarrow> isfinite b \<Longrightarrow> isfinite c \<Longrightarrow> isfinite d \<Longrightarrow> pmin a c \<le> pmin b d"
  by (auto simp: pmin_def fl_ord)

lemma pmin_finite [simp]: "isfinite a \<Longrightarrow> isfinite b \<Longrightarrow> isfinite (pmin a b)"
  by (simp add: pmin_def)

lemma pmin_nonneg: "0 \<le> a \<Longrightarrow> 0 \<le> b \<Longrightarrow> 0 \<le> pmin a b"
  by (simp add: pmin_def)


lemma isfinite_fadd: "isfinite (fadd x y) \<Longrightarrow> isfinite x \<and> isfinite y"
  by (cases x; cases y) auto

lemma isfinite_plus: "isfinite (x + y) \<Longrightarrow> isfinite x \<and> isfinite y"
  and isfinite_minus: "isfinite (x - y) \<Longrightarrow> isfinite x \<and> isfinite y"
  unfolding plus_pyfloat_def minus_pyfloat_def by (auto dest: isfinite_fadd)

lemma isfinite_fdiv: "isfinite (fdiv x y) \<Longrightarrow> isfinite x"
  by (cases x; cases y) (auto simp: fdiv_def inf_of_sign_def split: if_splits)

lemma fdiv_PInf [simp]: "isfinite x \<Longrightarrow> fdiv x PInf = 0"
  by (cases x) (auto simp: fdiv_def zero_pyfloat_def)

end
