(* ===== verification/PyValue.thy ===== *)
theory PyValue
  imports PyFloat
begin

text \<open>
  Python objects where the code inspects their type: the cells of an indicator row and
  the unchecked arguments of the sizing and protection functions. \<open>VObj\<close> is any object
  that is no number and that \<open>float()\<close> rejects. The strings of the program are ASCII
  identifiers and are \<open>string\<close>s.
\<close>

datatype pyval =
    VNone
  | VBool bool
  | VNpBool bool
  | VInt int
  | VFloat pyfloat
  | VObj

text \<open>\<open>float(value)\<close>.\<close>

fun py_float :: "pyval \<Rightarrow> pyfloat res" where
  "py_float VNone = Inl TypeError"
| "py_float (VBool b) = Inr (if b then 1 else 0)"
| "py_float (VNpBool b) = Inr (if b then 1 else 0)"
| "py_float (VInt n) = float_of_int n"
| "py_float (VFloat x) = Inr x"
| "py_float VObj = Inl TypeError"

fun is_bool :: "pyval \<Rightarrow> bool" where
  "is_bool (VBool _) = True"
| "is_bool _ = False"

text \<open>\<open>isinstance(value, numbers.Real)\<close>: ints, floats and, as ints, bools.\<close>

fun is_real :: "pyval \<Rightarrow> bool" where
  "is_real (VBool _) = True"
| "is_real (VInt _) = True"
| "is_real (VFloat _) = True"
| "is_real _ = False"

type_synonym row = "string \<Rightarrow> pyval option"

definition row_get :: "row \<Rightarrow> string \<Rightarrow> pyval" where
  "row_get r k = (case r k of None \<Rightarrow> VNone | Some v \<Rightarrow> v)"

text \<open>
  A row is well formed when its floats are floats of the machine. It is what a frame of
  float64 columns gives.
\<close>

fun wf_val :: "pyval \<Rightarrow> bool" where
  "wf_val (VFloat x) = wf_float x"
| "wf_val _ = True"

lemma float_of_int_finite: "float_of_int n = Inr x \<Longrightarrow> isfinite x"
  by (auto simp: float_of_int_def Let_def split: if_splits)

lemma py_float_wf: "wf_val v \<Longrightarrow> py_float v = Inr x \<Longrightarrow> wf_float x"
proof (cases v)
  case (VInt n)
  assume "py_float v = Inr x"
  with VInt show ?thesis by (auto simp: float_of_int_def Let_def split: if_splits)
qed (auto split: if_splits)

section \<open>Decimal notation of integers, for the names of indicator columns\<close>

definition digit_char :: "nat \<Rightarrow> char" where
  "digit_char d = char_of (48 + d)"

fun show_nat :: "nat \<Rightarrow> string" where
  "show_nat n = (if n < 10 then [digit_char n] else show_nat (n div 10) @ [digit_char (n mod 10)])"

declare show_nat.simps [simp del]

definition show_int :: "int \<Rightarrow> string" where
  "show_int k = (if k < 0 then CHR ''-'' # show_nat (nat (- k)) else show_nat (nat k))"

end
