(* ===== verification/Config.thy ===== *)
theory Config
  imports PyFloat
begin

text \<open>
  The configuration of the program, \<open>src/autobit/config.py\<close>: one record per frozen
  dataclass, with the defaults of the source.
\<close>

record strategy_config =
  ema_period :: int
  entry_period :: int
  exit_period :: int
  atr_period :: int
  initial_atr_mult :: pyfloat
  profit_activation_r :: pyfloat
  trailing_atr_mult :: pyfloat
  stagnant_bars :: int
  stagnant_min_r :: pyfloat
  max_holding_bars :: int
  warmup_bars :: int

definition StrategyConfig :: strategy_config where
  "StrategyConfig = \<lparr> ema_period = 200, entry_period = 50, exit_period = 20, atr_period = 14,
     initial_atr_mult = flit 25 10, profit_activation_r = flit 2 1,
     trailing_atr_mult = flit 3 1, stagnant_bars = 60, stagnant_min_r = flit 1 1,
     max_holding_bars = 1095, warmup_bars = 600 \<rparr>"

record cost_config =
  fee_rate :: pyfloat
  slippage_rate :: pyfloat

definition CostConfig :: cost_config where
  "CostConfig = \<lparr> fee_rate = flit 5 10000, slippage_rate = flit 5 10000 \<rparr>"

record risk_config =
  base_risk_rate :: pyfloat
  max_exposure :: pyfloat
  hard_drawdown :: pyfloat
  daily_loss_limit :: pyfloat
  weekly_reduce_limit :: pyfloat
  weekly_halt_limit :: pyfloat

definition RiskConfig :: risk_config where
  "RiskConfig = \<lparr> base_risk_rate = flit 2 100, max_exposure = flit 70 100,
     hard_drawdown = flit 15 100, daily_loss_limit = flit 4 100,
     weekly_reduce_limit = flit 5 100, weekly_halt_limit = flit 7 100 \<rparr>"

end
