(* ===== verification/Sizer.thy ===== *)
theory Sizer
  imports PyValue Config
begin

text \<open>
  Position sizing, \<open>src/autobit/risk/position_sizer.py\<close>: the quantity of a long entry as
  the least of four caps (risk budget, volatility-scaled risk budget, exposure, cash).
  The arguments are unchecked Python objects; a division by zero would raise, so the model
  is a result, and \<open>calculate_size_returns\<close> proves that none is ever raised.
\<close>

record size_decision =
  sd_quantity :: pyfloat
  sd_binding_constraint :: string
  sd_estimated_loss :: pyfloat

definition finite_value :: "pyval \<Rightarrow> pyfloat option" where
  "finite_value v = (if is_bool v then None else
     (case py_float v of Inl _ \<Rightarrow> None | Inr x \<Rightarrow> if isfinite x then Some x else None))"

fun finite_values :: "pyval list \<Rightarrow> pyfloat list option" where
  "finite_values [] = Some []"
| "finite_values (v # vs) = (case finite_value v of None \<Rightarrow> None
     | Some x \<Rightarrow> (case finite_values vs of None \<Rightarrow> None | Some xs \<Rightarrow> Some (x # xs)))"

definition invalid_size :: size_decision where
  "invalid_size = \<lparr> sd_quantity = 0, sd_binding_constraint = ''invalid_input'', sd_estimated_loss = 0 \<rparr>"

record size_input =
  si_equity :: pyval
  si_cash :: pyval
  si_entry :: pyval
  si_stop :: pyval
  si_current_atr_pct :: pyval
  si_baseline_atr_pct :: pyval
  si_risk_rate :: pyval
  si_exposure_cap :: pyval
  si_costs :: cost_config

text \<open>The eight numbers after validation, and the two cost rates.\<close>

record size_values =
  v_equity :: pyfloat
  v_cash :: pyfloat
  v_entry :: pyfloat
  v_stop :: pyfloat
  v_current :: pyfloat
  v_baseline :: pyfloat
  v_risk :: pyfloat
  v_cap :: pyfloat
  v_fee :: pyfloat
  v_slip :: pyfloat

definition size_values_of :: "size_input \<Rightarrow> size_values option" where
  "size_values_of i = (case finite_values [si_equity i, si_cash i, si_entry i, si_stop i,
       si_current_atr_pct i, si_baseline_atr_pct i, si_risk_rate i, si_exposure_cap i] of
     Some [eq, ca, en, st, cu, ba, ri, ex] \<Rightarrow>
       if (eq < 0 \<or> ca < 0 \<or> ri < 0 \<or> ex < 0) \<or> (en \<le> 0 \<or> st \<le> 0 \<or> cu \<le> 0 \<or> ba \<le> 0) \<or> en \<le> st
       then None
       else (case finite_values [VFloat (fee_rate (si_costs i)), VFloat (slippage_rate (si_costs i))] of
          Some [fe, sl] \<Rightarrow>
            if 0 \<le> fe \<and> fe < 1 \<and> 0 \<le> sl \<and> sl < 1
            then Some \<lparr> v_equity = eq, v_cash = ca, v_entry = en, v_stop = st, v_current = cu,
                        v_baseline = ba, v_risk = ri, v_cap = ex, v_fee = fe, v_slip = sl \<rparr>
            else None
        | _ \<Rightarrow> None)
   | _ \<Rightarrow> None)"

definition expected_buy_fill :: "size_values \<Rightarrow> pyfloat" where
  "expected_buy_fill v = v_entry v * (1 + v_slip v)"

definition expected_stop_fill :: "size_values \<Rightarrow> pyfloat" where
  "expected_stop_fill v = v_stop v * (1 - v_slip v)"

definition effective_loss :: "size_values \<Rightarrow> pyfloat" where
  "effective_loss v = expected_buy_fill v - expected_stop_fill v
     + expected_buy_fill v * v_fee v + expected_stop_fill v * v_fee v"

text \<open>The four caps, in the order of the source.\<close>

definition size_candidates :: "size_values \<Rightarrow> (string \<times> pyfloat) list res" where
  "size_candidates v =
     ebind (py_div (v_equity v * v_risk v) (effective_loss v)) (\<lambda>fixed.
     ebind (py_div (v_baseline v) (v_current v)) (\<lambda>ratio.
     ebind (py_div (v_equity v * v_cap v) (expected_buy_fill v)) (\<lambda>exposure.
     ebind (py_div (v_cash v) (expected_buy_fill v * (1 + v_fee v))) (\<lambda>cash_limit.
       Inr [(''fixed'', fixed), (''volatility'', fixed * pmin 1 ratio),
            (''exposure'', exposure), (''cash'', cash_limit)]))))"

text \<open>\<open>min(candidates, key=...)\<close>: the first of the least.\<close>

fun min_by_snd :: "string \<times> pyfloat \<Rightarrow> (string \<times> pyfloat) list \<Rightarrow> string \<times> pyfloat" where
  "min_by_snd best [] = best"
| "min_by_snd best (c # cs) = min_by_snd (if snd c < snd best then c else best) cs"

definition choose_size :: "size_values \<Rightarrow> (string \<times> pyfloat) list \<Rightarrow> size_decision" where
  "choose_size v cs =
     (if list_ex (\<lambda>c. \<not> isfinite (snd c) \<or> snd c < 0) cs \<or> cs = [] then invalid_size
      else (let (name, quantity) = min_by_snd (hd cs) (tl cs);
                loss = quantity * effective_loss v
            in if \<not> isfinite loss then invalid_size
               else if feq quantity 0
               then \<lparr> sd_quantity = 0, sd_binding_constraint = name, sd_estimated_loss = 0 \<rparr>
               else \<lparr> sd_quantity = quantity, sd_binding_constraint = name, sd_estimated_loss = loss \<rparr>))"

definition calculate_size :: "size_input \<Rightarrow> size_decision res" where
  "calculate_size i = (case size_values_of i of
     None \<Rightarrow> Inr invalid_size
   | Some v \<Rightarrow>
       if \<not> isfinite (effective_loss v) \<or> effective_loss v \<le> 0 then Inr invalid_size
       else ebind (size_candidates v) (\<lambda>cs. Inr (choose_size v cs)))"


section \<open>Validation\<close>

definition wf_size_input :: "size_input \<Rightarrow> bool" where
  "wf_size_input i \<longleftrightarrow> list_all wf_val [si_equity i, si_cash i, si_entry i, si_stop i,
     si_current_atr_pct i, si_baseline_atr_pct i, si_risk_rate i, si_exposure_cap i]"

text \<open>What validation guarantees of the ten numbers.\<close>

definition valid_values :: "size_values \<Rightarrow> bool" where
  "valid_values v \<longleftrightarrow>
     isfinite (v_equity v) \<and> isfinite (v_cash v) \<and> isfinite (v_entry v) \<and> isfinite (v_stop v)
   \<and> isfinite (v_current v) \<and> isfinite (v_baseline v) \<and> isfinite (v_risk v) \<and> isfinite (v_cap v)
   \<and> isfinite (v_fee v) \<and> isfinite (v_slip v)
   \<and> 0 \<le> v_equity v \<and> 0 \<le> v_cash v \<and> 0 \<le> v_risk v \<and> 0 \<le> v_cap v
   \<and> 0 < v_entry v \<and> 0 < v_stop v \<and> 0 < v_current v \<and> 0 < v_baseline v
   \<and> v_stop v < v_entry v \<and> 0 \<le> v_fee v \<and> v_fee v < 1 \<and> 0 \<le> v_slip v \<and> v_slip v < 1"

lemma finite_value_finite: "finite_value v = Some x \<Longrightarrow> isfinite x"
  by (auto simp: finite_value_def split: if_splits sum.splits)

lemma finite_value_wf: "finite_value v = Some x \<Longrightarrow> wf_val v \<Longrightarrow> wf_float x"
  by (auto simp: finite_value_def intro: py_float_wf split: if_splits sum.splits)

lemma finite_values_Cons:
  "finite_values (v # vs) = Some ys \<longleftrightarrow>
     (\<exists>x xs. finite_value v = Some x \<and> finite_values vs = Some xs \<and> ys = x # xs)"
  by (auto split: option.splits)

lemma finite_values_Nil: "finite_values [] = Some ys \<longleftrightarrow> ys = []"
  by auto

lemma finite_not_less: "isfinite x \<Longrightarrow> isfinite y \<Longrightarrow> \<not> x < y \<longleftrightarrow> y \<le> (x :: pyfloat)"
  by (rule not_less_float) auto

lemma finite_not_le: "isfinite x \<Longrightarrow> isfinite y \<Longrightarrow> \<not> x \<le> y \<longleftrightarrow> y < (x :: pyfloat)"
  by (auto simp: fl_ord)

lemma size_values_of_Some:
  "size_values_of i = Some v \<longleftrightarrow>
    finite_value (si_equity i) = Some (v_equity v) \<and> finite_value (si_cash i) = Some (v_cash v)
  \<and> finite_value (si_entry i) = Some (v_entry v) \<and> finite_value (si_stop i) = Some (v_stop v)
  \<and> finite_value (si_current_atr_pct i) = Some (v_current v)
  \<and> finite_value (si_baseline_atr_pct i) = Some (v_baseline v)
  \<and> finite_value (si_risk_rate i) = Some (v_risk v) \<and> finite_value (si_exposure_cap i) = Some (v_cap v)
  \<and> fee_rate (si_costs i) = v_fee v \<and> slippage_rate (si_costs i) = v_slip v \<and> valid_values v"
  (is "?L \<longleftrightarrow> ?R")
proof
  assume ?L
  then show ?R
    unfolding size_values_of_def
    by (auto simp: finite_values_Cons finite_values_Nil valid_values_def finite_not_less finite_not_le
        finite_value_finite split: option.splits list.splits if_splits)
       (auto simp: finite_value_def split: if_splits)
next
  assume R: ?R
  then have "finite_values [si_equity i, si_cash i, si_entry i, si_stop i,
       si_current_atr_pct i, si_baseline_atr_pct i, si_risk_rate i, si_exposure_cap i] =
     Some [v_equity v, v_cash v, v_entry v, v_stop v, v_current v, v_baseline v, v_risk v, v_cap v]"
    by (simp add: finite_values_Cons finite_values_Nil)
  moreover have "finite_values [VFloat (fee_rate (si_costs i)), VFloat (slippage_rate (si_costs i))] =
     Some [v_fee v, v_slip v]"
    using R by (simp add: finite_values_Cons finite_values_Nil finite_value_def valid_values_def)
  ultimately show ?L
    using R unfolding size_values_of_def
    by (auto simp: valid_values_def finite_not_less [symmetric] finite_not_le [symmetric] less_imp_le_float
        dest: less_not_le_float)
qed


section \<open>The four caps\<close>

lemma expected_buy_fill_pos:
  assumes "valid_values v" "wf_float (v_entry v)"
  shows "v_entry v \<le> expected_buy_fill v" "0 < expected_buy_fill v"
    "expected_buy_fill v \<le> expected_buy_fill v * (1 + v_fee v)"
proof -
  note V = assms(1) [unfolded valid_values_def]
  have s: "isfinite (1 + v_slip v)" "1 \<le> 1 + v_slip v"
    using fadd_1_bounds [of "v_slip v"] V by (auto simp: less_imp_le_float)
  have f: "isfinite (1 + v_fee v)" "1 \<le> 1 + v_fee v"
    using fadd_1_bounds [of "v_fee v"] V by (auto simp: less_imp_le_float)
  show "v_entry v \<le> expected_buy_fill v"
    unfolding expected_buy_fill_def using fmul_ge_self [OF assms(2)] V s by blast
  then show "0 < expected_buy_fill v" using V less_le_trans_float by blast
  then show "expected_buy_fill v \<le> expected_buy_fill v * (1 + v_fee v)"
    unfolding expected_buy_fill_def using f by (intro fmul_ge_self) auto
qed

definition fixed_cap :: "size_values \<Rightarrow> pyfloat" where
  "fixed_cap v = fdiv (v_equity v * v_risk v) (effective_loss v)"

definition volatility_cap :: "size_values \<Rightarrow> pyfloat" where
  "volatility_cap v = fixed_cap v * pmin 1 (fdiv (v_baseline v) (v_current v))"

definition exposure_cap_of :: "size_values \<Rightarrow> pyfloat" where
  "exposure_cap_of v = fdiv (v_equity v * v_cap v) (expected_buy_fill v)"

definition cash_cap :: "size_values \<Rightarrow> pyfloat" where
  "cash_cap v = fdiv (v_cash v) (expected_buy_fill v * (1 + v_fee v))"

lemma size_candidates_eq:
  assumes "valid_values v" "wf_float (v_entry v)" "0 < effective_loss v"
  shows "size_candidates v = Inr [(''fixed'', fixed_cap v), (''volatility'', volatility_cap v),
     (''exposure'', exposure_cap_of v), (''cash'', cash_cap v)]"
proof -
  note B = expected_buy_fill_pos [OF assms(1,2)]
  have "0 < expected_buy_fill v * (1 + v_fee v)" using B less_le_trans_float by blast
  moreover have "0 < v_current v" using assms(1) by (simp add: valid_values_def)
  ultimately show ?thesis
    using B assms(3)
    by (simp add: size_candidates_def py_div_pos fixed_cap_def volatility_cap_def exposure_cap_of_def
        cash_cap_def)
qed

lemma min_by_snd:
  assumes "list_all (\<lambda>c. isfinite (snd c)) (best # cs)"
  shows "min_by_snd best cs \<in> set (best # cs) \<and> (\<forall>c \<in> set (best # cs). snd (min_by_snd best cs) \<le> snd c)"
  using assms
proof (induction cs arbitrary: best)
  case Nil
  then show ?case by (cases "snd best") auto
next
  case (Cons c cs)
  define best' where "best' = (if snd c < snd best then c else best)"
  have IH: "min_by_snd best' cs \<in> set (best' # cs)"
    "\<forall>x \<in> set (best' # cs). snd (min_by_snd best' cs) \<le> snd x"
    using Cons.IH [of best'] Cons.prems by (auto simp: best'_def)
  have "snd best' \<le> snd c \<and> snd best' \<le> snd best"
    using Cons.prems by (auto simp: best'_def finite_not_less less_imp_le_float le_refl_iff)
  then show ?case using IH by (auto simp: best'_def [symmetric] dest: le_trans_float)
       (auto simp: best'_def split: if_splits)
qed

text \<open>The shape of every result that is not the invalid one.\<close>

lemma choose_size_cases:
  assumes "choose_size v cs = d"
  obtains (invalid) "d = invalid_size"
  | (sized) name q where "list_all (\<lambda>c. isfinite (snd c) \<and> 0 \<le> snd c) cs"
      "(name, q) \<in> set cs" "\<And>c. c \<in> set cs \<Longrightarrow> q \<le> snd c" "isfinite (q * effective_loss v)"
      "isfinite q" "0 \<le> q"
      "sd_binding_constraint d = name"
      "sd_quantity d = q \<and> sd_estimated_loss d = q * effective_loss v
       \<or> feq q 0 \<and> sd_quantity d = 0 \<and> sd_estimated_loss d = 0"
proof (cases "d = invalid_size")
  case False
  obtain name q where m: "min_by_snd (hd cs) (tl cs) = (name, q)" by force
  have ok: "cs \<noteq> []" "\<not> list_ex (\<lambda>c. \<not> isfinite (snd c) \<or> snd c < 0) cs" "isfinite (q * effective_loss v)"
    using False assms by (auto simp: choose_size_def m Let_def split: if_splits)
  then have all: "list_all (\<lambda>c. isfinite (snd c) \<and> 0 \<le> snd c) cs"
    by (auto simp: list_all_iff list_ex_iff finite_not_less)
  then have "list_all (\<lambda>c. isfinite (snd c)) (hd cs # tl cs)"
    using ok(1) by (auto simp: list_all_iff)
  from min_by_snd [OF this] have "(name, q) \<in> set cs" "\<And>c. c \<in> set cs \<Longrightarrow> q \<le> snd c"
    using ok(1) by (auto simp: m)
  moreover from this(1) all have "isfinite q" "0 \<le> q" by (auto simp: list_all_iff)
  ultimately show ?thesis
    using assms ok all by (intro sized) (auto simp: choose_size_def m Let_def split: if_splits)
qed (rule invalid)

lemma size_values_of_wf:
  "wf_size_input i \<Longrightarrow> size_values_of i = Some v \<Longrightarrow> valid_values v \<and> wf_float (v_entry v)"
  by (auto simp: size_values_of_Some wf_size_input_def intro: finite_value_wf)

lemma calculate_size_cases:
  assumes "wf_size_input i" "calculate_size i = Inr d"
  obtains (invalid) "d = invalid_size"
  | (sized) v where "size_values_of i = Some v" "valid_values v" "wf_float (v_entry v)"
      "isfinite (effective_loss v)" "0 < effective_loss v"
      "d = choose_size v [(''fixed'', fixed_cap v), (''volatility'', volatility_cap v),
         (''exposure'', exposure_cap_of v), (''cash'', cash_cap v)]"
proof (cases "size_values_of i")
  case None
  then show ?thesis using assms invalid by (simp add: calculate_size_def)
next
  case (Some v)
  note wf = size_values_of_wf [OF assms(1) Some]
  show ?thesis
  proof (cases "isfinite (effective_loss v) \<and> 0 < effective_loss v")
    case True
    then have "\<not> effective_loss v \<le> 0" by (simp add: less_not_le_float)
    with True assms(2) Some wf show ?thesis
      by (intro sized) (auto simp: calculate_size_def size_candidates_eq)
  next
    case False
    then have "\<not> isfinite (effective_loss v) \<or> effective_loss v \<le> 0"
      by (auto simp: finite_not_less)
    then show ?thesis using assms(2) Some invalid by (auto simp: calculate_size_def)
  qed
qed


text \<open>
  A positive size is the result of the four caps, all finite; the fill price and the loss
  per unit are then finite and positive.
\<close>

lemma positive_size:
  assumes "wf_size_input i" "calculate_size i = Inr d" "sd_binding_constraint d \<noteq> ''invalid_input''"
  obtains v where "size_values_of i = Some v" "valid_values v" "wf_float (v_entry v)"
    "isfinite (effective_loss v)" "0 < effective_loss v"
    "isfinite (expected_buy_fill v)" "0 < expected_buy_fill v"
    "\<And>c. c \<in> {fixed_cap v, volatility_cap v, exposure_cap_of v, cash_cap v} \<Longrightarrow>
       isfinite c \<and> 0 \<le> c \<and> sd_quantity d \<le> c"
    "\<exists>c \<in> {fixed_cap v, volatility_cap v, exposure_cap_of v, cash_cap v}. feq (sd_quantity d) c"
    "isfinite (sd_quantity d)" "0 \<le> sd_quantity d"
  using assms(1,2)
proof (cases rule: calculate_size_cases)
  case invalid
  then show ?thesis using assms(3) by (simp add: invalid_size_def)
next
  case (sized v)
  let ?cs = "[(''fixed'', fixed_cap v), (''volatility'', volatility_cap v),
         (''exposure'', exposure_cap_of v), (''cash'', cash_cap v)]"
  have caps: "snd ` set ?cs = {fixed_cap v, volatility_cap v, exposure_cap_of v, cash_cap v}" by simp
  have buy: "isfinite (expected_buy_fill v)"
    using sized(4) unfolding effective_loss_def by (blast dest: isfinite_plus isfinite_minus)
  show ?thesis using sized(6) [symmetric]
  proof (cases rule: choose_size_cases)
    case invalid
    then show ?thesis using assms(3) by (simp add: invalid_size_def)
  next
    case S: (sized name q)
    have qd: "feq (sd_quantity d) q" "isfinite (sd_quantity d)"
      using S(5,8) by (auto simp: feq_iff_rat)
    have le: "isfinite c \<and> 0 \<le> c \<and> sd_quantity d \<le> c" if "c \<in> snd ` set ?cs" for c
    proof -
      have c: "isfinite c" "0 \<le> c" "q \<le> c" using that S(1,3) unfolding list_all_iff by blast+
      then show ?thesis using qd S(5) by (auto simp: fl_ord)
    qed
    have q: "q \<in> snd ` set ?cs" using S(2) by (metis image_eqI snd_conv)
    have "0 \<le> sd_quantity d" using qd S(5,6) by (auto simp: fl_ord)
    then show ?thesis
      using le q qd sized(1-5) buy expected_buy_fill_pos [OF sized(2,3)]
      unfolding caps by (intro that) blast+
  qed
qed

end
