(* ===== verification/Sizer_Correct.thy ===== *)
theory Sizer_Correct
  imports Sizer
begin

text \<open>
  Position sizing is correct: it never raises, its quantity is finite, not negative and no
  greater than any of the four caps, it spends no more than the cash and the risk and
  exposure budgets up to the rounding of one division, and a stricter risk decision never
  gives a larger position.
\<close>

lemma size_returns: "wf_size_input i \<Longrightarrow> \<exists>d. calculate_size i = Inr d"
  using size_values_of_wf [of i]
  by (cases "size_values_of i")
    (auto simp: calculate_size_def size_candidates_eq finite_not_le less_imp_le_float not_less_float
       split: if_splits)

lemma size_bounds:
  assumes wf: "wf_size_input i" and d: "calculate_size i = Inr d"
  shows "isfinite (sd_quantity d) \<and> 0 \<le> sd_quantity d
    \<and> isfinite (sd_estimated_loss d) \<and> 0 \<le> sd_estimated_loss d"
  using wf d
proof (cases rule: calculate_size_cases)
  case invalid
  then show ?thesis by (simp add: invalid_size_def le_refl_iff zero_pyfloat_def)
next
  case (sized v)
  note v = sized
  have zero: "0 \<le> (0 :: pyfloat)" by (simp add: zero_pyfloat_def)
  show ?thesis using v(6) [symmetric]
  proof (cases rule: choose_size_cases)
    case invalid
    then show ?thesis by (simp add: invalid_size_def zero)
  next
    case (sized name q)
    have "0 \<le> q * effective_loss v"
      using sized(5,6) v(4,5) by (intro fmul_nonneg) (auto simp: less_imp_le_float)
    then show ?thesis using sized(4,5,6,8) zero by auto
  qed
qed

text \<open>
  Sizing fails closed. On any input whose floats are machine floats,
  \<open>calculate_size\<close> returns a decision; no division by zero or other exception escapes.
\<close>

theorem calculate_size_returns: "wf_size_input i \<Longrightarrow> \<exists>d. calculate_size i = Inr d"
  by (rule size_returns)

definition sample_size_input :: size_input where
  "sample_size_input = \<lparr> si_equity = VInt 100, si_cash = VInt 100, si_entry = VInt 1000,
     si_stop = VInt 950, si_current_atr_pct = VFloat (flit 2 100),
     si_baseline_atr_pct = VFloat (flit 1 100), si_risk_rate = VFloat (flit 2 100),
     si_exposure_cap = VFloat (flit 7 10), si_costs = CostConfig \<rparr>"

lemma wf_sample: "wf_size_input sample_size_input"
  by (simp add: wf_size_input_def sample_size_input_def)

theorem calculate_size_returns_witness: "\<exists>d. calculate_size sample_size_input = Inr d"
  by (rule calculate_size_returns [OF wf_sample])

text \<open>
  The quantity is sound. It is finite and not negative, as is the estimated loss; when
  it is positive it is one of the four candidate caps, the one named as the binding
  constraint, and no candidate is smaller.
\<close>

theorem calculate_size_sound:
  assumes wf: "wf_size_input i" and d: "calculate_size i = Inr d"
  shows "isfinite (sd_quantity d) \<and> 0 \<le> sd_quantity d
    \<and> isfinite (sd_estimated_loss d) \<and> 0 \<le> sd_estimated_loss d
    \<and> (0 < sd_quantity d \<longrightarrow> (\<exists>v cs. size_values_of i = Some v \<and> size_candidates v = Inr cs
         \<and> (sd_binding_constraint d, sd_quantity d) \<in> set cs
         \<and> (\<forall>c \<in> set cs. sd_quantity d \<le> snd c)))"
proof -
  have "\<exists>v cs. size_values_of i = Some v \<and> size_candidates v = Inr cs
         \<and> (sd_binding_constraint d, sd_quantity d) \<in> set cs
         \<and> (\<forall>c \<in> set cs. sd_quantity d \<le> snd c)" if pos: "0 < sd_quantity d"
    using wf d
  proof (cases rule: calculate_size_cases)
    case invalid
    then show ?thesis using pos by (simp add: invalid_size_def)
  next
    case (sized v)
    note v = sized
    show ?thesis using v(6) [symmetric]
    proof (cases rule: choose_size_cases)
      case invalid
      then show ?thesis using pos by (simp add: invalid_size_def)
    next
      case (sized name q)
      have "sd_quantity d = q" using pos sized(8) by auto
      then show ?thesis
        using sized(2,3,7) v(1) size_candidates_eq [OF v(2,3,5)] by blast
    qed
  qed
  then show ?thesis using size_bounds [OF wf d] by blast
qed

lemma sample_size_value:
  "calculate_size sample_size_input =
     Inr \<lparr> sd_quantity = Fin (346764084214263, - 54), sd_binding_constraint = ''volatility'',
           sd_estimated_loss = Fin (1, 0) \<rparr>"
  by code_simp

lemma sample_values: "\<exists>v. size_values_of sample_size_input = Some v"
proof -
  have "size_values_of sample_size_input \<noteq> None" by code_simp
  then show ?thesis by simp
qed

theorem calculate_size_sound_witness:
  "\<exists>v cs. size_values_of sample_size_input = Some v \<and> size_candidates v = Inr cs
     \<and> (''volatility'', Fin (346764084214263, - 54)) \<in> set cs
     \<and> (\<forall>c \<in> set cs. Fin (346764084214263, - 54) \<le> snd c)"
proof -
  have "0 < Fin (346764084214263, - 54)" by code_simp
  then show ?thesis using calculate_size_sound [OF wf_sample sample_size_value] by simp
qed

lemma positive_not_invalid:
  assumes "wf_size_input i" "calculate_size i = Inr d" "0 < sd_quantity d"
  shows "sd_binding_constraint d \<noteq> ''invalid_input''"
  using assms(1,2)
proof (cases rule: calculate_size_cases)
  case invalid
  then show ?thesis using assms(3) by (simp add: invalid_size_def)
next
  case (sized v)
  show ?thesis using sized(6) [symmetric]
  proof (cases rule: choose_size_cases)
    case invalid
    then show ?thesis using assms(3) by (simp add: invalid_size_def)
  next
    case (sized name q)
    have "name \<in> fst ` set [(''fixed'', fixed_cap v), (''volatility'', volatility_cap v),
         (''exposure'', exposure_cap_of v), (''cash'', cash_cap v)]"
      using sized(2) by (metis fst_conv image_eqI)
    then have "name \<in> {''fixed'', ''volatility'', ''exposure'', ''cash''}" by simp
    then show ?thesis unfolding sized(7) by auto
  qed
qed

lemma size_budgets:
  assumes wf: "wf_size_input i" and d: "calculate_size i = Inr d" and v: "size_values_of i = Some v"
    and pos: "0 < sd_quantity d"
  shows "rat_of (sd_quantity d) * rat_of (effective_loss v)
           \<le> rat_of (v_equity v * v_risk v) * (1 + ulp64) + rat_of (effective_loss v) * tiny64
    \<and> rat_of (sd_quantity d) * rat_of (expected_buy_fill v)
           \<le> rat_of (v_equity v * v_cap v) * (1 + ulp64) + rat_of (expected_buy_fill v) * tiny64
    \<and> rat_of (sd_quantity d) * rat_of (expected_buy_fill v * (1 + v_fee v))
           \<le> rat_of (v_cash v) * (1 + ulp64) + rat_of (expected_buy_fill v * (1 + v_fee v)) * tiny64"
proof -
  obtain w where w: "size_values_of i = Some w" "valid_values w" "wf_float (v_entry w)"
    "isfinite (effective_loss w)" "0 < effective_loss w"
    "isfinite (expected_buy_fill w)" "0 < expected_buy_fill w"
    "\<And>c. c \<in> {fixed_cap w, volatility_cap w, exposure_cap_of w, cash_cap w} \<Longrightarrow>
       isfinite c \<and> 0 \<le> c \<and> sd_quantity d \<le> c"
    "isfinite (sd_quantity d)" "0 \<le> sd_quantity d"
    using positive_size [OF wf d positive_not_invalid [OF wf d pos]] by metis
  have [simp]: "w = v" using w(1) v by simp
  note V = w(2) [unfolded valid_values_def]
  have nonneg: "0 \<le> v_equity v * v_risk v" "0 \<le> v_equity v * v_cap v"
    using V by (auto intro!: fmul_nonneg)
  have budget: "rat_of (sd_quantity d) * rat_of b \<le> rat_of a * (1 + ulp64) + rat_of b * tiny64"
    if "fdiv a b \<in> {fixed_cap w, volatility_cap w, exposure_cap_of w, cash_cap w}"
      "0 \<le> a" "0 < b" "isfinite b" for a b
    using quotient_budget [of a b "sd_quantity d"] w(8) [OF that(1)] w(9,10) that isfinite_fdiv [of a b]
    by blast
  have "expected_buy_fill v \<le> expected_buy_fill v * (1 + v_fee v)"
    using expected_buy_fill_pos w(2,3) by simp
  then have D: "0 < expected_buy_fill v * (1 + v_fee v)"
    using w(7) less_le_trans_float by simp
  have "isfinite (expected_buy_fill v * (1 + v_fee v))"
  proof (rule ccontr)
    assume "\<not> ?thesis"
    then have "expected_buy_fill v * (1 + v_fee v) = PInf"
      using D by (cases "expected_buy_fill v * (1 + v_fee v)") (auto simp: less_pyfloat_def zero_pyfloat_def)
    then have "cash_cap v = 0" using V by (simp add: cash_cap_def)
    then show False using w(8) [of "cash_cap w"] pos by (auto dest: less_not_le_float)
  qed
  then show ?thesis
    using budget [of "v_equity v * v_risk v" "effective_loss v"]
      budget [of "v_equity v * v_cap v" "expected_buy_fill v"]
      budget [of "v_cash v" "expected_buy_fill v * (1 + v_fee v)"] w(4-7) nonneg V D
    by (simp add: fixed_cap_def exposure_cap_of_def cash_cap_def)
qed

text \<open>
  C1: the size respects its budgets. A positive quantity loses at most the risk budget at
  the stop, is worth at most the exposure budget at the expected fill, and costs at most
  the cash, fee included, each up to the rounding error of one division.
\<close>

theorem calculate_size_budgets:
  assumes wf: "wf_size_input i" and d: "calculate_size i = Inr d" and v: "size_values_of i = Some v"
    and pos: "0 < sd_quantity d"
  shows "rat_of (sd_quantity d) * rat_of (effective_loss v)
           \<le> rat_of (v_equity v * v_risk v) * (1 + ulp64) + rat_of (effective_loss v) * tiny64
    \<and> rat_of (sd_quantity d) * rat_of (expected_buy_fill v)
           \<le> rat_of (v_equity v * v_cap v) * (1 + ulp64) + rat_of (expected_buy_fill v) * tiny64
    \<and> rat_of (sd_quantity d) * rat_of (expected_buy_fill v * (1 + v_fee v))
           \<le> rat_of (v_cash v) * (1 + ulp64) + rat_of (expected_buy_fill v * (1 + v_fee v)) * tiny64"
  by (rule size_budgets [OF wf d v pos])

theorem calculate_size_budgets_witness:
  "\<exists>v. size_values_of sample_size_input = Some v \<and>
     rat_of (Fin (346764084214263, - 54)) * rat_of (expected_buy_fill v * (1 + v_fee v))
       \<le> rat_of (v_cash v) * (1 + ulp64) + rat_of (expected_buy_fill v * (1 + v_fee v)) * tiny64"
proof -
  have pos: "0 < Fin (346764084214263, - 54)" by code_simp
  obtain v where v: "size_values_of sample_size_input = Some v"
    using sample_values by blast
  show ?thesis using calculate_size_budgets [OF wf_sample sample_size_value v] pos v by auto
qed

text \<open>
  Sizing is monotone in the risk decision. With everything else equal, a risk rate and
  an exposure cap that are no larger never give a larger quantity; in particular halving
  both, as a reduced risk state does, never increases a position.
\<close>

theorem calculate_size_mono:
  assumes wf: "wf_size_input i" and wf': "wf_size_input i'"
    and d: "calculate_size i = Inr d" and d': "calculate_size i' = Inr d'"
    and v: "size_values_of i = Some v"
    and i': "size_values_of i' = Some (v\<lparr>v_risk := r, v_cap := x\<rparr>)"
    and le: "r \<le> v_risk v" "x \<le> v_cap v" and pos: "0 < sd_quantity d"
  shows "sd_quantity d' \<le> sd_quantity d"
proof (cases "0 < sd_quantity d'")
  case False
  then show ?thesis
    using size_bounds [OF wf d] size_bounds [OF wf' d'] pos
    by (auto simp: finite_not_less dest: le_trans_float)
next
  case True
  obtain w where w: "size_values_of i = Some w" "valid_values w" "0 < effective_loss w"
    "isfinite (effective_loss w)" "isfinite (expected_buy_fill w)" "0 < expected_buy_fill w"
    "\<And>c. c \<in> {fixed_cap w, volatility_cap w, exposure_cap_of w, cash_cap w} \<Longrightarrow>
       isfinite c \<and> 0 \<le> c \<and> sd_quantity d \<le> c"
    "\<exists>c \<in> {fixed_cap w, volatility_cap w, exposure_cap_of w, cash_cap w}. feq (sd_quantity d) c"
    using positive_size [OF wf d positive_not_invalid [OF wf d pos]] by metis
  obtain w' where w': "size_values_of i' = Some w'" "valid_values w'"
    "\<And>c. c \<in> {fixed_cap w', volatility_cap w', exposure_cap_of w', cash_cap w'} \<Longrightarrow>
       isfinite c \<and> 0 \<le> c \<and> sd_quantity d' \<le> c"
    using positive_size [OF wf' d' positive_not_invalid [OF wf' d' True]] by metis
  have W: "w = v" "w' = v\<lparr>v_risk := r, v_cap := x\<rparr>" using w(1) w'(1) v i' by simp_all
  note V = w(2) [unfolded valid_values_def W] and V' = w'(2) [unfolded valid_values_def W]
  have same: "effective_loss w' = effective_loss w" "expected_buy_fill w' = expected_buy_fill w"
    by (simp_all add: W effective_loss_def expected_buy_fill_def expected_stop_fill_def)
  have fin: "isfinite (fixed_cap w)" "isfinite (fixed_cap w')" "isfinite (exposure_cap_of w)"
    "isfinite (exposure_cap_of w')" using w(7) w'(3) by blast+
  have prods: "isfinite (v_equity v * v_risk v)" "isfinite (v_equity v * r)"
    "isfinite (v_equity v * v_cap v)" "isfinite (v_equity v * x)"
    using fin isfinite_fdiv unfolding fixed_cap_def exposure_cap_of_def W by fastforce+
  have fixed: "fixed_cap w' \<le> fixed_cap w"
    using V V' le prods w(3,4) same unfolding fixed_cap_def W
    by (auto intro!: fdiv_mono fmul_mono_right)
  have expo: "exposure_cap_of w' \<le> exposure_cap_of w"
    using V V' le prods w(5,6) same unfolding exposure_cap_of_def W
    by (auto intro!: fdiv_mono fmul_mono_right)
  have ratio: "0 \<le> pmin 1 (fdiv (v_baseline v) (v_current v))"
    using V by (auto intro!: pmin_nonneg fdiv_nonneg simp: less_imp_le_float) (simp add: le_iff_rat)
  have ratio_fin: "isfinite (pmin 1 (fdiv (v_baseline v) (v_current v)))"
    by (rule isfinite_le [OF isfinite_1 ratio pmin_le1 [OF not_NaN_finite [OF isfinite_1]]])
  have vol: "volatility_cap w' \<le> volatility_cap w"
    using fmul_mono_left [OF fin(2,1) ratio_fin fixed ratio] by (simp add: volatility_cap_def W)
  have "isfinite (cash_cap w')" using w'(3) by blast
  moreover have "cash_cap w' = cash_cap w" by (simp add: cash_cap_def W same [unfolded W])
  ultimately have cash: "cash_cap w' \<le> cash_cap w" by (simp add: le_iff_rat)
  have less: "fixed_cap w' \<le> fixed_cap w \<and> volatility_cap w' \<le> volatility_cap w
    \<and> exposure_cap_of w' \<le> exposure_cap_of w \<and> cash_cap w' \<le> cash_cap w"
    using fixed vol expo cash by blast
  have caps: "sd_quantity d' \<le> fixed_cap w' \<and> sd_quantity d' \<le> volatility_cap w'
    \<and> sd_quantity d' \<le> exposure_cap_of w' \<and> sd_quantity d' \<le> cash_cap w'"
    using w'(3) by blast
  have "sd_quantity d' \<le> c" if "c \<in> {fixed_cap w, volatility_cap w, exposure_cap_of w, cash_cap w}" for c
    using that caps less le_trans_float by blast
  then show ?thesis using w(8) le_trans_float unfolding feq_def by blast
qed


theorem calculate_size_mono_witness:
  "sd_quantity (projr (calculate_size (sample_size_input\<lparr>si_risk_rate := VFloat (flit 1 100),
      si_exposure_cap := VFloat (flit 35 100)\<rparr>))) \<le> Fin (346764084214263, - 54)"
proof -
  let ?i = "sample_size_input\<lparr>si_risk_rate := VFloat (flit 1 100), si_exposure_cap := VFloat (flit 35 100)\<rparr>"
  have wf: "wf_size_input ?i" by (simp add: wf_size_input_def sample_size_input_def)
  obtain d where d: "calculate_size ?i = Inr d" using size_returns wf by blast
  obtain v where v: "size_values_of sample_size_input = Some v"
    using sample_values by blast
  have "size_values_of ?i = Some (the (size_values_of sample_size_input)
      \<lparr>v_risk := flit 1 100, v_cap := flit 35 100\<rparr>)" by code_simp
  then have i': "size_values_of ?i = Some (v\<lparr>v_risk := flit 1 100, v_cap := flit 35 100\<rparr>)"
    by (simp add: v)
  have "flit 1 100 \<le> v_risk (the (size_values_of sample_size_input))"
    "flit 35 100 \<le> v_cap (the (size_values_of sample_size_input))"
    "0 < Fin (346764084214263, - 54)" by code_simp+
  then show ?thesis
    using calculate_size_mono [OF wf_sample wf sample_size_value d v i'] d v by simp
qed

end
