(* ===== verification/PyTime.thy ===== *)
theory PyTime
  imports Prelude
begin

text \<open>
  Python's \<open>datetime\<close>. An aware datetime is its local time and its offset from UTC, in
  microseconds; a naive one has no offset. After normalisation the code works with UTC
  instants: the microseconds since 1970-01-01T00:00:00Z, in the range of the years 1 to
  9999. Arithmetic outside of the range raises \<open>OverflowError\<close>.
\<close>

type_synonym instant = int
type_synonym timedelta = int

datatype pydatetime = Naive int | Aware int int

definition dt_min :: instant where
  "dt_min = - 62135596800000000"

definition dt_max :: instant where
  "dt_max = 253402300799999999"

definition in_dt_range :: "int \<Rightarrow> bool" where
  "in_dt_range t \<longleftrightarrow> dt_min \<le> t \<and> t \<le> dt_max"

definition minutes :: "int \<Rightarrow> timedelta" where
  "minutes n = n * 60000000"

definition hours :: "int \<Rightarrow> timedelta" where
  "hours n = n * 3600000000"

definition days :: "int \<Rightarrow> timedelta" where
  "days n = n * 86400000000"

definition dt_add :: "instant \<Rightarrow> timedelta \<Rightarrow> instant res" where
  "dt_add t d = (if in_dt_range (t + d) then Inr (t + d) else Inl OverflowError)"

text \<open>\<open>value.astimezone(timezone.utc)\<close> of an aware datetime.\<close>

fun astimezone_utc :: "pydatetime \<Rightarrow> instant res" where
  "astimezone_utc (Aware l off) = (if in_dt_range (l - off) then Inr (l - off) else Inl OverflowError)"
| "astimezone_utc (Naive l) = Inl OverflowError"

fun is_aware :: "pydatetime \<Rightarrow> bool" where
  "is_aware (Aware _ _) = True"
| "is_aware (Naive _) = False"

text \<open>The UTC instant of an aware datetime, by which aware datetimes compare.\<close>

fun instant_of :: "pydatetime \<Rightarrow> int" where
  "instant_of (Aware l off) = l - off"
| "instant_of (Naive l) = l"

abbreviation utc :: "instant \<Rightarrow> pydatetime" where
  "utc t \<equiv> Aware t 0"

text \<open>\<open>value.date()\<close> of a UTC datetime, as a day number.\<close>

definition date_of :: "instant \<Rightarrow> int" where
  "date_of t = t div 86400000000"

lemma dt_add_Inr [simp]: "dt_add t d = Inr u \<longleftrightarrow> in_dt_range (t + d) \<and> u = t + d"
  by (auto simp: dt_add_def)

lemma dt_add_in_range: "in_dt_range (t + d) \<Longrightarrow> dt_add t d = Inr (t + d)"
  by simp

lemma hours_mono: "hours a \<le> hours b \<longleftrightarrow> a \<le> b"
  by (simp add: hours_def)

end
