(* ===== verification/Breakers.thy ===== *)
theory Breakers
  imports PyValue PyTime Config
begin

text \<open>
  The risk breakers, \<open>src/autobit/risk/breakers.py\<close>: one snapshot of the account gives the
  risk rate, the exposure cap, the end of any halt and the reasons. The rules run in the
  order of the source over an accumulator of the rate, the cap, the reasons and the halts.
\<close>

record risk_decision =
  rd_risk_rate :: pyfloat
  rd_exposure_cap :: pyfloat
  rd_halted_until :: "instant option"
  rd_reasons :: "string list"

definition BASE_RISK_RATE :: pyfloat where "BASE_RISK_RATE = flit 2 100"
definition MAX_EXPOSURE :: pyfloat where "MAX_EXPOSURE = flit 70 100"
definition HARD_DRAWDOWN :: pyfloat where "HARD_DRAWDOWN = flit 15 100"
definition DAILY_LOSS_LIMIT :: pyfloat where "DAILY_LOSS_LIMIT = flit 4 100"
definition WEEKLY_REDUCE_LIMIT :: pyfloat where "WEEKLY_REDUCE_LIMIT = flit 5 100"
definition WEEKLY_HALT_LIMIT :: pyfloat where "WEEKLY_HALT_LIMIT = flit 7 100"

definition valid_risk_config :: "risk_config \<Rightarrow> bool" where
  "valid_risk_config c \<longleftrightarrow> feq (base_risk_rate c) BASE_RISK_RATE \<and> feq (max_exposure c) MAX_EXPOSURE
     \<and> feq (hard_drawdown c) HARD_DRAWDOWN \<and> feq (daily_loss_limit c) DAILY_LOSS_LIMIT
     \<and> feq (weekly_reduce_limit c) WEEKLY_REDUCE_LIMIT \<and> feq (weekly_halt_limit c) WEEKLY_HALT_LIMIT"

definition blocked :: "string \<Rightarrow> risk_decision" where
  "blocked reason = \<lparr> rd_risk_rate = 0, rd_exposure_cap = 0, rd_halted_until = None,
     rd_reasons = [reason] \<rparr>"

definition invalid_decision :: risk_decision where
  "invalid_decision = blocked ''invalid_input''"

definition invalid_config_decision :: risk_decision where
  "invalid_config_decision = blocked ''invalid_config''"

definition drawdown_ladder :: "pyfloat \<Rightarrow> pyfloat \<times> pyfloat" where
  "drawdown_ladder d =
     (if flit 10 100 \<le> d then (flit 5 1000, flit 30 100)
      else if flit 5 100 \<le> d then (flit 1 100, flit 50 100)
      else (BASE_RISK_RATE, MAX_EXPOSURE))"

definition recovery_ladder :: "pyfloat \<Rightarrow> pyfloat \<times> pyfloat" where
  "recovery_ladder d =
     (if flit 10 100 \<le> d then (flit 25 10000, flit 15 100)
      else if flit 5 100 \<le> d then (flit 5 1000, flit 30 100)
      else if 0 < d then (flit 1 100, flit 50 100)
      else (BASE_RISK_RATE, MAX_EXPOSURE))"

definition finite_nonneg :: "pyval \<Rightarrow> pyfloat option" where
  "finite_nonneg v = (if is_bool v then None else
     (case py_float v of Inl _ \<Rightarrow> None
      | Inr x \<Rightarrow> if \<not> isfinite x \<or> x < 0 then None else Some x))"

fun nonneg_integer :: "pyval \<Rightarrow> int option" where
  "nonneg_integer (VInt n) = (if 0 \<le> n then Some n else None)"
| "nonneg_integer _ = None"

text \<open>\<open>_as_utc\<close>: the UTC instant of an aware datetime in range, else nothing.\<close>

definition as_utc :: "pydatetime \<Rightarrow> instant option" where
  "as_utc t = (if \<not> is_aware t then None
     else (case astimezone_utc t of Inl _ \<Rightarrow> None | Inr u \<Rightarrow> Some u))"

text \<open>A halt start: absent, or a datetime that must normalise.\<close>

fun start_of :: "pydatetime option \<Rightarrow> instant option option" where
  "start_of None = Some None"
| "start_of (Some t) = (case as_utc t of None \<Rightarrow> None | Some u \<Rightarrow> Some (Some u))"

record risk_snapshot =
  rs_now :: pydatetime
  rs_drawdown :: pyval
  rs_daily_loss :: pyval
  rs_weekly_loss :: pyval
  rs_consecutive_losses :: pyval
  rs_volatility_ratio :: pyval
  rs_system_healthy :: pyval
  rs_config :: risk_config
  rs_recovery_started_at :: "pydatetime option"
  rs_daily_halt_started_at :: "pydatetime option"
  rs_weekly_halt_started_at :: "pydatetime option"
  rs_streak_halt_started_at :: "pydatetime option"
  rs_volatility_halted :: pyval
  rs_volatility_stable_bars :: pyval
  rs_profitable_trades :: pyval

section \<open>The rules\<close>

record breaker_acc =
  ba_rate :: pyfloat
  ba_cap :: pyfloat
  ba_reasons :: "string list"
  ba_halts :: "instant option list"

definition half :: "pyfloat \<Rightarrow> pyfloat" where
  "half x = fdiv x (flit 2 1)"

definition add_halt :: "string \<Rightarrow> instant option \<Rightarrow> breaker_acc \<Rightarrow> breaker_acc" where
  "add_halt reason until a = a\<lparr>ba_reasons := ba_reasons a @ [reason], ba_halts := ba_halts a @ [until]\<rparr>"

text \<open>\<open>min\<close> of the current limits with the halved limits of the drawdown ladder.\<close>

definition reduce :: "string \<Rightarrow> pyfloat \<times> pyfloat \<Rightarrow> breaker_acc \<Rightarrow> breaker_acc" where
  "reduce reason reduced a = a\<lparr>ba_rate := pmin (ba_rate a) (fst reduced),
     ba_cap := pmin (ba_cap a) (snd reduced), ba_reasons := ba_reasons a @ [reason]\<rparr>"

definition drawdown_rule :: "instant \<Rightarrow> pyfloat \<Rightarrow> instant option \<Rightarrow> breaker_acc res" where
  "drawdown_rule now dd start =
     (let (r, c) = drawdown_ladder dd;
          a = \<lparr>ba_rate = r, ba_cap = c, ba_reasons = [], ba_halts = []\<rparr>
      in case start of
        None \<Rightarrow> if HARD_DRAWDOWN \<le> dd
                then ebind (dt_add now (hours 72)) (\<lambda>t. Inr (add_halt ''drawdown_halt'' (Some t) a))
                else Inr a
      | Some s \<Rightarrow> ebind (dt_add s (hours 72)) (\<lambda>expiry.
          if now < expiry then Inr (add_halt ''drawdown_halt'' (Some expiry) a)
          else (let (r', c') = recovery_ladder dd
                in Inr (a\<lparr>ba_rate := r', ba_cap := c',
                        ba_reasons := (if 0 < dd then [''recovery''] else [])\<rparr>))))"

text \<open>\<open>start + n hours\<close> if there is a start.\<close>

definition expiry_of :: "instant option \<Rightarrow> int \<Rightarrow> instant option res" where
  "expiry_of start n = (case start of None \<Rightarrow> Inr None
     | Some s \<Rightarrow> ebind (dt_add s (hours n)) (\<lambda>t. Inr (Some t)))"

definition live :: "instant \<Rightarrow> instant option \<Rightarrow> bool" where
  "live now expiry = (case expiry of None \<Rightarrow> False | Some t \<Rightarrow> now < t)"

definition daily_rule ::
  "instant \<Rightarrow> pyfloat \<Rightarrow> instant option \<Rightarrow> pyfloat \<times> pyfloat \<Rightarrow> breaker_acc \<Rightarrow> breaker_acc res" where
  "daily_rule now loss start reduced a =
     ebind (expiry_of start 24) (\<lambda>expiry.
       if live now expiry then Inr (add_halt ''daily_loss_halt'' expiry a)
       else if start = None \<and> DAILY_LOSS_LIMIT \<le> loss
       then ebind (dt_add now (hours 24)) (\<lambda>t. Inr (add_halt ''daily_loss_halt'' (Some t) a))
       else if start \<noteq> None \<and> DAILY_LOSS_LIMIT \<le> loss
       then Inr (reduce ''daily_loss_reduced'' reduced a)
       else Inr a)"

definition weekly_rule ::
  "instant \<Rightarrow> pyfloat \<Rightarrow> instant option \<Rightarrow> pyfloat \<times> pyfloat \<Rightarrow> breaker_acc \<Rightarrow> breaker_acc res" where
  "weekly_rule now loss start reduced a =
     ebind (expiry_of start 48) (\<lambda>expiry.
       if live now expiry then Inr (add_halt ''weekly_loss_halt'' expiry a)
       else if start = None \<and> WEEKLY_HALT_LIMIT \<le> loss
       then ebind (dt_add now (hours 48)) (\<lambda>t. Inr (add_halt ''weekly_loss_halt'' (Some t) a))
       else if WEEKLY_REDUCE_LIMIT \<le> loss
       then Inr (reduce ''weekly_loss_reduced'' reduced a)
       else Inr a)"

definition streak_rule ::
  "instant \<Rightarrow> int \<Rightarrow> int \<Rightarrow> instant option \<Rightarrow> pyfloat \<times> pyfloat \<Rightarrow> breaker_acc \<Rightarrow> breaker_acc res" where
  "streak_rule now losses profitable start reduced a =
     ebind (expiry_of start 48) (\<lambda>expiry.
       if live now expiry then Inr (add_halt ''loss_streak_halt'' expiry a)
       else if start = None \<and> 5 \<le> losses
       then ebind (dt_add now (hours 48)) (\<lambda>t. Inr (add_halt ''loss_streak_halt'' (Some t) a))
       else if start \<noteq> None \<and> profitable < 2
       then Inr (reduce ''loss_streak_reduced'' reduced a)
       else if start = None \<and> 3 \<le> losses
       then Inr (reduce ''loss_streak_reduced'' reduced a)
       else Inr a)"

definition volatility_rule ::
  "pyfloat \<Rightarrow> bool \<Rightarrow> int \<Rightarrow> pyfloat \<times> pyfloat \<Rightarrow> breaker_acc \<Rightarrow> breaker_acc" where
  "volatility_rule ratio halted bars reduced a =
     (if halted
      then if \<not> (ratio \<le> flit 15 10 \<and> 3 \<le> bars) then add_halt ''volatility_halt'' None a else a
      else if flit 3 1 < ratio then add_halt ''volatility_halt'' None a
      else if flit 2 1 < ratio then reduce ''volatility_reduced'' reduced a
      else a)"

definition decision_of :: "breaker_acc \<Rightarrow> risk_decision" where
  "decision_of a =
     (if ba_halts a \<noteq> []
      then \<lparr> rd_risk_rate = 0, rd_exposure_cap = 0,
             rd_halted_until = (if None \<in> set (ba_halts a) then None
                                else Some (Max (set (map the (ba_halts a))))),
             rd_reasons = ba_reasons a \<rparr>
      else \<lparr> rd_risk_rate = ba_rate a, rd_exposure_cap = ba_cap a, rd_halted_until = None,
             rd_reasons = ba_reasons a \<rparr>)"

text \<open>The validated facts of a snapshot.\<close>

record risk_facts =
  rf_now :: instant
  rf_drawdown :: pyfloat
  rf_daily_loss :: pyfloat
  rf_weekly_loss :: pyfloat
  rf_volatility :: pyfloat
  rf_losses :: int
  rf_stable :: int
  rf_profitable :: int
  rf_recovery :: "instant option"
  rf_daily :: "instant option"
  rf_weekly :: "instant option"
  rf_streak :: "instant option"
  rf_vol_halted :: bool

definition apply_rules :: "risk_facts \<Rightarrow> breaker_acc res" where
  "apply_rules f =
     ebind (drawdown_rule (rf_now f) (rf_drawdown f) (rf_recovery f)) (\<lambda>a0.
     let reduced = (half (ba_rate a0), half (ba_cap a0)) in
     ebind (daily_rule (rf_now f) (rf_daily_loss f) (rf_daily f) reduced a0) (\<lambda>a1.
     ebind (weekly_rule (rf_now f) (rf_weekly_loss f) (rf_weekly f) reduced a1) (\<lambda>a2.
     ebind (streak_rule (rf_now f) (rf_losses f) (rf_profitable f) (rf_streak f) reduced a2) (\<lambda>a3.
     Inr (volatility_rule (rf_volatility f) (rf_vol_halted f) (rf_stable f) reduced a3)))))"

definition facts_of :: "risk_snapshot \<Rightarrow> bool \<Rightarrow> risk_facts option" where
  "facts_of s halted =
     (case (as_utc (rs_now s), start_of (rs_recovery_started_at s), start_of (rs_daily_halt_started_at s),
            start_of (rs_weekly_halt_started_at s), start_of (rs_streak_halt_started_at s)) of
        (Some now, Some rec, Some dai, Some wee, Some str) \<Rightarrow>
          (case (finite_nonneg (rs_drawdown s), finite_nonneg (rs_daily_loss s),
                 finite_nonneg (rs_weekly_loss s), finite_nonneg (rs_volatility_ratio s)) of
             (Some dd, Some dl, Some wl, Some vr) \<Rightarrow>
               (case (nonneg_integer (rs_consecutive_losses s), nonneg_integer (rs_volatility_stable_bars s),
                      nonneg_integer (rs_profitable_trades s)) of
                  (Some cl, Some sb, Some pt) \<Rightarrow>
                    Some \<lparr> rf_now = now, rf_drawdown = dd, rf_daily_loss = dl, rf_weekly_loss = wl,
                      rf_volatility = vr, rf_losses = cl, rf_stable = sb, rf_profitable = pt,
                      rf_recovery = rec, rf_daily = dai, rf_weekly = wee, rf_streak = str,
                      rf_vol_halted = halted \<rparr>
                | _ \<Rightarrow> None)
           | _ \<Rightarrow> None)
      | _ \<Rightarrow> None)"

definition evaluate_risk :: "risk_snapshot \<Rightarrow> risk_decision res" where
  "evaluate_risk s =
     (if rs_system_healthy s = VBool False then Inr (blocked ''system_unhealthy'')
      else if rs_system_healthy s \<noteq> VBool True then Inr invalid_decision
      else (case rs_volatility_halted s of
        VBool halted \<Rightarrow>
          (case facts_of s halted of
             None \<Rightarrow> Inr invalid_decision
           | Some f \<Rightarrow>
               if \<not> valid_risk_config (rs_config s) then Inr invalid_config_decision
               else ebind (apply_rules f) (\<lambda>a. Inr (decision_of a)))
      | _ \<Rightarrow> Inr invalid_decision))"

end
