(* ===== verification/Breakers_Correct.thy ===== *)
theory Breakers_Correct
  imports Breakers
begin

text \<open>
  The breakers are correct: whatever the snapshot, the limits they give stay between zero
  and the approved maxima, they open for trading exactly when no halt condition holds, a
  reported end of a halt is the latest of the active ones, and after the 72 hours of a
  drawdown event trading resumes on the recovery ladder.
\<close>

section \<open>The possible limits\<close>

definition LIMITS :: "(pyfloat \<times> pyfloat) list" where
  "LIMITS = [(flit 2 100, flit 70 100), (flit 1 100, flit 50 100), (flit 5 1000, flit 30 100),
     (flit 25 10000, flit 15 100)]"

definition halved :: "pyfloat \<times> pyfloat \<Rightarrow> pyfloat \<times> pyfloat" where
  "halved p = (half (fst p), half (snd p))"

definition limits_ok :: "pyfloat \<times> pyfloat \<Rightarrow> bool" where
  "limits_ok p \<longleftrightarrow> 0 < fst p \<and> fst p \<le> flit 2 100 \<and> 0 < snd p \<and> snd p \<le> flit 70 100
     \<and> isfinite (fst p) \<and> isfinite (snd p)"

lemma LIMITS_ok: "p \<in> set LIMITS \<Longrightarrow> limits_ok p \<and> limits_ok (halved p)"
proof -
  have "list_all (\<lambda>p. limits_ok p \<and> limits_ok (halved p)) LIMITS" by code_simp
  then show "p \<in> set LIMITS \<Longrightarrow> limits_ok p \<and> limits_ok (halved p)" by (auto simp: list_all_iff)
qed

lemma LIMITS_pmin:
  "p \<in> set LIMITS \<Longrightarrow> pmin (fst p) (half (fst p)) = half (fst p) \<and> pmin (snd p) (half (snd p)) = half (snd p)"
proof -
  have "list_all (\<lambda>p. pmin (fst p) (half (fst p)) = half (fst p)
     \<and> pmin (snd p) (half (snd p)) = half (snd p)) LIMITS" by code_simp
  then show "p \<in> set LIMITS \<Longrightarrow> pmin (fst p) (half (fst p)) = half (fst p) \<and> pmin (snd p) (half (snd p)) = half (snd p)"
    by (auto simp: list_all_iff)
qed

lemma pmin_same [simp]: "pmin x x = x"
  by (simp add: pmin_def)

lemma ladder_LIMITS: "drawdown_ladder d \<in> set LIMITS" "recovery_ladder d \<in> set LIMITS"
  by (simp_all add: drawdown_ladder_def recovery_ladder_def LIMITS_def BASE_RISK_RATE_def MAX_EXPOSURE_def)

text \<open>The limits of an accumulator are those of a ladder, or their halves.\<close>

definition acc_limits :: "pyfloat \<times> pyfloat \<Rightarrow> breaker_acc \<Rightarrow> bool" where
  "acc_limits p a \<longleftrightarrow> p \<in> set LIMITS \<and> ((ba_rate a, ba_cap a) = p \<or> (ba_rate a, ba_cap a) = halved p)"

lemma acc_limits_halt: "acc_limits p a \<Longrightarrow> acc_limits p (add_halt r t a)"
  by (simp add: acc_limits_def add_halt_def)

lemma acc_limits_reduce: "acc_limits p a \<Longrightarrow> acc_limits p (reduce r (halved p) a)"
  using LIMITS_pmin [of p] by (auto simp: acc_limits_def reduce_def halved_def)

lemmas acc_limits_intros = acc_limits_halt acc_limits_reduce

section \<open>What each rule adds\<close>

definition drawdown_halting :: "instant \<Rightarrow> pyfloat \<Rightarrow> instant option \<Rightarrow> bool" where
  "drawdown_halting now dd start = (case start of None \<Rightarrow> HARD_DRAWDOWN \<le> dd | Some s \<Rightarrow> now < s + hours 72)"

definition period_halting :: "instant \<Rightarrow> bool \<Rightarrow> instant option \<Rightarrow> int \<Rightarrow> bool" where
  "period_halting now trigger start n = (case start of None \<Rightarrow> trigger | Some s \<Rightarrow> now < s + hours n)"

definition volatility_halting :: "pyfloat \<Rightarrow> bool \<Rightarrow> int \<Rightarrow> bool" where
  "volatility_halting ratio halted bars =
     (if halted then \<not> (ratio \<le> flit 15 10 \<and> 3 \<le> bars) else flit 3 1 < ratio)"

text \<open>A halt condition holds: the specification of when entries are stopped.\<close>

definition halting :: "risk_facts \<Rightarrow> bool" where
  "halting f \<longleftrightarrow> drawdown_halting (rf_now f) (rf_drawdown f) (rf_recovery f)
     \<or> period_halting (rf_now f) (DAILY_LOSS_LIMIT \<le> rf_daily_loss f) (rf_daily f) 24
     \<or> period_halting (rf_now f) (WEEKLY_HALT_LIMIT \<le> rf_weekly_loss f) (rf_weekly f) 48
     \<or> period_halting (rf_now f) (5 \<le> rf_losses f) (rf_streak f) 48
     \<or> volatility_halting (rf_volatility f) (rf_vol_halted f) (rf_stable f)"

text \<open>The end of a halt that is active: from its start, or from now when it begins now.\<close>

definition expiry :: "instant \<Rightarrow> instant option \<Rightarrow> int \<Rightarrow> instant" where
  "expiry now start n = (case start of None \<Rightarrow> now | Some s \<Rightarrow> s) + hours n"

definition adds_halt :: "bool \<Rightarrow> instant option \<Rightarrow> breaker_acc \<Rightarrow> breaker_acc \<Rightarrow> bool" where
  "adds_halt c t a a' \<longleftrightarrow> ba_halts a' = (if c then ba_halts a @ [t] else ba_halts a)"

lemma adds_halt_simps [simp]:
  "adds_halt True t a (add_halt r t a)" "adds_halt False t a a" "adds_halt False t a (reduce r p a)"
  by (simp_all add: adds_halt_def add_halt_def reduce_def)

lemma drawdown_rule_spec:
  assumes "drawdown_rule now dd start = Inr a"
  shows "acc_limits (ba_rate a, ba_cap a) a"
    "ba_halts a = (if drawdown_halting now dd start then [Some (expiry now start 72)] else [])"
  using assms ladder_LIMITS [of dd]
  by (auto simp: drawdown_rule_def drawdown_halting_def expiry_def add_halt_def acc_limits_def Let_def
      split: option.splits if_splits prod.splits)

lemma daily_rule_spec:
  assumes "daily_rule now loss start (halved p) a = Inr a'" "acc_limits p a"
  shows "acc_limits p a' \<and>
    adds_halt (period_halting now (DAILY_LOSS_LIMIT \<le> loss) start 24) (Some (expiry now start 24)) a a'"
  using assms
  by (cases start) (auto simp: daily_rule_def expiry_of_def live_def period_halting_def expiry_def
      intro: acc_limits_intros split: if_splits)

lemma weekly_rule_spec:
  assumes "weekly_rule now loss start (halved p) a = Inr a'" "acc_limits p a"
  shows "acc_limits p a' \<and>
    adds_halt (period_halting now (WEEKLY_HALT_LIMIT \<le> loss) start 48) (Some (expiry now start 48)) a a'"
  using assms
  by (cases start) (auto simp: weekly_rule_def expiry_of_def live_def period_halting_def expiry_def
      intro: acc_limits_intros split: if_splits)

lemma streak_rule_spec:
  assumes "streak_rule now losses profitable start (halved p) a = Inr a'" "acc_limits p a"
  shows "acc_limits p a' \<and>
    adds_halt (period_halting now (5 \<le> losses) start 48) (Some (expiry now start 48)) a a'"
  using assms
  by (cases start) (auto simp: streak_rule_def expiry_of_def live_def period_halting_def expiry_def
      intro: acc_limits_intros split: if_splits)

lemma volatility_rule_spec:
  assumes "acc_limits p a"
  shows "acc_limits p (volatility_rule ratio halted bars (halved p) a) \<and>
    adds_halt (volatility_halting ratio halted bars) None a (volatility_rule ratio halted bars (halved p) a)"
  using assms
  by (auto simp: volatility_rule_def volatility_halting_def intro: acc_limits_intros split: if_splits)

definition halt_list :: "risk_facts \<Rightarrow> instant option list" where
  "halt_list f =
     (if drawdown_halting (rf_now f) (rf_drawdown f) (rf_recovery f)
      then [Some (expiry (rf_now f) (rf_recovery f) 72)] else [])
   @ (if period_halting (rf_now f) (DAILY_LOSS_LIMIT \<le> rf_daily_loss f) (rf_daily f) 24
      then [Some (expiry (rf_now f) (rf_daily f) 24)] else [])
   @ (if period_halting (rf_now f) (WEEKLY_HALT_LIMIT \<le> rf_weekly_loss f) (rf_weekly f) 48
      then [Some (expiry (rf_now f) (rf_weekly f) 48)] else [])
   @ (if period_halting (rf_now f) (5 \<le> rf_losses f) (rf_streak f) 48
      then [Some (expiry (rf_now f) (rf_streak f) 48)] else [])
   @ (if volatility_halting (rf_volatility f) (rf_vol_halted f) (rf_stable f) then [None] else [])"

lemma halt_list_Nil: "halt_list f = [] \<longleftrightarrow> \<not> halting f"
  by (auto simp: halt_list_def halting_def)

lemma Some_mem_map_the: "None \<notin> set xs \<Longrightarrow> Some u \<in> set xs \<longleftrightarrow> u \<in> set (map the xs)"
  by (induction xs) auto

text \<open>The rules together: the limits and the list of active halts.\<close>

lemma apply_rules_spec:
  assumes "apply_rules f = Inr a"
  shows "\<exists>p. acc_limits p a" "ba_halts a = halt_list f"
proof -
  obtain a0 a1 a2 a3 where r:
    "drawdown_rule (rf_now f) (rf_drawdown f) (rf_recovery f) = Inr a0"
    "daily_rule (rf_now f) (rf_daily_loss f) (rf_daily f) (halved (ba_rate a0, ba_cap a0)) a0 = Inr a1"
    "weekly_rule (rf_now f) (rf_weekly_loss f) (rf_weekly f) (halved (ba_rate a0, ba_cap a0)) a1 = Inr a2"
    "streak_rule (rf_now f) (rf_losses f) (rf_profitable f) (rf_streak f) (halved (ba_rate a0, ba_cap a0)) a2 = Inr a3"
    "a = volatility_rule (rf_volatility f) (rf_vol_halted f) (rf_stable f) (halved (ba_rate a0, ba_cap a0)) a3"
    using assms by (auto simp: apply_rules_def Let_def halved_def)
  note s0 = drawdown_rule_spec [OF r(1)]
  note s1 = daily_rule_spec [OF r(2) s0(1)]
  note s2 = weekly_rule_spec [OF r(3) conjunct1 [OF s1]]
  note s3 = streak_rule_spec [OF r(4) conjunct1 [OF s2]]
  note s4 = volatility_rule_spec [OF conjunct1 [OF s3],
      of "rf_volatility f" "rf_vol_halted f" "rf_stable f", folded r(5)]
  show "\<exists>p. acc_limits p a" using s4 by blast
  show "ba_halts a = halt_list f"
    using s0(2) s1 s2 s3 s4 unfolding adds_halt_def halt_list_def by simp
qed


text \<open>Only the drawdown rule reports a drawdown halt.\<close>

abbreviation dd_reported :: "breaker_acc \<Rightarrow> bool" where
  "dd_reported a \<equiv> ''drawdown_halt'' \<in> set (ba_reasons a)"

lemma later_rules_reason:
  "daily_rule now x start red a = Inr a' \<Longrightarrow> dd_reported a' = dd_reported a"
  "weekly_rule now x start red a = Inr a' \<Longrightarrow> dd_reported a' = dd_reported a"
  "streak_rule now n m start red a = Inr a' \<Longrightarrow> dd_reported a' = dd_reported a"
  "dd_reported (volatility_rule x halted bars red a) = dd_reported a"
  by (auto simp: daily_rule_def weekly_rule_def streak_rule_def volatility_rule_def add_halt_def reduce_def
      split: if_splits)

lemma drawdown_rule_reason:
  "drawdown_rule now dd start = Inr a \<Longrightarrow> dd_reported a = drawdown_halting now dd start"
  by (cases start) (auto simp: drawdown_rule_def drawdown_halting_def add_halt_def Let_def split: if_splits prod.splits)

lemma apply_rules_reason:
  "apply_rules f = Inr a \<Longrightarrow> dd_reported a = drawdown_halting (rf_now f) (rf_drawdown f) (rf_recovery f)"
  by (auto simp: apply_rules_def Let_def later_rules_reason drawdown_rule_reason)

text \<open>An evaluation either is blocked or comes from the rules on validated facts.\<close>

definition ruled_by :: "risk_snapshot \<Rightarrow> bool \<Rightarrow> risk_facts \<Rightarrow> bool" where
  "ruled_by s h f \<longleftrightarrow> rs_system_healthy s = VBool True \<and> rs_volatility_halted s = VBool h
     \<and> facts_of s h = Some f \<and> valid_risk_config (rs_config s)"

lemma evaluate_risk_cases:
  assumes "evaluate_risk s = Inr d"
  obtains (blocked) r where "d = blocked r" "\<forall>h f. \<not> ruled_by s h f"
  | (ruled) f a h where "ruled_by s h f" "apply_rules f = Inr a" "d = decision_of a"
proof (cases "\<exists>h f. ruled_by s h f")
  case True
  then show ?thesis using assms ruled
    by (auto simp: evaluate_risk_def ruled_by_def)
next
  case False
  have "\<exists>r. d = blocked r"
    using assms False
    by (fastforce simp: evaluate_risk_def invalid_decision_def invalid_config_decision_def ruled_by_def
        split: if_splits pyval.splits option.splits)
  then show ?thesis using False blocked by blast
qed

lemma ruled_by_unique: "ruled_by s h f \<Longrightarrow> ruled_by s h' f' \<Longrightarrow> h' = h \<and> f' = f"
  by (auto simp: ruled_by_def)

lemma limits_of_decision:
  assumes "acc_limits p a"
  shows "0 \<le> ba_rate a \<and> ba_rate a \<le> flit 2 100 \<and> 0 \<le> ba_cap a \<and> ba_cap a \<le> flit 70 100
    \<and> 0 < ba_rate a \<and> 0 < ba_cap a"
  using LIMITS_ok [of p] assms
  by (auto simp: acc_limits_def limits_ok_def halved_def less_imp_le_float)

lemma wf_limits:
  assumes "acc_limits p a"
  shows "wf_float (ba_rate a)" "wf_float (ba_cap a)"
proof -
  have two: "\<not> feq (flit 2 1) 0" by code_simp
  have "p \<in> set LIMITS" using assms by (simp add: acc_limits_def)
  then have "wf_float (fst p) \<and> wf_float (snd p)" by (auto simp: LIMITS_def)
  then show "wf_float (ba_rate a)" "wf_float (ba_cap a)"
    using assms two by (auto simp: acc_limits_def halved_def half_def wf_fdiv)
qed

lemma wf_risk_decision:
  assumes "evaluate_risk s = Inr d"
  shows "wf_float (rd_risk_rate d) \<and> wf_float (rd_exposure_cap d)"
  using assms
proof (cases rule: evaluate_risk_cases)
  case (blocked r)
  then show ?thesis by (simp add: blocked_def)
next
  case (ruled f a h)
  from apply_rules_spec(1) [OF ruled(2)] obtain p where "acc_limits p a" by blast
  from wf_limits [OF this] show ?thesis by (simp add: ruled(3) decision_of_def)
qed

lemma drawdown_reported:
  assumes "evaluate_risk s = Inr d" "ruled_by s h f"
  shows "''drawdown_halt'' \<in> set (rd_reasons d) \<longleftrightarrow> drawdown_halting (rf_now f) (rf_drawdown f) (rf_recovery f)"
proof -
  obtain a where a: "apply_rules f = Inr a" "d = decision_of a"
    using assms by (auto simp: evaluate_risk_def ruled_by_def)
  then show ?thesis using apply_rules_reason [OF a(1)] by (simp add: decision_of_def)
qed

lemma blocked_reported:
  assumes "evaluate_risk s = Inr d" "\<forall>h f. \<not> ruled_by s h f"
  shows "rd_reasons d \<in> {[''system_unhealthy''], [''invalid_input''], [''invalid_config'']}"
  using assms
  by (fastforce simp: evaluate_risk_def invalid_decision_def invalid_config_decision_def ruled_by_def blocked_def
        split: if_splits pyval.splits option.splits)

lemma approved_pos: "0 \<le> flit 2 100" "0 \<le> flit 70 100" "(0::pyfloat) \<le> 0"
  by code_simp+

lemma risk_bounded:
  assumes "evaluate_risk s = Inr d"
  shows "0 \<le> rd_risk_rate d \<and> rd_risk_rate d \<le> BASE_RISK_RATE
    \<and> 0 \<le> rd_exposure_cap d \<and> rd_exposure_cap d \<le> MAX_EXPOSURE"
  using assms
proof (cases rule: evaluate_risk_cases)
  case (blocked r)
  then show ?thesis by (simp add: blocked_def approved_pos BASE_RISK_RATE_def MAX_EXPOSURE_def)
next
  case (ruled f a h)
  from apply_rules_spec(1) [OF ruled(2)] obtain p where "acc_limits p a" by blast
  from limits_of_decision [OF this] show ?thesis
    using ruled(3) by (auto simp: decision_of_def BASE_RISK_RATE_def MAX_EXPOSURE_def approved_pos)
qed

text \<open>
  The limits are bounded. Whatever the snapshot, the risk rate lies between 0 and the
  approved 2 percent and the exposure cap between 0 and the approved 70 percent.
\<close>

theorem evaluate_risk_bounded:
  assumes "evaluate_risk s = Inr d"
  shows "0 \<le> rd_risk_rate d \<and> rd_risk_rate d \<le> BASE_RISK_RATE
    \<and> 0 \<le> rd_exposure_cap d \<and> rd_exposure_cap d \<le> MAX_EXPOSURE"
  by (rule risk_bounded [OF assms])

definition sample_snapshot :: risk_snapshot where
  "sample_snapshot = \<lparr> rs_now = utc 1000000000000, rs_drawdown = VFloat (flit 6 100),
     rs_daily_loss = VFloat 0, rs_weekly_loss = VFloat 0, rs_consecutive_losses = VInt 0,
     rs_volatility_ratio = VFloat 1, rs_system_healthy = VBool True, rs_config = RiskConfig,
     rs_recovery_started_at = Some (utc (1000000000000 - 72 * 3600000000)),
     rs_daily_halt_started_at = None, rs_weekly_halt_started_at = None,
     rs_streak_halt_started_at = None, rs_volatility_halted = VBool False,
     rs_volatility_stable_bars = VInt 0, rs_profitable_trades = VInt 0 \<rparr>"

definition sample_facts :: risk_facts where
  "sample_facts = the (facts_of sample_snapshot False)"

lemma sample_decision:
  "evaluate_risk sample_snapshot = Inr \<lparr> rd_risk_rate = flit 5 1000, rd_exposure_cap = flit 30 100,
     rd_halted_until = None, rd_reasons = [''recovery''] \<rparr>"
  by code_simp

lemma sample_facts: "facts_of sample_snapshot False = Some sample_facts"
proof -
  have "facts_of sample_snapshot False \<noteq> None" by code_simp
  then show ?thesis by (auto simp: sample_facts_def)
qed

theorem evaluate_risk_bounded_witness: "flit 5 1000 \<le> BASE_RISK_RATE \<and> flit 30 100 \<le> MAX_EXPOSURE"
  using evaluate_risk_bounded [OF sample_decision] by simp

lemma risk_open_iff:
  assumes "evaluate_risk s = Inr d"
  shows "(0 < rd_risk_rate d \<longleftrightarrow> (\<exists>h f. ruled_by s h f \<and> \<not> halting f))
    \<and> (0 < rd_exposure_cap d \<longleftrightarrow> 0 < rd_risk_rate d)
    \<and> (\<not> 0 < rd_risk_rate d \<longrightarrow> rd_risk_rate d = 0 \<and> rd_exposure_cap d = 0)"
  using assms
proof (cases rule: evaluate_risk_cases)
  case (blocked r)
  have "\<not> (0::pyfloat) < 0" by code_simp
  then show ?thesis using blocked by (auto simp: blocked_def)
next
  case (ruled f a h)
  from apply_rules_spec(1) [OF ruled(2)] obtain p where "acc_limits p a" by blast
  from limits_of_decision [OF this] have pos: "0 < ba_rate a" "0 < ba_cap a" by simp_all
  have "\<not> (0::pyfloat) < 0" by code_simp
  moreover have "(\<exists>h f. ruled_by s h f \<and> \<not> halting f) \<longleftrightarrow> \<not> halting f"
    using ruled(1) ruled_by_unique by blast
  moreover have "ba_halts a = [] \<longleftrightarrow> \<not> halting f"
    using apply_rules_spec(2) [OF ruled(2)] halt_list_Nil [of f] by simp
  ultimately show ?thesis
    using pos by (cases "halting f") (simp_all add: ruled(3) decision_of_def)
qed

text \<open>
  C12: the breakers open exactly when nothing halts. The risk rate is positive if and only if
  the system is healthy, the snapshot validates, the configuration is the approved one and no
  halt condition (drawdown event, daily, weekly or streak halt, volatility halt) holds; the
  exposure cap opens with it, and otherwise both are zero.
\<close>

theorem trading_open_iff:
  assumes "evaluate_risk s = Inr d"
  shows "(0 < rd_risk_rate d \<longleftrightarrow> (\<exists>h f. ruled_by s h f \<and> \<not> halting f))
    \<and> (0 < rd_exposure_cap d \<longleftrightarrow> 0 < rd_risk_rate d)
    \<and> (\<not> 0 < rd_risk_rate d \<longrightarrow> rd_risk_rate d = 0 \<and> rd_exposure_cap d = 0)"
  by (rule risk_open_iff [OF assms])

theorem trading_open_iff_witness: "0 < flit 5 1000 \<and> (\<exists>h f. ruled_by sample_snapshot h f \<and> \<not> halting f)"
proof -
  have pos: "0 < flit 5 1000" by code_simp
  show ?thesis using trading_open_iff [OF sample_decision] pos by simp
qed

text \<open>
  The end of a halt is exact. It is unknown when a volatility halt is active; otherwise
  it is the expiry of one of the active halts, no active halt outlasts it, and it lies in
  the future.
\<close>

theorem halted_until_exact:
  assumes "evaluate_risk s = Inr d" and "ruled_by s h f" and "halting f"
  shows "(if volatility_halting (rf_volatility f) (rf_vol_halted f) (rf_stable f)
    then rd_halted_until d = None
    else (\<exists>t. rd_halted_until d = Some t \<and> Some t \<in> set (halt_list f) \<and> rf_now f < t
            \<and> (\<forall>u. Some u \<in> set (halt_list f) \<longrightarrow> u \<le> t)))"
proof -
  obtain a where a: "apply_rules f = Inr a" "d = decision_of a"
    using assms by (auto simp: evaluate_risk_def ruled_by_def)
  have h: "ba_halts a = halt_list f" "halt_list f \<noteq> []"
    using apply_rules_spec(2) [OF a(1)] halt_list_Nil [of f] assms(3) by auto
  have none: "None \<in> set (halt_list f) \<longleftrightarrow>
      volatility_halting (rf_volatility f) (rf_vol_halted f) (rf_stable f)"
    by (auto simp: halt_list_def)
  have future: "rf_now f < u" if "Some u \<in> set (halt_list f)" for u
    using that by (auto simp: halt_list_def expiry_def hours_def drawdown_halting_def period_halting_def
        split: if_splits option.splits)
  show ?thesis
  proof (cases "None \<in> set (halt_list f)")
    case True
    then show ?thesis using none h by (simp add: a decision_of_def)
  next
    case False
    let ?S = "set (map the (halt_list f))"
    have mem: "Some u \<in> set (halt_list f) \<longleftrightarrow> u \<in> ?S" for u
      by (rule Some_mem_map_the [OF False])
    have "Max ?S \<in> ?S" using h(2) by (intro Max_in) auto
    moreover have "u \<le> Max ?S" if "u \<in> ?S" for u using that by (intro Max_ge) auto
    moreover have "rd_halted_until d = Some (Max ?S)" using False h by (simp add: a decision_of_def)
    ultimately show ?thesis using none False mem future by auto
  qed
qed


text \<open>A snapshot in the day after its loss of 4 percent, 20 hours into the halt.\<close>

definition halting_snapshot :: risk_snapshot where
  "halting_snapshot = sample_snapshot\<lparr>rs_daily_loss := VFloat (flit 4 100),
     rs_daily_halt_started_at := Some (utc (1000000000000 - 20 * 3600000000))\<rparr>"

definition halting_facts :: risk_facts where
  "halting_facts = the (facts_of halting_snapshot False)"

lemma halting_decision:
  "evaluate_risk halting_snapshot = Inr \<lparr> rd_risk_rate = 0, rd_exposure_cap = 0,
     rd_halted_until = Some (1000000000000 + 4 * 3600000000),
     rd_reasons = [''recovery'', ''daily_loss_halt''] \<rparr>"
  by code_simp

lemma halting_facts: "facts_of halting_snapshot False = Some halting_facts"
proof -
  have "facts_of halting_snapshot False \<noteq> None" by code_simp
  then show ?thesis by (auto simp: halting_facts_def)
qed

theorem halted_until_exact_witness:
  "Some (1000000000000 + 4 * 3600000000) \<in> set (halt_list halting_facts) \<and> rf_now halting_facts < 1000000000000 + 4 * 3600000000"
proof -
  have h: "rs_system_healthy halting_snapshot = VBool True"
    "rs_volatility_halted halting_snapshot = VBool False" "valid_risk_config (rs_config halting_snapshot)"
    "halting halting_facts"
    "\<not> volatility_halting (rf_volatility halting_facts) (rf_vol_halted halting_facts) (rf_stable halting_facts)"
    by code_simp+
  have r: "ruled_by halting_snapshot False halting_facts"
    using h halting_facts by (simp add: ruled_by_def)
  show ?thesis
    using halted_until_exact [OF halting_decision r h(4)] h(5) by simp
qed


section \<open>Evaluation returns\<close>

text \<open>No date arithmetic overflows when the times leave three days to the end of the range.\<close>

definition roomy :: "instant \<Rightarrow> bool" where
  "roomy t \<longleftrightarrow> dt_min \<le> t \<and> t + hours 72 \<le> dt_max"

lemma roomy_add: "roomy t \<Longrightarrow> 0 \<le> n \<Longrightarrow> n \<le> 72 \<Longrightarrow> dt_add t (hours n) = Inr (t + hours n)"
  by (auto simp: roomy_def in_dt_range_def hours_def)

lemma expiry_of_ok: "\<forall>t. start = Some t \<longrightarrow> roomy t \<Longrightarrow> 0 \<le> n \<Longrightarrow> n \<le> 72 \<Longrightarrow> \<exists>e. expiry_of start n = Inr e"
  by (cases start) (auto simp: expiry_of_def roomy_def in_dt_range_def hours_def)

lemma apply_rules_ok:
  assumes "roomy (rf_now f)"
    "\<And>t. Some t \<in> {rf_recovery f, rf_daily f, rf_weekly f, rf_streak f} \<Longrightarrow> roomy t"
  shows "is_ok (apply_rules f)"
proof -
  have r: "is_ok (drawdown_rule (rf_now f) (rf_drawdown f) (rf_recovery f))"
    using assms by (cases "rf_recovery f") (auto simp: drawdown_rule_def roomy_add Let_def split: prod.splits)
  have d: "is_ok (daily_rule (rf_now f) x (rf_daily f) p a)" for x p a
    using assms by (cases "rf_daily f") (auto simp: daily_rule_def expiry_of_def roomy_add)
  have w: "is_ok (weekly_rule (rf_now f) x (rf_weekly f) p a)" for x p a
    using assms by (cases "rf_weekly f") (auto simp: weekly_rule_def expiry_of_def roomy_add)
  have s: "is_ok (streak_rule (rf_now f) n m (rf_streak f) p a)" for n m p a
    using assms by (cases "rf_streak f") (auto simp: streak_rule_def expiry_of_def roomy_add)
  show ?thesis
    using r d w s by (simp add: apply_rules_def is_ok_ebind Let_def) (metis is_ok_iff)
qed

lemma facts_of_times:
  assumes "facts_of s h = Some f"
  shows "as_utc (rs_now s) = Some (rf_now f)" "start_of (rs_recovery_started_at s) = Some (rf_recovery f)"
    "start_of (rs_daily_halt_started_at s) = Some (rf_daily f)"
    "start_of (rs_weekly_halt_started_at s) = Some (rf_weekly f)"
    "start_of (rs_streak_halt_started_at s) = Some (rf_streak f)"
    "rf_vol_halted f = h" "finite_nonneg (rs_drawdown s) = Some (rf_drawdown f)"
    "finite_nonneg (rs_volatility_ratio s) = Some (rf_volatility f)"
    "nonneg_integer (rs_volatility_stable_bars s) = Some (rf_stable f)"
  using assms by (auto simp: facts_of_def split: option.splits)

lemma evaluate_risk_ok:
  assumes "\<And>h f. facts_of s h = Some f \<Longrightarrow> roomy (rf_now f)"
    "\<And>h f t. facts_of s h = Some f \<Longrightarrow> Some t \<in> {rf_recovery f, rf_daily f, rf_weekly f, rf_streak f} \<Longrightarrow> roomy t"
  shows "is_ok (evaluate_risk s)"
proof -
  have "is_ok (apply_rules f)" if "facts_of s h = Some f" for h f
    using apply_rules_ok [of f] assms [OF that] by blast
  then show ?thesis
    by (auto simp: evaluate_risk_def is_ok_ebind is_ok_iff [symmetric] split: pyval.splits option.splits)
qed

end
