(* ===== verification/Strategy.thy ===== *)
theory Strategy
  imports PyValue Config
begin

text \<open>
  The Donchian strategy, \<open>src/autobit/strategy/donchian_trend.py\<close>: the entry signal, the
  close exit, the initial and the trailing stop, over one row of the indicator frame. The
  cells are unchecked Python objects. \<open>_is_finite\<close> catches the type and value errors of
  \<open>float()\<close> but not the overflow of an integer beyond the float range, so every function
  that tests a cell may raise.
\<close>

record position_snapshot =
  ps_entry_price :: pyfloat
  ps_initial_stop :: pyfloat
  ps_current_stop :: pyfloat
  ps_high_water :: pyfloat

definition is_finite :: "pyval \<Rightarrow> bool res" where
  "is_finite v = catch (\<lambda>e. e = TypeError \<or> is_value_error e)
     (ebind (py_float v) (\<lambda>x. Inr (isfinite x))) (\<lambda>_. Inr False)"

fun is_true_boolean :: "pyval \<Rightarrow> bool" where
  "is_true_boolean (VBool b) = b"
| "is_true_boolean (VNpBool b) = b"
| "is_true_boolean _ = False"

text \<open>\<open>all(_is_finite(value) for value in values)\<close>: the first failure ends the test.\<close>

fun all_finite :: "pyval list \<Rightarrow> bool res" where
  "all_finite [] = Inr True"
| "all_finite (v # vs) = ebind (is_finite v) (\<lambda>b. if b then all_finite vs else Inr False)"

text \<open>
  \<open>initial_stop_price\<close>: \<open>any\<close> over its three arguments of bool, not finite or not positive.
\<close>

fun any_bad_price :: "pyval list \<Rightarrow> bool res" where
  "any_bad_price [] = Inr False"
| "any_bad_price (v # vs) = (if is_bool v then Inr True else
     ebind (is_finite v) (\<lambda>b. if \<not> b then Inr True else
     ebind (py_float v) (\<lambda>x. if x \<le> 0 then Inr True else any_bad_price vs)))"

definition initial_stop_price :: "pyval \<Rightarrow> pyval \<Rightarrow> pyval \<Rightarrow> pyfloat res" where
  "initial_stop_price entry atr mult =
     ebind (any_bad_price [entry, atr, mult]) (\<lambda>bad. if bad then Inr NaN else
     ebind (py_float entry) (\<lambda>e. ebind (py_float mult) (\<lambda>m. ebind (py_float atr) (\<lambda>a.
       Inr (e - m * a)))))"

definition ema_column :: "strategy_config \<Rightarrow> string" where
  "ema_column c = ''ema_'' @ show_int (ema_period c)"

definition atr_column :: "strategy_config \<Rightarrow> string" where
  "atr_column c = ''atr_'' @ show_int (atr_period c)"

definition row_get_default :: "row \<Rightarrow> string \<Rightarrow> pyval \<Rightarrow> pyval" where
  "row_get_default r k d = (case r k of None \<Rightarrow> d | Some v \<Rightarrow> v)"

definition entry_columns :: "strategy_config \<Rightarrow> string list" where
  "entry_columns c = [''close'', ema_column c, ''entry_high'', ''previous_close'',
     ''previous_entry_high'', atr_column c]"

definition evaluate_entry :: "row \<Rightarrow> bool \<Rightarrow> strategy_config \<Rightarrow> bool res" where
  "evaluate_entry r is_flat c =
     (if \<not> is_flat then Inr False
      else if r ''warmup_complete'' \<noteq> None \<and> \<not> is_true_boolean (row_get r ''warmup_complete'') then Inr False
      else if \<not> is_true_boolean (row_get_default r ''entry_data_valid'' (VBool True)) then Inr False
      else ebind (all_finite (List.map (row_get r) (entry_columns c))) (\<lambda>ok.
        if \<not> ok then Inr False
        else ebind (emap py_float (List.map (row_get r) (entry_columns c))) (\<lambda>xs.
          Inr (xs ! 2 < xs ! 0 \<and> xs ! 1 < xs ! 0 \<and> xs ! 3 \<le> xs ! 4))))"

definition evaluate_close_exit :: "row \<Rightarrow> bool res" where
  "evaluate_close_exit r =
     ebind (all_finite [row_get r ''close'', row_get r ''exit_low'']) (\<lambda>ok.
       if \<not> ok then Inr False
       else ebind (py_float (row_get r ''close'')) (\<lambda>c.
            ebind (py_float (row_get r ''exit_low'')) (\<lambda>l. Inr (c < l))))"

definition next_stop :: "position_snapshot \<Rightarrow> row \<Rightarrow> strategy_config \<Rightarrow> pyfloat res" where
  "next_stop p r c =
     (let current = ps_current_stop p in
      if \<not> (isfinite (ps_entry_price p) \<and> isfinite (ps_initial_stop p) \<and> isfinite current
            \<and> isfinite (ps_high_water p)) then Inr current
      else ebind (is_finite (row_get r ''high'')) (\<lambda>hok. if \<not> hok then Inr current
      else ebind (py_float (row_get r ''high'')) (\<lambda>high.
        let high_water = pmax (ps_high_water p) high;
            risk_unit = ps_entry_price p - ps_initial_stop p
        in if risk_unit \<le> 0 then Inr current
        else if high_water < ps_entry_price p + profit_activation_r c * risk_unit then Inr current
        else ebind (is_finite (row_get r (atr_column c))) (\<lambda>aok. if \<not> aok then Inr current
        else ebind (py_float (row_get r (atr_column c))) (\<lambda>atr.
          if atr \<le> 0 then Inr current
          else Inr (pmax (pmax current (ps_entry_price p)) (high_water - trailing_atr_mult c * atr)))))))"

section \<open>Facts\<close>

lemma is_finite_Inr: "is_finite v = Inr True \<longleftrightarrow> (\<exists>x. py_float v = Inr x \<and> isfinite x)"
  by (cases "py_float v") (auto simp: is_finite_def catch_def ebind_def)

lemma is_finite_VFloat [simp]: "is_finite (VFloat x) = Inr (isfinite x)"
  by (simp add: is_finite_def)

lemma all_finite_Inr: "all_finite vs = Inr True \<longleftrightarrow> (\<forall>v\<in>set vs. \<exists>x. py_float v = Inr x \<and> isfinite x)"
proof (induction vs)
  case (Cons v vs)
  then show ?case by (cases "is_finite v") (auto simp: is_finite_Inr [symmetric] split: if_splits)
qed simp

lemma any_bad_price_False:
  "any_bad_price vs = Inr False \<longleftrightarrow> (\<forall>v\<in>set vs. \<not> is_bool v \<and> (\<exists>x. py_float v = Inr x \<and> isfinite x \<and> \<not> x \<le> 0))"
proof (induction vs)
  case (Cons v vs)
  then show ?case
    by (cases "py_float v"; cases "is_finite v")
      (auto simp: is_finite_Inr [symmetric] is_finite_def catch_def split: if_splits)
qed simp

lemma initial_stop_price_cases:
  assumes "initial_stop_price e a m = Inr s"
  obtains "s = NaN" | x y z where "py_float e = Inr x" "py_float a = Inr y" "py_float m = Inr z"
    "isfinite x" "isfinite y" "isfinite z" "0 < x" "0 < y" "0 < z" "s = x - z * y"
proof (cases "any_bad_price [e, a, m] = Inr False")
  case False
  then have "s = NaN" using assms by (auto simp: initial_stop_price_def simp del: any_bad_price.simps split: if_splits)
  then show ?thesis using that(1) by blast
next
  case True
  then have g: "\<And>v. v \<in> {e, a, m} \<Longrightarrow> \<exists>x. py_float v = Inr x \<and> isfinite x \<and> \<not> x \<le> 0"
    unfolding any_bad_price_False by auto
  from g obtain x y z where v: "py_float e = Inr x" "isfinite x" "\<not> x \<le> 0"
    "py_float a = Inr y" "isfinite y" "\<not> y \<le> 0" "py_float m = Inr z" "isfinite z" "\<not> z \<le> 0"
    by (meson insertCI)
  have "s = x - z * y"
    using assms True v by (simp add: initial_stop_price_def del: any_bad_price.simps)
  moreover have "0 < x" "0 < y" "0 < z"
    using v not_NaN_finite isfinite_0 not_less_float by blast+
  ultimately show ?thesis using that(2) v by blast
qed

lemma next_stop_cases:
  assumes "next_stop p r c = Inr s"
  obtains (keep) "s = ps_current_stop p"
  | (trail) h a where "isfinite (ps_entry_price p)" "isfinite (ps_initial_stop p)"
      "isfinite (ps_current_stop p)" "isfinite (ps_high_water p)"
      "py_float (row_get r ''high'') = Inr h" "isfinite h"
      "py_float (row_get r (atr_column c)) = Inr a" "isfinite a" "\<not> a \<le> 0"
      "\<not> pmax (ps_high_water p) h < ps_entry_price p + profit_activation_r c * (ps_entry_price p - ps_initial_stop p)"
      "s = pmax (pmax (ps_current_stop p) (ps_entry_price p)) (pmax (ps_high_water p) h - trailing_atr_mult c * a)"
  using assms
  by (auto simp: next_stop_def Let_def is_finite_Inr split: if_splits)

end
