(* ===== verification/Engine.thy ===== *)
theory Engine
  imports Strategy Breakers Sizer
begin

text \<open>
  The pure policy, \<open>src/autobit/core/models.py\<close> and \<open>src/autobit/core/engine.py\<close>: one
  decision per completed bar, from the position, the cash, the risk decision and the
  indicator row. The prices of a position are floats, the cash and the equity and the cells
  of the row are unchecked objects.
\<close>

record position_context =
  pc_entry_price :: pyfloat
  pc_initial_stop :: pyfloat
  pc_current_stop :: pyfloat
  pc_high_water :: pyfloat
  pc_quantity :: pyfloat
  pc_held_bars :: int

record decision_input =
  di_row :: row
  di_cash :: pyval
  di_equity :: pyval
  di_position :: "position_context option"
  di_has_pending_order :: bool
  di_risk :: risk_decision

datatype action = Hold | Buy | Sell

record decision =
  dc_action :: action
  dc_reason :: "string option"
  dc_quantity :: pyfloat
  dc_next_stop :: "pyfloat option"
  dc_risk :: risk_decision

record strategy_engine =
  se_strategy :: strategy_config
  se_costs :: cost_config

definition nonnegative :: "pyval \<Rightarrow> bool" where
  "nonnegative v = (is_real v \<and> \<not> is_bool v \<and>
     (case py_float v of Inl _ \<Rightarrow> False | Inr x \<Rightarrow> isfinite x \<and> 0 \<le> x))"

definition positive :: "pyval \<Rightarrow> bool" where
  "positive v = (nonnegative v \<and> (case py_float v of Inl _ \<Rightarrow> False | Inr x \<Rightarrow> 0 < x))"

definition valid_position :: "position_context \<Rightarrow> bool" where
  "valid_position p \<longleftrightarrow>
     positive (VFloat (pc_entry_price p)) \<and> positive (VFloat (pc_initial_stop p))
   \<and> positive (VFloat (pc_current_stop p)) \<and> positive (VFloat (pc_high_water p))
   \<and> positive (VFloat (pc_quantity p))
   \<and> pc_initial_stop p < pc_entry_price p \<and> pc_initial_stop p \<le> pc_current_stop p
   \<and> 0 \<le> pc_held_bars p"

definition forced_exit_reason :: "risk_decision \<Rightarrow> string option" where
  "forced_exit_reason r =
     (if ''drawdown_halt'' \<in> set (rd_reasons r) then Some ''RISK_EXIT''
      else if list_ex (\<lambda>x. x \<in> set [''system_unhealthy'', ''invalid_input'', ''invalid_config'']) (rd_reasons r)
      then Some ''SYSTEM_EXIT'' else None)"

definition initial_stop :: "strategy_engine \<Rightarrow> pyfloat \<Rightarrow> pyfloat \<Rightarrow> pyfloat res" where
  "initial_stop e entry atr =
     initial_stop_price (VFloat entry) (VFloat atr) (VFloat (initial_atr_mult (se_strategy e)))"

definition protect :: "position_context \<Rightarrow> pyfloat \<Rightarrow> bool" where
  "protect p observed \<longleftrightarrow> \<not> valid_position p \<or> \<not> positive (VFloat observed) \<or> observed \<le> pc_current_stop p"

definition hold :: "risk_decision \<Rightarrow> decision" where
  "hold r = \<lparr> dc_action = Hold, dc_reason = None, dc_quantity = 0, dc_next_stop = None, dc_risk = r \<rparr>"

definition sell :: "risk_decision \<Rightarrow> string \<Rightarrow> position_context \<Rightarrow> decision" where
  "sell r reason p = \<lparr> dc_action = Sell, dc_reason = Some reason, dc_quantity = pc_quantity p,
     dc_next_stop = None, dc_risk = r \<rparr>"

text \<open>\<open>max(position.high_water, float(row["high"])) if _positive(row.get("high"))\<close>.\<close>

definition bar_high_water :: "position_context \<Rightarrow> row \<Rightarrow> pyfloat" where
  "bar_high_water p r = (if positive (row_get r ''high'')
     then (case py_float (row_get r ''high'') of Inl _ \<Rightarrow> pc_high_water p | Inr h \<Rightarrow> pmax (pc_high_water p) h)
     else pc_high_water p)"

definition stagnant :: "strategy_config \<Rightarrow> position_context \<Rightarrow> pyfloat \<Rightarrow> bool" where
  "stagnant c p high_water \<longleftrightarrow> stagnant_bars c \<le> pc_held_bars p
     \<and> 0 < pc_entry_price p - pc_initial_stop p
     \<and> high_water < pc_entry_price p + stagnant_min_r c * (pc_entry_price p - pc_initial_stop p)"

text \<open>The branch of \<open>decide\<close> for an open position.\<close>

definition decide_position :: "strategy_engine \<Rightarrow> decision_input \<Rightarrow> position_context \<Rightarrow> decision res" where
  "decide_position e i p =
     (let risk = di_risk i; row = di_row i; c = se_strategy e in
      if \<not> positive (VFloat (pc_quantity p)) then Inr (hold risk)
      else (case forced_exit_reason risk of
        Some reason \<Rightarrow> Inr (sell risk reason p)
      | None \<Rightarrow>
        if \<not> valid_position p then Inr (sell risk ''SYSTEM_EXIT'' p)
        else if di_has_pending_order i then Inr (hold risk)
        else ebind (evaluate_close_exit row) (\<lambda>below.
        if below then Inr (sell risk ''CLOSE_EXIT'' p)
        else (let high_water = bar_high_water p row in
          if stagnant c p high_water then Inr (sell risk ''STAGNANT_EXIT'' p)
          else if max_holding_bars c \<le> pc_held_bars p then Inr (sell risk ''MAX_HOLD_EXIT'' p)
          else ebind (next_stop \<lparr> ps_entry_price = pc_entry_price p, ps_initial_stop = pc_initial_stop p,
                 ps_current_stop = pc_current_stop p, ps_high_water = high_water \<rparr> row c) (\<lambda>candidate.
            Inr \<lparr> dc_action = Hold, dc_reason = None, dc_quantity = 0,
                  dc_next_stop = Some candidate, dc_risk = risk \<rparr>)))))"

definition entry_size_input :: "strategy_engine \<Rightarrow> decision_input \<Rightarrow> pyfloat \<Rightarrow> pyfloat \<Rightarrow> pyfloat \<Rightarrow> size_input" where
  "entry_size_input e i close stop atr_pct = \<lparr> si_equity = di_equity i, si_cash = di_cash i,
     si_entry = VFloat close, si_stop = VFloat stop, si_current_atr_pct = VFloat atr_pct,
     si_baseline_atr_pct = row_get (di_row i) ''baseline_atr_pct'',
     si_risk_rate = VFloat (rd_risk_rate (di_risk i)),
     si_exposure_cap = VFloat (rd_exposure_cap (di_risk i)), si_costs = se_costs e \<rparr>"

text \<open>The branch of \<open>decide\<close> without a position: the entry.\<close>

definition decide_entry :: "strategy_engine \<Rightarrow> decision_input \<Rightarrow> decision res" where
  "decide_entry e i =
     (let risk = di_risk i; row = di_row i; c = se_strategy e in
      if di_has_pending_order i \<or> \<not> nonnegative (di_cash i) \<or> \<not> positive (di_equity i)
         \<or> rd_halted_until risk \<noteq> None \<or> rd_risk_rate risk \<le> 0 \<or> rd_exposure_cap risk \<le> 0
      then Inr (hold risk)
      else ebind (evaluate_entry row True c) (\<lambda>signal.
        if \<not> signal \<or> \<not> positive (row_get row ''close'') \<or> \<not> positive (row_get row (atr_column c))
        then Inr (hold risk)
        else ebind (py_float (row_get row ''close'')) (\<lambda>close.
        ebind (py_float (row_get row (atr_column c))) (\<lambda>atr.
        ebind (initial_stop e close atr) (\<lambda>stop.
        ebind (py_div atr close) (\<lambda>atr_pct.
        ebind (calculate_size (entry_size_input e i close stop atr_pct)) (\<lambda>size.
          Inr (if 0 < sd_quantity size
               then \<lparr> dc_action = Buy, dc_reason = Some ''ENTRY'', dc_quantity = sd_quantity size,
                      dc_next_stop = Some stop, dc_risk = risk \<rparr>
               else hold risk))))))))"

definition decide :: "strategy_engine \<Rightarrow> decision_input \<Rightarrow> decision res" where
  "decide e i = (case di_position i of
     Some p \<Rightarrow> decide_position e i p | None \<Rightarrow> decide_entry e i)"

end
