(* ===== verification/Engine_Correct.thy ===== *)
theory Engine_Correct
  imports Engine Sizer_Correct Breakers_Correct
begin

text \<open>
  The policy is correct: when it sells it sells the whole position, for the first applicable
  reason; it holds a protective stop that never falls and keeps the position valid over any
  sequence of bars; it buys only when flat, unhalted and on a signal, with a stop below the
  price and a size inside the budgets; and a hard drawdown liquidates.
\<close>

section \<open>Validation\<close>

lemma positive_VFloat [simp]: "positive (VFloat x) \<longleftrightarrow> isfinite x \<and> 0 < x"
  by (auto simp: positive_def nonnegative_def less_imp_le_float)

lemma positive_py_float: "positive v \<Longrightarrow> \<exists>x. py_float v = Inr x \<and> isfinite x \<and> 0 < x"
  by (auto simp: positive_def nonnegative_def split: sum.splits)

lemma valid_position_iff:
  "valid_position p \<longleftrightarrow> isfinite (pc_entry_price p) \<and> isfinite (pc_initial_stop p)
     \<and> isfinite (pc_current_stop p) \<and> isfinite (pc_high_water p) \<and> isfinite (pc_quantity p)
     \<and> 0 < pc_initial_stop p \<and> 0 < pc_high_water p \<and> 0 < pc_quantity p
     \<and> pc_initial_stop p < pc_entry_price p \<and> pc_initial_stop p \<le> pc_current_stop p
     \<and> 0 \<le> pc_held_bars p"
  by (auto simp: valid_position_def fl_ord)

lemma bar_high_water:
  assumes "isfinite (pc_high_water p)"
  shows "isfinite (bar_high_water p r)" "pc_high_water p \<le> bar_high_water p r"
proof -
  have "isfinite (bar_high_water p r) \<and> pc_high_water p \<le> bar_high_water p r"
  proof (cases "positive (row_get r ''high'')")
    case True
    then obtain h where "py_float (row_get r ''high'') = Inr h" "isfinite h"
      using positive_py_float by blast
    then show ?thesis using True assms
      by (auto simp: bar_high_water_def pmax_def fl_ord)
  qed (simp add: bar_high_water_def assms le_refl_iff not_NaN_finite)
  then show "isfinite (bar_high_water p r)" "pc_high_water p \<le> bar_high_water p r" by auto
qed

section \<open>Exits\<close>

text \<open>
  The reasons for an exit, in the order of the source: the specification of the priority.
  \<open>below\<close> is the close exit of the row.
\<close>

definition exit_reasons :: "strategy_engine \<Rightarrow> decision_input \<Rightarrow> position_context \<Rightarrow> bool \<Rightarrow> (bool \<times> string) list" where
  "exit_reasons e i p below =
     [(forced_exit_reason (di_risk i) = Some ''RISK_EXIT'', ''RISK_EXIT''),
      (forced_exit_reason (di_risk i) = Some ''SYSTEM_EXIT'' \<or> \<not> valid_position p, ''SYSTEM_EXIT''),
      (\<not> di_has_pending_order i \<and> below, ''CLOSE_EXIT''),
      (\<not> di_has_pending_order i \<and> stagnant (se_strategy e) p (bar_high_water p (di_row i)), ''STAGNANT_EXIT''),
      (\<not> di_has_pending_order i \<and> max_holding_bars (se_strategy e) \<le> pc_held_bars p, ''MAX_HOLD_EXIT'')]"

fun first_reason :: "(bool \<times> string) list \<Rightarrow> string option" where
  "first_reason [] = None"
| "first_reason ((b, r) # rs) = (if b then Some r else first_reason rs)"

lemma forced_exit_reason_cases:
  "forced_exit_reason r = None \<or> forced_exit_reason r = Some ''RISK_EXIT'' \<or> forced_exit_reason r = Some ''SYSTEM_EXIT''"
  by (auto simp: forced_exit_reason_def)

lemma decide_position_spec:
  assumes "decide e i = Inr d" "di_position i = Some p" "positive (VFloat (pc_quantity p))"
    "evaluate_close_exit (di_row i) = Inr below"
  shows "(case first_reason (exit_reasons e i p below) of
     Some r \<Rightarrow> d = sell (di_risk i) r p
   | None \<Rightarrow> dc_action d = Hold \<and> dc_reason d = None \<and> dc_quantity d = 0)"
  using assms forced_exit_reason_cases [of "di_risk i"]
  by (auto simp: decide_def decide_position_def exit_reasons_def hold_def Let_def split: if_splits)

lemma decide_no_quantity:
  "decide e i = Inr d \<Longrightarrow> di_position i = Some p \<Longrightarrow> \<not> positive (VFloat (pc_quantity p)) \<Longrightarrow> d = hold (di_risk i)"
  by (simp add: decide_def decide_position_def)

text \<open>
  C34: exits follow the priority of the source. An open position is sold entirely, for the
  first reason that applies in the order risk, system, close, stagnation and maximum
  holding time, and it is held when none applies; nothing is ever bought.
\<close>

theorem decide_exit_priority:
  assumes "decide e i = Inr d" "di_position i = Some p" "positive (VFloat (pc_quantity p))"
    "evaluate_close_exit (di_row i) = Inr below"
  shows "(case first_reason (exit_reasons e i p below) of
     Some r \<Rightarrow> dc_action d = Sell \<and> dc_reason d = Some r \<and> dc_quantity d = pc_quantity p
   | None \<Rightarrow> dc_action d = Hold \<and> dc_reason d = None \<and> dc_quantity d = 0)"
  using decide_position_spec [OF assms] by (auto simp: sell_def split: option.splits)

text \<open>A position of 0.5 coins bought at 1000 with its stop at 950, on two bars.\<close>

definition sample_position :: position_context where
  "sample_position = \<lparr> pc_entry_price = flit 1000 1, pc_initial_stop = flit 950 1,
     pc_current_stop = flit 950 1, pc_high_water = flit 1010 1, pc_quantity = flit 1 2, pc_held_bars = 3 \<rparr>"

definition sample_bar :: "int \<Rightarrow> int \<Rightarrow> row" where
  "sample_bar high close = map_of [(''high'', VFloat (flit high 1)), (''close'', VFloat (flit close 1)),
     (''exit_low'', VFloat (flit 960 1)), (''atr_14'', VFloat (flit 20 1))]"

definition sample_engine :: strategy_engine where
  "sample_engine = \<lparr> se_strategy = StrategyConfig, se_costs = CostConfig \<rparr>"

definition open_risk :: risk_decision where
  "open_risk = \<lparr> rd_risk_rate = BASE_RISK_RATE, rd_exposure_cap = MAX_EXPOSURE, rd_halted_until = None, rd_reasons = [] \<rparr>"

definition sample_input :: "row \<Rightarrow> decision_input" where
  "sample_input r = \<lparr> di_row = r, di_cash = VInt 500, di_equity = VInt 1000, di_position = Some sample_position,
     di_has_pending_order = False, di_risk = open_risk \<rparr>"

lemma sample_close_exit:
  "decide sample_engine (sample_input (sample_bar 1000 950)) = Inr (sell open_risk ''CLOSE_EXIT'' sample_position)"
  "evaluate_close_exit (di_row (sample_input (sample_bar 1000 950))) = Inr True"
  by code_simp+

theorem decide_exit_priority_witness:
  "dc_reason (sell open_risk ''CLOSE_EXIT'' sample_position) = Some ''CLOSE_EXIT''"
proof -
  have p: "positive (VFloat (pc_quantity sample_position))" by code_simp
  have r: "first_reason (exit_reasons sample_engine (sample_input (sample_bar 1000 950)) sample_position True)
    = Some ''CLOSE_EXIT''" by code_simp
  show ?thesis
    using decide_exit_priority [OF sample_close_exit(1) _ p sample_close_exit(2)] r
    by (simp add: sample_input_def)
qed

section \<open>The protective stop\<close>

text \<open>The position after a held bar: the new stop and the high of the bar.\<close>

definition trail :: "position_context \<Rightarrow> row \<Rightarrow> pyfloat \<Rightarrow> position_context" where
  "trail p r s = p\<lparr>pc_current_stop := s, pc_high_water := bar_high_water p r,
     pc_held_bars := pc_held_bars p + 1\<rparr>"

lemma decide_hold_stop:
  assumes "decide e i = Inr d" "di_position i = Some p" "dc_next_stop d = Some s"
  shows "valid_position p \<and> next_stop \<lparr> ps_entry_price = pc_entry_price p, ps_initial_stop = pc_initial_stop p,
           ps_current_stop = pc_current_stop p, ps_high_water = bar_high_water p (di_row i) \<rparr>
           (di_row i) (se_strategy e) = Inr s"
  using assms
  by (auto simp: decide_def decide_position_def hold_def sell_def Let_def split: if_splits option.splits)

lemma pmax_finite: "isfinite a \<Longrightarrow> b \<noteq> PInf \<Longrightarrow> isfinite (pmax a b)"
  by (cases a; cases b) (auto simp: pmax_def less_pyfloat_def)

lemma le_not_PInf: "x \<le> y \<Longrightarrow> isfinite y \<Longrightarrow> x \<noteq> PInf"
  by (cases y) auto

text \<open>The floats of a row are machine floats, as those of a float64 frame are.\<close>

definition wf_row :: "row \<Rightarrow> bool" where
  "wf_row r \<longleftrightarrow> (\<forall>k v. r k = Some v \<longrightarrow> wf_val v)"

lemma wf_row_get: "wf_row r \<Longrightarrow> wf_val (row_get r k)"
  by (auto simp: wf_row_def row_get_def split: option.splits)

lemma minus_nonneg_le:
  assumes "isfinite h" "wf_float h" "0 \<le> y"
  shows "h - y \<noteq> PInf"
proof (cases "isfinite y")
  case True
  have "h - y \<le> h"
    using rt_sub [OF assms(1) True] assms rat_nonneg [OF assms(3)] by (intro rt_le) auto
  then show ?thesis using assms(1) le_not_PInf by blast
next
  case False
  then have "y = PInf" using assms(3) by (cases y) (auto simp: zero_pyfloat_def)
  then show ?thesis using assms(1) by (cases h) (auto simp: minus_pyfloat_def)
qed

lemma fmul_nonneg_any:
  assumes "0 \<le> m" "isfinite a" "0 < a"
  shows "0 \<le> m * (a :: pyfloat)"
proof (cases "isfinite m")
  case True
  then show ?thesis using assms by (intro fmul_nonneg) (auto simp: less_imp_le_float)
next
  case False
  then have "m = PInf" using assms(1) by (cases m) (auto simp: zero_pyfloat_def)
  then show ?thesis using assms(2,3)
    by (cases a) (auto simp: times_pyfloat_def fmul_def fl_ord zero_pyfloat_def inf_of_sign_def bval_pos_iff)
qed


lemma next_stop_bounds:
  assumes "next_stop p r c = Inr s" "wf_float (ps_high_water p)" "wf_row r" "0 \<le> trailing_atr_mult c"
    "isfinite (ps_current_stop p)"
  shows "isfinite s" "ps_current_stop p \<le> s"
    "s = ps_current_stop p \<or> ps_entry_price p \<le> s"
proof -
  have "isfinite s \<and> ps_current_stop p \<le> s \<and> (s = ps_current_stop p \<or> ps_entry_price p \<le> s)"
    using assms(1)
  proof (cases rule: next_stop_cases)
    case keep
    then show ?thesis using assms(5) by (simp add: le_refl_iff not_NaN_finite)
  next
    case (trail h a)
    have hw: "isfinite (pmax (ps_high_water p) h)" "wf_float (pmax (ps_high_water p) h)"
      using trail(4,5,6) assms(2,3) by (auto simp: pmax_def intro: py_float_wf wf_row_get)
    have "0 < a" using trail(8,9) isfinite_0 not_less_float not_NaN_finite by blast
    then have "pmax (ps_high_water p) h - trailing_atr_mult c * a \<noteq> PInf"
      using minus_nonneg_le [OF hw] fmul_nonneg_any [OF assms(4)] trail(8) by blast
    moreover have m: "isfinite (pmax (ps_current_stop p) (ps_entry_price p))"
      using trail(1,3) by (simp add: pmax_def)
    ultimately have "isfinite s" unfolding trail(11) by (intro pmax_finite [OF m])
    moreover have "pmax (ps_current_stop p) (ps_entry_price p) \<le> s"
      unfolding trail(11) using m by (simp add: pmax_ge1 not_NaN_finite)
    ultimately show ?thesis
      using pmax_ge [of "ps_current_stop p" "ps_entry_price p"] trail(1,3) not_NaN_finite le_trans_float
      by blast
  qed
  then show "isfinite s" "ps_current_stop p \<le> s" "s = ps_current_stop p \<or> ps_entry_price p \<le> s" by auto
qed

text \<open>
  A position held over a list of bars: the engine decides on each, and the caller installs
  the stop and the high of the bar. The run ends at the first decision that is no hold.
\<close>

fun held_bars_run :: "strategy_engine \<Rightarrow> risk_decision \<Rightarrow> row list \<Rightarrow> position_context \<Rightarrow> position_context list res" where
  "held_bars_run e risk [] p = Inr [p]"
| "held_bars_run e risk (r # rs) p =
     ebind (decide e \<lparr> di_row = r, di_cash = VInt 0, di_equity = VInt 0, di_position = Some p,
                      di_has_pending_order = False, di_risk = risk \<rparr>) (\<lambda>d.
       case dc_next_stop d of None \<Rightarrow> Inr [p]
       | Some s \<Rightarrow> ebind (held_bars_run e risk rs (trail p r s)) (\<lambda>ps. Inr (p # ps)))"

lemma trail_valid:
  assumes "valid_position p" "wf_float (pc_high_water p)" "wf_row r" "0 \<le> trailing_atr_mult (se_strategy e)"
    "next_stop \<lparr> ps_entry_price = pc_entry_price p, ps_initial_stop = pc_initial_stop p,
        ps_current_stop = pc_current_stop p, ps_high_water = bar_high_water p r \<rparr> r (se_strategy e) = Inr s"
  shows "valid_position (trail p r s) \<and> wf_float (pc_high_water (trail p r s)) \<and> pc_current_stop p \<le> s"
proof -
  have wf: "wf_float (bar_high_water p r)"
    using assms(2) py_float_wf [OF wf_row_get [OF assms(3)]]
    by (auto simp: bar_high_water_def pmax_def split: sum.splits)
  have V: "isfinite (pc_high_water p)" "isfinite (pc_current_stop p)" "pc_initial_stop p \<le> pc_current_stop p"
    using assms(1) by (auto simp: valid_position_iff)
  have S: "isfinite s" "pc_current_stop p \<le> s"
    using next_stop_bounds [OF assms(5)] wf assms(3,4) V by simp_all
  have "0 < bar_high_water p r"
    using bar_high_water(2) [OF V(1)] assms(1) less_le_trans_float by (auto simp: valid_position_iff)
  then show ?thesis
    using assms(1) wf S bar_high_water(1) [OF V(1), of r] le_trans_float [OF V(3) S(2)]
    by (simp add: trail_def valid_position_iff)
qed

lemma held_bars_run_sorted:
  assumes "held_bars_run e risk rs p = Inr ps" "valid_position p" "wf_float (pc_high_water p)"
    "\<forall>r \<in> set rs. wf_row r" "0 \<le> trailing_atr_mult (se_strategy e)"
  shows "ps \<noteq> [] \<and> hd ps = p \<and> sorted_wrt (\<lambda>a b. pc_current_stop a \<le> pc_current_stop b) ps
    \<and> (\<forall>q \<in> set ps. valid_position q \<and> pc_current_stop p \<le> pc_current_stop q
         \<and> pc_entry_price q = pc_entry_price p \<and> pc_initial_stop q = pc_initial_stop p
         \<and> pc_quantity q = pc_quantity p)"
  using assms
proof (induction rs arbitrary: p ps)
  case Nil
  then show ?case by (auto simp: le_refl_iff valid_position_iff not_NaN_finite)
next
  case (Cons r rs)
  let ?i = "\<lparr> di_row = r, di_cash = VInt 0, di_equity = VInt 0, di_position = Some p,
                      di_has_pending_order = False, di_risk = risk \<rparr>"
  obtain d where d: "decide e ?i = Inr d" using Cons.prems(1) by auto
  have refl: "pc_current_stop p \<le> pc_current_stop p"
    using Cons.prems(2) by (auto simp: le_refl_iff valid_position_iff not_NaN_finite)
  show ?case
  proof (cases "dc_next_stop d")
    case None
    then have "ps = [p]" using Cons.prems(1) d by simp
    then show ?thesis using Cons.prems(2) refl by simp
  next
    case (Some s)
    obtain qs where qs: "held_bars_run e risk rs (trail p r s) = Inr qs" "ps = p # qs"
      using Cons.prems(1) d Some by auto
    have "next_stop \<lparr> ps_entry_price = pc_entry_price p, ps_initial_stop = pc_initial_stop p,
        ps_current_stop = pc_current_stop p, ps_high_water = bar_high_water p r \<rparr> r (se_strategy e) = Inr s"
      using decide_hold_stop [OF d _ Some] by simp
    from trail_valid [OF Cons.prems(2,3) _ Cons.prems(5) this]
    have t: "valid_position (trail p r s)" "wf_float (pc_high_water (trail p r s))" "pc_current_stop p \<le> s"
      using Cons.prems(4) by auto
    note ih = Cons.IH [OF qs(1) t(1,2) _ Cons.prems(5)]
    have ih': "qs \<noteq> []" "sorted_wrt (\<lambda>a b. pc_current_stop a \<le> pc_current_stop b) qs"
      "\<And>q. q \<in> set qs \<Longrightarrow> valid_position q \<and> s \<le> pc_current_stop q
         \<and> pc_entry_price q = pc_entry_price p \<and> pc_initial_stop q = pc_initial_stop p
         \<and> pc_quantity q = pc_quantity p"
      using ih Cons.prems(4) by (auto simp: trail_def)
    have "\<And>q. q \<in> set qs \<Longrightarrow> pc_current_stop p \<le> pc_current_stop q"
      using ih'(3) t(3) le_trans_float by blast
    then show ?thesis using ih' Cons.prems(2) refl by (simp add: qs(2))
  qed
qed

text \<open>
  C16: the protective stop is a ratchet. Over any sequence of completed bars on which a valid
  position is held, every position stays valid, keeps its entry, initial stop and quantity,
  and the stop never falls.
\<close>

theorem protective_stop_ratchet:
  assumes "held_bars_run e risk rs p = Inr ps" "valid_position p" "wf_float (pc_high_water p)"
    "\<forall>r \<in> set rs. wf_row r" "0 \<le> trailing_atr_mult (se_strategy e)"
  shows "hd ps = p \<and> sorted_wrt (\<lambda>a b. pc_current_stop a \<le> pc_current_stop b) ps
    \<and> (\<forall>q \<in> set ps. valid_position q \<and> pc_current_stop p \<le> pc_current_stop q
         \<and> pc_entry_price q = pc_entry_price p \<and> pc_initial_stop q = pc_initial_stop p
         \<and> pc_quantity q = pc_quantity p)"
  using held_bars_run_sorted [OF assms] by blast


lemma wf_sample_bar: "wf_row (sample_bar h c)"
  by (auto simp: wf_row_def sample_bar_def split: if_splits)

lemma sample_held_run:
  "\<exists>ps. held_bars_run sample_engine open_risk [sample_bar 1150 1140, sample_bar 1120 1110] sample_position = Inr ps
     \<and> List.map pc_current_stop ps = [flit 950 1, flit 1090 1, flit 1090 1]"
proof -
  have "(case held_bars_run sample_engine open_risk [sample_bar 1150 1140, sample_bar 1120 1110] sample_position of
      Inl e \<Rightarrow> False | Inr ps \<Rightarrow> List.map pc_current_stop ps = [flit 950 1, flit 1090 1, flit 1090 1])"
    by code_simp
  then show ?thesis by (auto split: sum.splits)
qed

theorem protective_stop_ratchet_witness:
  "\<exists>ps. held_bars_run sample_engine open_risk [sample_bar 1150 1140, sample_bar 1120 1110] sample_position = Inr ps
     \<and> (\<forall>q \<in> set ps. valid_position q \<and> flit 950 1 \<le> pc_current_stop q)"
proof -
  obtain ps where ps: "held_bars_run sample_engine open_risk [sample_bar 1150 1140, sample_bar 1120 1110] sample_position = Inr ps"
    using sample_held_run by blast
  have w: "wf_float (pc_high_water sample_position)" by (simp add: sample_position_def)
  have h: "valid_position sample_position" "0 \<le> trailing_atr_mult (se_strategy sample_engine)" "pc_current_stop sample_position = flit 950 1"
    by code_simp+
  show ?thesis
    using protective_stop_ratchet [OF ps h(1) w _ h(2)] ps h(3) by (auto simp: wf_sample_bar)
qed


section \<open>Entries\<close>

text \<open>The engine's view of a row whose entry is taken.\<close>

definition entry_open :: "decision_input \<Rightarrow> bool" where
  "entry_open i \<longleftrightarrow> di_position i = None \<and> \<not> di_has_pending_order i \<and> rd_halted_until (di_risk i) = None
     \<and> \<not> rd_risk_rate (di_risk i) \<le> 0 \<and> \<not> rd_exposure_cap (di_risk i) \<le> 0
     \<and> nonnegative (di_cash i) \<and> positive (di_equity i)"

lemma decide_buy_cases:
  assumes "decide e i = Inr d" "dc_action d = Buy"
  obtains close atr stop size where "entry_open i"
    "evaluate_entry (di_row i) True (se_strategy e) = Inr True"
    "positive (row_get (di_row i) ''close'')" "py_float (row_get (di_row i) ''close'') = Inr close"
    "py_float (row_get (di_row i) (atr_column (se_strategy e))) = Inr atr"
    "initial_stop e close atr = Inr stop" "\<not> feq close 0"
    "calculate_size (entry_size_input e i close stop (fdiv atr close)) = Inr size"
    "0 < sd_quantity size" "dc_quantity d = sd_quantity size" "dc_next_stop d = Some stop" "dc_reason d = Some ''ENTRY''"
proof (cases "di_position i")
  case (Some p)
  then show ?thesis using assms
    by (auto simp: decide_def decide_position_def hold_def sell_def Let_def split: if_splits option.splits)
next
  case None
  then show ?thesis using assms that
    by (auto simp: decide_def decide_entry_def hold_def Let_def entry_open_def py_div_Inr split: if_splits)
qed

lemma wf_entry_size_input:
  assumes "wf_row (di_row i)" "wf_val (di_cash i)" "wf_val (di_equity i)"
    "wf_float (rd_risk_rate (di_risk i))" "wf_float (rd_exposure_cap (di_risk i))"
    "wf_float close" "wf_float stop" "wf_float p"
  shows "wf_size_input (entry_size_input e i close stop p)"
  using assms wf_row_get [OF assms(1)] by (simp add: wf_size_input_def entry_size_input_def)


text \<open>
  C2: an entry is safe end to end. The policy buys only without a position or a pending
  order, on a signal of the row, under a risk evaluation that validates and has no active
  halt; the stop is positive and below the price; and the quantity keeps the loss at the stop
  within the risk rate (2 percent at most) of the equity, the value within the exposure cap,
  and the cost within the cash, up to the rounding of one division.
\<close>

theorem buy_within_budgets:
  assumes d: "decide e i = Inr d" "dc_action d = Buy" and risk: "evaluate_risk s = Inr (di_risk i)"
    and wf: "wf_row (di_row i)" "wf_val (di_cash i)" "wf_val (di_equity i)"
  shows "entry_open i \<and> evaluate_entry (di_row i) True (se_strategy e) = Inr True
    \<and> (\<exists>h f. ruled_by s h f \<and> \<not> halting f) \<and> rd_risk_rate (di_risk i) \<le> flit 2 100
    \<and> (\<exists>close stop v. py_float (row_get (di_row i) ''close'') = Inr close \<and> dc_next_stop d = Some stop
        \<and> 0 < stop \<and> stop < close \<and> 0 < dc_quantity d
        \<and> v_entry v = close \<and> v_stop v = stop \<and> v_risk v = rd_risk_rate (di_risk i)
        \<and> v_cap v = rd_exposure_cap (di_risk i) \<and> py_float (di_cash i) = Inr (v_cash v)
        \<and> py_float (di_equity i) = Inr (v_equity v)
        \<and> rat_of (dc_quantity d) * rat_of (effective_loss v)
            \<le> rat_of (v_equity v * v_risk v) * (1 + ulp64) + rat_of (effective_loss v) * tiny64
        \<and> rat_of (dc_quantity d) * rat_of (expected_buy_fill v)
            \<le> rat_of (v_equity v * v_cap v) * (1 + ulp64) + rat_of (expected_buy_fill v) * tiny64
        \<and> rat_of (dc_quantity d) * rat_of (expected_buy_fill v * (1 + v_fee v))
            \<le> rat_of (v_cash v) * (1 + ulp64) + rat_of (expected_buy_fill v * (1 + v_fee v)) * tiny64)"
proof -
  from d obtain close atr stop size where b: "entry_open i"
    "evaluate_entry (di_row i) True (se_strategy e) = Inr True"
    "positive (row_get (di_row i) ''close'')" "py_float (row_get (di_row i) ''close'') = Inr close"
    "initial_stop e close atr = Inr stop" "\<not> feq close 0"
    "calculate_size (entry_size_input e i close stop (fdiv atr close)) = Inr size"
    "0 < sd_quantity size" "dc_quantity d = sd_quantity size" "dc_next_stop d = Some stop"
    by (rule decide_buy_cases)
  let ?i = "entry_size_input e i close stop (fdiv atr close)"
  have stop: "wf_float stop"
    using initial_stop_price_cases [OF b(5) [unfolded initial_stop_def]] by (metis wf_minus wf_float.simps)
  have w: "wf_size_input ?i"
    using wf wf_risk_decision [OF risk] stop b(6) py_float_wf [OF wf_row_get [OF wf(1)] b(4)]
    by (intro wf_entry_size_input) (auto intro: wf_fdiv)
  obtain v where v: "size_values_of ?i = Some v" "valid_values v"
    using positive_size [OF w b(7) positive_not_invalid [OF w b(7,8)]] by metis
  have val: "v_entry v = close" "v_stop v = stop" "v_risk v = rd_risk_rate (di_risk i)"
    "v_cap v = rd_exposure_cap (di_risk i)" "py_float (di_cash i) = Inr (v_cash v)"
    "py_float (di_equity i) = Inr (v_equity v)"
    using v(1) by (auto simp: size_values_of_Some entry_size_input_def finite_value_def split: if_splits sum.splits)
  have "0 < stop" "stop < close" using v(2) val by (auto simp: valid_values_def)
  moreover have "rd_risk_rate (di_risk i) \<le> flit 2 100"
    using risk_bounded [OF risk] by (simp add: BASE_RISK_RATE_def)
  moreover have "0 < rd_risk_rate (di_risk i)"
  proof -
    have "\<not> rd_risk_rate (di_risk i) \<le> 0" using b(1) by (simp add: entry_open_def)
    moreover have "rd_risk_rate (di_risk i) \<noteq> NaN" using risk_bounded [OF risk] by auto
    ultimately show ?thesis using not_less_float [of "0" "rd_risk_rate (di_risk i)"] not_NaN_finite by fastforce
  qed
  ultimately show ?thesis
    using b(1,2,4,8,10) val size_budgets [OF w b(7) v(1) b(8)] risk_open_iff [OF risk] unfolding b(9) by blast
qed

definition sample_entry_row :: row where
  "sample_entry_row = map_of [(''close'', VFloat (flit 1000 1)), (''ema_200'', VFloat (flit 900 1)),
     (''entry_high'', VFloat (flit 990 1)), (''previous_close'', VFloat (flit 980 1)),
     (''previous_entry_high'', VFloat (flit 985 1)), (''atr_14'', VFloat (flit 20 1)),
     (''baseline_atr_pct'', VFloat (flit 1 100)), (''warmup_complete'', VNpBool True)]"

definition sample_entry :: decision_input where
  "sample_entry = \<lparr> di_row = sample_entry_row, di_cash = VInt 500, di_equity = VInt 1000, di_position = None,
     di_has_pending_order = False, di_risk = projr (evaluate_risk sample_snapshot) \<rparr>"

lemma sample_buy:
  "\<exists>d. decide sample_engine sample_entry = Inr d \<and> dc_action d = Buy \<and> dc_next_stop d = Some (flit 950 1)"
proof -
  have "(case decide sample_engine sample_entry of Inl _ \<Rightarrow> False
    | Inr d \<Rightarrow> dc_action d = Buy \<and> dc_next_stop d = Some (flit 950 1))" by code_simp
  then show ?thesis by (auto split: sum.splits)
qed

theorem buy_within_budgets_witness:
  "\<exists>d. decide sample_engine sample_entry = Inr d \<and> entry_open sample_entry
     \<and> (\<exists>h f. ruled_by sample_snapshot h f \<and> \<not> halting f) \<and> dc_next_stop d = Some (flit 950 1) \<and> 0 < dc_quantity d"
proof -
  obtain d where d: "decide sample_engine sample_entry = Inr d" "dc_action d = Buy" "dc_next_stop d = Some (flit 950 1)"
    using sample_buy by blast
  have r: "evaluate_risk sample_snapshot = Inr (di_risk sample_entry)"
    by (simp add: sample_entry_def sample_decision)
  have w: "wf_row (di_row sample_entry)" "wf_val (di_cash sample_entry)" "wf_val (di_equity sample_entry)"
    by (auto simp: sample_entry_def sample_entry_row_def wf_row_def split: if_splits)
  show ?thesis using buy_within_budgets [OF d(1,2) r w] d by auto
qed

text \<open>
  C35: a hard drawdown liquidates. When the risk evaluation of the account is in the 72 hours
  of a drawdown event, or cannot validate its inputs, an open position is sold entirely, as
  a risk exit or a system exit, whatever the bar shows and even over a pending order.
\<close>

theorem drawdown_liquidates:
  assumes risk: "evaluate_risk s = Inr (di_risk i)" and p: "di_position i = Some p" "positive (VFloat (pc_quantity p))"
  shows "(\<forall>h f. ruled_by s h f \<and> drawdown_halting (rf_now f) (rf_drawdown f) (rf_recovery f)
            \<longrightarrow> decide e i = Inr (sell (di_risk i) ''RISK_EXIT'' p))
    \<and> ((\<forall>h f. \<not> ruled_by s h f) \<longrightarrow> decide e i = Inr (sell (di_risk i) ''SYSTEM_EXIT'' p))"
proof -
  have "decide e i = Inr (sell (di_risk i) ''RISK_EXIT'' p)"
    if "ruled_by s h f" "drawdown_halting (rf_now f) (rf_drawdown f) (rf_recovery f)" for h f
    using drawdown_reported [OF risk that(1)] that(2) p
    by (simp add: decide_def decide_position_def forced_exit_reason_def)
  moreover have "decide e i = Inr (sell (di_risk i) ''SYSTEM_EXIT'' p)" if "\<forall>h f. \<not> ruled_by s h f"
    using blocked_reported [OF risk that] p
    by (auto simp: decide_def decide_position_def forced_exit_reason_def)
  ultimately show ?thesis by blast
qed


definition drawdown_snapshot :: risk_snapshot where
  "drawdown_snapshot = sample_snapshot\<lparr>rs_drawdown := VFloat (flit 15 100), rs_recovery_started_at := None\<rparr>"

definition drawdown_facts :: risk_facts where
  "drawdown_facts = the (facts_of drawdown_snapshot False)"

definition drawdown_input :: decision_input where
  "drawdown_input = (sample_input (sample_bar 1000 950))\<lparr>di_risk := projr (evaluate_risk drawdown_snapshot)\<rparr>"

theorem drawdown_liquidates_witness:
  "decide sample_engine drawdown_input = Inr (sell (di_risk drawdown_input) ''RISK_EXIT'' sample_position)"
proof -
  have n: "facts_of drawdown_snapshot False \<noteq> None" "is_ok (evaluate_risk drawdown_snapshot)" by code_simp+
  have r: "evaluate_risk drawdown_snapshot = Inr (di_risk drawdown_input)"
    using n(2) by (auto simp: drawdown_input_def is_ok_iff)
  have h: "rs_system_healthy drawdown_snapshot = VBool True" "rs_volatility_halted drawdown_snapshot = VBool False"
    "valid_risk_config (rs_config drawdown_snapshot)"
    "drawdown_halting (rf_now drawdown_facts) (rf_drawdown drawdown_facts) (rf_recovery drawdown_facts)"
    "positive (VFloat (pc_quantity sample_position))"
    by code_simp+
  have "ruled_by drawdown_snapshot False drawdown_facts"
    using h n(1) by (auto simp: ruled_by_def drawdown_facts_def)
  then show ?thesis
    using drawdown_liquidates [OF r _ h(5)] h(4) by (auto simp: drawdown_input_def sample_input_def)
qed

end
