(* ===== verification/RiskState.thy ===== *)
theory RiskState
  imports Breakers
begin

text \<open>
  Risk accumulation, \<open>src/autobit/core/risk_state.py\<close>: the immutable account of equity
  peak, baselines, halts and trade cursor, advanced once per completed bar. The datetimes
  kept in the state were normalised to UTC when they were stored and are instants; those of
  an observation are unchecked.
\<close>

record risk_state =
  rk_equity_peak :: pyfloat
  rk_daily_date :: "int option"
  rk_daily_baseline_equity :: pyfloat
  rk_equity_history :: "(instant \<times> pyfloat) list"
  rk_risk_started_at :: "instant option"
  rk_last_equity :: pyfloat
  rk_last_risk_at :: "instant option"
  rk_consecutive_losses :: int
  rk_processed_trade_count :: int
  rk_recovery_started_at :: "instant option"
  rk_daily_halt_started_at :: "instant option"
  rk_weekly_halt_started_at :: "instant option"
  rk_streak_halt_started_at :: "instant option"
  rk_profitable_trades :: int
  rk_volatility_halted :: bool
  rk_volatility_stable_bars :: int
  rk_decision :: risk_decision
  rk_initial_equity :: pyfloat

definition RiskState :: risk_state where
  "RiskState = \<lparr> rk_equity_peak = flit 100 1, rk_daily_date = None, rk_daily_baseline_equity = flit 100 1,
     rk_equity_history = [], rk_risk_started_at = None, rk_last_equity = flit 100 1,
     rk_last_risk_at = None, rk_consecutive_losses = 0, rk_processed_trade_count = 0,
     rk_recovery_started_at = None, rk_daily_halt_started_at = None, rk_weekly_halt_started_at = None,
     rk_streak_halt_started_at = None, rk_profitable_trades = 0, rk_volatility_halted = False,
     rk_volatility_stable_bars = 0,
     rk_decision = \<lparr> rd_risk_rate = flit 2 100, rd_exposure_cap = flit 70 100,
        rd_halted_until = None, rd_reasons = [] \<rparr>,
     rk_initial_equity = flit 100 1 \<rparr>"

record closed_trade_observation =
  ct_net_pnl :: pyfloat
  ct_exit_time :: pydatetime

record risk_observation =
  ro_now :: pydatetime
  ro_equity :: pyfloat
  ro_closed_trades :: "closed_trade_observation list"
  ro_volatility_ratio :: pyfloat
  ro_volatility_bar_valid :: pyval
  ro_system_healthy :: pyval

definition loss_from_baseline :: "pyfloat \<Rightarrow> pyfloat \<Rightarrow> pyfloat" where
  "loss_from_baseline equity baseline =
     (if 0 < baseline then pmax 0 (1 - fdiv equity baseline) else 0)"

section \<open>Validation\<close>

fun is_py_bool :: "pyval \<Rightarrow> bool" where
  "is_py_bool (VBool _) = True"
| "is_py_bool _ = False"

text \<open>The loop over the trades, with the index and the previous exit time.\<close>

fun validate_trades ::
  "risk_state \<Rightarrow> pydatetime \<Rightarrow> int \<Rightarrow> instant option \<Rightarrow> closed_trade_observation list \<Rightarrow> unit res" where
  "validate_trades prior now index previous [] = Inr ()"
| "validate_trades prior now index previous (t # ts) =
     ebind (ensure (is_aware (ct_exit_time t) \<and> isfinite (ct_net_pnl t)
         \<and> instant_of (ct_exit_time t) \<le> instant_of now
         \<and> (case previous of None \<Rightarrow> True | Some p \<Rightarrow> p \<le> instant_of (ct_exit_time t)))
       (ValueError ''completed trade chronology is invalid'')) (\<lambda>_.
     ebind (ensure (\<not> (rk_processed_trade_count prior \<le> index
         \<and> (case rk_last_risk_at prior of None \<Rightarrow> False | Some l \<Rightarrow> instant_of (ct_exit_time t) < l)))
       (ValueError ''new trade precedes processed risk history'')) (\<lambda>_.
     validate_trades prior now (index + 1) (Some (instant_of (ct_exit_time t))) ts))"

definition validate_observation :: "risk_state \<Rightarrow> risk_observation \<Rightarrow> unit res" where
  "validate_observation prior o1 =
     ebind (ensure (is_aware (ro_now o1)) (ValueError ''risk timestamp must be timezone aware'')) (\<lambda>_.
     ebind (ensure (isfinite (ro_equity o1) \<and> \<not> ro_equity o1 < 0)
       (ValueError ''mark-to-market equity is invalid'')) (\<lambda>_.
     ebind (ensure (isfinite (rk_initial_equity prior) \<and> \<not> rk_initial_equity prior \<le> 0)
       (ValueError ''initial equity is invalid'')) (\<lambda>_.
     ebind (ensure (is_py_bool (ro_volatility_bar_valid o1) \<and> is_py_bool (ro_system_healthy o1))
       (ValueError ''risk validity flags must be boolean'')) (\<lambda>_.
     ebind (ensure (0 \<le> rk_processed_trade_count prior
         \<and> rk_processed_trade_count prior \<le> int (length (ro_closed_trades o1)))
       (ValueError ''risk trade cursor is ahead of broker history'')) (\<lambda>_.
     ebind (validate_trades prior (ro_now o1) 0 None (ro_closed_trades o1)) (\<lambda>_.
     (case rk_last_risk_at prior of None \<Rightarrow> Inr ()
      | Some l \<Rightarrow>
          ebind (ensure (\<not> instant_of (ro_now o1) < l) (ValueError ''risk timestamp is reversed'')) (\<lambda>_.
          ensure (\<not> (instant_of (ro_now o1) = l \<and> (\<not> feq (ro_equity o1) (rk_last_equity prior)
              \<or> int (length (ro_closed_trades o1)) \<noteq> rk_processed_trade_count prior)))
            (ValueError ''same-bar followup may not change equity or trades'')))))))))"

section \<open>The parts of one advance\<close>

text \<open>The loop over the new trades: the loss streak and the profits since the streak halt.\<close>

fun count_trades :: "instant option \<Rightarrow> closed_trade_observation list \<Rightarrow> int \<times> int \<Rightarrow> int \<times> int" where
  "count_trades streak [] (losses, profitable) = (losses, profitable)"
| "count_trades streak (t # ts) (losses, profitable) =
     count_trades streak ts
       ((if ct_net_pnl t < 0 then losses + 1 else 0),
        (case streak of None \<Rightarrow> profitable
         | Some s \<Rightarrow> if 0 < ct_net_pnl t \<and> s < instant_of (ct_exit_time t) then profitable + 1 else profitable))"

definition drawdown_of :: "pyfloat \<Rightarrow> pyfloat \<Rightarrow> pyfloat" where
  "drawdown_of equity peak = (if 0 < peak then pmax 0 (1 - fdiv equity peak) else NaN)"

definition new_start :: "bool \<Rightarrow> instant \<Rightarrow> instant option \<Rightarrow> instant option" where
  "new_start c now start = (if c \<and> start = None then Some now else start)"

text \<open>A halt ends when its duration has passed and its condition is over.\<close>

definition end_start :: "instant \<Rightarrow> int \<Rightarrow> bool \<Rightarrow> instant option \<Rightarrow> instant option res" where
  "end_start now n over start = (case start of None \<Rightarrow> Inr None
     | Some s \<Rightarrow> ebind (dt_add s (hours n)) (\<lambda>t. Inr (if t \<le> now \<and> over then None else Some s)))"

definition volatility_step :: "bool \<Rightarrow> pyfloat \<Rightarrow> bool \<Rightarrow> bool \<Rightarrow> int \<Rightarrow> bool \<times> int" where
  "volatility_step new_bar ratio valid halted bars =
     (if halted \<and> new_bar then (halted, if valid \<and> ratio \<le> flit 15 10 then bars + 1 else 0)
      else if \<not> halted \<and> flit 3 1 < ratio then (True, 0)
      else (halted, bars))"

text \<open>Everything computed before the decision.\<close>

record risk_step =
  st_bar_at :: instant
  st_losses :: int
  st_profitable :: int
  st_peak :: pyfloat
  st_drawdown :: pyfloat
  st_daily_date :: int
  st_daily_baseline :: pyfloat
  st_daily_loss :: pyfloat
  st_started :: instant
  st_history :: "(instant \<times> pyfloat) list"
  st_weekly_loss :: pyfloat
  st_recovery :: "instant option"
  st_daily :: "instant option"
  st_weekly :: "instant option"
  st_streak :: "instant option"
  st_vol_halted :: bool
  st_stable :: int

fun py_true :: "pyval \<Rightarrow> bool" where
  "py_true (VBool b) = b"
| "py_true _ = False"

definition weekly_baseline :: "risk_state \<Rightarrow> instant \<Rightarrow> instant \<Rightarrow> (instant \<times> pyfloat) list \<Rightarrow> pyfloat res" where
  "weekly_baseline prior bar started recent =
     (if bar - started < days 7 then Inr (rk_initial_equity prior)
      else (case recent of [] \<Rightarrow> Inl IndexError | x # _ \<Rightarrow> Inr (snd x)))"

text \<open>The new trades, the baseline of the day and the history of the week.\<close>

definition trade_counts :: "risk_state \<Rightarrow> risk_observation \<Rightarrow> int \<times> int" where
  "trade_counts prior o1 = count_trades (rk_streak_halt_started_at prior)
     (drop (nat (rk_processed_trade_count prior)) (ro_closed_trades o1))
     (rk_consecutive_losses prior, rk_profitable_trades prior)"

definition daily_baseline :: "risk_state \<Rightarrow> instant \<Rightarrow> pyfloat" where
  "daily_baseline prior bar =
     (let date0 = (case rk_daily_date prior of None \<Rightarrow> date_of bar | Some x \<Rightarrow> x)
      in if date_of bar \<noteq> date0 then rk_last_equity prior else rk_daily_baseline_equity prior)"

definition is_new_bar :: "risk_state \<Rightarrow> instant \<Rightarrow> bool" where
  "is_new_bar prior bar \<longleftrightarrow> rk_last_risk_at prior \<noteq> Some bar"

definition recent_history :: "risk_state \<Rightarrow> instant \<Rightarrow> pyfloat \<Rightarrow> instant \<Rightarrow> (instant \<times> pyfloat) list" where
  "recent_history prior bar equity cutoff = filter (\<lambda>x. cutoff \<le> fst x)
     (if is_new_bar prior bar then rk_equity_history prior @ [(bar, equity)] else rk_equity_history prior)"

definition started_at :: "risk_state \<Rightarrow> instant \<Rightarrow> instant" where
  "started_at prior bar = (case rk_risk_started_at prior of None \<Rightarrow> bar | Some x \<Rightarrow> x)"

definition step_record ::
  "risk_state \<Rightarrow> risk_observation \<Rightarrow> risk_config \<Rightarrow> instant \<Rightarrow> (instant \<times> pyfloat) list \<Rightarrow> pyfloat \<Rightarrow> risk_step" where
  "step_record prior o1 c bar recent wbase =
     (let equity = ro_equity o1;
          losses = fst (trade_counts prior o1);
          peak = pmax (rk_equity_peak prior) equity;
          dd = drawdown_of equity peak;
          daily_loss = loss_from_baseline equity (daily_baseline prior bar);
          weekly_loss = loss_from_baseline equity wbase;
          vol = volatility_step (is_new_bar prior bar) (ro_volatility_ratio o1)
            (py_true (ro_volatility_bar_valid o1)) (rk_volatility_halted prior) (rk_volatility_stable_bars prior)
      in \<lparr> st_bar_at = bar, st_losses = losses,
          st_profitable = (if 5 \<le> losses \<and> rk_streak_halt_started_at prior = None then 0
                           else snd (trade_counts prior o1)),
          st_peak = peak, st_drawdown = dd, st_daily_date = date_of bar,
          st_daily_baseline = daily_baseline prior bar,
          st_daily_loss = daily_loss, st_started = started_at prior bar, st_history = recent,
          st_weekly_loss = weekly_loss,
          st_recovery = new_start (hard_drawdown c \<le> dd) bar (rk_recovery_started_at prior),
          st_daily = new_start (daily_loss_limit c \<le> daily_loss) bar (rk_daily_halt_started_at prior),
          st_weekly = new_start (weekly_halt_limit c \<le> weekly_loss) bar (rk_weekly_halt_started_at prior),
          st_streak = new_start (5 \<le> losses) bar (rk_streak_halt_started_at prior),
          st_vol_halted = fst vol, st_stable = snd vol \<rparr>)"

definition risk_step_of :: "risk_state \<Rightarrow> risk_observation \<Rightarrow> risk_config \<Rightarrow> risk_step res" where
  "risk_step_of prior o1 c =
     ebind (astimezone_utc (ro_now o1)) (\<lambda>bar.
     ebind (dt_add bar (- days 7)) (\<lambda>cutoff.
     let recent = recent_history prior bar (ro_equity o1) cutoff
     in ebind (weekly_baseline prior bar (started_at prior bar) recent) (\<lambda>wbase.
        Inr (step_record prior o1 c bar recent wbase))))"

definition snapshot_of :: "risk_step \<Rightarrow> risk_observation \<Rightarrow> risk_config \<Rightarrow> risk_snapshot" where
  "snapshot_of s o1 c = \<lparr> rs_now = utc (st_bar_at s), rs_drawdown = VFloat (st_drawdown s),
     rs_daily_loss = VFloat (st_daily_loss s), rs_weekly_loss = VFloat (st_weekly_loss s),
     rs_consecutive_losses = VInt (st_losses s), rs_volatility_ratio = VFloat (ro_volatility_ratio o1),
     rs_system_healthy = ro_system_healthy o1, rs_config = c,
     rs_recovery_started_at = map_option utc (st_recovery s),
     rs_daily_halt_started_at = map_option utc (st_daily s),
     rs_weekly_halt_started_at = map_option utc (st_weekly s),
     rs_streak_halt_started_at = map_option utc (st_streak s),
     rs_volatility_halted = VBool (st_vol_halted s), rs_volatility_stable_bars = VInt (st_stable s),
     rs_profitable_trades = VInt (st_profitable s) \<rparr>"

text \<open>Halts that ended on the bar, in the order recovery, daily, weekly, streak.\<close>

definition end_halts :: "risk_step \<Rightarrow> risk_config \<Rightarrow> (instant option \<times> instant option \<times> instant option \<times> instant option) res" where
  "end_halts s c =
     ebind (end_start (st_bar_at s) 72 (feq (st_drawdown s) 0) (st_recovery s)) (\<lambda>recovery.
     ebind (end_start (st_bar_at s) 24 (st_daily_loss s < daily_loss_limit c) (st_daily s)) (\<lambda>daily.
     ebind (end_start (st_bar_at s) 48 (st_weekly_loss s < weekly_halt_limit c) (st_weekly s)) (\<lambda>weekly.
     ebind (end_start (st_bar_at s) 48 (2 \<le> st_profitable s) (st_streak s)) (\<lambda>streak.
     Inr (recovery, daily, weekly, streak)))))"

definition volatility_calm :: "risk_step \<Rightarrow> risk_observation \<Rightarrow> bool" where
  "volatility_calm s o1 \<longleftrightarrow> st_vol_halted s \<and> py_true (ro_volatility_bar_valid o1)
     \<and> ro_volatility_ratio o1 \<le> flit 15 10 \<and> 3 \<le> st_stable s"

definition next_state :: "risk_state \<Rightarrow> risk_observation \<Rightarrow> risk_step \<Rightarrow> risk_decision \<Rightarrow>
    instant option \<times> instant option \<times> instant option \<times> instant option \<Rightarrow> risk_state" where
  "next_state prior o1 s d ends = (case ends of (recovery, daily, weekly, streak) \<Rightarrow>
     \<lparr> rk_equity_peak = st_peak s, rk_daily_date = Some (st_daily_date s),
       rk_daily_baseline_equity = st_daily_baseline s, rk_equity_history = st_history s,
       rk_risk_started_at = Some (st_started s), rk_last_equity = ro_equity o1,
       rk_last_risk_at = Some (st_bar_at s), rk_consecutive_losses = st_losses s,
       rk_processed_trade_count = int (length (ro_closed_trades o1)),
       rk_recovery_started_at = recovery, rk_daily_halt_started_at = daily,
       rk_weekly_halt_started_at = weekly, rk_streak_halt_started_at = streak,
       rk_profitable_trades = (if st_streak s \<noteq> None \<and> streak = None then 0 else st_profitable s),
       rk_volatility_halted = (if volatility_calm s o1 then False else st_vol_halted s),
       rk_volatility_stable_bars = (if volatility_calm s o1 then 0 else st_stable s),
       rk_decision = d, rk_initial_equity = rk_initial_equity prior \<rparr>)"

definition advance_risk_state :: "risk_state \<Rightarrow> risk_observation \<Rightarrow> risk_config \<Rightarrow> risk_state res" where
  "advance_risk_state prior o1 c =
     ebind (validate_observation prior o1) (\<lambda>_.
     ebind (risk_step_of prior o1 c) (\<lambda>s.
     ebind (evaluate_risk (snapshot_of s o1 c)) (\<lambda>d.
     ebind (end_halts s c) (\<lambda>ends.
     Inr (next_state prior o1 s d ends)))))"

text \<open>A run of observations.\<close>

definition advance_all :: "risk_config \<Rightarrow> risk_observation list \<Rightarrow> risk_state \<Rightarrow> risk_state res" where
  "advance_all c os s = efold (\<lambda>x st. advance_risk_state st x c) os s"

text \<open>\<open>apply_health_recovery\<close>: the operational overlay over a canonical decision.\<close>

definition apply_health_recovery :: "risk_decision \<Rightarrow> pyval \<Rightarrow> pyval \<Rightarrow> risk_decision" where
  "apply_health_recovery d system_healthy resume_reduced =
     (if system_healthy \<noteq> VBool True \<or> \<not> is_py_bool resume_reduced then blocked ''system_unhealthy''
      else if \<not> py_true resume_reduced \<or> rd_halted_until d \<noteq> None \<or> rd_risk_rate d \<le> 0 \<or> rd_exposure_cap d \<le> 0
      then d
      else \<lparr> rd_risk_rate = half (rd_risk_rate d), rd_exposure_cap = half (rd_exposure_cap d),
             rd_halted_until = rd_halted_until d,
             rd_reasons = rd_reasons d @ [''health_recovery_reduced''] \<rparr>)"

end
