(* ===== verification/RiskState_Correct.thy ===== *)
theory RiskState_Correct
  imports RiskState Breakers_Correct
begin

text \<open>
  Risk accumulation is correct: an advance keeps the invariant of the account, a halt once
  started keeps the account closed for its whole duration over any run of bars, an accepted
  observation always returns, and repeating a bar changes nothing.
\<close>

section \<open>One advance\<close>

lemma is_py_bool_iff: "is_py_bool v \<longleftrightarrow> (\<exists>b. v = VBool b)"
  by (cases v) auto

lemma validate_observation_ok:
  assumes "validate_observation s x = Inr ()"
  shows "is_aware (ro_now x)" "isfinite (ro_equity x)" "\<not> ro_equity x < 0"
    "isfinite (rk_initial_equity s)" "\<not> rk_initial_equity s \<le> 0"
    "0 \<le> rk_processed_trade_count s" "rk_processed_trade_count s \<le> int (length (ro_closed_trades x))"
    "validate_trades s (ro_now x) 0 None (ro_closed_trades x) = Inr ()"
    "\<exists>b. ro_volatility_bar_valid x = VBool b" "\<exists>b. ro_system_healthy x = VBool b"
    "\<And>l. rk_last_risk_at s = Some l \<Longrightarrow> l \<le> instant_of (ro_now x)"
    "rk_last_risk_at s = Some (instant_of (ro_now x)) \<Longrightarrow>
       feq (ro_equity x) (rk_last_equity s) \<and> int (length (ro_closed_trades x)) = rk_processed_trade_count s"
  using assms
  by (auto simp: validate_observation_def is_py_bool_iff split: option.splits)

lemma astimezone_utc_Inr [simp]:
  "astimezone_utc t = Inr u \<longleftrightarrow> is_aware t \<and> in_dt_range (instant_of t) \<and> u = instant_of t"
  by (cases t) auto

lemma risk_step_of_Inr:
  "risk_step_of s x c = Inr st \<longleftrightarrow> is_aware (ro_now x) \<and> in_dt_range (instant_of (ro_now x))
     \<and> in_dt_range (instant_of (ro_now x) - days 7)
     \<and> (\<exists>wbase. weekly_baseline s (instant_of (ro_now x)) (started_at s (instant_of (ro_now x)))
            (recent_history s (instant_of (ro_now x)) (ro_equity x) (instant_of (ro_now x) - days 7)) = Inr wbase
        \<and> st = step_record s x c (instant_of (ro_now x))
            (recent_history s (instant_of (ro_now x)) (ro_equity x) (instant_of (ro_now x) - days 7)) wbase)"
  by (auto simp: risk_step_of_def Let_def)

lemma step_record_simps [simp]:
  "st_bar_at (step_record s x c bar recent w) = bar"
  "st_losses (step_record s x c bar recent w) = fst (trade_counts s x)"
  "st_peak (step_record s x c bar recent w) = pmax (rk_equity_peak s) (ro_equity x)"
  "st_drawdown (step_record s x c bar recent w) = drawdown_of (ro_equity x) (pmax (rk_equity_peak s) (ro_equity x))"
  "st_daily_date (step_record s x c bar recent w) = date_of bar"
  "st_daily_baseline (step_record s x c bar recent w) = daily_baseline s bar"
  "st_daily_loss (step_record s x c bar recent w) = loss_from_baseline (ro_equity x) (daily_baseline s bar)"
  "st_started (step_record s x c bar recent w) = started_at s bar"
  "st_history (step_record s x c bar recent w) = recent"
  "st_weekly_loss (step_record s x c bar recent w) = loss_from_baseline (ro_equity x) w"
  "st_recovery (step_record s x c bar recent w) =
     new_start (hard_drawdown c \<le> st_drawdown (step_record s x c bar recent w)) bar (rk_recovery_started_at s)"
  "st_daily (step_record s x c bar recent w) =
     new_start (daily_loss_limit c \<le> st_daily_loss (step_record s x c bar recent w)) bar (rk_daily_halt_started_at s)"
  "st_weekly (step_record s x c bar recent w) =
     new_start (weekly_halt_limit c \<le> st_weekly_loss (step_record s x c bar recent w)) bar (rk_weekly_halt_started_at s)"
  "st_streak (step_record s x c bar recent w) =
     new_start (5 \<le> fst (trade_counts s x)) bar (rk_streak_halt_started_at s)"
  "st_profitable (step_record s x c bar recent w) =
     (if 5 \<le> fst (trade_counts s x) \<and> rk_streak_halt_started_at s = None then 0 else snd (trade_counts s x))"
  "st_vol_halted (step_record s x c bar recent w) = fst (volatility_step (is_new_bar s bar) (ro_volatility_ratio x)
     (py_true (ro_volatility_bar_valid x)) (rk_volatility_halted s) (rk_volatility_stable_bars s))"
  "st_stable (step_record s x c bar recent w) = snd (volatility_step (is_new_bar s bar) (ro_volatility_ratio x)
     (py_true (ro_volatility_bar_valid x)) (rk_volatility_halted s) (rk_volatility_stable_bars s))"
  by (simp_all add: step_record_def Let_def)

lemma advance_cases:
  assumes "advance_risk_state s x c = Inr s'"
  obtains st d ends where "validate_observation s x = Inr ()" "risk_step_of s x c = Inr st"
    "st_bar_at st = instant_of (ro_now x)"
    "evaluate_risk (snapshot_of st x c) = Inr d" "end_halts st c = Inr ends" "s' = next_state s x st d ends"
  using assms by (auto simp: advance_risk_state_def risk_step_of_Inr)

lemma next_state_simps [simp]:
  "rk_last_risk_at (next_state s x st d ends) = Some (st_bar_at st)"
  "rk_decision (next_state s x st d ends) = d"
  "rk_recovery_started_at (next_state s x st d ends) = fst ends"
  "rk_daily_halt_started_at (next_state s x st d ends) = fst (snd ends)"
  "rk_weekly_halt_started_at (next_state s x st d ends) = fst (snd (snd ends))"
  "rk_streak_halt_started_at (next_state s x st d ends) = snd (snd (snd ends))"
  by (simp_all add: next_state_def split: prod.splits)

text \<open>The decision of an advance is closed: nothing may be bought.\<close>

definition closed :: "risk_decision \<Rightarrow> bool" where
  "closed d \<longleftrightarrow> rd_risk_rate d = 0 \<and> rd_exposure_cap d = 0"

lemma as_utc_utc: "as_utc (utc t) = Some u \<Longrightarrow> u = t"
  by (auto simp: as_utc_def split: if_splits)

lemma start_of_utc: "start_of (map_option utc x) = Some r \<Longrightarrow> r = x"
  by (cases x) (auto simp: as_utc_def split: option.splits if_splits)

lemma facts_of_snapshot:
  assumes "facts_of (snapshot_of st x c) h = Some f"
  shows "rf_now f = st_bar_at st" "rf_recovery f = st_recovery st" "rf_daily f = st_daily st"
    "rf_weekly f = st_weekly st" "rf_streak f = st_streak st"
proof -
  have s: "rs_now (snapshot_of st x c) = utc (st_bar_at st)"
    "rs_recovery_started_at (snapshot_of st x c) = map_option utc (st_recovery st)"
    "rs_daily_halt_started_at (snapshot_of st x c) = map_option utc (st_daily st)"
    "rs_weekly_halt_started_at (snapshot_of st x c) = map_option utc (st_weekly st)"
    "rs_streak_halt_started_at (snapshot_of st x c) = map_option utc (st_streak st)"
    by (simp_all add: snapshot_of_def)
  note t = facts_of_times(1-5) [OF assms, unfolded s]
  show "rf_now f = st_bar_at st" by (rule as_utc_utc [OF t(1)])
  show "rf_recovery f = st_recovery st" "rf_daily f = st_daily st"
    "rf_weekly f = st_weekly st" "rf_streak f = st_streak st"
    by (rule start_of_utc [OF t(2)], rule start_of_utc [OF t(3)], rule start_of_utc [OF t(4)],
        rule start_of_utc [OF t(5)])
qed


section \<open>Cooling off\<close>

lemma ruled_by_facts: "ruled_by s h f \<Longrightarrow> facts_of s h = Some f"
  by (simp add: ruled_by_def)

text \<open>A halt condition on every validated reading of the snapshot closes the decision.\<close>

lemma closed_decision:
  assumes "evaluate_risk (snapshot_of st x c) = Inr d"
    "\<And>f. rf_now f = st_bar_at st \<Longrightarrow> rf_recovery f = st_recovery st \<Longrightarrow> rf_daily f = st_daily st \<Longrightarrow>
       rf_weekly f = st_weekly st \<Longrightarrow> rf_streak f = st_streak st \<Longrightarrow> halting f"
  shows "closed d"
proof -
  have "halting f" if "ruled_by (snapshot_of st x c) h f" for h f
    using assms(2) facts_of_snapshot [OF ruled_by_facts [OF that]] by blast
  then have "\<not> 0 < rd_risk_rate d" using risk_open_iff [OF assms(1)] by blast
  then show ?thesis using risk_open_iff [OF assms(1)] by (simp add: closed_def)
qed

lemma end_start_keeps: "end_start now n over (Some t) = Inr r \<Longrightarrow> now < t + hours n \<Longrightarrow> r = Some t"
  by (auto simp: end_start_def)

lemma new_start_Some [simp]: "new_start b now (Some t) = Some t"
  by (simp add: new_start_def)

text \<open>
  The interface of an event-scoped halt: its start in the state and its duration in hours.
  An advance inside the duration keeps the start and closes the decision.
\<close>

locale event_halt =
  fixes start :: "risk_state \<Rightarrow> instant option" and n :: int
  assumes keeps: "advance_risk_state s x c = Inr s' \<Longrightarrow> start s = Some t \<Longrightarrow>
    instant_of (ro_now x) < t + hours n \<Longrightarrow> start s' = Some t \<and> closed (rk_decision s')"
begin

lemma run_keeps:
  assumes "efold (\<lambda>x st. advance_risk_state st x c) xs s = Inr s'" "start s = Some t" "xs \<noteq> []"
    "\<And>x. x \<in> set xs \<Longrightarrow> instant_of (ro_now x) < t + hours n"
  shows "start s' = Some t \<and> closed (rk_decision s')"
  using assms
proof (induction xs arbitrary: s)
  case (Cons x xs)
  then obtain u where u: "advance_risk_state s x c = Inr u" "efold (\<lambda>x st. advance_risk_state st x c) xs u = Inr s'"
    by auto
  have k: "start u = Some t \<and> closed (rk_decision u)" using keeps [OF u(1) Cons.prems(2)] Cons.prems(4) by simp
  show ?case
  proof (cases xs)
    case Nil
    then show ?thesis using u k by simp
  next
    case (Cons y ys)
    then show ?thesis using Cons.IH [OF u(2)] k Cons.prems(4) by simp
  qed
qed simp

end

lemma end_halts_Inr:
  "end_halts s c = Inr (r, d, w, k) \<longleftrightarrow>
     end_start (st_bar_at s) 72 (feq (st_drawdown s) 0) (st_recovery s) = Inr r
   \<and> end_start (st_bar_at s) 24 (st_daily_loss s < daily_loss_limit c) (st_daily s) = Inr d
   \<and> end_start (st_bar_at s) 48 (st_weekly_loss s < weekly_halt_limit c) (st_weekly s) = Inr w
   \<and> end_start (st_bar_at s) 48 (2 \<le> st_profitable s) (st_streak s) = Inr k"
  by (auto simp: end_halts_def)

lemma halt_started:
  assumes "risk_step_of s x c = Inr st"
  shows "rk_recovery_started_at s = Some t \<Longrightarrow> st_recovery st = Some t"
    "rk_daily_halt_started_at s = Some t \<Longrightarrow> st_daily st = Some t"
    "rk_weekly_halt_started_at s = Some t \<Longrightarrow> st_weekly st = Some t"
    "rk_streak_halt_started_at s = Some t \<Longrightarrow> st_streak st = Some t"
  using assms by (auto simp: risk_step_of_Inr)

text \<open>How a halt of the state reads in the step, in the ended halts and in the facts.\<close>

lemma event_halt_intro:
  assumes "\<And>s x c st t. risk_step_of s x c = Inr st \<Longrightarrow> start s = Some t \<Longrightarrow> in_step st = Some t"
    and "\<And>st c ends. end_halts st c = Inr ends \<Longrightarrow> \<exists>over. end_start (st_bar_at st) n over (in_step st) = Inr (ended ends)"
    and "\<And>s x st d ends. start (next_state s x st d ends) = ended ends"
    and "\<And>st f t. in_step st = Some t \<Longrightarrow> st_bar_at st < t + hours n \<Longrightarrow> rf_now f = st_bar_at st \<Longrightarrow>
       rf_recovery f = st_recovery st \<Longrightarrow> rf_daily f = st_daily st \<Longrightarrow> rf_weekly f = st_weekly st \<Longrightarrow>
       rf_streak f = st_streak st \<Longrightarrow> halting f"
  shows "event_halt start n"
proof
  fix s x c s' t
  assume a: "advance_risk_state s x c = Inr s'" "start s = Some t" "instant_of (ro_now x) < t + hours n"
  show "start s' = Some t \<and> closed (rk_decision s')"
    using a(1)
  proof (cases rule: advance_cases)
    case (1 st d ends)
    note st = assms(1) [OF 1(2) a(2)]
    have "closed d" using assms(4) [OF st] a(3) 1(3) by (intro closed_decision [OF 1(4)]) simp
    moreover obtain over where "end_start (st_bar_at st) n over (Some t) = Inr (ended ends)"
      using assms(2) [OF 1(5)] st by auto
    then have "ended ends = Some t" using end_start_keeps a(3) 1(3) by simp
    ultimately show ?thesis by (simp add: 1(6) assms(3))
  qed
qed

lemma end_halts_parts:
  assumes "end_halts s c = Inr ends"
  shows "\<exists>over. end_start (st_bar_at s) 72 over (st_recovery s) = Inr (fst ends)"
    "\<exists>over. end_start (st_bar_at s) 24 over (st_daily s) = Inr (fst (snd ends))"
    "\<exists>over. end_start (st_bar_at s) 48 over (st_weekly s) = Inr (fst (snd (snd ends)))"
    "\<exists>over. end_start (st_bar_at s) 48 over (st_streak s) = Inr (snd (snd (snd ends)))"
  using assms by (fastforce simp: end_halts_def)+

interpretation recovery_halt: event_halt rk_recovery_started_at 72
  by (rule event_halt_intro [where in_step = st_recovery, OF halt_started(1) end_halts_parts(1)])
    (simp_all add: halting_def drawdown_halting_def)

interpretation daily_halt: event_halt rk_daily_halt_started_at 24
  by (rule event_halt_intro [where in_step = st_daily, OF halt_started(2) end_halts_parts(2)])
    (simp_all add: halting_def period_halting_def)

interpretation weekly_halt: event_halt rk_weekly_halt_started_at 48
  by (rule event_halt_intro [where in_step = st_weekly, OF halt_started(3) end_halts_parts(3)])
    (simp_all add: halting_def period_halting_def)

interpretation streak_halt: event_halt rk_streak_halt_started_at 48
  by (rule event_halt_intro [where in_step = st_streak, OF halt_started(4) end_halts_parts(4)])
    (simp_all add: halting_def period_halting_def)

text \<open>
  C13: a halt cools off for its whole duration. From any account with a drawdown event, or
  a daily, weekly or streak halt in force, any run of accepted bars inside its 72, 24, 48 or
  48 hours keeps the start of the halt as it is and ends with a closed decision: the risk
  rate and the exposure cap are zero, whatever the equity, the trades and the volatility did.
\<close>

theorem halts_cool_off:
  assumes "advance_all c xs s = Inr s'" "xs \<noteq> []"
    and "(start, n) \<in> {(rk_recovery_started_at, 72), (rk_daily_halt_started_at, 24),
       (rk_weekly_halt_started_at, 48), (rk_streak_halt_started_at, 48)}"
    and "start s = Some t" "\<And>x. x \<in> set xs \<Longrightarrow> instant_of (ro_now x) < t + hours n"
  shows "start s' = Some t \<and> rd_risk_rate (rk_decision s') = 0 \<and> rd_exposure_cap (rk_decision s') = 0"
proof -
  note run = assms(1) [unfolded advance_all_def]
  show ?thesis
    using assms(3) recovery_halt.run_keeps [OF run _ assms(2)] daily_halt.run_keeps [OF run _ assms(2)]
      weekly_halt.run_keeps [OF run _ assms(2)] streak_halt.run_keeps [OF run _ assms(2)] assms(4,5)
    by (auto simp: closed_def)
qed


section \<open>The invariant of the account\<close>

definition decision_bounded :: "risk_decision \<Rightarrow> bool" where
  "decision_bounded d \<longleftrightarrow> 0 \<le> rd_risk_rate d \<and> rd_risk_rate d \<le> BASE_RISK_RATE
     \<and> 0 \<le> rd_exposure_cap d \<and> rd_exposure_cap d \<le> MAX_EXPOSURE"

definition halt_starts :: "risk_state \<Rightarrow> instant option list" where
  "halt_starts s = [rk_recovery_started_at s, rk_daily_halt_started_at s, rk_weekly_halt_started_at s,
     rk_streak_halt_started_at s]"

definition history_inv :: "risk_state \<Rightarrow> instant \<Rightarrow> bool" where
  "history_inv s l \<longleftrightarrow> rk_equity_history s \<noteq> [] \<and> fst (last (rk_equity_history s)) = l
     \<and> feq (snd (last (rk_equity_history s))) (rk_last_equity s)
     \<and> sorted_wrt (\<lambda>x y. fst x < fst y) (rk_equity_history s)
     \<and> (\<forall>x \<in> set (rk_equity_history s). l - days 7 \<le> fst x \<and> fst x \<le> l \<and> isfinite (snd x) \<and> 0 \<le> snd x
          \<and> snd x \<le> rk_equity_peak s)"

definition time_inv :: "risk_state \<Rightarrow> bool" where
  "time_inv s \<longleftrightarrow> (case rk_last_risk_at s of
     None \<Rightarrow> rk_equity_history s = [] \<and> rk_risk_started_at s = None \<and> rk_daily_date s = None
        \<and> (\<forall>x \<in> set (halt_starts s). x = None)
   | Some l \<Rightarrow> history_inv s l \<and> in_dt_range l \<and> rk_daily_date s = Some (date_of l)
        \<and> (\<exists>t. rk_risk_started_at s = Some t \<and> t \<le> l)
        \<and> (\<forall>t. Some t \<in> set (halt_starts s) \<longrightarrow> dt_min \<le> t \<and> t \<le> l))"

definition risk_inv :: "risk_state \<Rightarrow> bool" where
  "risk_inv s \<longleftrightarrow> isfinite (rk_equity_peak s) \<and> 0 < rk_equity_peak s
     \<and> isfinite (rk_last_equity s) \<and> 0 \<le> rk_last_equity s \<and> rk_last_equity s \<le> rk_equity_peak s
     \<and> isfinite (rk_initial_equity s) \<and> 0 < rk_initial_equity s
     \<and> 0 \<le> rk_consecutive_losses s \<and> 0 \<le> rk_processed_trade_count s
     \<and> 0 \<le> rk_profitable_trades s \<and> (rk_streak_halt_started_at s = None \<longrightarrow> rk_profitable_trades s = 0)
     \<and> 0 \<le> rk_volatility_stable_bars s \<and> (\<not> rk_volatility_halted s \<longrightarrow> rk_volatility_stable_bars s = 0)
     \<and> decision_bounded (rk_decision s) \<and> time_inv s"

lemma count_trades_bounds:
  "0 \<le> fst p \<Longrightarrow> 0 \<le> snd p \<Longrightarrow> 0 \<le> fst (count_trades k ts p) \<and> 0 \<le> snd (count_trades k ts p)
     \<and> (k = None \<longrightarrow> snd (count_trades k ts p) = snd p)"
proof (induction ts arbitrary: p)
  case (Cons t ts)
  obtain l m where p: "p = (l, m)" by force
  show ?case using Cons.IH Cons.prems by (auto simp: p split: option.splits)
next
  case Nil
  then show ?case by (cases p) simp
qed

lemma trade_counts_bounds:
  assumes "risk_inv s"
  shows "0 \<le> fst (trade_counts s x)" "0 \<le> snd (trade_counts s x)"
    "rk_streak_halt_started_at s = None \<Longrightarrow> snd (trade_counts s x) = 0"
  using assms count_trades_bounds [of "(rk_consecutive_losses s, rk_profitable_trades s)"]
  by (auto simp: trade_counts_def risk_inv_def)

lemma volatility_step_bounds:
  assumes "0 \<le> bars" "\<not> h \<Longrightarrow> bars = 0" "volatility_step nb r v h bars = (h', b')"
  shows "0 \<le> b' \<and> (\<not> h' \<longrightarrow> b' = 0)"
  using assms by (auto simp: volatility_step_def split: if_splits)

lemma end_start_cases: "end_start now n over st = Inr r \<Longrightarrow> r = st \<or> r = None"
  by (auto simp: end_start_def split: option.splits if_splits)

lemma sorted_wrt_snoc: "sorted_wrt P (xs @ [y]) \<longleftrightarrow> sorted_wrt P xs \<and> (\<forall>x \<in> set xs. P x y)"
  by (simp add: sorted_wrt_append)

lemma recent_history_inv:
  assumes inv: "risk_inv s" and v: "validate_observation s x = Inr ()" and bar: "bar = instant_of (ro_now x)"
    and p: "peak = pmax (rk_equity_peak s) (ro_equity x)"
    and h: "h = recent_history s bar (ro_equity x) (bar - days 7)"
  shows "h \<noteq> [] \<and> fst (last h) = bar \<and> feq (snd (last h)) (ro_equity x) \<and> sorted_wrt (\<lambda>x y. fst x < fst y) h
    \<and> (\<forall>y \<in> set h. bar - days 7 \<le> fst y \<and> fst y \<le> bar \<and> isfinite (snd y) \<and> 0 \<le> snd y \<and> snd y \<le> peak)"
proof -
  note V = validate_observation_ok [OF v]
  have e: "isfinite (ro_equity x)" "0 \<le> ro_equity x" using V(2,3) by (auto simp: fl_ord)
  have pk: "rk_equity_peak s \<le> peak" "ro_equity x \<le> peak" "isfinite peak"
    using inv e pmax_ge [of "rk_equity_peak s" "ro_equity x"] not_NaN_finite
    unfolding p by (auto simp: risk_inv_def pmax_def)
  have d: "0 < days 7" by (simp add: days_def)
  show ?thesis
  proof (cases "rk_last_risk_at s")
    case None
    then have "h = [(bar, ro_equity x)]"
      using inv d by (simp add: h recent_history_def is_new_bar_def risk_inv_def time_inv_def)
    then show ?thesis using e pk d by (simp add: feq_iff_rat)
  next
    case (Some l)
    then have H: "history_inv s l" using inv by (simp add: risk_inv_def time_inv_def)
    have l: "l \<le> bar" using V(11) Some bar by simp
    have old: "fst y \<le> l \<and> isfinite (snd y) \<and> 0 \<le> snd y \<and> snd y \<le> peak" if "y \<in> set (rk_equity_history s)" for y
      using H that pk(1) le_trans_float unfolding history_inv_def by blast
    show ?thesis
    proof (cases "l = bar")
      case True
      have "feq (ro_equity x) (rk_last_equity s)" using V(12) Some True bar by simp
      moreover have f: "filter (\<lambda>y. bar - days 7 \<le> fst y) (rk_equity_history s) = rk_equity_history s"
        using H True by (intro filter_True) (auto simp: history_inv_def)
      ultimately show ?thesis
        using Some True H old l
        by (auto simp: h recent_history_def is_new_bar_def history_inv_def feq_def dest: le_trans_float)
    next
      case False
      then have "h = filter (\<lambda>y. bar - days 7 \<le> fst y) (rk_equity_history s) @ [(bar, ro_equity x)]"
        using Some d by (simp add: h recent_history_def is_new_bar_def)
      moreover have "sorted_wrt (\<lambda>x y. fst x < fst y) (filter (\<lambda>y. bar - days 7 \<le> fst y) (rk_equity_history s))"
        using H by (intro sorted_wrt_filter) (simp add: history_inv_def)
      ultimately show ?thesis
        using old l False e pk d by (auto simp: sorted_wrt_append feq_iff_rat) fastforce+
    qed
  qed
qed


lemma next_state_fields [simp]:
  "rk_equity_peak (next_state s x st d ends) = st_peak st"
  "rk_daily_date (next_state s x st d ends) = Some (st_daily_date st)"
  "rk_equity_history (next_state s x st d ends) = st_history st"
  "rk_risk_started_at (next_state s x st d ends) = Some (st_started st)"
  "rk_last_equity (next_state s x st d ends) = ro_equity x"
  "rk_consecutive_losses (next_state s x st d ends) = st_losses st"
  "rk_processed_trade_count (next_state s x st d ends) = int (length (ro_closed_trades x))"
  "rk_profitable_trades (next_state s x st d ends) =
     (if st_streak st \<noteq> None \<and> snd (snd (snd ends)) = None then 0 else st_profitable st)"
  "rk_volatility_halted (next_state s x st d ends) = (if volatility_calm st x then False else st_vol_halted st)"
  "rk_volatility_stable_bars (next_state s x st d ends) = (if volatility_calm st x then 0 else st_stable st)"
  "rk_initial_equity (next_state s x st d ends) = rk_initial_equity s"
  "rk_daily_baseline_equity (next_state s x st d ends) = st_daily_baseline st"
  by (simp_all add: next_state_def split: prod.splits)

lemma new_start_bounds:
  "new_start b now st = Some t \<Longrightarrow> st = Some t \<or> t = now"
  by (auto simp: new_start_def split: if_splits)

lemma end_halts_cases:
  assumes "end_halts st c = Inr ends"
  shows "fst ends = st_recovery st \<or> fst ends = None" "fst (snd ends) = st_daily st \<or> fst (snd ends) = None"
    "fst (snd (snd ends)) = st_weekly st \<or> fst (snd (snd ends)) = None"
    "snd (snd (snd ends)) = st_streak st \<or> snd (snd (snd ends)) = None"
  using end_halts_parts [OF assms] by (auto dest: end_start_cases)

lemma halt_starts_time:
  assumes inv: "risk_inv s" and v: "validate_observation s x = Inr ()" and st: "risk_step_of s x c = Inr st"
    and bar: "bar = instant_of (ro_now x)"
    and t: "Some t \<in> {st_recovery st, st_daily st, st_weekly st, st_streak st}"
  shows "dt_min \<le> t \<and> t \<le> bar"
proof -
  have r: "in_dt_range bar" using st bar by (auto simp: risk_step_of_Inr)
  have "Some t \<in> set (halt_starts s) \<or> t = bar"
    using t st bar by (auto simp: risk_step_of_Inr halt_starts_def dest!: sym [of "Some t"] new_start_bounds)
  then show ?thesis
  proof
    assume h: "Some t \<in> set (halt_starts s)"
    then obtain l where l: "rk_last_risk_at s = Some l"
      using inv by (cases "rk_last_risk_at s") (auto simp: risk_inv_def time_inv_def)
    then have "dt_min \<le> t" "t \<le> l" using inv h by (auto simp: risk_inv_def time_inv_def)
    then show ?thesis using validate_observation_ok(11) [OF v l] bar by simp
  qed (use r in \<open>simp add: in_dt_range_def\<close>)
qed

lemma risk_inv_step:
  assumes inv: "risk_inv s" and adv: "advance_risk_state s x c = Inr s'"
  shows "risk_inv s'"
  using adv
proof (cases rule: advance_cases)
  case (1 st d ends)
  define bar where "bar = instant_of (ro_now x)"
  note V = validate_observation_ok [OF 1(1)]
  have e: "isfinite (ro_equity x)" "0 \<le> ro_equity x" using V(2,3) by (auto simp: fl_ord)
  have st: "st_peak st = pmax (rk_equity_peak s) (ro_equity x)" "st_started st = started_at s bar"
    "st_history st = recent_history s bar (ro_equity x) (bar - days 7)" "st_daily_date st = date_of bar"
    "st_losses st = fst (trade_counts s x)" "in_dt_range bar" "st_bar_at st = bar"
    using 1(2) by (auto simp: risk_step_of_Inr bar_def)
  note ends = end_halts_cases [OF 1(5)]
  have pk: "isfinite (st_peak st)" "0 < st_peak st" "ro_equity x \<le> st_peak st"
    using inv e pmax_ge(2) [of "rk_equity_peak s" "ro_equity x"] not_NaN_finite
    by (auto simp: st risk_inv_def pmax_def dest: le_less_trans_float)
  have prof: "0 \<le> st_profitable st \<and> (st_streak st = None \<longrightarrow> st_profitable st = 0)"
    using 1(2) trade_counts_bounds [OF inv, of x] by (auto simp: risk_step_of_Inr new_start_def)
  have "(st_vol_halted st, st_stable st) = volatility_step (is_new_bar s bar) (ro_volatility_ratio x)
     (py_true (ro_volatility_bar_valid x)) (rk_volatility_halted s) (rk_volatility_stable_bars s)"
    using 1(2) by (auto simp: risk_step_of_Inr bar_def)
  from volatility_step_bounds [OF _ _ this [symmetric]] have vol: "0 \<le> st_stable st \<and> (\<not> st_vol_halted st \<longrightarrow> st_stable st = 0)"
    using inv by (simp add: risk_inv_def)
  have started: "started_at s bar \<le> bar"
  proof (cases "rk_last_risk_at s")
    case (Some l)
    then show ?thesis using inv V(11) [OF Some] by (auto simp: started_at_def risk_inv_def time_inv_def bar_def)
  qed (use inv in \<open>simp add: started_at_def risk_inv_def time_inv_def\<close>)
  have starts: "\<forall>t. Some t \<in> set (halt_starts s') \<longrightarrow> dt_min \<le> t \<and> t \<le> bar"
    using halt_starts_time [OF inv 1(1,2) bar_def] ends by (auto simp: halt_starts_def 1(6))
  have "time_inv s'"
    using recent_history_inv [OF inv 1(1) bar_def st(1,3)] started starts st pk(3)
    by (auto simp: time_inv_def history_inv_def 1(6))
  moreover have "decision_bounded d" using risk_bounded [OF 1(4)] by (simp add: decision_bounded_def)
  moreover have "0 \<le> st_losses st" using trade_counts_bounds(1) [OF inv] st(5) by simp
  moreover have "isfinite (rk_initial_equity s) \<and> 0 < rk_initial_equity s" using inv by (simp add: risk_inv_def)
  moreover have "rk_streak_halt_started_at s' = None \<longrightarrow> rk_profitable_trades s' = 0" "0 \<le> rk_profitable_trades s'"
    using prof by (auto simp: 1(6))
  ultimately show ?thesis using e pk vol by (simp add: risk_inv_def 1(6))
qed

lemma risk_inv_initial: "risk_inv RiskState"
proof -
  have "isfinite (flit 100 1)" "0 < flit 100 1" "0 \<le> flit 100 1" "flit 100 1 \<le> flit 100 1"
    "decision_bounded (rk_decision RiskState)" by code_simp+
  then show ?thesis by (simp add: risk_inv_def RiskState_def time_inv_def halt_starts_def)
qed

text \<open>
  C36: the account keeps its invariant. Whatever bars are accepted, the equity stays at or
  below the peak, the history is the strictly increasing window of the last seven days that
  ends at the last bar with the last equity, no halt starts in the future, the counters stay
  in their ranges, profits are counted only under a streak halt, and the decision stays
  inside the approved limits. It holds of the initial account.
\<close>

theorem advance_keeps_invariant:
  "risk_inv RiskState \<and> (risk_inv s \<and> advance_all c xs s = Inr s' \<longrightarrow> risk_inv s')"
  using efold_invariant [of "\<lambda>x st. advance_risk_state st x c" xs s s' risk_inv] risk_inv_step risk_inv_initial
  by (auto simp: advance_all_def)

text \<open>An accepted observation whose times leave room in the calendar is always processed.\<close>

lemma roomy_mono: "roomy b \<Longrightarrow> dt_min \<le> t \<Longrightarrow> t \<le> b \<Longrightarrow> roomy t"
  by (simp add: roomy_def)

lemma end_start_ok: "\<forall>t. st = Some t \<longrightarrow> roomy t \<Longrightarrow> 0 \<le> n \<Longrightarrow> n \<le> 72 \<Longrightarrow> is_ok (end_start now n over st)"
  by (cases st) (auto simp: end_start_def roomy_add is_ok_ebind in_dt_range_def roomy_def hours_def)

lemma advance_ok:
  assumes inv: "risk_inv s" and v: "validate_observation s x = Inr ()"
    and room: "roomy (instant_of (ro_now x))" "dt_min + days 7 \<le> instant_of (ro_now x)"
  shows "is_ok (advance_risk_state s x c)"
proof -
  define bar where "bar = instant_of (ro_now x)"
  have range: "in_dt_range bar" "in_dt_range (bar - days 7)"
    using room by (auto simp: bar_def in_dt_range_def roomy_def hours_def days_def)
  have "recent_history s bar (ro_equity x) (bar - days 7) \<noteq> []"
    using recent_history_inv [OF inv v bar_def refl refl] by blast
  then obtain w where w: "weekly_baseline s bar (started_at s bar)
      (recent_history s bar (ro_equity x) (bar - days 7)) = Inr w"
    by (cases "recent_history s bar (ro_equity x) (bar - days 7)")
      (fastforce simp: weekly_baseline_def split: if_splits)+
  obtain st where st: "risk_step_of s x c = Inr st"
    using w range validate_observation_ok(1) [OF v] by (auto simp: risk_step_of_Inr bar_def)
  have times: "roomy t" if "Some t \<in> {st_recovery st, st_daily st, st_weekly st, st_streak st}" for t
    using halt_starts_time [OF inv v st refl that] roomy_mono [OF room(1)] by blast
  have b: "st_bar_at st = bar" using st by (auto simp: risk_step_of_Inr bar_def)
  have "is_ok (evaluate_risk (snapshot_of st x c))"
    by (rule evaluate_risk_ok) (use facts_of_snapshot times room(1) b bar_def in \<open>fastforce+\<close>)
  moreover have "is_ok (end_start n1 72 o1 (st_recovery st))" "is_ok (end_start n1 24 o1 (st_daily st))"
    "is_ok (end_start n1 48 o1 (st_weekly st))" "is_ok (end_start n1 48 o1 (st_streak st))" for n1 o1
    using times by (auto intro: end_start_ok)
  then have "is_ok (end_halts st c)" by (simp add: end_halts_def is_ok_ebind) (metis is_ok_iff)
  ultimately show ?thesis using v st by (auto simp: advance_risk_state_def is_ok_ebind is_ok_iff)
qed


text \<open>
  C37: an advance fails only on an invalid observation. For an account with its invariant and
  times that leave a week at the start and three days at the end of the calendar, the
  advance returns exactly when the observation validates: no empty history, division by
  zero or date overflow is ever raised behind the validation.
\<close>

theorem advance_returns_iff_valid:
  assumes "risk_inv s" "roomy (instant_of (ro_now x))" "dt_min + days 7 \<le> instant_of (ro_now x)"
  shows "is_ok (advance_risk_state s x c) \<longleftrightarrow> is_ok (validate_observation s x)"
proof
  assume "is_ok (validate_observation s x)"
  then show "is_ok (advance_risk_state s x c)"
    using advance_ok [OF assms(1) _ assms(2,3)] by (auto simp: is_ok_iff)
qed (auto simp: advance_risk_state_def is_ok_ebind is_ok_iff)

section \<open>A sample run\<close>

definition sample_observation :: "int \<Rightarrow> int \<Rightarrow> risk_observation" where
  "sample_observation h e = \<lparr> ro_now = utc (1000000000000000 + hours h), ro_equity = flit e 1,
     ro_closed_trades = [], ro_volatility_ratio = flit 1 1, ro_volatility_bar_valid = VBool True,
     ro_system_healthy = VBool True \<rparr>"

text \<open>Two bars, on the second of which 5 percent are lost within the day.\<close>

definition sample_state :: risk_state where
  "sample_state = projr (advance_all RiskConfig [sample_observation 0 100, sample_observation 4 95] RiskState)"

lemma sample_state:
  "advance_all RiskConfig [sample_observation 0 100, sample_observation 4 95] RiskState = Inr sample_state"
  "rk_daily_halt_started_at sample_state = Some (1000000000000000 + hours 4)"
proof -
  have "is_ok (advance_all RiskConfig [sample_observation 0 100, sample_observation 4 95] RiskState)" by code_simp
  then show "advance_all RiskConfig [sample_observation 0 100, sample_observation 4 95] RiskState = Inr sample_state"
    by (auto simp: sample_state_def is_ok_iff)
  show "rk_daily_halt_started_at sample_state = Some (1000000000000000 + hours 4)" by code_simp
qed

theorem advance_keeps_invariant_witness: "risk_inv sample_state"
  using advance_keeps_invariant [of RiskState] sample_state(1) by blast

theorem halts_cool_off_witness:
  "\<exists>s. advance_all RiskConfig [sample_observation 8 99, sample_observation 24 100] sample_state = Inr s
     \<and> rd_risk_rate (rk_decision s) = 0"
proof -
  have "is_ok (advance_all RiskConfig [sample_observation 8 99, sample_observation 24 100] sample_state)" by code_simp
  then obtain s where s: "advance_all RiskConfig [sample_observation 8 99, sample_observation 24 100] sample_state = Inr s"
    by (auto simp: is_ok_iff)
  have "rk_daily_halt_started_at s = Some (1000000000000000 + hours 4) \<and> rd_risk_rate (rk_decision s) = 0
    \<and> rd_exposure_cap (rk_decision s) = 0"
    by (rule halts_cool_off [OF s, where n = 24]) (use sample_state(2) in \<open>auto simp: sample_observation_def hours_def\<close>)
  then show ?thesis using s by blast
qed

theorem advance_returns_iff_valid_witness:
  "is_ok (advance_risk_state RiskState (sample_observation 0 100) RiskConfig)"
proof -
  have h: "is_ok (validate_observation RiskState (sample_observation 0 100))"
    "roomy (instant_of (ro_now (sample_observation 0 100)))"
    "dt_min + days 7 \<le> instant_of (ro_now (sample_observation 0 100))" by code_simp+
  show ?thesis using advance_returns_iff_valid [OF risk_inv_initial h(2,3)] h(1) by blast
qed

end
