(* ===== verification/Scheduler.thy ===== *)
theory Scheduler
  imports PyValue PyTime
begin

text \<open>
  The four-hour scheduler, \<open>src/autobit/paper/scheduler.py\<close>. The clock, the sleeper, the
  service and the delay provider are the interfaces of the source: one call of
  \<open>run_once\<close> takes the successive readings of the clock, the resolver and the service as
  arguments, and gives the new cursor, the sleeps and processed ends in order and the result
  or the exception. When the readings end before the target the call is still waiting, and
  the result is \<open>None\<close>.
\<close>

definition FOUR_HOURS :: timedelta where "FOUR_HOURS = hours 4"
definition MATURITY_DELAY :: timedelta where "MATURITY_DELAY = minutes 10"
definition DEFAULT_RETRY_DELAY_SECONDS :: pyfloat where "DEFAULT_RETRY_DELAY_SECONDS = flit 1 1"
definition MAX_RETRY_DELAY_SECONDS :: pyfloat where "MAX_RETRY_DELAY_SECONDS = flit 60 1"
definition MAX_DYNAMIC_RETRY_DELAY_SECONDS :: pyfloat where "MAX_DYNAMIC_RETRY_DELAY_SECONDS = flit 300 1"

definition out_of_range :: exn where
  "out_of_range = ValueError ''datetime is outside the supported scheduler range''"

text \<open>\<open>except (OverflowError, ValueError) as error: raise e\<close>.\<close>

definition as_range_error :: "exn \<Rightarrow> 'a res \<Rightarrow> 'a res" where
  "as_range_error e m = catch (\<lambda>x. x = OverflowError \<or> is_value_error x) m (\<lambda>_. Inl e)"

definition sched_as_utc :: "pydatetime \<Rightarrow> instant res" where
  "sched_as_utc v = (if \<not> is_aware v then Inl (ValueError ''datetime must be timezone-aware'')
     else as_range_error out_of_range (astimezone_utc v))"

definition floor_four_hours :: "instant \<Rightarrow> instant res" where
  "floor_four_hours v = as_range_error out_of_range (dt_add 0 (v div FOUR_HOURS * FOUR_HOURS))"

definition next_cycle_at :: "pydatetime \<Rightarrow> instant res" where
  "next_cycle_at now_utc =
     ebind (sched_as_utc now_utc) (\<lambda>now.
     as_range_error out_of_range (
       ebind (dt_add now (- MATURITY_DELAY)) (\<lambda>v.
       ebind (floor_four_hours v) (\<lambda>slot0.
       ebind (dt_add slot0 MATURITY_DELAY) (\<lambda>latest_slot.
       if latest_slot \<le> now then dt_add latest_slot FOUR_HOURS else Inr latest_slot)))))"

definition latest_completed_end :: "instant \<Rightarrow> instant res" where
  "latest_completed_end now = as_range_error out_of_range (
     ebind (dt_add now (- MATURITY_DELAY)) floor_four_hours)"

definition resolved_end :: "pydatetime \<Rightarrow> instant res" where
  "resolved_end v = ebind (sched_as_utc v) (\<lambda>u.
     if u mod FOUR_HOURS \<noteq> 0
     then Inl (ValueError ''resolved end must be an exact four-hour UTC boundary'') else Inr u)"

section \<open>The scheduler\<close>

record paper_scheduler =
  ps_retry_delay_seconds :: pyfloat
  ps_next_end :: "instant option"

text \<open>The constructor: the retry delay must be a number in \<open>(0, 60]\<close>.\<close>

definition delay_error :: exn where
  "delay_error = ValueError ''retry delay must be positive and at most sixty seconds''"

definition PaperScheduler :: "pyval \<Rightarrow> paper_scheduler res" where
  "PaperScheduler v =
     (if is_bool v then Inl delay_error
      else ebind (catch (\<lambda>e. e = TypeError \<or> is_value_error e) (py_float v) (\<lambda>_. Inl delay_error)) (\<lambda>delay.
        if \<not> isfinite delay \<or> \<not> (0 < delay \<and> delay \<le> MAX_RETRY_DELAY_SECONDS) then Inl delay_error
        else Inr \<lparr> ps_retry_delay_seconds = delay, ps_next_end = None \<rparr>))"

text \<open>What the service reports for an end.\<close>

datatype service_outcome = LeaseHeld | Finished

datatype sched_event = Slept pyfloat | ProcessedEnd instant

text \<open>The collaborators during one call.\<close>

record sched_env =
  se_clock :: "pydatetime list"
  se_resolver :: "(instant \<Rightarrow> pydatetime res) option"
  se_service :: "instant \<Rightarrow> service_outcome res"
  se_provider :: "pyval res option"

definition current_retry_delay :: "paper_scheduler \<Rightarrow> sched_env \<Rightarrow> pyfloat res" where
  "current_retry_delay s env = (case se_provider env of
     None \<Rightarrow> Inr (ps_retry_delay_seconds s)
   | Some call \<Rightarrow> ebind call (\<lambda>v.
       if is_bool v then Inl (ValueError ''dynamic retry delay must be positive and at most 300 seconds'')
       else ebind (py_float v) (\<lambda>delay.
         if \<not> isfinite delay \<or> \<not> (0 < delay \<and> delay \<le> MAX_DYNAMIC_RETRY_DELAY_SECONDS)
         then Inl (ValueError ''dynamic retry delay must be positive and at most 300 seconds'')
         else Inr delay)))"

definition retry_sleep :: "paper_scheduler \<Rightarrow> sched_env \<Rightarrow> sched_event" where
  "retry_sleep s env = Slept (case current_retry_delay s env of
     Inl _ \<Rightarrow> MAX_DYNAMIC_RETRY_DELAY_SECONDS | Inr d \<Rightarrow> d)"

text \<open>\<open>(target - actual_wake).total_seconds()\<close>.\<close>

definition total_seconds :: "timedelta \<Rightarrow> pyfloat" where
  "total_seconds d = flit d 1000000"

text \<open>The wait loop: sleep to the target and read the clock again.\<close>

fun wait_for :: "instant \<Rightarrow> instant \<Rightarrow> pydatetime list \<Rightarrow> (instant res \<times> sched_event list) option" where
  "wait_for target wake clock =
     (if wake < target
      then (case clock of [] \<Rightarrow> None
        | v # vs \<Rightarrow> (case sched_as_utc v of
            Inl e \<Rightarrow> Some (Inl e, [Slept (total_seconds (target - wake))])
          | Inr w \<Rightarrow> (case wait_for target w vs of None \<Rightarrow> None
              | Some (r, evs) \<Rightarrow> Some (r, Slept (total_seconds (target - wake)) # evs))))
      else Some (Inr wake, []))"

declare wait_for.simps [simp del]

record sched_run =
  sr_scheduler :: paper_scheduler
  sr_events :: "sched_event list"
  sr_result :: "service_outcome res"

text \<open>The cursor: set from the resolver or the latest matured end when there is none.\<close>

definition first_end :: "sched_env \<Rightarrow> instant \<Rightarrow> instant res" where
  "first_end env wake =
     ebind (latest_completed_end wake) (\<lambda>latest.
     ebind (case se_resolver env of None \<Rightarrow> Inr (utc latest) | Some f \<Rightarrow> f latest) resolved_end)"

text \<open>\<open>_process_pending\<close> for the cursor \<open>e\<close>.\<close>

definition process_pending :: "paper_scheduler \<Rightarrow> sched_env \<Rightarrow> instant \<Rightarrow> sched_run" where
  "process_pending s env e =
     (case dt_add e FOUR_HOURS of
        Inl _ \<Rightarrow> \<lparr> sr_scheduler = s, sr_events = [],
                   sr_result = Inl (ValueError ''scheduler cursor is outside datetime range'') \<rparr>
      | Inr following \<Rightarrow>
          (case se_service env e of
             Inl x \<Rightarrow> \<lparr> sr_scheduler = s, sr_events = [ProcessedEnd e], sr_result = Inl x \<rparr>
           | Inr LeaseHeld \<Rightarrow> \<lparr> sr_scheduler = s, sr_events = [ProcessedEnd e, retry_sleep s env],
                                sr_result = Inr LeaseHeld \<rparr>
           | Inr Finished \<Rightarrow> \<lparr> sr_scheduler = s\<lparr>ps_next_end := Some following\<rparr>,
                               sr_events = [ProcessedEnd e], sr_result = Inr Finished \<rparr>))"

text \<open>The body of the \<open>try\<close> of \<open>run_once\<close>.\<close>

definition failed :: "paper_scheduler \<Rightarrow> sched_event list \<Rightarrow> exn \<Rightarrow> sched_run" where
  "failed s evs e = \<lparr> sr_scheduler = s, sr_events = evs, sr_result = Inl e \<rparr>"

definition run_body :: "paper_scheduler \<Rightarrow> sched_env \<Rightarrow> sched_run option" where
  "run_body s env = (case se_clock env of [] \<Rightarrow> None
   | v # clock \<Rightarrow> (case sched_as_utc v of Inl e \<Rightarrow> Some (failed s [] e)
     | Inr wake \<Rightarrow>
       (case (case ps_next_end s of Some e \<Rightarrow> Inr e | None \<Rightarrow> first_end env wake) of
          Inl x \<Rightarrow> Some (failed s [] x)
        | Inr e \<Rightarrow>
          (let s1 = s\<lparr>ps_next_end := Some e\<rparr> in
           case dt_add e MATURITY_DELAY of
             Inl _ \<Rightarrow> Some (failed s1 [] (ValueError ''scheduler target is outside datetime range''))
           | Inr target \<Rightarrow>
             (case wait_for target wake clock of None \<Rightarrow> None
              | Some (Inl x, evs) \<Rightarrow> Some (failed s1 evs x)
              | Some (Inr w, evs) \<Rightarrow>
                 (case latest_completed_end w of
                    Inl x \<Rightarrow> Some (failed s1 evs x)
                  | Inr latest \<Rightarrow>
                    if latest < e
                    then Some (failed s1 evs (RuntimeError ''scheduler target did not mature a completed candle''))
                    else (let r = process_pending s1 env e
                          in Some (r\<lparr>sr_events := evs @ sr_events r\<rparr>))))))))"

text \<open>\<open>run_once\<close>: any exception sleeps for a retry and is raised again.\<close>

definition run_once :: "paper_scheduler \<Rightarrow> sched_env \<Rightarrow> sched_run option" where
  "run_once s env = (case run_body s env of None \<Rightarrow> None
   | Some r \<Rightarrow> (case sr_result r of
       Inl _ \<Rightarrow> Some (r\<lparr>sr_events := sr_events r @ [retry_sleep (sr_scheduler r) env]\<rparr>)
     | Inr _ \<Rightarrow> Some r))"

text \<open>A sequence of calls, while each of them returns.\<close>

fun run_calls :: "paper_scheduler \<Rightarrow> sched_env list \<Rightarrow> (paper_scheduler \<times> sched_run list) option" where
  "run_calls s [] = Some (s, [])"
| "run_calls s (e # es) = (case run_once s e of None \<Rightarrow> None
   | Some r \<Rightarrow> (case run_calls (sr_scheduler r) es of None \<Rightarrow> None
       | Some (t, rs) \<Rightarrow> Some (t, r # rs)))"

section \<open>The grid of four hours\<close>

lemma FOUR_HOURS_pos [simp]: "0 < FOUR_HOURS" "FOUR_HOURS \<noteq> 0"
  by (simp_all add: FOUR_HOURS_def hours_def)

lemma MATURITY_DELAY_pos: "0 < MATURITY_DELAY" "MATURITY_DELAY < FOUR_HOURS"
  by (simp_all add: FOUR_HOURS_def MATURITY_DELAY_def hours_def minutes_def)

definition grid :: "instant \<Rightarrow> bool" where
  "grid t \<longleftrightarrow> t mod FOUR_HOURS = 0"

lemma as_range_error_Inr [simp]: "as_range_error e m = Inr x \<longleftrightarrow> m = Inr x"
  by (cases m) (auto simp: as_range_error_def)

lemma floor_four_hours_Inr:
  "floor_four_hours v = Inr t \<longleftrightarrow> in_dt_range t \<and> t = v div FOUR_HOURS * FOUR_HOURS"
  by (auto simp: floor_four_hours_def)

lemma floor_grid:
  "grid (v div FOUR_HOURS * FOUR_HOURS)" "v div FOUR_HOURS * FOUR_HOURS \<le> v"
  "v < v div FOUR_HOURS * FOUR_HOURS + FOUR_HOURS"
proof -
  have "v div FOUR_HOURS * FOUR_HOURS + v mod FOUR_HOURS = v" by simp
  moreover have "0 \<le> v mod FOUR_HOURS" "v mod FOUR_HOURS < FOUR_HOURS" by simp_all
  ultimately show "v div FOUR_HOURS * FOUR_HOURS \<le> v" "v < v div FOUR_HOURS * FOUR_HOURS + FOUR_HOURS"
    by linarith+
qed (simp add: grid_def)

text \<open>Two points of the grid differ by at least four hours.\<close>

lemma grid_less: "grid s \<Longrightarrow> grid t \<Longrightarrow> s < t \<Longrightarrow> s + FOUR_HOURS \<le> t"
proof -
  assume g: "grid s" "grid t" "s < t"
  have "FOUR_HOURS dvd t - s" using g by (auto simp: grid_def mod_eq_0_iff_dvd)
  then show ?thesis using g(3) by (auto dest: zdvd_imp_le)
qed

lemma floor_greatest: "grid t \<Longrightarrow> t \<le> v \<Longrightarrow> t \<le> v div FOUR_HOURS * FOUR_HOURS"
  using grid_less [OF floor_grid(1) [of v], of t] floor_grid(3) [of v] by linarith

lemma latest_completed_end_Inr:
  assumes "latest_completed_end now = Inr t"
  shows "grid t" "t + MATURITY_DELAY \<le> now" "now < t + MATURITY_DELAY + FOUR_HOURS"
    "\<And>u. grid u \<Longrightarrow> u + MATURITY_DELAY \<le> now \<Longrightarrow> u \<le> t"
proof -
  have t: "t = (now - MATURITY_DELAY) div FOUR_HOURS * FOUR_HOURS"
    using assms by (auto simp: latest_completed_end_def floor_four_hours_Inr)
  show "grid t" "t + MATURITY_DELAY \<le> now" "now < t + MATURITY_DELAY + FOUR_HOURS"
    using floor_grid [of "now - MATURITY_DELAY"] unfolding t by linarith+
  show "u \<le> t" if "grid u" "u + MATURITY_DELAY \<le> now" for u
    using floor_greatest [OF that(1), of "now - MATURITY_DELAY"] that(2) unfolding t by linarith
qed

end
