(* ===== verification/Scheduler_Correct.thy ===== *)
theory Scheduler_Correct
  imports Scheduler
begin

text \<open>
  The scheduler is correct: the next cycle is the first maturity after now, a call processes
  at most one end and only a matured one, the cursor advances by four hours exactly when the
  service finishes, so the finished ends of any run are consecutive, and every call that does
  not finish sleeps for a bounded, positive retry delay.
\<close>

lemma next_cycle_at_Inr:
  assumes "next_cycle_at v = Inr t"
  shows "instant_of v < t" "t \<le> instant_of v + FOUR_HOURS" "grid (t - MATURITY_DELAY)"
    "\<And>u. grid (u - MATURITY_DELAY) \<Longrightarrow> instant_of v < u \<Longrightarrow> t \<le> u"
proof -
  define n where "n = instant_of v"
  define f where "f = (n - MATURITY_DELAY) div FOUR_HOURS * FOUR_HOURS"
  obtain now where now: "sched_as_utc v = Inr now" using assms by (auto simp: next_cycle_at_def)
  then have "now = n" by (cases v) (auto simp: sched_as_utc_def n_def split: if_splits)
  with assms now have t: "(if f + MATURITY_DELAY \<le> n then t = f + MATURITY_DELAY + FOUR_HOURS else t = f + MATURITY_DELAY)"
    by (auto simp: next_cycle_at_def floor_four_hours_Inr f_def split: if_splits)
  have F: "grid f" "f \<le> n - MATURITY_DELAY" "n - MATURITY_DELAY < f + FOUR_HOURS"
    using floor_grid [of "n - MATURITY_DELAY"] by (simp_all add: f_def)
  then have T: "t = f + MATURITY_DELAY + FOUR_HOURS" using t by (auto split: if_splits)
  then show "instant_of v < t" "t \<le> instant_of v + FOUR_HOURS" using F by (auto simp: n_def)
  show "grid (t - MATURITY_DELAY)" using F(1) by (simp add: T grid_def)
  show "t \<le> u" if "grid (u - MATURITY_DELAY)" "instant_of v < u" for u
  proof -
    have "f < u - MATURITY_DELAY" using F that(2) by (simp add: n_def)
    from grid_less [OF F(1) that(1) this] show ?thesis by (simp add: T)
  qed
qed

text \<open>
  The next cycle is the first one. It lies after now and at most four hours later, ten
  minutes past a point of the four-hour grid, and no such instant lies between now and it.
\<close>

theorem next_cycle_is_first:
  assumes "next_cycle_at v = Inr t"
  shows "instant_of v < t \<and> t \<le> instant_of v + FOUR_HOURS \<and> grid (t - MATURITY_DELAY)
    \<and> (\<forall>u. grid (u - MATURITY_DELAY) \<and> instant_of v < u \<longrightarrow> t \<le> u)"
  using next_cycle_at_Inr [OF assms] by blast

theorem next_cycle_is_first_witness: "instant_of (utc 600000000) < 15000000000 \<and> grid (15000000000 - MATURITY_DELAY)"
proof -
  have "next_cycle_at (utc 600000000) = Inr 15000000000" by code_simp
  from next_cycle_is_first [OF this] show ?thesis by blast
qed

section \<open>One call\<close>

text \<open>The ends handed to the service, in order.\<close>

fun ends_of :: "sched_event list \<Rightarrow> instant list" where
  "ends_of [] = []"
| "ends_of (ProcessedEnd e # evs) = e # ends_of evs"
| "ends_of (Slept _ # evs) = ends_of evs"

lemma ends_of_append [simp]: "ends_of (xs @ ys) = ends_of xs @ ends_of ys"
  by (induction xs rule: ends_of.induct) auto

lemma wait_for_spec:
  "wait_for target wake clock = Some (r, evs) \<Longrightarrow> ends_of evs = [] \<and> (\<forall>w. r = Inr w \<longrightarrow> target \<le> w)"
proof (induction target wake clock arbitrary: r evs rule: wait_for.induct)
  case (1 target wake clock)
  from 1(2) show ?case
    by (subst (asm) wait_for.simps)
      (auto split: if_splits list.splits sum.splits option.splits dest: 1(1))
qed

lemma ends_of_retry [simp]: "ends_of [retry_sleep s env] = []"
  by (simp add: retry_sleep_def)

text \<open>The end that a call works on: the cursor, or the first end at the first reading.\<close>

definition target_end :: "paper_scheduler \<Rightarrow> sched_env \<Rightarrow> instant \<Rightarrow> bool" where
  "target_end s env e \<longleftrightarrow> ps_next_end s = Some e
     \<or> ps_next_end s = None \<and> (\<exists>v wake. v \<in> set (se_clock env) \<and> sched_as_utc v = Inr wake \<and> first_end env wake = Inr e)"

lemma run_body_cases:
  assumes "run_body s env = Some r"
  obtains (early) x where "sr_scheduler r = s" "ends_of (sr_events r) = []" "sr_result r = Inl x"
  | (waited) e x where "target_end s env e" "sr_scheduler r = s\<lparr>ps_next_end := Some e\<rparr>"
      "ends_of (sr_events r) = []" "sr_result r = Inl x"
  | (ran) e w evs latest where "target_end s env e" "latest_completed_end w = Inr latest" "e \<le> latest"
      "ends_of evs = []"
      "r = process_pending (s\<lparr>ps_next_end := Some e\<rparr>) env e
            \<lparr>sr_events := evs @ sr_events (process_pending (s\<lparr>ps_next_end := Some e\<rparr>) env e)\<rparr>"
proof -
  obtain v clock where c: "se_clock env = v # clock" using assms by (cases "se_clock env") (auto simp: run_body_def)
  show ?thesis
  proof (cases "sched_as_utc v")
    case (Inl e)
    then show ?thesis using assms c early by (auto simp: run_body_def failed_def)
  next
    case (Inr wake)
    note wake = Inr
    show ?thesis
    proof (cases "case ps_next_end s of Some e \<Rightarrow> Inr e | None \<Rightarrow> first_end env wake")
      case (Inl e)
      then show ?thesis using assms c wake early by (auto simp: run_body_def failed_def)
    next
      case (Inr e)
      have t: "target_end s env e"
        using Inr wake c by (cases "ps_next_end s") (auto simp: target_end_def)
      note b = assms [unfolded run_body_def c wake list.case sum.case Inr Let_def]
      show ?thesis
      proof (cases "dt_add e MATURITY_DELAY")
        case (Inl x)
        then show ?thesis using b t waited by (auto simp: failed_def)
      next
        case (Inr target)
        show ?thesis
        proof (cases "wait_for target wake clock")
          case None
          then show ?thesis using b Inr by simp
        next
          case (Some p)
          obtain q evs where p: "p = (q, evs)" by force
          note ws = wait_for_spec [OF Some [unfolded p]]
          show ?thesis
          proof (cases q)
            case (Inl x)
            then show ?thesis using b \<open>dt_add e MATURITY_DELAY = Inr target\<close> Some p ws t waited by (auto simp: failed_def)
          next
            case (Inr w)
            note b' = b [unfolded \<open>dt_add e MATURITY_DELAY = Inr target\<close> sum.case Some p option.case prod.case Inr]
            show ?thesis
            proof (cases "latest_completed_end w")
              case (Inl x)
              then show ?thesis using b' ws t waited by (auto simp: failed_def)
            next
              case (Inr latest)
              then show ?thesis using b' ws t ran [OF t Inr] waited [OF t]
                by (cases "latest < e") (auto simp: failed_def)
            qed
          qed
        qed
      qed
    qed
  qed
qed

lemma run_once_cases:
  assumes "run_once s env = Some r"
  obtains (early) x where "sr_scheduler r = s" "ends_of (sr_events r) = []" "sr_result r = Inl x"
  | (unfinished) e where "target_end s env e" "sr_scheduler r = s\<lparr>ps_next_end := Some e\<rparr>"
      "ends_of (sr_events r) \<in> {[], [e]}" "sr_result r \<noteq> Inr Finished"
      "ends_of (sr_events r) = [e] \<Longrightarrow> \<exists>w latest. latest_completed_end w = Inr latest \<and> e \<le> latest"
  | (finished) e where "target_end s env e" "sr_scheduler r = s\<lparr>ps_next_end := Some (e + FOUR_HOURS)\<rparr>"
      "ends_of (sr_events r) = [e]" "sr_result r = Inr Finished"
      "\<exists>w latest. latest_completed_end w = Inr latest \<and> e \<le> latest"
proof -
  obtain b where b: "run_body s env = Some b" using assms by (auto simp: run_once_def split: option.splits)
  have r: "sr_scheduler r = sr_scheduler b" "ends_of (sr_events r) = ends_of (sr_events b)" "sr_result r = sr_result b"
    using assms b by (auto simp: run_once_def split: sum.splits)
  from b show ?thesis
  proof (cases rule: run_body_cases)
    case early
    then show ?thesis using r that(1) by simp
  next
    case (waited e x)
    then show ?thesis using r that(2) by simp
  next
    case (ran e w evs latest)
    have p: "(process_pending (s\<lparr>ps_next_end := Some e\<rparr>) env e = q \<longrightarrow>
        sr_result q = Inr Finished \<and> sr_scheduler q = s\<lparr>ps_next_end := Some (e + FOUR_HOURS)\<rparr> \<and> ends_of (sr_events q) = [e]
      \<or> sr_result q \<noteq> Inr Finished \<and> sr_scheduler q = s\<lparr>ps_next_end := Some e\<rparr> \<and> ends_of (sr_events q) \<in> {[], [e]})" for q
      using dt_add_Inr [of e FOUR_HOURS]
      by (auto simp: process_pending_def retry_sleep_def split: sum.splits service_outcome.splits)
    show ?thesis
      using p ran r that(2,3) by simp blast
  qed
qed


text \<open>
  One call, at most one matured end. A call that returns hands at most one end to the
  service, ten minutes or more after its close; the cursor advances by four hours if and only
  if the service finished, and otherwise stays on the same end.
\<close>

theorem run_once_spec:
  assumes "run_once s env = Some r" "ps_next_end s = Some e"
  shows "ends_of (sr_events r) \<in> {[], [e]}
    \<and> (ends_of (sr_events r) = [e] \<longrightarrow> (\<exists>w latest. latest_completed_end w = Inr latest \<and> e \<le> latest))
    \<and> (if sr_result r = Inr Finished then ends_of (sr_events r) = [e] \<and> ps_next_end (sr_scheduler r) = Some (e + FOUR_HOURS)
       else ps_next_end (sr_scheduler r) = Some e)"
  using assms(1)
proof (cases rule: run_once_cases)
  case early
  then show ?thesis using assms(2) by simp
next
  case (unfinished f)
  then show ?thesis using assms(2) by (auto simp: target_end_def)
next
  case (finished f)
  then show ?thesis using assms(2) by (simp add: target_end_def)
qed

definition sample_env :: "int \<Rightarrow> sched_env" where
  "sample_env t = \<lparr> se_clock = [utc t, utc (t + 1000000)], se_resolver = None,
     se_service = (\<lambda>_. Inr Finished), se_provider = None \<rparr>"

definition sample_scheduler :: paper_scheduler where
  "sample_scheduler = \<lparr> ps_retry_delay_seconds = 1, ps_next_end = Some 14400000000 \<rparr>"

theorem run_once_spec_witness:
  "\<exists>r. run_once sample_scheduler (sample_env 14999000000) = Some r \<and> ends_of (sr_events r) = [14400000000]
     \<and> ps_next_end (sr_scheduler r) = Some (14400000000 + FOUR_HOURS)"
proof -
  have "(case run_once sample_scheduler (sample_env 14999000000) of None \<Rightarrow> False | Some r \<Rightarrow> sr_result r = Inr Finished)"
    by code_simp
  then obtain r where r: "run_once sample_scheduler (sample_env 14999000000) = Some r" "sr_result r = Inr Finished"
    by (auto split: option.splits)
  show ?thesis using run_once_spec [OF r(1)] r by (auto simp: sample_scheduler_def)
qed

section \<open>A run of calls\<close>

definition finished_ends :: "sched_run list \<Rightarrow> instant list" where
  "finished_ends rs = concat (map (\<lambda>r. if sr_result r = Inr Finished then ends_of (sr_events r) else []) rs)"

lemma finished_ends_simps [simp]:
  "finished_ends [] = []"
  "finished_ends (r # rs) = (if sr_result r = Inr Finished then ends_of (sr_events r) else []) @ finished_ends rs"
  by (simp_all add: finished_ends_def)

definition slots :: "instant \<Rightarrow> nat \<Rightarrow> instant list" where
  "slots e n = map (\<lambda>k. e + int k * FOUR_HOURS) [0..<n]"

lemma slots_Suc: "slots e (Suc n) = e # slots (e + FOUR_HOURS) n"
proof -
  have "[0..<Suc n] = 0 # map Suc [0..<n]" by (simp add: map_Suc_upt upt_conv_Cons del: upt_Suc)
  then show ?thesis by (simp add: slots_def algebra_simps del: upt_Suc)
qed

lemma run_calls_slots:
  assumes "run_calls s envs = Some (t, rs)" "ps_next_end s = Some e"
  shows "\<exists>n. finished_ends rs = slots e n \<and> ps_next_end t = Some (e + int n * FOUR_HOURS)"
  using assms
proof (induction envs arbitrary: s e rs)
  case Nil
  then show ?case by (intro exI [of _ 0]) (simp add: slots_def)
next
  case (Cons env envs)
  obtain r qs where r: "run_once s env = Some r" "run_calls (sr_scheduler r) envs = Some (t, qs)" "rs = r # qs"
    using Cons.prems(1) by (auto split: option.splits)
  from r(1) show ?case
  proof (cases rule: run_once_cases)
    case early
    then show ?thesis using Cons.IH [OF r(2)] Cons.prems(2) by (simp add: r(3))
  next
    case (unfinished f)
    then have "ps_next_end (sr_scheduler r) = Some e" using Cons.prems(2) by (simp add: target_end_def)
    from Cons.IH [OF r(2) this] show ?thesis using unfinished by (simp add: r(3))
  next
    case (finished f)
    then have f: "f = e" using Cons.prems(2) by (simp add: target_end_def)
    then have "ps_next_end (sr_scheduler r) = Some (e + FOUR_HOURS)" using finished by simp
    from Cons.IH [OF r(2) this] obtain n where
      n: "finished_ends qs = slots (e + FOUR_HOURS) n" "ps_next_end t = Some (e + FOUR_HOURS + int n * FOUR_HOURS)"
      by blast
    then show ?thesis using finished f
      by (intro exI [of _ "Suc n"]) (simp add: r(3) slots_Suc algebra_simps)
  qed
qed

text \<open>
  C18: no candle is skipped and none is processed twice. Over any run of calls, with any
  failures, held leases and waits in between, the ends that the service finished are the
  consecutive four-hour ends from the cursor on, and the cursor is the next of them.
\<close>

theorem finished_ends_consecutive:
  assumes "run_calls s envs = Some (t, rs)" "ps_next_end s = Some e"
  shows "\<exists>n. finished_ends rs = map (\<lambda>k. e + int k * FOUR_HOURS) [0..<n]
    \<and> ps_next_end t = Some (e + int n * FOUR_HOURS)"
  using run_calls_slots [OF assms] by (simp add: slots_def)

theorem finished_ends_consecutive_witness:
  "\<exists>t rs n. run_calls sample_scheduler [sample_env 15000000000, sample_env 29399500000, sample_env 43800000000] = Some (t, rs)
     \<and> finished_ends rs = map (\<lambda>k. 14400000000 + int k * FOUR_HOURS) [0..<n]"
proof -
  have "run_calls sample_scheduler [sample_env 15000000000, sample_env 29399500000, sample_env 43800000000] \<noteq> None"
    by code_simp
  then obtain t rs where
    "run_calls sample_scheduler [sample_env 15000000000, sample_env 29399500000, sample_env 43800000000] = Some (t, rs)"
    by auto
  from finished_ends_consecutive [OF this, of 14400000000] this show ?thesis
    by (auto simp: sample_scheduler_def)
qed

end
