(* ===== verification/PyIso.thy ===== *)
theory PyIso
  imports PyTime PyValue
begin

text \<open>
  UTC timestamps as text: \<open>datetime.isoformat\<close> with a \<open>Z\<close> suffix and the strict parser that
  the store and the health monitor share, over the proleptic Gregorian calendar. The text of
  an instant reads back as the instant.
\<close>

section \<open>The calendar\<close>

definition is_leap :: "int \<Rightarrow> bool" where
  "is_leap y \<longleftrightarrow> y mod 4 = 0 \<and> (y mod 100 \<noteq> 0 \<or> y mod 400 = 0)"

text \<open>Days from 0001-01-01 to the first day of year \<open>y\<close>.\<close>

definition days_before_year :: "int \<Rightarrow> int" where
  "days_before_year y = (y - 1) * 365 + (y - 1) div 4 - (y - 1) div 100 + (y - 1) div 400"

definition month_lengths :: "int \<Rightarrow> int list" where
  "month_lengths y = [31, if is_leap y then 29 else 28, 31, 30, 31, 30, 31, 31, 30, 31, 30, 31]"

lemma days_before_year_Suc:
  "days_before_year (y + 1) = days_before_year y + (if is_leap y then 366 else 365)"
proof -
  have D: "y div n = (y - 1) div n + (if y mod n = 0 then 1 else 0)" if "0 < n" for n :: int
  proof -
    have q: "y = n * (y div n) + y mod n" by simp
    have b: "0 \<le> y mod n" "y mod n < n" using that by auto
    show ?thesis
    proof (cases "y mod n = 0")
      case True
      then obtain k where k: "y = n * k" by (auto simp: mod_eq_0_iff_dvd)
      have "y - 1 = n * (k - 1) + (n - 1)" by (simp add: k algebra_simps)
      moreover have "(n * (k - 1) + (n - 1)) div n = k - 1" using that by (subst div_mult_self4) auto
      ultimately have "(y - 1) div n = k - 1" by (simp only:)
      then show ?thesis using True k that by simp
    next
      case False
      then have "y - 1 = n * (y div n) + (y mod n - 1)" "0 \<le> y mod n - 1" "y mod n - 1 < n" using q b by auto
      then have "(y - 1) div n = y div n" by (metis add.commute div_mult_self2 div_pos_pos_trivial add.left_neutral less_irrefl that)
      then show ?thesis using False by simp
    qed
  qed
  have d: "y div 4 = (y - 1) div 4 + (if y mod 4 = 0 then 1 else 0)"
    "y div 100 = (y - 1) div 100 + (if y mod 100 = 0 then 1 else 0)"
    "y div 400 = (y - 1) div 400 + (if y mod 400 = 0 then 1 else 0)" by (rule D, simp)+
  have "y mod 4 = y mod 100 mod 4" "y mod 100 = y mod 400 mod 100"
    by (simp_all add: mod_mod_cancel)
  then have m: "y mod 100 = 0 \<Longrightarrow> y mod 4 = 0" "y mod 400 = 0 \<Longrightarrow> y mod 100 = 0"
    by (metis mod_0)+
  have e: "y + 1 - 1 = y" by simp
  show ?thesis
  proof (cases "y mod 4 = 0")
    case four: True
    show ?thesis
    proof (cases "y mod 100 = 0")
      case hundred: True
      show ?thesis
        using four hundred unfolding days_before_year_def is_leap_def e d by (cases "y mod 400 = 0") simp_all
    next
      case False
      then show ?thesis using four m unfolding days_before_year_def is_leap_def e d by auto
    qed
  next
    case False
    then show ?thesis using m unfolding days_before_year_def is_leap_def e d by auto
  qed
qed

text \<open>The year that holds day \<open>n\<close>, searched upwards from \<open>y\<close>.\<close>

function year_from :: "int \<Rightarrow> int \<Rightarrow> int" where
  "year_from n y = (if days_before_year (y + 1) \<le> n then year_from n (y + 1) else y)"
  by pat_completeness auto
termination
proof (relation "measure (\<lambda>(n, y). nat (n - days_before_year y + 1))", goal_cases)
  case (2 n y)
  then show ?case using days_before_year_Suc [of y] by (auto split: if_splits)
qed simp

declare year_from.simps [simp del]

fun split_month :: "int list \<Rightarrow> int \<Rightarrow> int \<Rightarrow> int \<times> int" where
  "split_month [] m d = (m, d + 1)"
| "split_month (l # ls) m d = (if d < l \<or> ls = [] then (m, d + 1) else split_month ls (m + 1) (d - l))"

text \<open>Year, month and day of the day \<open>n\<close> after 0001-01-01.\<close>

definition civil_from_days :: "int \<Rightarrow> int \<times> int \<times> int" where
  "civil_from_days n = (let y = year_from n (n div 366 + 1);
     (m, d) = split_month (month_lengths y) 1 (n - days_before_year y) in (y, m, d))"

definition days_from_civil :: "int \<Rightarrow> int \<Rightarrow> int \<Rightarrow> int" where
  "days_from_civil y m d = days_before_year y + sum_list (take (nat (m - 1)) (month_lengths y)) + (d - 1)"

lemma year_from_bounds:
  "days_before_year y \<le> n \<Longrightarrow> days_before_year (year_from n y) \<le> n \<and> n < days_before_year (year_from n y + 1)
     \<and> y \<le> year_from n y"
proof (induction n y rule: year_from.induct)
  case (1 n y)
  then show ?case by (cases "days_before_year (y + 1) \<le> n") (auto simp: year_from.simps [of n y])
qed

lemma year_estimate: "0 \<le> n \<Longrightarrow> days_before_year (n div 366 + 1) \<le> n"
proof -
  assume "0 \<le> n"
  then have "0 \<le> n div 366" "n div 366 * 366 \<le> n" by auto
  moreover have "k div 4 - k div 100 + k div 400 \<le> k" if "0 \<le> k" for k :: int
  proof -
    have "k div 4 * 4 \<le> k" "0 \<le> k div 4" "0 \<le> k div 100" "k div 400 \<le> k div 100"
      using that by (auto intro: zdiv_mono2)
    then show ?thesis by linarith
  qed
  from this [of "n div 366"] calculation
  have "n div 366 * 365 + (n div 366 div 4 - n div 366 div 100 + n div 366 div 400) \<le> n" by linarith
  then show ?thesis unfolding days_before_year_def by simp
qed

lemma split_month_inverse:
  assumes "0 \<le> d" "d < sum_list ls" "\<forall>l \<in> set ls. 0 < l"
  shows "\<exists>k. split_month ls m d = (m + int k, d - sum_list (take k ls) + 1) \<and> k < length ls
    \<and> 0 \<le> d - sum_list (take k ls) \<and> d - sum_list (take k ls) < ls ! k"
  using assms
proof (induction ls arbitrary: m d)
  case Nil
  then show ?case by simp
next
  case (Cons l ls)
  show ?case
  proof (cases "d < l \<or> ls = []")
    case True
    then show ?thesis using Cons.prems by (intro exI [of _ 0]) auto
  next
    case False
    then obtain k where "split_month ls (m + 1) (d - l) = (m + 1 + int k, d - l - sum_list (take k ls) + 1)"
      "k < length ls" "0 \<le> d - l - sum_list (take k ls)" "d - l - sum_list (take k ls) < ls ! k"
      using Cons.IH [of "d - l" "m + 1"] Cons.prems by auto
    then show ?thesis using False by (intro exI [of _ "Suc k"]) (simp add: algebra_simps)
  qed
qed

lemma sum_month_lengths: "sum_list (month_lengths y) = (if is_leap y then 366 else 365)"
  by (simp add: month_lengths_def)

text \<open>Every day has its date, with the day in its month.\<close>

lemma civil_round_trip:
  assumes "0 \<le> n" "civil_from_days n = (y, m, d)"
  shows "days_from_civil y m d = n" "1 \<le> m" "m \<le> 12" "1 \<le> d" "d \<le> month_lengths y ! nat (m - 1)" "1 \<le> y"
    "days_before_year y \<le> n"
proof -
  have y: "y = year_from n (n div 366 + 1)" using assms(2) by (simp add: civil_from_days_def Let_def split: prod.splits)
  note b = year_from_bounds [OF year_estimate [OF assms(1)], folded y]
  have "0 \<le> n - days_before_year y" "n - days_before_year y < sum_list (month_lengths y)"
    using b days_before_year_Suc [of y] by (auto simp: sum_month_lengths)
  moreover have "\<forall>l \<in> set (month_lengths y). 0 < l" by (simp add: month_lengths_def)
  ultimately obtain k where k: "split_month (month_lengths y) 1 (n - days_before_year y) =
      (1 + int k, n - days_before_year y - sum_list (take k (month_lengths y)) + 1)"
    "k < length (month_lengths y)" "0 \<le> n - days_before_year y - sum_list (take k (month_lengths y))"
    "n - days_before_year y - sum_list (take k (month_lengths y)) < month_lengths y ! k"
    using split_month_inverse by blast
  have md: "m = 1 + int k" "d = n - days_before_year y - sum_list (take k (month_lengths y)) + 1"
    using assms(2) k(1) by (auto simp: civil_from_days_def Let_def y)
  then show "days_from_civil y m d = n" "1 \<le> m" "m \<le> 12" "1 \<le> d" "d \<le> month_lengths y ! nat (m - 1)"
    using k by (simp_all add: days_from_civil_def month_lengths_def)
  have "0 \<le> n div 366" using assms(1) by simp
  then show "1 \<le> y" "days_before_year y \<le> n" using b by linarith+
qed


section \<open>Text\<close>

fun pad :: "nat \<Rightarrow> int \<Rightarrow> string" where
  "pad 0 n = []"
| "pad (Suc k) n = pad k (n div 10) @ [digit_char (nat (n mod 10))]"

text \<open>The value of the next \<open>k\<close> characters, all of which must be digits.\<close>

definition digit_value :: "char \<Rightarrow> int option" where
  "digit_value c = (let n = int (of_char c) in if 48 \<le> n \<and> n \<le> 57 then Some (n - 48) else None)"

fun digits :: "int \<Rightarrow> nat \<Rightarrow> string \<Rightarrow> (int \<times> string) option" where
  "digits acc 0 s = Some (acc, s)"
| "digits acc (Suc k) [] = None"
| "digits acc (Suc k) (c # s) = (case digit_value c of None \<Rightarrow> None | Some v \<Rightarrow> digits (acc * 10 + v) k s)"

fun expect :: "char \<Rightarrow> string \<Rightarrow> string option" where
  "expect c [] = None"
| "expect c (x # s) = (if x = c then Some s else None)"

lemma digit_value_char [simp]: "0 \<le> n \<Longrightarrow> n < 10 \<Longrightarrow> digit_value (digit_char (nat n)) = Some n"
  by (simp add: digit_value_def digit_char_def Let_def)

lemma digits_append: "digits acc (k + l) s = (case digits acc k s of None \<Rightarrow> None | Some (v, r) \<Rightarrow> digits v l r)"
  by (induction acc k s rule: digits.induct) (auto split: option.splits)

lemma digits_pad: "0 \<le> n \<Longrightarrow> n < 10 ^ k \<Longrightarrow> digits acc k (pad k n @ s) = Some (acc * 10 ^ k + n, s)"
proof (induction k arbitrary: n s)
  case (Suc k)
  have "digits acc k (pad k (n div 10) @ digit_char (nat (n mod 10)) # s)
      = Some (acc * 10 ^ k + n div 10, digit_char (nat (n mod 10)) # s)"
    using Suc by (intro Suc.IH) auto
  then show ?case
    using digits_append [of acc k 1 "pad (Suc k) n @ s"] by simp
qed simp

lemma digits_pad0: "0 \<le> n \<Longrightarrow> n < 10 ^ k \<Longrightarrow> digits 0 k (pad k n @ s) = Some (n, s)"
  using digits_pad [of n k 0] by simp

definition EPOCH_DAYS :: int where "EPOCH_DAYS = 719162"

text \<open>\<open>_canonical_datetime\<close>: seconds, and microseconds when there are any.\<close>

definition iso_z :: "instant \<Rightarrow> string" where
  "iso_z t = (let (y, m, d) = civil_from_days (t div 86400000000 + EPOCH_DAYS);
      s = t mod 86400000000 div 1000000; us = t mod 1000000
    in pad 4 y @ ''-'' @ pad 2 m @ ''-'' @ pad 2 d @ ''T'' @ pad 2 (s div 3600) @ '':''
       @ pad 2 (s div 60 mod 60) @ '':'' @ pad 2 (s mod 60)
       @ (if us = 0 then [] else ''.'' @ pad 6 us) @ ''Z'')"

text \<open>The fraction: one to six digits after a point, up to the \<open>Z\<close> that ends the text.\<close>

fun fraction :: "nat \<Rightarrow> int \<Rightarrow> string \<Rightarrow> (int \<times> string) option" where
  "fraction 0 acc s = Some (acc, s)"
| "fraction (Suc k) acc [] = None"
| "fraction (Suc k) acc (c # s) = (case digit_value c of
     Some v \<Rightarrow> fraction k (acc * 10 + v) s | None \<Rightarrow> Some (acc * 10 ^ Suc k, c # s))"

definition micros :: "string \<Rightarrow> (int \<times> string) option" where
  "micros s = (case s of
     (x # c # r) \<Rightarrow> if x = CHR ''.'' then (if digit_value c = None then None else fraction 6 0 (c # r)) else Some (0, s)
   | _ \<Rightarrow> Some (0, s))"

record date_fields =
  df_year :: int
  df_month :: int
  df_day :: int
  df_hour :: int
  df_minute :: int
  df_second :: int
  df_micro :: int

text \<open>The shape of a timestamp at the start of a text, and the text after it.\<close>

definition scan_z :: "string \<Rightarrow> (date_fields \<times> string) option" where
  "scan_z s0 =
     Option.bind (digits 0 4 s0) (\<lambda>(y, s). Option.bind (expect CHR ''-'' s) (\<lambda>s.
     Option.bind (digits 0 2 s) (\<lambda>(m, s). Option.bind (expect CHR ''-'' s) (\<lambda>s.
     Option.bind (digits 0 2 s) (\<lambda>(d, s). Option.bind (expect CHR ''T'' s) (\<lambda>s.
     Option.bind (digits 0 2 s) (\<lambda>(h, s). Option.bind (expect CHR '':'' s) (\<lambda>s.
     Option.bind (digits 0 2 s) (\<lambda>(mi, s). Option.bind (expect CHR '':'' s) (\<lambda>s.
     Option.bind (digits 0 2 s) (\<lambda>(sec, s). Option.bind (micros s) (\<lambda>(us, s).
     Option.bind (expect CHR ''Z'' s) (\<lambda>s.
       Some (\<lparr> df_year = y, df_month = m, df_day = d, df_hour = h, df_minute = mi,
               df_second = sec, df_micro = us \<rparr>, s))))))))))))))"

definition valid_fields :: "date_fields \<Rightarrow> bool" where
  "valid_fields f \<longleftrightarrow> 1 \<le> df_year f \<and> 1 \<le> df_month f \<and> df_month f \<le> 12 \<and> 1 \<le> df_day f
     \<and> df_day f \<le> month_lengths (df_year f) ! nat (df_month f - 1)
     \<and> df_hour f < 24 \<and> df_minute f < 60 \<and> df_second f < 60"

definition instant_of_fields :: "date_fields \<Rightarrow> instant" where
  "instant_of_fields f = (days_from_civil (df_year f) (df_month f) (df_day f) - EPOCH_DAYS) * 86400000000
     + (df_hour f * 3600 + df_minute f * 60 + df_second f) * 1000000 + df_micro f"

text \<open>The strict parser: the whole text has the shape and is a date.\<close>

definition parse_z :: "string \<Rightarrow> instant option" where
  "parse_z s = (case scan_z s of
     Some (f, []) \<Rightarrow> if valid_fields f then Some (instant_of_fields f) else None
   | _ \<Rightarrow> None)"


section \<open>The text of an instant reads back\<close>

lemma digit_value_not: "digit_value CHR ''Z'' = None" "digit_value CHR ''.'' = None"
  by (simp_all add: digit_value_def Let_def)

lemma fraction_digits:
  assumes "digits acc k s = Some (v, r)"
  shows "fraction k acc s = Some (v, r)"
  using assms by (induction acc k s rule: digits.induct) (auto split: option.splits)

lemma pad_nonempty: "0 < k \<Longrightarrow> \<exists>c r. pad k n = c # r \<and> digit_value c \<noteq> None"
proof (induction k arbitrary: n)
  case (Suc k)
  show ?case
  proof (cases k)
    case 0
    then show ?thesis using digit_value_char [of "n mod 10"] by simp
  next
    case (Suc j)
    then obtain c r where "pad k (n div 10) = c # r \<and> digit_value c \<noteq> None" using Suc.IH by blast
    then show ?thesis by simp
  qed
qed simp

lemma micros_pad:
  assumes "0 \<le> us" "us < 1000000"
  shows "micros ((if us = 0 then [] else ''.'' @ pad 6 us) @ ''Z'') = Some (us, ''Z'')"
proof (cases "us = 0")
  case False
  obtain c r where c: "pad 6 us = c # r" "digit_value c \<noteq> None" using pad_nonempty [of 6 us] by auto
  have "digits 0 6 (pad 6 us @ ''Z'') = Some (us, ''Z'')" using assms by (intro digits_pad0) auto
  then have "fraction 6 0 (pad 6 us @ ''Z'') = Some (us, ''Z'')" by (rule fraction_digits)
  then show ?thesis using False c by (simp add: micros_def)
qed (simp add: micros_def)

lemma scan_iso:
  assumes "f = \<lparr> df_year = y, df_month = m, df_day = d, df_hour = h, df_minute = mi, df_second = sec, df_micro = us \<rparr>"
    "0 \<le> y" "y < 10000" "0 \<le> m" "m < 100" "0 \<le> d" "d < 100" "0 \<le> h" "h < 100" "0 \<le> mi" "mi < 100"
    "0 \<le> sec" "sec < 100" "0 \<le> us" "us < 1000000"
  shows "scan_z (pad 4 y @ ''-'' @ pad 2 m @ ''-'' @ pad 2 d @ ''T'' @ pad 2 h @ '':'' @ pad 2 mi @ '':'' @ pad 2 sec
     @ (if us = 0 then [] else ''.'' @ pad 6 us) @ ''Z'') = Some (f, [])"
  using assms by (simp only: scan_z_def digits_pad0 micros_pad append_Cons append_Nil expect.simps
      Option.bind.simps prod.case power.simps simp_thms if_True)
    (use micros_pad [of us] in \<open>auto simp: digits_pad0 split: if_splits\<close>)


lemma days_year_range:
  assumes "0 \<le> n" "n \<le> 3652058" "days_before_year y \<le> n"
  shows "y < 10000"
proof (rule ccontr)
  assume "\<not> ?thesis"
  then have y: "9999 \<le> y - 1" by simp
  define k where "k = y - 1"
  have k: "9999 \<le> k" using y by (simp add: k_def)
  define q where "q = k div 4"
  have q: "2499 \<le> q" using k by (simp add: q_def)
  have div: "k div 100 = q div 25" "k div 400 = q div 100" by (simp_all add: q_def zdiv_zmult2_eq [symmetric])
  have "q div 25 * 25 \<le> q" "24 \<le> q div 100" using q by simp_all
  then have "2424 \<le> k div 4 - k div 100 + k div 400" using q unfolding div q_def [symmetric] by linarith
  then have "3652059 \<le> days_before_year y"
    unfolding days_before_year_def k_def [symmetric] using k by linarith
  then show False using assms by simp
qed

text \<open>
  The canonical text of every instant of the calendar is a timestamp of the strict parser,
  which reads it back.
\<close>

lemma parse_iso: "in_dt_range t \<Longrightarrow> parse_z (iso_z t) = Some t"
proof -
  assume r: "in_dt_range t"
  define n where "n = t div 86400000000 + EPOCH_DAYS"
  define w where "w = t mod 86400000000"
  obtain y m d where c: "civil_from_days n = (y, m, d)" by (metis prod_cases3)
  have n: "0 \<le> n" "n \<le> 3652058"
    using r by (auto simp: n_def in_dt_range_def dt_min_def dt_max_def EPOCH_DAYS_def)
  note C = civil_round_trip [OF n(1) c]
  have y: "y < 10000" by (rule days_year_range [OF n C(7)])
  have "month_lengths y ! nat (m - 1) \<le> 31"
    using C(2,3) by (auto simp: month_lengths_def nth_Cons split: nat.splits)
  then have d: "d < 100" using C(5) by simp
  have w: "0 \<le> w" "w < 86400000000" by (simp_all add: w_def)
  define s where "s = w div 1000000"
  have s: "0 \<le> s" "s < 86400" using w by (auto simp: s_def)
  have us: "t mod 1000000 = w mod 1000000"
    using mod_mod_cancel [of 1000000 86400000000 t] by (simp add: w_def)
  let ?f = "\<lparr> df_year = y, df_month = m, df_day = d, df_hour = s div 3600, df_minute = s div 60 mod 60,
     df_second = s mod 60, df_micro = t mod 1000000 \<rparr>"
  have h: "0 \<le> s div 3600" "s div 3600 < 24" using s by auto
  have "scan_z (iso_z t) = Some (?f, [])"
    unfolding iso_z_def Let_def n_def [symmetric] c prod.case w_def [symmetric] s_def [symmetric]
    by (rule scan_iso [OF refl]) (use C y d h in simp_all)
  moreover have "valid_fields ?f" using C h by (simp add: valid_fields_def)
  moreover have "instant_of_fields ?f = t"
  proof -
    have hms: "s div 3600 * 3600 + s div 60 mod 60 * 60 + s mod 60 = s"
    proof -
      have "s div 3600 = s div 60 div 60" by (simp add: zdiv_zmult2_eq [symmetric])
      moreover have "s div 60 div 60 * 60 + s div 60 mod 60 = s div 60" "s div 60 * 60 + s mod 60 = s" by simp_all
      ultimately show ?thesis by linarith
    qed
    have days: "n - EPOCH_DAYS = t div 86400000000" by (simp add: n_def)
    have "instant_of_fields ?f = (n - EPOCH_DAYS) * 86400000000
        + (s div 3600 * 3600 + s div 60 mod 60 * 60 + s mod 60) * 1000000 + w mod 1000000"
      by (simp only: instant_of_fields_def date_fields.simps C(1) us)
    also have "\<dots> = t div 86400000000 * 86400000000 + (s * 1000000 + w mod 1000000)"
      unfolding days hms by (rule add.assoc)
    also have "s * 1000000 + w mod 1000000 = w" unfolding s_def by (rule div_mult_mod_eq)
    also have "t div 86400000000 * 86400000000 + w = t" unfolding w_def by (rule div_mult_mod_eq)
    finally show ?thesis .
  qed
  ultimately show ?thesis by (simp add: parse_z_def)
qed

end
