(* ===== verification/PyText.thy ===== *)
theory PyText
  imports PyValue PyIso
begin

text \<open>
  Python text operations that the store uses on ASCII text: \<open>strip\<close>, \<open>upper\<close>, \<open>find\<close>,
  \<open>startswith\<close>, \<open>float(text)\<close> and the search for a UTC timestamp inside a text.
\<close>

definition code :: "char \<Rightarrow> nat" where
  "code c = of_char c"

definition is_space :: "char \<Rightarrow> bool" where
  "is_space c = (let n = code c in (9 \<le> n \<and> n \<le> 13) \<or> (28 \<le> n \<and> n \<le> 32))"

definition is_digit :: "char \<Rightarrow> bool" where
  "is_digit c = (let n = code c in 48 \<le> n \<and> n \<le> 57)"

definition is_alpha :: "char \<Rightarrow> bool" where
  "is_alpha c = (let n = code c in (65 \<le> n \<and> n \<le> 90) \<or> (97 \<le> n \<and> n \<le> 122))"

definition upper_char :: "char \<Rightarrow> char" where
  "upper_char c = (let n = code c in if 97 \<le> n \<and> n \<le> 122 then char_of (n - 32) else c)"

definition upper :: "string \<Rightarrow> string" where
  "upper s = map upper_char s"

definition starts_with :: "string \<Rightarrow> string \<Rightarrow> bool" where
  "starts_with p s = (take (length p) s = p)"

definition lstrip :: "(char \<Rightarrow> bool) \<Rightarrow> string \<Rightarrow> string" where
  "lstrip p s = dropWhile p s"

text \<open>What follows the first occurrence of \<open>p\<close> in \<open>s\<close>.\<close>

fun after :: "string \<Rightarrow> string \<Rightarrow> string option" where
  "after p [] = (if p = [] then Some [] else None)"
| "after p (c # s) = (if starts_with p (c # s) then Some (drop (length p) (c # s)) else after p s)"

text \<open>\<open>_nonempty_text\<close>: not empty, and equal to its own \<open>strip()\<close>.\<close>

definition stripped :: "string \<Rightarrow> bool" where
  "stripped s \<longleftrightarrow> s \<noteq> [] \<and> \<not> is_space (hd s) \<and> \<not> is_space (last s)"

section \<open>float(text)\<close>

text \<open>Digits with single underscores between them: their value, their number and the rest.\<close>

fun digit_run :: "int \<Rightarrow> int \<Rightarrow> string \<Rightarrow> int \<times> int \<times> string" where
  "digit_run v k [] = (v, k, [])"
| "digit_run v k [c] = (if is_digit c then (v * 10 + int (code c) - 48, k + 1, []) else (v, k, [c]))"
| "digit_run v k (c # d # s) =
     (if is_digit c then digit_run (v * 10 + int (code c) - 48) (k + 1) (d # s)
      else if c = CHR ''_'' \<and> 0 < k \<and> is_digit d then digit_run v k (d # s)
      else (v, k, c # d # s))"

definition sign_of :: "string \<Rightarrow> int \<times> string" where
  "sign_of s = (case s of c # r \<Rightarrow> if c = CHR ''-'' then (- 1, r) else if c = CHR ''+'' then (1, r) else (1, s)
     | [] \<Rightarrow> (1, s))"

definition scale10 :: "int \<Rightarrow> int \<Rightarrow> pyfloat" where
  "scale10 m e = (if 0 \<le> e then flit (m * ipow 10 e) 1 else flit m (ipow 10 (- e)))"

text \<open>The exponent part: empty, or \<open>e\<close>, a sign and digits to the end.\<close>

definition exponent_of :: "string \<Rightarrow> int option" where
  "exponent_of s = (case s of [] \<Rightarrow> Some 0
     | c # r \<Rightarrow> if upper_char c = CHR ''E''
         then (let (sg, r1) = sign_of r; (v, k, r2) = digit_run 0 0 r1
               in if 0 < k \<and> r2 = [] then Some (sg * v) else None)
         else None)"

definition float_of_text :: "string \<Rightarrow> pyfloat res" where
  "float_of_text s0 =
     (let s = rev (lstrip is_space (rev (lstrip is_space s0)));
          (sg, r) = sign_of s
      in if upper r = ''INF'' \<or> upper r = ''INFINITY'' then Inr (if sg < 0 then NInf else PInf)
         else if upper r = ''NAN'' then Inr NaN
         else (let (v, k, r1) = digit_run 0 0 r;
                   (v2, k2, r2) = (case r1 of c # q \<Rightarrow> if c = CHR ''.'' then
                        (case q of d # _ \<Rightarrow> if is_digit d then digit_run v 0 q else (v, 0, q) | [] \<Rightarrow> (v, 0, q))
                        else (v, 0, r1) | [] \<Rightarrow> (v, 0, r1))
               in if k = 0 \<and> k2 = 0 then Inl (ValueError ''could not convert string to float'')
                  else (case exponent_of r2 of None \<Rightarrow> Inl (ValueError ''could not convert string to float'')
                    | Some e \<Rightarrow> Inr (scale10 (sg * v2) (e - k2)))))"

section \<open>The first timestamp in a text\<close>

text \<open>\<open>_UTC_Z_SEARCH.search(text)\<close>: the text of the first match.\<close>

fun search_z :: "string \<Rightarrow> string option" where
  "search_z [] = None"
| "search_z (c # s) = (case scan_z (c # s) of
     Some (_, r) \<Rightarrow> Some (take (length (c # s) - length r) (c # s))
   | None \<Rightarrow> search_z s)"

end
