(* ===== verification/PyJson.thy ===== *)
theory PyJson
  imports PyFloat
begin

text \<open>
  JSON as the store uses it: \<open>_normalize_json\<close>, \<open>_canonical_json_value\<close>, \<open>_canonical_payload\<close>
  of \<open>src/autobit/persistence/sqlite_store.py\<close> and \<open>json.loads\<close> on a stored text.

  A stored text is known by what \<open>json.loads\<close> reads from it: \<open>Compact v\<close> is the text that
  \<open>json.dumps\<close> with compact separators prints for \<open>v\<close> in the key order of \<open>v\<close>, \<open>Loose v\<close>
  is any other text that reads as \<open>v\<close>, and \<open>NotJson\<close> is a text that does not read. Two
  compact texts are equal exactly when their values are, keys in order. \<open>JTuple\<close> and
  \<open>JOther\<close> occur in the arguments of a caller and not in what a text reads as.
\<close>

datatype json =
    JNull
  | JBool bool
  | JInt int
  | JFloat pyfloat
  | JStr string
  | JList "json list"
  | JTuple "json list"
  | JObj "(string \<times> json) list"
  | JOther

datatype json_text = Compact json | Loose json | NotJson

fun json_loads :: "json_text \<Rightarrow> json option" where
  "json_loads (Compact v) = Some v"
| "json_loads (Loose v) = Some v"
| "json_loads NotJson = None"

fun normalize_json :: "json \<Rightarrow> json res"
and normalize_list :: "json list \<Rightarrow> json list res"
and normalize_obj :: "(string \<times> json) list \<Rightarrow> (string \<times> json) list res" where
  "normalize_json JNull = Inr JNull"
| "normalize_json (JBool b) = Inr (JBool b)"
| "normalize_json (JInt n) = Inr (JInt n)"
| "normalize_json (JStr s) = Inr (JStr s)"
| "normalize_json (JFloat x) = (if isfinite x then Inr (JFloat x) else Inl (ValueError ''JSON numbers must be finite''))"
| "normalize_json (JList vs) = ebind (normalize_list vs) (\<lambda>ws. Inr (JList ws))"
| "normalize_json (JTuple vs) = ebind (normalize_list vs) (\<lambda>ws. Inr (JList ws))"
| "normalize_json (JObj kvs) = ebind (normalize_obj kvs) (\<lambda>ws. Inr (JObj ws))"
| "normalize_json JOther = Inl (ValueError ''unsupported JSON value'')"
| "normalize_list [] = Inr []"
| "normalize_list (v # vs) = ebind (normalize_json v) (\<lambda>w. ebind (normalize_list vs) (\<lambda>ws. Inr (w # ws)))"
| "normalize_obj [] = Inr []"
| "normalize_obj (kv # kvs) = ebind (normalize_json (snd kv)) (\<lambda>w. ebind (normalize_obj kvs) (\<lambda>ws. Inr ((fst kv, w) # ws)))"

text \<open>\<open>sort_keys=True\<close>: the members of every object by their keys.\<close>

fun insert_member :: "string \<times> json \<Rightarrow> (string \<times> json) list \<Rightarrow> (string \<times> json) list" where
  "insert_member kv [] = [kv]"
| "insert_member kv (x # xs) = (if fst kv \<le> fst x then kv # x # xs else x # insert_member kv xs)"

fun sort_json :: "json \<Rightarrow> json"
and sort_list :: "json list \<Rightarrow> json list"
and sort_members :: "(string \<times> json) list \<Rightarrow> (string \<times> json) list" where
  "sort_json (JList vs) = JList (sort_list vs)"
| "sort_json (JObj kvs) = JObj (sort_members kvs)"
| "sort_json (JTuple vs) = JTuple (sort_list vs)"
| "sort_json JNull = JNull"
| "sort_json (JBool b) = JBool b"
| "sort_json (JInt n) = JInt n"
| "sort_json (JFloat x) = JFloat x"
| "sort_json (JStr s) = JStr s"
| "sort_json JOther = JOther"
| "sort_list [] = []"
| "sort_list (v # vs) = sort_json v # sort_list vs"
| "sort_members [] = []"
| "sort_members (kv # kvs) = insert_member (fst kv, sort_json (snd kv)) (sort_members kvs)"

text \<open>The canonical text of a value, and the object check of a payload.\<close>

definition canonical_json_value :: "json \<Rightarrow> json_text res" where
  "canonical_json_value v = ebind (normalize_json v) (\<lambda>n. Inr (Compact (sort_json n)))"

definition canonical_payload :: "json \<Rightarrow> (json_text \<times> (string \<times> json) list) res" where
  "canonical_payload v = (case v of
     JObj kvs \<Rightarrow> ebind (normalize_obj kvs) (\<lambda>ws. ebind (canonical_json_value (JObj ws)) (\<lambda>t. Inr (t, ws)))
   | _ \<Rightarrow> Inl (ValueError ''payload must be a JSON object''))"

section \<open>Canonical texts\<close>

lemma normalize_idem:
  "normalize_json v = Inr w \<Longrightarrow> normalize_json w = Inr w"
  "normalize_list vs = Inr ws \<Longrightarrow> normalize_list ws = Inr ws"
  "normalize_obj kvs = Inr kws \<Longrightarrow> normalize_obj kws = Inr kws"
  by (induction v and vs and kvs arbitrary: w and ws and kws
      rule: normalize_json_normalize_list_normalize_obj.induct) (auto split: if_splits)

lemma normalize_insert:
  "normalize_obj xs = Inr xs \<Longrightarrow> normalize_json (snd kv) = Inr (snd kv) \<Longrightarrow>
    normalize_obj (insert_member kv xs) = Inr (insert_member kv xs)"
proof (induction xs)
  case (Cons x xs)
  then have x: "normalize_json (snd x) = Inr (snd x)" "normalize_obj xs = Inr xs"
    by (auto simp: prod_eq_iff)
  then show ?case using Cons by (cases x; cases kv) auto
qed (cases kv; simp)

lemma normalize_sort:
  "normalize_json v = Inr v \<Longrightarrow> normalize_json (sort_json v) = Inr (sort_json v)"
  "normalize_list vs = Inr vs \<Longrightarrow> normalize_list (sort_list vs) = Inr (sort_list vs)"
  "normalize_obj kvs = Inr kvs \<Longrightarrow> normalize_obj (sort_members kvs) = Inr (sort_members kvs)"
proof (induction v and vs and kvs rule: sort_json_sort_list_sort_members.induct)
  case (13 kv kvs)
  then have "normalize_json (snd kv) = Inr (snd kv)" "normalize_obj kvs = Inr kvs" by (auto simp: prod_eq_iff)
  then show ?case using 13 by (simp add: normalize_insert)
qed auto

lemma insert_member_set: "set (insert_member kv xs) = insert kv (set xs)"
  by (induction xs) auto

lemma sorted_insert: "sorted_wrt (\<lambda>x y. fst x \<le> fst y) xs \<Longrightarrow> sorted_wrt (\<lambda>x y. fst x \<le> fst y) (insert_member kv xs)"
  by (induction xs) (auto simp: insert_member_set not_le less_imp_le intro: order_trans)

lemma sorted_sort_members: "sorted_wrt (\<lambda>x y. fst x \<le> fst y) (sort_members kvs)"
proof (induction kvs)
  case Nil
  then show ?case by simp
next
  case (Cons kv kvs)
  then show ?case by (simp add: sorted_insert)
qed

lemma sort_members_fixed:
  "sorted_wrt (\<lambda>x y. fst x \<le> fst y) xs \<Longrightarrow> \<forall>x \<in> set xs. sort_json (snd x) = snd x \<Longrightarrow> sort_members xs = xs"
proof (induction xs)
  case (Cons x xs)
  then have "sort_members xs = xs" by simp
  then show ?case using Cons.prems by (cases xs) auto
qed simp

lemma sort_idem:
  "sort_json (sort_json v) = sort_json v"
  "sort_list (sort_list vs) = sort_list vs"
  "\<forall>x \<in> set (sort_members kvs). sort_json (snd x) = snd x"
proof (induction v and vs and kvs rule: sort_json_sort_list_sort_members.induct)
  case (2 kvs)
  then show ?case by (simp add: sort_members_fixed sorted_sort_members)
next
  case (13 kv kvs)
  then show ?case by (simp add: insert_member_set)
qed auto

text \<open>A canonical text is the canonical text of what it reads as.\<close>

lemma canonical_stable:
  assumes "canonical_json_value v = Inr t"
  obtains w where "t = Compact w" "json_loads t = Some w" "canonical_json_value w = Inr t"
proof -
  obtain n where n: "normalize_json v = Inr n" "t = Compact (sort_json n)"
    using assms by (auto simp: canonical_json_value_def)
  have "normalize_json (sort_json n) = Inr (sort_json n)"
    by (rule normalize_sort(1) [OF normalize_idem(1) [OF n(1)]])
  then show ?thesis using that [of "sort_json n"] n(2) by (simp add: canonical_json_value_def sort_idem)
qed

end
