(* ===== verification/StoreSchema.thy ===== *)
theory StoreSchema
  imports PyText PyJson
begin

text \<open>
  SQL text and schema checks of \<open>src/autobit/persistence/sqlite_store.py\<close>: the tokenizer of
  the \<open>events\<close> table definition, the proof of its AUTOINCREMENT column, the refusal of
  transaction control through the public facade, and the comparison of the introspected
  schema with the expected one. What SQLite reports of its schema is a record.
\<close>

section \<open>The tokenizer\<close>

datatype ddl_kind = WORD | IDENT | STRING | SYMBOL

record ddl_token =
  dt_kind :: ddl_kind
  dt_value :: string

definition mk_token :: "ddl_kind \<Rightarrow> string \<Rightarrow> ddl_token" where
  "mk_token k v = \<lparr> dt_kind = k, dt_value = v \<rparr>"

text \<open>\<open>_consume_quoted_ddl_token\<close> after the opening quote: the value and the rest.\<close>

fun quoted_rest :: "char \<Rightarrow> bool \<Rightarrow> string \<Rightarrow> string \<Rightarrow> (string \<times> string) res" where
  "quoted_rest closing bracket value [] = Inl (StoreCorruptionError ''events table DDL has unterminated quoting'')"
| "quoted_rest closing bracket value [c] =
     (if c = closing then Inr (value, []) else quoted_rest closing bracket (value @ [c]) [])"
| "quoted_rest closing bracket value (c # d # s) =
     (if c = closing
      then (if \<not> bracket \<and> d = closing then quoted_rest closing bracket (value @ [closing]) s else Inr (value, d # s))
      else quoted_rest closing bracket (value @ [c]) (d # s))"

definition consume_quoted_ddl_token :: "char \<Rightarrow> string \<Rightarrow> (ddl_token \<times> string) res" where
  "consume_quoted_ddl_token opening s =
     ebind (quoted_rest (if opening = CHR ''['' then CHR '']'' else opening) (opening = CHR ''['') [] s) (\<lambda>(v, r).
       Inr (mk_token (if opening = CHR 0x27 then STRING else IDENT) v, r))"

definition is_word_char :: "char \<Rightarrow> bool" where
  "is_word_char c = (is_alpha c \<or> is_digit c \<or> c = CHR ''_'' \<or> c = CHR ''$'')"

definition is_word :: "string \<Rightarrow> bool" where
  "is_word s = (case s of [] \<Rightarrow> False | c # r \<Rightarrow> (is_alpha c \<or> c = CHR ''_'') \<and> list_all is_word_char r)"

text \<open>The characters that end a bare token.\<close>

definition ends_bare :: "char \<Rightarrow> bool" where
  "ends_bare c = (is_space c \<or> c \<in> set [CHR 0x27, CHR 0x22, CHR 0x60, CHR ''['', CHR '']'', CHR ''('', CHR '')'', CHR '','', CHR '';''])"

fun bare :: "string \<Rightarrow> string \<times> string" where
  "bare [] = ([], [])"
| "bare (c # s) = (if ends_bare c \<or> starts_with ''--'' (c # s) \<or> starts_with ''/*'' (c # s) then ([], c # s)
     else (let (v, r) = bare s in (c # v, r)))"

text \<open>One step of the loop of the tokenizer: an optional token and the rest of the text.\<close>

definition ddl_step :: "string \<Rightarrow> (ddl_token option \<times> string) res" where
  "ddl_step s = (case s of [] \<Rightarrow> Inr (None, [])
     | c # r \<Rightarrow>
       if is_space c then Inr (None, r)
       else if starts_with ''--'' s then Inr (None, case after [CHR 0x0A] (drop 2 s) of None \<Rightarrow> [] | Some t \<Rightarrow> t)
       else if starts_with ''/*'' s then (case after ''*/'' (drop 2 s) of
           None \<Rightarrow> Inl (StoreCorruptionError ''events table DDL has an unterminated comment'') | Some t \<Rightarrow> Inr (None, t))
       else if c \<in> set [CHR 0x27, CHR 0x22, CHR 0x60, CHR ''[''] then
         ebind (consume_quoted_ddl_token c r) (\<lambda>(t, rest). Inr (Some t, rest))
       else if c \<in> set [CHR ''('', CHR '')'', CHR '','', CHR '';''] then Inr (Some (mk_token SYMBOL [c]), r)
       else (let (v, rest) = bare s in
         if v = [] then Inr (Some (mk_token SYMBOL [c]), r)
         else Inr (Some (mk_token (if is_word v then WORD else SYMBOL) v), rest)))"

lemma after_length: "after p s = Some t \<Longrightarrow> length t \<le> length s"
  by (induction p s rule: after.induct) (auto split: if_splits)

lemma quoted_rest_length: "quoted_rest c b v s = Inr (w, r) \<Longrightarrow> length r < length s"
  by (induction c b v s rule: quoted_rest.induct) (auto split: if_splits)

lemma bare_length: "length (snd (bare s)) + length (fst (bare s)) = length s"
  by (induction s) (auto simp: Let_def split: prod.splits)

lemma consume_quoted_length: "consume_quoted_ddl_token c s = Inr (t, r) \<Longrightarrow> length r < length s"
  by (auto simp: consume_quoted_ddl_token_def dest: quoted_rest_length)

lemma ddl_step_length:
  assumes "ddl_step (c # s) = Inr (t, r)"
  shows "length r < length (c # s)"
proof -
  obtain v rest where b: "bare (c # s) = (v, rest)" by force
  have bl: "length rest + length v = length (c # s)" using bare_length [of "c # s"] b by simp
  have d: "length u \<le> length s" if "after p (drop 2 (c # s)) = Some u" for p u
    using after_length [OF that] by simp
  consider "is_space c" | "\<not> is_space c" "starts_with ''--'' (c # s)"
    | "\<not> is_space c" "\<not> starts_with ''--'' (c # s)" "starts_with ''/*'' (c # s)"
    | "\<not> is_space c" "\<not> starts_with ''--'' (c # s)" "\<not> starts_with ''/*'' (c # s)" by blast
  then show ?thesis
  proof cases
    case 1
    then show ?thesis using assms by (simp add: ddl_step_def)
  next
    case 2
    then show ?thesis using assms d [of "[CHR 0x0A]"]
      by (cases "after [CHR 0x0A] (drop 2 (c # s))") (auto simp: ddl_step_def less_Suc_eq_le)
  next
    case 3
    then show ?thesis using assms d [of "''*/''"]
      by (cases "after ''*/'' (drop 2 (c # s))") (auto simp: ddl_step_def less_Suc_eq_le)
  next
    case 4
    have "length r < length (c # s)" if "consume_quoted_ddl_token c s = Inr (x, r)" for x
      using consume_quoted_length [OF that] by simp
    with 4 show ?thesis using assms b bl
      by (cases v) (auto simp: ddl_step_def split: if_splits)
  qed
qed

function ddl_tokens :: "string \<Rightarrow> ddl_token list res" where
  "ddl_tokens [] = Inr []"
| "ddl_tokens (c # s) = (case ddl_step (c # s) of Inl e \<Rightarrow> Inl e
     | Inr (t, r) \<Rightarrow> ebind (ddl_tokens r) (\<lambda>ts. Inr (case t of None \<Rightarrow> ts | Some x \<Rightarrow> x # ts)))"
  by pat_completeness auto
termination by (relation "measure length") (auto dest: ddl_step_length)

definition tokenize_sqlite_ddl :: "string \<Rightarrow> ddl_token list res" where
  "tokenize_sqlite_ddl sql = (if list_all is_space sql then Inl (StoreCorruptionError ''events table DDL is missing'')
     else ddl_tokens sql)"

section \<open>AUTOINCREMENT of events.sequence\<close>

definition sym :: "string \<Rightarrow> ddl_token \<Rightarrow> bool" where
  "sym v t = (dt_kind t = SYMBOL \<and> dt_value t = v)"

definition word :: "string \<Rightarrow> ddl_token \<Rightarrow> bool" where
  "word v t = (dt_kind t = WORD \<and> upper (dt_value t) = v)"

definition named :: "string \<Rightarrow> ddl_token \<Rightarrow> bool" where
  "named v t = ((dt_kind t = WORD \<or> dt_kind t = IDENT) \<and> upper (dt_value t) = v)"

definition valid_events_create_table_header :: "ddl_token list \<Rightarrow> bool" where
  "valid_events_create_table_header ts = (length ts = 3 \<and> word ''CREATE'' (ts ! 0) \<and> word ''TABLE'' (ts ! 1)
     \<and> named ''EVENTS'' (ts ! 2))"

text \<open>
  The column definitions between the parentheses: the current definition, the depth and the
  definitions so far; the result is the definitions and the tokens after the closing
  parenthesis, or nothing when an empty definition or no closing parenthesis is found.
\<close>

fun definitions :: "nat \<Rightarrow> ddl_token list \<Rightarrow> ddl_token list list \<Rightarrow> ddl_token list \<Rightarrow> (ddl_token list list \<times> ddl_token list) option" where
  "definitions depth cur defs [] = None"
| "definitions depth cur defs (t # ts) =
     (if sym ''('' t then definitions (depth + 1) (cur @ [t]) defs ts
      else if sym '')'' t then
        (case depth of 0 \<Rightarrow> Some (if cur \<noteq> [] then defs @ [cur] else defs, ts)
         | Suc d \<Rightarrow> definitions d (cur @ [t]) defs ts)
      else if sym '','' t \<and> depth = 0 then
        (if cur = [] then None else definitions depth [] (defs @ [cur]) ts)
      else definitions depth (cur @ [t]) defs ts)"

definition sequence_definition_ok :: "ddl_token list \<Rightarrow> bool" where
  "sequence_definition_ok d = (length d = 5 \<and> word ''INTEGER'' (d ! 1) \<and> word ''PRIMARY'' (d ! 2)
     \<and> word ''KEY'' (d ! 3) \<and> word ''AUTOINCREMENT'' (d ! 4))"

definition events_sequence_uses_autoincrement :: "string \<Rightarrow> bool res" where
  "events_sequence_uses_autoincrement sql =
     ebind (tokenize_sqlite_ddl sql) (\<lambda>tokens.
       let header = takeWhile (\<lambda>t. \<not> sym ''('' t) tokens; body = dropWhile (\<lambda>t. \<not> sym ''('' t) tokens
       in Inr (body \<noteq> [] \<and> valid_events_create_table_header header
         \<and> (case definitions 0 [] [] (tl body) of None \<Rightarrow> False
            | Some (defs, rest) \<Rightarrow> defs \<noteq> [] \<and> list_all (sym '';'') rest
               \<and> (case filter (\<lambda>d. d \<noteq> [] \<and> named ''SEQUENCE'' (hd d)) defs of
                    [d] \<Rightarrow> sequence_definition_ok d | _ \<Rightarrow> False)
               \<and> length (filter (word ''AUTOINCREMENT'') (concat defs)) = 1)))"

section \<open>The facade refuses transaction control\<close>

definition TRANSACTION_CONTROL_KEYWORDS :: "string list" where
  "TRANSACTION_CONTROL_KEYWORDS = [''BEGIN'', ''COMMIT'', ''END'', ''ROLLBACK'', ''SAVEPOINT'', ''RELEASE'']"

definition sql_blank :: "char \<Rightarrow> bool" where
  "sql_blank c = (c \<in> set [CHR '' '', CHR 0x09, CHR 0x0D, CHR 0x0A, CHR '';''])"

text \<open>The loop over leading comments; a text that ends in one has no statement.\<close>

function skip_comments :: "string \<Rightarrow> string res" where
  "skip_comments s =
     (if starts_with ''--'' s then (case after [CHR 0x0A] s of
          None \<Rightarrow> Inl (ValueError ''SQL must contain a statement'') | Some t \<Rightarrow> skip_comments (lstrip sql_blank t))
      else if starts_with ''/*'' s then (case after ''*/'' (drop 2 s) of
          None \<Rightarrow> Inl (ValueError ''unterminated SQL comment'') | Some t \<Rightarrow> skip_comments (lstrip sql_blank t))
      else Inr s)"
  by pat_completeness auto
termination
proof (relation "measure length", goal_cases)
  case (2 s t)
  have "length t < length s"
    using 2 by (cases s) (auto simp: starts_with_def split: if_splits dest: after_length)
  then show ?case using length_dropWhile_le [of sql_blank t] by (simp add: lstrip_def)
next
  case (3 s t)
  have "length t < length s"
    using 3 by (cases s) (auto simp: starts_with_def dest!: after_length)
  then show ?case using length_dropWhile_le [of sql_blank t] by (simp add: lstrip_def)
qed simp

declare skip_comments.simps [simp del]

definition reject_transaction_control_sql :: "string \<Rightarrow> unit res" where
  "reject_transaction_control_sql sql =
     (if list_all is_space sql then Inl (ValueError ''SQL must be a non-empty string'')
      else ebind (skip_comments (lstrip sql_blank sql)) (\<lambda>s.
        let w = takeWhile is_alpha s in
        if w = [] then Inl (ValueError ''SQL must contain a statement'')
        else if upper w \<in> set TRANSACTION_CONTROL_KEYWORDS
        then Inl (ValueError ''transaction-control SQL is not allowed'')
        else Inr ()))"


section \<open>The introspected schema\<close>

text \<open>A column: its name, type, not-null flag and position in the primary key.\<close>

type_synonym column = "string \<times> string \<times> int \<times> int"

definition EXPECTED_TABLE_INFO :: "(string \<times> column list) list" where
  "EXPECTED_TABLE_INFO = [
    (''schema_version'', [(''version'', ''INTEGER'', 0, 1)]),
    (''metadata'', [(''key'', ''TEXT'', 0, 1), (''value'', ''TEXT'', 1, 0)]),
    (''events'', [(''sequence'', ''INTEGER'', 0, 1), (''event_id'', ''TEXT'', 1, 0), (''event_type'', ''TEXT'', 1, 0),
       (''occurred_at_utc'', ''TEXT'', 1, 0), (''payload_json'', ''TEXT'', 1, 0)]),
    (''orders'', [(''order_id'', ''TEXT'', 0, 1), (''idempotency_key'', ''TEXT'', 1, 0), (''side'', ''TEXT'', 1, 0),
       (''requested_quantity'', ''REAL'', 1, 0), (''filled_quantity'', ''REAL'', 1, 0), (''status'', ''TEXT'', 1, 0),
       (''updated_at_utc'', ''TEXT'', 1, 0)]),
    (''snapshots'', [(''sequence'', ''INTEGER'', 0, 1), (''state_json'', ''TEXT'', 1, 0), (''created_at_utc'', ''TEXT'', 1, 0)])]"

definition REQUIRED_TABLES :: "string list" where
  "REQUIRED_TABLES = [''schema_version'', ''metadata'', ''events'', ''orders'', ''snapshots'']"

text \<open>
  What the introspection queries return: the application tables, the schema versions, the
  columns with their hidden flag, the SQL of the events table if it exists, and per table the
  indexes as unique flag, partial flag and columns.
\<close>

record schema_info =
  sc_tables :: "string list"
  sc_versions :: "int list"
  sc_columns :: "(string \<times> (column \<times> int) list) list"
  sc_events_sql :: "string option"
  sc_indexes :: "(string \<times> (int \<times> int \<times> string list) list) list"

definition table_columns :: "schema_info \<Rightarrow> string \<Rightarrow> (column \<times> int) list" where
  "table_columns s t = (case map_of (sc_columns s) t of None \<Rightarrow> [] | Some cs \<Rightarrow> cs)"

definition upper_type :: "column \<times> int \<Rightarrow> column \<times> int" where
  "upper_type c = (case c of ((n, t, nn, pk), h) \<Rightarrow> ((n, upper t, nn, pk), h))"

definition unique_index_columns :: "schema_info \<Rightarrow> string \<Rightarrow> string list list" where
  "unique_index_columns s t = (case map_of (sc_indexes s) t of None \<Rightarrow> []
     | Some ixs \<Rightarrow> map (\<lambda>(u, p, cs). cs) (filter (\<lambda>(u, p, cs). u = 1 \<and> p = 0) ixs))"

definition validate_schema_definition :: "schema_info \<Rightarrow> unit res" where
  "validate_schema_definition s =
     ebind (ensure (list_all (\<lambda>(t, cs). map upper_type (table_columns s t) = map (\<lambda>c. (c, 0)) cs) EXPECTED_TABLE_INFO)
       (StoreCorruptionError ''schema definition is inconsistent'')) (\<lambda>_.
     ebind (events_sequence_uses_autoincrement (case sc_events_sql s of None \<Rightarrow> [] | Some q \<Rightarrow> q)) (\<lambda>auto_ok.
     ebind (ensure auto_ok (StoreCorruptionError ''schema constraint AUTOINCREMENT is missing for events'')) (\<lambda>_.
     ebind (ensure ([''event_id''] \<in> set (unique_index_columns s ''events''))
       (StoreCorruptionError ''schema constraint UNIQUE(event_id) is missing'')) (\<lambda>_.
     ensure ([''idempotency_key''] \<in> set (unique_index_columns s ''orders''))
       (StoreCorruptionError ''schema constraint UNIQUE(idempotency_key) is missing'')))))"

definition SCHEMA_VERSION :: int where "SCHEMA_VERSION = 1"

definition validate_tables :: "schema_info \<Rightarrow> unit res" where
  "validate_tables s =
     ebind (ensure (''schema_version'' \<notin> set (sc_tables s) \<or> sc_versions s = [SCHEMA_VERSION])
       (StoreCorruptionError ''unsupported schema version'')) (\<lambda>_.
     ebind (ensure (set (sc_tables s) = set REQUIRED_TABLES) (StoreCorruptionError ''schema tables are inconsistent'')) (\<lambda>_.
     validate_schema_definition s))"

text \<open>The schema that \<open>_create_schema\<close> leaves.\<close>

definition events_ddl :: string where
  "events_ddl = ''CREATE TABLE events ( sequence INTEGER PRIMARY KEY AUTOINCREMENT, event_id TEXT NOT NULL UNIQUE, event_type TEXT NOT NULL, occurred_at_utc TEXT NOT NULL, payload_json TEXT NOT NULL )''"

definition created_schema :: schema_info where
  "created_schema = \<lparr> sc_tables = REQUIRED_TABLES, sc_versions = [SCHEMA_VERSION],
     sc_columns = map (\<lambda>(t, cs). (t, map (\<lambda>c. (c, 0)) cs)) EXPECTED_TABLE_INFO,
     sc_events_sql = Some events_ddl,
     sc_indexes = [(''events'', [(1, 0, [''event_id''])]),
       (''orders'', [(1, 0, [''idempotency_key'']), (1, 0, [''order_id''])]),
       (''metadata'', [(1, 0, [''key''])])] \<rparr>"

lemma created_schema_valid: "validate_tables created_schema = Inr ()"
  by code_simp

lemma autoincrement_examples:
  "events_sequence_uses_autoincrement events_ddl = Inr True"
  "events_sequence_uses_autoincrement ''CREATE TABLE events (sequence INTEGER PRIMARY KEY /* AUTOINCREMENT */)'' = Inr False"
  by code_simp+

section \<open>Properties\<close>

lemma skip_comments_no_comment:
  "skip_comments s = Inr t \<Longrightarrow> \<not> starts_with ''--'' t \<and> \<not> starts_with ''/*'' t"
proof (induction s rule: skip_comments.induct)
  case (1 s)
  then show ?case by (subst (asm) (3) skip_comments.simps) (auto split: if_splits option.splits)
qed

end
