(* ===== verification/PyDecimal.thy ===== *)
theory PyDecimal
  imports PyFloat
begin

text \<open>
  Python's \<open>decimal\<close> in its default context (28 digits, half even), and the passage
  between floats and decimals that the ledger uses: \<open>Decimal(str(x))\<close>, the shortest decimal
  that reads back as \<open>x\<close>, and \<open>float(d)\<close>. Decimals compare and compute by value; the
  trailing zeros that Python keeps have no part in that and are normalised away.
\<close>

datatype decimal = Dec scaled

abbreviation rd :: "rat \<Rightarrow> rat" where
  "rd \<equiv> round_prec 10 28 (- 999999)"

fun dval :: "decimal \<Rightarrow> rat" where
  "dval (Dec x) = bval 10 x"

fun dround :: "decimal \<Rightarrow> decimal" where
  "dround (Dec x) = Dec (bround 10 28 (- 999999) x)"

definition ddiv :: "decimal \<Rightarrow> decimal \<Rightarrow> decimal" where
  "ddiv x y = (case (x, y) of (Dec a, Dec b) \<Rightarrow> Dec (bdiv_round 10 28 (- 999999) a b))"

instantiation decimal :: "{zero, plus, minus, times, ord}"
begin

definition zero_decimal :: decimal where
  "0 = Dec (0, 0)"

fun plus_decimal :: "decimal \<Rightarrow> decimal \<Rightarrow> decimal" where
  "plus_decimal (Dec x) (Dec y) = dround (Dec (badd 10 x y))"

fun minus_decimal :: "decimal \<Rightarrow> decimal \<Rightarrow> decimal" where
  "minus_decimal (Dec x) (Dec y) = dround (Dec (badd 10 x (bneg y)))"

fun times_decimal :: "decimal \<Rightarrow> decimal \<Rightarrow> decimal" where
  "times_decimal (Dec x) (Dec y) = dround (Dec (bmul x y))"

fun less_eq_decimal :: "decimal \<Rightarrow> decimal \<Rightarrow> bool" where
  "less_eq_decimal (Dec x) (Dec y) = ble 10 x y"

definition less_decimal :: "decimal \<Rightarrow> decimal \<Rightarrow> bool" where
  "x < y \<longleftrightarrow> x \<le> y \<and> \<not> y \<le> (x :: decimal)"

instance ..

end

definition deq :: "decimal \<Rightarrow> decimal \<Rightarrow> bool" where
  "deq x y \<longleftrightarrow> x \<le> y \<and> y \<le> x"

lemma two_le_ten [simp]: "(2::int) \<le> 10" by simp

lemma dval_0 [simp]: "dval 0 = 0"
  by (simp add: zero_decimal_def)

lemma dval_add [simp]: "dval (x + y) = rd (dval x + dval y)"
  by (cases x; cases y) (simp add: scaled_val)

lemma dval_sub [simp]: "dval (x - y) = rd (dval x - dval y)"
  by (cases x; cases y) (simp add: scaled_val)

lemma dval_mul [simp]: "dval (x * y) = rd (dval x * dval y)"
  by (cases x; cases y) (simp add: scaled_val)

lemma dval_div [simp]: "dval y \<noteq> 0 \<Longrightarrow> dval (ddiv x y) = rd (dval x / dval y)"
  by (cases x; cases y) (simp add: ddiv_def bval_bdiv_round bval_eq_0_iff)

lemma dle [simp]: "x \<le> y \<longleftrightarrow> dval x \<le> dval (y :: decimal)"
  by (cases x; cases y) (simp add: ble)

lemma dless [simp]: "x < y \<longleftrightarrow> dval x < dval (y :: decimal)"
  by (auto simp: less_decimal_def)

lemma deq [simp]: "deq x y \<longleftrightarrow> dval x = dval y"
  by (auto simp: deq_def)

lemma rd_mono: "q \<le> r \<Longrightarrow> rd q \<le> rd r"
  by (rule round_prec_mono) auto

lemma rd_nonneg: "0 \<le> q \<Longrightarrow> 0 \<le> rd q"
  using rd_mono [of 0 q] by simp

section \<open>Floats and decimals\<close>

fun float_of_dec :: "decimal \<Rightarrow> pyfloat" where
  "float_of_dec (Dec (m, e)) = (if 0 \<le> e then flit (m * ipow 10 e) 1 else flit m (ipow 10 (- e)))"

text \<open>The exact decimal value of a finite float.\<close>

definition exact_dec :: "scaled \<Rightarrow> decimal" where
  "exact_dec x = (let (m, e) = x in if 0 \<le> e then Dec (m * ipow 2 e, 0) else Dec (m * ipow 5 (- e), e))"

text \<open>
  The two decimals of \<open>n\<close> digits around \<open>\<bar>x\<bar> = a / d\<close>, the closer one first, and the first
  of them that reads back as the float.
\<close>

definition digits_try :: "pyfloat \<Rightarrow> int \<Rightarrow> int \<Rightarrow> int \<Rightarrow> int \<Rightarrow> decimal option" where
  "digits_try x s a d n =
     (let q = expo_frac 10 a d - (n - 1);
          num = (if 0 \<le> q then a else a * ipow 10 (- q));
          den = (if 0 \<le> q then d * ipow 10 q else d);
          near = rhe_div num den; low = num div den;
          far = (if near = low then low + 1 else low);
          c1 = Dec (bnorm 10 (s * near) q); c2 = Dec (bnorm 10 (s * far) q)
      in if float_of_dec c1 = x then Some c1 else if float_of_dec c2 = x then Some c2 else None)"

fun digits_search :: "pyfloat \<Rightarrow> int \<Rightarrow> int \<Rightarrow> int \<Rightarrow> int list \<Rightarrow> decimal option" where
  "digits_search x s a d [] = None"
| "digits_search x s a d (n # ns) = (case digits_try x s a d n of
     Some c \<Rightarrow> Some c | None \<Rightarrow> digits_search x s a d ns)"

text \<open>
  \<open>Decimal(str(x))\<close> for a finite float: the shortest decimal that reads back as \<open>x\<close>, found
  among those of 1 to 17 digits. A float that is none of these is none of the hardware; it
  keeps its exact value.
\<close>

definition dec_of_float :: "pyfloat \<Rightarrow> decimal" where
  "dec_of_float x = (case x of
     Fin (m, e) \<Rightarrow>
       if m = 0 then 0
       else (case digits_search x (sgn m) (if 0 \<le> e then \<bar>m\<bar> * ipow 2 e else \<bar>m\<bar>)
               (if 0 \<le> e then 1 else ipow 2 (- e)) [1,2,3,4,5,6,7,8,9,10,11,12,13,14,15,16,17] of
          Some c \<Rightarrow> c | None \<Rightarrow> exact_dec (m, e))
   | _ \<Rightarrow> 0)"

lemma ten_pos [simp]: "0 < ipow 10 k" "0 < ipow 5 k"
  by (simp_all add: ipow_pos)

lemma rt_float_of_dec: "rounds_to (dval d) (float_of_dec d)"
proof (cases d)
  case (Dec x)
  obtain m e where x: "x = (m, e)" by force
  show ?thesis
  proof (cases "0 \<le> e")
    case True
    then show ?thesis using rt_lit [of 1 "m * ipow 10 e"] pw_ipow [OF True, of 10]
      by (simp add: Dec x bval_def)
  next
    case False
    then have "pw 10 e = 1 / of_int (ipow 10 (- e))"
      using pw_ipow [of "- e" 10] power_int_minus_divide [of "10 :: rat" "- e"] by simp
    then show ?thesis using rt_lit [of "ipow 10 (- e)" m] False by (simp add: Dec x bval_def)
  qed
qed

lemma wf_float_of_dec [simp]: "wf_float (float_of_dec d)"
  by (cases d rule: float_of_dec.cases) simp

lemma dval_exact_dec: "dval (exact_dec x) = bval 2 x"
proof -
  obtain m e where x: "x = (m, e)" by force
  show ?thesis
  proof (cases "0 \<le> e")
    case True
    then show ?thesis using pw_ipow [OF True, of 2] by (simp add: x exact_dec_def bval_def)
  next
    case False
    have i: "of_int (ipow 5 (- e)) = inverse (5 powi e :: rat)"
      using False pw_ipow [of "- e" 5] power_int_minus [of "5::rat" e] by simp
    have t: "10 powi e = 2 powi e * (5 powi e :: rat)"
      using power_int_mult_distrib [of "2 :: rat" 5 e] by simp
    have "(5 powi e :: rat) \<noteq> 0" by simp
    then have "of_int (ipow 5 (- e)) * pw 10 e = pw 2 e" using i t by (simp add: field_simps)
    then show ?thesis using False by (simp add: x exact_dec_def bval_def mult.assoc)
  qed
qed

lemma digits_search_Some: "digits_search x s a d ns = Some c \<Longrightarrow> float_of_dec c = x"
  by (induction ns) (auto simp: digits_try_def Let_def split: option.splits if_splits)

text \<open>The decimal text of a float reads back as the float.\<close>

lemma float_of_dec_of_float:
  assumes "wf_float x" "isfinite x"
  shows "float_of_dec (dec_of_float x) = x"
proof (cases x)
  case (Fin s)
  obtain m e where s: "s = (m, e)" by force
  show ?thesis
  proof (cases "m = 0")
    case True
    then have "x = 0" using assms by (simp add: Fin s canon_def zero_pyfloat_def)
    moreover have "float_of_dec 0 = 0" by code_simp
    ultimately show ?thesis by (simp add: dec_of_float_def zero_pyfloat_def)
  next
    case False
    have "float_of_dec (exact_dec (m, e)) = x"
    proof -
      have "rounds_to (rat_of x) (float_of_dec (exact_dec (m, e)))"
        using rt_float_of_dec [of "exact_dec (m, e)"] by (simp add: dval_exact_dec Fin s)
      then have le: "float_of_dec (exact_dec (m, e)) \<le> x" "x \<le> float_of_dec (exact_dec (m, e))"
        using rt_mono rt_self [OF assms] by blast+
      then have fin: "isfinite (float_of_dec (exact_dec (m, e)))"
        using le_finite_between [OF assms(2,2)] by blast
      then have "rat_of (float_of_dec (exact_dec (m, e))) = rat_of x"
        using le by (simp add: le_iff_rat assms(2))
      then show ?thesis by (rule wf_eq [OF wf_float_of_dec assms(1) fin assms(2)])
    qed
    moreover have "dec_of_float x = (case digits_search x (sgn m) (if 0 \<le> e then \<bar>m\<bar> * ipow 2 e else \<bar>m\<bar>)
        (if 0 \<le> e then 1 else ipow 2 (- e)) [1,2,3,4,5,6,7,8,9,10,11,12,13,14,15,16,17] of
          Some c \<Rightarrow> c | None \<Rightarrow> exact_dec (m, e))"
      by (simp add: dec_of_float_def Fin s False del: digits_search.simps)
    ultimately show ?thesis
      by (simp add: digits_search_Some del: digits_search.simps split: option.split)
  qed
qed (use assms in simp_all)


lemma float_of_dec_mono: "dval d \<le> dval d' \<Longrightarrow> float_of_dec d \<le> float_of_dec d'"
  by (rule rt_mono [OF rt_float_of_dec rt_float_of_dec])

lemma float_of_dec_nonneg: "0 \<le> dval d \<Longrightarrow> 0 \<le> float_of_dec d"
  by (rule rt_nonneg [OF rt_float_of_dec])

text \<open>The passage to decimals keeps the order.\<close>

lemma dec_of_float_less:
  assumes "wf_float x" "isfinite x" "wf_float y" "isfinite y" "x < y"
  shows "dval (dec_of_float x) < dval (dec_of_float y)"
proof (rule ccontr)
  assume "\<not> ?thesis"
  then have "float_of_dec (dec_of_float y) \<le> float_of_dec (dec_of_float x)"
    by (intro float_of_dec_mono) simp
  then show False
    using assms float_of_dec_of_float less_not_le_float by metis
qed

lemma dec_of_float_le:
  assumes "wf_float x" "isfinite x" "wf_float y" "isfinite y"
  shows "dval (dec_of_float x) \<le> dval (dec_of_float y) \<longleftrightarrow> x \<le> y"
proof
  assume "dval (dec_of_float x) \<le> dval (dec_of_float y)"
  then show "x \<le> y" using float_of_dec_mono assms float_of_dec_of_float by metis
next
  assume le: "x \<le> y"
  show "dval (dec_of_float x) \<le> dval (dec_of_float y)"
  proof (cases "x < y")
    case True
    then show ?thesis using dec_of_float_less [OF assms] by simp
  next
    case False
    then have "x = y" using le assms by (intro wf_eq) (auto simp: fl_ord)
    then show ?thesis by simp
  qed
qed

lemma dec_of_0 [simp]: "dec_of_float 0 = 0"
  by (simp add: dec_of_float_def zero_pyfloat_def)

lemma dec_of_float_pos: "wf_float x \<Longrightarrow> isfinite x \<Longrightarrow> 0 < x \<Longrightarrow> 0 < dval (dec_of_float x)"
  using dec_of_float_less [of 0 x] by simp

lemma dec_of_float_nonneg: "wf_float x \<Longrightarrow> isfinite x \<Longrightarrow> 0 \<le> x \<Longrightarrow> 0 \<le> dval (dec_of_float x)"
  using dec_of_float_le [of 0 x] by simp

end
