(* ===== verification/Domain.thy ===== *)
theory Domain
  imports PyTime PyFloat
begin

text \<open>
  The trading domain, \<open>src/autobit/domain/\<close>: position states, order statuses and the
  transition table between them. A key that the table lacks raises \<open>InvalidTransition\<close>.
\<close>

datatype position_state = FLAT | ENTRY_PENDING | LONG | EXIT_PENDING | HALTED

datatype order_status = CREATED | SUBMITTED | ACCEPTED | PARTIAL | COMPLETED | CANCELED
  | EXPIRED | INSUFFICIENT_CASH | REJECTED

definition TRANSITIONS :: "((position_state \<times> order_status) \<times> position_state) list" where
  "TRANSITIONS = [
    ((FLAT, CREATED), ENTRY_PENDING),
    ((FLAT, SUBMITTED), ENTRY_PENDING),
    ((ENTRY_PENDING, CREATED), ENTRY_PENDING),
    ((ENTRY_PENDING, SUBMITTED), ENTRY_PENDING),
    ((ENTRY_PENDING, ACCEPTED), ENTRY_PENDING),
    ((ENTRY_PENDING, PARTIAL), LONG),
    ((ENTRY_PENDING, COMPLETED), LONG),
    ((ENTRY_PENDING, CANCELED), FLAT),
    ((ENTRY_PENDING, EXPIRED), FLAT),
    ((ENTRY_PENDING, INSUFFICIENT_CASH), FLAT),
    ((ENTRY_PENDING, REJECTED), FLAT),
    ((LONG, CREATED), EXIT_PENDING),
    ((LONG, SUBMITTED), EXIT_PENDING),
    ((EXIT_PENDING, CREATED), EXIT_PENDING),
    ((EXIT_PENDING, SUBMITTED), EXIT_PENDING),
    ((EXIT_PENDING, ACCEPTED), EXIT_PENDING),
    ((EXIT_PENDING, PARTIAL), EXIT_PENDING),
    ((EXIT_PENDING, COMPLETED), FLAT),
    ((EXIT_PENDING, CANCELED), LONG),
    ((EXIT_PENDING, EXPIRED), LONG),
    ((EXIT_PENDING, INSUFFICIENT_CASH), LONG),
    ((EXIT_PENDING, REJECTED), LONG)]"

definition transition_state :: "position_state \<Rightarrow> order_status \<Rightarrow> position_state res" where
  "transition_state current status =
     (case map_of TRANSITIONS (current, status) of
        None \<Rightarrow> Inl InvalidTransition | Some next \<Rightarrow> Inr next)"

text \<open>An order's life: a list of statuses applied in turn.\<close>

definition run_statuses :: "position_state \<Rightarrow> order_status list \<Rightarrow> position_state res" where
  "run_statuses s evs = efold (\<lambda>ev st. transition_state st ev) evs s"

lemma transition_state_eq [py_eval]:
  "transition_state s ev = (case (s, ev) of
     (FLAT, CREATED) \<Rightarrow> Inr ENTRY_PENDING | (FLAT, SUBMITTED) \<Rightarrow> Inr ENTRY_PENDING
   | (ENTRY_PENDING, CREATED) \<Rightarrow> Inr ENTRY_PENDING | (ENTRY_PENDING, SUBMITTED) \<Rightarrow> Inr ENTRY_PENDING
   | (ENTRY_PENDING, ACCEPTED) \<Rightarrow> Inr ENTRY_PENDING | (ENTRY_PENDING, PARTIAL) \<Rightarrow> Inr LONG
   | (ENTRY_PENDING, COMPLETED) \<Rightarrow> Inr LONG | (ENTRY_PENDING, _) \<Rightarrow> Inr FLAT
   | (LONG, CREATED) \<Rightarrow> Inr EXIT_PENDING | (LONG, SUBMITTED) \<Rightarrow> Inr EXIT_PENDING
   | (EXIT_PENDING, CREATED) \<Rightarrow> Inr EXIT_PENDING | (EXIT_PENDING, SUBMITTED) \<Rightarrow> Inr EXIT_PENDING
   | (EXIT_PENDING, ACCEPTED) \<Rightarrow> Inr EXIT_PENDING | (EXIT_PENDING, PARTIAL) \<Rightarrow> Inr EXIT_PENDING
   | (EXIT_PENDING, COMPLETED) \<Rightarrow> Inr FLAT | (EXIT_PENDING, _) \<Rightarrow> Inr LONG
   | _ \<Rightarrow> Inl InvalidTransition)"
  by (cases s; cases ev; simp add: transition_state_def TRANSITIONS_def)

end
