(* ===== verification/Store.thy ===== *)
theory Store
  imports StoreSchema PyDecimal Domain
begin

text \<open>
  The event store, \<open>src/autobit/persistence/sqlite_store.py\<close>: the tables as lists of rows,
  the validation of stored values, and the replay that rebuilds the ledger from the immutable
  events and compares every projection with it.

  \<open>sha256\<close> is a parameter: the digest of a text, of the canonical text of a value, and of a
  timestamp followed by such a text.
\<close>

record sha256 =
  sha_text :: "string \<Rightarrow> string"
  sha_json :: "json \<Rightarrow> string"
  sha_fill :: "string \<Rightarrow> json \<Rightarrow> string"

abbreviation corrupt :: "string \<Rightarrow> exn" where
  "corrupt \<equiv> StoreCorruptionError"

type_synonym members = "(string \<times> json) list"

section \<open>Constants\<close>

definition MARKET :: string where "MARKET = ''KRW-BTC''"
definition INITIAL_EQUITY :: pyfloat where "INITIAL_EQUITY = flit 100 1"
definition EPOCH :: string where "EPOCH = ''1970-01-01T00:00:00Z''"

definition ACTIVE_ORDER_STATUSES :: "order_status list" where
  "ACTIVE_ORDER_STATUSES = [CREATED, SUBMITTED, ACCEPTED, PARTIAL]"

definition ORDER_SEED_STATUSES :: "order_status list" where
  "ORDER_SEED_STATUSES = [CREATED, SUBMITTED, ACCEPTED]"

definition LEGAL_ORDER_TRANSITIONS :: "(order_status \<times> order_status list) list" where
  "LEGAL_ORDER_TRANSITIONS = [
     (CREATED, [SUBMITTED, CANCELED, INSUFFICIENT_CASH, REJECTED]),
     (SUBMITTED, [ACCEPTED, CANCELED, EXPIRED, INSUFFICIENT_CASH, REJECTED]),
     (ACCEPTED, [CANCELED, EXPIRED, INSUFFICIENT_CASH, REJECTED]),
     (PARTIAL, [CANCELED, EXPIRED, INSUFFICIENT_CASH, REJECTED])]"

section \<open>Records and rows\<close>

record stored_order =
  so_order_id :: string
  so_idempotency_key :: string
  so_side :: string
  so_requested_quantity :: pyfloat
  so_filled_quantity :: pyfloat
  so_status :: order_status
  so_updated_at_utc :: instant

record stored_event =
  sv_sequence :: int
  sv_event_id :: string
  sv_event_type :: string
  sv_occurred_at_utc :: instant
  sv_payload :: members

record paper_snapshot =
  pn_market :: string
  pn_initial_equity :: pyfloat
  pn_cash :: pyfloat
  pn_btc_quantity :: pyfloat
  pn_equity :: pyfloat
  pn_btc_cost_basis :: pyfloat
  pn_average_entry_price :: "pyfloat option"
  pn_last_price :: "pyfloat option"
  pn_position_state :: position_state
  pn_pending_orders :: "stored_order list"
  pn_last_sequence :: int
  pn_breaker_state :: members
  pn_health_state :: members
  pn_event_evidence :: "stored_event list"
  pn_event_digest :: string

record event_row =
  er_sequence :: int
  er_event_id :: string
  er_event_type :: string
  er_occurred_at_utc :: string
  er_payload_json :: json_text

record order_row =
  or_order_id :: string
  or_idempotency_key :: string
  or_side :: string
  or_requested_quantity :: pyval
  or_filled_quantity :: pyval
  or_status :: string
  or_updated_at_utc :: string

record snapshot_row =
  sn_sequence :: int
  sn_state_json :: json_text
  sn_created_at_utc :: string

text \<open>The metadata table: the texts under the known keys, and the other keys.\<close>

record metadata =
  md_initial_equity :: "string option"
  md_market :: "string option"
  md_cycle_lease :: "json_text option"
  md_other_keys :: "string list"

text \<open>The database. \<open>db_sqlite_sequence\<close> is the AUTOINCREMENT high-water mark of \<open>events\<close>.\<close>

record db =
  db_schema :: schema_info
  db_metadata :: metadata
  db_user_version :: int
  db_events :: "event_row list"
  db_orders :: "order_row list"
  db_snapshots :: "snapshot_row list"
  db_sqlite_sequence :: "int option"

section \<open>Stored values\<close>

definition nonempty_text :: "string \<Rightarrow> string \<Rightarrow> string res" where
  "nonempty_text v message = (if stripped v then Inr v else Inl (ValueError message))"

text \<open>\<open>except ValueError: raise StoreCorruptionError\<close>.\<close>

definition as_corrupt :: "string \<Rightarrow> 'a res \<Rightarrow> 'a res" where
  "as_corrupt message m = catch is_value_error m (\<lambda>_. Inl (corrupt message))"

definition json_text_value :: "json \<Rightarrow> string option" where
  "json_text_value v = (case v of JStr s \<Rightarrow> Some s | _ \<Rightarrow> None)"

definition stored_nonempty_text :: "json \<Rightarrow> string \<Rightarrow> string res" where
  "stored_nonempty_text v message = (case json_text_value v of
     None \<Rightarrow> Inl (corrupt message) | Some s \<Rightarrow> as_corrupt message (nonempty_text s message))"

definition valid_side :: "string \<Rightarrow> string res" where
  "valid_side v = (if v = ''BUY'' \<or> v = ''SELL'' then Inr v else Inl (ValueError ''side must be BUY or SELL''))"

definition stored_side :: "json \<Rightarrow> string res" where
  "stored_side v = (case json_text_value v of
     None \<Rightarrow> Inl (corrupt ''invalid side in stored evidence'')
   | Some s \<Rightarrow> as_corrupt ''invalid side in stored evidence'' (valid_side s))"

text \<open>\<open>float(value)\<close> of a value read from JSON.\<close>

fun json_float :: "json \<Rightarrow> pyfloat res" where
  "json_float (JBool b) = Inr (if b then 1 else 0)"
| "json_float (JInt n) = float_of_int n"
| "json_float (JFloat x) = Inr x"
| "json_float (JStr s) = float_of_text s"
| "json_float _ = Inl TypeError"

fun is_json_bool :: "json \<Rightarrow> bool" where
  "is_json_bool (JBool _) = True"
| "is_json_bool _ = False"

text \<open>\<open>_finite_number\<close>, \<open>_positive_number\<close>, \<open>_nonnegative_number\<close> of a bool flag and a conversion.\<close>

definition finite_number :: "bool \<Rightarrow> pyfloat res \<Rightarrow> string \<Rightarrow> pyfloat res" where
  "finite_number isb conv message =
     (if isb then Inl (ValueError message)
      else (case conv of Inl _ \<Rightarrow> Inl (ValueError message)
        | Inr x \<Rightarrow> if isfinite x then Inr x else Inl (ValueError message)))"

definition positive_number :: "bool \<Rightarrow> pyfloat res \<Rightarrow> string \<Rightarrow> pyfloat res" where
  "positive_number isb conv message = ebind (finite_number isb conv message) (\<lambda>x.
     if x \<le> 0 then Inl (ValueError message) else Inr x)"

definition nonnegative_number :: "bool \<Rightarrow> pyfloat res \<Rightarrow> string \<Rightarrow> pyfloat res" where
  "nonnegative_number isb conv message = ebind (finite_number isb conv message) (\<lambda>x.
     if x < 0 then Inl (ValueError message) else Inr x)"

definition stored_positive_number :: "json \<Rightarrow> string \<Rightarrow> pyfloat res" where
  "stored_positive_number v message = as_corrupt message (positive_number (is_json_bool v) (json_float v) message)"

definition stored_nonnegative_number :: "json \<Rightarrow> string \<Rightarrow> pyfloat res" where
  "stored_nonnegative_number v message = as_corrupt message (nonnegative_number (is_json_bool v) (json_float v) message)"

definition STATUS_NAMES :: "(string \<times> order_status) list" where
  "STATUS_NAMES = [(''CREATED'', CREATED), (''SUBMITTED'', SUBMITTED), (''ACCEPTED'', ACCEPTED), (''PARTIAL'', PARTIAL),
     (''COMPLETED'', COMPLETED), (''CANCELED'', CANCELED), (''EXPIRED'', EXPIRED),
     (''INSUFFICIENT_CASH'', INSUFFICIENT_CASH), (''REJECTED'', REJECTED)]"

fun status_value :: "order_status \<Rightarrow> string" where
  "status_value CREATED = ''CREATED''"
| "status_value SUBMITTED = ''SUBMITTED''"
| "status_value ACCEPTED = ''ACCEPTED''"
| "status_value PARTIAL = ''PARTIAL''"
| "status_value COMPLETED = ''COMPLETED''"
| "status_value CANCELED = ''CANCELED''"
| "status_value EXPIRED = ''EXPIRED''"
| "status_value INSUFFICIENT_CASH = ''INSUFFICIENT_CASH''"
| "status_value REJECTED = ''REJECTED''"

definition stored_order_status :: "string \<Rightarrow> order_status res" where
  "stored_order_status s = (case map_of STATUS_NAMES s of
     None \<Rightarrow> Inl (corrupt ''invalid order status in stored evidence'') | Some st \<Rightarrow> Inr st)"

definition json_order_status :: "json \<Rightarrow> order_status res" where
  "json_order_status v = (case json_text_value v of
     None \<Rightarrow> Inl (corrupt ''invalid order status in stored evidence'') | Some s \<Rightarrow> stored_order_status s)"

text \<open>\<open>_parse_stored_timestamp\<close>: the text must be the canonical text of its instant.\<close>

definition parse_stored_timestamp :: "string \<Rightarrow> (string \<times> instant) res" where
  "parse_stored_timestamp v = (case parse_z v of
     None \<Rightarrow> Inl (corrupt ''stored timestamp is not strict UTC'')
   | Some t \<Rightarrow> if iso_z t = v then Inr (v, t) else Inl (corrupt ''stored timestamp is not canonical''))"

text \<open>\<open>_canonical_timestamp\<close> of a text or a datetime given by a caller.\<close>

datatype timestamp = TsText string | TsDatetime pydatetime

definition timestamp_error :: exn where
  "timestamp_error = ValueError ''timestamp must be strict UTC with a Z suffix''"

definition canonical_timestamp :: "timestamp \<Rightarrow> (string \<times> instant) res" where
  "canonical_timestamp v = (case v of
     TsText s \<Rightarrow> (case parse_z s of None \<Rightarrow> Inl timestamp_error | Some t \<Rightarrow> Inr (iso_z t, t))
   | TsDatetime (Naive _) \<Rightarrow> Inl timestamp_error
   | TsDatetime (Aware l off) \<Rightarrow> if off \<noteq> 0 then Inl timestamp_error else Inr (iso_z l, l))"

section \<open>State payloads\<close>

definition KNOWN_BOOLEAN_STATE_FIELDS :: "string list" where
  "KNOWN_BOOLEAN_STATE_FIELDS = [''halt_entries'', ''ledger_matches'', ''timestamps_monotonic'', ''latest_candle_valid'']"

definition KNOWN_COUNT_STATE_FIELDS :: "string list" where
  "KNOWN_COUNT_STATE_FIELDS = [''api_failures'', ''api_successes'', ''unresolved_orders'']"

text \<open>\<open>_REASON_PATTERN\<close>: a capital letter, then at most 63 capitals, digits or underscores.\<close>

definition reason_pattern :: "string \<Rightarrow> bool" where
  "reason_pattern s = (case s of [] \<Rightarrow> False
     | c # r \<Rightarrow> is_alpha c \<and> upper_char c = c \<and> length r \<le> 63
         \<and> list_all (\<lambda>x. (is_alpha x \<and> upper_char x = x) \<or> is_digit x \<or> x = CHR ''_'') r)"

definition reasons_of :: "bool \<Rightarrow> json \<Rightarrow> json list option" where
  "reasons_of corruption v = (case v of JList xs \<Rightarrow> Some xs
     | JTuple xs \<Rightarrow> if corruption then None else Some xs | _ \<Rightarrow> None)"

definition is_reason :: "json \<Rightarrow> bool" where
  "is_reason v = (case v of JStr s \<Rightarrow> reason_pattern s | _ \<Rightarrow> False)"

definition state_count_ok :: "json \<Rightarrow> bool" where
  "state_count_ok v = (case v of JInt n \<Rightarrow> 0 \<le> n | _ \<Rightarrow> False)"

definition fill_deviation_ok :: "json \<Rightarrow> bool" where
  "fill_deviation_ok v = (case v of JInt n \<Rightarrow> 0 \<le> n | JFloat x \<Rightarrow> isfinite x \<and> \<not> x < 0 | _ \<Rightarrow> False)"

definition state_timestamp_ok :: "json \<Rightarrow> bool" where
  "state_timestamp_ok v = (case v of JNull \<Rightarrow> True
     | JStr s \<Rightarrow> (case parse_z s of None \<Rightarrow> False | Some t \<Rightarrow> iso_z t = s) | _ \<Rightarrow> False)"

definition known_state_payload_ok :: "bool \<Rightarrow> members \<Rightarrow> bool" where
  "known_state_payload_ok corruption p \<longleftrightarrow>
     list_all (\<lambda>k. case map_of p k of None \<Rightarrow> True | Some v \<Rightarrow> is_json_bool v) KNOWN_BOOLEAN_STATE_FIELDS
   \<and> list_all (\<lambda>k. case map_of p k of None \<Rightarrow> True | Some v \<Rightarrow> state_count_ok v) KNOWN_COUNT_STATE_FIELDS
   \<and> (case map_of p ''reasons'' of None \<Rightarrow> True
      | Some v \<Rightarrow> (case reasons_of corruption v of None \<Rightarrow> False
          | Some rs \<Rightarrow> list_all is_reason rs \<and> distinct rs))
   \<and> (case map_of p ''fill_deviation'' of None \<Rightarrow> True | Some v \<Rightarrow> fill_deviation_ok v)
   \<and> list_all (\<lambda>k. case map_of p k of None \<Rightarrow> True | Some v \<Rightarrow> state_timestamp_ok v)
       [''last_success_at_utc'', ''last_failure_at_utc'']"

definition validate_known_state_payload :: "string \<Rightarrow> members \<Rightarrow> bool \<Rightarrow> unit res" where
  "validate_known_state_payload event_type p corruption =
     (if event_type \<noteq> ''BREAKER_STATE'' \<and> event_type \<noteq> ''HEALTH_STATE'' then Inr ()
      else ensure (known_state_payload_ok corruption p)
        (if corruption then corrupt ''invalid state payload'' else ValueError ''invalid state payload''))"


section \<open>Event payloads\<close>

definition keys_are :: "members \<Rightarrow> string list \<Rightarrow> bool" where
  "keys_are p ks \<longleftrightarrow> set (map fst p) = set ks"

text \<open>\<open>payload[key]\<close> when the keys are known to be there.\<close>

definition field :: "members \<Rightarrow> string \<Rightarrow> json" where
  "field p k = (case map_of p k of None \<Rightarrow> JNull | Some v \<Rightarrow> v)"

definition order_from_created_payload :: "members \<Rightarrow> instant \<Rightarrow> stored_order res" where
  "order_from_created_payload p occurred_at =
     (if \<not> keys_are p [''filled_quantity'', ''idempotency_key'', ''order_id'', ''requested_quantity'', ''side'', ''status'']
      then Inl (corrupt ''invalid ORDER_CREATED payload'')
      else ebind (stored_nonempty_text (field p ''order_id'') ''invalid ORDER_CREATED order id'') (\<lambda>order_id.
      ebind (stored_nonempty_text (field p ''idempotency_key'') ''invalid ORDER_CREATED idempotency key'') (\<lambda>key.
      ebind (stored_side (field p ''side'')) (\<lambda>side.
      ebind (stored_positive_number (field p ''requested_quantity'') ''invalid ORDER_CREATED requested quantity'') (\<lambda>requested.
      ebind (stored_nonnegative_number (field p ''filled_quantity'') ''invalid ORDER_CREATED filled quantity'') (\<lambda>filled.
      ebind (ensure (feq filled 0) (corrupt ''ORDER_CREATED must start unfilled'')) (\<lambda>_.
      ebind (json_order_status (field p ''status'')) (\<lambda>status.
      ebind (ensure (status \<in> set ORDER_SEED_STATUSES) (corrupt ''invalid ORDER_CREATED seed status'')) (\<lambda>_.
      Inr \<lparr> so_order_id = order_id, so_idempotency_key = key, so_side = side,
            so_requested_quantity = requested, so_filled_quantity = filled, so_status = status,
            so_updated_at_utc = occurred_at \<rparr>)))))))))"

record fill =
  fl_fee :: pyfloat
  fl_order_id :: string
  fl_price :: pyfloat
  fl_quantity :: pyfloat
  fl_side :: string

definition fill_from_payload :: "members \<Rightarrow> fill res" where
  "fill_from_payload p =
     (if \<not> keys_are p [''fee'', ''order_id'', ''price'', ''quantity'', ''side''] then Inl (corrupt ''invalid FILL payload'')
      else ebind (stored_nonnegative_number (field p ''fee'') ''invalid fill fee'') (\<lambda>fee.
      ebind (stored_nonempty_text (field p ''order_id'') ''invalid fill order id'') (\<lambda>order_id.
      ebind (stored_positive_number (field p ''price'') ''invalid fill price'') (\<lambda>price.
      ebind (stored_positive_number (field p ''quantity'') ''invalid fill quantity'') (\<lambda>quantity.
      ebind (stored_side (field p ''side'')) (\<lambda>side.
      Inr \<lparr> fl_fee = fee, fl_order_id = order_id, fl_price = price, fl_quantity = quantity, fl_side = side \<rparr>))))))"

record status_change =
  sg_idempotency_key :: string
  sg_order_id :: string
  sg_status :: order_status

definition order_status_from_payload :: "members \<Rightarrow> status_change res" where
  "order_status_from_payload p =
     (if \<not> keys_are p [''idempotency_key'', ''order_id'', ''reason'', ''status'']
      then Inl (corrupt ''invalid ORDER_STATUS payload'')
      else ebind (if field p ''reason'' = JNull then Inr []
                  else stored_nonempty_text (field p ''reason'') ''invalid ORDER_STATUS reason'') (\<lambda>_.
      ebind (stored_nonempty_text (field p ''idempotency_key'') ''invalid ORDER_STATUS idempotency key'') (\<lambda>key.
      ebind (stored_nonempty_text (field p ''order_id'') ''invalid ORDER_STATUS order id'') (\<lambda>order_id.
      ebind (json_order_status (field p ''status'')) (\<lambda>status.
      Inr \<lparr> sg_idempotency_key = key, sg_order_id = order_id, sg_status = status \<rparr>)))))"

definition legal_targets :: "order_status \<Rightarrow> order_status list" where
  "legal_targets s = (case map_of LEGAL_ORDER_TRANSITIONS s of None \<Rightarrow> [] | Some ts \<Rightarrow> ts)"

definition validate_order_status_transition ::
  "order_status \<Rightarrow> order_status \<Rightarrow> pyfloat \<Rightarrow> pyfloat \<Rightarrow> bool \<Rightarrow> unit res" where
  "validate_order_status_transition current target requested_quantity filled_quantity corruption =
     (let err = (\<lambda>m. if corruption then corrupt m else ValueError m);
          requested = dec_of_float requested_quantity; filled = dec_of_float filled_quantity in
      if filled < 0 \<or> requested < filled then Inl (err ''order quantity invariants are invalid'')
      else if target = CREATED then Inl (err ''illegal order status transition'')
      else if target = PARTIAL then
        ensure (current = PARTIAL \<and> 0 < filled \<and> filled < requested) (err ''illegal order status transition'')
      else if target = COMPLETED then
        ensure (current = COMPLETED \<and> deq filled requested) (err ''illegal order status transition'')
      else ensure (target \<in> set (legal_targets current)) (err ''illegal order status transition''))"

section \<open>Snapshots\<close>

fun position_value :: "position_state \<Rightarrow> string" where
  "position_value FLAT = ''FLAT''"
| "position_value ENTRY_PENDING = ''ENTRY_PENDING''"
| "position_value LONG = ''LONG''"
| "position_value EXIT_PENDING = ''EXIT_PENDING''"
| "position_value HALTED = ''HALTED''"

definition position_state_of :: "pyfloat \<Rightarrow> stored_order list \<Rightarrow> members \<Rightarrow> position_state" where
  "position_state_of btc pending breaker =
     (if map_of breaker ''halt_entries'' = Some (JBool True) then HALTED
      else if list_ex (\<lambda>o1. so_side o1 = ''SELL'') pending then EXIT_PENDING
      else if 0 < btc then LONG
      else if list_ex (\<lambda>o1. so_side o1 = ''BUY'') pending then ENTRY_PENDING
      else FLAT)"

definition initial_snapshot :: "sha256 \<Rightarrow> paper_snapshot" where
  "initial_snapshot H = \<lparr> pn_market = MARKET, pn_initial_equity = INITIAL_EQUITY, pn_cash = INITIAL_EQUITY,
     pn_btc_quantity = 0, pn_equity = INITIAL_EQUITY, pn_btc_cost_basis = 0, pn_average_entry_price = None,
     pn_last_price = None, pn_position_state = FLAT, pn_pending_orders = [], pn_last_sequence = 0,
     pn_breaker_state = [], pn_health_state = [], pn_event_evidence = [], pn_event_digest = sha_text H [] \<rparr>"

text \<open>The pending orders, sorted by update time and id.\<close>

definition order_before :: "stored_order \<Rightarrow> stored_order \<Rightarrow> bool" where
  "order_before a b \<longleftrightarrow> so_updated_at_utc a < so_updated_at_utc b
     \<or> so_updated_at_utc a = so_updated_at_utc b \<and> so_order_id a \<le> so_order_id b"

fun insert_order :: "stored_order \<Rightarrow> stored_order list \<Rightarrow> stored_order list" where
  "insert_order x [] = [x]"
| "insert_order x (y # ys) = (if order_before x y then x # y # ys else y # insert_order x ys)"

definition pending_orders_of :: "stored_order list \<Rightarrow> stored_order list" where
  "pending_orders_of os = foldr insert_order (filter (\<lambda>x. so_status x \<in> set ACTIVE_ORDER_STATUSES) os) []"

text \<open>The running state of the replay.\<close>

record ledger =
  lg_cash :: decimal
  lg_btc_quantity :: decimal
  lg_btc_cost_basis :: decimal
  lg_last_price :: "decimal option"
  lg_orders :: "stored_order list"
  lg_breaker_state :: members
  lg_health_state :: members

definition snapshot_from_components :: "ledger \<Rightarrow> int \<Rightarrow> stored_event list \<Rightarrow> string \<Rightarrow> paper_snapshot" where
  "snapshot_from_components l last_sequence evidence digest =
     (let pending = pending_orders_of (lg_orders l);
          btc = float_of_dec (lg_btc_quantity l);
          equity = lg_cash l + (case lg_last_price l of None \<Rightarrow> 0 | Some p \<Rightarrow> lg_btc_quantity l * p)
      in \<lparr> pn_market = MARKET, pn_initial_equity = INITIAL_EQUITY, pn_cash = float_of_dec (lg_cash l),
          pn_btc_quantity = btc, pn_equity = float_of_dec equity,
          pn_btc_cost_basis = float_of_dec (lg_btc_cost_basis l),
          pn_average_entry_price = (if 0 < lg_btc_quantity l
             then Some (float_of_dec (ddiv (lg_btc_cost_basis l) (lg_btc_quantity l))) else None),
          pn_last_price = map_option float_of_dec (lg_last_price l),
          pn_position_state = position_state_of btc pending (lg_breaker_state l),
          pn_pending_orders = pending, pn_last_sequence = last_sequence,
          pn_breaker_state = lg_breaker_state l, pn_health_state = lg_health_state l,
          pn_event_evidence = evidence, pn_event_digest = digest \<rparr>)"

definition opt_float :: "pyfloat option \<Rightarrow> json" where
  "opt_float x = (case x of None \<Rightarrow> JNull | Some v \<Rightarrow> JFloat v)"

definition pending_mapping :: "stored_order \<Rightarrow> json" where
  "pending_mapping x = JObj [(''filled_quantity'', JFloat (so_filled_quantity x)),
     (''idempotency_key'', JStr (so_idempotency_key x)), (''order_id'', JStr (so_order_id x)),
     (''requested_quantity'', JFloat (so_requested_quantity x)), (''side'', JStr (so_side x)),
     (''status'', JStr (status_value (so_status x))), (''updated_at_utc'', JStr (iso_z (so_updated_at_utc x)))]"

definition snapshot_mapping :: "paper_snapshot \<Rightarrow> json" where
  "snapshot_mapping s = JObj [(''average_entry_price'', opt_float (pn_average_entry_price s)),
     (''breaker_state'', JObj (pn_breaker_state s)), (''btc_cost_basis'', JFloat (pn_btc_cost_basis s)),
     (''btc_quantity'', JFloat (pn_btc_quantity s)), (''cash'', JFloat (pn_cash s)),
     (''equity'', JFloat (pn_equity s)), (''event_digest'', JStr (pn_event_digest s)),
     (''health_state'', JObj (pn_health_state s)), (''initial_equity'', JFloat (pn_initial_equity s)),
     (''last_price'', opt_float (pn_last_price s)), (''last_sequence'', JInt (pn_last_sequence s)),
     (''market'', JStr (pn_market s)),
     (''pending_orders'', JList (map pending_mapping (pn_pending_orders s))),
     (''position_state'', JStr (position_value (pn_position_state s)))]"

definition snapshot_json :: "paper_snapshot \<Rightarrow> json_text res" where
  "snapshot_json s = canonical_json_value (snapshot_mapping s)"


section \<open>Replay\<close>

definition find_order :: "string \<Rightarrow> stored_order list \<Rightarrow> stored_order option" where
  "find_order oid os = List.find (\<lambda>x. so_order_id x = oid) os"

definition replace_order :: "stored_order \<Rightarrow> stored_order list \<Rightarrow> stored_order list" where
  "replace_order x os = map (\<lambda>y. if so_order_id y = so_order_id x then x else y) os"

definition created_event_id :: "sha256 \<Rightarrow> string \<Rightarrow> string" where
  "created_event_id H key = ''order-created:'' @ sha_text H key"

definition status_event_id :: "sha256 \<Rightarrow> string \<Rightarrow> string" where
  "status_event_id H key = ''order-status:'' @ sha_text H key"

text \<open>\<open>ORDER_CREATED\<close>: a new order with a deterministic event id and fresh identities.\<close>

definition replay_created :: "sha256 \<Rightarrow> string \<Rightarrow> members \<Rightarrow> instant \<Rightarrow> ledger \<Rightarrow> ledger res" where
  "replay_created H event_id p ts l =
     ebind (order_from_created_payload p ts) (\<lambda>x.
     ebind (ensure (event_id = created_event_id H (so_idempotency_key x))
       (corrupt ''ORDER_CREATED event id is not deterministic'')) (\<lambda>_.
     ebind (ensure (find_order (so_order_id x) (lg_orders l) = None
         \<and> so_idempotency_key x \<notin> set (map so_idempotency_key (lg_orders l)))
       (corrupt ''duplicate order identity in event replay'')) (\<lambda>_.
     Inr (l\<lparr>lg_orders := lg_orders l @ [x]\<rparr>))))"

text \<open>The cash, quantity and cost basis after a fill.\<close>

definition fill_buy :: "fill \<Rightarrow> ledger \<Rightarrow> ledger res" where
  "fill_buy f l =
     (let q = dec_of_float (fl_quantity f); p = dec_of_float (fl_price f); fee = dec_of_float (fl_fee f);
          cash = lg_cash l - (q * p + fee)
      in if cash < 0 then Inl (corrupt ''fill replay makes cash negative'')
         else Inr (l\<lparr>lg_cash := cash, lg_btc_quantity := lg_btc_quantity l + q,
                     lg_btc_cost_basis := lg_btc_cost_basis l + (q * p + fee)\<rparr>))"

definition fill_sell :: "fill \<Rightarrow> ledger \<Rightarrow> ledger res" where
  "fill_sell f l =
     (let q = dec_of_float (fl_quantity f); p = dec_of_float (fl_price f); fee = dec_of_float (fl_fee f);
          prior = lg_btc_quantity l; cash = lg_cash l + (q * p - fee);
          basis = (if 0 < prior then lg_btc_cost_basis l - lg_btc_cost_basis l * ddiv q prior else lg_btc_cost_basis l);
          btc = prior - q
      in if prior < q then Inl (corrupt ''fill replay oversells BTC'')
         else if cash < 0 then Inl (corrupt ''fill replay makes cash negative'')
         else Inr (l\<lparr>lg_cash := cash, lg_btc_quantity := btc,
                     lg_btc_cost_basis := (if deq btc 0 then 0 else basis)\<rparr>))"

text \<open>The order of a fill: its side, its life and its quantity; COMPLETED when full.\<close>

definition fill_order :: "fill \<Rightarrow> instant \<Rightarrow> stored_order \<Rightarrow> stored_order res" where
  "fill_order f ts x =
     ebind (ensure (so_side x = fl_side f) (corrupt ''fill side conflicts with order replay'')) (\<lambda>_.
     ebind (ensure (so_status x \<in> set ACTIVE_ORDER_STATUSES) (corrupt ''fill follows a terminal order'')) (\<lambda>_.
     let total = dec_of_float (so_filled_quantity x) + dec_of_float (fl_quantity f);
         requested = dec_of_float (so_requested_quantity x)
     in if requested < total then Inl (corrupt ''fill exceeds requested quantity in replay'')
        else Inr (x\<lparr>so_filled_quantity := float_of_dec total,
                    so_status := (if deq total requested then COMPLETED else PARTIAL),
                    so_updated_at_utc := ts\<rparr>)))"

definition replay_fill :: "members \<Rightarrow> instant \<Rightarrow> ledger \<Rightarrow> ledger res" where
  "replay_fill p ts l =
     ebind (fill_from_payload p) (\<lambda>f.
     ebind (if fl_side f = ''BUY'' then fill_buy f l else fill_sell f l) (\<lambda>l1.
     let l2 = l1\<lparr>lg_last_price := Some (dec_of_float (fl_price f))\<rparr> in
     case find_order (fl_order_id f) (lg_orders l2) of
       None \<Rightarrow> Inr l2
     | Some x \<Rightarrow> ebind (fill_order f ts x) (\<lambda>y. Inr (l2\<lparr>lg_orders := replace_order y (lg_orders l2)\<rparr>))))"

definition replay_status :: "sha256 \<Rightarrow> string \<Rightarrow> members \<Rightarrow> instant \<Rightarrow> ledger \<Rightarrow> ledger res" where
  "replay_status H event_id p ts l =
     ebind (order_status_from_payload p) (\<lambda>t.
     ebind (ensure (event_id = status_event_id H (sg_idempotency_key t))
       (corrupt ''ORDER_STATUS event id is not deterministic'')) (\<lambda>_.
     case find_order (sg_order_id t) (lg_orders l) of
       None \<Rightarrow> Inl (corrupt ''ORDER_STATUS references an unknown order'')
     | Some x \<Rightarrow>
         ebind (validate_order_status_transition (so_status x) (sg_status t) (so_requested_quantity x)
           (so_filled_quantity x) True) (\<lambda>_.
         Inr (l\<lparr>lg_orders := replace_order (x\<lparr>so_status := sg_status t, so_updated_at_utc := ts\<rparr>) (lg_orders l)\<rparr>))))"

text \<open>One event, by its type; an unknown type is evidence only.\<close>

definition apply_event :: "sha256 \<Rightarrow> string \<Rightarrow> string \<Rightarrow> members \<Rightarrow> instant \<Rightarrow> ledger \<Rightarrow> ledger res" where
  "apply_event H event_id event_type p ts l =
     (if event_type = ''ORDER_CREATED'' then replay_created H event_id p ts l
      else if event_type = ''FILL'' then replay_fill p ts l
      else if event_type = ''ORDER_STATUS'' then replay_status H event_id p ts l
      else if event_type = ''BREAKER_STATE'' then Inr (l\<lparr>lg_breaker_state := p\<rparr>)
      else if event_type = ''HEALTH_STATE'' then Inr (l\<lparr>lg_health_state := p\<rparr>)
      else Inr l)"

definition initial_ledger :: ledger where
  "initial_ledger = \<lparr> lg_cash = Dec (1, 2), lg_btc_quantity = 0, lg_btc_cost_basis = 0, lg_last_price = None,
     lg_orders = [], lg_breaker_state = [], lg_health_state = [] \<rparr>"

text \<open>The replay with its evidence, digest chain and expected snapshots.\<close>

record replay =
  rp_ledger :: ledger
  rp_evidence :: "stored_event list"
  rp_previous :: "instant option"
  rp_expected :: int
  rp_digest :: string
  rp_mappings :: "json list"
  rp_timestamps :: "string list"

definition initial_replay :: "sha256 \<Rightarrow> replay" where
  "initial_replay H = \<lparr> rp_ledger = initial_ledger, rp_evidence = [], rp_previous = None, rp_expected = 1,
     rp_digest = sha_text H [], rp_mappings = [snapshot_mapping (initial_snapshot H)], rp_timestamps = [EPOCH] \<rparr>"

text \<open>The payload of a row: JSON, an object, canonical.\<close>

definition row_payload :: "json_text \<Rightarrow> members res" where
  "row_payload t = (case json_loads t of
     Some (JObj kvs) \<Rightarrow>
       ebind (as_corrupt ''invalid event JSON'' (canonical_payload (JObj kvs))) (\<lambda>(text, normalized).
         if text = t then Inr normalized else Inl (corrupt ''event JSON is not canonical''))
   | _ \<Rightarrow> Inl (corrupt ''invalid event JSON''))"

definition envelope :: "string \<Rightarrow> string \<Rightarrow> string \<Rightarrow> members \<Rightarrow> string \<Rightarrow> int \<Rightarrow> json" where
  "envelope event_id event_type ts p digest sequence =
     JObj [(''event_id'', JStr event_id), (''event_type'', JStr event_type), (''occurred_at_utc'', JStr ts),
       (''payload'', JObj p), (''previous_digest'', JStr digest), (''sequence'', JInt sequence)]"

definition text_value :: "json_text \<Rightarrow> json" where
  "text_value t = (case json_loads t of None \<Rightarrow> JNull | Some v \<Rightarrow> v)"

definition envelope_digest :: "sha256 \<Rightarrow> json \<Rightarrow> string res" where
  "envelope_digest H v = ebind (canonical_json_value v) (\<lambda>t. Inr (sha_json H (text_value t)))"

text \<open>\<open>_stored_nonempty_text\<close> of a text column.\<close>

definition stored_text :: "string \<Rightarrow> string \<Rightarrow> string res" where
  "stored_text v message = as_corrupt message (nonempty_text v message)"

definition replay_row :: "sha256 \<Rightarrow> event_row \<Rightarrow> replay \<Rightarrow> replay res" where
  "replay_row H r st =
     ebind (ensure (er_sequence r = rp_expected st) (corrupt ''event sequence history is inconsistent'')) (\<lambda>_.
     ebind (stored_text (er_event_id r) ''invalid event id'') (\<lambda>event_id.
     ebind (stored_text (er_event_type r) ''invalid event type'') (\<lambda>event_type.
     ebind (parse_stored_timestamp (er_occurred_at_utc r)) (\<lambda>(at_text, ts).
     ebind (ensure (case rp_previous st of None \<Rightarrow> True | Some p \<Rightarrow> p \<le> ts) (corrupt ''event timestamp reversal'')) (\<lambda>_.
     ebind (row_payload (er_payload_json r)) (\<lambda>p.
     ebind (validate_known_state_payload event_type p True) (\<lambda>_.
     ebind (envelope_digest H (envelope event_id event_type at_text p (rp_digest st) (er_sequence r))) (\<lambda>digest.
     ebind (apply_event H event_id event_type p ts (rp_ledger st)) (\<lambda>l.
     Inr \<lparr> rp_ledger = l,
           rp_evidence = rp_evidence st @ [\<lparr> sv_sequence = er_sequence r, sv_event_id = event_id,
              sv_event_type = event_type, sv_occurred_at_utc = ts, sv_payload = p \<rparr>],
           rp_previous = Some ts, rp_expected = rp_expected st + 1, rp_digest = digest,
           rp_mappings = rp_mappings st @ [snapshot_mapping (snapshot_from_components l (er_sequence r) [] digest)],
           rp_timestamps = rp_timestamps st @ [at_text] \<rparr>)))))))))"

definition replay_rows :: "sha256 \<Rightarrow> event_row list \<Rightarrow> replay res" where
  "replay_rows H rs = efold (replay_row H) rs (initial_replay H)"

section \<open>Projections\<close>

definition stored_positive_column :: "pyval \<Rightarrow> string \<Rightarrow> pyfloat res" where
  "stored_positive_column v message = as_corrupt message (positive_number (is_bool v) (py_float v) message)"

definition stored_nonnegative_column :: "pyval \<Rightarrow> string \<Rightarrow> pyfloat res" where
  "stored_nonnegative_column v message = as_corrupt message (nonnegative_number (is_bool v) (py_float v) message)"

definition project_row :: "order_row \<Rightarrow> stored_order list \<Rightarrow> stored_order list res" where
  "project_row r os =
     ebind (stored_text (or_order_id r) ''invalid projected order id'') (\<lambda>order_id.
     ebind (stored_text (or_idempotency_key r) ''invalid projected idempotency key'') (\<lambda>key.
     ebind (ensure (find_order order_id os = None \<and> key \<notin> set (map so_idempotency_key os))
       (corrupt ''duplicate identity in order projection'')) (\<lambda>_.
     ebind (as_corrupt ''invalid side in stored evidence'' (valid_side (or_side r))) (\<lambda>side.
     ebind (stored_positive_column (or_requested_quantity r) ''invalid requested quantity in order projection'') (\<lambda>requested.
     ebind (stored_nonnegative_column (or_filled_quantity r) ''invalid filled quantity in order projection'') (\<lambda>filled.
     ebind (ensure (\<not> requested < filled) (corrupt ''filled quantity exceeds requested projection'')) (\<lambda>_.
     ebind (stored_order_status (or_status r)) (\<lambda>status.
     ebind (parse_stored_timestamp (or_updated_at_utc r)) (\<lambda>(_, updated_at).
     Inr (os @ [\<lparr> so_order_id = order_id, so_idempotency_key = key, so_side = side,
        so_requested_quantity = requested, so_filled_quantity = filled, so_status = status,
        so_updated_at_utc = updated_at \<rparr>]))))))))))"

definition orders_match :: "stored_order \<Rightarrow> stored_order \<Rightarrow> bool" where
  "orders_match a b \<longleftrightarrow> so_order_id a = so_order_id b \<and> so_idempotency_key a = so_idempotency_key b
     \<and> so_side a = so_side b \<and> feq (so_requested_quantity a) (so_requested_quantity b)
     \<and> feq (so_filled_quantity a) (so_filled_quantity b) \<and> so_status a = so_status b
     \<and> so_updated_at_utc a = so_updated_at_utc b"

definition verify_order_projection :: "order_row list \<Rightarrow> stored_order list \<Rightarrow> unit res" where
  "verify_order_projection rows replayed =
     ebind (efold project_row rows []) (\<lambda>projected.
     ensure (set (map so_order_id projected) = set (map so_order_id replayed)
       \<and> list_all (\<lambda>x. case find_order (so_order_id x) projected of None \<Rightarrow> False | Some y \<Rightarrow> orders_match x y) replayed)
       (corrupt ''order projection does not match event replay''))"

definition rebuild_from_events :: "sha256 \<Rightarrow> db \<Rightarrow> (replay \<times> paper_snapshot) res" where
  "rebuild_from_events H d =
     ebind (replay_rows H (sort_key er_sequence (db_events d))) (\<lambda>r.
     let tail = (if rp_evidence r = [] then 0 else sv_sequence (last (rp_evidence r)));
         recorded = (case db_sqlite_sequence d of None \<Rightarrow> 0 | Some n \<Rightarrow> n)
     in ebind (ensure (recorded = tail) (corrupt ''event tail was deleted from immutable history'')) (\<lambda>_.
        ebind (verify_order_projection (db_orders d) (lg_orders (rp_ledger r))) (\<lambda>_.
        Inr (r, snapshot_from_components (rp_ledger r) tail (rp_evidence r) (rp_digest r)))))"

end
