(* ===== verification/StoreOps.thy ===== *)
theory StoreOps
  imports Store
begin

text \<open>
  The operations of the event store, \<open>src/autobit/persistence/sqlite_store.py\<close>: verification
  of the whole database, the fenced cycle lease, the four mutations, and the transactions
  around them. A mutation verifies the database before and after; an exception leaves the
  database as it was.
\<close>

section \<open>The cycle lease\<close>

definition LEASE_TOKEN_PREFIX :: string where "LEASE_TOKEN_PREFIX = ''autobit-fenced-lease-v1''"
definition MAX_CYCLE_LEASE_EPOCH :: int where "MAX_CYCLE_LEASE_EPOCH = 2147483647"

definition positive_epoch :: "pyval \<Rightarrow> int res" where
  "positive_epoch v = (case v of VInt n \<Rightarrow> if n \<le> 0 then Inl (ValueError ''lease epoch must be a positive integer'') else Inr n
     | _ \<Rightarrow> Inl (ValueError ''lease epoch must be a positive integer''))"

definition cycle_lease_storage_token :: "sha256 \<Rightarrow> string \<Rightarrow> int \<Rightarrow> string" where
  "cycle_lease_storage_token H token epoch =
     LEASE_TOKEN_PREFIX @ '':'' @ show_int epoch @ '':'' @ sha_text H token"

definition is_hex :: "char \<Rightarrow> bool" where
  "is_hex c = (is_digit c \<or> c \<in> set ''abcdef'')"

fun nat_of_digits :: "int \<Rightarrow> string \<Rightarrow> int" where
  "nat_of_digits v [] = v"
| "nat_of_digits v (c # s) = nat_of_digits (v * 10 + (int (code c) - 48)) s"

text \<open>\<open>_cycle_lease_token_epoch\<close>: the epoch of a fenced token, nothing for a legacy one.\<close>

definition cycle_lease_token_epoch :: "string \<Rightarrow> int option res" where
  "cycle_lease_token_epoch token =
     (let p = LEASE_TOKEN_PREFIX @ '':'' in
      if \<not> starts_with p token then Inr None
      else (let r = drop (length p) token; ds = takeWhile is_digit r; rest = dropWhile is_digit r in
        if ds = [] \<or> hd ds = CHR ''0'' \<or> rest = [] \<or> hd rest \<noteq> CHR '':'' \<or> length (tl rest) \<noteq> 64
           \<or> \<not> list_all is_hex (tl rest) then Inr None
        else (let e = nat_of_digits 0 ds in
          if MAX_CYCLE_LEASE_EPOCH < e then Inl (ValueError ''lease epoch exceeds its durable range'') else Inr (Some e))))"

record lease =
  ls_owner :: string
  ls_token :: string
  ls_expires :: instant
  ls_epoch :: "int option"

definition json_nonempty :: "json \<Rightarrow> string \<Rightarrow> string res" where
  "json_nonempty v message = (case json_text_value v of None \<Rightarrow> Inl (ValueError message) | Some s \<Rightarrow> nonempty_text s message)"

definition json_timestamp :: "json \<Rightarrow> (string \<times> instant) res" where
  "json_timestamp v = (case json_text_value v of None \<Rightarrow> Inl timestamp_error | Some s \<Rightarrow> canonical_timestamp (TsText s))"

definition lease_of_payload :: "json_text \<Rightarrow> members \<Rightarrow> lease res" where
  "lease_of_payload value p =
     ebind (ensure (keys_are p [''expires_at_utc'', ''owner'', ''token'']) (ValueError ''lease metadata has invalid fields'')) (\<lambda>_.
     ebind (canonical_json_value (JObj p)) (\<lambda>text.
     ebind (ensure (text = value) (ValueError ''lease metadata is not canonical'')) (\<lambda>_.
     ebind (json_nonempty (field p ''owner'') ''lease owner must be non-empty'') (\<lambda>owner.
     ebind (json_nonempty (field p ''token'') ''lease token must be non-empty'') (\<lambda>token.
     ebind (json_timestamp (field p ''expires_at_utc'')) (\<lambda>(expires_text, expires).
     ebind (ensure (field p ''expires_at_utc'' = JStr expires_text) (ValueError ''lease expiry must be canonical UTC'')) (\<lambda>_.
     ebind (cycle_lease_token_epoch token) (\<lambda>epoch.
     Inr \<lparr> ls_owner = owner, ls_token = token, ls_expires = expires, ls_epoch = epoch \<rparr>))))))))"

definition cycle_lease_metadata :: "json_text \<Rightarrow> lease res" where
  "cycle_lease_metadata value = catch (\<lambda>_. True)
     (case json_loads value of Some (JObj p) \<Rightarrow> lease_of_payload value p
      | _ \<Rightarrow> Inl (ValueError ''lease metadata has invalid fields''))
     (\<lambda>_. Inl (corrupt ''paper cycle lease metadata is invalid''))"

definition cycle_lease_epoch :: "db \<Rightarrow> int res" where
  "cycle_lease_epoch d = (if db_user_version d < 0 \<or> MAX_CYCLE_LEASE_EPOCH < db_user_version d
     then Inl (corrupt ''paper cycle lease epoch is invalid'') else Inr (db_user_version d))"

definition next_cycle_lease_epoch :: "int \<Rightarrow> int res" where
  "next_cycle_lease_epoch counter = (if MAX_CYCLE_LEASE_EPOCH \<le> counter
     then Inl (StoreError ''paper cycle lease epoch is exhausted'') else Inr (counter + 1))"

section \<open>Verification of the database\<close>

definition validate_metadata :: "metadata \<Rightarrow> unit res" where
  "validate_metadata m = (case (md_initial_equity m, md_market m, md_other_keys m) of
     (Some equity, Some market, []) \<Rightarrow>
       ebind (ensure (market = MARKET) (corrupt ''stored market is not KRW-BTC'')) (\<lambda>_.
       ebind (as_corrupt ''schema introspection or metadata is invalid'' (float_of_text equity)) (\<lambda>x.
       ensure (isfinite x \<and> feq x INITIAL_EQUITY) (corrupt ''stored initial equity is not 100'')))
   | _ \<Rightarrow> Inl (corrupt ''metadata keys are inconsistent''))"

definition validate_lease :: "db \<Rightarrow> unit res" where
  "validate_lease d = ebind (cycle_lease_epoch d) (\<lambda>counter.
     case md_cycle_lease (db_metadata d) of None \<Rightarrow> Inr ()
     | Some value \<Rightarrow> ebind (cycle_lease_metadata value) (\<lambda>l.
         ensure (ls_epoch l = None \<or> ls_epoch l = Some counter)
           (corrupt ''paper cycle lease epoch contradicts its counter'')))"

definition validate_schema_and_identity :: "db \<Rightarrow> unit res" where
  "validate_schema_and_identity d =
     ebind (validate_tables (db_schema d)) (\<lambda>_. ebind (validate_metadata (db_metadata d)) (\<lambda>_. validate_lease d))"

text \<open>A snapshot row against the mapping and the timestamp that the replay gives.\<close>

definition verify_snapshot_row :: "snapshot_row \<Rightarrow> json \<Rightarrow> string \<Rightarrow> unit res" where
  "verify_snapshot_row r expected expected_timestamp = (case json_loads (sn_state_json r) of
     Some (JObj p) \<Rightarrow>
       ebind (as_corrupt ''invalid snapshot JSON'' (canonical_json_value (JObj p))) (\<lambda>canonical.
       ebind (ensure (canonical = sn_state_json r) (corrupt ''snapshot JSON is not canonical'')) (\<lambda>_.
       ebind (canonical_json_value expected) (\<lambda>expected_json.
       ebind (ensure (canonical = expected_json) (corrupt ''snapshot does not match event replay'')) (\<lambda>_.
       ebind (parse_stored_timestamp (sn_created_at_utc r)) (\<lambda>(stored, _).
       ensure (stored = expected_timestamp) (corrupt ''snapshot timestamp does not match event replay''))))))
   | _ \<Rightarrow> Inl (corrupt ''invalid snapshot JSON''))"

fun verify_snapshots :: "snapshot_row list \<Rightarrow> json list \<Rightarrow> string list \<Rightarrow> unit res" where
  "verify_snapshots (r # rs) (m # ms) (t # ts) =
     ebind (verify_snapshot_row r m t) (\<lambda>_. verify_snapshots rs ms ts)"
| "verify_snapshots _ _ _ = Inr ()"

definition replay_and_verify :: "sha256 \<Rightarrow> db \<Rightarrow> paper_snapshot res" where
  "replay_and_verify H d =
     ebind (validate_schema_and_identity d) (\<lambda>_.
     ebind (rebuild_from_events H d) (\<lambda>(r, state).
     let rows = sort_key sn_sequence (db_snapshots d) in
     ebind (ensure (map sn_sequence rows = map int [0..<length (rp_mappings r)])
       (corrupt ''snapshot sequence history is inconsistent'')) (\<lambda>_.
     ebind (verify_snapshots rows (rp_mappings r) (rp_timestamps r)) (\<lambda>_. Inr state))))"

section \<open>Statements\<close>

definition integrity_error :: exn where "integrity_error = OtherError ''IntegrityError''"

text \<open>The row id of the next event: above every row and above every earlier one.\<close>

definition next_sequence :: "db \<Rightarrow> int" where
  "next_sequence d = foldr (\<lambda>r m. max (er_sequence r) m) (db_events d)
     (case db_sqlite_sequence d of None \<Rightarrow> 0 | Some n \<Rightarrow> max 0 n) + 1"

definition insert_event :: "string \<Rightarrow> string \<Rightarrow> string \<Rightarrow> json_text \<Rightarrow> db \<Rightarrow> (db \<times> int) res" where
  "insert_event event_id event_type at_text payload d =
     (if event_id \<in> set (map er_event_id (db_events d)) then Inl integrity_error
      else (let n = next_sequence d in
        Inr (d\<lparr>db_events := db_events d @ [\<lparr> er_sequence = n, er_event_id = event_id, er_event_type = event_type,
                er_occurred_at_utc = at_text, er_payload_json = payload \<rparr>],
              db_sqlite_sequence := Some n\<rparr>, n)))"

definition insert_order_row :: "order_row \<Rightarrow> db \<Rightarrow> db res" where
  "insert_order_row r d =
     (if or_order_id r \<in> set (map or_order_id (db_orders d))
         \<or> or_idempotency_key r \<in> set (map or_idempotency_key (db_orders d)) then Inl integrity_error
      else Inr (d\<lparr>db_orders := db_orders d @ [r]\<rparr>))"

definition insert_snapshot :: "paper_snapshot \<Rightarrow> string \<Rightarrow> db \<Rightarrow> db res" where
  "insert_snapshot state created_at d =
     ebind (snapshot_json state) (\<lambda>text.
     if pn_last_sequence state \<in> set (map sn_sequence (db_snapshots d)) then Inl integrity_error
     else Inr (d\<lparr>db_snapshots := db_snapshots d @ [\<lparr> sn_sequence = pn_last_sequence state,
        sn_state_json = text, sn_created_at_utc = created_at \<rparr>]\<rparr>))"

text \<open>Rebuild after the new event and append its snapshot.\<close>

definition refresh_snapshot :: "sha256 \<Rightarrow> string \<Rightarrow> db \<Rightarrow> db res" where
  "refresh_snapshot H at_text d = ebind (rebuild_from_events H d) (\<lambda>(_, state). insert_snapshot state at_text d)"

definition event_row_of :: "string \<Rightarrow> db \<Rightarrow> event_row option" where
  "event_row_of event_id d = List.find (\<lambda>r. er_event_id r = event_id) (db_events d)"

definition order_row_of :: "string \<Rightarrow> db \<Rightarrow> order_row option" where
  "order_row_of order_id d = List.find (\<lambda>r. or_order_id r = order_id) (db_orders d)"

text \<open>\<open>_validate_timestamp_order\<close>: not before the last event.\<close>

definition validate_timestamp_order :: "instant \<Rightarrow> db \<Rightarrow> unit res" where
  "validate_timestamp_order occurred_at d = (case sort_key er_sequence (db_events d) of [] \<Rightarrow> Inr ()
     | rows \<Rightarrow> ebind (parse_stored_timestamp (er_occurred_at_utc (last rows))) (\<lambda>(_, latest).
         ensure (latest \<le> occurred_at) (ValueError ''timestamp reversal is not allowed'')))"

text \<open>\<open>_mutation_transaction\<close> around a body that starts with a verification.\<close>

definition mutation :: "sha256 \<Rightarrow> (paper_snapshot \<Rightarrow> db \<Rightarrow> (db \<times> 'a) res) \<Rightarrow> db \<Rightarrow> (db \<times> 'a) res" where
  "mutation H body d =
     ebind (replay_and_verify H d) (\<lambda>current.
     ebind (body current d) (\<lambda>(d1, x).
     ebind (replay_and_verify H d1) (\<lambda>_. Inr (d1, x))))"


section \<open>Appending an event\<close>

record event_args =
  ea_event_id :: string
  ea_event_type :: string
  ea_occurred_at :: timestamp
  ea_payload :: json

record event_norm =
  en_event_id :: string
  en_event_type :: string
  en_text :: string
  en_at :: instant
  en_payload :: json_text

definition normalize_event :: "event_args \<Rightarrow> event_norm res" where
  "normalize_event a =
     ebind (nonempty_text (ea_event_id a) ''event id must be non-empty'') (\<lambda>event_id.
     ebind (nonempty_text (ea_event_type a) ''event type must be non-empty'') (\<lambda>event_type.
     ebind (canonical_timestamp (ea_occurred_at a)) (\<lambda>(text, t).
     ebind (case ea_payload a of JObj p \<Rightarrow> validate_known_state_payload event_type p False | _ \<Rightarrow> Inr ()) (\<lambda>_.
     ebind (canonical_payload (ea_payload a)) (\<lambda>(payload, normalized).
     ebind (validate_known_state_payload event_type normalized False) (\<lambda>_.
     Inr \<lparr> en_event_id = event_id, en_event_type = event_type, en_text = text, en_at = t, en_payload = payload \<rparr>))))))"

definition append_event_body :: "sha256 \<Rightarrow> event_norm \<Rightarrow> paper_snapshot \<Rightarrow> db \<Rightarrow> (db \<times> int) res" where
  "append_event_body H n current d =
     ebind (ensure (event_row_of (en_event_id n) d = None) (IdempotencyConflictError ''event id already exists'')) (\<lambda>_.
     ebind (validate_timestamp_order (en_at n) d) (\<lambda>_.
     ebind (insert_event (en_event_id n) (en_event_type n) (en_text n) (en_payload n) d) (\<lambda>(d1, sequence).
     ebind (refresh_snapshot H (en_text n) d1) (\<lambda>d2. Inr (d2, sequence)))))"

definition append_event :: "sha256 \<Rightarrow> event_args \<Rightarrow> db \<Rightarrow> (db \<times> int) res" where
  "append_event H a d = ebind (normalize_event a) (\<lambda>n. mutation H (append_event_body H n) d)"

section \<open>Recording an order\<close>

record order_args =
  oa_idempotency_key :: string
  oa_side :: string
  oa_requested_quantity :: pyval
  oa_order_id :: "string option"
  oa_occurred_at :: "timestamp option"
  oa_status :: order_status

record order_norm =
  on_key :: string
  on_order_id :: string
  on_side :: string
  on_quantity :: pyfloat
  on_status :: order_status
  on_text :: string
  on_at :: instant

definition default_timestamp :: "string \<Rightarrow> timestamp" where
  "default_timestamp key = TsText (case search_z key of None \<Rightarrow> EPOCH | Some t \<Rightarrow> t)"

definition normalize_order :: "order_args \<Rightarrow> order_norm res" where
  "normalize_order a =
     ebind (nonempty_text (oa_idempotency_key a) ''idempotency key must be non-empty'') (\<lambda>key.
     ebind (nonempty_text (case oa_order_id a of None \<Rightarrow> key | Some i \<Rightarrow> i) ''order id must be non-empty'') (\<lambda>order_id.
     ebind (valid_side (oa_side a)) (\<lambda>side.
     ebind (positive_number (is_bool (oa_requested_quantity a)) (py_float (oa_requested_quantity a))
       ''requested quantity must be finite and positive'') (\<lambda>quantity.
     ebind (ensure (oa_status a \<in> set ORDER_SEED_STATUSES)
       (ValueError ''order seed status must be CREATED, SUBMITTED, or ACCEPTED'')) (\<lambda>_.
     ebind (canonical_timestamp (case oa_occurred_at a of None \<Rightarrow> default_timestamp key | Some t \<Rightarrow> t)) (\<lambda>(text, t).
     Inr \<lparr> on_key = key, on_order_id = order_id, on_side = side, on_quantity = quantity,
           on_status = oa_status a, on_text = text, on_at = t \<rparr>))))))"

definition created_payload :: "order_norm \<Rightarrow> members" where
  "created_payload n = [(''filled_quantity'', JFloat 0), (''idempotency_key'', JStr (on_key n)),
     (''order_id'', JStr (on_order_id n)), (''requested_quantity'', JFloat (on_quantity n)),
     (''side'', JStr (on_side n)), (''status'', JStr (status_value (on_status n)))]"

definition TOLERANCE :: pyfloat where "TOLERANCE = flit 1 10000000000"

definition pyabs :: "pyfloat \<Rightarrow> pyfloat" where
  "pyabs x = (if x < 0 then - x else x)"

text \<open>\<open>math.isclose(left, right, rel_tol=0, abs_tol=1e-10)\<close>.\<close>

definition numbers_close :: "pyfloat \<Rightarrow> pyfloat \<Rightarrow> bool" where
  "numbers_close x y \<longleftrightarrow> feq x y \<or> (isfinite x \<and> isfinite y \<and> pyabs (y - x) \<le> TOLERANCE)"

text \<open>An exact retry: the order and its event carry the same payload.\<close>

definition same_order :: "sha256 \<Rightarrow> order_norm \<Rightarrow> json_text \<Rightarrow> order_row \<Rightarrow> db \<Rightarrow> bool res" where
  "same_order H n payload r d = ebind (py_float (or_requested_quantity r)) (\<lambda>q.
     Inr (or_order_id r = on_order_id n \<and> or_side r = on_side n \<and> numbers_close q (on_quantity n)
       \<and> (case event_row_of (created_event_id H (on_key n)) d of
            Some e \<Rightarrow> er_event_type e = ''ORDER_CREATED'' \<and> er_occurred_at_utc e = on_text n \<and> er_payload_json e = payload
          | None \<Rightarrow> False)))"

definition record_order_body :: "sha256 \<Rightarrow> order_norm \<Rightarrow> json_text \<Rightarrow> paper_snapshot \<Rightarrow> db \<Rightarrow> (db \<times> bool) res" where
  "record_order_body H n payload current d =
     (case List.find (\<lambda>r. or_idempotency_key r = on_key n) (db_orders d) of
       Some r \<Rightarrow> ebind (same_order H n payload r d) (\<lambda>same.
         if same then Inr (d, False)
         else Inl (IdempotencyConflictError ''idempotency key has different order payload''))
     | None \<Rightarrow>
         ebind (ensure (order_row_of (on_order_id n) d = None) (IdempotencyConflictError ''order id already exists'')) (\<lambda>_.
         ebind (ensure (\<not> (on_side n = ''SELL'' \<and> pn_btc_quantity current < on_quantity n))
           (ValueError ''sell order would exceed BTC inventory'')) (\<lambda>_.
         ebind (validate_timestamp_order (on_at n) d) (\<lambda>_.
         ebind (insert_event (created_event_id H (on_key n)) ''ORDER_CREATED'' (on_text n) payload d) (\<lambda>(d1, _).
         ebind (insert_order_row \<lparr> or_order_id = on_order_id n, or_idempotency_key = on_key n, or_side = on_side n,
            or_requested_quantity = VFloat (on_quantity n), or_filled_quantity = VFloat 0,
            or_status = status_value (on_status n), or_updated_at_utc = on_text n \<rparr> d1) (\<lambda>d2.
         ebind (refresh_snapshot H (on_text n) d2) (\<lambda>d3. Inr (d3, True))))))))"

definition prepare_order :: "order_args \<Rightarrow> (order_norm \<times> json_text) res" where
  "prepare_order a = ebind (normalize_order a) (\<lambda>n.
     ebind (canonical_payload (JObj (created_payload n))) (\<lambda>(payload, _). Inr (n, payload)))"

definition record_order_once :: "sha256 \<Rightarrow> order_args \<Rightarrow> db \<Rightarrow> (db \<times> bool) res" where
  "record_order_once H a d = ebind (prepare_order a) (\<lambda>(n, payload). mutation H (record_order_body H n payload) d)"

section \<open>Appending a fill\<close>

record fill_args =
  fa_order_id :: string
  fa_side :: string
  fa_quantity :: pyval
  fa_price :: pyval
  fa_fee :: pyval
  fa_occurred_at :: timestamp
  fa_fill_id :: "string option"

record fill_norm =
  fn_order_id :: string
  fn_side :: string
  fn_quantity :: pyfloat
  fn_price :: pyfloat
  fn_fee :: pyfloat
  fn_text :: string
  fn_at :: instant

definition normalize_fill :: "fill_args \<Rightarrow> fill_norm res" where
  "normalize_fill a =
     ebind (nonempty_text (fa_order_id a) ''order id must be non-empty'') (\<lambda>order_id.
     ebind (valid_side (fa_side a)) (\<lambda>side.
     ebind (positive_number (is_bool (fa_quantity a)) (py_float (fa_quantity a)) ''quantity must be finite and positive'') (\<lambda>quantity.
     ebind (positive_number (is_bool (fa_price a)) (py_float (fa_price a)) ''price must be finite and positive'') (\<lambda>price.
     ebind (nonnegative_number (is_bool (fa_fee a)) (py_float (fa_fee a)) ''fee must be finite and non-negative'') (\<lambda>fee.
     ebind (canonical_timestamp (fa_occurred_at a)) (\<lambda>(text, t).
     Inr \<lparr> fn_order_id = order_id, fn_side = side, fn_quantity = quantity, fn_price = price, fn_fee = fee,
           fn_text = text, fn_at = t \<rparr>))))))"

definition fill_payload :: "fill_norm \<Rightarrow> members" where
  "fill_payload n = [(''fee'', JFloat (fn_fee n)), (''order_id'', JStr (fn_order_id n)), (''price'', JFloat (fn_price n)),
     (''quantity'', JFloat (fn_quantity n)), (''side'', JStr (fn_side n))]"

text \<open>The cash after the fill, refused when negative or when more is sold than held.\<close>

definition resulting_cash :: "fill_norm \<Rightarrow> paper_snapshot \<Rightarrow> decimal res" where
  "resulting_cash n current =
     (let q = dec_of_float (fn_quantity n); p = dec_of_float (fn_price n); fee = dec_of_float (fn_fee n);
          cash = dec_of_float (pn_cash current); btc = dec_of_float (pn_btc_quantity current)
      in ebind (if fn_side n = ''BUY'' then Inr (cash - (q * p + fee))
           else if btc < q then Inl (ValueError ''fill would oversell BTC'')
           else Inr (cash + (q * p - fee))) (\<lambda>c.
         if c < 0 then Inl (ValueError ''fill would make cash negative'') else Inr c))"

text \<open>The projection of the order of the fill, if there is one.\<close>

definition fill_order_row :: "fill_norm \<Rightarrow> db \<Rightarrow> db res" where
  "fill_order_row n d = (case order_row_of (fn_order_id n) d of
     None \<Rightarrow> Inr d
   | Some r \<Rightarrow>
       ebind (ensure (or_side r = fn_side n) (ValueError ''fill side does not match order side'')) (\<lambda>_.
       ebind (stored_order_status (or_status r)) (\<lambda>status.
       ebind (ensure (status \<in> set ACTIVE_ORDER_STATUSES) (ValueError ''cannot fill a terminal order'')) (\<lambda>_.
       ebind (stored_positive_column (or_requested_quantity r) ''invalid requested quantity in order projection'') (\<lambda>requested.
       ebind (stored_nonnegative_column (or_filled_quantity r) ''invalid filled quantity in order projection'') (\<lambda>filled.
       let total = dec_of_float filled + dec_of_float (fn_quantity n); req = dec_of_float requested
       in if req < total then Inl (ValueError ''fill exceeds requested quantity'')
          else Inr (d\<lparr>db_orders := map (\<lambda>x. if or_order_id x = fn_order_id n
             then x\<lparr>or_filled_quantity := VFloat (float_of_dec total),
                    or_status := status_value (if deq total req then COMPLETED else PARTIAL),
                    or_updated_at_utc := fn_text n\<rparr> else x) (db_orders d)\<rparr>)))))))"

definition append_fill_body :: "sha256 \<Rightarrow> fill_norm \<Rightarrow> string \<Rightarrow> json_text \<Rightarrow> paper_snapshot \<Rightarrow> db \<Rightarrow> (db \<times> bool) res" where
  "append_fill_body H n fill_id payload current d =
     (case event_row_of fill_id d of
       Some e \<Rightarrow> if er_event_type e = ''FILL'' \<and> er_occurred_at_utc e = fn_text n \<and> er_payload_json e = payload
         then Inr (d, False) else Inl (IdempotencyConflictError ''fill id has different payload'')
     | None \<Rightarrow>
         ebind (validate_timestamp_order (fn_at n) d) (\<lambda>_.
         ebind (resulting_cash n current) (\<lambda>_.
         ebind (fill_order_row n d) (\<lambda>d1.
         ebind (insert_event fill_id ''FILL'' (fn_text n) payload d1) (\<lambda>(d2, _).
         ebind (refresh_snapshot H (fn_text n) d2) (\<lambda>d3. Inr (d3, True)))))))"

definition prepare_fill :: "sha256 \<Rightarrow> fill_args \<Rightarrow> (fill_norm \<times> string \<times> json_text) res" where
  "prepare_fill H a = ebind (normalize_fill a) (\<lambda>n.
     ebind (canonical_payload (JObj (fill_payload n))) (\<lambda>(payload, _).
     ebind (case fa_fill_id a of Some i \<Rightarrow> nonempty_text i ''fill id must be non-empty''
            | None \<Rightarrow> Inr (''fill:'' @ sha_fill H (fn_text n) (text_value payload))) (\<lambda>fill_id.
     Inr (n, fill_id, payload))))"

definition append_fill :: "sha256 \<Rightarrow> fill_args \<Rightarrow> db \<Rightarrow> (db \<times> bool) res" where
  "append_fill H a d = ebind (prepare_fill H a) (\<lambda>(n, fill_id, payload).
     mutation H (append_fill_body H n fill_id payload) d)"

section \<open>Order status transitions\<close>

record transition_args =
  ta_order_id :: string
  ta_idempotency_key :: string
  ta_status :: order_status
  ta_occurred_at :: timestamp
  ta_reason :: "string option"

record transition_norm =
  tn_order_id :: string
  tn_key :: string
  tn_status :: order_status
  tn_reason :: "string option"
  tn_text :: string
  tn_at :: instant

definition normalize_transition :: "transition_args \<Rightarrow> transition_norm res" where
  "normalize_transition a =
     ebind (nonempty_text (ta_order_id a) ''order id must be non-empty'') (\<lambda>order_id.
     ebind (nonempty_text (ta_idempotency_key a) ''idempotency key must be non-empty'') (\<lambda>key.
     ebind (case ta_reason a of None \<Rightarrow> Inr None
            | Some r \<Rightarrow> ebind (nonempty_text r ''reason must be non-empty'') (\<lambda>x. Inr (Some x))) (\<lambda>reason.
     ebind (canonical_timestamp (ta_occurred_at a)) (\<lambda>(text, t).
     Inr \<lparr> tn_order_id = order_id, tn_key = key, tn_status = ta_status a, tn_reason = reason, tn_text = text, tn_at = t \<rparr>))))"

definition transition_payload :: "transition_norm \<Rightarrow> members" where
  "transition_payload n = [(''idempotency_key'', JStr (tn_key n)), (''order_id'', JStr (tn_order_id n)),
     (''reason'', case tn_reason n of None \<Rightarrow> JNull | Some r \<Rightarrow> JStr r), (''status'', JStr (status_value (tn_status n)))]"

definition transition_body :: "sha256 \<Rightarrow> transition_norm \<Rightarrow> json_text \<Rightarrow> paper_snapshot \<Rightarrow> db \<Rightarrow> (db \<times> bool) res" where
  "transition_body H n payload current d =
     (case event_row_of (status_event_id H (tn_key n)) d of
       Some e \<Rightarrow> if er_event_type e = ''ORDER_STATUS'' \<and> er_occurred_at_utc e = tn_text n \<and> er_payload_json e = payload
         then Inr (d, False) else Inl (IdempotencyConflictError ''idempotency key has different transition payload'')
     | None \<Rightarrow> (case order_row_of (tn_order_id n) d of
         None \<Rightarrow> Inl (ValueError ''unknown order id'')
       | Some r \<Rightarrow>
           ebind (stored_order_status (or_status r)) (\<lambda>status.
           ebind (stored_positive_column (or_requested_quantity r) ''invalid requested quantity in order projection'') (\<lambda>requested.
           ebind (stored_nonnegative_column (or_filled_quantity r) ''invalid filled quantity in order projection'') (\<lambda>filled.
           ebind (validate_order_status_transition status (tn_status n) requested filled False) (\<lambda>_.
           ebind (validate_timestamp_order (tn_at n) d) (\<lambda>_.
           ebind (insert_event (status_event_id H (tn_key n)) ''ORDER_STATUS'' (tn_text n) payload d) (\<lambda>(d1, _).
           let d2 = d1\<lparr>db_orders := map (\<lambda>x. if or_order_id x = tn_order_id n
               then x\<lparr>or_status := status_value (tn_status n), or_updated_at_utc := tn_text n\<rparr> else x) (db_orders d1)\<rparr>
           in ebind (refresh_snapshot H (tn_text n) d2) (\<lambda>d3. Inr (d3, True)))))))))) "

definition prepare_transition :: "transition_args \<Rightarrow> (transition_norm \<times> json_text) res" where
  "prepare_transition a = ebind (normalize_transition a) (\<lambda>n.
     ebind (canonical_payload (JObj (transition_payload n))) (\<lambda>(payload, _). Inr (n, payload)))"

definition transition_order_status :: "sha256 \<Rightarrow> transition_args \<Rightarrow> db \<Rightarrow> (db \<times> bool) res" where
  "transition_order_status H a d = ebind (prepare_transition a) (\<lambda>(n, payload). mutation H (transition_body H n payload) d)"


section \<open>Lease operations\<close>

record lease_args =
  la_owner :: string
  la_token :: string
  la_now :: timestamp
  la_expires :: timestamp

record lease_norm =
  ln_owner :: string
  ln_token :: string
  ln_now :: instant
  ln_expires_text :: string
  ln_expires :: instant

definition normalize_lease :: "lease_args \<Rightarrow> lease_norm res" where
  "normalize_lease a =
     ebind (nonempty_text (la_owner a) ''lease owner must be non-empty'') (\<lambda>owner.
     ebind (nonempty_text (la_token a) ''lease token must be non-empty'') (\<lambda>token.
     ebind (canonical_timestamp (la_now a)) (\<lambda>(_, now).
     ebind (canonical_timestamp (la_expires a)) (\<lambda>(expires_text, expires).
     ebind (ensure (now < expires) (ValueError ''lease expiry must be strictly after now'')) (\<lambda>_.
     Inr \<lparr> ln_owner = owner, ln_token = token, ln_now = now, ln_expires_text = expires_text, ln_expires = expires \<rparr>)))))"

definition lease_value :: "string \<Rightarrow> string \<Rightarrow> string \<Rightarrow> json_text res" where
  "lease_value expires_text owner token = canonical_json_value
     (JObj [(''expires_at_utc'', JStr expires_text), (''owner'', JStr owner), (''token'', JStr token)])"

definition set_lease :: "json_text option \<Rightarrow> db \<Rightarrow> db" where
  "set_lease v d = d\<lparr>db_metadata := (db_metadata d)\<lparr>md_cycle_lease := v\<rparr>\<rparr>"

text \<open>The epoch that an acquisition gets, or nothing when another holder is live.\<close>

definition acquisition_epoch :: "sha256 \<Rightarrow> lease_norm \<Rightarrow> int \<Rightarrow> lease option \<Rightarrow> int option res" where
  "acquisition_epoch H n counter held = (case held of
     None \<Rightarrow> ebind (next_cycle_lease_epoch counter) (\<lambda>e. Inr (Some e))
   | Some l \<Rightarrow>
       (let same_fenced = (case ls_epoch l of None \<Rightarrow> False
              | Some e \<Rightarrow> ls_owner l = ln_owner n \<and> ls_token l = cycle_lease_storage_token H (ln_token n) e);
            same_legacy = (ls_epoch l = None \<and> ls_owner l = ln_owner n \<and> ls_token l = ln_token n)
        in if \<not> same_fenced \<and> \<not> same_legacy \<and> ln_now n < ls_expires l then Inr None
           else (case ls_epoch l of
               Some e \<Rightarrow> if counter \<noteq> e then Inl (corrupt ''paper cycle lease epoch contradicts its counter'')
                 else if same_fenced then Inr (Some e)
                 else ebind (next_cycle_lease_epoch counter) (\<lambda>e1. Inr (Some e1))
             | None \<Rightarrow> ebind (next_cycle_lease_epoch counter) (\<lambda>e1. Inr (Some e1)))))"

definition held_lease :: "db \<Rightarrow> lease option res" where
  "held_lease d = (case md_cycle_lease (db_metadata d) of None \<Rightarrow> Inr None
     | Some v \<Rightarrow> ebind (cycle_lease_metadata v) (\<lambda>l. Inr (Some l)))"

definition acquire_body :: "sha256 \<Rightarrow> lease_norm \<Rightarrow> paper_snapshot \<Rightarrow> db \<Rightarrow> (db \<times> int option) res" where
  "acquire_body H n current d =
     ebind (cycle_lease_epoch d) (\<lambda>counter.
     ebind (held_lease d) (\<lambda>held.
     ebind (acquisition_epoch H n counter held) (\<lambda>r. case r of
       None \<Rightarrow> Inr (d, None)
     | Some epoch \<Rightarrow>
         ebind (lease_value (ln_expires_text n) (ln_owner n) (cycle_lease_storage_token H (ln_token n) epoch)) (\<lambda>v.
         Inr ((set_lease (Some v) d)\<lparr>db_user_version := epoch\<rparr>, Some epoch)))))"

definition acquire_cycle_lease_epoch :: "sha256 \<Rightarrow> lease_args \<Rightarrow> db \<Rightarrow> (db \<times> int option) res" where
  "acquire_cycle_lease_epoch H a d = ebind (normalize_lease a) (\<lambda>n. mutation H (acquire_body H n) d)"

definition acquire_cycle_lease :: "sha256 \<Rightarrow> lease_args \<Rightarrow> db \<Rightarrow> (db \<times> bool) res" where
  "acquire_cycle_lease H a d = ebind (acquire_cycle_lease_epoch H a d) (\<lambda>(d1, e). Inr (d1, e \<noteq> None))"

text \<open>The stored lease is exactly that of an owner, a token and an epoch.\<close>

definition is_holder :: "sha256 \<Rightarrow> string \<Rightarrow> string \<Rightarrow> int \<Rightarrow> lease \<Rightarrow> bool" where
  "is_holder H owner token epoch l \<longleftrightarrow> ls_owner l = owner \<and> ls_epoch l = Some epoch
     \<and> ls_token l = cycle_lease_storage_token H token epoch"

definition renew_body :: "sha256 \<Rightarrow> lease_norm \<Rightarrow> int \<Rightarrow> paper_snapshot \<Rightarrow> db \<Rightarrow> (db \<times> bool) res" where
  "renew_body H n epoch current d =
     ebind (held_lease d) (\<lambda>held. case held of
       None \<Rightarrow> Inr (d, False)
     | Some l \<Rightarrow> if \<not> is_holder H (ln_owner n) (ln_token n) epoch l then Inr (d, False)
         else ebind (lease_value (ln_expires_text n) (ln_owner n) (ls_token l)) (\<lambda>v. Inr (set_lease (Some v) d, True)))"

definition prepare_renewal :: "lease_args \<Rightarrow> pyval \<Rightarrow> (lease_norm \<times> int) res" where
  "prepare_renewal a epoch =
     ebind (nonempty_text (la_owner a) ''lease owner must be non-empty'') (\<lambda>_.
     ebind (nonempty_text (la_token a) ''lease token must be non-empty'') (\<lambda>_.
     ebind (positive_epoch epoch) (\<lambda>e. ebind (normalize_lease a) (\<lambda>n. Inr (n, e)))))"

definition renew_cycle_lease :: "sha256 \<Rightarrow> lease_args \<Rightarrow> pyval \<Rightarrow> db \<Rightarrow> (db \<times> bool) res" where
  "renew_cycle_lease H a epoch d = ebind (prepare_renewal a epoch) (\<lambda>(n, e). mutation H (renew_body H n e) d)"

definition release_body :: "sha256 \<Rightarrow> string \<Rightarrow> string \<Rightarrow> int option \<Rightarrow> paper_snapshot \<Rightarrow> db \<Rightarrow> (db \<times> bool) res" where
  "release_body H owner token epoch current d =
     ebind (held_lease d) (\<lambda>held. case held of
       None \<Rightarrow> Inr (d, False)
     | Some l \<Rightarrow>
         (let expected = (case ls_epoch l of None \<Rightarrow> token | Some e \<Rightarrow> cycle_lease_storage_token H token e)
          in if ls_owner l \<noteq> owner \<or> ls_token l \<noteq> expected \<or> (epoch \<noteq> None \<and> ls_epoch l \<noteq> epoch)
             then Inr (d, False) else Inr (set_lease None d, True)))"

definition prepare_release :: "string \<Rightarrow> string \<Rightarrow> pyval option \<Rightarrow> (string \<times> string \<times> int option) res" where
  "prepare_release owner token epoch =
     ebind (nonempty_text owner ''lease owner must be non-empty'') (\<lambda>o1.
     ebind (nonempty_text token ''lease token must be non-empty'') (\<lambda>t1.
     ebind (case epoch of None \<Rightarrow> Inr None | Some v \<Rightarrow> ebind (positive_epoch v) (\<lambda>e. Inr (Some e))) (\<lambda>e1.
     Inr (o1, t1, e1))))"

definition release_cycle_lease :: "sha256 \<Rightarrow> string \<Rightarrow> string \<Rightarrow> pyval option \<Rightarrow> db \<Rightarrow> (db \<times> bool) res" where
  "release_cycle_lease H owner token epoch d =
     ebind (prepare_release owner token epoch) (\<lambda>(o1, t1, e1). mutation H (release_body H o1 t1 e1) d)"

text \<open>
  \<open>cycle_lease_transaction\<close>: the enclosed work runs only for the exact live holder, inside one
  transaction that is verified again at its end.
\<close>

definition fence :: "sha256 \<Rightarrow> string \<Rightarrow> string \<Rightarrow> int \<Rightarrow> instant \<Rightarrow> db \<Rightarrow> unit res" where
  "fence H owner token epoch now d =
     ebind (held_lease d) (\<lambda>held. case held of
       None \<Rightarrow> Inl (CycleLeaseLostError ''paper cycle lease is no longer held'')
     | Some l \<Rightarrow> ensure (is_holder H owner token epoch l \<and> now < ls_expires l)
         (CycleLeaseLostError ''paper cycle lease ownership or epoch was lost''))"

definition prepare_fence :: "string \<Rightarrow> string \<Rightarrow> pyval \<Rightarrow> timestamp \<Rightarrow> (string \<times> string \<times> int \<times> instant) res" where
  "prepare_fence owner token epoch now =
     ebind (nonempty_text owner ''lease owner must be non-empty'') (\<lambda>o1.
     ebind (nonempty_text token ''lease token must be non-empty'') (\<lambda>t1.
     ebind (positive_epoch epoch) (\<lambda>e.
     ebind (canonical_timestamp now) (\<lambda>(_, t). Inr (o1, t1, e, t)))))"

definition fenced :: "sha256 \<Rightarrow> string \<times> string \<times> int \<times> instant \<Rightarrow> (db \<Rightarrow> (db \<times> 'a) res) \<Rightarrow> db \<Rightarrow> (db \<times> 'a) res" where
  "fenced H key work = (case key of (owner, token, epoch, now) \<Rightarrow>
     mutation H (\<lambda>_ d. ebind (fence H owner token epoch now d) (\<lambda>_. work d)))"

definition cycle_lease_transaction ::
  "sha256 \<Rightarrow> string \<Rightarrow> string \<Rightarrow> pyval \<Rightarrow> timestamp \<Rightarrow> (db \<Rightarrow> (db \<times> 'a) res) \<Rightarrow> db \<Rightarrow> (db \<times> 'a) res" where
  "cycle_lease_transaction H owner token epoch now work d =
     ebind (prepare_fence owner token epoch now) (\<lambda>key. fenced H key work d)"

section \<open>The store object\<close>

record store =
  ss_db :: db
  ss_initialized :: bool
  ss_closed :: bool
  ss_read_only :: bool

definition ensure_not_closed :: "store \<Rightarrow> unit res" where
  "ensure_not_closed s = ensure (\<not> ss_closed s) (RuntimeError ''store is closed'')"

definition ensure_ready :: "store \<Rightarrow> unit res" where
  "ensure_ready s = ebind (ensure_not_closed s) (\<lambda>_. ensure (ss_initialized s) (RuntimeError ''store is not initialized''))"

definition ensure_writable :: "store \<Rightarrow> unit res" where
  "ensure_writable s = ensure (\<not> ss_read_only s) (StoreError ''store is read-only'')"

text \<open>
  One transaction of the store: commit the new database, or roll back to the old one.
  \<open>transact\<close> is the boundary of the mutations, \<open>transact_public\<close> that of the two public
  context managers, which look at readiness first.
\<close>

definition commit :: "(db \<times> 'a) res \<Rightarrow> store \<Rightarrow> store \<times> 'a res" where
  "commit r s = (case r of Inl e \<Rightarrow> (s, Inl e) | Inr (d, x) \<Rightarrow> (s\<lparr>ss_db := d\<rparr>, Inr x))"

definition transact :: "(db \<Rightarrow> (db \<times> 'a) res) \<Rightarrow> store \<Rightarrow> store \<times> 'a res" where
  "transact op s = commit (ebind (ensure_writable s) (\<lambda>_. ebind (ensure_ready s) (\<lambda>_. op (ss_db s)))) s"

definition transact_public :: "(db \<Rightarrow> (db \<times> 'a) res) \<Rightarrow> store \<Rightarrow> store \<times> 'a res" where
  "transact_public op s = commit (ebind (ensure_ready s) (\<lambda>_. ebind (ensure_writable s) (\<lambda>_. op (ss_db s)))) s"

text \<open>The arguments of a call are normalised before its transaction opens.\<close>

definition with_args :: "'n res \<Rightarrow> ('n \<Rightarrow> store \<Rightarrow> store \<times> 'a res) \<Rightarrow> store \<Rightarrow> store \<times> 'a res" where
  "with_args m f s = (case m of Inl e \<Rightarrow> (s, Inl e) | Inr n \<Rightarrow> f n s)"

text \<open>\<open>transaction\<close>: arbitrary public work, verified before the commit.\<close>

definition transaction :: "sha256 \<Rightarrow> (db \<Rightarrow> (db \<times> 'a) res) \<Rightarrow> store \<Rightarrow> store \<times> 'a res" where
  "transaction H work = transact_public (\<lambda>d. ebind (work d) (\<lambda>(d1, x). ebind (replay_and_verify H d1) (\<lambda>_. Inr (d1, x))))"

text \<open>The public methods of the store.\<close>

definition store_append_event :: "sha256 \<Rightarrow> event_args \<Rightarrow> store \<Rightarrow> store \<times> int res" where
  "store_append_event H a = with_args (normalize_event a) (\<lambda>n. transact (mutation H (append_event_body H n)))"

definition store_record_order_once :: "sha256 \<Rightarrow> order_args \<Rightarrow> store \<Rightarrow> store \<times> bool res" where
  "store_record_order_once H a =
     with_args (prepare_order a) (\<lambda>(n, payload). transact (mutation H (record_order_body H n payload)))"

definition store_append_fill :: "sha256 \<Rightarrow> fill_args \<Rightarrow> store \<Rightarrow> store \<times> bool res" where
  "store_append_fill H a =
     with_args (prepare_fill H a) (\<lambda>(n, fill_id, payload). transact (mutation H (append_fill_body H n fill_id payload)))"

definition store_transition_order_status :: "sha256 \<Rightarrow> transition_args \<Rightarrow> store \<Rightarrow> store \<times> bool res" where
  "store_transition_order_status H a =
     with_args (prepare_transition a) (\<lambda>(n, payload). transact (mutation H (transition_body H n payload)))"

definition store_acquire_cycle_lease_epoch :: "sha256 \<Rightarrow> lease_args \<Rightarrow> store \<Rightarrow> store \<times> int option res" where
  "store_acquire_cycle_lease_epoch H a = with_args (normalize_lease a) (\<lambda>n. transact (mutation H (acquire_body H n)))"

definition store_renew_cycle_lease :: "sha256 \<Rightarrow> lease_args \<Rightarrow> pyval \<Rightarrow> store \<Rightarrow> store \<times> bool res" where
  "store_renew_cycle_lease H a epoch =
     with_args (prepare_renewal a epoch) (\<lambda>(n, e). transact (mutation H (renew_body H n e)))"

definition store_release_cycle_lease :: "sha256 \<Rightarrow> string \<Rightarrow> string \<Rightarrow> pyval option \<Rightarrow> store \<Rightarrow> store \<times> bool res" where
  "store_release_cycle_lease H owner token epoch =
     with_args (prepare_release owner token epoch) (\<lambda>(o1, t1, e1). transact (mutation H (release_body H o1 t1 e1)))"

definition store_cycle_lease_transaction ::
  "sha256 \<Rightarrow> string \<Rightarrow> string \<Rightarrow> pyval \<Rightarrow> timestamp \<Rightarrow> (db \<Rightarrow> (db \<times> 'a) res) \<Rightarrow> store \<Rightarrow> store \<times> 'a res" where
  "store_cycle_lease_transaction H owner token epoch now work =
     with_args (prepare_fence owner token epoch now) (\<lambda>key. transact_public (fenced H key work))"

definition load_snapshot :: "sha256 \<Rightarrow> store \<Rightarrow> paper_snapshot res" where
  "load_snapshot H s = ebind (ensure_ready s) (\<lambda>_. replay_and_verify H (ss_db s))"

definition close_store :: "store \<Rightarrow> store" where
  "close_store s = s\<lparr>ss_initialized := False, ss_closed := True\<rparr>"

text \<open>\<open>_create_schema\<close>: the tables with their first rows.\<close>

definition created_db :: "sha256 \<Rightarrow> db res" where
  "created_db H = ebind (snapshot_json (initial_snapshot H)) (\<lambda>text. Inr \<lparr> db_schema = created_schema,
     db_metadata = \<lparr> md_initial_equity = Some ''100.0'', md_market = Some MARKET, md_cycle_lease = None, md_other_keys = [] \<rparr>,
     db_user_version = 0, db_events = [], db_orders = [],
     db_snapshots = [\<lparr> sn_sequence = 0, sn_state_json = text, sn_created_at_utc = EPOCH \<rparr>],
     db_sqlite_sequence = None \<rparr>)"

text \<open>\<open>initialize\<close>: create the schema in an empty file, else validate it; then replay.\<close>

definition initialize :: "sha256 \<Rightarrow> pyval \<Rightarrow> string \<Rightarrow> store \<Rightarrow> store \<times> unit res" where
  "initialize H equity market s =
     (case ebind (ensure_not_closed s) (\<lambda>_.
        ebind (ensure (\<not> ss_read_only s) (StoreError ''read-only store cannot be initialized'')) (\<lambda>_.
        ebind (finite_number (is_bool equity) (py_float equity) ''initial equity must be finite and exactly 100'') (\<lambda>x.
        ebind (ensure (feq x INITIAL_EQUITY) (ValueError ''initial equity must be finite and exactly 100'')) (\<lambda>_.
        ebind (ensure (market = MARKET) (ValueError ''market must be KRW-BTC'')) (\<lambda>_.
        if ss_initialized s then ebind (validate_schema_and_identity (ss_db s)) (\<lambda>_. Inr (ss_db s))
        else ebind (if sc_tables (db_schema (ss_db s)) = [] then created_db H
                    else ebind (validate_schema_and_identity (ss_db s)) (\<lambda>_. Inr (ss_db s))) (\<lambda>d. Inr d)))))) of
       Inl e \<Rightarrow> (s, Inl e)
     | Inr d \<Rightarrow>
         if ss_initialized s then (s, Inr ())
         else (case replay_and_verify H d of
             Inl e \<Rightarrow> (s\<lparr>ss_db := d\<rparr>, Inl e)
           | Inr _ \<Rightarrow> (s\<lparr>ss_db := d, ss_initialized := True\<rparr>, Inr ())))"

end
