(* ===== verification/Ledger_Correct.thy ===== *)
theory Ledger_Correct
  imports StoreOps "HOL-Library.Multiset"
begin

text \<open>
  The replayed ledger is sound: cash, inventory and cost basis are never negative, no order
  is overfilled, orders have distinct identities, an order's fill never shrinks and a terminal
  order stays as it is.
\<close>

section \<open>Values read from the store\<close>

text \<open>The floats of a stored value are machine floats: what parsing a number gives.\<close>

fun wf_json :: "json \<Rightarrow> bool"
and wf_jsons :: "json list \<Rightarrow> bool"
and wf_members :: "members \<Rightarrow> bool" where
  "wf_json (JFloat x) = wf_float x"
| "wf_json (JList vs) = wf_jsons vs"
| "wf_json (JTuple vs) = wf_jsons vs"
| "wf_json (JObj kvs) = wf_members kvs"
| "wf_json JNull = True"
| "wf_json (JBool b) = True"
| "wf_json (JInt n) = True"
| "wf_json (JStr s) = True"
| "wf_json JOther = True"
| "wf_jsons [] = True"
| "wf_jsons (v # vs) = (wf_json v \<and> wf_jsons vs)"
| "wf_members [] = True"
| "wf_members (kv # kvs) = (wf_json (snd kv) \<and> wf_members kvs)"

definition wf_row_json :: "event_row \<Rightarrow> bool" where
  "wf_row_json r = (case json_loads (er_payload_json r) of None \<Rightarrow> True | Some v \<Rightarrow> wf_json v)"

lemma wf_normalize:
  "normalize_json v = Inr w \<Longrightarrow> wf_json v \<Longrightarrow> wf_json w"
  "normalize_list vs = Inr ws \<Longrightarrow> wf_jsons vs \<Longrightarrow> wf_jsons ws"
  "normalize_obj kvs = Inr kws \<Longrightarrow> wf_members kvs \<Longrightarrow> wf_members kws"
  by (induction v and vs and kvs arbitrary: w and ws and kws
      rule: normalize_json_normalize_list_normalize_obj.induct) (auto split: if_splits)

lemma wf_members_map_of: "wf_members p \<Longrightarrow> map_of p k = Some v \<Longrightarrow> wf_json v"
  by (induction p) (auto split: if_splits)

lemma wf_field: "wf_members p \<Longrightarrow> wf_json (field p k)"
  by (auto simp: field_def split: option.splits dest: wf_members_map_of)

lemma wf_scale10 [simp]: "wf_float (scale10 m e)"
  by (simp add: scale10_def)

lemma wf_float_of_text: "float_of_text s = Inr x \<Longrightarrow> wf_float x"
  by (auto simp: float_of_text_def Let_def split: if_splits prod.splits option.splits)

lemma wf_float_of_int: "float_of_int n = Inr x \<Longrightarrow> wf_float x"
  by (auto simp: float_of_int_def Let_def split: if_splits)

lemma wf_json_float: "json_float v = Inr x \<Longrightarrow> wf_json v \<Longrightarrow> wf_float x"
  by (cases v) (auto dest: wf_float_of_text wf_float_of_int split: if_splits)

lemma as_corrupt_Inr [simp]: "as_corrupt m r = Inr x \<longleftrightarrow> r = Inr x"
  by (cases r) (auto simp: as_corrupt_def)

lemma finite_number_Inr: "finite_number b c m = Inr x \<longleftrightarrow> \<not> b \<and> c = Inr x \<and> isfinite x"
  by (auto simp: finite_number_def split: sum.splits if_splits)

lemma positive_number_Inr: "positive_number b c m = Inr x \<longleftrightarrow> \<not> b \<and> c = Inr x \<and> isfinite x \<and> 0 < x"
proof (cases "finite_number b c m")
  case (Inl e)
  then have "\<not> (\<not> b \<and> c = Inr x \<and> isfinite x)"
    using finite_number_Inr by (metis sum.distinct(1))
  then show ?thesis using Inl by (auto simp: positive_number_def)
next
  case (Inr y)
  then have "\<not> b \<and> c = Inr y \<and> isfinite y" by (simp add: finite_number_Inr)
  then show ?thesis using Inr by (auto simp: positive_number_def fl_ord)
qed

lemma nonnegative_number_Inr: "nonnegative_number b c m = Inr x \<longleftrightarrow> \<not> b \<and> c = Inr x \<and> isfinite x \<and> 0 \<le> x"
proof (cases "finite_number b c m")
  case (Inl e)
  then have "\<not> (\<not> b \<and> c = Inr x \<and> isfinite x)"
    using finite_number_Inr by (metis sum.distinct(1))
  then show ?thesis using Inl by (auto simp: nonnegative_number_def)
next
  case (Inr y)
  then have "\<not> b \<and> c = Inr y \<and> isfinite y" by (simp add: finite_number_Inr)
  then show ?thesis using Inr by (auto simp: nonnegative_number_def fl_ord)
qed

lemmas number_Inr = positive_number_Inr nonnegative_number_Inr

lemma stored_number:
  "stored_positive_number v m = Inr x \<Longrightarrow> wf_json v \<Longrightarrow> isfinite x \<and> 0 < x \<and> wf_float x"
  "stored_nonnegative_number v m = Inr x \<Longrightarrow> wf_json v \<Longrightarrow> isfinite x \<and> 0 \<le> x \<and> wf_float x"
  by (auto simp: stored_positive_number_def stored_nonnegative_number_def number_Inr dest: wf_json_float)

section \<open>Orders\<close>

definition order_inv :: "stored_order \<Rightarrow> bool" where
  "order_inv x \<longleftrightarrow> wf_float (so_requested_quantity x) \<and> isfinite (so_requested_quantity x)
     \<and> 0 < so_requested_quantity x
     \<and> wf_float (so_filled_quantity x) \<and> isfinite (so_filled_quantity x) \<and> 0 \<le> so_filled_quantity x
     \<and> so_filled_quantity x \<le> so_requested_quantity x
     \<and> (so_status x \<in> set ORDER_SEED_STATUSES \<longrightarrow> so_filled_quantity x = 0)
     \<and> (so_status x = COMPLETED \<longrightarrow> so_filled_quantity x = so_requested_quantity x)
     \<and> (so_side x = ''BUY'' \<or> so_side x = ''SELL'')"

lemma stored_side_Inr: "stored_side v = Inr s \<Longrightarrow> s = ''BUY'' \<or> s = ''SELL''"
  by (auto simp: stored_side_def valid_side_def split: option.splits if_splits)

lemma created_order_inv:
  assumes "order_from_created_payload p t = Inr x" "wf_members p"
  shows "order_inv x"
proof -
  from assms(1) have h:
    "stored_positive_number (field p ''requested_quantity'') ''invalid ORDER_CREATED requested quantity'' = Inr (so_requested_quantity x)"
    "stored_nonnegative_number (field p ''filled_quantity'') ''invalid ORDER_CREATED filled quantity'' = Inr (so_filled_quantity x)"
    "feq (so_filled_quantity x) 0" "so_status x \<in> set ORDER_SEED_STATUSES" "stored_side (field p ''side'') = Inr (so_side x)"
    by (auto simp: order_from_created_payload_def split: if_splits)
  have r: "isfinite (so_requested_quantity x) \<and> 0 < so_requested_quantity x \<and> wf_float (so_requested_quantity x)"
    using stored_number(1) [OF h(1) wf_field [OF assms(2)]] .
  have f: "isfinite (so_filled_quantity x) \<and> 0 \<le> so_filled_quantity x \<and> wf_float (so_filled_quantity x)"
    using stored_number(2) [OF h(2) wf_field [OF assms(2)]] .
  have z: "so_filled_quantity x = 0"
    using f h(3) by (intro wf_eq) (auto simp: feq_iff_rat)
  have "so_status x \<noteq> COMPLETED" using h(4) by (auto simp: ORDER_SEED_STATUSES_def)
  then show ?thesis using r f z stored_side_Inr [OF h(5)] by (auto simp: order_inv_def less_imp_le_float)
qed

definition fill_inv :: "fill \<Rightarrow> bool" where
  "fill_inv f \<longleftrightarrow> wf_float (fl_fee f) \<and> isfinite (fl_fee f) \<and> 0 \<le> fl_fee f
     \<and> wf_float (fl_price f) \<and> isfinite (fl_price f) \<and> 0 < fl_price f
     \<and> wf_float (fl_quantity f) \<and> isfinite (fl_quantity f) \<and> 0 < fl_quantity f"

lemma fill_from_payload_inv: "fill_from_payload p = Inr f \<Longrightarrow> wf_members p \<Longrightarrow> fill_inv f"
  by (auto simp: fill_from_payload_def fill_inv_def dest: stored_number wf_field split: if_splits)

lemma fill_order_inv:
  assumes "fill_order f t x = Inr y" "order_inv x" "fill_inv f"
  shows "order_inv y" "so_order_id y = so_order_id x" "so_idempotency_key y = so_idempotency_key x"
    "so_status x \<in> set ACTIVE_ORDER_STATUSES"
    "so_side y = so_side x" "so_requested_quantity y = so_requested_quantity x"
proof -
  define total where "total = dec_of_float (so_filled_quantity x) + dec_of_float (fl_quantity f)"
  define req where "req = dec_of_float (so_requested_quantity x)"
  from assms(1) have y: "so_status x \<in> set ACTIVE_ORDER_STATUSES" "dval total \<le> dval req"
    "y = x\<lparr>so_filled_quantity := float_of_dec total,
                    so_status := (if deq total req then COMPLETED else PARTIAL), so_updated_at_utc := t\<rparr>"
    by (auto simp: fill_order_def Let_def total_def req_def split: if_splits)
  note X = assms(2) [unfolded order_inv_def] and F = assms(3) [unfolded fill_inv_def]
  have retn: "float_of_dec req = so_requested_quantity x"
    using X by (simp add: req_def float_of_dec_of_float)
  have le: "float_of_dec total \<le> so_requested_quantity x"
    using float_of_dec_mono [OF y(2)] retn by simp
  have q: "0 < dval (dec_of_float (fl_quantity f))" using F dec_of_float_pos by blast
  have f0: "0 \<le> dval (dec_of_float (so_filled_quantity x))" using X dec_of_float_nonneg by blast
  have ge: "0 \<le> float_of_dec total"
    using q f0 rd_nonneg by (intro float_of_dec_nonneg) (simp add: total_def)
  have fin: "isfinite (float_of_dec total)"
    using ge le X isfinite_le by blast
  have full: "float_of_dec total = so_requested_quantity x" if "deq total req"
  proof -
    have "dval req \<le> dval total" using that by simp
    then have "so_requested_quantity x \<le> float_of_dec total" using float_of_dec_mono retn by metis
    then show ?thesis using le fin X by (intro wf_eq) (auto simp: fl_ord)
  qed
  show "order_inv y"
    using X y(3) ge le fin full by (auto simp: order_inv_def ORDER_SEED_STATUSES_def)
  show "so_order_id y = so_order_id x" "so_idempotency_key y = so_idempotency_key x"
    "so_status x \<in> set ACTIVE_ORDER_STATUSES"
    "so_side y = so_side x" "so_requested_quantity y = so_requested_quantity x"
    using y by simp_all
qed

lemma status_order_inv:
  assumes "validate_order_status_transition (so_status x) t (so_requested_quantity x) (so_filled_quantity x) c = Inr ()"
    and "order_inv x"
  shows "order_inv (x\<lparr>so_status := t, so_updated_at_utc := ts\<rparr>)" "so_status x \<in> set ACTIVE_ORDER_STATUSES \<or> t = so_status x"
proof -
  note X = assms(2) [unfolded order_inv_def]
  have "t = COMPLETED \<longrightarrow> so_status x = COMPLETED" "t = PARTIAL \<longrightarrow> so_status x = PARTIAL" "t \<noteq> CREATED"
    using assms(1) by (auto simp: validate_order_status_transition_def Let_def split: if_splits)
  moreover have "t \<noteq> COMPLETED \<Longrightarrow> t \<noteq> PARTIAL \<Longrightarrow> t \<in> set (legal_targets (so_status x))"
    using assms(1) by (auto simp: validate_order_status_transition_def Let_def split: if_splits)
  ultimately have t: "so_status x = t \<or> t \<in> set (legal_targets (so_status x))" by auto
  show "order_inv (x\<lparr>so_status := t, so_updated_at_utc := ts\<rparr>)"
    using X t by (cases "so_status x")
      (auto simp: order_inv_def legal_targets_def LEGAL_ORDER_TRANSITIONS_def ORDER_SEED_STATUSES_def)
  show "so_status x \<in> set ACTIVE_ORDER_STATUSES \<or> t = so_status x"
    using t by (cases "so_status x") (auto simp: legal_targets_def LEGAL_ORDER_TRANSITIONS_def ACTIVE_ORDER_STATUSES_def)
qed

section \<open>The ledger\<close>

definition ledger_inv :: "ledger \<Rightarrow> bool" where
  "ledger_inv l \<longleftrightarrow> 0 \<le> dval (lg_cash l) \<and> rd (dval (lg_cash l)) = dval (lg_cash l) \<and> 0 \<le> dval (lg_btc_quantity l)
     \<and> 0 \<le> dval (lg_btc_cost_basis l) \<and> rd (dval (lg_btc_cost_basis l)) = dval (lg_btc_cost_basis l)
     \<and> (\<forall>p. lg_last_price l = Some p \<longrightarrow> 0 < dval p)
     \<and> (\<forall>x \<in> set (lg_orders l). order_inv x)
     \<and> distinct (map so_order_id (lg_orders l)) \<and> distinct (map so_idempotency_key (lg_orders l))"

lemma find_order_Some: "find_order i os = Some x \<Longrightarrow> x \<in> set os \<and> so_order_id x = i"
  by (auto simp: find_order_def find_Some_iff)

lemma find_order_None: "find_order i os = None \<longleftrightarrow> i \<notin> set (map so_order_id os)"
  by (auto simp: find_order_def find_None_iff)

lemma replace_order_map:
  assumes "\<And>y. y \<in> set os \<Longrightarrow> so_order_id y = so_order_id x \<Longrightarrow> f y = f x"
  shows "map f (replace_order x os) = map f os"
  using assms by (auto simp: replace_order_def)

lemma replace_order_set: "z \<in> set (replace_order x os) \<Longrightarrow> z = x \<or> z \<in> set os"
  by (auto simp: replace_order_def split: if_splits)

lemma replace_order_inv:
  assumes "ledger_inv l" "find_order i (lg_orders l) = Some x" "order_inv y"
    "so_order_id y = so_order_id x" "so_idempotency_key y = so_idempotency_key x"
  shows "ledger_inv (l\<lparr>lg_orders := replace_order y (lg_orders l)\<rparr>)"
proof -
  note L = assms(1) [unfolded ledger_inv_def]
  have x: "x \<in> set (lg_orders l)" using find_order_Some [OF assms(2)] by simp
  have uniq: "z = x" if "z \<in> set (lg_orders l)" "so_order_id z = so_order_id y" for z
    using L that x assms(4) by (metis distinct_map inj_on_contraD)
  have "map so_order_id (replace_order y (lg_orders l)) = map so_order_id (lg_orders l)"
    by (rule replace_order_map) simp
  moreover have "map so_idempotency_key (replace_order y (lg_orders l)) = map so_idempotency_key (lg_orders l)"
    using uniq assms(5) by (intro replace_order_map) metis
  ultimately show ?thesis
    using L assms(3) by (auto simp: ledger_inv_def dest: replace_order_set)
qed

lemma order_keys_iff: "so_idempotency_key ` set xs = set (map so_idempotency_key xs)"
  by simp

lemma replay_created_inv:
  assumes "replay_created H i p t l = Inr l'" "ledger_inv l" "wf_members p"
  shows "ledger_inv l'"
proof -
  from assms(1) obtain x where x: "order_from_created_payload p t = Inr x"
    "find_order (so_order_id x) (lg_orders l) = None"
    "so_idempotency_key x \<notin> set (map so_idempotency_key (lg_orders l))"
    "l' = l\<lparr>lg_orders := lg_orders l @ [x]\<rparr>"
    by (auto simp: replay_created_def)
  have "order_inv x" by (rule created_order_inv [OF x(1) assms(3)])
  then show ?thesis using assms(2) x(2-4) by (auto simp: ledger_inv_def find_order_None)
qed

text \<open>A sale removes at most the whole cost basis: the rounded share is at most one.\<close>

lemma rd_idem [simp]: "rd (rd q) = rd q"
  by (rule round_prec_id) (auto intro: on_grid_round_prec)

lemma rd_1 [simp]: "rd 1 = 1"
  by (rule round_prec_id) (auto intro: on_gridI [of _ 1 _ 0])

lemma rd_100 [simp]: "rd 100 = 100"
  by (rule round_prec_id) (auto intro: on_gridI [of _ 1 _ 2])

lemma basis_share:
  assumes "0 \<le> dval q" "dval q \<le> dval prior" "0 < dval prior" "0 \<le> dval b" "rd (dval b) = dval b"
  shows "dval (b * ddiv q prior) \<le> dval b"
proof -
  have "rd (dval q / dval prior) \<le> rd 1" by (rule rd_mono) (use assms in simp)
  then have "dval b * rd (dval q / dval prior) \<le> dval b" using assms(4) by (simp add: mult_left_le)
  then have "rd (dval b * rd (dval q / dval prior)) \<le> rd (dval b)" by (rule rd_mono)
  then show ?thesis using assms(3,5) by simp
qed

lemma fill_buy_inv:
  assumes "fill_buy f l = Inr l'" "ledger_inv l" "fill_inv f"
  shows "ledger_inv l'"
proof -
  have q: "0 < dval (dec_of_float (fl_quantity f))" "0 < dval (dec_of_float (fl_price f))" "0 \<le> dval (dec_of_float (fl_fee f))"
    using assms(3) by (auto simp: fill_inv_def intro: dec_of_float_pos dec_of_float_nonneg)
  have n: "0 \<le> dval (dec_of_float (fl_quantity f)) * dval (dec_of_float (fl_price f))" using q by simp
  show ?thesis
    using assms(1) assms(2) q rd_nonneg [OF n]
    by (auto simp: fill_buy_def Let_def ledger_inv_def split: if_splits intro!: rd_nonneg add_nonneg_nonneg)
qed

lemma fill_sell_inv:
  assumes "fill_sell f l = Inr l'" "ledger_inv l" "fill_inv f"
  shows "ledger_inv l'"
proof -
  define q where "q = dec_of_float (fl_quantity f)"
  define b where "b = (if deq (lg_btc_quantity l - q) 0 then 0 else
    if 0 < lg_btc_quantity l then lg_btc_cost_basis l - lg_btc_cost_basis l * ddiv q (lg_btc_quantity l) else lg_btc_cost_basis l)"
  have q: "0 < dval q" unfolding q_def using assms(3) by (auto simp: fill_inv_def intro: dec_of_float_pos)
  note L = assms(2) [unfolded ledger_inv_def]
  define cash where "cash = lg_cash l + (q * dec_of_float (fl_price f) - dec_of_float (fl_fee f))"
  have e: "fill_sell f l = (if lg_btc_quantity l < q then Inl (corrupt ''fill replay oversells BTC'')
      else if cash < 0 then Inl (corrupt ''fill replay makes cash negative'')
      else Inr (l\<lparr>lg_cash := cash, lg_btc_quantity := lg_btc_quantity l - q, lg_btc_cost_basis := b\<rparr>))"
    by (simp only: fill_sell_def Let_def q_def b_def cash_def)
  have l': "dval q \<le> dval (lg_btc_quantity l)" "0 \<le> dval cash"
    "l' = l\<lparr>lg_cash := cash, lg_btc_quantity := lg_btc_quantity l - q, lg_btc_cost_basis := b\<rparr>"
    using assms(1) unfolding e by (auto split: if_splits)
  have "dval (lg_btc_cost_basis l * ddiv q (lg_btc_quantity l)) \<le> dval (lg_btc_cost_basis l)"
    using L q l'(1) by (intro basis_share) auto
  then have "0 \<le> dval b \<and> rd (dval b) = dval b" using L by (auto simp: b_def intro: rd_nonneg simp del: dval_mul)
  moreover have "rd (dval cash) = dval cash" by (simp add: cash_def)
  ultimately show ?thesis using L l' by (auto simp: ledger_inv_def intro: rd_nonneg)
qed

lemma fill_orders: "fill_buy f l = Inr l' \<Longrightarrow> lg_orders l' = lg_orders l" "fill_sell f l = Inr l' \<Longrightarrow> lg_orders l' = lg_orders l"
  by (auto simp: fill_buy_def fill_sell_def Let_def split: if_splits)

lemma replay_fill_inv:
  assumes "replay_fill p t l = Inr l'" "ledger_inv l" "wf_members p"
  shows "ledger_inv l'"
proof -
  from assms(1) obtain f l1 where f: "fill_from_payload p = Inr f"
    and l1: "(if fl_side f = ''BUY'' then fill_buy f l else fill_sell f l) = Inr l1"
    and r: "(let l2 = l1\<lparr>lg_last_price := Some (dec_of_float (fl_price f))\<rparr> in
       case find_order (fl_order_id f) (lg_orders l2) of
       None \<Rightarrow> Inr l2
     | Some x \<Rightarrow> ebind (fill_order f t x) (\<lambda>y. Inr (l2\<lparr>lg_orders := replace_order y (lg_orders l2)\<rparr>))) = Inr l'"
    by (auto simp: replay_fill_def)
  define l2 where "l2 = l1\<lparr>lg_last_price := Some (dec_of_float (fl_price f))\<rparr>"
  have F: "fill_inv f" by (rule fill_from_payload_inv [OF f assms(3)])
  have "ledger_inv l1" using l1 assms(2) F fill_buy_inv fill_sell_inv by (metis (full_types))
  moreover have "0 < dval (dec_of_float (fl_price f))" using F by (auto simp: fill_inv_def intro: dec_of_float_pos)
  ultimately have L2: "ledger_inv l2" by (simp add: l2_def ledger_inv_def)
  show ?thesis
  proof (cases "find_order (fl_order_id f) (lg_orders l2)")
    case None
    then show ?thesis using r L2 by (simp add: l2_def [symmetric])
  next
    case (Some x)
    then obtain y where y: "fill_order f t x = Inr y" "l' = l2\<lparr>lg_orders := replace_order y (lg_orders l2)\<rparr>"
      using r by (auto simp: l2_def [symmetric])
    have "order_inv x" using L2 find_order_Some [OF Some] by (auto simp: ledger_inv_def)
    note fo = fill_order_inv [OF y(1) this F]
    show ?thesis unfolding y(2) by (rule replace_order_inv [OF L2 Some fo(1,2,3)])
  qed
qed

lemma replay_status_Inr:
  assumes "replay_status H i p t l = Inr l'"
  shows "\<exists>s x. order_status_from_payload p = Inr s \<and> find_order (sg_order_id s) (lg_orders l) = Some x
    \<and> validate_order_status_transition (so_status x) (sg_status s) (so_requested_quantity x) (so_filled_quantity x) True = Inr ()
    \<and> l' = l\<lparr>lg_orders := replace_order (x\<lparr>so_status := sg_status s, so_updated_at_utc := t\<rparr>) (lg_orders l)\<rparr>"
  using assms by (force simp: replay_status_def split: option.splits)

lemma replay_status_inv:
  assumes "replay_status H i p t l = Inr l'" "ledger_inv l"
  shows "ledger_inv l'"
proof -
  from replay_status_Inr [OF assms(1)] obtain s :: status_change and x where x: "find_order (sg_order_id s) (lg_orders l) = Some x"
    "validate_order_status_transition (so_status x) (sg_status s) (so_requested_quantity x) (so_filled_quantity x) True = Inr ()"
    "l' = l\<lparr>lg_orders := replace_order (x\<lparr>so_status := sg_status s, so_updated_at_utc := t\<rparr>) (lg_orders l)\<rparr>"
    by blast
  have "order_inv x" using assms(2) find_order_Some [OF x(1)] by (auto simp: ledger_inv_def)
  note si = status_order_inv(1) [OF x(2) this]
  show ?thesis unfolding x(3) by (rule replace_order_inv [OF assms(2) x(1) si]) simp_all
qed

lemma ledger_inv_states [simp]:
  "ledger_inv (l\<lparr>lg_breaker_state := p\<rparr>) = ledger_inv l" "ledger_inv (l\<lparr>lg_health_state := p\<rparr>) = ledger_inv l"
  by (simp_all add: ledger_inv_def)

lemma apply_event_inv:
  assumes "apply_event H i ty p t l = Inr l'" "ledger_inv l" "wf_members p"
  shows "ledger_inv l'"
  using assms(1) assms(2,3) replay_created_inv [OF _ assms(2,3)] replay_fill_inv [OF _ assms(2,3)]
    replay_status_inv [OF _ assms(2)]
  unfolding apply_event_def by (simp split: if_splits) (metis ledger_inv_states)+

section \<open>The replay\<close>

lemma wf_row_payload:
  assumes "row_payload t = Inr p" "case json_loads t of None \<Rightarrow> True | Some v \<Rightarrow> wf_json v"
  shows "wf_members p"
  using assms by (auto simp: row_payload_def canonical_payload_def split: option.splits json.splits if_splits
      dest!: wf_normalize)

lemma wf_initial_ledger [simp]: "ledger_inv initial_ledger"
  by (simp add: ledger_inv_def initial_ledger_def bval_def)

lemma parsed_text: "parse_stored_timestamp v = Inr (w, t) \<Longrightarrow> w = v"
  by (auto simp: parse_stored_timestamp_def split: option.splits if_splits)

lemma stored_text_Inr: "stored_text v m = Inr w \<longleftrightarrow> stripped v \<and> w = v"
  by (auto simp: stored_text_def nonempty_text_def)

text \<open>What one row of the replay does.\<close>

definition row_step :: "sha256 \<Rightarrow> event_row \<Rightarrow> members \<Rightarrow> instant \<Rightarrow> string \<Rightarrow> replay \<Rightarrow> ledger \<Rightarrow> replay" where
  "row_step H r p t digest st l = \<lparr> rp_ledger = l,
           rp_evidence = rp_evidence st @ [\<lparr> sv_sequence = er_sequence r, sv_event_id = er_event_id r,
              sv_event_type = er_event_type r, sv_occurred_at_utc = t, sv_payload = p \<rparr>],
           rp_previous = Some t, rp_expected = rp_expected st + 1, rp_digest = digest,
           rp_mappings = rp_mappings st @ [snapshot_mapping (snapshot_from_components l (er_sequence r) [] digest)],
           rp_timestamps = rp_timestamps st @ [er_occurred_at_utc r] \<rparr>"

lemma replay_row_Inr:
  assumes "replay_row H r st = Inr st'"
  shows "\<exists>p t digest l. st' = row_step H r p t digest st l
    \<and> row_payload (er_payload_json r) = Inr p
    \<and> apply_event H (er_event_id r) (er_event_type r) p t (rp_ledger st) = Inr l
    \<and> parse_stored_timestamp (er_occurred_at_utc r) = Inr (er_occurred_at_utc r, t)
    \<and> stripped (er_event_id r) \<and> er_sequence r = rp_expected st
    \<and> (case rp_previous st of None \<Rightarrow> True | Some q \<Rightarrow> q \<le> t)"
proof -
  from assms obtain w t p digest l where h: "er_sequence r = rp_expected st" "stripped (er_event_id r)"
    "parse_stored_timestamp (er_occurred_at_utc r) = Inr (w, t)"
    "case rp_previous st of None \<Rightarrow> True | Some q \<Rightarrow> q \<le> t" "row_payload (er_payload_json r) = Inr p"
    "apply_event H (er_event_id r) (er_event_type r) p t (rp_ledger st) = Inr l"
    "st' = \<lparr> rp_ledger = l,
           rp_evidence = rp_evidence st @ [\<lparr> sv_sequence = er_sequence r, sv_event_id = er_event_id r,
              sv_event_type = er_event_type r, sv_occurred_at_utc = t, sv_payload = p \<rparr>],
           rp_previous = Some t, rp_expected = rp_expected st + 1, rp_digest = digest,
           rp_mappings = rp_mappings st @ [snapshot_mapping (snapshot_from_components l (er_sequence r) [] digest)],
           rp_timestamps = rp_timestamps st @ [w] \<rparr>"
    unfolding replay_row_def stored_text_Inr ebind_eq_Inr ensure_eq_Inr by (fastforce simp only: prod.case ebind_eq_Inr ensure_eq_Inr stored_text_Inr sum.inject)
  show ?thesis using h parsed_text [OF h(3)] unfolding row_step_def by blast
qed

definition replay_inv :: "replay \<Rightarrow> bool" where
  "replay_inv st \<longleftrightarrow> ledger_inv (rp_ledger st)
     \<and> rp_expected st = int (length (rp_evidence st)) + 1
     \<and> map sv_sequence (rp_evidence st) = map (\<lambda>k. int k + 1) [0..<length (rp_evidence st)]
     \<and> sorted (map sv_occurred_at_utc (rp_evidence st))
     \<and> rp_previous st = (if rp_evidence st = [] then None else Some (sv_occurred_at_utc (last (rp_evidence st))))
     \<and> length (rp_mappings st) = length (rp_evidence st) + 1
     \<and> length (rp_timestamps st) = length (rp_evidence st) + 1"

lemma initial_replay_inv [simp]: "replay_inv (initial_replay H)"
  by (simp add: replay_inv_def initial_replay_def)

lemma sorted_snoc_last:
  fixes x :: "'a :: linorder"
  assumes "sorted (map f es)" "es \<noteq> [] \<Longrightarrow> f (last es) \<le> x"
  shows "sorted (map f es @ [x])"
proof (cases "es = []")
  case False
  have "\<forall>y \<in> set es. f y \<le> f (last es)"
    using assms(1) False by (induction es) auto
  then show ?thesis using assms False by (auto simp: sorted_append)
qed simp

lemma row_step_inv:
  assumes "replay_inv st" "ledger_inv l" "er_sequence r = rp_expected st"
    "case rp_previous st of None \<Rightarrow> True | Some q \<Rightarrow> q \<le> t"
  shows "replay_inv (row_step H r p t digest st l)"
proof -
  note I = assms(1) [unfolded replay_inv_def]
  have "rp_evidence st \<noteq> [] \<Longrightarrow> sv_occurred_at_utc (last (rp_evidence st)) \<le> t"
    using I assms(4) by auto
  then have "sorted (map sv_occurred_at_utc (rp_evidence st) @ [t])"
    using I by (intro sorted_snoc_last) auto
  then show ?thesis using I assms(2,3) by (simp add: replay_inv_def row_step_def)
qed

lemma replay_rows_inv:
  assumes "replay_rows H rs = Inr st" "\<And>r. r \<in> set rs \<Longrightarrow> wf_row_json r"
  shows "replay_inv st"
proof (rule efold_invariant [where P = replay_inv, OF assms(1) [unfolded replay_rows_def] initial_replay_inv])
  fix r s t
  assume r: "r \<in> set rs" and I: "replay_inv s" and step: "replay_row H r s = Inr t"
  from replay_row_Inr [OF step] obtain p u g l where h: "t = row_step H r p u g s l"
    "row_payload (er_payload_json r) = Inr p"
    "apply_event H (er_event_id r) (er_event_type r) p u (rp_ledger s) = Inr l"
    "er_sequence r = rp_expected s" "case rp_previous s of None \<Rightarrow> True | Some q \<Rightarrow> q \<le> u" by blast
  have "wf_members p" using h(2) assms(2) [OF r] by (intro wf_row_payload) (auto simp: wf_row_json_def)
  then have "ledger_inv l" using I by (intro apply_event_inv [OF h(3)]) (auto simp: replay_inv_def)
  then show "replay_inv t" unfolding h(1) by (rule row_step_inv [OF I _ h(4,5)])
qed

lemma replay_rows_evidence:
  assumes "replay_rows H rs = Inr st"
  shows "map sv_event_id (rp_evidence st) = map er_event_id rs \<and> map sv_sequence (rp_evidence st) = map er_sequence rs"
proof -
  have "efold (replay_row H) rs s = Inr st \<Longrightarrow>
      map sv_event_id (rp_evidence st) = map sv_event_id (rp_evidence s) @ map er_event_id rs
      \<and> map sv_sequence (rp_evidence st) = map sv_sequence (rp_evidence s) @ map er_sequence rs" for s
  proof (induction rs arbitrary: s)
    case (Cons r rs)
    then obtain u where u: "replay_row H r s = Inr u" "efold (replay_row H) rs u = Inr st" by auto
    from replay_row_Inr [OF u(1)] obtain p t g l where "u = row_step H r p t g s l" by blast
    then show ?case using Cons.IH [OF u(2)] by (simp add: row_step_def)
  qed simp
  then show ?thesis using assms by (auto simp: replay_rows_def initial_replay_def)
qed

section \<open>A verified store\<close>

definition snapshot_sound :: "paper_snapshot \<Rightarrow> bool" where
  "snapshot_sound s \<longleftrightarrow> 0 \<le> pn_cash s \<and> 0 \<le> pn_btc_quantity s \<and> 0 \<le> pn_btc_cost_basis s \<and> pn_cash s \<le> pn_equity s
     \<and> (\<forall>x \<in> set (pn_pending_orders s). order_inv x \<and> so_status x \<in> set ACTIVE_ORDER_STATUSES)
     \<and> distinct (map so_order_id (pn_pending_orders s))
     \<and> distinct (map so_idempotency_key (pn_pending_orders s))
     \<and> map sv_sequence (pn_event_evidence s) = map (\<lambda>k. int k + 1) [0..<length (pn_event_evidence s)]
     \<and> pn_last_sequence s = int (length (pn_event_evidence s))
     \<and> sorted (map sv_occurred_at_utc (pn_event_evidence s))"

lemma insert_order_mset: "mset (insert_order x xs) = add_mset x (mset xs)"
  by (induction xs) auto

lemma pending_orders_mset: "mset (pending_orders_of os) = mset (filter (\<lambda>x. so_status x \<in> set ACTIVE_ORDER_STATUSES) os)"
proof -
  have "mset (foldr insert_order xs []) = mset xs" for xs
    by (induction xs) (auto simp: insert_order_mset)
  then show ?thesis by (simp add: pending_orders_of_def)
qed

lemma pending_orders_set: "set (pending_orders_of os) = {x \<in> set os. so_status x \<in> set ACTIVE_ORDER_STATUSES}"
  using arg_cong [OF pending_orders_mset [of os], of set_mset] by auto

lemma pending_orders_distinct:
  assumes "distinct (map f os)" shows "distinct (map f (pending_orders_of os))"
proof -
  have "mset (map f (pending_orders_of os)) = mset (map f (filter (\<lambda>x. so_status x \<in> set ACTIVE_ORDER_STATUSES) os))"
    by (simp add: pending_orders_mset)
  moreover have "distinct (map f (filter (\<lambda>x. so_status x \<in> set ACTIVE_ORDER_STATUSES) os))"
    using assms by (rule distinct_map_filter)
  ultimately show ?thesis by (metis mset_eq_imp_distinct_iff)
qed

lemma equity_ge_cash:
  assumes "ledger_inv l" "rd (dval (lg_cash l)) = dval (lg_cash l)"
  shows "float_of_dec (lg_cash l)
     \<le> float_of_dec (lg_cash l + (case lg_last_price l of None \<Rightarrow> 0 | Some p \<Rightarrow> lg_btc_quantity l * p))"
proof (rule float_of_dec_mono)
  let ?v = "case lg_last_price l of None \<Rightarrow> 0 | Some p \<Rightarrow> lg_btc_quantity l * p"
  have "0 \<le> dval ?v"
    using assms(1) by (auto simp: ledger_inv_def intro!: rd_nonneg split: option.splits)
  then have "rd (dval (lg_cash l)) \<le> rd (dval (lg_cash l) + dval ?v)" by (intro rd_mono) simp
  then show "dval (lg_cash l) \<le> dval (lg_cash l + ?v)" using assms(2) by simp
qed

lemma replay_and_verify_Inr:
  assumes "replay_and_verify H d = Inr s"
  shows "\<exists>r. validate_schema_and_identity d = Inr () \<and> replay_rows H (sort_key er_sequence (db_events d)) = Inr r
    \<and> s = snapshot_from_components (rp_ledger r) (if rp_evidence r = [] then 0 else sv_sequence (last (rp_evidence r)))
          (rp_evidence r) (rp_digest r)
    \<and> (case db_sqlite_sequence d of None \<Rightarrow> 0 | Some n \<Rightarrow> n) = pn_last_sequence s
    \<and> verify_order_projection (db_orders d) (lg_orders (rp_ledger r)) = Inr ()
    \<and> map sn_sequence (sort_key sn_sequence (db_snapshots d)) = map int [0..<length (rp_mappings r)]
    \<and> verify_snapshots (sort_key sn_sequence (db_snapshots d)) (rp_mappings r) (rp_timestamps r) = Inr ()"
  using assms
  by (fastforce simp: replay_and_verify_def rebuild_from_events_def Let_def snapshot_from_components_def)

lemma snapshot_sound_of_replay:
  assumes "replay_inv r"
  shows "snapshot_sound (snapshot_from_components (rp_ledger r)
     (if rp_evidence r = [] then 0 else sv_sequence (last (rp_evidence r))) (rp_evidence r) (rp_digest r))"
proof -
  note R = assms [unfolded replay_inv_def]
  have L: "ledger_inv (rp_ledger r)" using R by blast
  note LI = L [unfolded ledger_inv_def]
  have tail: "rp_evidence r \<noteq> [] \<Longrightarrow> sv_sequence (last (rp_evidence r)) = int (length (rp_evidence r))"
  proof -
    assume ne: "rp_evidence r \<noteq> []"
    have "sv_sequence (last (rp_evidence r)) = last (map sv_sequence (rp_evidence r))" using ne by (simp add: last_map)
    also have "map sv_sequence (rp_evidence r) = map (\<lambda>k. int k + 1) [0..<length (rp_evidence r)]" using R by blast
    also have "last \<dots> = int (length (rp_evidence r))" using ne by (cases "rp_evidence r") simp_all
    finally show ?thesis .
  qed
  show ?thesis
    using LI R tail equity_ge_cash [OF L] pending_orders_distinct [of so_order_id "lg_orders (rp_ledger r)"]
      pending_orders_distinct [of so_idempotency_key "lg_orders (rp_ledger r)"]
    by (auto simp: snapshot_sound_def snapshot_from_components_def Let_def pending_orders_set float_of_dec_nonneg)
qed

lemma verified_sound:
  assumes "replay_and_verify H d = Inr s" "\<forall>r \<in> set (db_events d). wf_row_json r"
  shows "snapshot_sound s" "length (db_snapshots d) = length (db_events d) + 1"
    "pn_last_sequence s = int (length (db_events d))"
    "map sv_event_id (pn_event_evidence s) = map er_event_id (sort_key er_sequence (db_events d))"
proof -
  from replay_and_verify_Inr [OF assms(1)] obtain r where r:
    "replay_rows H (sort_key er_sequence (db_events d)) = Inr r"
    "s = snapshot_from_components (rp_ledger r) (if rp_evidence r = [] then 0 else sv_sequence (last (rp_evidence r)))
          (rp_evidence r) (rp_digest r)"
    "map sn_sequence (sort_key sn_sequence (db_snapshots d)) = map int [0..<length (rp_mappings r)]" by blast
  have R: "replay_inv r" by (rule replay_rows_inv [OF r(1)]) (use assms(2) in simp)
  have ev: "map sv_event_id (rp_evidence r) = map er_event_id (sort_key er_sequence (db_events d))"
    using replay_rows_evidence [OF r(1)] by blast
  then have n: "length (rp_evidence r) = length (db_events d)" using map_eq_imp_length_eq by fastforce
  have "length (db_snapshots d) = length (rp_mappings r)"
    using arg_cong [OF r(3), of length] by simp
  then show "length (db_snapshots d) = length (db_events d) + 1" using R n by (simp add: replay_inv_def)
  show "snapshot_sound s" unfolding r(2) by (rule snapshot_sound_of_replay [OF R])
  then show "pn_last_sequence s = int (length (db_events d))"
    using n by (simp add: snapshot_sound_def r(2) snapshot_from_components_def Let_def)
  show "map sv_event_id (pn_event_evidence s) = map er_event_id (sort_key er_sequence (db_events d))"
    using ev by (simp add: r(2) snapshot_from_components_def Let_def)
qed

end
