(* ===== verification/Store_Samples.thy ===== *)
theory Store_Samples
  imports Ledger_Correct
begin

text \<open>
  A concrete store for the witnesses: a digest, one order with one fill, and the proof by
  evaluation that the store verifies.
\<close>

definition sample_sha :: sha256 where
  "sample_sha = \<lparr> sha_text = (\<lambda>s. if s = ''token'' then replicate 64 (CHR ''0'') else ''0''), sha_json = (\<lambda>j. ''1''), sha_fill = (\<lambda>s j. ''2'') \<rparr>"

definition sample_events :: "event_row list" where
  "sample_events = [
   \<lparr> er_sequence = 1, er_event_id = ''order-created:0'', er_event_type = ''ORDER_CREATED'',
     er_occurred_at_utc = ''2024-01-01T00:00:00Z'', er_payload_json = Compact (JObj
       [(''filled_quantity'', JFloat 0), (''idempotency_key'', JStr ''k''), (''order_id'', JStr ''k''),
        (''requested_quantity'', JFloat 1), (''side'', JStr ''BUY''), (''status'', JStr ''CREATED'')]) \<rparr>,
   \<lparr> er_sequence = 2, er_event_id = ''f1'', er_event_type = ''FILL'', er_occurred_at_utc = ''2024-01-01T01:00:00Z'',
     er_payload_json = Compact (JObj [(''fee'', JFloat (flit 1 2)), (''order_id'', JStr ''k''),
        (''price'', JFloat (flit 10 1)), (''quantity'', JFloat (flit 1 2)), (''side'', JStr ''BUY'')]) \<rparr>]"

definition sample_orders :: "order_row list" where
  "sample_orders = [\<lparr> or_order_id = ''k'', or_idempotency_key = ''k'', or_side = ''BUY'',
     or_requested_quantity = VFloat 1, or_filled_quantity = VFloat (flit 1 2), or_status = ''PARTIAL'',
     or_updated_at_utc = ''2024-01-01T01:00:00Z'' \<rparr>]"

definition sample_snapshot_values :: "json list" where
  "sample_snapshot_values = [
      JObj
        [(''average_entry_price'', JNull), (''breaker_state'', JObj []),
         (''btc_cost_basis'', JFloat (Fin (0, 0))),
         (''btc_quantity'', JFloat (Fin (0, 0))),
         (''cash'', JFloat (Fin (25, 2))),
         (''equity'', JFloat (Fin (25, 2))), (''event_digest'', JStr ''0''),
         (''health_state'', JObj []),
         (''initial_equity'', JFloat (Fin (25, 2))),
         (''last_price'', JNull), (''last_sequence'', JInt 0),
         (''market'', JStr ''KRW-BTC''), (''pending_orders'', JList []),
         (''position_state'', JStr ''FLAT'')],
      JObj
        [(''average_entry_price'', JNull), (''breaker_state'', JObj []),
         (''btc_cost_basis'', JFloat (Fin (0, 0))),
         (''btc_quantity'', JFloat (Fin (0, 0))),
         (''cash'', JFloat (Fin (25, 2))),
         (''equity'', JFloat (Fin (25, 2))), (''event_digest'', JStr ''1''),
         (''health_state'', JObj []),
         (''initial_equity'', JFloat (Fin (25, 2))),
         (''last_price'', JNull), (''last_sequence'', JInt 1),
         (''market'', JStr ''KRW-BTC''),
         (''pending_orders'',
          JList
           [JObj
             [(''filled_quantity'', JFloat (Fin (0, 0))),
              (''idempotency_key'', JStr ''k''), (''order_id'', JStr ''k''),
              (''requested_quantity'', JFloat (Fin (1, 0))),
              (''side'', JStr ''BUY''), (''status'', JStr ''CREATED''),
              (''updated_at_utc'', JStr ''2024-01-01T00:00:00Z'')]]),
         (''position_state'', JStr ''ENTRY_PENDING'')],
      JObj
        [(''average_entry_price'', JFloat (Fin (11, 0))),
         (''breaker_state'', JObj []),
         (''btc_cost_basis'', JFloat (Fin (11, - 1))),
         (''btc_quantity'', JFloat (Fin (1, - 1))),
         (''cash'', JFloat (Fin (189, - 1))),
         (''equity'', JFloat (Fin (199, - 1))),
         (''event_digest'', JStr ''1''), (''health_state'', JObj []),
         (''initial_equity'', JFloat (Fin (25, 2))),
         (''last_price'', JFloat (Fin (5, 1))), (''last_sequence'', JInt 2),
         (''market'', JStr ''KRW-BTC''),
         (''pending_orders'',
          JList
           [JObj
             [(''filled_quantity'', JFloat (Fin (1, - 1))),
              (''idempotency_key'', JStr ''k''), (''order_id'', JStr ''k''),
              (''requested_quantity'', JFloat (Fin (1, 0))),
              (''side'', JStr ''BUY''), (''status'', JStr ''PARTIAL''),
              (''updated_at_utc'', JStr ''2024-01-01T01:00:00Z'')]]),
         (''position_state'', JStr ''LONG'')]]"

definition sample_replay :: replay where
  "sample_replay = \<lparr>rp_ledger =
    \<lparr>lg_cash = Dec (945, - 1), lg_btc_quantity = Dec (5, - 1),
       lg_btc_cost_basis = Dec (55, - 1), lg_last_price = Some (Dec (1, 1)),
       lg_orders =
         [\<lparr>so_order_id = ''k'', so_idempotency_key = ''k'',
             so_side = ''BUY'', so_requested_quantity = Fin (1, 0),
             so_filled_quantity = Fin (1, - 1), so_status = PARTIAL,
             so_updated_at_utc = 1704070800000000\<rparr>],
       lg_breaker_state = [], lg_health_state = []\<rparr>,
    rp_evidence =
      [\<lparr>sv_sequence = 1, sv_event_id = ''order-created:0'',
          sv_event_type = ''ORDER_CREATED'',
          sv_occurred_at_utc = 1704067200000000,
          sv_payload =
            [(''filled_quantity'', JFloat (Fin (0, 0))),
             (''idempotency_key'', JStr ''k''), (''order_id'', JStr ''k''),
             (''requested_quantity'', JFloat (Fin (1, 0))),
             (''side'', JStr ''BUY''), (''status'', JStr ''CREATED'')]\<rparr>,
       \<lparr>sv_sequence = 2, sv_event_id = ''f1'', sv_event_type = ''FILL'',
          sv_occurred_at_utc = 1704070800000000,
          sv_payload =
            [(''fee'', JFloat (Fin (1, - 1))), (''order_id'', JStr ''k''),
             (''price'', JFloat (Fin (5, 1))),
             (''quantity'', JFloat (Fin (1, - 1))),
             (''side'', JStr ''BUY'')]\<rparr>],
    rp_previous = Some 1704070800000000, rp_expected = 3, rp_digest = ''1'',
    rp_mappings = sample_snapshot_values,
    rp_timestamps =
      [''1970-01-01T00:00:00Z'', ''2024-01-01T00:00:00Z'',
       ''2024-01-01T01:00:00Z'']\<rparr>"

text \<open>The replay of the first event only.\<close>

definition sample_order :: stored_order where
  "sample_order = \<lparr>so_order_id = ''k'', so_idempotency_key = ''k'', so_side = ''BUY'',
     so_requested_quantity = Fin (1, 0), so_filled_quantity = Fin (0, 0), so_status = CREATED,
     so_updated_at_utc = 1704067200000000\<rparr>"

definition sample_first_replay :: replay where
  "sample_first_replay =
    \<lparr>rp_ledger = initial_ledger\<lparr>lg_orders := [sample_order]\<rparr>,
     rp_evidence = take 1 (rp_evidence sample_replay), rp_previous = Some 1704067200000000, rp_expected = 2,
     rp_digest = ''1'', rp_mappings = take 2 sample_snapshot_values, rp_timestamps = take 2 (rp_timestamps sample_replay)\<rparr>"

definition sample_timestamps :: "string list" where
  "sample_timestamps = [''1970-01-01T00:00:00Z'', ''2024-01-01T00:00:00Z'', ''2024-01-01T01:00:00Z'']"

fun snapshot_rows :: "int \<Rightarrow> json list \<Rightarrow> string list \<Rightarrow> snapshot_row list" where
  "snapshot_rows n (m # ms) (t # ts) = \<lparr> sn_sequence = n, sn_state_json = Compact m, sn_created_at_utc = t \<rparr> # snapshot_rows (n + 1) ms ts"
| "snapshot_rows n _ _ = []"

definition sample_db :: db where
  "sample_db = \<lparr> db_schema = created_schema,
     db_metadata = \<lparr> md_initial_equity = Some ''100.0'', md_market = Some MARKET, md_cycle_lease = None, md_other_keys = [] \<rparr>,
     db_user_version = 0, db_events = sample_events, db_orders = sample_orders,
     db_snapshots = snapshot_rows 0 sample_snapshot_values sample_timestamps, db_sqlite_sequence = Some 2 \<rparr>"

definition sample_first_orders :: "order_row list" where
  "sample_first_orders = [\<lparr> or_order_id = ''k'', or_idempotency_key = ''k'', or_side = ''BUY'',
     or_requested_quantity = VFloat 1, or_filled_quantity = VFloat 0, or_status = ''CREATED'',
     or_updated_at_utc = ''2024-01-01T00:00:00Z'' \<rparr>]"

text \<open>The store before the order and the store between the order and its fill.\<close>

definition sample_empty_db :: db where
  "sample_empty_db = sample_db\<lparr>db_events := [], db_orders := [],
     db_snapshots := take 1 (db_snapshots sample_db), db_sqlite_sequence := None\<rparr>"

definition sample_order_db :: db where
  "sample_order_db = sample_db\<lparr>db_events := take 1 sample_events, db_orders := sample_first_orders,
     db_snapshots := take 2 (db_snapshots sample_db), db_sqlite_sequence := Some 1\<rparr>"

lemma sample_first_row: "replay_row sample_sha (sample_events ! 0) (initial_replay sample_sha) = Inr sample_first_replay"
  by code_simp

lemma sample_second_row: "replay_row sample_sha (sample_events ! 1) sample_first_replay = Inr sample_replay"
  by code_simp

lemma sample_replays:
  "replay_rows sample_sha (take 1 sample_events) = Inr sample_first_replay"
  "replay_rows sample_sha sample_events = Inr sample_replay"
proof -
  have "sample_events = [sample_events ! 0, sample_events ! 1]" by (simp add: sample_events_def)
  then show "replay_rows sample_sha (take 1 sample_events) = Inr sample_first_replay"
    "replay_rows sample_sha sample_events = Inr sample_replay"
    using sample_first_row sample_second_row
    by (metis efold.simps ebind_Inr replay_rows_def take_Suc_Cons take0 One_nat_def)+
qed

lemma sample_orders_match:
  "verify_order_projection sample_first_orders (lg_orders (rp_ledger sample_first_replay)) = Inr ()"
  "verify_order_projection sample_orders (lg_orders (rp_ledger sample_replay)) = Inr ()"
  by code_simp+

lemma sample_snapshots_match:
  "verify_snapshots (take 2 (snapshot_rows 0 sample_snapshot_values sample_timestamps)) (rp_mappings sample_first_replay)
     (rp_timestamps sample_first_replay) = Inr ()"
  "verify_snapshots (snapshot_rows 0 sample_snapshot_values sample_timestamps) (rp_mappings sample_replay)
     (rp_timestamps sample_replay) = Inr ()"
  by code_simp+

end
