(* ===== verification/Store_History.thy ===== *)
theory Store_History
  imports Store_Samples
begin

text \<open>
  The calls that change the store, as one type, and the runs they make. A call that returns
  leaves a verified database whose history extends the old one by at most one event; a call
  that raises leaves the database as it was. The epoch of the lease never falls.
\<close>

section \<open>Calls and runs\<close>

datatype store_call =
    AppendEvent event_args
  | RecordOrder order_args
  | AppendFill fill_args
  | TransitionOrder transition_args
  | AcquireLease lease_args
  | RenewLease lease_args pyval
  | ReleaseLease string string "pyval option"

fun run_call :: "sha256 \<Rightarrow> store_call \<Rightarrow> db \<Rightarrow> db res" where
  "run_call H (AppendEvent a) d = ebind (append_event H a d) (\<lambda>(d1, _). Inr d1)"
| "run_call H (RecordOrder a) d = ebind (record_order_once H a d) (\<lambda>(d1, _). Inr d1)"
| "run_call H (AppendFill a) d = ebind (append_fill H a d) (\<lambda>(d1, _). Inr d1)"
| "run_call H (TransitionOrder a) d = ebind (transition_order_status H a d) (\<lambda>(d1, _). Inr d1)"
| "run_call H (AcquireLease a) d = ebind (acquire_cycle_lease_epoch H a d) (\<lambda>(d1, _). Inr d1)"
| "run_call H (RenewLease a e) d = ebind (renew_cycle_lease H a e d) (\<lambda>(d1, _). Inr d1)"
| "run_call H (ReleaseLease ow to e) d = ebind (release_cycle_lease H ow to e d) (\<lambda>(d1, _). Inr d1)"

text \<open>The floats among the arguments are machine floats.\<close>

fun wf_call :: "store_call \<Rightarrow> bool" where
  "wf_call (AppendEvent a) = wf_json (ea_payload a)"
| "wf_call (RecordOrder a) = wf_val (oa_requested_quantity a)"
| "wf_call (AppendFill a) = (wf_val (fa_quantity a) \<and> wf_val (fa_price a) \<and> wf_val (fa_fee a))"
| "wf_call _ = True"

inductive store_run :: "sha256 \<Rightarrow> db \<Rightarrow> db \<Rightarrow> bool" for H where
  run_done: "store_run H d d"
| run_more: "store_run H d d1 \<Longrightarrow> wf_call c \<Longrightarrow> run_call H c d1 = Inr d2 \<Longrightarrow> store_run H d d2"

inductive_cases store_runE: "store_run H d e"

lemma store_run_trans: "store_run H e f \<Longrightarrow> store_run H d e \<Longrightarrow> store_run H d f"
  by (induction rule: store_run.induct) (auto intro: store_run.intros)

text \<open>The same calls on the store object: the commit or the rollback, and what the caller gets.\<close>

definition result_unit :: "store \<times> 'a res \<Rightarrow> store \<times> unit res" where
  "result_unit r = (fst r, ebind (snd r) (\<lambda>_. Inr ()))"

fun run_store :: "sha256 \<Rightarrow> store_call \<Rightarrow> store \<Rightarrow> store \<times> unit res" where
  "run_store H (AppendEvent a) s = result_unit (store_append_event H a s)"
| "run_store H (RecordOrder a) s = result_unit (store_record_order_once H a s)"
| "run_store H (AppendFill a) s = result_unit (store_append_fill H a s)"
| "run_store H (TransitionOrder a) s = result_unit (store_transition_order_status H a s)"
| "run_store H (AcquireLease a) s = result_unit (store_acquire_cycle_lease_epoch H a s)"
| "run_store H (RenewLease a e) s = result_unit (store_renew_cycle_lease H a e s)"
| "run_store H (ReleaseLease ow to e) s = result_unit (store_release_cycle_lease H ow to e s)"

lemma commit_Inr: "commit r s = (s1, Inr x) \<longleftrightarrow> (\<exists>d. r = Inr (d, x) \<and> s1 = s\<lparr>ss_db := d\<rparr>)"
  by (auto simp: commit_def split: sum.splits)

lemma commit_Inl: "commit r s = (s1, Inl e) \<longleftrightarrow> r = Inl e \<and> s1 = s"
  by (auto simp: commit_def split: sum.splits)

lemma with_args_transact_Inr:
  "with_args m (\<lambda>n. transact (f n)) s = (s1, Inr x) \<longleftrightarrow>
     (\<exists>n d. m = Inr n \<and> \<not> ss_read_only s \<and> \<not> ss_closed s \<and> ss_initialized s \<and> f n (ss_db s) = Inr (d, x)
        \<and> s1 = s\<lparr>ss_db := d\<rparr>)"
  by (auto simp: with_args_def transact_def commit_Inr ensure_writable_def ensure_ready_def ensure_not_closed_def
      split: sum.splits)

lemma with_args_transact_Inl: "with_args m (\<lambda>n. transact (f n)) s = (s1, Inl e) \<Longrightarrow> s1 = s"
  by (auto simp: with_args_def transact_def commit_Inl split: sum.splits)

lemmas store_methods = store_append_event_def store_record_order_once_def store_append_fill_def
  store_transition_order_status_def store_acquire_cycle_lease_epoch_def store_renew_cycle_lease_def
  store_release_cycle_lease_def

lemmas call_methods = append_event_def record_order_once_def append_fill_def transition_order_status_def
  acquire_cycle_lease_epoch_def renew_cycle_lease_def release_cycle_lease_def

lemma split_pair_fun: "(\<lambda>(x, y). transact (f x y)) = (\<lambda>n. transact (case n of (x, y) \<Rightarrow> f x y))"
  "(\<lambda>(x, y, z). transact (g x y z)) = (\<lambda>n. transact (case n of (x, y, z) \<Rightarrow> g x y z))"
  by auto

lemma run_store_Inl:
  assumes "run_store H c s = (s1, Inl e)" shows "s1 = s"
proof -
  have *: "m s = (s1, Inl e)" if "result_unit (m s) = (s1, Inl e)" for m :: "store \<Rightarrow> store \<times> 'z res"
    using that by (cases "m s") (auto simp: result_unit_def ebind_eq_Inl)
  show ?thesis
    using assms by (cases c) (auto dest!: * simp: store_methods split_pair_fun dest: with_args_transact_Inl)
qed

lemma run_store_Inr:
  assumes "run_store H c s = (s1, Inr ())"
  shows "run_call H c (ss_db s) = Inr (ss_db s1) \<and> s1 = s\<lparr>ss_db := ss_db s1\<rparr>
    \<and> \<not> ss_read_only s \<and> \<not> ss_closed s \<and> ss_initialized s"
proof -
  have *: "\<exists>x. m s = (s1, Inr x)" if "result_unit (m s) = (s1, Inr ())" for m :: "store \<Rightarrow> store \<times> 'z res"
    using that by (cases "m s") (auto simp: result_unit_def)
  show ?thesis
    using assms by (cases c) (auto dest!: * simp: store_methods call_methods split_pair_fun with_args_transact_Inr)
qed

section \<open>What a transaction does\<close>

lemma mutation_Inr:
  "mutation H body d = Inr (d1, x) \<longleftrightarrow>
     (\<exists>s t. replay_and_verify H d = Inr s \<and> body s d = Inr (d1, x) \<and> replay_and_verify H d1 = Inr t)"
  by (auto simp: mutation_def)

text \<open>The parts of the database that a body may touch.\<close>

definition extends :: "json_text \<Rightarrow> db \<Rightarrow> db \<Rightarrow> bool" where
  "extends p d d1 \<longleftrightarrow>
     (db_events d1 = db_events d \<and> db_snapshots d1 = db_snapshots d \<and> db_orders d1 = db_orders d
       \<and> db_sqlite_sequence d1 = db_sqlite_sequence d)
   \<or> (\<exists>e n. db_events d1 = db_events d @ [e] \<and> db_snapshots d1 = db_snapshots d @ [n]
       \<and> er_sequence e = next_sequence d \<and> er_payload_json e = p \<and> er_event_id e \<notin> set (map er_event_id (db_events d))
       \<and> db_sqlite_sequence d1 = Some (er_sequence e) \<and> db_user_version d1 = db_user_version d
       \<and> db_metadata d1 = db_metadata d)"

lemma insert_event_Inr:
  assumes "insert_event i ty t p d = Inr (d1, n)"
  shows "n = next_sequence d" "i \<notin> set (map er_event_id (db_events d))"
    "d1 = d\<lparr>db_events := db_events d @ [\<lparr> er_sequence = n, er_event_id = i, er_event_type = ty,
                er_occurred_at_utc = t, er_payload_json = p \<rparr>], db_sqlite_sequence := Some n\<rparr>"
  using assms by (auto simp: insert_event_def Let_def split: if_splits)

lemma insert_snapshot_Inr:
  assumes "insert_snapshot s t d = Inr d1"
  shows "\<exists>n. d1 = d\<lparr>db_snapshots := db_snapshots d @ [n]\<rparr>"
  using assms by (auto simp: insert_snapshot_def split: if_splits)

lemma refresh_snapshot_Inr:
  assumes "refresh_snapshot H t d = Inr d1"
  shows "\<exists>n. d1 = d\<lparr>db_snapshots := db_snapshots d @ [n]\<rparr>"
  using assms by (auto simp: refresh_snapshot_def dest!: insert_snapshot_Inr)

text \<open>The shape that the four appending bodies share: orders, then the event, then the snapshot.\<close>

lemma appended_extends:
  assumes "insert_event i ty t p (d\<lparr>db_orders := os\<rparr>) = Inr (d1, n)" "refresh_snapshot H t (d1\<lparr>db_orders := os1\<rparr>) = Inr d2"
  shows "extends p d d2"
proof -
  have n: "next_sequence (d\<lparr>db_orders := os\<rparr>) = next_sequence d" by (simp add: next_sequence_def)
  from refresh_snapshot_Inr [OF assms(2)] obtain s where "d2 = d1\<lparr>db_orders := os1, db_snapshots := db_snapshots d1 @ [s]\<rparr>"
    by auto
  then show ?thesis using insert_event_Inr [OF assms(1)] n by (simp add: extends_def)
qed

lemma append_event_extends:
  assumes "append_event_body H n s d = Inr (d1, x)" shows "extends (en_payload n) d d1"
proof -
  obtain d2 where "insert_event (en_event_id n) (en_event_type n) (en_text n) (en_payload n) d = Inr (d2, x)"
    "refresh_snapshot H (en_text n) d2 = Inr d1"
    using assms by (auto simp: append_event_body_def)
  then show ?thesis
    using appended_extends [where d = d and os = "db_orders d" and ?os1.0 = "db_orders d2" and ?d1.0 = d2] by simp
qed

lemma insert_order_row_Inr: "insert_order_row r d = Inr d1 \<longleftrightarrow>
    d1 = d\<lparr>db_orders := db_orders d @ [r]\<rparr> \<and> or_order_id r \<notin> set (map or_order_id (db_orders d))
    \<and> or_idempotency_key r \<notin> set (map or_idempotency_key (db_orders d))"
  by (auto simp: insert_order_row_def)

lemma record_order_extends:
  assumes "record_order_body H n p s d = Inr (d1, x)" shows "extends p d d1"
proof (cases "List.find (\<lambda>r. or_idempotency_key r = on_key n) (db_orders d)")
  case (Some r)
  then show ?thesis using assms by (auto simp: record_order_body_def extends_def split: if_splits)
next
  case None
  let ?r = "\<lparr> or_order_id = on_order_id n, or_idempotency_key = on_key n, or_side = on_side n,
            or_requested_quantity = VFloat (on_quantity n), or_filled_quantity = VFloat 0,
            or_status = status_value (on_status n), or_updated_at_utc = on_text n \<rparr>"
  from None obtain d2 k where "insert_event (created_event_id H (on_key n)) ''ORDER_CREATED'' (on_text n) p d = Inr (d2, k)"
    "refresh_snapshot H (on_text n) (d2\<lparr>db_orders := db_orders d2 @ [?r]\<rparr>) = Inr d1"
    using assms by (auto simp: record_order_body_def insert_order_row_Inr)
  then show ?thesis using appended_extends [where d = d and os = "db_orders d" and ?d1.0 = d2] by simp
qed

lemma fill_order_row_Inr: "fill_order_row n d = Inr d1 \<Longrightarrow> \<exists>os. d1 = d\<lparr>db_orders := os\<rparr>"
  by (auto simp: fill_order_row_def Let_def split: option.splits if_splits intro: exI [of _ "db_orders d"])

lemma append_fill_extends:
  assumes "append_fill_body H n i p s d = Inr (d1, x)" shows "extends p d d1"
proof (cases "event_row_of i d")
  case (Some r)
  then show ?thesis using assms by (auto simp: append_fill_body_def extends_def split: if_splits)
next
  case None
  then obtain d2 d3 k where h: "fill_order_row n d = Inr d2" "insert_event i ''FILL'' (fn_text n) p d2 = Inr (d3, k)"
    "refresh_snapshot H (fn_text n) d3 = Inr d1"
    using assms by (auto simp: append_fill_body_def)
  then show ?thesis
    using fill_order_row_Inr [OF h(1)] appended_extends [where d = d and ?os1.0 = "db_orders d3" and ?d1.0 = d3] by auto
qed

lemma transition_extends:
  assumes "transition_body H n p s d = Inr (d1, x)" shows "extends p d d1"
proof (cases "event_row_of (status_event_id H (tn_key n)) d")
  case (Some r)
  then show ?thesis using assms by (auto simp: transition_body_def extends_def split: if_splits)
next
  case None
  then obtain d2 k os where "insert_event (status_event_id H (tn_key n)) ''ORDER_STATUS'' (tn_text n) p d = Inr (d2, k)"
    "refresh_snapshot H (tn_text n) (d2\<lparr>db_orders := os\<rparr>) = Inr d1"
    using assms by (auto simp: transition_body_def Let_def split: option.splits)
  then show ?thesis using appended_extends [where d = d and os = "db_orders d" and ?d1.0 = d2] by simp
qed

text \<open>The lease calls touch the lease and its epoch only.\<close>

definition lease_only :: "db \<Rightarrow> db \<Rightarrow> bool" where
  "lease_only d d1 \<longleftrightarrow> (\<exists>v e. d1 = (set_lease v d)\<lparr>db_user_version := e\<rparr> \<and> db_user_version d \<le> e)"

lemma lease_only_refl [simp]: "lease_only d d"
  unfolding lease_only_def set_lease_def
  by (rule exI [of _ "md_cycle_lease (db_metadata d)"], rule exI [of _ "db_user_version d"]) simp

lemma next_epoch_Inr: "next_cycle_lease_epoch c = Inr e \<longleftrightarrow> c < MAX_CYCLE_LEASE_EPOCH \<and> e = c + 1"
  by (auto simp: next_cycle_lease_epoch_def)

lemma acquisition_epoch_Some:
  assumes "acquisition_epoch H n c held = Inr (Some e)"
  shows "e = c + 1 \<or> (e = c \<and> (\<exists>l. held = Some l \<and> is_holder H (ln_owner n) (ln_token n) e l))"
  using assms
  by (auto simp: acquisition_epoch_def Let_def next_epoch_Inr is_holder_def split: option.splits if_splits)

lemma acquire_body_Inr:
  assumes "acquire_body H n s d = Inr (d1, r)"
  shows "(r = None \<and> d1 = d) \<or> (\<exists>e v held. r = Some e \<and> held_lease d = Inr held
     \<and> acquisition_epoch H n (db_user_version d) held = Inr (Some e)
     \<and> lease_value (ln_expires_text n) (ln_owner n) (cycle_lease_storage_token H (ln_token n) e) = Inr v
     \<and> d1 = (set_lease (Some v) d)\<lparr>db_user_version := e\<rparr>)"
proof -
  obtain held a where h: "held_lease d = Inr held" "acquisition_epoch H n (db_user_version d) held = Inr a"
    "(case a of None \<Rightarrow> Inr (d, None) | Some epoch \<Rightarrow>
         ebind (lease_value (ln_expires_text n) (ln_owner n) (cycle_lease_storage_token H (ln_token n) epoch)) (\<lambda>v.
         Inr ((set_lease (Some v) d)\<lparr>db_user_version := epoch\<rparr>, Some epoch))) = Inr (d1, r)"
    using assms by (auto simp: acquire_body_def cycle_lease_epoch_def split: if_splits)
  then show ?thesis by (cases a) auto
qed

lemma lease_only_set: "db_user_version d \<le> e \<Longrightarrow> lease_only d ((set_lease v d)\<lparr>db_user_version := e\<rparr>)"
  by (auto simp: lease_only_def)

lemma acquire_lease_only:
  assumes "acquire_body H n s d = Inr (d1, r)" shows "lease_only d d1"
  using acquire_body_Inr [OF assms] acquisition_epoch_Some
  by (elim disjE exE conjE) (simp, hypsubst, rule lease_only_set, fastforce)

lemma set_lease_only: "lease_only d (set_lease v d)"
  unfolding lease_only_def by (rule exI [of _ v], rule exI [of _ "db_user_version d"]) (simp add: set_lease_def)

lemma renew_lease_only: "renew_body H n e s d = Inr (d1, r) \<Longrightarrow> lease_only d d1"
  by (auto simp: renew_body_def set_lease_only split: option.splits if_splits)

lemma release_lease_only:
  assumes "release_body H ow to e s d = Inr (d1, r)" shows "lease_only d d1"
proof -
  have "d1 = d \<or> d1 = set_lease None d"
    using assms by (auto simp: release_body_def Let_def split: option.split_asm if_split_asm)
  then show ?thesis by (auto simp: set_lease_only)
qed

lemma lease_only_extends: "lease_only d d1 \<Longrightarrow> extends p d d1"
  by (auto simp: lease_only_def extends_def set_lease_def)

lemma refresh_frame: "refresh_snapshot H w e = Inr g \<Longrightarrow> db_user_version g = db_user_version e"
  by (auto dest!: refresh_snapshot_Inr)

lemma insert_event_frame: "insert_event a b c p e = Inr (g, k) \<Longrightarrow> db_user_version g = db_user_version e"
  by (auto dest!: insert_event_Inr)

lemma fill_order_row_frame: "fill_order_row n e = Inr g \<Longrightarrow> db_user_version g = db_user_version e"
  by (auto dest!: fill_order_row_Inr)

lemma append_event_frame: "append_event_body H n s d = Inr (d1, x) \<Longrightarrow> db_user_version d1 = db_user_version d"
  by (auto simp: append_event_body_def dest!: refresh_frame insert_event_frame)

lemma record_order_frame: "record_order_body H n p s d = Inr (d1, x) \<Longrightarrow> db_user_version d1 = db_user_version d"
  by (auto simp: record_order_body_def insert_order_row_Inr dest!: refresh_frame insert_event_frame
      split: option.splits if_splits)

lemma append_fill_frame: "append_fill_body H n i p s d = Inr (d1, x) \<Longrightarrow> db_user_version d1 = db_user_version d"
  by (auto simp: append_fill_body_def dest!: refresh_frame insert_event_frame fill_order_row_frame
      split: option.splits if_splits)

lemma transition_frame: "transition_body H n p s d = Inr (d1, x) \<Longrightarrow> db_user_version d1 = db_user_version d"
  by (auto simp: transition_body_def Let_def dest!: refresh_frame insert_event_frame split: option.splits if_splits)

section \<open>What a call writes is well formed\<close>

definition wf_text :: "json_text \<Rightarrow> bool" where
  "wf_text t = (case json_loads t of None \<Rightarrow> True | Some v \<Rightarrow> wf_json v)"

lemma wf_insert_member: "wf_members (insert_member kv xs) = (wf_json (snd kv) \<and> wf_members xs)"
  by (induction kv xs rule: insert_member.induct) auto

lemma wf_sort_json:
  "wf_json (sort_json v) = wf_json v" "wf_jsons (sort_list vs) = wf_jsons vs" "wf_members (sort_members kvs) = wf_members kvs"
  by (induction v and vs and kvs rule: sort_json_sort_list_sort_members.induct) (auto simp: wf_insert_member)

lemma wf_canonical_payload:
  assumes "canonical_payload v = Inr (t, ws)" "wf_json v" shows "wf_text t"
proof -
  obtain kvs n where h: "v = JObj kvs" "normalize_obj kvs = Inr ws" "normalize_json (JObj ws) = Inr n" "t = Compact (sort_json n)"
    using assms(1) by (auto simp: canonical_payload_def canonical_json_value_def split: json.splits)
  have "wf_members ws" using wf_normalize(3) [OF h(2)] assms(2) h(1) by simp
  then have "wf_json n" using wf_normalize(1) [OF h(3)] by simp
  then show ?thesis by (simp add: wf_text_def h(4) wf_sort_json)
qed

lemma normalized_order_wf:
  assumes "normalize_order b = Inr n" "wf_val (oa_requested_quantity b)" shows "wf_float (on_quantity n)"
proof -
  have "py_float (oa_requested_quantity b) = Inr (on_quantity n)"
    using assms(1) by (auto simp: normalize_order_def number_Inr)
  then show ?thesis using py_float_wf [OF assms(2)] by blast
qed

lemma normalized_wf:
  "normalize_event a = Inr m \<Longrightarrow> wf_json (ea_payload a) \<Longrightarrow> wf_text (en_payload m)"
  "prepare_order b = Inr (n, p) \<Longrightarrow> wf_val (oa_requested_quantity b) \<Longrightarrow> wf_text p"
  "prepare_fill H f = Inr (g, i, q) \<Longrightarrow> wf_val (fa_quantity f) \<and> wf_val (fa_price f) \<and> wf_val (fa_fee f) \<Longrightarrow> wf_text q"
  "prepare_transition t = Inr (u, r) \<Longrightarrow> wf_text r"
  subgoal by (auto simp: normalize_event_def intro: wf_canonical_payload)
  subgoal by (auto simp: prepare_order_def created_payload_def elim!: wf_canonical_payload
      dest: normalized_order_wf)
  subgoal by (auto simp: prepare_fill_def normalize_fill_def number_Inr fill_payload_def
      dest: py_float_wf [rotated] elim!: wf_canonical_payload)
  subgoal by (auto simp: prepare_transition_def transition_payload_def elim!: wf_canonical_payload split: option.splits)
  done

section \<open>What every call does\<close>

lemma run_call_spec:
  assumes "run_call H c d = Inr d1"
  shows "is_ok (replay_and_verify H d) \<and> is_ok (replay_and_verify H d1)
    \<and> (\<exists>p. extends p d d1 \<and> (wf_call c \<longrightarrow> wf_text p)) \<and> db_user_version d \<le> db_user_version d1"
proof -
  have m: "\<exists>s. body s d = Inr (d1, x) \<and> is_ok (replay_and_verify H d) \<and> is_ok (replay_and_verify H d1)"
    if "mutation H body d = Inr (d1, x)" for body :: "paper_snapshot \<Rightarrow> db \<Rightarrow> (db \<times> 'z) res" and x
    using that by (auto simp: mutation_Inr is_ok_iff)
  have l: ?thesis if "lease_only d d1" "is_ok (replay_and_verify H d)" "is_ok (replay_and_verify H d1)"
    using that lease_only_extends [OF that(1), of NotJson] by (auto simp: lease_only_def wf_text_def)
  have e: ?thesis if "extends p d d1" "wf_call c \<longrightarrow> wf_text p" "db_user_version d1 = db_user_version d"
      "is_ok (replay_and_verify H d)" "is_ok (replay_and_verify H d1)" for p
    using that by auto
  show ?thesis
  proof (cases c)
    case (AppendEvent a)
    then obtain n x where "normalize_event a = Inr n" "mutation H (append_event_body H n) d = Inr (d1, x)"
      using assms by (auto simp: append_event_def)
    note n = this
    from m [OF n(2)] obtain s where b: "append_event_body H n s d = Inr (d1, x)"
      "is_ok (replay_and_verify H d)" "is_ok (replay_and_verify H d1)" by blast
    have "wf_call c \<longrightarrow> wf_text (en_payload n)" using normalized_wf(1) [OF n(1)] AppendEvent by simp
    then show ?thesis by (rule e [OF append_event_extends [OF b(1)] _ append_event_frame [OF b(1)] b(2,3)])
  next
    case (RecordOrder a)
    then obtain n p x where "prepare_order a = Inr (n, p)" "mutation H (record_order_body H n p) d = Inr (d1, x)"
      using assms by (auto simp: record_order_once_def)
    note n = this
    from m [OF n(2)] obtain s where b: "record_order_body H n p s d = Inr (d1, x)"
      "is_ok (replay_and_verify H d)" "is_ok (replay_and_verify H d1)" by blast
    have "wf_call c \<longrightarrow> wf_text p" using normalized_wf(2) [OF n(1)] RecordOrder by simp
    then show ?thesis by (rule e [OF record_order_extends [OF b(1)] _ record_order_frame [OF b(1)] b(2,3)])
  next
    case (AppendFill a)
    then obtain n i p x where "prepare_fill H a = Inr (n, i, p)" "mutation H (append_fill_body H n i p) d = Inr (d1, x)"
      using assms by (auto simp: append_fill_def)
    note n = this
    from m [OF n(2)] obtain s where b: "append_fill_body H n i p s d = Inr (d1, x)"
      "is_ok (replay_and_verify H d)" "is_ok (replay_and_verify H d1)" by blast
    have "wf_call c \<longrightarrow> wf_text p" using normalized_wf(3) [OF n(1)] AppendFill by simp
    then show ?thesis by (rule e [OF append_fill_extends [OF b(1)] _ append_fill_frame [OF b(1)] b(2,3)])
  next
    case (TransitionOrder a)
    then obtain n p x where "prepare_transition a = Inr (n, p)" "mutation H (transition_body H n p) d = Inr (d1, x)"
      using assms by (auto simp: transition_order_status_def)
    note n = this
    from m [OF n(2)] obtain s where b: "transition_body H n p s d = Inr (d1, x)"
      "is_ok (replay_and_verify H d)" "is_ok (replay_and_verify H d1)" by blast
    have "wf_call c \<longrightarrow> wf_text p" using normalized_wf(4) [OF n(1)] TransitionOrder by simp
    then show ?thesis by (rule e [OF transition_extends [OF b(1)] _ transition_frame [OF b(1)] b(2,3)])
  next
    case (AcquireLease a)
    then obtain n x where "mutation H (acquire_body H n) d = Inr (d1, x)"
      using assms by (auto simp: acquire_cycle_lease_epoch_def)
    from m [OF this] show ?thesis using acquire_lease_only l by (elim exE conjE) simp
  next
    case (RenewLease a ep)
    then obtain n k x where "mutation H (renew_body H n k) d = Inr (d1, x)"
      using assms by (auto simp: renew_cycle_lease_def)
    from m [OF this] show ?thesis using renew_lease_only l by (elim exE conjE) simp
  next
    case (ReleaseLease ow to ep)
    then obtain o1 t1 e1 x where "mutation H (release_body H o1 t1 e1) d = Inr (d1, x)"
      using assms by (auto simp: release_cycle_lease_def)
    from m [OF this] show ?thesis using release_lease_only l by (elim exE conjE) simp
  qed
qed

end
