(* ===== verification/Store_Runs.thy ===== *)
theory Store_Runs
  imports Store_History
begin

text \<open>
  The store that the schema creates verifies, every run of calls keeps it verified and its rows
  well formed, and a concrete run, one order and one fill, for the witnesses.
\<close>

section \<open>The concrete store verifies\<close>

lemma created_metadata_valid:
  "validate_metadata \<lparr> md_initial_equity = Some ''100.0'', md_market = Some MARKET, md_cycle_lease = l, md_other_keys = [] \<rparr> = Inr ()"
proof -
  have "validate_metadata \<lparr> md_initial_equity = Some ''100.0'', md_market = Some MARKET, md_cycle_lease = None, md_other_keys = [] \<rparr> = Inr ()"
    by code_simp
  then show ?thesis by (simp add: validate_metadata_def)
qed

text \<open>The parts that make a verification succeed.\<close>

lemma verified_by_parts:
  assumes "validate_schema_and_identity d = Inr ()" "sort_key er_sequence (db_events d) = es"
    "replay_rows H es = Inr r" "(case db_sqlite_sequence d of None \<Rightarrow> 0 | Some n \<Rightarrow> n) = k"
    "(if rp_evidence r = [] then 0 else sv_sequence (last (rp_evidence r))) = k"
    "verify_order_projection (db_orders d) (lg_orders (rp_ledger r)) = Inr ()"
    "sort_key sn_sequence (db_snapshots d) = ss" "map sn_sequence ss = map int [0..<length (rp_mappings r)]"
    "verify_snapshots ss (rp_mappings r) (rp_timestamps r) = Inr ()"
  shows "replay_and_verify H d = Inr (snapshot_from_components (rp_ledger r) k (rp_evidence r) (rp_digest r))"
    "rebuild_from_events H d = Inr (r, snapshot_from_components (rp_ledger r) k (rp_evidence r) (rp_digest r))"
  using assms by (simp_all add: replay_and_verify_def rebuild_from_events_def Let_def)

abbreviation sample_state :: "replay \<Rightarrow> int \<Rightarrow> paper_snapshot" where
  "sample_state r k \<equiv> snapshot_from_components (rp_ledger r) k (rp_evidence r) (rp_digest r)"

lemma sample_schema: "db_schema d = created_schema \<Longrightarrow> db_user_version d = 0 \<Longrightarrow>
    db_metadata d = \<lparr> md_initial_equity = Some ''100.0'', md_market = Some MARKET, md_cycle_lease = None, md_other_keys = [] \<rparr> \<Longrightarrow>
    validate_schema_and_identity d = Inr ()"
  by (simp add: validate_schema_and_identity_def created_schema_valid created_metadata_valid
      validate_lease_def cycle_lease_epoch_def MAX_CYCLE_LEASE_EPOCH_def)

lemma sample_verified:
  "replay_and_verify sample_sha sample_db = Inr (sample_state sample_replay 2)"
  "rebuild_from_events sample_sha sample_db = Inr (sample_replay, sample_state sample_replay 2)"
proof -
  let ?ss = "snapshot_rows 0 sample_snapshot_values sample_timestamps"
  have a: "validate_schema_and_identity sample_db = Inr ()"
    by (rule sample_schema) (simp_all add: sample_db_def)
  have b: "sort_key er_sequence (db_events sample_db) = sample_events"
    by (simp add: sample_db_def sample_events_def)
  have c: "(case db_sqlite_sequence sample_db of None \<Rightarrow> 0 | Some n \<Rightarrow> n) = 2"
    by (simp add: sample_db_def)
  have e: "(if rp_evidence sample_replay = [] then 0 else sv_sequence (last (rp_evidence sample_replay))) = 2"
    by (simp add: sample_first_replay_def sample_replay_def)
  have f: "verify_order_projection (db_orders sample_db) (lg_orders (rp_ledger sample_replay)) = Inr ()"
    using sample_orders_match by (simp add: sample_db_def)
  have g: "sort_key sn_sequence (db_snapshots sample_db) = ?ss"
    by (simp add: sample_db_def sample_snapshot_values_def sample_timestamps_def)
  have h: "map sn_sequence ?ss = map int [0..<length (rp_mappings sample_replay)]"
    by (simp add: sample_snapshot_values_def sample_timestamps_def sample_first_replay_def sample_replay_def upt_rec)
  show "replay_and_verify sample_sha sample_db = Inr (sample_state sample_replay 2)"
    "rebuild_from_events sample_sha sample_db = Inr (sample_replay, sample_state sample_replay 2)"
    by (rule verified_by_parts [OF a b sample_replays(2) c e f g h sample_snapshots_match(2)])+
qed

lemma sample_order_verified:
  "replay_and_verify sample_sha sample_order_db = Inr (sample_state sample_first_replay 1)"
  "rebuild_from_events sample_sha sample_order_db = Inr (sample_first_replay, sample_state sample_first_replay 1)"
proof -
  let ?ss = "take 2 (snapshot_rows 0 sample_snapshot_values sample_timestamps)"
  have a: "validate_schema_and_identity sample_order_db = Inr ()"
    by (rule sample_schema) (simp_all add: sample_order_db_def sample_db_def)
  have b: "sort_key er_sequence (db_events sample_order_db) = take 1 sample_events"
    by (simp add: sample_order_db_def sample_db_def sample_events_def)
  have c: "(case db_sqlite_sequence sample_order_db of None \<Rightarrow> 0 | Some n \<Rightarrow> n) = 1"
    by (simp add: sample_order_db_def sample_db_def)
  have e: "(if rp_evidence sample_first_replay = [] then 0 else sv_sequence (last (rp_evidence sample_first_replay))) = 1"
    by (simp add: sample_first_replay_def sample_replay_def)
  have f: "verify_order_projection (db_orders sample_order_db) (lg_orders (rp_ledger sample_first_replay)) = Inr ()"
    using sample_orders_match by (simp add: sample_order_db_def sample_db_def)
  have g: "sort_key sn_sequence (db_snapshots sample_order_db) = ?ss"
    by (simp add: sample_order_db_def sample_db_def sample_snapshot_values_def sample_timestamps_def)
  have h: "map sn_sequence ?ss = map int [0..<length (rp_mappings sample_first_replay)]"
    by (simp add: sample_snapshot_values_def sample_timestamps_def sample_first_replay_def sample_replay_def upt_rec)
  show "replay_and_verify sample_sha sample_order_db = Inr (sample_state sample_first_replay 1)"
    "rebuild_from_events sample_sha sample_order_db = Inr (sample_first_replay, sample_state sample_first_replay 1)"
    by (rule verified_by_parts [OF a b sample_replays(1) c e f g h sample_snapshots_match(1)])+
qed

lemma sample_wf: "\<forall>r \<in> set (db_events sample_db). wf_row_json r"
  by (simp add: sample_db_def sample_events_def wf_row_json_def)

section \<open>The created store\<close>

lemma finite_initial: "isfinite INITIAL_EQUITY"
  by code_simp

lemma canonical_initial: "canonical_json_value (snapshot_mapping (initial_snapshot H)) = Inr (Compact (snapshot_mapping (initial_snapshot H)))"
  by (simp add: canonical_json_value_def snapshot_mapping_def initial_snapshot_def opt_float_def finite_initial)

lemma created_db_Inr: "\<exists>d. created_db H = Inr d"
  by (simp add: created_db_def snapshot_json_def canonical_initial)

lemma epoch_parses: "parse_stored_timestamp EPOCH = Inr (EPOCH, 0)"
  by code_simp

lemma created_verified:
  assumes "created_db H = Inr d"
  shows "is_ok (replay_and_verify H d)" "db_events d = []"
proof -
  let ?t = "Compact (snapshot_mapping (initial_snapshot H))"
  have d: "d = \<lparr> db_schema = created_schema,
     db_metadata = \<lparr> md_initial_equity = Some ''100.0'', md_market = Some MARKET, md_cycle_lease = None, md_other_keys = [] \<rparr>,
     db_user_version = 0, db_events = [], db_orders = [],
     db_snapshots = [\<lparr> sn_sequence = 0, sn_state_json = ?t, sn_created_at_utc = EPOCH \<rparr>], db_sqlite_sequence = None \<rparr>"
    using assms by (simp add: created_db_def snapshot_json_def canonical_initial)
  have v: "validate_schema_and_identity d = Inr ()"
    by (simp add: validate_schema_and_identity_def d created_schema_valid created_metadata_valid validate_lease_def
        cycle_lease_epoch_def MAX_CYCLE_LEASE_EPOCH_def)
  have r: "rebuild_from_events H d = Inr (initial_replay H,
      snapshot_from_components initial_ledger 0 [] (sha_text H []))"
    by (simp add: rebuild_from_events_def d replay_rows_def Let_def initial_replay_def verify_order_projection_def
        initial_ledger_def)
  obtain kvs where k: "snapshot_mapping (initial_snapshot H) = JObj kvs" by (simp add: snapshot_mapping_def)
  have c: "canonical_json_value (JObj kvs) = Inr (Compact (JObj kvs))" using canonical_initial [of H] k by simp
  have s: "verify_snapshots (db_snapshots d) [JObj kvs] [EPOCH] = Inr ()"
    by (simp add: d k verify_snapshot_row_def c epoch_parses as_corrupt_def)
  have q: "sort_key sn_sequence (db_snapshots d) = db_snapshots d" "map sn_sequence (db_snapshots d) = [0]"
    by (simp_all add: d)
  show "is_ok (replay_and_verify H d)"
    using s q by (simp add: replay_and_verify_def v r initial_replay_def k)
  show "db_events d = []" by (simp add: d)
qed

section \<open>Every run keeps the store sound\<close>

lemma store_run_verified:
  assumes "store_run H d e" "is_ok (replay_and_verify H d)" shows "is_ok (replay_and_verify H e)"
  using assms by induction (auto dest: run_call_spec)

lemma wf_row_json_text: "wf_row_json r = wf_text (er_payload_json r)"
  by (simp add: wf_row_json_def wf_text_def)

lemma store_run_wf:
  assumes "store_run H d e" "\<forall>r \<in> set (db_events d). wf_row_json r" shows "\<forall>r \<in> set (db_events e). wf_row_json r"
  using assms
proof induction
  case (run_more d d1 c d2)
  from run_call_spec [OF run_more(3)] run_more(2) obtain p where "extends p d1 d2" "wf_text p" by blast
  then show ?case using run_more(4) [OF run_more(5)] by (auto simp: extends_def wf_row_json_text)
qed

section \<open>A concrete run: an order and its fill\<close>

definition sample_order_args :: order_args where
  "sample_order_args = \<lparr> oa_idempotency_key = ''k'', oa_side = ''BUY'', oa_requested_quantity = VInt 1,
     oa_order_id = None, oa_occurred_at = Some (TsText ''2024-01-01T00:00:00Z''), oa_status = CREATED \<rparr>"

definition sample_fill_args :: fill_args where
  "sample_fill_args = \<lparr> fa_order_id = ''k'', fa_side = ''BUY'', fa_quantity = VFloat (flit 1 2), fa_price = VInt 10,
     fa_fee = VFloat (flit 1 2), fa_occurred_at = TsText ''2024-01-01T01:00:00Z'', fa_fill_id = Some ''f1'' \<rparr>"

definition sample_order_norm :: order_norm where
  "sample_order_norm = \<lparr> on_key = ''k'', on_order_id = ''k'', on_side = ''BUY'', on_quantity = 1, on_status = CREATED,
     on_text = ''2024-01-01T00:00:00Z'', on_at = 1704067200000000 \<rparr>"

definition sample_fill_norm :: fill_norm where
  "sample_fill_norm = \<lparr> fn_order_id = ''k'', fn_side = ''BUY'', fn_quantity = flit 1 2, fn_price = flit 10 1,
     fn_fee = flit 1 2, fn_text = ''2024-01-01T01:00:00Z'', fn_at = 1704070800000000 \<rparr>"

lemma sample_prepared:
  "prepare_order sample_order_args = Inr (sample_order_norm, er_payload_json (sample_events ! 0))"
  "prepare_fill sample_sha sample_fill_args = Inr (sample_fill_norm, ''f1'', er_payload_json (sample_events ! 1))"
  by code_simp+

lemma sample_texts:
  "snapshot_json (sample_state sample_first_replay 1) = Inr (Compact (sample_snapshot_values ! 1))"
  "snapshot_json (sample_state sample_replay 2) = Inr (Compact (sample_snapshot_values ! 2))"
  "snapshot_json (initial_snapshot sample_sha) = Inr (Compact (sample_snapshot_values ! 0))"
  by code_simp+

lemma rebuild_snapshots [simp]: "rebuild_from_events H (d\<lparr>db_snapshots := x\<rparr>) = rebuild_from_events H d"
  by (simp add: rebuild_from_events_def)

lemma sample_created: "created_db sample_sha = Inr sample_empty_db"
  by (simp add: created_db_def sample_texts sample_empty_db_def sample_db_def sample_snapshot_values_def
      sample_timestamps_def EPOCH_def)

lemma sample_refresh:
  assumes "e = d\<lparr>db_snapshots := db_snapshots d @
       [\<lparr> sn_sequence = pn_last_sequence state, sn_state_json = text, sn_created_at_utc = t \<rparr>]\<rparr>"
    "rebuild_from_events H e = Inr (r, state)" "snapshot_json state = Inr text"
    "pn_last_sequence state \<notin> set (map sn_sequence (db_snapshots d))"
  shows "refresh_snapshot H t d = Inr e"
  using assms by (simp add: refresh_snapshot_def insert_snapshot_def)

lemma sample_record:
  "record_order_once sample_sha sample_order_args sample_empty_db = Inr (sample_order_db, True)"
proof -
  have v: "is_ok (replay_and_verify sample_sha sample_empty_db)" by (rule created_verified(1) [OF sample_created])
  let ?d = "sample_order_db\<lparr>db_snapshots := db_snapshots sample_empty_db\<rparr>"
  have r: "refresh_snapshot sample_sha ''2024-01-01T00:00:00Z'' ?d = Inr sample_order_db"
    by (rule sample_refresh [OF _ sample_order_verified(2) sample_texts(1)])
      (simp_all add: sample_order_db_def sample_empty_db_def sample_db_def sample_snapshot_values_def
        sample_timestamps_def snapshot_from_components_def Let_def)
  have "record_order_body sample_sha sample_order_norm (er_payload_json (sample_events ! 0)) s sample_empty_db
      = Inr (sample_order_db, True)" for s
    using r by (simp add: record_order_body_def sample_order_norm_def sample_empty_db_def sample_order_db_def sample_db_def
        order_row_of_def validate_timestamp_order_def insert_event_def next_sequence_def insert_order_row_def
        sample_sha_def created_event_id_def sample_events_def sample_first_orders_def)
  then show ?thesis
    using v sample_order_verified(1) by (auto simp: record_order_once_def sample_prepared mutation_Inr is_ok_iff)
qed

lemma sample_fill_steps:
  "parse_stored_timestamp ''2024-01-01T00:00:00Z'' = Inr (''2024-01-01T00:00:00Z'', 1704067200000000)"
  "is_ok (resulting_cash sample_fill_norm (sample_state sample_first_replay 1))"
  "fill_order_row sample_fill_norm sample_order_db = Inr (sample_order_db\<lparr>db_orders := sample_orders\<rparr>)"
  by code_simp+

lemma sample_fill:
  "append_fill sample_sha sample_fill_args sample_order_db = Inr (sample_db, True)"
proof -
  let ?d = "sample_db\<lparr>db_snapshots := db_snapshots sample_order_db\<rparr>"
  have r: "refresh_snapshot sample_sha ''2024-01-01T01:00:00Z'' ?d = Inr sample_db"
    by (rule sample_refresh [OF _ sample_verified(2) sample_texts(2)])
      (simp_all add: sample_order_db_def sample_db_def sample_snapshot_values_def
        sample_timestamps_def snapshot_from_components_def Let_def)
  have t: "validate_timestamp_order (fn_at sample_fill_norm) sample_order_db = Inr ()"
    by (simp add: validate_timestamp_order_def sample_order_db_def sample_events_def sample_fill_steps sample_fill_norm_def)
  have i: "insert_event ''f1'' ''FILL'' (fn_text sample_fill_norm) (er_payload_json (sample_events ! 1))
      (sample_order_db\<lparr>db_orders := sample_orders\<rparr>) = Inr (?d, 2)"
    by (simp add: insert_event_def sample_order_db_def sample_db_def next_sequence_def sample_events_def sample_fill_norm_def)
  obtain c where "resulting_cash sample_fill_norm (sample_state sample_first_replay 1) = Inr c"
    using sample_fill_steps(2) by (auto simp: is_ok_iff)
  moreover have "event_row_of ''f1'' sample_order_db = None"
    by (simp add: event_row_of_def sample_order_db_def sample_events_def)
  ultimately have "append_fill_body sample_sha sample_fill_norm ''f1'' (er_payload_json (sample_events ! 1))
      (sample_state sample_first_replay 1) sample_order_db = Inr (sample_db, True)"
    using r t i sample_fill_steps(3) by (simp add: append_fill_body_def) (simp add: sample_fill_norm_def)
  then show ?thesis
    using sample_verified(1) sample_order_verified(1) by (simp add: append_fill_def sample_prepared mutation_Inr)
qed

lemma sample_run: "store_run sample_sha sample_empty_db sample_db"
proof -
  have "store_run sample_sha sample_empty_db sample_order_db"
    by (rule run_more [OF run_done, where c = "RecordOrder sample_order_args"])
      (simp_all add: sample_record, simp add: sample_order_args_def)
  then show ?thesis
    by (rule run_more [where c = "AppendFill sample_fill_args"]) (simp_all add: sample_fill, simp add: sample_fill_args_def)
qed

end
