(* ===== verification/Lease_Correct.thy ===== *)
theory Lease_Correct
  imports Store_Runs
begin

text \<open>
  The cycle lease is a fenced lock: a live lease excludes every other holder, the acquired
  lease admits its holder until its expiry, and once another epoch was issued no transaction
  under an older one ever runs again.
\<close>

section \<open>The stored lease\<close>

lemma verified_lease_epoch:
  assumes "is_ok (replay_and_verify H d)" "held_lease d = Inr (Some l)"
  shows "ls_epoch l = None \<or> ls_epoch l = Some (db_user_version d)"
proof -
  have "validate_lease d = Inr ()"
    using assms(1) by (auto simp: is_ok_iff replay_and_verify_def validate_schema_and_identity_def)
  then show ?thesis
    using assms(2) by (auto simp: validate_lease_def held_lease_def cycle_lease_epoch_def split: option.splits if_splits)
qed

lemma verified_lease_reads:
  assumes "is_ok (replay_and_verify H d)" shows "\<exists>held. held_lease d = Inr held"
proof -
  have "validate_lease d = Inr ()"
    using assms(1) by (auto simp: is_ok_iff replay_and_verify_def validate_schema_and_identity_def)
  then show ?thesis
    by (auto simp: validate_lease_def held_lease_def split: option.splits)
qed

text \<open>What a stored lease value reads as.\<close>

lemma lease_value_reads:
  assumes "lease_value t owner token = Inr v" "cycle_lease_metadata v = Inr l"
  shows "ls_owner l = owner \<and> ls_token l = token \<and> (\<exists>e. parse_z t = Some e \<and> ls_expires l = e)
    \<and> cycle_lease_token_epoch token = Inr (ls_epoch l)"
proof -
  let ?p = "[(''expires_at_utc'', JStr t), (''owner'', JStr owner), (''token'', JStr token)]"
  have v: "v = Compact (JObj ?p)" using assms(1) by (auto simp: lease_value_def canonical_json_value_def)
  have T: "nonempty_text x m = Inr y \<Longrightarrow> y = x" for x m y by (auto simp: nonempty_text_def split: if_splits)
  have "lease_of_payload v ?p = Inr l"
    using assms(2) by (cases "lease_of_payload v ?p") (auto simp: cycle_lease_metadata_def v catch_def)
  then show ?thesis
    by (auto simp: lease_of_payload_def field_def json_nonempty_def json_text_value_def json_timestamp_def
        canonical_timestamp_def dest!: T split: option.splits)
qed

section \<open>Fencing\<close>

lemma epoch_monotone: "store_run H d e \<Longrightarrow> db_user_version d \<le> db_user_version e"
  by (induction rule: store_run.induct) (auto dest: run_call_spec)

lemma run_keeps_verified: "store_run H d e \<Longrightarrow> is_ok (replay_and_verify H d) \<Longrightarrow> is_ok (replay_and_verify H e)"
  by (rule store_run_verified)

lemma acquired:
  assumes "acquire_cycle_lease_epoch H a d = Inr (d1, Some e)"
  shows "db_user_version d1 = e" "db_user_version d \<le> e" "is_ok (replay_and_verify H d1)"
proof -
  obtain n s where b: "acquire_body H n s d = Inr (d1, Some e)" "is_ok (replay_and_verify H d1)"
    using assms by (auto simp: acquire_cycle_lease_epoch_def mutation_Inr is_ok_iff)
  from acquire_body_Inr [OF b(1)] obtain held v where
    "acquisition_epoch H n (db_user_version d) held = Inr (Some e)" "d1 = (set_lease (Some v) d)\<lparr>db_user_version := e\<rparr>" by auto
  then show "db_user_version d1 = e" "db_user_version d \<le> e" using acquisition_epoch_Some by fastforce+
  show "is_ok (replay_and_verify H d1)" by (rule b(2))
qed

lemma stale_epoch_fenced:
  assumes "is_ok (replay_and_verify H d)" "db_user_version d \<noteq> e"
  shows "\<exists>m. fence H ow to e now d = Inl (CycleLeaseLostError m)"
proof -
  obtain held where h: "held_lease d = Inr held" using verified_lease_reads [OF assms(1)] by blast
  show ?thesis
  proof (cases held)
    case None
    then show ?thesis by (simp add: fence_def h)
  next
    case (Some l)
    then have "ls_epoch l = None \<or> ls_epoch l = Some (db_user_version d)"
      using verified_lease_epoch [OF assms(1)] h by simp
    then have "\<not> is_holder H ow to e l" using assms(2) by (auto simp: is_holder_def)
    then show ?thesis by (simp add: fence_def h Some ensure_def)
  qed
qed

text \<open>
  C15: the fence holds. When a lease was acquired with one epoch and, any run of calls later,
  with another, the second epoch is larger, and from then on, after any further run of calls, a
  transaction under the first epoch fails with the lease lost before any of its work runs,
  whatever owner, token, time and work it brings.
\<close>

theorem lost_lease_fenced:
  assumes "acquire_cycle_lease_epoch H a d0 = Inr (d1, Some e1)" "store_run H d1 d2"
    "acquire_cycle_lease_epoch H b d2 = Inr (d3, Some e2)" "e1 \<noteq> e2" "store_run H d3 d4"
    "is_ok (prepare_fence ow to (VInt e1) now)"
  shows "e1 < e2 \<and> (\<exists>m. cycle_lease_transaction H ow to (VInt e1) now work d4 = Inl (CycleLeaseLostError m))"
proof -
  have lt: "e1 < e2" using acquired(1) [OF assms(1)] epoch_monotone [OF assms(2)] acquired(2) [OF assms(3)] assms(4) by simp
  have v: "is_ok (replay_and_verify H d4)" by (rule run_keeps_verified [OF assms(5) acquired(3) [OF assms(3)]])
  have "e2 \<le> db_user_version d4" using acquired(1) [OF assms(3)] epoch_monotone [OF assms(5)] by simp
  then have ne: "db_user_version d4 \<noteq> e1" using lt by simp
  obtain o1 t1 u where p: "prepare_fence ow to (VInt e1) now = Inr (o1, t1, e1, u)"
    using assms(6) by (auto simp: is_ok_iff prepare_fence_def positive_epoch_def split: if_splits)
  obtain m where "fence H o1 t1 e1 u d4 = Inl (CycleLeaseLostError m)" using stale_epoch_fenced [OF v ne] by blast
  then have "\<exists>m. fenced H (o1, t1, e1, u) work d4 = Inl (CycleLeaseLostError m)"
    using v by (auto simp: fenced_def mutation_def is_ok_iff)
  then show ?thesis using lt p by (simp add: cycle_lease_transaction_def)
qed

section \<open>Mutual exclusion\<close>

text \<open>
  C38: a live lease excludes. While the stored lease has not expired, an acquisition by anyone
  but its holder returns no epoch and leaves the database as it is.
\<close>

theorem live_lease_excludes:
  assumes "is_ok (replay_and_verify H d)" "held_lease d = Inr (Some l)" "normalize_lease a = Inr n"
    "ln_now n < ls_expires l"
    "\<And>e. \<not> is_holder H (ln_owner n) (ln_token n) e l"
    "\<not> (ls_epoch l = None \<and> ls_owner l = ln_owner n \<and> ls_token l = ln_token n)"
  shows "acquire_cycle_lease_epoch H a d = Inr (d, None)"
proof -
  have c: "cycle_lease_epoch d = Inr (db_user_version d)"
    using assms(1) by (auto simp: is_ok_iff replay_and_verify_def validate_schema_and_identity_def validate_lease_def
        cycle_lease_epoch_def split: if_splits)
  have nf: "\<not> (case ls_epoch l of None \<Rightarrow> False
              | Some e \<Rightarrow> ls_owner l = ln_owner n \<and> ls_token l = cycle_lease_storage_token H (ln_token n) e)"
    using assms(5) by (auto simp: is_holder_def split: option.splits)
  have "acquisition_epoch H n (db_user_version d) (Some l) = Inr None"
    unfolding acquisition_epoch_def Let_def using nf assms(4,6) by simp
  then have "acquire_body H n s d = Inr (d, None)" for s by (simp add: acquire_body_def c assms(2))
  then show ?thesis using assms(1,3) by (auto simp: acquire_cycle_lease_epoch_def mutation_def is_ok_iff)
qed

section \<open>The holder of a lease enters\<close>

lemma code_digit_char: "k < 10 \<Longrightarrow> code (digit_char k) = 48 + k"
  by (simp add: code_def digit_char_def)

lemma is_digit_digit_char: "k < 10 \<Longrightarrow> is_digit (digit_char k)"
  by (simp add: is_digit_def code_digit_char)

lemma nat_of_digits_append: "nat_of_digits v (xs @ [c]) = nat_of_digits v xs * 10 + (int (code c) - 48)"
  by (induction xs arbitrary: v) auto

lemma show_nat_digits: "list_all is_digit (show_nat n) \<and> show_nat n \<noteq> [] \<and> nat_of_digits 0 (show_nat n) = int n
    \<and> (0 < n \<longrightarrow> hd (show_nat n) \<noteq> CHR ''0'')"
proof (induction n rule: less_induct)
  case (less n)
  have z: "0 < k \<Longrightarrow> k < 10 \<Longrightarrow> digit_char k \<noteq> CHR ''0''" for k
  proof
    assume "0 < k" "k < 10" "digit_char k = CHR ''0''"
    moreover have "code (CHR ''0'') = 48" by (simp add: code_def)
    ultimately show False using code_digit_char [of k] by simp
  qed
  show ?case
  proof (cases "n < 10")
    case True
    then show ?thesis using z by (simp add: show_nat.simps [of n] is_digit_digit_char code_digit_char)
  next
    case False
    then have "n div 10 < n" "0 < n div 10" by auto
    note IH = less [OF this(1)]
    have "int (n div 10) * 10 + int (n mod 10) = int n"
      unfolding of_nat_mult [symmetric] of_nat_add [symmetric] by presburger
    then show ?thesis using False IH \<open>0 < n div 10\<close>
      by (simp add: show_nat.simps [of n] nat_of_digits_append is_digit_digit_char code_digit_char)
  qed
qed

text \<open>SHA-256 in hexadecimal: 64 digits of base 16.\<close>

definition hex_digest :: "sha256 \<Rightarrow> bool" where
  "hex_digest H \<longleftrightarrow> (\<forall>s. length (sha_text H s) = 64 \<and> list_all is_hex (sha_text H s))"

lemma colon_not_digit: "\<not> is_digit (CHR '':'')"
  by code_simp

lemma token_epoch_round_trip:
  assumes "hex_digest H" "0 < e" "e \<le> MAX_CYCLE_LEASE_EPOCH"
  shows "cycle_lease_token_epoch (cycle_lease_storage_token H token e) = Inr (Some e)"
proof -
  let ?ds = "show_nat (nat e)" and ?h = "sha_text H token" and ?p = "LEASE_TOKEN_PREFIX @ '':''"
  have s: "show_int e = ?ds" using assms(2) by (simp add: show_int_def)
  note D = show_nat_digits [of "nat e"]
  have t: "cycle_lease_storage_token H token e = ?p @ ?ds @ '':'' @ ?h" by (simp add: cycle_lease_storage_token_def s)
  have "takeWhile is_digit (?ds @ '':'' @ ?h) = ?ds" "dropWhile is_digit (?ds @ '':'' @ ?h) = '':'' @ ?h"
    using D colon_not_digit by (simp_all add: takeWhile_append dropWhile_append list_all_iff)
  moreover have "starts_with ?p (?p @ x)" "drop (length ?p) (?p @ x) = x" for x by (simp_all add: starts_with_def)
  moreover have "length ?h = 64" "list_all is_hex ?h" using assms(1) by (auto simp: hex_digest_def)
  ultimately show ?thesis
    unfolding t cycle_lease_token_epoch_def Let_def using D assms(2,3) by simp
qed

lemma nat_of_digits_ge: "list_all is_digit s \<Longrightarrow> 0 \<le> v \<Longrightarrow> v \<le> nat_of_digits v s"
proof (induction s arbitrary: v)
  case (Cons c s)
  then have c: "48 \<le> code c" by (simp add: is_digit_def Let_def)
  then have "v * 10 + (int (code c) - 48) \<le> nat_of_digits (v * 10 + (int (code c) - 48)) s"
    using Cons by auto
  then show ?case using c Cons.prems(2) by simp
qed simp

lemma token_epoch_positive:
  assumes "cycle_lease_token_epoch t = Inr (Some e)" shows "0 < e"
proof -
  let ?ds = "takeWhile is_digit (drop (length (LEASE_TOKEN_PREFIX @ '':'')) t)"
  have e: "e = nat_of_digits 0 ?ds" "?ds \<noteq> []" "hd ?ds \<noteq> CHR ''0''"
    using assms by (auto simp: cycle_lease_token_epoch_def Let_def split: if_splits)
  then obtain c s where c: "?ds = c # s" by (cases ?ds) auto
  have d: "list_all is_digit (c # s)" unfolding c [symmetric] by (auto simp: list_all_iff dest: set_takeWhileD)
  have "code c \<noteq> 48"
  proof
    assume "code c = 48"
    then have "c = char_of (48 :: nat)" by (metis code_def char_of_char)
    moreover have "char_of (48 :: nat) = CHR ''0''" by code_simp
    ultimately show False using e(3) c by simp
  qed
  then have "49 \<le> code c" using d by (auto simp: is_digit_def Let_def)
  then have "0 < nat_of_digits 0 (c # s)" using nat_of_digits_ge [of s "int (code c) - 48"] d by simp
  then show ?thesis unfolding e(1) c .
qed

lemma lease_epoch_positive:
  assumes "cycle_lease_metadata v = Inr l" "ls_epoch l = Some e" shows "0 < e"
proof -
  obtain p where "lease_of_payload v p = Inr l"
    using assms(1) by (auto simp: cycle_lease_metadata_def catch_def split: sum.splits option.splits json.splits)
  then show ?thesis using assms(2) by (auto simp: lease_of_payload_def intro: token_epoch_positive split: prod.splits)
qed

lemma held_epoch_positive: "held_lease d = Inr (Some l) \<Longrightarrow> ls_epoch l = Some e \<Longrightarrow> 0 < e"
  by (auto simp: held_lease_def intro: lease_epoch_positive split: option.splits)

lemma verified_counter:
  assumes "is_ok (replay_and_verify H x)" shows "0 \<le> db_user_version x \<and> db_user_version x \<le> MAX_CYCLE_LEASE_EPOCH"
  using assms by (auto simp: is_ok_iff replay_and_verify_def validate_schema_and_identity_def validate_lease_def
      cycle_lease_epoch_def split: if_splits)

lemma canonical_expiry:
  assumes "normalize_lease a = Inr n" "in_dt_range (ln_expires n)" shows "parse_z (ln_expires_text n) = Some (ln_expires n)"
proof -
  have "ln_expires_text n = iso_z (ln_expires n)"
    using assms(1) by (auto simp: normalize_lease_def canonical_timestamp_def
        split: timestamp.splits option.splits pydatetime.splits if_splits)
  then show ?thesis using parse_iso [OF assms(2)] by simp
qed

text \<open>
  An acquired lease admits its holder. After an acquisition that returned an epoch, the
  fence of that owner, token and epoch passes at every instant before the expiry that was asked
  for, and at none from the expiry on; the digest is 64 hexadecimal digits.
\<close>

theorem acquired_lease_admits:
  assumes "acquire_cycle_lease_epoch H a d = Inr (d1, Some e)" "normalize_lease a = Inr n" "in_dt_range (ln_expires n)"
    "hex_digest H"
  shows "fence H (ln_owner n) (ln_token n) e now d1 =
    (if now < ln_expires n then Inr () else Inl (CycleLeaseLostError ''paper cycle lease ownership or epoch was lost''))"
proof -
  obtain s where b: "acquire_body H n s d = Inr (d1, Some e)" "is_ok (replay_and_verify H d1)" "is_ok (replay_and_verify H d)"
    using assms(1,2) by (auto simp: acquire_cycle_lease_epoch_def mutation_Inr is_ok_iff)
  from acquire_body_Inr [OF b(1)] obtain held v where
    q: "acquisition_epoch H n (db_user_version d) held = Inr (Some e)" and h: "held_lease d = Inr held"
    and v: "lease_value (ln_expires_text n) (ln_owner n) (cycle_lease_storage_token H (ln_token n) e) = Inr v"
    and d1: "d1 = (set_lease (Some v) d)\<lparr>db_user_version := e\<rparr>" by auto
  obtain l where l: "cycle_lease_metadata v = Inr l" "held_lease d1 = Inr (Some l)"
    using verified_lease_reads [OF b(2)] by (auto simp: held_lease_def d1 set_lease_def)
  note r = lease_value_reads [OF v l(1)]
  have le: "e \<le> MAX_CYCLE_LEASE_EPOCH" using verified_counter [OF b(2)] by (simp add: d1)
  have "0 < e"
    using acquisition_epoch_Some [OF q] verified_counter [OF b(3)] held_epoch_positive h
    by (auto simp: is_holder_def)
  then have "ls_epoch l = Some e" using r token_epoch_round_trip [OF assms(4) _ le] by simp
  then have "is_holder H (ln_owner n) (ln_token n) e l" using r by (simp add: is_holder_def)
  moreover have "ls_expires l = ln_expires n" using r canonical_expiry [OF assms(2,3)] by simp
  ultimately show ?thesis by (simp add: fence_def l(2) ensure_def)
qed

section \<open>A concrete handover\<close>

definition hex_sha :: sha256 where
  "hex_sha = \<lparr> sha_text = (\<lambda>s. replicate 64 (CHR ''0'')), sha_json = (\<lambda>j. ''1''), sha_fill = (\<lambda>s j. ''2'') \<rparr>"

definition lease_a :: lease_args where
  "lease_a = \<lparr> la_owner = ''a'', la_token = ''t'', la_now = TsText ''2024-01-01T00:00:00Z'',
     la_expires = TsText ''2024-01-01T01:00:00Z'' \<rparr>"

definition lease_b :: lease_args where
  "lease_b = lease_a\<lparr>la_owner := ''b'', la_now := TsText ''2024-01-01T02:00:00Z'', la_expires := TsText ''2024-01-01T03:00:00Z''\<rparr>"

definition norm_a :: lease_norm where
  "norm_a = \<lparr> ln_owner = ''a'', ln_token = ''t'', ln_now = 1704067200000000,
     ln_expires_text = ''2024-01-01T01:00:00Z'', ln_expires = 1704070800000000 \<rparr>"

definition norm_b :: lease_norm where
  "norm_b = \<lparr> ln_owner = ''b'', ln_token = ''t'', ln_now = 1704074400000000,
     ln_expires_text = ''2024-01-01T03:00:00Z'', ln_expires = 1704078000000000 \<rparr>"

definition token_of :: "int \<Rightarrow> string" where
  "token_of e = LEASE_TOKEN_PREFIX @ '':'' @ show_int e @ '':'' @ replicate 64 (CHR ''0'')"

definition value_of :: "string \<Rightarrow> string \<Rightarrow> int \<Rightarrow> json_text" where
  "value_of t ow e = Compact (JObj [(''expires_at_utc'', JStr t), (''owner'', JStr ow), (''token'', JStr (token_of e))])"

lemma handover_arguments:
  "normalize_lease lease_a = Inr norm_a" "normalize_lease lease_b = Inr norm_b"
  "cycle_lease_metadata (value_of ''2024-01-01T01:00:00Z'' ''a'' 1) =
     Inr \<lparr> ls_owner = ''a'', ls_token = token_of 1, ls_expires = 1704070800000000, ls_epoch = Some 1 \<rparr>"
  "cycle_lease_metadata (value_of ''2024-01-01T03:00:00Z'' ''b'' 2) =
     Inr \<lparr> ls_owner = ''b'', ls_token = token_of 2, ls_expires = 1704078000000000, ls_epoch = Some 2 \<rparr>"
  by code_simp+

lemma verified_with_lease:
  assumes "is_ok (replay_and_verify H d)" "validate_lease ((set_lease v d)\<lparr>db_user_version := e\<rparr>) = Inr ()"
  shows "is_ok (replay_and_verify H ((set_lease v d)\<lparr>db_user_version := e\<rparr>))"
proof -
  have "rebuild_from_events H ((set_lease v d)\<lparr>db_user_version := e\<rparr>) = rebuild_from_events H d"
    by (simp add: rebuild_from_events_def set_lease_def)
  moreover have "validate_metadata ((db_metadata d)\<lparr>md_cycle_lease := v\<rparr>) = validate_metadata (db_metadata d)"
    by (simp add: validate_metadata_def)
  ultimately show ?thesis
    using assms by (auto simp: replay_and_verify_def validate_schema_and_identity_def is_ok_iff set_lease_def)
qed

definition handover_db :: "db \<Rightarrow> string \<Rightarrow> string \<Rightarrow> int \<Rightarrow> db" where
  "handover_db d t ow e = (set_lease (Some (value_of t ow e)) d)\<lparr>db_user_version := e\<rparr>"

lemma handover_value: "lease_value t ow (token_of e) = Inr (value_of t ow e)"
  by (simp add: lease_value_def canonical_json_value_def value_of_def)

lemma hex_token: "cycle_lease_storage_token hex_sha tok e = token_of e"
  by (simp add: cycle_lease_storage_token_def token_of_def hex_sha_def)

lemma handover_first:
  assumes "created_db hex_sha = Inr d"
  shows "acquire_cycle_lease_epoch hex_sha lease_a d = Inr (handover_db d ''2024-01-01T01:00:00Z'' ''a'' 1, Some 1)"
proof -
  have v: "is_ok (replay_and_verify hex_sha d)" by (rule created_verified(1) [OF assms])
  have z: "db_user_version d = 0" "md_cycle_lease (db_metadata d) = None"
    using assms by (auto simp: created_db_def)
  have "is_ok (replay_and_verify hex_sha (handover_db d ''2024-01-01T01:00:00Z'' ''a'' 1))"
    unfolding handover_db_def by (rule verified_with_lease [OF v])
      (simp add: validate_lease_def set_lease_def cycle_lease_epoch_def handover_arguments MAX_CYCLE_LEASE_EPOCH_def)
  moreover have "acquire_body hex_sha norm_a s d = Inr (handover_db d ''2024-01-01T01:00:00Z'' ''a'' 1, Some 1)" for s
    by (simp add: acquire_body_def cycle_lease_epoch_def z held_lease_def acquisition_epoch_def next_cycle_lease_epoch_def
        MAX_CYCLE_LEASE_EPOCH_def hex_token norm_a_def handover_value handover_db_def)
  ultimately show ?thesis using v by (auto simp: acquire_cycle_lease_epoch_def handover_arguments mutation_Inr is_ok_iff)
qed

lemma handover_held:
  "held_lease (handover_db d ''2024-01-01T01:00:00Z'' ''a'' 1) =
     Inr (Some \<lparr> ls_owner = ''a'', ls_token = token_of 1, ls_expires = 1704070800000000, ls_epoch = Some 1 \<rparr>)"
  by (simp add: held_lease_def handover_db_def set_lease_def handover_arguments)

lemma handover_second:
  assumes "created_db hex_sha = Inr d"
  shows "acquire_cycle_lease_epoch hex_sha lease_b (handover_db d ''2024-01-01T01:00:00Z'' ''a'' 1)
    = Inr (handover_db d ''2024-01-01T03:00:00Z'' ''b'' 2, Some 2)"
proof -
  let ?d = "handover_db d ''2024-01-01T01:00:00Z'' ''a'' 1"
  have v0: "is_ok (replay_and_verify hex_sha d)" by (rule created_verified(1) [OF assms])
  have v: "is_ok (replay_and_verify hex_sha ?d)" by (rule acquired(3) [OF handover_first [OF assms]])
  have "is_ok (replay_and_verify hex_sha (handover_db d ''2024-01-01T03:00:00Z'' ''b'' 2))"
    unfolding handover_db_def by (rule verified_with_lease [OF v0])
      (simp add: validate_lease_def set_lease_def cycle_lease_epoch_def handover_arguments MAX_CYCLE_LEASE_EPOCH_def)
  moreover have "db_user_version ?d = 1" by (simp add: handover_db_def)
  moreover have "(set_lease (Some (value_of t b 2)) ?d)\<lparr>db_user_version := 2\<rparr> = handover_db d t b 2" for t b
    by (simp add: handover_db_def set_lease_def)
  ultimately have "acquire_body hex_sha norm_b s ?d = Inr (handover_db d ''2024-01-01T03:00:00Z'' ''b'' 2, Some 2)" for s
    by (simp add: acquire_body_def cycle_lease_epoch_def handover_held acquisition_epoch_def next_cycle_lease_epoch_def
        MAX_CYCLE_LEASE_EPOCH_def hex_token norm_b_def handover_value)
  then show ?thesis
    using v \<open>is_ok (replay_and_verify hex_sha (handover_db d ''2024-01-01T03:00:00Z'' ''b'' 2))\<close>
    by (auto simp: acquire_cycle_lease_epoch_def handover_arguments mutation_Inr is_ok_iff)
qed

theorem lost_lease_fenced_witness:
  "\<exists>d m. cycle_lease_transaction hex_sha ''a'' ''t'' (VInt 1) (TsText ''2024-01-01T02:00:00Z'') (\<lambda>e. Inr (e, ())) d
     = Inl (CycleLeaseLostError m)"
proof -
  obtain d where d: "created_db hex_sha = Inr d" using created_db_Inr by blast
  have "is_ok (prepare_fence ''a'' ''t'' (VInt 1) (TsText ''2024-01-01T02:00:00Z''))" by code_simp
  from lost_lease_fenced [OF handover_first [OF d] run_done handover_second [OF d] _ run_done this,
      where work = "\<lambda>e. Inr (e, ())"] show ?thesis by auto
qed

theorem live_lease_excludes_witness:
  "\<exists>d. acquire_cycle_lease_epoch hex_sha (lease_b\<lparr>la_now := TsText ''2024-01-01T00:00:00Z''\<rparr>) d = Inr (d, None)"
proof -
  obtain d where d: "created_db hex_sha = Inr d" using created_db_Inr by blast
  let ?d = "handover_db d ''2024-01-01T01:00:00Z'' ''a'' 1"
  have n: "normalize_lease (lease_b\<lparr>la_now := TsText ''2024-01-01T00:00:00Z''\<rparr>) = Inr (norm_b\<lparr>ln_now := 1704067200000000\<rparr>)"
    by code_simp
  have "acquire_cycle_lease_epoch hex_sha (lease_b\<lparr>la_now := TsText ''2024-01-01T00:00:00Z''\<rparr>) ?d = Inr (?d, None)"
    by (rule live_lease_excludes [OF acquired(3) [OF handover_first [OF d]] handover_held n])
      (simp_all add: norm_b_def is_holder_def)
  then show ?thesis by blast
qed

theorem acquired_lease_admits_witness:
  "\<exists>d. fence hex_sha ''a'' ''t'' 1 1704070799999999 d = Inr () \<and> fence hex_sha ''a'' ''t'' 1 1704070800000000 d \<noteq> Inr ()"
proof -
  obtain d where d: "created_db hex_sha = Inr d" using created_db_Inr by blast
  have r: "in_dt_range (ln_expires norm_a)" by code_simp
  have "is_hex (CHR ''0'')" by code_simp
  then have x: "hex_digest hex_sha" by (simp add: hex_digest_def hex_sha_def list_all_iff)
  note g = acquired_lease_admits [OF handover_first [OF d] handover_arguments(1) r x]
  show ?thesis using g [of 1704070799999999] g [of 1704070800000000]
    by (intro exI [of _ "handover_db d ''2024-01-01T01:00:00Z'' ''a'' 1"]) (simp add: norm_a_def)
qed

end
