(* ===== verification/Encoding_Correct.thy ===== *)
theory Encoding_Correct
  imports Store_Runs
begin

text \<open>
  The encodings of the store lose nothing: timestamps, decimals and canonical JSON read back as
  what was written.
\<close>

text \<open>
  Timestamps round trip. The canonical text of every instant of the calendar is accepted
  by the store and reads back as that instant, and a stored text is accepted only as the
  canonical text of the instant that it reads as.
\<close>

theorem timestamp_round_trip:
  "(in_dt_range t \<longrightarrow> parse_stored_timestamp (iso_z t) = Inr (iso_z t, t))
   \<and> (parse_stored_timestamp v = Inr (w, u) \<longrightarrow> w = v \<and> iso_z u = v)"
  using parse_iso [of t] by (auto simp: parse_stored_timestamp_def split: option.splits if_splits)

theorem timestamp_round_trip_witness:
  "parse_stored_timestamp (iso_z 1704067200000001) = Inr (iso_z 1704067200000001, 1704067200000001)"
  using timestamp_round_trip [of 1704067200000001] by (simp add: in_dt_range_def dt_min_def dt_max_def)

text \<open>
  The decimals of the ledger are exact images of its floats. A machine float converts to
  a decimal that converts back to the same float, and decimals compare as the floats do, so
  that a check in decimals is the check on the floats.
\<close>

theorem decimal_round_trip:
  assumes "wf_float x" "isfinite x" "wf_float y" "isfinite y"
  shows "float_of_dec (dec_of_float x) = x \<and> (dec_of_float x \<le> dec_of_float y \<longleftrightarrow> x \<le> y)"
proof -
  have "dec_of_float x \<le> dec_of_float y \<longleftrightarrow> x \<le> y"
  proof (cases "x \<le> y")
    case True
    then show ?thesis using dec_of_float_le assms by auto
  next
    case False
    then have "y < x" using assms by (simp add: fl_ord)
    then have "dval (dec_of_float y) < dval (dec_of_float x)" using dec_of_float_less assms by blast
    then show ?thesis using False by simp
  qed
  then show ?thesis using float_of_dec_of_float assms by blast
qed

theorem decimal_round_trip_witness:
  "float_of_dec (dec_of_float (flit 1 10)) = flit 1 10 \<and> (dec_of_float (flit 1 10) \<le> dec_of_float (flit 1 2) \<longleftrightarrow> flit 1 10 \<le> flit 1 2)"
proof -
  have "isfinite (flit 1 10)" "isfinite (flit 1 2)" by code_simp+
  then show ?thesis by (intro decimal_round_trip) simp_all
qed

text \<open>
  Canonical JSON is stable. A canonical text reads as a value whose canonical text is the
  same text, so that a payload that was written passes the canonical check of every replay.
\<close>

theorem canonical_json_stable:
  assumes "canonical_json_value v = Inr t"
  shows "\<exists>w. json_loads t = Some w \<and> canonical_json_value w = Inr t"
  using canonical_stable [OF assms] by metis

theorem canonical_json_stable_witness:
  "\<exists>w. json_loads (Compact (JObj [(''a'', JInt 1), (''b'', JList [])])) = Some w
    \<and> canonical_json_value w = Inr (Compact (JObj [(''a'', JInt 1), (''b'', JList [])]))"
  by (rule canonical_json_stable [of "JObj [(''b'', JTuple []), (''a'', JInt 1)]"]) code_simp

end
