(* ===== verification/HealthState.thy ===== *)
theory HealthState
  imports Store
begin

text \<open>
  The data of the paper-system health breakers, \<open>src/autobit/paper/health.py\<close>: the immutable
  snapshot with its derived reasons and action, the mapping it is stored as, and the strict
  parser that reads a mapping back and rejects contradictory evidence. A parsed snapshot is
  always of version three; a mapping of version two lacks the keys of fill recovery.

  Timestamps are UTC instants. The texts of the source's messages are kept where they name
  the broken rule.
\<close>

section \<open>Constants and data\<close>

definition HEALTH_REASON_ORDER :: "string list" where
  "HEALTH_REASON_ORDER = [''API_FAILURES'', ''STALE_CANDLE'', ''TIMESTAMP_REVERSAL'', ''SCHEMA_ERROR'',
     ''UNRESOLVED_ORDER'', ''LEDGER_MISMATCH'', ''FILL_DEVIATION'']"

definition HEALTH_VERSION :: int where "HEALTH_VERSION = 3"
definition LEGACY_VERSION :: int where "LEGACY_VERSION = 2"
definition API_SUCCESSES_REQUIRED :: int where "API_SUCCESSES_REQUIRED = 3"
definition LEDGER_TOLERANCE :: pyfloat where "LEDGER_TOLERANCE = flit 1 10000000000"
definition FILL_DEVIATION_LIMIT :: pyfloat where "FILL_DEVIATION_LIMIT = flit 5 100"
definition FILL_DEVIATION_LIMIT_DECIMAL :: decimal where "FILL_DEVIATION_LIMIT_DECIMAL = Dec (5, - 2)"
definition STALE_AFTER :: timedelta where "STALE_AFTER = minutes 10"
definition FILL_RECOVERY_EVENT_SUFFIX :: string where "FILL_RECOVERY_EVENT_SUFFIX = '':fill-recovery-v1:''"

definition SNAPSHOT_V2_KEYS :: "string list" where
  "SNAPSHOT_V2_KEYS = [''version'', ''stage'', ''reasons'', ''halt_entries'', ''resume_reduced'', ''api_failures'',
     ''api_successes'', ''api_failure_latched'', ''api_latch_activated_at_utc'', ''unresolved_orders'',
     ''ledger_matches'', ''ledger_cash_difference'', ''ledger_btc_difference'', ''timestamps_monotonic'',
     ''schema_valid'', ''latest_candle_valid'', ''fill_within_limit'', ''fill_deviation'', ''retry_attempts'',
     ''last_success_at_utc'', ''last_failure_at_utc'', ''last_observation_at_utc'']"

definition FILL_KEYS :: "string list" where
  "FILL_KEYS = [''fill_anomaly_episode'', ''fill_recovery_checks'', ''fill_anomaly_deviation'',
     ''fill_anomaly_detected_at_utc'', ''fill_anomaly_resolved_at_utc'', ''last_fill_recovery_at_utc'']"

definition SNAPSHOT_KEYS :: "string list" where
  "SNAPSHOT_KEYS = SNAPSHOT_V2_KEYS @ FILL_KEYS"

datatype health_stage = NORMAL | HALTED_STAGE | REDUCED

fun stage_value :: "health_stage \<Rightarrow> string" where
  "stage_value NORMAL = ''NORMAL''"
| "stage_value HALTED_STAGE = ''HALTED''"
| "stage_value REDUCED = ''REDUCED''"

record recovery_progress =
  pg_successes_observed :: int
  pg_successes_required :: int
  pg_remaining_gates :: "string list"

record health_action =
  ha_halt_entries :: bool
  ha_resume_reduced :: bool
  ha_reason :: "string option"
  ha_reasons :: "string list"
  ha_retry_delay_seconds :: int
  ha_stage :: health_stage
  ha_progress :: recovery_progress

record health_snapshot =
  hs_version :: int
  hs_stage :: health_stage
  hs_reasons :: "string list"
  hs_api_failures :: int
  hs_api_successes :: int
  hs_api_failure_latched :: bool
  hs_api_latch_activated_at_utc :: "instant option"
  hs_unresolved_orders :: int
  hs_ledger_matches :: bool
  hs_ledger_cash_difference :: pyfloat
  hs_ledger_btc_difference :: pyfloat
  hs_timestamps_monotonic :: bool
  hs_schema_valid :: bool
  hs_latest_candle_valid :: bool
  hs_fill_within_limit :: bool
  hs_fill_deviation :: pyfloat
  hs_fill_anomaly_episode :: int
  hs_fill_recovery_checks :: int
  hs_fill_anomaly_deviation :: pyfloat
  hs_fill_anomaly_detected_at_utc :: "instant option"
  hs_fill_anomaly_resolved_at_utc :: "instant option"
  hs_last_fill_recovery_at_utc :: "instant option"
  hs_retry_attempts :: int
  hs_last_success_at_utc :: "instant option"
  hs_last_failure_at_utc :: "instant option"
  hs_last_observation_at_utc :: "instant option"

text \<open>\<open>HealthSnapshot()\<close>.\<close>

definition healthy :: health_snapshot where
  "healthy = \<lparr> hs_version = HEALTH_VERSION, hs_stage = NORMAL, hs_reasons = [], hs_api_failures = 0,
     hs_api_successes = 0, hs_api_failure_latched = False, hs_api_latch_activated_at_utc = None,
     hs_unresolved_orders = 0, hs_ledger_matches = True, hs_ledger_cash_difference = 0,
     hs_ledger_btc_difference = 0, hs_timestamps_monotonic = True, hs_schema_valid = True,
     hs_latest_candle_valid = True, hs_fill_within_limit = True, hs_fill_deviation = 0,
     hs_fill_anomaly_episode = 0, hs_fill_recovery_checks = 0, hs_fill_anomaly_deviation = 0,
     hs_fill_anomaly_detected_at_utc = None, hs_fill_anomaly_resolved_at_utc = None,
     hs_last_fill_recovery_at_utc = None, hs_retry_attempts = 0, hs_last_success_at_utc = None,
     hs_last_failure_at_utc = None, hs_last_observation_at_utc = None \<rparr>"

section \<open>Reasons and action\<close>

definition reason_active :: "health_snapshot \<Rightarrow> string \<Rightarrow> bool" where
  "reason_active s r =
     (if r = ''API_FAILURES'' then hs_api_failure_latched s
      else if r = ''STALE_CANDLE'' then \<not> hs_latest_candle_valid s
      else if r = ''TIMESTAMP_REVERSAL'' then \<not> hs_timestamps_monotonic s
      else if r = ''SCHEMA_ERROR'' then \<not> hs_schema_valid s
      else if r = ''UNRESOLVED_ORDER'' then 0 < hs_unresolved_orders s
      else if r = ''LEDGER_MISMATCH'' then \<not> hs_ledger_matches s
      else \<not> hs_fill_within_limit s)"

definition derive_reasons :: "health_snapshot \<Rightarrow> string list" where
  "derive_reasons s = filter (reason_active s) HEALTH_REASON_ORDER"

definition retry_delay :: "int \<Rightarrow> int" where
  "retry_delay attempts = (if attempts \<le> 0 then 0 else if attempts \<le> 5 then 2 ^ nat (attempts - 1) else 300)"

definition action_of :: "health_snapshot \<Rightarrow> health_action" where
  "action_of s =
     (let reasons = derive_reasons s; halt = (hs_stage s = HALTED_STAGE)
      in \<lparr> ha_halt_entries = halt, ha_resume_reduced = (hs_stage s = REDUCED),
           ha_reason = (case reasons of [] \<Rightarrow> None | r # _ \<Rightarrow> Some r), ha_reasons = reasons,
           ha_retry_delay_seconds = (if halt then retry_delay (hs_retry_attempts s) else 0),
           ha_stage = hs_stage s,
           ha_progress = \<lparr> pg_successes_observed = hs_api_successes s,
             pg_successes_required = API_SUCCESSES_REQUIRED,
             pg_remaining_gates = reasons
               @ (if halt \<and> hs_api_successes s < API_SUCCESSES_REQUIRED then [''API_SUCCESSES''] else []) \<rparr> \<rparr>)"

section \<open>Observation times\<close>

text \<open>\<open>max\<close> of two optional times, either of which may be missing.\<close>

fun latest_observation :: "instant option \<Rightarrow> instant option \<Rightarrow> instant option" where
  "latest_observation None observed = observed"
| "latest_observation (Some c) None = Some c"
| "latest_observation (Some c) (Some t) = Some (max c t)"

definition last_api_observation :: "health_snapshot \<Rightarrow> instant option" where
  "last_api_observation s = latest_observation (hs_last_success_at_utc s) (hs_last_failure_at_utc s)"

text \<open>\<open>_utc_datetime\<close> and \<open>_optional_utc_datetime\<close>.\<close>

definition utc_datetime :: "pydatetime \<Rightarrow> string \<Rightarrow> instant res" where
  "utc_datetime v label = (case v of
     Naive _ \<Rightarrow> Inl (ValueError (label @ '' must be timezone-aware UTC''))
   | Aware l off \<Rightarrow> if off \<noteq> 0 then Inl (ValueError (label @ '' must use UTC'')) else Inr l)"

definition optional_utc_datetime :: "pydatetime option \<Rightarrow> string \<Rightarrow> instant option res" where
  "optional_utc_datetime v label = (case v of None \<Rightarrow> Inr None
     | Some d \<Rightarrow> ebind (utc_datetime d label) (\<lambda>t. Inr (Some t)))"

section \<open>The mapping\<close>

fun optional_datetime :: "instant option \<Rightarrow> json" where
  "optional_datetime None = JNull"
| "optional_datetime (Some t) = JStr (iso_z t)"

definition to_mapping :: "health_snapshot \<Rightarrow> members" where
  "to_mapping s =
     [(''version'', JInt (hs_version s)),
      (''stage'', JStr (stage_value (hs_stage s))),
      (''reasons'', JTuple (map JStr (hs_reasons s))),
      (''halt_entries'', JBool (ha_halt_entries (action_of s))),
      (''resume_reduced'', JBool (ha_resume_reduced (action_of s))),
      (''api_failures'', JInt (hs_api_failures s)),
      (''api_successes'', JInt (hs_api_successes s)),
      (''api_failure_latched'', JBool (hs_api_failure_latched s)),
      (''api_latch_activated_at_utc'', optional_datetime (hs_api_latch_activated_at_utc s)),
      (''unresolved_orders'', JInt (hs_unresolved_orders s)),
      (''ledger_matches'', JBool (hs_ledger_matches s)),
      (''ledger_cash_difference'', JFloat (hs_ledger_cash_difference s)),
      (''ledger_btc_difference'', JFloat (hs_ledger_btc_difference s)),
      (''timestamps_monotonic'', JBool (hs_timestamps_monotonic s)),
      (''schema_valid'', JBool (hs_schema_valid s)),
      (''latest_candle_valid'', JBool (hs_latest_candle_valid s)),
      (''fill_within_limit'', JBool (hs_fill_within_limit s)),
      (''fill_deviation'', JFloat (hs_fill_deviation s)),
      (''fill_anomaly_episode'', JInt (hs_fill_anomaly_episode s)),
      (''fill_recovery_checks'', JInt (hs_fill_recovery_checks s)),
      (''fill_anomaly_deviation'', JFloat (hs_fill_anomaly_deviation s)),
      (''fill_anomaly_detected_at_utc'', optional_datetime (hs_fill_anomaly_detected_at_utc s)),
      (''fill_anomaly_resolved_at_utc'', optional_datetime (hs_fill_anomaly_resolved_at_utc s)),
      (''last_fill_recovery_at_utc'', optional_datetime (hs_last_fill_recovery_at_utc s)),
      (''retry_attempts'', JInt (hs_retry_attempts s)),
      (''last_success_at_utc'', optional_datetime (hs_last_success_at_utc s)),
      (''last_failure_at_utc'', optional_datetime (hs_last_failure_at_utc s)),
      (''last_observation_at_utc'', optional_datetime (hs_last_observation_at_utc s))]"

text \<open>\<open>_to_storage_mapping\<close>: without the keys of fill recovery, marked version two.\<close>

definition to_storage_mapping :: "health_snapshot \<Rightarrow> members" where
  "to_storage_mapping s =
     map (\<lambda>(k, v). (k, if k = ''version'' then JInt LEGACY_VERSION else v))
       (filter (\<lambda>(k, v). k \<notin> set FILL_KEYS) (to_mapping s))"

section \<open>Strict values\<close>

definition strict_stage :: "json \<Rightarrow> health_stage res" where
  "strict_stage v = (case v of
     JStr s \<Rightarrow> (if s = ''NORMAL'' then Inr NORMAL else if s = ''HALTED'' then Inr HALTED_STAGE
       else if s = ''REDUCED'' then Inr REDUCED else Inl (HealthStateError ''health stage is invalid''))
   | _ \<Rightarrow> Inl (HealthStateError ''health stage must be a string''))"

fun json_strings :: "json list \<Rightarrow> string list option" where
  "json_strings [] = Some []"
| "json_strings (JStr s # vs) = map_option (Cons s) (json_strings vs)"
| "json_strings _ = None"

text \<open>A tuple or a list of known reasons, each once, in their order.\<close>

definition strict_reasons :: "json \<Rightarrow> string list res" where
  "strict_reasons v = (case (case v of JList vs \<Rightarrow> Some vs | JTuple vs \<Rightarrow> Some vs | _ \<Rightarrow> None) of
     None \<Rightarrow> Inl (HealthStateError ''health reasons must be a sequence'')
   | Some vs \<Rightarrow> (case json_strings vs of
       None \<Rightarrow> Inl (HealthStateError ''health reason must be a string'')
     | Some rs \<Rightarrow> if rs = filter (\<lambda>r. r \<in> set rs) HEALTH_REASON_ORDER then Inr rs
         else Inl (HealthStateError ''health reasons are unknown, duplicated, or unordered'')))"

definition strict_int :: "json \<Rightarrow> string \<Rightarrow> int res" where
  "strict_int v label = (case v of
     JInt n \<Rightarrow> if n < 0 then Inl (HealthStateError (label @ '' must be a non-negative integer'')) else Inr n
   | _ \<Rightarrow> Inl (HealthStateError (label @ '' must be a non-negative integer'')))"

definition strict_bool :: "json \<Rightarrow> string \<Rightarrow> bool res" where
  "strict_bool v label = (case v of JBool b \<Rightarrow> Inr b | _ \<Rightarrow> Inl (HealthStateError (label @ '' must be a bool'')))"

text \<open>
  The numbers of an observation: an int, a float or a finite decimal. \<open>HOther\<close> is any other
  object, a bool among them, and a decimal that is no finite number; all of these are
  rejected with \<open>ValueError\<close>.
\<close>

datatype health_number = HInt int | HFloat pyfloat | HDecimal decimal | HOther

fun float_of_number :: "health_number \<Rightarrow> pyfloat option" where
  "float_of_number (HInt n) = (case float_of_int n of Inl _ \<Rightarrow> None | Inr x \<Rightarrow> Some x)"
| "float_of_number (HFloat x) = Some x"
| "float_of_number (HDecimal d) = Some (float_of_dec d)"
| "float_of_number HOther = None"

definition health_finite_number :: "health_number \<Rightarrow> string \<Rightarrow> pyfloat res" where
  "health_finite_number v label = (case float_of_number v of
     None \<Rightarrow> Inl (ValueError (label @ '' must be finite''))
   | Some x \<Rightarrow> if isfinite x then Inr x else Inl (ValueError (label @ '' must be finite'')))"

definition health_nonnegative_number :: "health_number \<Rightarrow> string \<Rightarrow> pyfloat res" where
  "health_nonnegative_number v label = ebind (health_finite_number v label) (\<lambda>x.
     if x < 0 then Inl (ValueError (label @ '' must be non-negative'')) else Inr x)"

definition positive_finite :: "health_number \<Rightarrow> string \<Rightarrow> pyfloat res" where
  "positive_finite v label = ebind (health_finite_number v label) (\<lambda>x.
     if x \<le> 0 then Inl (ValueError (label @ '' must be finite and positive'')) else Inr x)"

text \<open>\<open>Decimal(str(value))\<close>.\<close>

fun dec_of_number :: "health_number \<Rightarrow> decimal" where
  "dec_of_number (HInt n) = Dec (bnorm 10 n 0)"
| "dec_of_number (HFloat x) = dec_of_float x"
| "dec_of_number (HDecimal d) = d"
| "dec_of_number HOther = 0"

text \<open>The message of a \<open>ValueError\<close>, which \<open>_nonnegative_finite\<close> hands on.\<close>

fun exn_text :: "exn \<Rightarrow> string" where
  "exn_text (ValueError m) = m"
| "exn_text (HealthStateError m) = m"
| "exn_text _ = []"

definition nonnegative_finite :: "json \<Rightarrow> string \<Rightarrow> pyfloat res" where
  "nonnegative_finite v label =
     (let checked = (\<lambda>n. catch is_value_error (health_nonnegative_number n label)
            (\<lambda>e. Inl (HealthStateError (exn_text e))))
      in case v of JInt n \<Rightarrow> checked (HInt n) | JFloat x \<Rightarrow> checked (HFloat x)
         | _ \<Rightarrow> Inl (HealthStateError (label @ '' must be an int or float'')))"

definition optional_canonical_datetime :: "json \<Rightarrow> string \<Rightarrow> instant option res" where
  "optional_canonical_datetime v label =
     (let err = Inl (HealthStateError (label @ '' must be canonical UTC''))
      in case v of JNull \<Rightarrow> Inr None
         | JStr s \<Rightarrow> (case parse_z s of None \<Rightarrow> err | Some t \<Rightarrow> if iso_z t = s then Inr (Some t) else err)
         | _ \<Rightarrow> err)"

section \<open>Contradictions\<close>

text \<open>Comparisons with a time that may be missing, under the source's guards.\<close>

definition before :: "instant option \<Rightarrow> instant option \<Rightarrow> bool" where
  "before a b = (case (a, b) of (Some x, Some y) \<Rightarrow> x < y | _ \<Rightarrow> False)"

definition none_or_before :: "instant option \<Rightarrow> instant option \<Rightarrow> bool" where
  "none_or_before a b \<longleftrightarrow> a = None \<or> b = None \<or> before a b \<or> a = b"

definition validate_fill_relationships :: "health_snapshot \<Rightarrow> unit res" where
  "validate_fill_relationships s =
     (if hs_fill_anomaly_episode s = 0
      then ensure (\<not> (\<not> hs_fill_within_limit s \<or> hs_fill_recovery_checks s \<noteq> 0
        \<or> \<not> feq (hs_fill_anomaly_deviation s) 0 \<or> hs_fill_anomaly_detected_at_utc s \<noteq> None
        \<or> hs_fill_anomaly_resolved_at_utc s \<noteq> None \<or> hs_last_fill_recovery_at_utc s \<noteq> None))
        (HealthStateError ''fill anomaly evidence exists without an episode'')
      else
        ebind (ensure (\<not> hs_fill_anomaly_deviation s \<le> FILL_DEVIATION_LIMIT)
          (HealthStateError ''fill anomaly episode lacks trigger evidence'')) (\<lambda>_.
        ebind (if hs_fill_within_limit s
          then ensure (hs_fill_recovery_checks s = API_SUCCESSES_REQUIRED)
            (HealthStateError ''resolved fill episode lacks bounded recovery evidence'')
          else ensure (\<not> (API_SUCCESSES_REQUIRED \<le> hs_fill_recovery_checks s \<or> hs_fill_anomaly_resolved_at_utc s \<noteq> None))
            (HealthStateError ''active fill episode contradicts recovery evidence'')) (\<lambda>_.
        ebind (ensure (\<not> (0 < hs_fill_recovery_checks s \<and> hs_fill_recovery_checks s < API_SUCCESSES_REQUIRED
            \<and> hs_last_fill_recovery_at_utc s = None))
          (HealthStateError ''fill recovery counter lacks observation evidence'')) (\<lambda>_.
        ebind (ensure (\<not> before (hs_fill_anomaly_resolved_at_utc s) (hs_fill_anomaly_detected_at_utc s))
          (HealthStateError ''fill anomaly resolution predates detection'')) (\<lambda>_.
        ensure (\<not> before (hs_fill_anomaly_resolved_at_utc s) (hs_last_fill_recovery_at_utc s))
          (HealthStateError ''fill recovery cursor postdates resolution''))))))"

definition validate_api_relationships :: "health_snapshot \<Rightarrow> unit res" where
  "validate_api_relationships s =
     (let latched = hs_api_failure_latched s; activated = hs_api_latch_activated_at_utc s;
          failures = hs_api_failures s; successes = hs_api_successes s;
          last_failure = hs_last_failure_at_utc s; last_success = hs_last_success_at_utc s;
          last_observation = hs_last_observation_at_utc s; last_api = last_api_observation s in
      ebind (ensure (latched = (''API_FAILURES'' \<in> set (derive_reasons s)))
        (HealthStateError ''API latch contradicts reasons'')) (\<lambda>_.
      ebind (ensure (\<not> (latched \<and> 3 \<le> successes))
        (HealthStateError ''API latch contradicts recovery successes'')) (\<lambda>_.
      ebind (ensure (latched = (activated \<noteq> None))
        (HealthStateError ''API latch lacks activation provenance'')) (\<lambda>_.
      ebind (ensure (\<not> (activated \<noteq> None \<and> (last_failure = None \<or> before last_failure activated)))
        (HealthStateError ''API latch activation contradicts failure evidence'')) (\<lambda>_.
      ebind (ensure (\<not> (latched \<and> failures < 3 \<and> (none_or_before last_success activated
          \<or> (0 < failures \<and> none_or_before last_failure last_success))))
        (HealthStateError ''API latch provenance lacks partial recovery evidence'')) (\<lambda>_.
      ebind (ensure (\<not> (3 \<le> failures \<and> \<not> latched))
        (HealthStateError ''API failures contradict the API latch'')) (\<lambda>_.
      ebind (ensure (\<not> (0 < failures \<and> 0 < successes))
        (HealthStateError ''API failure and success counters contradict'')) (\<lambda>_.
      ebind (ensure (\<not> (0 < failures \<and> last_failure = None))
        (HealthStateError ''API failure counter lacks observation evidence'')) (\<lambda>_.
      ebind (ensure (\<not> (0 < successes \<and> last_success = None))
        (HealthStateError ''API success counter lacks observation evidence'')) (\<lambda>_.
      ebind (ensure (\<not> (last_api \<noteq> None \<and> (last_observation = None \<or> before last_observation last_api)))
        (HealthStateError ''last observation predates an API observation cursor'')) (\<lambda>_.
      ensure (\<not> before last_observation activated)
        (HealthStateError ''API latch activation postdates the last observation''))))))))))))"

definition validate_stage :: "health_snapshot \<Rightarrow> unit res" where
  "validate_stage s =
     (let derived = derive_reasons s in case hs_stage s of
        NORMAL \<Rightarrow> ensure (\<not> (derived \<noteq> [] \<or> hs_retry_attempts s \<noteq> 0))
          (HealthStateError ''NORMAL health state is contradictory'')
      | REDUCED \<Rightarrow> ensure (\<not> (derived \<noteq> [] \<or> hs_api_successes s < 3 \<or> hs_retry_attempts s \<noteq> 0))
          (HealthStateError ''REDUCED health state is contradictory'')
      | HALTED_STAGE \<Rightarrow>
          ebind (ensure (\<not> hs_retry_attempts s \<le> 0) (HealthStateError ''HALTED health state requires retry evidence'')) (\<lambda>_.
          ensure (\<not> (derived = [] \<and> API_SUCCESSES_REQUIRED \<le> hs_api_successes s))
            (HealthStateError ''HALTED health state has completed every recovery gate'')))"

definition validate_snapshot_relationships :: "health_snapshot \<Rightarrow> bool \<Rightarrow> bool \<Rightarrow> unit res" where
  "validate_snapshot_relationships s halt_entries resume_reduced =
     ebind (ensure (hs_reasons s = derive_reasons s) (HealthStateError ''health reasons contradict predicates'')) (\<lambda>_.
     ebind (ensure (hs_ledger_matches s = (hs_ledger_cash_difference s \<le> LEDGER_TOLERANCE
         \<and> hs_ledger_btc_difference s \<le> LEDGER_TOLERANCE))
       (HealthStateError ''ledger predicate contradicts differences'')) (\<lambda>_.
     ebind (ensure (hs_fill_within_limit s = (hs_fill_deviation s \<le> FILL_DEVIATION_LIMIT))
       (HealthStateError ''fill predicate contradicts deviation'')) (\<lambda>_.
     ebind (ensure (\<not> API_SUCCESSES_REQUIRED < hs_fill_recovery_checks s)
       (HealthStateError ''fill recovery checks exceed their canonical cap'')) (\<lambda>_.
     ebind (validate_fill_relationships s) (\<lambda>_.
     ebind (validate_api_relationships s) (\<lambda>_.
     ebind (validate_stage s) (\<lambda>_.
     ensure (halt_entries = ha_halt_entries (action_of s) \<and> resume_reduced = ha_resume_reduced (action_of s))
       (HealthStateError ''health action flags contradict stage''))))))))"

section \<open>The parser\<close>

text \<open>The fields of fill recovery, which a mapping of version two does not have.\<close>

definition fill_fields :: "bool \<Rightarrow> members \<Rightarrow> bool \<Rightarrow> pyfloat \<Rightarrow> health_snapshot \<Rightarrow> health_snapshot res" where
  "fill_fields legacy p in_limit deviation s =
     (if legacy then Inr (s\<lparr> hs_fill_anomaly_episode := (if in_limit then 0 else 1),
        hs_fill_anomaly_deviation := (if in_limit then 0 else deviation) \<rparr>)
      else
        ebind (strict_int (field p ''fill_anomaly_episode'') ''fill_anomaly_episode'') (\<lambda>episode.
        ebind (strict_int (field p ''fill_recovery_checks'') ''fill_recovery_checks'') (\<lambda>checks.
        ebind (nonnegative_finite (field p ''fill_anomaly_deviation'') ''fill_anomaly_deviation'') (\<lambda>anomaly.
        ebind (optional_canonical_datetime (field p ''fill_anomaly_detected_at_utc'') ''fill_anomaly_detected_at_utc'') (\<lambda>detected.
        ebind (optional_canonical_datetime (field p ''fill_anomaly_resolved_at_utc'') ''fill_anomaly_resolved_at_utc'') (\<lambda>resolved.
        ebind (optional_canonical_datetime (field p ''last_fill_recovery_at_utc'') ''last_fill_recovery_at_utc'') (\<lambda>recovery.
        Inr (s\<lparr> hs_fill_anomaly_episode := episode, hs_fill_recovery_checks := checks,
          hs_fill_anomaly_deviation := anomaly, hs_fill_anomaly_detected_at_utc := detected,
          hs_fill_anomaly_resolved_at_utc := resolved, hs_last_fill_recovery_at_utc := recovery \<rparr>))))))))"

definition parse_fields :: "bool \<Rightarrow> members \<Rightarrow> (health_snapshot \<times> bool \<times> bool) res" where
  "parse_fields legacy p =
     ebind (strict_stage (field p ''stage'')) (\<lambda>stage.
     ebind (strict_reasons (field p ''reasons'')) (\<lambda>reasons.
     ebind (strict_int (field p ''api_failures'') ''api_failures'') (\<lambda>failures.
     ebind (strict_int (field p ''api_successes'') ''api_successes'') (\<lambda>successes.
     ebind (ensure (\<not> API_SUCCESSES_REQUIRED < successes)
       (HealthStateError ''api_successes exceeds its canonical cap'')) (\<lambda>_.
     ebind (strict_bool (field p ''api_failure_latched'') ''api_failure_latched'') (\<lambda>latched.
     ebind (optional_canonical_datetime (field p ''api_latch_activated_at_utc'') ''api_latch_activated_at_utc'') (\<lambda>activated.
     ebind (strict_int (field p ''unresolved_orders'') ''unresolved_orders'') (\<lambda>unresolved.
     ebind (strict_bool (field p ''ledger_matches'') ''ledger_matches'') (\<lambda>matches.
     ebind (nonnegative_finite (field p ''ledger_cash_difference'') ''ledger_cash_difference'') (\<lambda>cash_difference.
     ebind (nonnegative_finite (field p ''ledger_btc_difference'') ''ledger_btc_difference'') (\<lambda>btc_difference.
     ebind (strict_bool (field p ''timestamps_monotonic'') ''timestamps_monotonic'') (\<lambda>monotonic.
     ebind (strict_bool (field p ''schema_valid'') ''schema_valid'') (\<lambda>valid.
     ebind (strict_bool (field p ''latest_candle_valid'') ''latest_candle_valid'') (\<lambda>latest_valid.
     ebind (strict_bool (field p ''fill_within_limit'') ''fill_within_limit'') (\<lambda>in_limit.
     ebind (nonnegative_finite (field p ''fill_deviation'') ''fill_deviation'') (\<lambda>deviation.
     ebind (fill_fields legacy p in_limit deviation healthy) (\<lambda>filled.
     ebind (strict_int (field p ''retry_attempts'') ''retry_attempts'') (\<lambda>retries.
     ebind (optional_canonical_datetime (field p ''last_success_at_utc'') ''last_success_at_utc'') (\<lambda>last_success.
     ebind (optional_canonical_datetime (field p ''last_failure_at_utc'') ''last_failure_at_utc'') (\<lambda>last_failure.
     ebind (optional_canonical_datetime (field p ''last_observation_at_utc'') ''last_observation_at_utc'') (\<lambda>last_observation.
     ebind (strict_bool (field p ''halt_entries'') ''halt_entries'') (\<lambda>halt_entries.
     ebind (strict_bool (field p ''resume_reduced'') ''resume_reduced'') (\<lambda>resume_reduced.
     Inr (filled\<lparr> hs_version := HEALTH_VERSION, hs_stage := stage, hs_reasons := reasons,
        hs_api_failures := failures, hs_api_successes := successes, hs_api_failure_latched := latched,
        hs_api_latch_activated_at_utc := activated, hs_unresolved_orders := unresolved,
        hs_ledger_matches := matches, hs_ledger_cash_difference := cash_difference,
        hs_ledger_btc_difference := btc_difference, hs_timestamps_monotonic := monotonic,
        hs_schema_valid := valid, hs_latest_candle_valid := latest_valid,
        hs_fill_within_limit := in_limit, hs_fill_deviation := deviation, hs_retry_attempts := retries,
        hs_last_success_at_utc := last_success, hs_last_failure_at_utc := last_failure,
        hs_last_observation_at_utc := last_observation \<rparr>, halt_entries, resume_reduced))))))))))))))))))))))))"

text \<open>\<open>HealthSnapshot.from_mapping\<close>; the empty mapping is the healthy snapshot.\<close>

definition from_mapping :: "members \<Rightarrow> health_snapshot res" where
  "from_mapping p =
     (if p = [] then Inr healthy
      else ebind (ensure (keys_are p SNAPSHOT_KEYS \<or> keys_are p SNAPSHOT_V2_KEYS)
        (HealthStateError ''health snapshot keys are invalid'')) (\<lambda>_.
      ebind (strict_int (field p ''version'') ''version'') (\<lambda>version.
      let legacy = keys_are p SNAPSHOT_V2_KEYS
      in ebind (ensure (version = (if legacy then LEGACY_VERSION else HEALTH_VERSION))
        (HealthStateError ''health snapshot version is unsupported'')) (\<lambda>_.
      ebind (parse_fields legacy p) (\<lambda>(s, halt_entries, resume_reduced).
      ebind (validate_snapshot_relationships s halt_entries resume_reduced) (\<lambda>_. Inr s))))))"

definition from_event_mapping :: "members \<Rightarrow> health_snapshot res" where
  "from_event_mapping p = (if p = [] then Inl (HealthStateError ''health event payload must not be empty'')
     else from_mapping p)"

end
