(* ===== verification/PyEquality.thy ===== *)
theory PyEquality
  imports Store
begin

text \<open>
  Python's \<open>==\<close> on the values of a payload, and the frozen form in which the store hands a
  payload out.
\<close>

section \<open>Equality of payloads\<close>

text \<open>\<open>_freeze_json\<close>: the lists of a payload read from the store are tuples.\<close>

fun freeze_json :: "json \<Rightarrow> json" where
  "freeze_json (JObj kvs) = JObj (map (\<lambda>kv. (fst kv, freeze_json (snd kv))) kvs)"
| "freeze_json (JList vs) = JTuple (map freeze_json vs)"
| "freeze_json v = v"

definition freeze_members :: "members \<Rightarrow> members" where
  "freeze_members p = map (\<lambda>(k, v). (k, freeze_json v)) p"

text \<open>The exact value of a number or bool, by which Python compares them.\<close>

fun json_number :: "json \<Rightarrow> pyfloat option" where
  "json_number (JBool b) = Some (Fin (if b then (1, 0) else (0, 0)))"
| "json_number (JInt n) = Some (Fin (n, 0))"
| "json_number (JFloat x) = Some x"
| "json_number _ = None"

lemma size_nth_json [termination_simp]: "k < length vs \<Longrightarrow> size (vs ! k) < Suc (size_list size (vs :: json list))"
  by (rule le_imp_less_Suc) (rule size_list_estimation' [OF nth_mem], auto)

fun json_eq :: "json \<Rightarrow> json \<Rightarrow> bool" where
  "json_eq (JTuple vs) w = (case w of JTuple ws \<Rightarrow> length vs = length ws
     \<and> list_all (\<lambda>k. json_eq (vs ! k) (ws ! k)) [0..<length vs] | _ \<Rightarrow> False)"
| "json_eq (JList vs) w = (case w of JList ws \<Rightarrow> length vs = length ws
     \<and> list_all (\<lambda>k. json_eq (vs ! k) (ws ! k)) [0..<length vs] | _ \<Rightarrow> False)"
| "json_eq (JObj kvs) w = (case w of JObj ws \<Rightarrow> set (map fst kvs) = set (map fst ws)
     \<and> list_all (\<lambda>kv. case map_of ws (fst kv) of None \<Rightarrow> False | Some u \<Rightarrow> json_eq (snd kv) u) kvs | _ \<Rightarrow> False)"
| "json_eq (JStr s) w = (case w of JStr t \<Rightarrow> s = t | _ \<Rightarrow> False)"
| "json_eq v w = (case (json_number v, json_number w) of (Some x, Some y) \<Rightarrow> feq x y
     | _ \<Rightarrow> v = JNull \<and> w = JNull)"

definition members_eq :: "members \<Rightarrow> members \<Rightarrow> bool" where
  "members_eq p q = json_eq (JObj p) (JObj q)"

end
