(* ===== verification/HealthMonitor.thy ===== *)
theory HealthMonitor
  imports HealthState StoreOps PyEquality
begin

text \<open>
  \<open>HealthMonitor\<close> of \<open>src/autobit/paper/health.py\<close>: the operations that apply an observation
  to the snapshot, the recovery of a monitor from the events of the store, and the append
  of a snapshot to the store. The state of a monitor is its snapshot and the outcome of a
  flat-account check that waits to be persisted. An operation returns the monitor it leaves
  behind, also when it raises: rejected evidence marks the schema as broken first.
\<close>

record monitor =
  hm_snapshot :: health_snapshot
  hm_pending_fill_recovery :: "bool option"

definition new_monitor :: "health_snapshot \<Rightarrow> monitor res" where
  "new_monitor s = ebind (from_mapping (to_mapping s)) (\<lambda>v.
     Inr \<lparr> hm_snapshot = v, hm_pending_fill_recovery = None \<rparr>)"

definition monitor_from_mapping :: "members \<Rightarrow> monitor res" where
  "monitor_from_mapping p = ebind (from_mapping p) new_monitor"

definition current_action :: "monitor \<Rightarrow> health_action" where
  "current_action m = action_of (hm_snapshot m)"

definition persistence_event_id :: "string \<Rightarrow> monitor \<Rightarrow> string res" where
  "persistence_event_id event_id m =
     (if event_id = [] then Inl (ValueError ''event_id must be non-empty'')
      else Inr (case hm_pending_fill_recovery m of
         None \<Rightarrow> event_id
       | Some b \<Rightarrow> event_id @ FILL_RECOVERY_EVENT_SUFFIX @ (if b then ''eligible'' else ''ineligible'')))"

section \<open>Finishing an observation\<close>

text \<open>\<open>_finish_observation\<close> on the snapshot.\<close>

definition settle :: "health_snapshot \<Rightarrow> health_snapshot" where
  "settle s =
     (let reasons = derive_reasons s;
          stage = (if reasons \<noteq> [] then HALTED_STAGE
            else if hs_stage s = HALTED_STAGE \<and> API_SUCCESSES_REQUIRED \<le> hs_api_successes s then REDUCED
            else hs_stage s)
      in s\<lparr> hs_stage := stage, hs_reasons := reasons,
            hs_retry_attempts := (if stage = HALTED_STAGE then hs_retry_attempts s + 1 else 0) \<rparr>)"

definition finish_observation :: "monitor \<Rightarrow> monitor \<times> health_action res" where
  "finish_observation m = (let m1 = m\<lparr> hm_snapshot := settle (hm_snapshot m) \<rparr> in (m1, Inr (current_action m1)))"

text \<open>An observation of the snapshot \<open>s\<close> replaced in the monitor, then finished.\<close>

definition observe :: "monitor \<Rightarrow> health_snapshot \<Rightarrow> monitor \<times> health_action res" where
  "observe m s = finish_observation (m\<lparr> hm_snapshot := s \<rparr>)"

definition seen :: "instant option \<Rightarrow> health_snapshot \<Rightarrow> health_snapshot" where
  "seen observed s = s\<lparr> hs_last_observation_at_utc := latest_observation (hs_last_observation_at_utc s) observed \<rparr>"

definition successes_after :: "bool \<Rightarrow> health_snapshot \<Rightarrow> int" where
  "successes_after newly_faulted s = (if newly_faulted then 0 else hs_api_successes s)"

definition fail_schema :: "instant option \<Rightarrow> monitor \<Rightarrow> monitor" where
  "fail_schema observed m =
     (let s = hm_snapshot m
      in fst (observe m (seen observed (s\<lparr> hs_schema_valid := False,
           hs_api_successes := successes_after (hs_schema_valid s) s \<rparr>))))"

text \<open>Evidence of a wrong type: the schema fails, then the caller gets the error.\<close>

definition reject :: "instant option \<Rightarrow> exn \<Rightarrow> monitor \<Rightarrow> monitor \<times> health_action res" where
  "reject observed e m = (fail_schema observed m, Inl e)"

text \<open>The time argument is read first; a time that is not UTC changes nothing.\<close>

definition at_time :: "'t res \<Rightarrow> ('t \<Rightarrow> monitor \<Rightarrow> monitor \<times> health_action res) \<Rightarrow> monitor \<Rightarrow> monitor \<times> health_action res" where
  "at_time t f m = (case t of Inl e \<Rightarrow> (m, Inl e) | Inr x \<Rightarrow> f x m)"

section \<open>API observations\<close>

text \<open>An observation no later than the last one of the API is ignored.\<close>

definition stale_api :: "instant \<Rightarrow> health_snapshot \<Rightarrow> bool" where
  "stale_api observed s = (case last_api_observation s of None \<Rightarrow> False | Some t \<Rightarrow> observed \<le> t)"

definition api_failure :: "instant \<Rightarrow> health_snapshot \<Rightarrow> health_snapshot" where
  "api_failure observed s =
     (let failures = hs_api_failures s + 1;
          latched = (hs_api_failure_latched s \<or> 3 \<le> failures);
          activation = hs_api_latch_activated_at_utc s
      in seen (Some observed) (s\<lparr> hs_api_failures := failures, hs_api_successes := 0,
           hs_api_failure_latched := latched,
           hs_api_latch_activated_at_utc := (if latched \<and> activation = None then Some observed else activation),
           hs_last_failure_at_utc := Some observed \<rparr>))"

definition record_api_failure :: "pydatetime \<Rightarrow> monitor \<Rightarrow> monitor \<times> health_action res" where
  "record_api_failure now = at_time (utc_datetime now ''API observation time'') (\<lambda>observed m.
     if stale_api observed (hm_snapshot m) then (m, Inr (current_action m))
     else observe m (api_failure observed (hm_snapshot m)))"

definition api_success :: "instant \<Rightarrow> health_snapshot \<Rightarrow> health_snapshot" where
  "api_success observed s =
     (let successes = min API_SUCCESSES_REQUIRED (hs_api_successes s + 1);
          latched = (hs_api_failure_latched s \<and> successes < API_SUCCESSES_REQUIRED)
      in seen (Some observed) (s\<lparr> hs_api_failures := 0, hs_api_successes := successes,
           hs_api_failure_latched := latched,
           hs_api_latch_activated_at_utc := (if latched then hs_api_latch_activated_at_utc s else None),
           hs_last_success_at_utc := Some observed \<rparr>))"

definition record_api_success :: "pydatetime \<Rightarrow> monitor \<Rightarrow> monitor \<times> health_action res" where
  "record_api_success now = at_time (utc_datetime now ''API observation time'') (\<lambda>observed m.
     if stale_api observed (hm_snapshot m) then (m, Inr (current_action m))
     else observe m (api_success observed (hm_snapshot m)))"

section \<open>Candles, timestamps, schema and orders\<close>

text \<open>
  \<open>checked >= expected + 10 minutes\<close>: the sum raises \<open>OverflowError\<close> at the end of the
  calendar, which is evaluated only when the candle is not the expected one.
\<close>

definition candle_valid :: "instant \<Rightarrow> instant option \<Rightarrow> instant \<Rightarrow> bool \<Rightarrow> bool \<Rightarrow> bool res" where
  "candle_valid expected observed checked structurally_valid prior_valid =
     (if observed = Some expected \<and> structurally_valid then Inr True
      else ebind (dt_add expected STALE_AFTER) (\<lambda>limit. Inr (if limit \<le> checked then False else prior_valid)))"

definition candle_check :: "bool \<Rightarrow> bool \<Rightarrow> instant \<Rightarrow> health_snapshot \<Rightarrow> health_snapshot" where
  "candle_check latest_valid structurally_valid checked s =
     (let newly_faulted = ((hs_latest_candle_valid s \<and> \<not> latest_valid) \<or> (hs_schema_valid s \<and> \<not> structurally_valid))
      in seen (Some checked) (s\<lparr> hs_latest_candle_valid := latest_valid,
           hs_schema_valid := (hs_schema_valid s \<and> structurally_valid),
           hs_api_successes := successes_after newly_faulted s \<rparr>))"

definition record_candle_check ::
  "pydatetime \<Rightarrow> pydatetime option \<Rightarrow> pydatetime \<Rightarrow> pyval \<Rightarrow> monitor \<Rightarrow> monitor \<times> health_action res" where
  "record_candle_check expected_end observed_end checked_at structurally_valid =
     at_time (utc_datetime expected_end ''expected candle end'') (\<lambda>expected.
     at_time (utc_datetime checked_at ''candle check time'') (\<lambda>checked m.
     case structurally_valid of
       VBool valid \<Rightarrow>
         at_time (optional_utc_datetime observed_end ''observed candle end'') (\<lambda>observed.
         at_time (candle_valid expected observed checked valid (hs_latest_candle_valid (hm_snapshot m))) (\<lambda>latest_valid m.
           observe m (candle_check latest_valid valid checked (hm_snapshot m)))) m
     | _ \<Rightarrow> reject (Some checked) (ValueError ''structurally_valid must be a bool'') m))"

definition timestamp_check :: "bool \<Rightarrow> instant \<Rightarrow> health_snapshot \<Rightarrow> health_snapshot" where
  "timestamp_check v observed s = seen (Some observed) (s\<lparr> hs_timestamps_monotonic := v,
     hs_api_successes := successes_after (hs_timestamps_monotonic s \<and> \<not> v) s \<rparr>)"

definition record_timestamp_check :: "pyval \<Rightarrow> pydatetime \<Rightarrow> monitor \<Rightarrow> monitor \<times> health_action res" where
  "record_timestamp_check monotonic now = at_time (utc_datetime now ''timestamp check time'') (\<lambda>observed m.
     case monotonic of
       VBool v \<Rightarrow> observe m (timestamp_check v observed (hm_snapshot m))
     | _ \<Rightarrow> reject (Some observed) (ValueError ''monotonic must be a bool'') m)"

definition schema_check :: "bool \<Rightarrow> instant \<Rightarrow> health_snapshot \<Rightarrow> health_snapshot" where
  "schema_check v observed s = seen (Some observed) (s\<lparr> hs_schema_valid := v,
     hs_api_successes := successes_after (hs_schema_valid s \<and> \<not> v) s \<rparr>)"

definition record_schema_check :: "pyval \<Rightarrow> pydatetime \<Rightarrow> monitor \<Rightarrow> monitor \<times> health_action res" where
  "record_schema_check valid now = at_time (utc_datetime now ''schema check time'') (\<lambda>observed m.
     case valid of
       VBool v \<Rightarrow> observe m (schema_check v observed (hm_snapshot m))
     | _ \<Rightarrow> reject (Some observed) (ValueError ''valid must be a bool'') m)"

definition unresolved_check :: "int \<Rightarrow> instant option \<Rightarrow> health_snapshot \<Rightarrow> health_snapshot" where
  "unresolved_check count observed s = seen observed (s\<lparr> hs_unresolved_orders := count,
     hs_api_successes := successes_after (hs_unresolved_orders s = 0 \<and> 0 < count) s \<rparr>)"

definition set_unresolved_orders :: "pyval \<Rightarrow> pydatetime option \<Rightarrow> monitor \<Rightarrow> monitor \<times> health_action res" where
  "set_unresolved_orders count now = at_time (optional_utc_datetime now ''order check time'') (\<lambda>observed m.
     case count of
       VInt n \<Rightarrow> if n < 0 then reject observed (ValueError ''unresolved order count must be a non-negative integer'') m
         else observe m (unresolved_check n observed (hm_snapshot m))
     | _ \<Rightarrow> reject observed (ValueError ''unresolved order count must be a non-negative integer'') m)"

section \<open>Ledger and fills\<close>

definition dabs :: "decimal \<Rightarrow> decimal" where
  "dabs d = (if d < 0 then 0 - d else d)"

definition ledger_difference :: "health_number \<Rightarrow> health_number \<Rightarrow> pyfloat" where
  "ledger_difference stored actual = float_of_dec (dabs (dec_of_number stored - dec_of_number actual))"

definition ledger_check :: "pyfloat \<Rightarrow> pyfloat \<Rightarrow> instant option \<Rightarrow> health_snapshot \<Rightarrow> health_snapshot" where
  "ledger_check cash_difference btc_difference observed s =
     (let matches = (cash_difference \<le> LEDGER_TOLERANCE \<and> btc_difference \<le> LEDGER_TOLERANCE)
      in seen observed (s\<lparr> hs_ledger_matches := matches, hs_ledger_cash_difference := cash_difference,
           hs_ledger_btc_difference := btc_difference,
           hs_api_successes := successes_after (hs_ledger_matches s \<and> \<not> matches) s \<rparr>))"

definition record_ledger_check ::
  "health_number \<Rightarrow> health_number \<Rightarrow> health_number \<Rightarrow> health_number \<Rightarrow> pydatetime option
     \<Rightarrow> monitor \<Rightarrow> monitor \<times> health_action res" where
  "record_ledger_check stored_cash actual_cash stored_btc actual_btc now =
     at_time (optional_utc_datetime now ''ledger check time'') (\<lambda>observed m.
     case emap (\<lambda>v. health_nonnegative_number v ''ledger values'') [stored_cash, actual_cash, stored_btc, actual_btc] of
       Inl e \<Rightarrow> reject observed e m
     | Inr _ \<Rightarrow> observe m (ledger_check (ledger_difference stored_cash actual_cash)
         (ledger_difference stored_btc actual_btc) observed (hm_snapshot m)))"

text \<open>\<open>math.nextafter(x, math.inf)\<close> of a positive float.\<close>

definition next_above :: "pyfloat \<Rightarrow> pyfloat" where
  "next_above x = (case x of
     Fin (n, e) \<Rightarrow> (let q = max (blen 2 n + e - 53) (- 1074) in mk64 (bnorm 2 (n * ipow 2 (e - q) + 1) q))
   | _ \<Rightarrow> x)"

definition decimal_deviation :: "health_number \<Rightarrow> health_number \<Rightarrow> decimal" where
  "decimal_deviation expected actual =
     ddiv (dabs (dec_of_number actual - dec_of_number expected)) (dec_of_number expected)"

text \<open>A deviation beyond the limit stays beyond it as a float.\<close>

definition float_deviation :: "decimal \<Rightarrow> pyfloat" where
  "float_deviation d = (if \<not> d \<le> FILL_DEVIATION_LIMIT_DECIMAL \<and> float_of_dec d \<le> FILL_DEVIATION_LIMIT
     then next_above FILL_DEVIATION_LIMIT else float_of_dec d)"

definition fill_check :: "bool \<Rightarrow> pyfloat \<Rightarrow> instant option \<Rightarrow> health_snapshot \<Rightarrow> health_snapshot" where
  "fill_check within_limit deviation observed s =
     (let newly_faulted = (hs_fill_within_limit s \<and> \<not> within_limit);
          s1 = (if \<not> within_limit then
              s\<lparr> hs_fill_anomaly_episode := hs_fill_anomaly_episode s + (if newly_faulted then 1 else 0),
                 hs_fill_anomaly_detected_at_utc :=
                   (if newly_faulted then observed else hs_fill_anomaly_detected_at_utc s),
                 hs_fill_anomaly_deviation := pmax (hs_fill_anomaly_deviation s) deviation,
                 hs_fill_anomaly_resolved_at_utc := None,
                 hs_fill_recovery_checks := 0,
                 hs_last_fill_recovery_at_utc := None \<rparr>
            else if \<not> hs_fill_within_limit s then
              s\<lparr> hs_fill_recovery_checks := API_SUCCESSES_REQUIRED, hs_fill_anomaly_resolved_at_utc := observed \<rparr>
            else s)
      in seen observed (s1\<lparr> hs_fill_within_limit := within_limit, hs_fill_deviation := deviation,
           hs_api_successes := successes_after newly_faulted s \<rparr>))"

definition record_fill_check ::
  "health_number \<Rightarrow> health_number \<Rightarrow> pydatetime option \<Rightarrow> monitor \<Rightarrow> monitor \<times> health_action res" where
  "record_fill_check expected_price actual_price now =
     at_time (optional_utc_datetime now ''fill check time'') (\<lambda>observed m.
     case emap (\<lambda>v. positive_finite v ''fill prices'') [expected_price, actual_price] of
       Inl e \<Rightarrow> reject observed e m
     | Inr _ \<Rightarrow>
         let d = decimal_deviation expected_price actual_price
         in observe m (fill_check (d \<le> FILL_DEVIATION_LIMIT_DECIMAL) (float_deviation d) observed (hm_snapshot m)))"

section \<open>Recovery of an account without a position\<close>

definition flat_recovery :: "bool \<Rightarrow> instant \<Rightarrow> health_snapshot \<Rightarrow> health_snapshot" where
  "flat_recovery eligible observed s =
     (let checks = (if eligible then min API_SUCCESSES_REQUIRED (hs_fill_recovery_checks s + 1) else 0);
          resolved = (eligible \<and> API_SUCCESSES_REQUIRED \<le> checks)
      in seen (Some observed) (s\<lparr> hs_fill_within_limit := resolved,
           hs_fill_deviation := (if resolved then 0 else hs_fill_deviation s),
           hs_fill_recovery_checks := checks,
           hs_fill_anomaly_resolved_at_utc := (if resolved then Some observed else None),
           hs_last_fill_recovery_at_utc := Some observed \<rparr>))"

text \<open>Without an active episode, or no later than the last check, the check is ignored.\<close>

definition stale_recovery :: "instant \<Rightarrow> health_snapshot \<Rightarrow> bool" where
  "stale_recovery observed s \<longleftrightarrow> hs_fill_within_limit s
     \<or> (case hs_last_fill_recovery_at_utc s of None \<Rightarrow> False | Some t \<Rightarrow> observed \<le> t)"

definition record_flat_fill_recovery_check :: "pyval \<Rightarrow> pydatetime \<Rightarrow> monitor \<Rightarrow> monitor \<times> health_action res" where
  "record_flat_fill_recovery_check eligible now =
     at_time (utc_datetime now ''flat fill recovery check time'') (\<lambda>observed m.
     case eligible of
       VBool b \<Rightarrow>
         if stale_recovery observed (hm_snapshot m) then (m, Inr (current_action m))
         else observe (m\<lparr> hm_pending_fill_recovery := Some b \<rparr>) (flat_recovery b observed (hm_snapshot m))
     | _ \<Rightarrow> reject (Some observed) (ValueError ''flat fill recovery eligibility must be a bool'') m)"

definition record_recovery_cycle_success :: "pydatetime \<Rightarrow> monitor \<Rightarrow> monitor \<times> health_action res" where
  "record_recovery_cycle_success now = at_time (utc_datetime now ''recovery cycle time'') (\<lambda>observed m.
     let s = seen (Some observed) (hm_snapshot m)
     in if hs_stage s = REDUCED \<and> derive_reasons s = [] then
          let m1 = m\<lparr> hm_snapshot := s\<lparr> hs_stage := NORMAL, hs_retry_attempts := 0 \<rparr> \<rparr>
          in (m1, Inr (current_action m1))
        else observe m s)"

section \<open>Evidence of the store\<close>

fun rsplit :: "string \<Rightarrow> string \<Rightarrow> (string \<times> string) option" where
  "rsplit p [] = None"
| "rsplit p (c # s) = (case rsplit p s of
     Some (a, b) \<Rightarrow> Some (c # a, b)
   | None \<Rightarrow> if starts_with p (c # s) then Some ([], drop (length p) (c # s)) else None)"

definition fill_recovery_marker :: "string \<Rightarrow> bool option res" where
  "fill_recovery_marker event_id = (case rsplit FILL_RECOVERY_EVENT_SUFFIX event_id of
     None \<Rightarrow> Inr None
   | Some (prefix, outcome) \<Rightarrow>
       if \<not> starts_with ''health:reconcile:'' prefix \<or> (outcome \<noteq> ''eligible'' \<and> outcome \<noteq> ''ineligible'')
       then Inl (corrupt ''flat fill recovery event identity is invalid'')
       else Inr (Some (outcome = ''eligible'')))"

record recovery_projection =
  rj_latest :: "health_snapshot option"
  rj_episode :: int
  rj_checks :: int
  rj_anomaly_deviation :: pyfloat
  rj_detected_at :: "instant option"
  rj_resolved_at :: "instant option"
  rj_last_recovery_at :: "instant option"
  rj_active :: bool

definition initial_projection :: recovery_projection where
  "initial_projection = \<lparr> rj_latest = None, rj_episode = 0, rj_checks = 0, rj_anomaly_deviation = 0,
     rj_detected_at = None, rj_resolved_at = None, rj_last_recovery_at = None, rj_active = False \<rparr>"

text \<open>An anomaly that the event reports: a new episode unless one is active.\<close>

definition project_anomaly :: "health_snapshot \<Rightarrow> instant \<Rightarrow> recovery_projection \<Rightarrow> recovery_projection" where
  "project_anomaly stored observed j =
     (let j1 = (if \<not> hs_fill_within_limit stored \<and> \<not> rj_active j
           then j\<lparr> rj_episode := rj_episode j + 1, rj_checks := 0, rj_detected_at := Some observed,
                  rj_resolved_at := None, rj_last_recovery_at := None, rj_active := True \<rparr>
           else j)
      in if \<not> hs_fill_within_limit stored
         then j1\<lparr> rj_anomaly_deviation := pmax (pmax (rj_anomaly_deviation j1) (hs_fill_deviation stored))
                (hs_fill_anomaly_deviation stored) \<rparr>
         else j1)"

text \<open>The recovery that the identity of the event, or its state, reports.\<close>

definition project_recovery ::
  "bool option \<Rightarrow> bool \<Rightarrow> health_snapshot \<Rightarrow> instant \<Rightarrow> recovery_projection \<Rightarrow> recovery_projection res" where
  "project_recovery marker was_active stored observed j = (case marker of
     Some eligible \<Rightarrow>
       ebind (ensure was_active (corrupt ''flat fill recovery evidence has no active anomaly episode'')) (\<lambda>_.
       ebind (ensure (case rj_last_recovery_at j of None \<Rightarrow> True | Some t \<Rightarrow> t < observed)
         (corrupt ''flat fill recovery evidence is duplicated or reversed'')) (\<lambda>_.
       let checks = (if eligible then min API_SUCCESSES_REQUIRED (rj_checks j + 1) else 0);
           resolved = (eligible \<and> API_SUCCESSES_REQUIRED \<le> checks)
       in ebind (ensure (hs_fill_within_limit stored = resolved)
            (corrupt ''flat fill recovery marker contradicts health state'')) (\<lambda>_.
          Inr (j\<lparr> rj_checks := checks, rj_last_recovery_at := Some observed, rj_active := \<not> resolved,
                  rj_resolved_at := (if resolved then Some observed else None) \<rparr>))))
   | None \<Rightarrow> Inr (if was_active \<and> hs_fill_within_limit stored
       then j\<lparr> rj_checks := API_SUCCESSES_REQUIRED, rj_resolved_at := Some observed, rj_active := False \<rparr>
       else j))"

definition project_event :: "stored_event \<Rightarrow> recovery_projection \<Rightarrow> recovery_projection res" where
  "project_event e j =
     (if sv_event_type e \<noteq> ''HEALTH_STATE'' then Inr j
      else ebind (from_event_mapping (sv_payload e)) (\<lambda>stored.
        let observed = (case hs_last_observation_at_utc stored of Some t \<Rightarrow> t | None \<Rightarrow> sv_occurred_at_utc e)
        in ebind (fill_recovery_marker (sv_event_id e)) (\<lambda>marker.
        ebind (project_recovery marker (rj_active j) stored observed (project_anomaly stored observed j)) (\<lambda>j1.
        Inr (j1\<lparr> rj_latest := Some (stored\<lparr> hs_fill_anomaly_episode := rj_episode j1,
             hs_fill_recovery_checks := rj_checks j1, hs_fill_anomaly_deviation := rj_anomaly_deviation j1,
             hs_fill_anomaly_detected_at_utc := rj_detected_at j1,
             hs_fill_anomaly_resolved_at_utc := rj_resolved_at j1,
             hs_last_fill_recovery_at_utc := rj_last_recovery_at j1 \<rparr>) \<rparr>)))))"

definition project_fill_recovery_evidence :: "stored_event list \<Rightarrow> health_snapshot res" where
  "project_fill_recovery_evidence events =
     ebind (efold project_event events initial_projection) (\<lambda>j. case rj_latest j of
       None \<Rightarrow> Inl (corrupt ''health projection has no event evidence'') | Some s \<Rightarrow> Inr s)"

section \<open>The store\<close>

text \<open>Every health event of the history must parse; the last one is the tail.\<close>

definition health_tail :: "stored_event list \<Rightarrow> stored_event option res" where
  "health_tail events = efold (\<lambda>e latest.
     if sv_event_type e = ''HEALTH_STATE'' then ebind (from_event_mapping (sv_payload e)) (\<lambda>_. Inr (Some e))
     else Inr latest) events None"

definition from_store :: "sha256 \<Rightarrow> store \<Rightarrow> monitor res" where
  "from_store H st =
     ebind (load_snapshot H st) (\<lambda>state.
     ebind (health_tail (pn_event_evidence state)) (\<lambda>latest. case latest of
       None \<Rightarrow>
         ebind (ensure (pn_health_state state = []) (corrupt ''health projection has no event evidence'')) (\<lambda>_.
         new_monitor healthy)
     | Some e \<Rightarrow>
         ebind (ensure (members_eq (freeze_members (pn_health_state state)) (freeze_members (sv_payload e)))
           (corrupt ''health projection contradicts event evidence'')) (\<lambda>_.
         ebind (project_fill_recovery_evidence (pn_event_evidence state)) new_monitor)))"

definition matching_events :: "string \<Rightarrow> paper_snapshot \<Rightarrow> stored_event list" where
  "matching_events event_id state = filter (\<lambda>e. sv_event_id e = event_id) (pn_event_evidence state)"

text \<open>\<open>_validate_duplicate_event\<close>: an exact retry returns the sequence of the stored event.\<close>

definition validate_duplicate_event :: "stored_event list \<Rightarrow> instant \<Rightarrow> members \<Rightarrow> int res" where
  "validate_duplicate_event matching logical payload = (case matching of
     [e] \<Rightarrow>
       ebind (ensure (sv_event_type e = ''HEALTH_STATE'' \<and> sv_occurred_at_utc e = logical)
         (IdempotencyConflictError ''health event identity conflicts'')) (\<lambda>_.
       ebind (catch (\<lambda>x. case x of HealthStateError _ \<Rightarrow> True | _ \<Rightarrow> False) (from_event_mapping (sv_payload e))
         (\<lambda>_. Inl (corrupt ''stored health event is invalid''))) (\<lambda>_.
       ebind (ensure (members_eq (freeze_members (sv_payload e)) payload)
         (IdempotencyConflictError ''health event identity conflicts'')) (\<lambda>_.
       Inr (sv_sequence e))))
   | _ \<Rightarrow> Inl (IdempotencyConflictError ''health event identity is not unique''))"

definition is_idempotency_conflict :: "exn \<Rightarrow> bool" where
  "is_idempotency_conflict e = (case e of IdempotencyConflictError _ \<Rightarrow> True | _ \<Rightarrow> False)"

text \<open>The outcome that waits is dropped once the event is in the store.\<close>

definition persisted :: "monitor \<Rightarrow> store \<Rightarrow> int res \<Rightarrow> store \<times> monitor \<times> int res" where
  "persisted m st r = (st, (case r of Inl _ \<Rightarrow> m | Inr _ \<Rightarrow> m\<lparr> hm_pending_fill_recovery := None \<rparr>), r)"

definition duplicate_outcome :: "sha256 \<Rightarrow> string \<Rightarrow> instant \<Rightarrow> members \<Rightarrow> store \<Rightarrow> int res" where
  "duplicate_outcome H event_id logical payload st =
     ebind (load_snapshot H st) (\<lambda>state. validate_duplicate_event (matching_events event_id state) logical payload)"

definition persist :: "sha256 \<Rightarrow> string \<Rightarrow> pydatetime \<Rightarrow> monitor \<Rightarrow> store \<Rightarrow> store \<times> monitor \<times> int res" where
  "persist H event_id logical_at m st =
     (case ebind (utc_datetime logical_at ''logical event time'') (\<lambda>logical.
        ebind (ensure (event_id \<noteq> []) (ValueError ''event_id must be non-empty'')) (\<lambda>_.
        ebind (load_snapshot H st) (\<lambda>state. Inr (logical, matching_events event_id state)))) of
       Inl e \<Rightarrow> (st, m, Inl e)
     | Inr (logical, matching) \<Rightarrow>
         let payload = to_storage_mapping (hm_snapshot m) in
         if matching \<noteq> [] then persisted m st (validate_duplicate_event matching logical payload)
         else (case store_append_event H \<lparr> ea_event_id = event_id, ea_event_type = ''HEALTH_STATE'',
               ea_occurred_at = TsDatetime (utc logical), ea_payload = JObj payload \<rparr> st of
             (st1, Inr n) \<Rightarrow> persisted m st1 (Inr n)
           | (st1, Inl e) \<Rightarrow>
               if is_idempotency_conflict e then persisted m st1 (duplicate_outcome H event_id logical payload st1)
               else (st1, m, Inl e)))"

end
