(* ===== verification/Health_Numbers.thy ===== *)
theory Health_Numbers
  imports HealthMonitor
begin

text \<open>
  The numbers of a ledger or fill check: the differences and deviations that the monitor
  computes in decimals are finite, nonnegative machine floats, and the float of a deviation
  is on the same side of the limit as the decimal.
\<close>

section \<open>The numbers of an observation\<close>

text \<open>
  The numbers that the theorems speak of: floats of the machine, any int, and decimals that
  are not negative (a negative decimal that underflows to zero as a float passes the check).
\<close>

fun wf_number :: "health_number \<Rightarrow> bool" where
  "wf_number (HFloat x) = wf_float x"
| "wf_number (HDecimal d) = (0 \<le> dval d)"
| "wf_number _ = True"

definition good_amount :: "pyfloat \<Rightarrow> bool" where
  "good_amount x \<longleftrightarrow> wf_float x \<and> isfinite x \<and> 0 \<le> x"

lemma number_rounds:
  assumes "float_of_number v = Some x" "wf_number v" "isfinite x"
  shows "rounds_to (dval (dec_of_number v)) x"
proof (cases v)
  case (HInt n)
  then have "x = flit n 1" using assms(1) by (auto simp: float_of_int_def Let_def split: if_splits)
  then show ?thesis using rt_lit [of 1 n] by (simp add: HInt bval_bnorm)
next
  case (HFloat y)
  then show ?thesis using assms rt_float_of_dec [of "dec_of_float x"] by (simp add: float_of_dec_of_float)
next
  case (HDecimal d)
  then show ?thesis using assms(1) rt_float_of_dec [of d] by simp
next
  case HOther
  then show ?thesis using assms(1) by simp
qed

text \<open>The numbers that round to a finite float lie below the overflow threshold.\<close>

definition overflow_threshold :: int where
  "overflow_threshold = 2 ^ 1024 - 2 ^ 970"

lemma rhe_div_below: "0 \<le> r \<Longrightarrow> 2 * r < d \<Longrightarrow> n = d * k + r \<Longrightarrow> rhe_div n d = k"
proof -
  assume r: "0 \<le> r" "2 * r < d" "n = d * k + r"
  then have "n div d = k" "n mod d = r" by (auto intro: int_div_pos_eq int_mod_pos_eq)
  with r show ?thesis by (simp add: rhe_div_def)
qed

text \<open>An integer of more than 28 digits that the decimal context rounds down.\<close>

lemma rd_of_int_down:
  fixes n m :: int and k :: nat
  assumes n: "10 ^ (27 + k) \<le> n" "n < 10 ^ (28 + k)" and r: "0 \<le> n - 10 ^ k * m" "2 * (n - 10 ^ k * m) < 10 ^ k"
  shows "rd (of_int n) = dval (Dec (m, int k))"
proof -
  let ?x = "of_int n :: rat"
  have pos: "0 < n" by (rule less_le_trans [OF _ n(1)]) simp
  have "(of_int (10 ^ (27 + k)) :: rat) \<le> ?x" "?x < of_int (10 ^ (28 + k))"
    unfolding of_int_le_iff of_int_less_iff by (rule n)+
  moreover have "nat (27 + int k) = 27 + k" "nat (27 + int k + 1) = 28 + k" by auto
  moreover have "pw 10 (27 + int k) = of_int (10 ^ nat (27 + int k))"
    "pw 10 (27 + int k + 1) = of_int (10 ^ nat (27 + int k + 1))" by (rule pw_nat, simp)+
  ultimately have "is_expo 10 ?x (27 + int k)" unfolding is_expo_def by (simp only: simp_thms)
  then have "expo 10 ?x = 27 + int k" using is_expo_unique [of 10 ?x] expo [of 10 ?x] pos by auto
  then have q: "qexp 10 28 (- 999999) \<bar>?x\<bar> = int k" using pos by (simp add: qexp_def)
  have "rhe_div n (10 ^ k) = m" by (rule rhe_div_below [OF r]) simp
  then have "rhe (?x / pw 10 (int k)) = m" using rhe_div [of "10 ^ k" n] pw_nat [of "int k" 10] by simp
  then show ?thesis using pos q by (simp add: round_prec_def bval_def Let_def)
qed

lemma rd_threshold: "rd (of_int overflow_threshold) = dval (Dec (1797693134862315807937289714, 281))"
  using rd_of_int_down [of 281 overflow_threshold 1797693134862315807937289714] by (simp add: overflow_threshold_def)

lemma rp_threshold: "rp (of_int overflow_threshold) = fmax64"
proof -
  have "round_frac 2 53 (- 1022) overflow_threshold 1 = (1, 1024)" by code_simp
  then show ?thesis using bval_round_frac [of 2 1 53 "- 1022" overflow_threshold] by (simp add: fmax64_def)
qed

lemma below_threshold:
  assumes "rounds_to q x" "isfinite x"
  shows "q \<le> of_int overflow_threshold"
proof (rule ccontr)
  assume "\<not> ?thesis"
  then have "fmax64 \<le> rp q" using rp_mono [of "of_int overflow_threshold" q] by (simp add: rp_threshold)
  then show False using assms by (auto simp: rounds_to_def)
qed

definition threshold_decimal :: decimal where
  "threshold_decimal = Dec (1797693134862315807937289714, 281)"

lemma threshold_decimal:
  "dval threshold_decimal = rd (of_int overflow_threshold)" "rd (dval threshold_decimal) = dval threshold_decimal"
  "isfinite (float_of_dec threshold_decimal)"
proof -
  show d: "dval threshold_decimal = rd (of_int overflow_threshold)"
    by (simp only: threshold_decimal_def rd_threshold)
  show "rd (dval threshold_decimal) = dval threshold_decimal"
    unfolding d by (rule round_prec_id [OF _ _ on_grid_round_prec]) simp_all
  show "isfinite (float_of_dec threshold_decimal)" by code_simp
qed

lemma dabs_nonneg: "0 \<le> dval (dabs d)"
  by (auto simp: dabs_def rd_nonneg)

lemma dabs_difference_le:
  assumes "0 \<le> dval a" "0 \<le> dval b" "dval a \<le> of_int overflow_threshold" "dval b \<le> of_int overflow_threshold"
  shows "dval (dabs (a - b)) \<le> dval threshold_decimal"
proof -
  have "rd (dval a - dval b) \<le> dval threshold_decimal" "rd (dval b - dval a) \<le> dval threshold_decimal"
    unfolding threshold_decimal(1) using assms by (intro rd_mono; simp)+
  moreover from this(2) have "rd (rd (dval b - dval a)) \<le> dval threshold_decimal"
    using rd_mono threshold_decimal(2) by metis
  moreover have "- rd (dval a - dval b) = rd (dval b - dval a)"
    using round_prec_minus [of 10 28 "- 999999" "dval a - dval b"] by simp
  ultimately show ?thesis by (simp add: dabs_def)
qed

lemma nonneg_iff: "isfinite x \<Longrightarrow> \<not> x < 0 \<longleftrightarrow> 0 \<le> x"
  by (cases x) (auto simp: less_pyfloat_def zero_pyfloat_def)

lemma number_bounds:
  assumes "health_nonnegative_number v label = Inr x" "wf_number v"
  shows "0 \<le> dval (dec_of_number v)" "dval (dec_of_number v) \<le> of_int overflow_threshold"
proof -
  have x: "float_of_number v = Some x" "isfinite x" "\<not> x < 0"
    using assms(1) by (auto simp: health_nonnegative_number_def health_finite_number_def split: option.splits if_splits)
  show "dval (dec_of_number v) \<le> of_int overflow_threshold"
    by (rule below_threshold [OF number_rounds [OF x(1) assms(2) x(2)] x(2)])
  show "0 \<le> dval (dec_of_number v)"
  proof (cases v)
    case (HInt n)
    show ?thesis
    proof (rule ccontr)
      assume "\<not> ?thesis"
      then have "n \<le> - 1" by (simp add: HInt bval_bnorm)
      moreover have "rounds_to (of_int n) x" using number_rounds [OF x(1) assms(2) x(2)] by (simp add: HInt bval_bnorm)
      moreover have "rounds_to (- 1) (flit (- 1) 1)" using rt_lit [of 1 "- 1"] by simp
      ultimately have "x \<le> flit (- 1) 1" using rt_mono by (metis of_int_le_iff of_int_minus of_int_1)
      moreover have "flit (- 1) 1 < 0" by code_simp
      ultimately show False using x(3) le_less_trans_float by blast
    qed
  next
    case (HFloat y)
    then show ?thesis using x assms(2) by (auto simp: nonneg_iff intro!: dec_of_float_nonneg)
  qed (use x assms in simp_all)
qed

lemma good_amount_iff: "good_amount x \<longleftrightarrow> wf_float x \<and> isfinite x \<and> \<not> x < 0"
  using nonneg_iff unfolding good_amount_def by blast

lemma good_0 [simp]: "good_amount 0"
  by (simp add: good_amount_def le_iff_rat)

text \<open>The difference of two amounts is an amount.\<close>

lemma good_ledger_difference:
  assumes "health_nonnegative_number a label = Inr x" "wf_number a" "health_nonnegative_number b label = Inr y" "wf_number b"
  shows "good_amount (ledger_difference a b)"
proof -
  let ?d = "dabs (dec_of_number a - dec_of_number b)"
  have "dval ?d \<le> dval threshold_decimal"
    by (rule dabs_difference_le) (use number_bounds assms in blast)+
  then have "float_of_dec ?d \<le> float_of_dec threshold_decimal" by (rule float_of_dec_mono)
  moreover have "0 \<le> float_of_dec ?d" by (rule float_of_dec_nonneg) (rule dabs_nonneg)
  ultimately show ?thesis
    using isfinite_le [OF threshold_decimal(3)] by (simp add: good_amount_def ledger_difference_def)
qed

section \<open>The deviation of a fill\<close>

lemma limit_decimal: "float_of_dec FILL_DEVIATION_LIMIT_DECIMAL = FILL_DEVIATION_LIMIT"
  by code_simp

lemma limit_good: "good_amount FILL_DEVIATION_LIMIT" "\<not> next_above FILL_DEVIATION_LIMIT \<le> FILL_DEVIATION_LIMIT"
  "good_amount (next_above FILL_DEVIATION_LIMIT)"
proof -
  show "good_amount FILL_DEVIATION_LIMIT"
    unfolding good_amount_def FILL_DEVIATION_LIMIT_def by (simp add: rt_nonneg [OF rt_lit]) code_simp
  show "\<not> next_above FILL_DEVIATION_LIMIT \<le> FILL_DEVIATION_LIMIT" by code_simp
  have n: "next_above FILL_DEVIATION_LIMIT = flit 7205759403792795 144115188075855872" by code_simp
  show "good_amount (next_above FILL_DEVIATION_LIMIT)"
    unfolding good_amount_def n by (simp add: rt_nonneg [OF rt_lit]) code_simp
qed

text \<open>The float of a deviation is beyond the limit exactly when the decimal is.\<close>

lemma float_deviation_limit: "float_deviation d \<le> FILL_DEVIATION_LIMIT \<longleftrightarrow> d \<le> FILL_DEVIATION_LIMIT_DECIMAL"
proof (cases "d \<le> FILL_DEVIATION_LIMIT_DECIMAL")
  case True
  then have "float_of_dec d \<le> float_of_dec FILL_DEVIATION_LIMIT_DECIMAL" by (intro float_of_dec_mono) simp
  then show ?thesis using True unfolding float_deviation_def limit_decimal by (simp only: simp_thms if_False)
next
  case False
  then show ?thesis using limit_good(2) unfolding float_deviation_def by (cases "float_of_dec d \<le> FILL_DEVIATION_LIMIT") (simp_all only: simp_thms if_True if_False)
qed

lemma decimal_deviation_nonneg:
  assumes "positive_finite e label = Inr x" "wf_number e"
  shows "0 \<le> dval (decimal_deviation e a)"
proof -
  have x: "float_of_number e = Some x" "isfinite x" "\<not> x \<le> 0"
    using assms(1) by (auto simp: positive_finite_def health_finite_number_def split: option.splits if_splits)
  have "0 < dval (dec_of_number e)"
  proof (rule ccontr)
    assume "\<not> ?thesis"
    then show False using rt_nonpos [OF number_rounds [OF x(1) assms(2) x(2)]] x(3) by simp
  qed
  then show ?thesis using dabs_nonneg by (simp add: decimal_deviation_def rd_nonneg)
qed

text \<open>
  The deviation of a fill is an amount unless its float overflows, which it does only for a
  price some \<open>10 ^ 308\<close> times the other.
\<close>

lemma good_float_deviation:
  assumes "0 \<le> dval d" "isfinite (float_of_dec d)"
  shows "good_amount (float_deviation d)"
  using limit_good(3) float_of_dec_nonneg [OF assms(1)] assms(2)
  by (simp add: float_deviation_def good_amount_def del: dle)

end
