(* ===== verification/Health_Inv.thy ===== *)
theory Health_Inv
  imports Health_Numbers
begin

text \<open>
  The invariant of the health monitor. \<open>coherent\<close> says in four parts what the parser
  demands of the relationships inside a snapshot, except for one rule on \<open>REDUCED\<close> that the
  monitor itself can break; \<open>wf_snapshot\<close> is the type invariant of its fields. Every
  observation keeps both.
\<close>

section \<open>Reasons\<close>

lemma derive_reasons_eq:
  "derive_reasons s =
     (if hs_api_failure_latched s then [''API_FAILURES''] else []) @
     (if \<not> hs_latest_candle_valid s then [''STALE_CANDLE''] else []) @
     (if \<not> hs_timestamps_monotonic s then [''TIMESTAMP_REVERSAL''] else []) @
     (if \<not> hs_schema_valid s then [''SCHEMA_ERROR''] else []) @
     (if 0 < hs_unresolved_orders s then [''UNRESOLVED_ORDER''] else []) @
     (if \<not> hs_ledger_matches s then [''LEDGER_MISMATCH''] else []) @
     (if \<not> hs_fill_within_limit s then [''FILL_DEVIATION''] else [])"
  by (simp add: derive_reasons_def HEALTH_REASON_ORDER_def reason_active_def)

lemma no_reasons_iff:
  "derive_reasons s = [] \<longleftrightarrow> \<not> hs_api_failure_latched s \<and> hs_latest_candle_valid s \<and> hs_timestamps_monotonic s
     \<and> hs_schema_valid s \<and> \<not> 0 < hs_unresolved_orders s \<and> hs_ledger_matches s \<and> hs_fill_within_limit s"
  by (auto simp: derive_reasons_eq)

lemma api_reason_iff: "''API_FAILURES'' \<in> set (derive_reasons s) \<longleftrightarrow> hs_api_failure_latched s"
  by (auto simp: derive_reasons_eq)

lemma reasons_canonical: "derive_reasons s = filter (\<lambda>r. r \<in> set (derive_reasons s)) HEALTH_REASON_ORDER"
  by (auto simp: derive_reasons_def intro!: filter_cong)

section \<open>The invariant\<close>

definition opt_le :: "instant option \<Rightarrow> instant option \<Rightarrow> bool" where
  "opt_le a b \<longleftrightarrow> (case a of None \<Rightarrow> True | Some x \<Rightarrow> (case b of None \<Rightarrow> False | Some y \<Rightarrow> x \<le> y))"

definition api_ok :: "health_snapshot \<Rightarrow> bool" where
  "api_ok s \<longleftrightarrow>
     (let latched = hs_api_failure_latched s; activated = hs_api_latch_activated_at_utc s;
          failures = hs_api_failures s; successes = hs_api_successes s;
          last_failure = hs_last_failure_at_utc s; last_success = hs_last_success_at_utc s in
      \<not> (latched \<and> 3 \<le> successes) \<and> latched = (activated \<noteq> None)
    \<and> opt_le activated last_failure
    \<and> \<not> (latched \<and> failures < 3 \<and> (none_or_before last_success activated
          \<or> (0 < failures \<and> none_or_before last_failure last_success)))
    \<and> \<not> (3 \<le> failures \<and> \<not> latched) \<and> \<not> (0 < failures \<and> 0 < successes)
    \<and> \<not> (0 < failures \<and> last_failure = None) \<and> \<not> (0 < successes \<and> last_success = None)
    \<and> opt_le (last_api_observation s) (hs_last_observation_at_utc s))"

definition ledger_ok :: "health_snapshot \<Rightarrow> bool" where
  "ledger_ok s \<longleftrightarrow> (hs_ledger_matches s \<longleftrightarrow>
     hs_ledger_cash_difference s \<le> LEDGER_TOLERANCE \<and> hs_ledger_btc_difference s \<le> LEDGER_TOLERANCE)"

definition fill_ok :: "health_snapshot \<Rightarrow> bool" where
  "fill_ok s \<longleftrightarrow>
     (hs_fill_within_limit s \<longleftrightarrow> hs_fill_deviation s \<le> FILL_DEVIATION_LIMIT)
   \<and> hs_fill_recovery_checks s \<le> 3
   \<and> (if hs_fill_anomaly_episode s = 0
      then hs_fill_within_limit s \<and> hs_fill_recovery_checks s = 0 \<and> feq (hs_fill_anomaly_deviation s) 0
        \<and> hs_fill_anomaly_detected_at_utc s = None \<and> hs_fill_anomaly_resolved_at_utc s = None
        \<and> hs_last_fill_recovery_at_utc s = None
      else \<not> hs_fill_anomaly_deviation s \<le> FILL_DEVIATION_LIMIT
        \<and> (if hs_fill_within_limit s then hs_fill_recovery_checks s = 3
           else hs_fill_recovery_checks s < 3 \<and> hs_fill_anomaly_resolved_at_utc s = None)
        \<and> \<not> (0 < hs_fill_recovery_checks s \<and> hs_fill_recovery_checks s < 3 \<and> hs_last_fill_recovery_at_utc s = None)
        \<and> \<not> before (hs_fill_anomaly_resolved_at_utc s) (hs_fill_anomaly_detected_at_utc s)
        \<and> \<not> before (hs_fill_anomaly_resolved_at_utc s) (hs_last_fill_recovery_at_utc s))"

text \<open>What the parser demands of the stage, without its rule on the successes of \<open>REDUCED\<close>.\<close>

definition stage_ok :: "health_snapshot \<Rightarrow> bool" where
  "stage_ok s \<longleftrightarrow> (case hs_stage s of
     HALTED_STAGE \<Rightarrow> 0 < hs_retry_attempts s \<and> \<not> (derive_reasons s = [] \<and> 3 \<le> hs_api_successes s)
   | _ \<Rightarrow> derive_reasons s = [] \<and> hs_retry_attempts s = 0)"

definition coherent :: "health_snapshot \<Rightarrow> bool" where
  "coherent s \<longleftrightarrow> hs_reasons s = derive_reasons s \<and> api_ok s \<and> ledger_ok s \<and> fill_ok s \<and> stage_ok s"

definition reduced_ok :: "health_snapshot \<Rightarrow> bool" where
  "reduced_ok s \<longleftrightarrow> (hs_stage s = REDUCED \<longrightarrow> 3 \<le> hs_api_successes s)"

lemma opt_le_simps [simp]:
  "opt_le None b" "opt_le (Some x) (Some y) \<longleftrightarrow> x \<le> y" "\<not> opt_le (Some x) None" "opt_le a a"
  by (auto simp: opt_le_def split: option.split)

lemma opt_le_trans: "opt_le a b \<Longrightarrow> opt_le b c \<Longrightarrow> opt_le a c"
  by (cases a; cases b; cases c) auto

lemma before_simps [simp]:
  "\<not> before None b" "\<not> before a None" "before (Some x) (Some y) \<longleftrightarrow> x < y"
  by (auto simp: before_def split: option.split)

lemma none_or_before_simps [simp]:
  "none_or_before None b" "none_or_before a None" "none_or_before (Some x) (Some y) \<longleftrightarrow> x \<le> y"
  by (auto simp: none_or_before_def)

lemma opt_le_iff_before: "opt_le a b \<longleftrightarrow> \<not> (a \<noteq> None \<and> (b = None \<or> before b a))"
  by (cases a; cases b) auto

lemma latest_ge: "opt_le a (latest_observation a b)" "opt_le b (latest_observation a b)"
  by (cases a; cases b; auto)+

lemma latest_None [simp]: "latest_observation a None = a"
  by (cases a) auto

lemma latest_le_iff: "opt_le (latest_observation a b) c \<longleftrightarrow> opt_le a c \<and> opt_le b c"
  by (cases a; cases b; cases c) auto

text \<open>The parser accepts a snapshot's relationships exactly when it is coherent.\<close>

lemma ebind_ensure: "ebind (ensure b e) f = Inr y \<longleftrightarrow> b \<and> f () = Inr y"
  by simp

lemma ensure_unit: "ensure b e = Inr () \<longleftrightarrow> b"
  by simp

lemma validate_fill_iff:
  "hs_fill_within_limit s = (hs_fill_deviation s \<le> FILL_DEVIATION_LIMIT) \<and> \<not> API_SUCCESSES_REQUIRED < hs_fill_recovery_checks s
     \<and> validate_fill_relationships s = Inr () \<longleftrightarrow> fill_ok s"
  unfolding validate_fill_relationships_def fill_ok_def API_SUCCESSES_REQUIRED_def
  by (cases "hs_fill_anomaly_episode s = 0"; cases "hs_fill_within_limit s")
    (simp_all only: if_True if_False ebind_ensure ensure_unit not_less not_le de_Morgan_disj not_not simp_thms)

lemma activation_not_after:
  "opt_le (latest_observation a b) c \<Longrightarrow> opt_le d b \<Longrightarrow> \<not> before c d"
  unfolding latest_le_iff by (cases b; cases c; cases d) auto

lemma validate_api_iff: "validate_api_relationships s = Inr () \<longleftrightarrow> api_ok s"
proof -
  have "validate_api_relationships s = Inr () \<longleftrightarrow>
      api_ok s \<and> \<not> before (hs_last_observation_at_utc s) (hs_api_latch_activated_at_utc s)"
    unfolding validate_api_relationships_def api_ok_def Let_def ebind_ensure ensure_unit api_reason_iff opt_le_iff_before
    by (simp only: simp_thms conj_assoc)
  moreover have "api_ok s \<Longrightarrow> \<not> before (hs_last_observation_at_utc s) (hs_api_latch_activated_at_utc s)"
    by (rule activation_not_after [of "hs_last_success_at_utc s" "hs_last_failure_at_utc s"]) (simp_all only: api_ok_def Let_def last_api_observation_def)
  ultimately show ?thesis by blast
qed

lemma validate_stage_iff: "validate_stage s = Inr () \<longleftrightarrow> stage_ok s \<and> reduced_ok s"
  by (cases "hs_stage s")
    (auto simp: validate_stage_def stage_ok_def reduced_ok_def API_SUCCESSES_REQUIRED_def Let_def)

lemma validate_iff:
  "validate_snapshot_relationships s h r = Inr () \<longleftrightarrow>
     coherent s \<and> reduced_ok s \<and> h = ha_halt_entries (action_of s) \<and> r = ha_resume_reduced (action_of s)"
proof -
  have "validate_snapshot_relationships s h r = Inr () \<longleftrightarrow> hs_reasons s = derive_reasons s \<and> ledger_ok s
      \<and> (hs_fill_within_limit s = (hs_fill_deviation s \<le> FILL_DEVIATION_LIMIT)
        \<and> \<not> API_SUCCESSES_REQUIRED < hs_fill_recovery_checks s \<and> validate_fill_relationships s = Inr ())
      \<and> validate_api_relationships s = Inr () \<and> validate_stage s = Inr ()
      \<and> h = ha_halt_entries (action_of s) \<and> r = ha_resume_reduced (action_of s)"
    unfolding validate_snapshot_relationships_def ledger_ok_def ebind_ensure ensure_unit ebind_eq_Inr by simp
  then show ?thesis
    unfolding coherent_def validate_api_iff validate_fill_iff validate_stage_iff by blast
qed

section \<open>Finishing an observation\<close>

lemma settle_fields [simp]:
  "hs_version (settle s) = hs_version s"
  "hs_api_failures (settle s) = hs_api_failures s"
  "hs_api_successes (settle s) = hs_api_successes s"
  "hs_api_failure_latched (settle s) = hs_api_failure_latched s"
  "hs_api_latch_activated_at_utc (settle s) = hs_api_latch_activated_at_utc s"
  "hs_unresolved_orders (settle s) = hs_unresolved_orders s"
  "hs_ledger_matches (settle s) = hs_ledger_matches s"
  "hs_ledger_cash_difference (settle s) = hs_ledger_cash_difference s"
  "hs_ledger_btc_difference (settle s) = hs_ledger_btc_difference s"
  "hs_timestamps_monotonic (settle s) = hs_timestamps_monotonic s"
  "hs_schema_valid (settle s) = hs_schema_valid s"
  "hs_latest_candle_valid (settle s) = hs_latest_candle_valid s"
  "hs_fill_within_limit (settle s) = hs_fill_within_limit s"
  "hs_fill_deviation (settle s) = hs_fill_deviation s"
  "hs_fill_anomaly_episode (settle s) = hs_fill_anomaly_episode s"
  "hs_fill_recovery_checks (settle s) = hs_fill_recovery_checks s"
  "hs_fill_anomaly_deviation (settle s) = hs_fill_anomaly_deviation s"
  "hs_fill_anomaly_detected_at_utc (settle s) = hs_fill_anomaly_detected_at_utc s"
  "hs_fill_anomaly_resolved_at_utc (settle s) = hs_fill_anomaly_resolved_at_utc s"
  "hs_last_fill_recovery_at_utc (settle s) = hs_last_fill_recovery_at_utc s"
  "hs_last_success_at_utc (settle s) = hs_last_success_at_utc s"
  "hs_last_failure_at_utc (settle s) = hs_last_failure_at_utc s"
  "hs_last_observation_at_utc (settle s) = hs_last_observation_at_utc s"
  "hs_reasons (settle s) = derive_reasons s"
  by (simp_all add: settle_def Let_def)

lemma settle_stage:
  "hs_stage (settle s) = (if derive_reasons s \<noteq> [] then HALTED_STAGE
     else if hs_stage s = HALTED_STAGE \<and> 3 \<le> hs_api_successes s then REDUCED else hs_stage s)"
  "hs_retry_attempts (settle s) = (if hs_stage (settle s) = HALTED_STAGE then hs_retry_attempts s + 1 else 0)"
  by (simp_all add: settle_def Let_def API_SUCCESSES_REQUIRED_def)

lemma derive_settle [simp]: "derive_reasons (settle s) = derive_reasons s"
  by (simp add: derive_reasons_eq)

lemma parts_settle [simp]:
  "api_ok (settle s) = api_ok s" "ledger_ok (settle s) = ledger_ok s" "fill_ok (settle s) = fill_ok s"
  by (simp_all add: api_ok_def ledger_ok_def fill_ok_def last_api_observation_def)

lemma stage_settle: "0 \<le> hs_retry_attempts s \<Longrightarrow> stage_ok (settle s)"
  unfolding stage_ok_def derive_settle by (cases "hs_stage s") (auto simp: settle_stage)

text \<open>Settled reasons and stage: the action of every observation is read off the predicates.\<close>

lemma coherent_settle:
  "api_ok s \<Longrightarrow> ledger_ok s \<Longrightarrow> fill_ok s \<Longrightarrow> 0 \<le> hs_retry_attempts s \<Longrightarrow> coherent (settle s)"
  by (simp add: coherent_def stage_settle)

section \<open>The parts under the observations\<close>

lemma api_ok_transfer:
  assumes "api_ok s" "hs_api_failure_latched t = hs_api_failure_latched s"
    "hs_api_latch_activated_at_utc t = hs_api_latch_activated_at_utc s" "hs_api_failures t = hs_api_failures s"
    "hs_api_successes t = hs_api_successes s \<or> hs_api_successes t = 0"
    "hs_last_failure_at_utc t = hs_last_failure_at_utc s" "hs_last_success_at_utc t = hs_last_success_at_utc s"
    "opt_le (hs_last_observation_at_utc s) (hs_last_observation_at_utc t)"
  shows "api_ok t"
proof -
  have "last_api_observation t = last_api_observation s" using assms(6,7) by (simp add: last_api_observation_def)
  moreover have "opt_le (last_api_observation s) (hs_last_observation_at_utc t)"
    using assms(1,8) opt_le_trans unfolding api_ok_def Let_def by blast
  ultimately show ?thesis
    using assms(1,5) unfolding api_ok_def Let_def assms(2-4,6,7) by auto
qed

lemma ledger_ok_transfer:
  "ledger_ok s \<Longrightarrow> hs_ledger_matches t = hs_ledger_matches s \<Longrightarrow>
    hs_ledger_cash_difference t = hs_ledger_cash_difference s \<Longrightarrow>
    hs_ledger_btc_difference t = hs_ledger_btc_difference s \<Longrightarrow> ledger_ok t"
  by (simp add: ledger_ok_def)

lemma seen_fields [simp]:
  "hs_version (seen t s) = hs_version s" "hs_stage (seen t s) = hs_stage s" "hs_reasons (seen t s) = hs_reasons s"
  "hs_api_failures (seen t s) = hs_api_failures s" "hs_api_successes (seen t s) = hs_api_successes s"
  "hs_api_failure_latched (seen t s) = hs_api_failure_latched s"
  "hs_api_latch_activated_at_utc (seen t s) = hs_api_latch_activated_at_utc s"
  "hs_unresolved_orders (seen t s) = hs_unresolved_orders s" "hs_ledger_matches (seen t s) = hs_ledger_matches s"
  "hs_ledger_cash_difference (seen t s) = hs_ledger_cash_difference s"
  "hs_ledger_btc_difference (seen t s) = hs_ledger_btc_difference s"
  "hs_timestamps_monotonic (seen t s) = hs_timestamps_monotonic s" "hs_schema_valid (seen t s) = hs_schema_valid s"
  "hs_latest_candle_valid (seen t s) = hs_latest_candle_valid s" "hs_fill_within_limit (seen t s) = hs_fill_within_limit s"
  "hs_fill_deviation (seen t s) = hs_fill_deviation s" "hs_fill_anomaly_episode (seen t s) = hs_fill_anomaly_episode s"
  "hs_fill_recovery_checks (seen t s) = hs_fill_recovery_checks s"
  "hs_fill_anomaly_deviation (seen t s) = hs_fill_anomaly_deviation s"
  "hs_fill_anomaly_detected_at_utc (seen t s) = hs_fill_anomaly_detected_at_utc s"
  "hs_fill_anomaly_resolved_at_utc (seen t s) = hs_fill_anomaly_resolved_at_utc s"
  "hs_last_fill_recovery_at_utc (seen t s) = hs_last_fill_recovery_at_utc s"
  "hs_retry_attempts (seen t s) = hs_retry_attempts s" "hs_last_success_at_utc (seen t s) = hs_last_success_at_utc s"
  "hs_last_failure_at_utc (seen t s) = hs_last_failure_at_utc s"
  "hs_last_observation_at_utc (seen t s) = latest_observation (hs_last_observation_at_utc s) t"
  by (simp_all add: seen_def)

text \<open>The API counters and the latch under an observation that is not stale.\<close>

lemma api_ok_failure:
  assumes "api_ok s" "\<not> stale_api t s" "0 \<le> hs_api_failures s"
  shows "api_ok (api_failure t s)"
proof -
  have fresh: "\<And>x. hs_last_failure_at_utc s = Some x \<Longrightarrow> x < t" "\<And>x. hs_last_success_at_utc s = Some x \<Longrightarrow> x < t"
    using assms(2) by (auto simp: stale_api_def last_api_observation_def split: option.splits
        elim: latest_observation.elims)
  have lo: "opt_le (hs_last_success_at_utc s) (hs_last_observation_at_utc s)"
    using assms(1) by (simp add: api_ok_def Let_def last_api_observation_def latest_le_iff)
  show ?thesis
    using assms(1,3) fresh lo
    apply (cases "hs_api_failure_latched s"; cases "hs_last_failure_at_utc s"; cases "hs_last_success_at_utc s";
      cases "hs_api_latch_activated_at_utc s"; cases "hs_last_observation_at_utc s")
    by (auto simp: api_ok_def Let_def api_failure_def last_api_observation_def)
qed

lemma api_ok_success:
  assumes "api_ok s" "\<not> stale_api t s" "0 \<le> hs_api_successes s"
  shows "api_ok (api_success t s)"
proof -
  have fresh: "\<And>x. hs_last_failure_at_utc s = Some x \<Longrightarrow> x < t" "\<And>x. hs_last_success_at_utc s = Some x \<Longrightarrow> x < t"
    using assms(2) by (auto simp: stale_api_def last_api_observation_def split: option.splits
        elim: latest_observation.elims)
  have lo: "opt_le (hs_last_failure_at_utc s) (hs_last_observation_at_utc s)"
    using assms(1) by (simp add: api_ok_def Let_def last_api_observation_def latest_le_iff)
  show ?thesis
    using assms(1,3) fresh lo
    by (cases "hs_api_failure_latched s"; cases "hs_last_failure_at_utc s"; cases "hs_last_success_at_utc s";
      cases "hs_api_latch_activated_at_utc s"; cases "hs_last_observation_at_utc s")
     (auto simp: api_ok_def Let_def api_success_def last_api_observation_def API_SUCCESSES_REQUIRED_def)
qed

lemma ledger_ok_check: "ledger_ok (ledger_check c b t s)"
  by (simp add: ledger_ok_def ledger_check_def Let_def)

text \<open>The time order that the bookkeeping of a fill episode rests on.\<close>

definition fill_times :: "health_snapshot \<Rightarrow> bool" where
  "fill_times s \<longleftrightarrow> opt_le (hs_fill_anomaly_detected_at_utc s) (hs_last_observation_at_utc s)
     \<and> opt_le (hs_last_fill_recovery_at_utc s) (hs_last_observation_at_utc s)"

text \<open>A time is timely when no earlier observation is later.\<close>

definition timely :: "instant option \<Rightarrow> health_snapshot \<Rightarrow> bool" where
  "timely t s \<longleftrightarrow> t = None \<or> opt_le (hs_last_observation_at_utc s) t"

lemma fill_ok_transfer:
  assumes "fill_ok s" "hs_fill_within_limit t = hs_fill_within_limit s" "hs_fill_deviation t = hs_fill_deviation s"
    "hs_fill_anomaly_episode t = hs_fill_anomaly_episode s" "hs_fill_recovery_checks t = hs_fill_recovery_checks s"
    "hs_fill_anomaly_deviation t = hs_fill_anomaly_deviation s"
    "hs_fill_anomaly_detected_at_utc t = hs_fill_anomaly_detected_at_utc s"
    "hs_fill_anomaly_resolved_at_utc t = hs_fill_anomaly_resolved_at_utc s"
    "hs_last_fill_recovery_at_utc t = hs_last_fill_recovery_at_utc s"
  shows "fill_ok t"
  using assms(1) unfolding fill_ok_def assms(2-9) .

lemma fill_ok_recovery:
  assumes "fill_ok s" "fill_times s" "timely (Some t) s" "\<not> stale_recovery t s" "0 \<le> hs_fill_recovery_checks s"
  shows "fill_ok (flat_recovery b t s)"
proof -
  have active: "\<not> hs_fill_within_limit s" using assms(4) by (simp add: stale_recovery_def)
  have t: "opt_le (hs_fill_anomaly_detected_at_utc s) (Some t)"
    using assms(2,3) opt_le_trans by (auto simp: fill_times_def timely_def)
  have lim: "(0 :: pyfloat) \<le> FILL_DEVIATION_LIMIT" by (simp add: FILL_DEVIATION_LIMIT_def) code_simp
  show ?thesis
    using assms(1,5) active t lim
    by (cases "hs_fill_anomaly_detected_at_utc s"; cases b)
      (auto simp: fill_ok_def flat_recovery_def Let_def API_SUCCESSES_REQUIRED_def not_less split: if_splits)
qed

lemma fill_ok_check:
  assumes "fill_ok s" "fill_times s" "timely t s" "in_limit = (d \<le> FILL_DEVIATION_LIMIT)" "0 \<le> hs_fill_anomaly_episode s"
    "d \<noteq> NaN" "hs_fill_anomaly_deviation s \<noteq> NaN"
  shows "fill_ok (fill_check in_limit d t s)"
proof -
  have t: "t \<noteq> None \<Longrightarrow> opt_le (hs_fill_anomaly_detected_at_utc s) t" "t \<noteq> None \<Longrightarrow> opt_le (hs_last_fill_recovery_at_utc s) t"
    using assms(2,3) opt_le_trans by (auto simp: fill_times_def timely_def)
  have m: "\<not> d \<le> FILL_DEVIATION_LIMIT \<Longrightarrow> \<not> pmax (hs_fill_anomaly_deviation s) d \<le> FILL_DEVIATION_LIMIT"
    using pmax_ge(2) [OF assms(7,6)] le_trans_float by blast
  show ?thesis
  proof (cases in_limit)
    case False
    then show ?thesis using assms(1,4,5) m
      by (auto simp: fill_ok_def fill_check_def Let_def)
  next
    case True
    then show ?thesis using assms(1,4,5) t
      by (cases t; cases "hs_fill_within_limit s"; cases "hs_fill_anomaly_detected_at_utc s"; cases "hs_last_fill_recovery_at_utc s")
        (auto simp: fill_ok_def fill_check_def Let_def API_SUCCESSES_REQUIRED_def not_less)
  qed
qed

section \<open>The type invariant\<close>

definition time_ok :: "instant option \<Rightarrow> bool" where
  "time_ok t \<longleftrightarrow> (case t of None \<Rightarrow> True | Some x \<Rightarrow> in_dt_range x)"

lemma time_ok_simps [simp]: "time_ok None" "time_ok (Some x) = in_dt_range x"
  by (simp_all add: time_ok_def)

lemma time_ok_latest: "time_ok a \<Longrightarrow> time_ok b \<Longrightarrow> time_ok (latest_observation a b)"
  by (cases a; cases b) (auto simp: max_def)

definition wf_snapshot :: "health_snapshot \<Rightarrow> bool" where
  "wf_snapshot s \<longleftrightarrow> hs_version s = HEALTH_VERSION
     \<and> 0 \<le> hs_api_failures s \<and> 0 \<le> hs_api_successes s \<and> hs_api_successes s \<le> 3 \<and> 0 \<le> hs_unresolved_orders s
     \<and> good_amount (hs_ledger_cash_difference s) \<and> good_amount (hs_ledger_btc_difference s)
     \<and> good_amount (hs_fill_deviation s) \<and> good_amount (hs_fill_anomaly_deviation s)
     \<and> 0 \<le> hs_fill_anomaly_episode s \<and> 0 \<le> hs_fill_recovery_checks s \<and> 0 \<le> hs_retry_attempts s
     \<and> time_ok (hs_api_latch_activated_at_utc s) \<and> time_ok (hs_fill_anomaly_detected_at_utc s)
     \<and> time_ok (hs_fill_anomaly_resolved_at_utc s) \<and> time_ok (hs_last_fill_recovery_at_utc s)
     \<and> time_ok (hs_last_success_at_utc s) \<and> time_ok (hs_last_failure_at_utc s) \<and> time_ok (hs_last_observation_at_utc s)"

lemma wf_settle: "wf_snapshot s \<Longrightarrow> wf_snapshot (settle s)"
  by (simp add: wf_snapshot_def settle_stage)

definition invariant :: "health_snapshot \<Rightarrow> bool" where
  "invariant s \<longleftrightarrow> wf_snapshot s \<and> coherent s \<and> fill_times s"

lemma invariant_healthy: "invariant healthy" "reduced_ok healthy"
proof -
  have "(0 :: pyfloat) \<le> LEDGER_TOLERANCE" "(0 :: pyfloat) \<le> FILL_DEVIATION_LIMIT" "feq 0 0" by code_simp+
  then show "invariant healthy" "reduced_ok healthy"
    by (simp_all add: invariant_def wf_snapshot_def coherent_def fill_times_def healthy_def api_ok_def ledger_ok_def
        fill_ok_def stage_ok_def no_reasons_iff derive_reasons_eq last_api_observation_def reduced_ok_def)
qed

text \<open>What an update must keep for the settled snapshot to satisfy the invariant.\<close>

lemma invariant_settle:
  "wf_snapshot s \<Longrightarrow> api_ok s \<Longrightarrow> ledger_ok s \<Longrightarrow> fill_ok s \<Longrightarrow> fill_times s \<Longrightarrow> invariant (settle s)"
  unfolding invariant_def using wf_settle coherent_settle
  by (simp add: fill_times_def) (simp add: wf_snapshot_def)

lemma fill_times_seen:
  "fill_times s \<Longrightarrow> fill_times (seen t s)"
  unfolding fill_times_def by (auto intro: opt_le_trans [OF _ latest_ge(1)])

section \<open>Every update keeps the invariant\<close>

text \<open>The updates that leave the API evidence, the ledger and the fills alone.\<close>

definition side_update :: "health_snapshot \<Rightarrow> health_snapshot \<Rightarrow> bool" where
  "side_update s t \<longleftrightarrow> (\<exists>a b c d e f. t = seen f (s\<lparr> hs_latest_candle_valid := a, hs_schema_valid := b,
     hs_timestamps_monotonic := c, hs_unresolved_orders := d, hs_api_successes := e \<rparr>)
     \<and> (e = hs_api_successes s \<or> e = 0) \<and> 0 \<le> d \<and> time_ok f)"

lemma side_update_invariant:
  assumes "invariant s" "side_update s t"
  shows "invariant (settle t)"
proof (rule invariant_settle)
  obtain a b c d e f where t: "t = seen f (s\<lparr> hs_latest_candle_valid := a, hs_schema_valid := b,
     hs_timestamps_monotonic := c, hs_unresolved_orders := d, hs_api_successes := e \<rparr>)"
    "e = hs_api_successes s \<or> e = 0" "0 \<le> d" "time_ok f"
    using assms(2) unfolding side_update_def by blast
  note inv = assms(1) [unfolded invariant_def coherent_def]
  show "wf_snapshot t" using inv t(2-4) by (auto simp: wf_snapshot_def t(1) time_ok_latest)
  show "api_ok t" by (rule api_ok_transfer [of s]) (use inv t(2) in \<open>simp_all add: t(1) latest_ge\<close>)
  show "ledger_ok t" by (rule ledger_ok_transfer [of s]) (use inv in \<open>simp_all add: t(1)\<close>)
  show "fill_ok t" by (rule fill_ok_transfer [of s]) (use inv in \<open>simp_all add: t(1)\<close>)
  show "fill_times t" unfolding t(1) using inv by (intro fill_times_seen) (simp add: fill_times_def)
qed

lemma side_updateI:
  "e = hs_api_successes s \<or> e = 0 \<Longrightarrow> 0 \<le> d \<Longrightarrow> time_ok f \<Longrightarrow>
    side_update s (seen f (s\<lparr> hs_latest_candle_valid := a, hs_schema_valid := b, hs_timestamps_monotonic := c,
      hs_unresolved_orders := d, hs_api_successes := e \<rparr>))"
  unfolding side_update_def by blast

lemma successes_after_cases: "successes_after k s = hs_api_successes s \<or> successes_after k s = 0"
  by (simp add: successes_after_def)

lemma side_updates:
  assumes u: "0 \<le> hs_unresolved_orders s"
  shows "in_dt_range t \<Longrightarrow> side_update s (candle_check l b t s)"
    "in_dt_range t \<Longrightarrow> side_update s (timestamp_check v t s)"
    "in_dt_range t \<Longrightarrow> side_update s (schema_check v t s)"
    "time_ok w \<Longrightarrow> 0 \<le> n \<Longrightarrow> side_update s (unresolved_check n w s)"
    "time_ok w \<Longrightarrow> side_update s (seen w (s\<lparr> hs_schema_valid := False, hs_api_successes := successes_after k s \<rparr>))"
    "in_dt_range t \<Longrightarrow> side_update s (seen (Some t) s)"
proof -
  have I: "0 \<le> d \<Longrightarrow> time_ok f \<Longrightarrow> side_update s (seen f (s\<lparr> hs_latest_candle_valid := a, hs_schema_valid := b,
      hs_timestamps_monotonic := c, hs_unresolved_orders := d, hs_api_successes := successes_after k s \<rparr>))" for k a b c d f
    by (rule side_updateI [OF successes_after_cases])
  show "in_dt_range t \<Longrightarrow> side_update s (candle_check l b t s)"
    using I [OF u, where k = "(hs_latest_candle_valid s \<and> \<not> l) \<or> (hs_schema_valid s \<and> \<not> b)" and f = "Some t" and a = l and b = "hs_schema_valid s \<and> b" and c = "hs_timestamps_monotonic s"]
    by (simp add: candle_check_def Let_def)
  show "in_dt_range t \<Longrightarrow> side_update s (timestamp_check v t s)"
    using I [OF u, where f = "Some t" and a = "hs_latest_candle_valid s" and b = "hs_schema_valid s" and c = v]
    by (simp add: timestamp_check_def)
  show "in_dt_range t \<Longrightarrow> side_update s (schema_check v t s)"
    using I [OF u, where f = "Some t" and a = "hs_latest_candle_valid s" and b = v and c = "hs_timestamps_monotonic s"]
    by (simp add: schema_check_def)
  show "time_ok w \<Longrightarrow> 0 \<le> n \<Longrightarrow> side_update s (unresolved_check n w s)"
    using I [where d = n and f = w and a = "hs_latest_candle_valid s" and b = "hs_schema_valid s"
        and c = "hs_timestamps_monotonic s"]
    by (simp add: unresolved_check_def)
  show "time_ok w \<Longrightarrow> side_update s (seen w (s\<lparr> hs_schema_valid := False, hs_api_successes := successes_after k s \<rparr>))"
    using I [OF u, where f = w and a = "hs_latest_candle_valid s" and b = False and c = "hs_timestamps_monotonic s"]
    by simp
  show "in_dt_range t \<Longrightarrow> side_update s (seen (Some t) s)"
    using side_updateI [of "hs_api_successes s" s, OF _ u, where f = "Some t" and a = "hs_latest_candle_valid s"
        and b = "hs_schema_valid s" and c = "hs_timestamps_monotonic s"]
    by simp
qed

lemma api_updates_invariant:
  assumes "invariant s" "\<not> stale_api t s" "in_dt_range t"
  shows "invariant (settle (api_failure t s))" "invariant (settle (api_success t s))"
proof -
  note inv = assms(1) [unfolded invariant_def coherent_def]
  have wf: "wf_snapshot s" using inv by simp
  have "ledger_ok (api_failure t s)" "ledger_ok (api_success t s)"
    by (rule ledger_ok_transfer [of s]; use inv in \<open>simp add: api_failure_def api_success_def Let_def\<close>)+
  moreover have "fill_ok (api_failure t s)" "fill_ok (api_success t s)"
    by (rule fill_ok_transfer [of s]; use inv in \<open>simp add: api_failure_def api_success_def Let_def\<close>)+
  moreover have "fill_times (api_failure t s)" "fill_times (api_success t s)"
    unfolding api_failure_def api_success_def Let_def
    by (rule fill_times_seen; use inv in \<open>simp add: fill_times_def\<close>)+
  ultimately have f: "ledger_ok (api_failure t s)" "fill_ok (api_failure t s)" "fill_times (api_failure t s)"
    "ledger_ok (api_success t s)" "fill_ok (api_success t s)" "fill_times (api_success t s)" by simp_all
  have n: "0 \<le> hs_api_failures s" "0 \<le> hs_api_successes s" using wf by (simp_all add: wf_snapshot_def)
  have w: "wf_snapshot (api_failure t s)" "wf_snapshot (api_success t s)"
    using wf assms(3) by (auto simp: wf_snapshot_def api_failure_def api_success_def Let_def
        API_SUCCESSES_REQUIRED_def time_ok_latest)
  show "invariant (settle (api_failure t s))"
    using w f n inv assms by (intro invariant_settle api_ok_failure) simp_all
  show "invariant (settle (api_success t s))"
    using w f n inv assms by (intro invariant_settle api_ok_success) simp_all
qed

lemma ledger_check_invariant:
  assumes "invariant s" "good_amount c" "good_amount b" "time_ok t"
  shows "invariant (settle (ledger_check c b t s))"
proof (rule invariant_settle)
  note inv = assms(1) [unfolded invariant_def coherent_def]
  show "wf_snapshot (ledger_check c b t s)"
    using inv assms by (auto simp: wf_snapshot_def ledger_check_def Let_def successes_after_def time_ok_latest)
  show "api_ok (ledger_check c b t s)"
    by (rule api_ok_transfer [of s]) (use inv in \<open>simp_all add: ledger_check_def Let_def successes_after_def latest_ge\<close>)
  show "fill_ok (ledger_check c b t s)"
    by (rule fill_ok_transfer [of s]) (use inv in \<open>simp_all add: ledger_check_def Let_def\<close>)
  show "fill_times (ledger_check c b t s)" unfolding ledger_check_def Let_def
    using inv by (intro fill_times_seen) (simp add: fill_times_def)
qed (simp add: ledger_ok_check)

lemma fill_check_invariant:
  assumes "invariant s" "good_amount d" "time_ok t" "timely t s" "in_limit = (d \<le> FILL_DEVIATION_LIMIT)"
  shows "invariant (settle (fill_check in_limit d t s))"
proof (rule invariant_settle)
  note inv = assms(1) [unfolded invariant_def coherent_def]
  have good: "good_amount (hs_fill_anomaly_deviation s)" using inv by (simp add: wf_snapshot_def)
  then have m: "good_amount (pmax (hs_fill_anomaly_deviation s) d)" using assms(2) by (simp add: pmax_def)
  show "wf_snapshot (fill_check in_limit d t s)"
    using inv assms m
    by (auto simp: wf_snapshot_def fill_check_def Let_def successes_after_def API_SUCCESSES_REQUIRED_def time_ok_latest)
  show "api_ok (fill_check in_limit d t s)"
    by (rule api_ok_transfer [of s]) (use inv in \<open>simp_all add: fill_check_def Let_def successes_after_def latest_ge\<close>)
  show "ledger_ok (fill_check in_limit d t s)"
    by (rule ledger_ok_transfer [of s]) (use inv in \<open>simp_all add: fill_check_def Let_def\<close>)
  show "fill_ok (fill_check in_limit d t s)"
    by (rule fill_ok_check)
      (use inv assms good not_NaN_finite in \<open>auto simp: wf_snapshot_def good_amount_def\<close>)
  show "fill_times (fill_check in_limit d t s)"
    using inv by (auto simp: fill_times_def fill_check_def Let_def intro: opt_le_trans [OF _ latest_ge(1)] latest_ge(2))
qed

lemma flat_recovery_invariant:
  assumes "invariant s" "in_dt_range t" "timely (Some t) s" "\<not> stale_recovery t s"
  shows "invariant (settle (flat_recovery b t s))"
proof (rule invariant_settle)
  note inv = assms(1) [unfolded invariant_def coherent_def]
  show "wf_snapshot (flat_recovery b t s)"
    using inv assms by (auto simp: wf_snapshot_def flat_recovery_def Let_def API_SUCCESSES_REQUIRED_def time_ok_latest)
  show "api_ok (flat_recovery b t s)"
    by (rule api_ok_transfer [of s]) (use inv in \<open>simp_all add: flat_recovery_def Let_def latest_ge\<close>)
  show "ledger_ok (flat_recovery b t s)"
    by (rule ledger_ok_transfer [of s]) (use inv in \<open>simp_all add: flat_recovery_def Let_def\<close>)
  show "fill_ok (flat_recovery b t s)"
    by (rule fill_ok_recovery) (use inv assms in \<open>simp_all add: wf_snapshot_def\<close>)
  show "fill_times (flat_recovery b t s)"
    using inv by (auto simp: fill_times_def flat_recovery_def Let_def intro: opt_le_trans [OF _ latest_ge(1)] latest_ge(2))
qed

section \<open>Observations as steps\<close>

text \<open>The calls of the monitor as data, and the call that each stands for.\<close>

datatype observation =
    ApiFailure pydatetime
  | ApiSuccess pydatetime
  | CandleCheck pydatetime "pydatetime option" pydatetime pyval
  | TimestampCheck pyval pydatetime
  | SchemaCheck pyval pydatetime
  | UnresolvedOrders pyval "pydatetime option"
  | LedgerCheck health_number health_number health_number health_number "pydatetime option"
  | FillCheck health_number health_number "pydatetime option"
  | FlatFillRecovery pyval pydatetime
  | RecoveryCycle pydatetime

fun apply_observation :: "observation \<Rightarrow> monitor \<Rightarrow> monitor \<times> health_action res" where
  "apply_observation (ApiFailure t) = record_api_failure t"
| "apply_observation (ApiSuccess t) = record_api_success t"
| "apply_observation (CandleCheck e obs t v) = record_candle_check e obs t v"
| "apply_observation (TimestampCheck v t) = record_timestamp_check v t"
| "apply_observation (SchemaCheck v t) = record_schema_check v t"
| "apply_observation (UnresolvedOrders n t) = set_unresolved_orders n t"
| "apply_observation (LedgerCheck a b c d t) = record_ledger_check a b c d t"
| "apply_observation (FillCheck e a t) = record_fill_check e a t"
| "apply_observation (FlatFillRecovery v t) = record_flat_fill_recovery_check v t"
| "apply_observation (RecoveryCycle t) = record_recovery_cycle_success t"

fun observation_time :: "observation \<Rightarrow> pydatetime option" where
  "observation_time (ApiFailure t) = Some t"
| "observation_time (ApiSuccess t) = Some t"
| "observation_time (CandleCheck _ _ t _) = Some t"
| "observation_time (TimestampCheck _ t) = Some t"
| "observation_time (SchemaCheck _ t) = Some t"
| "observation_time (UnresolvedOrders _ t) = t"
| "observation_time (LedgerCheck _ _ _ _ t) = t"
| "observation_time (FillCheck _ _ t) = t"
| "observation_time (FlatFillRecovery _ t) = Some t"
| "observation_time (RecoveryCycle t) = Some t"

text \<open>The numbers are machine numbers, and the deviation of a fill is no overflow.\<close>

fun numbers_ok :: "observation \<Rightarrow> bool" where
  "numbers_ok (LedgerCheck a b c d _) = (wf_number a \<and> wf_number b \<and> wf_number c \<and> wf_number d)"
| "numbers_ok (FillCheck e a _) = (wf_number e \<and> wf_number a \<and> isfinite (float_of_dec (decimal_deviation e a)))"
| "numbers_ok _ = True"

text \<open>A datetime of the calendar that lies no earlier than what the monitor has seen.\<close>

definition orderly :: "observation \<Rightarrow> health_snapshot \<Rightarrow> bool" where
  "orderly obs s \<longleftrightarrow> numbers_ok obs \<and> (case observation_time obs of None \<Rightarrow> True
     | Some d \<Rightarrow> in_dt_range (instant_of d) \<and> timely (Some (instant_of d)) s)"

inductive update :: "health_snapshot \<Rightarrow> health_snapshot \<Rightarrow> bool" where
  side: "side_update s t \<Longrightarrow> update s t"
| failure: "\<not> stale_api x s \<Longrightarrow> in_dt_range x \<Longrightarrow> update s (api_failure x s)"
| success: "\<not> stale_api x s \<Longrightarrow> in_dt_range x \<Longrightarrow> update s (api_success x s)"
| ledger: "good_amount c \<Longrightarrow> good_amount b \<Longrightarrow> time_ok x \<Longrightarrow> update s (ledger_check c b x s)"
| fill: "good_amount d \<Longrightarrow> time_ok x \<Longrightarrow> timely x s \<Longrightarrow> k = (d \<le> FILL_DEVIATION_LIMIT) \<Longrightarrow> update s (fill_check k d x s)"
| recovery: "\<not> stale_recovery x s \<Longrightarrow> in_dt_range x \<Longrightarrow> timely (Some x) s \<Longrightarrow> update s (flat_recovery b x s)"

inductive health_step :: "health_snapshot \<Rightarrow> health_snapshot \<Rightarrow> bool" where
  ignored: "health_step s s"
| settled: "update s t \<Longrightarrow> health_step s (settle t)"
| promoted: "hs_stage s = REDUCED \<Longrightarrow> derive_reasons s = [] \<Longrightarrow> in_dt_range x \<Longrightarrow>
    health_step s ((seen (Some x) s)\<lparr> hs_stage := NORMAL, hs_retry_attempts := 0 \<rparr>)"

lemma update_invariant: "update s t \<Longrightarrow> invariant s \<Longrightarrow> invariant (settle t)"
  by (induction rule: update.induct)
    (simp_all add: side_update_invariant api_updates_invariant ledger_check_invariant fill_check_invariant
      flat_recovery_invariant)

lemma promoted_invariant:
  assumes "invariant s" "derive_reasons s = []" "in_dt_range x"
  shows "invariant ((seen (Some x) s)\<lparr> hs_stage := NORMAL, hs_retry_attempts := 0 \<rparr>)" (is "invariant ?t")
proof -
  note inv = assms(1) [unfolded invariant_def coherent_def]
  have r: "derive_reasons ?t = derive_reasons s" by (simp add: derive_reasons_eq)
  have "wf_snapshot ?t" using inv assms(3) by (simp add: wf_snapshot_def time_ok_latest)
  moreover have "api_ok ?t" by (rule api_ok_transfer [of s]) (use inv in \<open>simp_all add: latest_ge\<close>)
  moreover have "ledger_ok ?t" by (rule ledger_ok_transfer [of s]) (use inv in simp_all)
  moreover have "fill_ok ?t" by (rule fill_ok_transfer [of s]) (use inv in simp_all)
  moreover have "fill_times ?t" using inv fill_times_seen [of s "Some x"] by (simp add: fill_times_def)
  moreover have "stage_ok ?t" unfolding stage_ok_def r using assms(2) by simp
  moreover have "hs_reasons ?t = derive_reasons ?t" unfolding r using inv by simp
  ultimately show ?thesis by (simp add: invariant_def coherent_def)
qed

lemma health_step_invariant: "health_step s t \<Longrightarrow> invariant s \<Longrightarrow> invariant t"
  by (induction rule: health_step.induct) (simp_all add: update_invariant promoted_invariant)

text \<open>Every call of the monitor is a step of its snapshot.\<close>

lemma observe_snapshot [simp]: "hm_snapshot (fst (observe m t)) = settle t"
  by (simp add: observe_def finish_observation_def Let_def)

lemma reject_step:
  assumes "time_ok x" "0 \<le> hs_unresolved_orders (hm_snapshot m)"
  shows "health_step (hm_snapshot m) (hm_snapshot (fst (reject x e m)))"
  using side_updates(5) [OF assms(2,1)] by (simp add: reject_def fail_schema_def Let_def health_step.settled update.side)

lemma at_time_step:
  assumes "\<And>x. t = Inr x \<Longrightarrow> health_step (hm_snapshot m) (hm_snapshot (fst (f x m)))"
  shows "health_step (hm_snapshot m) (hm_snapshot (fst (at_time t f m)))"
  using assms by (cases t) (auto simp: at_time_def health_step.ignored)

lemma utc_datetime_Inr: "utc_datetime d label = Inr t \<longleftrightarrow> d = Aware t 0"
  by (auto simp: utc_datetime_def split: pydatetime.splits if_splits)

lemma optional_utc_Inr: "optional_utc_datetime d label = Inr t \<longleftrightarrow> (case t of None \<Rightarrow> d = None | Some x \<Rightarrow> d = Some (Aware x 0))"
  by (auto simp: optional_utc_datetime_def utc_datetime_Inr split: option.splits)

lemma observe_step: "update (hm_snapshot m) t \<Longrightarrow> health_step (hm_snapshot m) (hm_snapshot (fst (observe m2 t)))"
  by (simp add: health_step.settled)

lemma api_step:
  assumes "in_dt_range (instant_of d)"
  shows "health_step (hm_snapshot m) (hm_snapshot (fst (record_api_failure d m)))"
    "health_step (hm_snapshot m) (hm_snapshot (fst (record_api_success d m)))"
  unfolding record_api_failure_def record_api_success_def
  using assms by (auto intro!: at_time_step health_step.settled update.failure update.success
      simp: utc_datetime_Inr health_step.ignored)

lemma check_step:
  assumes "in_dt_range (instant_of d)" "0 \<le> hs_unresolved_orders (hm_snapshot m)"
  shows "health_step (hm_snapshot m) (hm_snapshot (fst (record_timestamp_check v d m)))"
    "health_step (hm_snapshot m) (hm_snapshot (fst (record_schema_check v d m)))"
    "health_step (hm_snapshot m) (hm_snapshot (fst (record_candle_check e c d v m)))"
  unfolding record_timestamp_check_def record_schema_check_def record_candle_check_def
  using assms side_updates [OF assms(2)]
  by (cases v; auto intro!: at_time_step reject_step health_step.settled update.side simp: utc_datetime_Inr)+

lemma unresolved_step:
  assumes "case d of None \<Rightarrow> True | Some x \<Rightarrow> in_dt_range (instant_of x)" "0 \<le> hs_unresolved_orders (hm_snapshot m)"
  shows "health_step (hm_snapshot m) (hm_snapshot (fst (set_unresolved_orders n d m)))"
  unfolding set_unresolved_orders_def
  using assms side_updates(4) [OF assms(2)]
  by (cases n; auto intro!: at_time_step reject_step health_step.settled update.side
      simp: optional_utc_Inr time_ok_def split: option.splits)

lemma ledger_step:
  assumes "case d of None \<Rightarrow> True | Some x \<Rightarrow> in_dt_range (instant_of x)" "0 \<le> hs_unresolved_orders (hm_snapshot m)"
    "wf_number sc" "wf_number ac" "wf_number sb" "wf_number ab"
  shows "health_step (hm_snapshot m) (hm_snapshot (fst (record_ledger_check sc ac sb ab d m)))"
  unfolding record_ledger_check_def
proof (rule at_time_step)
  fix x assume x: "optional_utc_datetime d ''ledger check time'' = Inr x"
  have t: "time_ok x" using x assms(1) by (auto simp: optional_utc_Inr split: option.splits)
  show "health_step (hm_snapshot m) (hm_snapshot (fst (case emap (\<lambda>v. health_nonnegative_number v ''ledger values'')
      [sc, ac, sb, ab] of Inl e \<Rightarrow> reject x e m
     | Inr _ \<Rightarrow> observe m (ledger_check (ledger_difference sc ac) (ledger_difference sb ab) x (hm_snapshot m)))))"
  proof (cases "emap (\<lambda>v. health_nonnegative_number v ''ledger values'') [sc, ac, sb, ab]")
    case (Inl e)
    show ?thesis unfolding Inl sum.case using reject_step [OF t assms(2)] by simp
  next
    case (Inr xs)
    then have "good_amount (ledger_difference sc ac)" "good_amount (ledger_difference sb ab)"
      using assms by (auto intro: good_ledger_difference)
    then show ?thesis unfolding Inr sum.case using t by (simp add: health_step.settled update.ledger)
  qed
qed

lemma fill_step:
  assumes "case d of None \<Rightarrow> True | Some x \<Rightarrow> in_dt_range (instant_of x) \<and> timely (Some (instant_of x)) (hm_snapshot m)"
    "0 \<le> hs_unresolved_orders (hm_snapshot m)" "wf_number e" "isfinite (float_of_dec (decimal_deviation e a))"
  shows "health_step (hm_snapshot m) (hm_snapshot (fst (record_fill_check e a d m)))"
  unfolding record_fill_check_def
proof (rule at_time_step)
  fix x assume x: "optional_utc_datetime d ''fill check time'' = Inr x"
  have t: "time_ok x" "timely x (hm_snapshot m)"
    using x assms(1) by (auto simp: optional_utc_Inr timely_def split: option.splits)
  show "health_step (hm_snapshot m) (hm_snapshot (fst (case emap (\<lambda>v. positive_finite v ''fill prices'') [e, a] of
       Inl e \<Rightarrow> reject x e m
     | Inr _ \<Rightarrow> let d = decimal_deviation e a
         in observe m (fill_check (d \<le> FILL_DEVIATION_LIMIT_DECIMAL) (float_deviation d) x (hm_snapshot m)))))"
  proof (cases "emap (\<lambda>v. positive_finite v ''fill prices'') [e, a]")
    case (Inl err)
    show ?thesis unfolding Inl sum.case using reject_step [OF t(1) assms(2)] by simp
  next
    case (Inr xs)
    then have "0 \<le> dval (decimal_deviation e a)" using assms(3) by (auto intro: decimal_deviation_nonneg)
    then have "good_amount (float_deviation (decimal_deviation e a))" by (rule good_float_deviation) fact
    then show ?thesis unfolding Inr sum.case using t
      by (auto simp: Let_def float_deviation_limit simp del: dle intro!: health_step.settled update.fill)
  qed
qed

lemma recovery_step:
  assumes "in_dt_range (instant_of d)" "timely (Some (instant_of d)) (hm_snapshot m)" "0 \<le> hs_unresolved_orders (hm_snapshot m)"
  shows "health_step (hm_snapshot m) (hm_snapshot (fst (record_flat_fill_recovery_check v d m)))"
    "health_step (hm_snapshot m) (hm_snapshot (fst (record_recovery_cycle_success d m)))"
proof -
  show "health_step (hm_snapshot m) (hm_snapshot (fst (record_flat_fill_recovery_check v d m)))"
    unfolding record_flat_fill_recovery_check_def
    using assms by (cases v; auto intro!: at_time_step reject_step health_step.settled update.recovery
        simp: utc_datetime_Inr health_step.ignored)
  have r: "derive_reasons (seen x s) = derive_reasons s" for x s by (simp add: derive_reasons_eq)
  show "health_step (hm_snapshot m) (hm_snapshot (fst (record_recovery_cycle_success d m)))"
    unfolding record_recovery_cycle_success_def Let_def
    using assms side_updates(6) [OF assms(3)]
    by (auto intro!: at_time_step health_step.settled update.side health_step.promoted simp: utc_datetime_Inr r)
qed

lemma observation_step:
  assumes "orderly obs (hm_snapshot m)" "wf_snapshot (hm_snapshot m)"
  shows "health_step (hm_snapshot m) (hm_snapshot (fst (apply_observation obs m)))"
proof -
  have u: "0 \<le> hs_unresolved_orders (hm_snapshot m)" using assms(2) by (simp add: wf_snapshot_def)
  show ?thesis
    using assms(1)
    by (cases obs) (auto simp: orderly_def intro!: api_step check_step [OF _ u] unresolved_step [OF _ u] ledger_step [OF _ u]
        fill_step [OF _ u] recovery_step [OF _ _ u] split: option.splits)
qed

end
