(* ===== verification/Health_Parse.thy ===== *)
theory Health_Parse
  imports Health_Inv
begin

text \<open>
  The mapping of a snapshot and the parser are inverse to each other: what the parser returns
  satisfies the type invariant and the relationships, and the mapping of such a snapshot
  reads back. The payload that the store keeps, of version two, with its members sorted and
  its tuples as lists, reads back without the evidence of fill recovery.
\<close>

section \<open>Strict values\<close>

lemma strict_stage_value [simp]: "strict_stage (JStr (stage_value st)) = Inr st"
  by (cases st) (simp_all add: strict_stage_def)

lemma json_strings_map [simp]: "json_strings (map JStr rs) = Some rs"
  by (induction rs) simp_all

lemma strict_reasons_seq:
  assumes "rs = filter (\<lambda>r. r \<in> set rs) HEALTH_REASON_ORDER"
  shows "strict_reasons (JTuple (map JStr rs)) = Inr rs" "strict_reasons (JList (map JStr rs)) = Inr rs"
  using assms by (simp_all add: strict_reasons_def)

lemma strict_int_Inr: "strict_int v l = Inr n \<longleftrightarrow> v = JInt n \<and> 0 \<le> n"
  by (auto simp: strict_int_def split: json.splits)

lemma strict_int_JInt [simp]: "0 \<le> n \<Longrightarrow> strict_int (JInt n) l = Inr n"
  by (simp add: strict_int_Inr)

lemma strict_bool_JBool [simp]: "strict_bool (JBool b) l = Inr b"
  by (simp add: strict_bool_def)

lemma nonnegative_finite_JFloat [simp]: "good_amount x \<Longrightarrow> nonnegative_finite (JFloat x) l = Inr x"
  by (simp add: nonnegative_finite_def health_nonnegative_number_def health_finite_number_def good_amount_iff)

lemma optional_datetime_back [simp]: "time_ok t \<Longrightarrow> optional_canonical_datetime (optional_datetime t) l = Inr t"
  by (cases t) (simp_all add: optional_canonical_datetime_def parse_iso)

section \<open>The members of a mapping\<close>

lemma keys_to_mapping: "map fst (to_mapping s) = [''version'', ''stage'', ''reasons'', ''halt_entries'', ''resume_reduced'',
     ''api_failures'', ''api_successes'', ''api_failure_latched'', ''api_latch_activated_at_utc'', ''unresolved_orders'',
     ''ledger_matches'', ''ledger_cash_difference'', ''ledger_btc_difference'', ''timestamps_monotonic'',
     ''schema_valid'', ''latest_candle_valid'', ''fill_within_limit'', ''fill_deviation'', ''fill_anomaly_episode'',
     ''fill_recovery_checks'', ''fill_anomaly_deviation'', ''fill_anomaly_detected_at_utc'',
     ''fill_anomaly_resolved_at_utc'', ''last_fill_recovery_at_utc'', ''retry_attempts'',
     ''last_success_at_utc'', ''last_failure_at_utc'', ''last_observation_at_utc'']"
  by (simp add: to_mapping_def)

lemma keys_are_to_mapping: "keys_are (to_mapping s) SNAPSHOT_KEYS" "\<not> keys_are (to_mapping s) SNAPSHOT_V2_KEYS"
proof -
  show "keys_are (to_mapping s) SNAPSHOT_KEYS" unfolding keys_are_def keys_to_mapping by code_simp
  have "''fill_recovery_checks'' \<in> set (map fst (to_mapping s))" unfolding keys_to_mapping by code_simp
  moreover have "''fill_recovery_checks'' \<notin> set SNAPSHOT_V2_KEYS" by code_simp
  ultimately show "\<not> keys_are (to_mapping s) SNAPSHOT_V2_KEYS" unfolding keys_are_def by blast
qed

lemma field_to_mapping:
  "field (to_mapping s) ''version'' = JInt (hs_version s)"
  "field (to_mapping s) ''stage'' = JStr (stage_value (hs_stage s))"
  "field (to_mapping s) ''reasons'' = JTuple (map JStr (hs_reasons s))"
  "field (to_mapping s) ''halt_entries'' = JBool (ha_halt_entries (action_of s))"
  "field (to_mapping s) ''resume_reduced'' = JBool (ha_resume_reduced (action_of s))"
  "field (to_mapping s) ''api_failures'' = JInt (hs_api_failures s)"
  "field (to_mapping s) ''api_successes'' = JInt (hs_api_successes s)"
  "field (to_mapping s) ''api_failure_latched'' = JBool (hs_api_failure_latched s)"
  "field (to_mapping s) ''api_latch_activated_at_utc'' = optional_datetime (hs_api_latch_activated_at_utc s)"
  "field (to_mapping s) ''unresolved_orders'' = JInt (hs_unresolved_orders s)"
  "field (to_mapping s) ''ledger_matches'' = JBool (hs_ledger_matches s)"
  "field (to_mapping s) ''ledger_cash_difference'' = JFloat (hs_ledger_cash_difference s)"
  "field (to_mapping s) ''ledger_btc_difference'' = JFloat (hs_ledger_btc_difference s)"
  "field (to_mapping s) ''timestamps_monotonic'' = JBool (hs_timestamps_monotonic s)"
  "field (to_mapping s) ''schema_valid'' = JBool (hs_schema_valid s)"
  "field (to_mapping s) ''latest_candle_valid'' = JBool (hs_latest_candle_valid s)"
  "field (to_mapping s) ''fill_within_limit'' = JBool (hs_fill_within_limit s)"
  "field (to_mapping s) ''fill_deviation'' = JFloat (hs_fill_deviation s)"
  "field (to_mapping s) ''fill_anomaly_episode'' = JInt (hs_fill_anomaly_episode s)"
  "field (to_mapping s) ''fill_recovery_checks'' = JInt (hs_fill_recovery_checks s)"
  "field (to_mapping s) ''fill_anomaly_deviation'' = JFloat (hs_fill_anomaly_deviation s)"
  "field (to_mapping s) ''fill_anomaly_detected_at_utc'' = optional_datetime (hs_fill_anomaly_detected_at_utc s)"
  "field (to_mapping s) ''fill_anomaly_resolved_at_utc'' = optional_datetime (hs_fill_anomaly_resolved_at_utc s)"
  "field (to_mapping s) ''last_fill_recovery_at_utc'' = optional_datetime (hs_last_fill_recovery_at_utc s)"
  "field (to_mapping s) ''retry_attempts'' = JInt (hs_retry_attempts s)"
  "field (to_mapping s) ''last_success_at_utc'' = optional_datetime (hs_last_success_at_utc s)"
  "field (to_mapping s) ''last_failure_at_utc'' = optional_datetime (hs_last_failure_at_utc s)"
  "field (to_mapping s) ''last_observation_at_utc'' = optional_datetime (hs_last_observation_at_utc s)"
  by (simp_all add: field_def to_mapping_def)

section \<open>Reading a mapping back\<close>

text \<open>The members that both versions have, as the parser reads them.\<close>

definition carries :: "members \<Rightarrow> health_snapshot \<Rightarrow> bool" where
  "carries p s \<longleftrightarrow>
     field p ''stage'' = JStr (stage_value (hs_stage s)) \<and> strict_reasons (field p ''reasons'') = Inr (hs_reasons s)
   \<and> field p ''halt_entries'' = JBool (ha_halt_entries (action_of s))
   \<and> field p ''resume_reduced'' = JBool (ha_resume_reduced (action_of s))
   \<and> field p ''api_failures'' = JInt (hs_api_failures s) \<and> field p ''api_successes'' = JInt (hs_api_successes s)
   \<and> field p ''api_failure_latched'' = JBool (hs_api_failure_latched s)
   \<and> field p ''api_latch_activated_at_utc'' = optional_datetime (hs_api_latch_activated_at_utc s)
   \<and> field p ''unresolved_orders'' = JInt (hs_unresolved_orders s)
   \<and> field p ''ledger_matches'' = JBool (hs_ledger_matches s)
   \<and> field p ''ledger_cash_difference'' = JFloat (hs_ledger_cash_difference s)
   \<and> field p ''ledger_btc_difference'' = JFloat (hs_ledger_btc_difference s)
   \<and> field p ''timestamps_monotonic'' = JBool (hs_timestamps_monotonic s)
   \<and> field p ''schema_valid'' = JBool (hs_schema_valid s)
   \<and> field p ''latest_candle_valid'' = JBool (hs_latest_candle_valid s)
   \<and> field p ''fill_within_limit'' = JBool (hs_fill_within_limit s)
   \<and> field p ''fill_deviation'' = JFloat (hs_fill_deviation s)
   \<and> field p ''retry_attempts'' = JInt (hs_retry_attempts s)
   \<and> field p ''last_success_at_utc'' = optional_datetime (hs_last_success_at_utc s)
   \<and> field p ''last_failure_at_utc'' = optional_datetime (hs_last_failure_at_utc s)
   \<and> field p ''last_observation_at_utc'' = optional_datetime (hs_last_observation_at_utc s)"

lemma carries_to_mapping:
  "hs_reasons s = derive_reasons s \<Longrightarrow> carries (to_mapping s) s"
  unfolding carries_def field_to_mapping using strict_reasons_seq(1) [OF reasons_canonical [of s]] by simp

text \<open>The snapshot without the evidence of fill recovery, as version two has it.\<close>

definition legacy_snapshot :: "health_snapshot \<Rightarrow> health_snapshot" where
  "legacy_snapshot s = s\<lparr> hs_fill_anomaly_episode := (if hs_fill_within_limit s then 0 else 1),
     hs_fill_recovery_checks := 0, hs_fill_anomaly_deviation := (if hs_fill_within_limit s then 0 else hs_fill_deviation s),
     hs_fill_anomaly_detected_at_utc := None, hs_fill_anomaly_resolved_at_utc := None,
     hs_last_fill_recovery_at_utc := None \<rparr>"

lemma wf_snapshot_facts:
  assumes "wf_snapshot s"
  shows "hs_version s = HEALTH_VERSION" "0 \<le> hs_api_failures s" "0 \<le> hs_api_successes s" "hs_api_successes s \<le> 3"
    "0 \<le> hs_unresolved_orders s" "good_amount (hs_ledger_cash_difference s)" "good_amount (hs_ledger_btc_difference s)"
    "good_amount (hs_fill_deviation s)" "good_amount (hs_fill_anomaly_deviation s)" "0 \<le> hs_fill_anomaly_episode s"
    "0 \<le> hs_fill_recovery_checks s" "0 \<le> hs_retry_attempts s" "time_ok (hs_api_latch_activated_at_utc s)"
    "time_ok (hs_fill_anomaly_detected_at_utc s)" "time_ok (hs_fill_anomaly_resolved_at_utc s)"
    "time_ok (hs_last_fill_recovery_at_utc s)" "time_ok (hs_last_success_at_utc s)" "time_ok (hs_last_failure_at_utc s)"
    "time_ok (hs_last_observation_at_utc s)"
  using assms unfolding wf_snapshot_def by blast+

lemma ebind_Inr_eq: "m = Inr x \<Longrightarrow> ebind m f = f x"
  by simp

lemma parse_fields_carries:
  assumes "carries p s" "wf_snapshot s" "fill_fields legacy p (hs_fill_within_limit s) (hs_fill_deviation s) healthy = Inr f"
  shows "parse_fields legacy p = Inr (f\<lparr> hs_version := HEALTH_VERSION, hs_stage := hs_stage s, hs_reasons := hs_reasons s,
        hs_api_failures := hs_api_failures s, hs_api_successes := hs_api_successes s,
        hs_api_failure_latched := hs_api_failure_latched s,
        hs_api_latch_activated_at_utc := hs_api_latch_activated_at_utc s, hs_unresolved_orders := hs_unresolved_orders s,
        hs_ledger_matches := hs_ledger_matches s, hs_ledger_cash_difference := hs_ledger_cash_difference s,
        hs_ledger_btc_difference := hs_ledger_btc_difference s, hs_timestamps_monotonic := hs_timestamps_monotonic s,
        hs_schema_valid := hs_schema_valid s, hs_latest_candle_valid := hs_latest_candle_valid s,
        hs_fill_within_limit := hs_fill_within_limit s, hs_fill_deviation := hs_fill_deviation s,
        hs_retry_attempts := hs_retry_attempts s, hs_last_success_at_utc := hs_last_success_at_utc s,
        hs_last_failure_at_utc := hs_last_failure_at_utc s, hs_last_observation_at_utc := hs_last_observation_at_utc s \<rparr>,
        ha_halt_entries (action_of s), ha_resume_reduced (action_of s))"
proof -
  note w = wf_snapshot_facts [OF assms(2)]
  have cap: "\<not> API_SUCCESSES_REQUIRED < hs_api_successes s" using w(4) by (simp add: API_SUCCESSES_REQUIRED_def)
  note c = assms(1) [unfolded carries_def]
  show ?thesis unfolding parse_fields_def
    by (simp only: c w cap assms(3) strict_stage_value strict_int_JInt strict_bool_JBool nonnegative_finite_JFloat
        optional_datetime_back ebind_Inr ensure_True simp_thms)
qed

lemma snapshot_eqI:
  fixes s :: health_snapshot
  assumes "hs_version s = HEALTH_VERSION"
    "hs_fill_anomaly_episode f = hs_fill_anomaly_episode s" "hs_fill_recovery_checks f = hs_fill_recovery_checks s"
    "hs_fill_anomaly_deviation f = hs_fill_anomaly_deviation s"
    "hs_fill_anomaly_detected_at_utc f = hs_fill_anomaly_detected_at_utc s"
    "hs_fill_anomaly_resolved_at_utc f = hs_fill_anomaly_resolved_at_utc s"
    "hs_last_fill_recovery_at_utc f = hs_last_fill_recovery_at_utc s"
  shows "f\<lparr> hs_version := HEALTH_VERSION, hs_stage := hs_stage s, hs_reasons := hs_reasons s,
        hs_api_failures := hs_api_failures s, hs_api_successes := hs_api_successes s,
        hs_api_failure_latched := hs_api_failure_latched s,
        hs_api_latch_activated_at_utc := hs_api_latch_activated_at_utc s, hs_unresolved_orders := hs_unresolved_orders s,
        hs_ledger_matches := hs_ledger_matches s, hs_ledger_cash_difference := hs_ledger_cash_difference s,
        hs_ledger_btc_difference := hs_ledger_btc_difference s, hs_timestamps_monotonic := hs_timestamps_monotonic s,
        hs_schema_valid := hs_schema_valid s, hs_latest_candle_valid := hs_latest_candle_valid s,
        hs_fill_within_limit := hs_fill_within_limit s, hs_fill_deviation := hs_fill_deviation s,
        hs_retry_attempts := hs_retry_attempts s, hs_last_success_at_utc := hs_last_success_at_utc s,
        hs_last_failure_at_utc := hs_last_failure_at_utc s, hs_last_observation_at_utc := hs_last_observation_at_utc s \<rparr> = s"
  using assms by simp

lemma validate_value:
  assumes "coherent s"
  shows "validate_snapshot_relationships s (ha_halt_entries (action_of s)) (ha_resume_reduced (action_of s)) =
    (if reduced_ok s then Inr () else Inl (HealthStateError ''REDUCED health state is contradictory''))"
proof (cases "reduced_ok s")
  case True
  then show ?thesis using assms by (simp add: validate_iff)
next
  case False
  have f: "hs_fill_within_limit s = (hs_fill_deviation s \<le> FILL_DEVIATION_LIMIT)"
    "\<not> API_SUCCESSES_REQUIRED < hs_fill_recovery_checks s" "validate_fill_relationships s = Inr ()"
    using assms validate_fill_iff [of s] unfolding coherent_def by blast+
  have a: "validate_api_relationships s = Inr ()" using assms by (simp add: validate_api_iff coherent_def)
  have l: "hs_ledger_matches s = (hs_ledger_cash_difference s \<le> LEDGER_TOLERANCE
      \<and> hs_ledger_btc_difference s \<le> LEDGER_TOLERANCE)" "hs_reasons s = derive_reasons s"
    using assms by (simp_all add: coherent_def ledger_ok_def)
  have st: "validate_stage s = Inl (HealthStateError ''REDUCED health state is contradictory'')"
    using False by (simp add: reduced_ok_def validate_stage_def Let_def ensure_def)
  show ?thesis
    unfolding validate_snapshot_relationships_def using False
    by (simp only: l(2) l(1) [symmetric] f(1) [symmetric] f(2,3) a st ebind_Inr ebind_Inl ensure_True not_False_eq_True if_False simp_thms)
qed

text \<open>The mapping reads back exactly when the snapshot is coherent and no broken \<open>REDUCED\<close>.\<close>

lemma from_to_mapping:
  assumes "wf_snapshot s" "coherent s"
  shows "from_mapping (to_mapping s) = (if reduced_ok s then Inr s
     else Inl (HealthStateError ''REDUCED health state is contradictory''))"
proof -
  note w = wf_snapshot_facts [OF assms(1)]
  have r: "hs_reasons s = derive_reasons s" using assms(2) by (simp add: coherent_def)
  obtain f where f: "fill_fields False (to_mapping s) (hs_fill_within_limit s) (hs_fill_deviation s) healthy = Inr f"
    "hs_fill_anomaly_episode f = hs_fill_anomaly_episode s" "hs_fill_recovery_checks f = hs_fill_recovery_checks s"
    "hs_fill_anomaly_deviation f = hs_fill_anomaly_deviation s"
    "hs_fill_anomaly_detected_at_utc f = hs_fill_anomaly_detected_at_utc s"
    "hs_fill_anomaly_resolved_at_utc f = hs_fill_anomaly_resolved_at_utc s"
    "hs_last_fill_recovery_at_utc f = hs_last_fill_recovery_at_utc s"
    by (simp add: fill_fields_def field_to_mapping w)
  have "parse_fields False (to_mapping s) = Inr (s, ha_halt_entries (action_of s), ha_resume_reduced (action_of s))"
    unfolding parse_fields_carries [OF carries_to_mapping [OF r] assms(1) f(1)] snapshot_eqI [OF w(1) f(2-7)] ..
  moreover have "to_mapping s \<noteq> []" by (simp add: to_mapping_def)
  ultimately have "from_mapping (to_mapping s) =
      ebind (validate_snapshot_relationships s (ha_halt_entries (action_of s)) (ha_resume_reduced (action_of s))) (\<lambda>_. Inr s)"
    using keys_are_to_mapping [of s] by (simp add: from_mapping_def field_to_mapping w(1) HEALTH_VERSION_def)
  then show ?thesis by (simp add: validate_value [OF assms(2)])
qed

section \<open>What the parser returns\<close>

lemma strict_reasons_Inr: "strict_reasons v = Inr rs \<Longrightarrow> rs = filter (\<lambda>r. r \<in> set rs) HEALTH_REASON_ORDER"
  by (auto simp: strict_reasons_def split: option.splits if_splits)

lemma optional_datetime_Inr:
  "optional_canonical_datetime v l = Inr t \<Longrightarrow> v = optional_datetime t"
  by (cases t) (auto simp: optional_canonical_datetime_def Let_def split: json.splits option.splits if_splits)

section \<open>The payload of the store\<close>

text \<open>The parser looks at a payload through its keys and members only.\<close>

lemma field_cong: "map_of p = map_of q \<Longrightarrow> field p = field q"
  by (rule ext) (simp add: field_def)

lemma keys_are_cong: "map_of p = map_of q \<Longrightarrow> keys_are p = keys_are q"
  by (rule ext) (simp add: keys_are_def flip: dom_map_of_conv_image_fst)

lemma from_mapping_cong:
  assumes "map_of p = map_of q" "p \<noteq> []" "q \<noteq> []"
  shows "from_mapping p = from_mapping q"
  using assms(2,3) unfolding from_mapping_def parse_fields_def fill_fields_def field_cong [OF assms(1)] keys_are_cong [OF assms(1)]
  by simp

lemma map_of_insert_member:
  "fst kv \<notin> fst ` set xs \<Longrightarrow> map_of (insert_member kv xs) = (map_of xs)(fst kv \<mapsto> snd kv)"
proof (induction xs)
  case (Cons x xs)
  then show ?case by (cases x) (auto simp: fun_upd_twist)
qed (cases kv; simp)

lemma keys_sort_members: "fst ` set (sort_members kvs) = fst ` set kvs"
  by (induction kvs) (auto simp: insert_member_set)

lemma map_of_sort_members:
  "distinct (map fst kvs) \<Longrightarrow> map_of (sort_members kvs) = map_of (map (\<lambda>kv. (fst kv, sort_json (snd kv))) kvs)"
proof (induction kvs)
  case (Cons kv kvs)
  then have "fst kv \<notin> fst ` set (sort_members kvs)" by (simp add: keys_sort_members)
  then show ?case using Cons by (simp add: map_of_insert_member)
qed simp

text \<open>A stored health payload: the storage mapping as the store normalises and sorts it.\<close>

definition thaw :: "json \<Rightarrow> json" where
  "thaw v = (case v of JTuple vs \<Rightarrow> JList vs | _ \<Rightarrow> v)"

definition stored_payload :: "health_snapshot \<Rightarrow> members" where
  "stored_payload s = sort_members (map (\<lambda>kv. (fst kv, thaw (snd kv))) (to_storage_mapping s))"

lemma normalize_strings [simp]: "normalize_list (map JStr rs) = Inr (map JStr rs)"
  by (induction rs) simp_all

lemma sort_strings [simp]: "sort_list (map JStr rs) = map JStr rs"
  by (induction rs) simp_all

lemma storage_mapping_eq:
  "to_storage_mapping s =
     [(''version'', JInt LEGACY_VERSION),
      (''stage'', JStr (stage_value (hs_stage s))),
      (''reasons'', JTuple (map JStr (hs_reasons s))),
      (''halt_entries'', JBool (ha_halt_entries (action_of s))),
      (''resume_reduced'', JBool (ha_resume_reduced (action_of s))),
      (''api_failures'', JInt (hs_api_failures s)),
      (''api_successes'', JInt (hs_api_successes s)),
      (''api_failure_latched'', JBool (hs_api_failure_latched s)),
      (''api_latch_activated_at_utc'', optional_datetime (hs_api_latch_activated_at_utc s)),
      (''unresolved_orders'', JInt (hs_unresolved_orders s)),
      (''ledger_matches'', JBool (hs_ledger_matches s)),
      (''ledger_cash_difference'', JFloat (hs_ledger_cash_difference s)),
      (''ledger_btc_difference'', JFloat (hs_ledger_btc_difference s)),
      (''timestamps_monotonic'', JBool (hs_timestamps_monotonic s)),
      (''schema_valid'', JBool (hs_schema_valid s)),
      (''latest_candle_valid'', JBool (hs_latest_candle_valid s)),
      (''fill_within_limit'', JBool (hs_fill_within_limit s)),
      (''fill_deviation'', JFloat (hs_fill_deviation s)),
      (''retry_attempts'', JInt (hs_retry_attempts s)),
      (''last_success_at_utc'', optional_datetime (hs_last_success_at_utc s)),
      (''last_failure_at_utc'', optional_datetime (hs_last_failure_at_utc s)),
      (''last_observation_at_utc'', optional_datetime (hs_last_observation_at_utc s))]"
  by (simp add: to_storage_mapping_def to_mapping_def FILL_KEYS_def)

lemma thaw_simps [simp]:
  "thaw (JTuple vs) = JList vs" "thaw (JInt n) = JInt n" "thaw (JStr t) = JStr t" "thaw (JBool b) = JBool b"
  "thaw (JFloat x) = JFloat x" "thaw (optional_datetime d) = optional_datetime d"
  by (cases d; simp add: thaw_def)+

lemma datetime_json [simp]:
  "normalize_json (optional_datetime d) = Inr (optional_datetime d)" "sort_json (optional_datetime d) = optional_datetime d"
  by (cases d; simp)+

text \<open>The store keeps the payload in this form.\<close>

lemma canonical_storage:
  assumes "wf_snapshot s"
  shows "canonical_payload (JObj (to_storage_mapping s)) =
    Inr (Compact (JObj (stored_payload s)), map (\<lambda>kv. (fst kv, thaw (snd kv))) (to_storage_mapping s))"
proof -
  note w = wf_snapshot_facts(6-8) [OF assms, unfolded good_amount_def]
  let ?n = "map (\<lambda>kv. (fst kv, thaw (snd kv))) (to_storage_mapping s)"
  have n: "normalize_obj (to_storage_mapping s) = Inr ?n" unfolding storage_mapping_eq by (simp add: w)
  then have "normalize_obj ?n = Inr ?n" by (rule normalize_idem(3))
  with n show ?thesis by (simp add: canonical_payload_def canonical_json_value_def stored_payload_def)
qed

lemma map_of_stored:
  "map_of (stored_payload s) = map_of (map (\<lambda>kv. (fst kv, thaw (snd kv))) (to_storage_mapping s))"
proof -
  let ?n = "map (\<lambda>kv. (fst kv, thaw (snd kv))) (to_storage_mapping s)"
  have "distinct (map fst ?n)" unfolding storage_mapping_eq by simp
  moreover have "map (\<lambda>kv. (fst kv, sort_json (snd kv))) ?n = ?n" unfolding storage_mapping_eq by simp
  ultimately show ?thesis unfolding stored_payload_def by (simp only: map_of_sort_members)
qed

lemma stored_carries:
  assumes "hs_reasons s = derive_reasons s"
  shows "carries (stored_payload s) s" "field (stored_payload s) ''version'' = JInt LEGACY_VERSION"
proof -
  have f: "field (stored_payload s) = field (map (\<lambda>kv. (fst kv, thaw (snd kv))) (to_storage_mapping s))"
    by (rule field_cong) (rule map_of_stored)
  note r = strict_reasons_seq(2) [OF reasons_canonical [of s]]
  show "carries (stored_payload s) s" unfolding carries_def f
    by (simp add: storage_mapping_eq field_def assms r)
  show "field (stored_payload s) ''version'' = JInt LEGACY_VERSION" unfolding f by (simp add: storage_mapping_eq field_def)
qed

lemma stored_keys: "keys_are (stored_payload s) SNAPSHOT_V2_KEYS" "stored_payload s \<noteq> []"
proof -
  have "keys_are (stored_payload s) = keys_are (map (\<lambda>kv. (fst kv, thaw (snd kv))) (to_storage_mapping s))"
    by (rule keys_are_cong) (rule map_of_stored)
  then have "keys_are (stored_payload s) SNAPSHOT_V2_KEYS =
      keys_are (map (\<lambda>kv. (fst kv, thaw (snd kv))) (to_storage_mapping s)) SNAPSHOT_V2_KEYS" by (rule fun_cong)
  also have "\<dots>" by (simp add: keys_are_def storage_mapping_eq SNAPSHOT_V2_KEYS_def)
  finally show k: "keys_are (stored_payload s) SNAPSHOT_V2_KEYS" by simp
  show "stored_payload s \<noteq> []"
  proof
    assume "stored_payload s = []"
    with k show False by (simp add: keys_are_def SNAPSHOT_V2_KEYS_def)
  qed
qed

lemma legacy_coherent:
  assumes "coherent s" "wf_snapshot s"
  shows "coherent (legacy_snapshot s)" "wf_snapshot (legacy_snapshot s)" "reduced_ok (legacy_snapshot s) = reduced_ok s"
    "action_of (legacy_snapshot s) = action_of s"
proof -
  have d: "derive_reasons (legacy_snapshot s) = derive_reasons s" by (simp add: derive_reasons_eq legacy_snapshot_def)
  have "api_ok (legacy_snapshot s)" by (rule api_ok_transfer [of s]) (use assms in \<open>simp_all add: legacy_snapshot_def coherent_def\<close>)
  moreover have "ledger_ok (legacy_snapshot s)"
    by (rule ledger_ok_transfer [of s]) (use assms in \<open>simp_all add: legacy_snapshot_def coherent_def\<close>)
  moreover have "fill_ok (legacy_snapshot s)"
  proof -
    have "feq 0 0" by code_simp
    then show ?thesis using assms(1) by (auto simp: coherent_def fill_ok_def legacy_snapshot_def)
  qed
  moreover have "stage_ok (legacy_snapshot s)" using assms(1) unfolding coherent_def stage_ok_def d
    by (cases "hs_stage s") (simp_all add: legacy_snapshot_def)
  moreover have "hs_reasons (legacy_snapshot s) = derive_reasons s" using assms(1) by (simp add: coherent_def legacy_snapshot_def)
  ultimately show "coherent (legacy_snapshot s)" unfolding coherent_def d by blast
  show "wf_snapshot (legacy_snapshot s)" using assms(2) by (simp add: wf_snapshot_def legacy_snapshot_def)
  show "reduced_ok (legacy_snapshot s) = reduced_ok s" by (simp add: reduced_ok_def legacy_snapshot_def)
  have "hs_stage (legacy_snapshot s) = hs_stage s" "hs_api_successes (legacy_snapshot s) = hs_api_successes s"
    "hs_retry_attempts (legacy_snapshot s) = hs_retry_attempts s" by (simp_all add: legacy_snapshot_def)
  then show "action_of (legacy_snapshot s) = action_of s" unfolding action_of_def d by (simp only:)
qed

text \<open>A stored payload reads back without the evidence of fill recovery.\<close>

lemma from_stored_payload:
  assumes "wf_snapshot s" "coherent s"
  shows "from_event_mapping (stored_payload s) = (if reduced_ok s then Inr (legacy_snapshot s)
     else Inl (HealthStateError ''REDUCED health state is contradictory''))"
proof -
  have r: "hs_reasons s = derive_reasons s" using assms(2) by (simp add: coherent_def)
  note c = stored_carries [OF r]
  let ?p = "stored_payload s" and ?l = "legacy_snapshot s"
  have f: "fill_fields True ?p (hs_fill_within_limit s) (hs_fill_deviation s) healthy =
      Inr (healthy\<lparr> hs_fill_anomaly_episode := (if hs_fill_within_limit s then 0 else 1),
        hs_fill_anomaly_deviation := (if hs_fill_within_limit s then 0 else hs_fill_deviation s) \<rparr>)"
    by (simp add: fill_fields_def)
  have "parse_fields True ?p = Inr (?l, ha_halt_entries (action_of s), ha_resume_reduced (action_of s))"
    unfolding parse_fields_carries [OF c(1) assms(1) f]
    using wf_snapshot_facts(1) [OF assms(1)] by (simp add: legacy_snapshot_def healthy_def)
  then have "from_event_mapping ?p = ebind (validate_snapshot_relationships ?l (ha_halt_entries (action_of ?l))
      (ha_resume_reduced (action_of ?l))) (\<lambda>_. Inr ?l)"
    using stored_keys [of s] c(2) legacy_coherent(4) [OF assms(2,1)]
    by (simp add: from_event_mapping_def from_mapping_def LEGACY_VERSION_def)
  then show ?thesis
    unfolding validate_value [OF legacy_coherent(1) [OF assms(2,1)]] legacy_coherent(3) [OF assms(2,1)] by simp
qed

end
