(* ===== verification/Health_Correct.thy ===== *)
theory Health_Correct
  imports Health_Parse
begin

text \<open>
  What the health monitor guarantees over every run of observations from a fresh monitor:
  the stages it moves through, that a fault always halts entries, how it recovers, and that
  its snapshot reads back after a restart, with the one exception the monitor can reach.
\<close>

section \<open>Runs\<close>

fun run_observations :: "observation list \<Rightarrow> monitor \<Rightarrow> monitor" where
  "run_observations [] m = m"
| "run_observations (obs # rest) m = run_observations rest (fst (apply_observation obs m))"

text \<open>Every observation of the run is orderly when it is made.\<close>

fun orderly_run :: "observation list \<Rightarrow> monitor \<Rightarrow> bool" where
  "orderly_run [] m = True"
| "orderly_run (obs # rest) m = (orderly obs (hm_snapshot m) \<and> orderly_run rest (fst (apply_observation obs m)))"

definition fresh_monitor :: monitor where
  "fresh_monitor = \<lparr> hm_snapshot = healthy, hm_pending_fill_recovery = None \<rparr>"

lemma run_append: "run_observations (xs @ ys) m = run_observations ys (run_observations xs m)"
  by (induction xs arbitrary: m) simp_all

lemma orderly_append: "orderly_run (xs @ ys) m = (orderly_run xs m \<and> orderly_run ys (run_observations xs m))"
  by (induction xs arbitrary: m) simp_all

lemma invariant_run:
  "invariant (hm_snapshot m) \<Longrightarrow> orderly_run os m \<Longrightarrow> invariant (hm_snapshot (run_observations os m))"
proof (induction os arbitrary: m)
  case (Cons obs os)
  have "invariant (hm_snapshot (fst (apply_observation obs m)))"
    by (rule health_step_invariant [OF observation_step Cons.prems(1)])
      (use Cons.prems in \<open>simp_all add: invariant_def\<close>)
  then show ?case using Cons by simp
qed simp

lemma invariant_fresh: "orderly_run os fresh_monitor \<Longrightarrow> invariant (hm_snapshot (run_observations os fresh_monitor))"
  using invariant_run [of fresh_monitor] invariant_healthy(1) by (simp add: fresh_monitor_def)

text \<open>The action a call returns is the action of the snapshot it leaves.\<close>

lemma observe_action: "observe m t = (m1, Inr a) \<Longrightarrow> a = action_of (hm_snapshot m1)"
  by (auto simp: observe_def finish_observation_def Let_def current_action_def)

lemma at_time_action:
  "at_time t f m = (m1, Inr a) \<Longrightarrow> (\<And>x. f x m = (m1, Inr a) \<Longrightarrow> P) \<Longrightarrow> P"
  by (cases t) (auto simp: at_time_def)

lemma reject_action [simp]: "reject x e m \<noteq> (m1, Inr a)"
  by (simp add: reject_def)

lemma apply_action:
  assumes "apply_observation obs m = (m1, Inr a)"
  shows "a = action_of (hm_snapshot m1)"
  using assms
  by (cases obs)
    (auto simp: record_api_failure_def record_api_success_def record_candle_check_def record_timestamp_check_def
      record_schema_check_def set_unresolved_orders_def record_ledger_check_def record_fill_check_def Let_def
      record_flat_fill_recovery_check_def record_recovery_cycle_success_def current_action_def
      elim!: at_time_action dest!: observe_action split: if_splits pyval.splits sum.splits)

lemma retry_delay_bounds: "0 < n \<Longrightarrow> 1 \<le> retry_delay n \<and> retry_delay n \<le> 300" "n \<le> 0 \<Longrightarrow> retry_delay n = 0"
proof -
  assume n: "0 < n"
  show "1 \<le> retry_delay n \<and> retry_delay n \<le> 300"
  proof (cases "n \<le> 5")
    case True
    then have "(2::int) ^ nat (n - 1) \<le> 2 ^ 4" by (intro power_increasing) auto
    then show ?thesis using n True by (simp add: retry_delay_def)
  qed (use n in \<open>simp add: retry_delay_def\<close>)
qed (simp add: retry_delay_def)

section \<open>Faults and stages\<close>

lemma action_simps [simp]:
  "ha_halt_entries (action_of s) = (hs_stage s = HALTED_STAGE)" "ha_resume_reduced (action_of s) = (hs_stage s = REDUCED)"
  "ha_reasons (action_of s) = derive_reasons s" "ha_stage (action_of s) = hs_stage s"
  "ha_retry_delay_seconds (action_of s) = (if hs_stage s = HALTED_STAGE then retry_delay (hs_retry_attempts s) else 0)"
  by (simp_all add: action_of_def Let_def)

lemma coherent_action:
  assumes "coherent s"
  shows "derive_reasons s \<noteq> [] \<Longrightarrow> hs_stage s = HALTED_STAGE"
    "hs_stage s = HALTED_STAGE \<Longrightarrow> 1 \<le> retry_delay (hs_retry_attempts s) \<and> retry_delay (hs_retry_attempts s) \<le> 300"
  using assms retry_delay_bounds(1) [of "hs_retry_attempts s"]
  by (cases "hs_stage s"; simp add: coherent_def stage_ok_def)+

text \<open>
  C19: After every observation of an orderly run, the action returned halts entries whenever
  any reason is active, never halts and resumes at once, and asks for a retry after 1 to 300
  seconds exactly while it halts. No fault is overlooked, whatever the order of observations.
\<close>

theorem fault_halts_entries:
  assumes "orderly_run (os @ [obs]) fresh_monitor"
    and "apply_observation obs (run_observations os fresh_monitor) = (m, Inr a)"
  shows "(ha_reasons a \<noteq> [] \<longrightarrow> ha_halt_entries a) \<and> \<not> (ha_halt_entries a \<and> ha_resume_reduced a)
    \<and> (if ha_halt_entries a then 1 \<le> ha_retry_delay_seconds a \<and> ha_retry_delay_seconds a \<le> 300
       else ha_retry_delay_seconds a = 0)"
proof -
  have "run_observations (os @ [obs]) fresh_monitor = m" using assms(2) by (simp add: run_append)
  then have "coherent (hm_snapshot m)" using invariant_fresh [OF assms(1)] by (simp add: invariant_def)
  from coherent_action [OF this] show ?thesis using apply_action [OF assms(2)] by auto
qed

lemma step_stage:
  assumes "health_step s t" "invariant s" "hs_stage s \<noteq> hs_stage t"
  shows "(hs_stage t = HALTED_STAGE \<and> derive_reasons t \<noteq> [])
    \<or> (hs_stage s = HALTED_STAGE \<and> hs_stage t = REDUCED \<and> derive_reasons t = [] \<and> hs_api_successes t = 3)
    \<or> (hs_stage s = REDUCED \<and> hs_stage t = NORMAL \<and> derive_reasons t = [])"
  using assms(1)
proof cases
  case (settled u)
  then have "invariant t" using update_invariant assms(2) by blast
  then have "hs_api_successes t \<le> 3" by (simp add: invariant_def wf_snapshot_def)
  moreover have "hs_stage u = hs_stage s"
    using settled(2) by cases (auto simp: side_update_def api_failure_def api_success_def ledger_check_def
        fill_check_def flat_recovery_def Let_def)
  ultimately show ?thesis using assms(3) settled(1) by (auto simp: settle_stage split: if_splits)
next
  case (promoted x)
  then show ?thesis by (simp add: derive_reasons_eq)
qed (use assms in simp)

text \<open>Only the success of a recovery cycle leads from \<open>REDUCED\<close> to \<open>NORMAL\<close>.\<close>

lemma settle_not_normal: "hs_stage s \<noteq> NORMAL \<Longrightarrow> hs_stage (settle s) \<noteq> NORMAL"
  by (simp add: settle_stage)

definition keeps_stage :: "monitor \<Rightarrow> monitor \<times> health_action res \<Rightarrow> bool" where
  "keeps_stage m r \<longleftrightarrow> hm_snapshot (fst r) = hm_snapshot m
     \<or> (\<exists>u. hs_stage u = hs_stage (hm_snapshot m) \<and> hm_snapshot (fst r) = settle u)"

lemma keeps_stageI:
  "keeps_stage m (m, e)" "hs_stage u = hs_stage (hm_snapshot m) \<Longrightarrow> keeps_stage m (observe m2 u)" "keeps_stage m (reject x e2 m)"
proof -
  show "keeps_stage m (m, e)" by (simp add: keeps_stage_def)
  show obs: "hs_stage u = hs_stage (hm_snapshot m) \<Longrightarrow> keeps_stage m (observe m2 u)" for u m2
    unfolding keeps_stage_def observe_snapshot by blast
  show "keeps_stage m (reject x e2 m)"
    using obs unfolding keeps_stage_def reject_def fail_schema_def Let_def fst_conv by simp
qed

lemma keeps_at_time: "(\<And>x. keeps_stage m (f x m)) \<Longrightarrow> keeps_stage m (at_time t f m)"
  by (cases t) (auto simp: at_time_def intro: keeps_stageI)

lemma observation_keeps_stage: "(\<nexists>t. obs = RecoveryCycle t) \<Longrightarrow> keeps_stage m (apply_observation obs m)"
  by (cases obs)
    (auto simp: record_api_failure_def record_api_success_def record_candle_check_def record_timestamp_check_def
      record_schema_check_def set_unresolved_orders_def record_ledger_check_def record_fill_check_def
      record_flat_fill_recovery_check_def api_failure_def api_success_def candle_check_def timestamp_check_def
      schema_check_def unresolved_check_def ledger_check_def fill_check_def flat_recovery_def Let_def
      intro!: keeps_at_time keeps_stageI split: pyval.splits sum.splits)

lemma not_normal: "keeps_stage m r \<Longrightarrow> hs_stage (hm_snapshot m) \<noteq> NORMAL \<Longrightarrow> hs_stage (hm_snapshot (fst r)) \<noteq> NORMAL"
  using settle_not_normal unfolding keeps_stage_def by metis

text \<open>
  C20: The stages of a monitor in an orderly run. A stage changes only to \<open>HALTED\<close>, with an
  active reason; from \<open>HALTED\<close> to \<open>REDUCED\<close>, with no reason left and three consecutive API
  successes; or from \<open>REDUCED\<close> to \<open>NORMAL\<close>, by the success of a recovery cycle with no
  reason active. There is no way from \<open>HALTED\<close> to full trading that skips a reduced cycle.
\<close>

theorem health_stage_moves:
  assumes "orderly_run (os @ [obs]) fresh_monitor"
    and "m = run_observations os fresh_monitor" and "t = hm_snapshot (fst (apply_observation obs m))"
    and "hs_stage (hm_snapshot m) \<noteq> hs_stage t"
  shows "(hs_stage t = HALTED_STAGE \<and> derive_reasons t \<noteq> [])
    \<or> (hs_stage (hm_snapshot m) = HALTED_STAGE \<and> hs_stage t = REDUCED \<and> derive_reasons t = [] \<and> hs_api_successes t = 3)
    \<or> (hs_stage (hm_snapshot m) = REDUCED \<and> hs_stage t = NORMAL \<and> derive_reasons t = [] \<and> (\<exists>d. obs = RecoveryCycle d))"
proof -
  have run: "orderly_run os fresh_monitor" "orderly obs (hm_snapshot m)"
    using assms(1,2) by (simp_all add: orderly_append)
  have inv: "invariant (hm_snapshot m)" using invariant_fresh [OF run(1)] assms(2) by simp
  have step: "health_step (hm_snapshot m) t"
    unfolding assms(3) by (rule observation_step [OF run(2)]) (use inv in \<open>simp add: invariant_def\<close>)
  have "hs_stage (hm_snapshot m) = REDUCED \<Longrightarrow> hs_stage t = NORMAL \<Longrightarrow> \<exists>d. obs = RecoveryCycle d"
    using not_normal [OF observation_keeps_stage, of obs m] assms(3) by auto
  then show ?thesis using step_stage [OF step inv assms(4)] by blast
qed

section \<open>Restart\<close>

text \<open>
  After every orderly run, the monitor's mapping reads back as its snapshot, so that a
  monitor built from it continues where this one stands. The one exception is a snapshot that
  is \<open>REDUCED\<close> with fewer than three API successes, which the parser rejects.
\<close>

theorem health_run_readable:
  assumes "orderly_run os fresh_monitor" and "s = hm_snapshot (run_observations os fresh_monitor)"
  shows "from_mapping (to_mapping s) =
    (if hs_stage s = REDUCED \<and> hs_api_successes s < 3
     then Inl (HealthStateError ''REDUCED health state is contradictory'') else Inr s)"
  using invariant_fresh [OF assms(1)] assms(2)
  by (auto simp: invariant_def from_to_mapping reduced_ok_def)

text \<open>An API failure that does not trip the latch, in \<open>REDUCED\<close>, makes that exception.\<close>

lemma failure_in_reduced:
  assumes "hs_stage s = REDUCED" "invariant s" "hs_api_failures s < 2"
  shows "hs_stage (settle (api_failure t s)) = REDUCED" "hs_api_successes (settle (api_failure t s)) = 0"
proof -
  have r: "derive_reasons s = []" using assms(1,2) by (simp add: invariant_def coherent_def stage_ok_def)
  then have "derive_reasons (api_failure t s) = []"
    using assms(3) unfolding no_reasons_iff by (simp add: api_failure_def Let_def)
  moreover have "hs_stage (api_failure t s) = hs_stage s" by (simp add: api_failure_def Let_def)
  ultimately show "hs_stage (settle (api_failure t s)) = REDUCED" using assms(1) by (simp add: settle_stage)
  show "hs_api_successes (settle (api_failure t s)) = 0" by (simp add: api_failure_def Let_def)
qed

text \<open>
  C39: a single failed API call in the reduced stage leaves a snapshot whose stored event no
  monitor can be recovered from: the payload that \<open>persist\<close> writes is rejected by
  \<open>from_event_mapping\<close>, hence by \<open>from_store\<close>.
\<close>

theorem reduced_failure_unreadable:
  assumes "orderly_run os fresh_monitor" and "m = run_observations os fresh_monitor"
    and "hs_stage (hm_snapshot m) = REDUCED" and "hs_api_failures (hm_snapshot m) < 2"
    and "orderly (ApiFailure (utc t)) (hm_snapshot m)" and "\<not> stale_api t (hm_snapshot m)"
  shows "from_event_mapping (stored_payload (hm_snapshot (fst (apply_observation (ApiFailure (utc t)) m))))
    = Inl (HealthStateError ''REDUCED health state is contradictory'')"
proof -
  let ?s = "hm_snapshot m" and ?t = "settle (api_failure t (hm_snapshot m))"
  have inv: "invariant ?s" using invariant_fresh [OF assms(1)] assms(2) by simp
  have eq: "hm_snapshot (fst (apply_observation (ApiFailure (utc t)) m)) = ?t"
    using assms(6) by (simp add: record_api_failure_def at_time_def utc_datetime_def)
  have "in_dt_range t" using assms(5) by (simp add: orderly_def)
  then have "invariant ?t" using api_updates_invariant(1) [OF inv assms(6)] by simp
  moreover have "\<not> reduced_ok ?t" using failure_in_reduced [OF assms(3) inv assms(4)] by (simp add: reduced_ok_def)
  ultimately show ?thesis unfolding eq by (simp add: from_stored_payload invariant_def)
qed

section \<open>Recovery\<close>

text \<open>Every cause of a halt but the API is gone.\<close>

definition only_api :: "health_snapshot \<Rightarrow> bool" where
  "only_api s \<longleftrightarrow> hs_latest_candle_valid s \<and> hs_timestamps_monotonic s \<and> hs_schema_valid s
     \<and> hs_unresolved_orders s = 0 \<and> hs_ledger_matches s \<and> hs_fill_within_limit s"

lemma only_api_reasons: "only_api s \<Longrightarrow> derive_reasons s = [] \<longleftrightarrow> \<not> hs_api_failure_latched s"
  by (simp add: only_api_def no_reasons_iff)

lemma success_step:
  assumes "only_api s" "hs_stage s \<noteq> NORMAL" "0 \<le> hs_api_successes s"
    and "t = settle (api_success x s)"
  shows "only_api t" "hs_stage t \<noteq> NORMAL" "hs_api_successes t = min 3 (hs_api_successes s + 1)"
    "hs_api_failure_latched t = (hs_api_failure_latched s \<and> hs_api_successes t < 3)"
    "hs_api_successes t = 3 \<Longrightarrow> hs_stage t = REDUCED \<and> derive_reasons t = []"
proof -
  let ?u = "api_success x s"
  have u: "only_api ?u" "hs_stage ?u = hs_stage s" "hs_api_successes ?u = min 3 (hs_api_successes s + 1)"
    "hs_api_failure_latched ?u = (hs_api_failure_latched s \<and> hs_api_successes ?u < 3)"
    using assms(1) by (simp_all add: only_api_def api_success_def Let_def API_SUCCESSES_REQUIRED_def)
  show "only_api t" using u(1) by (simp add: assms(4) only_api_def)
  show "hs_stage t \<noteq> NORMAL" using settle_not_normal u(2) assms(2) by (simp add: assms(4))
  show "hs_api_successes t = min 3 (hs_api_successes s + 1)" using u(3) by (simp add: assms(4))
  show "hs_api_failure_latched t = (hs_api_failure_latched s \<and> hs_api_successes t < 3)"
    using u(3,4) by (simp add: assms(4))
  assume three: "hs_api_successes t = 3"
  then have r: "derive_reasons ?u = []" using u only_api_reasons [OF u(1)] by (simp add: assms(4))
  then have "hs_stage t = REDUCED" using three assms(2) u(2)
    by (cases "hs_stage s") (simp_all add: assms(4) settle_stage)
  then show "hs_stage t = REDUCED \<and> derive_reasons t = []" using r by (simp add: assms(4))
qed

lemma apply_success:
  "\<not> stale_api t (hm_snapshot m) \<Longrightarrow>
    hm_snapshot (fst (apply_observation (ApiSuccess (utc t)) m)) = settle (api_success t (hm_snapshot m))"
  by (simp add: record_api_success_def at_time_def utc_datetime_def)

lemma fresh_after_success: "\<not> stale_api x s \<Longrightarrow> t < x \<Longrightarrow> \<not> stale_api x (settle (api_success t s))"
  by (cases "hs_last_success_at_utc s"; cases "hs_last_failure_at_utc s")
    (auto simp: stale_api_def last_api_observation_def api_success_def Let_def)

text \<open>
  C40: Recovery completes. A halted monitor whose other causes are gone is in the reduced
  stage after three API successes at increasing times, with no reason left, and back to
  normal trading after the next successful recovery cycle.
\<close>

theorem three_successes_resume:
  assumes "orderly_run os fresh_monitor" and "m = run_observations os fresh_monitor"
    and "hs_stage (hm_snapshot m) = HALTED_STAGE" and "only_api (hm_snapshot m)"
    and "\<not> stale_api t1 (hm_snapshot m)" and "t1 < t2" and "t2 < t3"
    and "m3 = run_observations [ApiSuccess (utc t1), ApiSuccess (utc t2), ApiSuccess (utc t3)] m"
  shows "hs_stage (hm_snapshot m3) = REDUCED \<and> derive_reasons (hm_snapshot m3) = []
    \<and> hs_stage (hm_snapshot (fst (apply_observation (RecoveryCycle (utc t4)) m3))) = NORMAL"
proof -
  let ?s = "hm_snapshot m"
  define s1 where "s1 = settle (api_success t1 ?s)"
  define s2 where "s2 = settle (api_success t2 s1)"
  define s3 where "s3 = settle (api_success t3 s2)"
  have n: "0 \<le> hs_api_successes ?s" using invariant_fresh [OF assms(1)] assms(2) by (simp add: invariant_def wf_snapshot_def)
  have ne: "hs_stage ?s \<noteq> NORMAL" using assms(3) by simp
  note S1 = success_step [OF assms(4) ne n s1_def]
  have n1: "0 \<le> hs_api_successes s1" using S1(3) n by simp
  note S2 = success_step [OF S1(1,2) n1 s2_def]
  have n2: "0 \<le> hs_api_successes s2" using S2(3) n1 by simp
  note S3 = success_step [OF S2(1,2) n2 s3_def]
  have "hs_api_successes s3 = 3" using S1(3) S2(3) S3(3) n by simp
  then have end3: "hs_stage s3 = REDUCED" "derive_reasons s3 = []" using S3(5) by simp_all
  have f1: "\<not> stale_api t2 ?s" "\<not> stale_api t3 ?s" using assms(5-7) by (auto simp: stale_api_def split: option.splits)
  have f2: "\<not> stale_api t2 s1" "\<not> stale_api t3 s1" unfolding s1_def
    using fresh_after_success [OF f1(1) assms(6)] fresh_after_success [OF f1(2), of t1] assms(6,7) by simp_all
  have f3: "\<not> stale_api t3 s2" unfolding s2_def by (rule fresh_after_success [OF f2(2) assms(7)])
  have "hm_snapshot m3 = s3"
    unfolding assms(8) run_observations.simps
    by (simp add: apply_success assms(5) f2 f3 s1_def [symmetric] s2_def [symmetric] s3_def [symmetric] del: apply_observation.simps)
  moreover have "derive_reasons (seen (Some t4) s3) = []" using end3(2) by (simp add: derive_reasons_eq)
  ultimately show ?thesis using end3
    by (simp add: record_recovery_cycle_success_def at_time_def utc_datetime_def Let_def)
qed

section \<open>A concrete run\<close>

text \<open>Three failures, which trip the latch, three successes, and one more failure.\<close>

definition sample_failures :: "observation list" where
  "sample_failures = [ApiFailure (utc 1), ApiFailure (utc 2), ApiFailure (utc 3)]"

definition sample_successes :: "observation list" where
  "sample_successes = [ApiSuccess (utc 4), ApiSuccess (utc 5), ApiSuccess (utc 6)]"

text \<open>Observations of the API at times that do not decrease are orderly.\<close>

fun api_times :: "int \<Rightarrow> observation list \<Rightarrow> bool" where
  "api_times n [] = True"
| "api_times n (ApiFailure d # rest) = (d = utc (instant_of d) \<and> n \<le> instant_of d \<and> in_dt_range (instant_of d) \<and> api_times (instant_of d) rest)"
| "api_times n (ApiSuccess d # rest) = (d = utc (instant_of d) \<and> n \<le> instant_of d \<and> in_dt_range (instant_of d) \<and> api_times (instant_of d) rest)"
| "api_times n _ = False"

lemma opt_le_mono: "opt_le x (Some n) \<Longrightarrow> n \<le> k \<Longrightarrow> opt_le x (Some k)"
  by (cases x) simp_all

lemma api_last:
  assumes "opt_le (hs_last_observation_at_utc (hm_snapshot m)) (Some t)"
  shows "opt_le (hs_last_observation_at_utc (hm_snapshot (fst (apply_observation (ApiFailure (utc t)) m)))) (Some t)"
    "opt_le (hs_last_observation_at_utc (hm_snapshot (fst (apply_observation (ApiSuccess (utc t)) m)))) (Some t)"
  using assms
  by (cases "hs_last_observation_at_utc (hm_snapshot m)";
      simp add: record_api_failure_def record_api_success_def at_time_def utc_datetime_def api_failure_def api_success_def
        seen_def Let_def current_action_def)+

lemma api_orderly_run:
  assumes "api_times n os" "opt_le (hs_last_observation_at_utc (hm_snapshot m)) (Some n)"
  shows "orderly_run os m"
  using assms
proof (induction n os arbitrary: m rule: api_times.induct)
  case (2 n d rest)
  then have d: "d = utc (instant_of d)" and o: "opt_le (hs_last_observation_at_utc (hm_snapshot m)) (Some (instant_of d))"
    by (auto elim: opt_le_mono)
  have "orderly (ApiFailure d) (hm_snapshot m)" using 2(2) o by (simp add: orderly_def timely_def)
  then show ?case using 2 api_last(1) [OF o] d by simp
next
  case (3 n d rest)
  then have d: "d = utc (instant_of d)" and o: "opt_le (hs_last_observation_at_utc (hm_snapshot m)) (Some (instant_of d))"
    by (auto elim: opt_le_mono)
  have "orderly (ApiSuccess d) (hm_snapshot m)" using 3(2) o by (simp add: orderly_def timely_def)
  then show ?case using 3 api_last(2) [OF o] d by simp
qed simp_all


abbreviation failed :: monitor where
  "failed \<equiv> run_observations sample_failures fresh_monitor"

abbreviation resumed :: monitor where
  "resumed \<equiv> run_observations (sample_failures @ sample_successes) fresh_monitor"

lemma sample_orderly:
  "orderly_run (sample_failures @ sample_successes @ [ApiFailure (utc 7)]) fresh_monitor"
  by (rule api_orderly_run [of 0])
    (simp_all add: sample_failures_def sample_successes_def in_dt_range_def dt_min_def dt_max_def fresh_monitor_def healthy_def)

lemma sample_orderly_parts:
  "orderly_run sample_failures fresh_monitor"
  "orderly_run (take 2 sample_failures @ [ApiFailure (utc 3)]) fresh_monitor"
  "orderly_run (sample_failures @ sample_successes) fresh_monitor"
  "orderly (ApiFailure (utc 7)) (hm_snapshot resumed)"
  using sample_orderly by (simp_all add: orderly_append run_append sample_failures_def)

lemma sample_states:
  "hs_stage (hm_snapshot failed) = HALTED_STAGE" "only_api (hm_snapshot failed)" "\<not> stale_api 4 (hm_snapshot failed)"
  "is_ok (snd (apply_observation (ApiFailure (utc 3)) (run_observations (take 2 sample_failures) fresh_monitor)))"
  "hs_stage (hm_snapshot (run_observations (take 2 sample_failures) fresh_monitor)) = NORMAL"
  "hs_stage (hm_snapshot resumed) = REDUCED" "hs_api_failures (hm_snapshot resumed) < 2"
  "\<not> stale_api 7 (hm_snapshot resumed)"
  by code_simp+


abbreviation third :: "monitor \<times> health_action res" where
  "third \<equiv> apply_observation (ApiFailure (utc 3)) (run_observations (take 2 sample_failures) fresh_monitor)"

theorem fault_halts_entries_witness:
  "\<exists>a. snd third = Inr a \<and> ha_halt_entries a \<and> 1 \<le> ha_retry_delay_seconds a"
proof -
  obtain a where a: "third = (fst third, Inr a)"
    using sample_states(4) by (metis is_ok_iff prod.collapse)
  have "fst third = failed" by (simp add: sample_failures_def)
  then have "ha_halt_entries a" using apply_action [OF a] sample_states(1) by simp
  moreover have "snd third = Inr a" using a by (metis snd_conv)
  ultimately show ?thesis using fault_halts_entries [OF sample_orderly_parts(2) a] by auto
qed

theorem health_stage_moves_witness: "derive_reasons (hm_snapshot (fst third)) \<noteq> []"
proof -
  have eq: "fst third = failed" by (simp add: sample_failures_def)
  show ?thesis
    using health_stage_moves [OF sample_orderly_parts(2) refl refl] sample_states(1,5) unfolding eq by simp
qed

theorem health_run_readable_witness: "from_mapping (to_mapping (hm_snapshot failed)) = Inr (hm_snapshot failed)"
  using health_run_readable [OF sample_orderly_parts(1) refl] sample_states(1) by simp

theorem reduced_failure_unreadable_witness:
  "from_event_mapping (stored_payload (hm_snapshot (fst (apply_observation (ApiFailure (utc 7)) resumed))))
    = Inl (HealthStateError ''REDUCED health state is contradictory'')"
  by (rule reduced_failure_unreadable [OF sample_orderly_parts(3) refl sample_states(6,7) sample_orderly_parts(4)
        sample_states(8)])

theorem three_successes_resume_witness:
  "hs_stage (hm_snapshot (fst (apply_observation (RecoveryCycle (utc 7)) resumed))) = NORMAL"
proof -
  have "resumed = run_observations [ApiSuccess (utc 4), ApiSuccess (utc 5), ApiSuccess (utc 6)] failed"
    by (simp add: run_append sample_successes_def)
  from three_successes_resume [OF sample_orderly_parts(1) refl sample_states(1-3) _ _ this, of 7] show ?thesis by simp
qed

end
