(* ===== verification/Health_Restart.thy ===== *)
theory Health_Restart
  imports Health_Correct
begin

text \<open>
  A monitor restarted from the store. Stored payloads lack the evidence of fill recovery;
  \<open>_project_fill_recovery_evidence\<close> rebuilds it from the whole history of health events. The
  rebuilt snapshot is the one that was persisted: the projection of the events simulates the
  monitor, observation by observation.
\<close>

section \<open>What an observation does to the evidence of fills\<close>

definition same_fill :: "health_snapshot \<Rightarrow> health_snapshot \<Rightarrow> bool" where
  "same_fill s t \<longleftrightarrow> hs_fill_within_limit t = hs_fill_within_limit s \<and> hs_fill_deviation t = hs_fill_deviation s
     \<and> hs_fill_anomaly_episode t = hs_fill_anomaly_episode s \<and> hs_fill_recovery_checks t = hs_fill_recovery_checks s
     \<and> hs_fill_anomaly_deviation t = hs_fill_anomaly_deviation s
     \<and> hs_fill_anomaly_detected_at_utc t = hs_fill_anomaly_detected_at_utc s
     \<and> hs_fill_anomaly_resolved_at_utc t = hs_fill_anomaly_resolved_at_utc s
     \<and> hs_last_fill_recovery_at_utc t = hs_last_fill_recovery_at_utc s"

text \<open>The result of a call that leaves the evidence of fills and the pending outcome alone.\<close>

definition fill_untouched :: "monitor \<Rightarrow> monitor \<times> health_action res \<Rightarrow> bool" where
  "fill_untouched m r \<longleftrightarrow> same_fill (hm_snapshot m) (hm_snapshot (fst r))
     \<and> hm_pending_fill_recovery (fst r) = hm_pending_fill_recovery m"

lemma observe_pending [simp]: "hm_pending_fill_recovery (fst (observe m t)) = hm_pending_fill_recovery m"
  by (simp add: observe_def finish_observation_def Let_def)

lemma fill_untouchedI:
  "fill_untouched m (m, e)" "same_fill (hm_snapshot m) u \<Longrightarrow> fill_untouched m (observe m u)" "fill_untouched m (reject x e2 m)"
  by (simp_all add: fill_untouched_def same_fill_def reject_def fail_schema_def Let_def)

lemma untouched_at_time: "(\<And>x. fill_untouched m (f x m)) \<Longrightarrow> fill_untouched m (at_time t f m)"
  by (cases t) (auto simp: at_time_def intro: fill_untouchedI)

lemma same_fill_updates:
  "same_fill s (api_failure x s)" "same_fill s (api_success x s)" "same_fill s (candle_check l b x s)"
  "same_fill s (timestamp_check v x s)" "same_fill s (schema_check v x s)" "same_fill s (unresolved_check n o1 s)"
  "same_fill s (ledger_check c k o1 s)" "same_fill s (seen o1 s)"
  "same_fill s ((seen o1 s)\<lparr> hs_stage := NORMAL, hs_retry_attempts := 0 \<rparr>)"
  by (simp_all add: same_fill_def api_failure_def api_success_def candle_check_def timestamp_check_def schema_check_def
      unresolved_check_def ledger_check_def Let_def)

lemma untouched_observation:
  assumes "\<nexists>e a d. obs = FillCheck e a d" "\<nexists>v d. obs = FlatFillRecovery v d"
  shows "fill_untouched m (apply_observation obs m)"
proof -
  have cycle: "fill_untouched m (m\<lparr> hm_snapshot := u \<rparr>, e)" if "same_fill (hm_snapshot m) u" for u e
    using that by (simp add: fill_untouched_def)
  show ?thesis
    using assms
    by (cases obs)
      (auto simp: record_api_failure_def record_api_success_def record_candle_check_def record_timestamp_check_def
        record_schema_check_def set_unresolved_orders_def record_ledger_check_def record_recovery_cycle_success_def Let_def
        intro!: untouched_at_time fill_untouchedI same_fill_updates cycle split: pyval.splits sum.splits)
qed

lemma fill_observation:
  "fill_untouched m (apply_observation (FillCheck e a d) m)
   \<or> (\<exists>x dev. optional_utc_datetime d ''fill check time'' = Inr x \<and> (\<exists>y. dev = float_deviation (decimal_deviation e a)
        \<and> positive_finite e ''fill prices'' = Inr y)
      \<and> apply_observation (FillCheck e a d) m = observe m (fill_check (dev \<le> FILL_DEVIATION_LIMIT) dev x (hm_snapshot m)))"
proof (cases "optional_utc_datetime d ''fill check time''")
  case (Inl err)
  then show ?thesis by (simp add: record_fill_check_def at_time_def fill_untouchedI)
next
  case (Inr x)
  show ?thesis
  proof (cases "emap (\<lambda>v. positive_finite v ''fill prices'') [e, a]")
    case (Inl err)
    have "apply_observation (FillCheck e a d) m = reject x err m"
      unfolding apply_observation.simps record_fill_check_def at_time_def Inr sum.case Inl ..
    then show ?thesis by (simp add: fill_untouchedI)
  next
    case pos: (Inr xs)
    have "apply_observation (FillCheck e a d) m = observe m (fill_check (float_deviation (decimal_deviation e a) \<le> FILL_DEVIATION_LIMIT)
        (float_deviation (decimal_deviation e a)) x (hm_snapshot m))"
      unfolding apply_observation.simps record_fill_check_def at_time_def Inr sum.case pos Let_def float_deviation_limit ..
    moreover from pos obtain y where "positive_finite e ''fill prices'' = Inr y" by auto
    ultimately show ?thesis using Inr by blast
  qed
qed

lemma recovery_observation:
  "fill_untouched m (apply_observation (FlatFillRecovery v d) m)
   \<or> (\<exists>b x. d = utc x \<and> \<not> stale_recovery x (hm_snapshot m)
      \<and> apply_observation (FlatFillRecovery v d) m =
          observe (m\<lparr> hm_pending_fill_recovery := Some b \<rparr>) (flat_recovery b x (hm_snapshot m)))"
proof (cases "utc_datetime d ''flat fill recovery check time''")
  case (Inl err)
  then show ?thesis by (simp add: record_flat_fill_recovery_check_def at_time_def fill_untouchedI)
next
  case (Inr x)
  have d: "d = utc x" using Inr by (simp add: utc_datetime_Inr)
  show ?thesis
    using d by (cases v) (auto simp: record_flat_fill_recovery_check_def at_time_def utc_datetime_def fill_untouchedI)
qed


section \<open>Event identities\<close>

lemma rsplit_append: "rsplit p s = Some (a, b) \<Longrightarrow> rsplit p (x @ s) = Some (x @ a, b)"
  by (induction x) simp_all

lemma marker_of_pending:
  assumes "starts_with ''health:reconcile:'' base"
  shows "fill_recovery_marker (base @ FILL_RECOVERY_EVENT_SUFFIX @ (if b then ''eligible'' else ''ineligible'')) = Inr (Some b)"
proof -
  let ?out = "if b then ''eligible'' else ''ineligible''"
  have "rsplit FILL_RECOVERY_EVENT_SUFFIX (FILL_RECOVERY_EVENT_SUFFIX @ ?out) = Some ([], ?out)"
    by (cases b; simp; code_simp)
  from rsplit_append [OF this, of base] show ?thesis
    using assms by (cases b) (simp_all add: fill_recovery_marker_def)
qed

section \<open>The projection simulates the monitor\<close>

text \<open>The projection of the history so far agrees with the snapshot of the monitor.\<close>

definition tracks :: "recovery_projection \<Rightarrow> health_snapshot \<Rightarrow> bool" where
  "tracks j s \<longleftrightarrow> rj_episode j = hs_fill_anomaly_episode s \<and> rj_checks j = hs_fill_recovery_checks s
     \<and> rj_anomaly_deviation j = hs_fill_anomaly_deviation s \<and> rj_detected_at j = hs_fill_anomaly_detected_at_utc s
     \<and> rj_resolved_at j = hs_fill_anomaly_resolved_at_utc s \<and> rj_last_recovery_at j = hs_last_fill_recovery_at_utc s
     \<and> rj_active j = (\<not> hs_fill_within_limit s)
     \<and> (\<not> hs_fill_within_limit s \<longrightarrow> \<not> hs_fill_anomaly_deviation s < hs_fill_deviation s)"

lemma legacy_fields [simp]:
  "hs_fill_within_limit (legacy_snapshot t) = hs_fill_within_limit t" "hs_fill_deviation (legacy_snapshot t) = hs_fill_deviation t"
  "hs_last_observation_at_utc (legacy_snapshot t) = hs_last_observation_at_utc t"
  "hs_fill_anomaly_deviation (legacy_snapshot t) = (if hs_fill_within_limit t then 0 else hs_fill_deviation t)"
  by (simp_all add: legacy_snapshot_def)

lemma legacy_restored:
  "tracks j t \<Longrightarrow> (legacy_snapshot t)\<lparr> hs_fill_anomaly_episode := rj_episode j, hs_fill_recovery_checks := rj_checks j,
     hs_fill_anomaly_deviation := rj_anomaly_deviation j, hs_fill_anomaly_detected_at_utc := rj_detected_at j,
     hs_fill_anomaly_resolved_at_utc := rj_resolved_at j, hs_last_fill_recovery_at_utc := rj_last_recovery_at j \<rparr> = t"
  by (simp add: tracks_def legacy_snapshot_def)

lemma pmax_absorb: "\<not> x < y \<Longrightarrow> pmax (pmax x y) y = x"
  by (simp add: pmax_def)

text \<open>An event whose projection is known restores its snapshot.\<close>

lemma project_event_restores:
  assumes "sv_event_type e = ''HEALTH_STATE''" "sv_payload e = stored_payload t" "wf_snapshot t" "coherent t" "reduced_ok t"
    and "fill_recovery_marker (sv_event_id e) = Inr marker"
    and "observed = (case hs_last_observation_at_utc t of Some x \<Rightarrow> x | None \<Rightarrow> sv_occurred_at_utc e)"
    and "project_recovery marker (rj_active j) (legacy_snapshot t) observed (project_anomaly (legacy_snapshot t) observed j) = Inr j1"
    and "tracks j1 t"
  shows "project_event e j = Inr (j1\<lparr> rj_latest := Some t \<rparr>)"
  using assms by (simp add: project_event_def from_stored_payload legacy_restored)

lemma tracks_latest [simp]: "tracks (j\<lparr> rj_latest := x \<rparr>) t = tracks j t"
  by (simp add: tracks_def)

text \<open>The three kinds of observation.\<close>

lemma project_untouched:
  assumes "tracks j s" "same_fill s t"
  shows "project_recovery None (rj_active j) (legacy_snapshot t) observed (project_anomaly (legacy_snapshot t) observed j) = Inr j"
    "tracks j t"
  using assms pmax_absorb [of "hs_fill_anomaly_deviation s" "hs_fill_deviation s"]
  by (auto simp: project_recovery_def project_anomaly_def tracks_def same_fill_def Let_def)

lemma pmax_not_less: "a \<noteq> NaN \<Longrightarrow> d \<noteq> NaN \<Longrightarrow> \<not> pmax a d < d"
  using pmax_ge(2) [of a d] less_not_le_float by blast

lemma project_fill:
  assumes "tracks j s" "fill_ok s" "t = settle (fill_check k d (Some x) s)"
    and "0 \<le> hs_fill_recovery_checks s" "hs_fill_anomaly_deviation s \<noteq> NaN" "d \<noteq> NaN" "0 \<le> hs_fill_anomaly_episode s"
    and "k \<or> hs_fill_within_limit s \<or> hs_last_fill_recovery_at_utc s = None"
  shows "\<exists>j1. project_recovery None (rj_active j) (legacy_snapshot t) x (project_anomaly (legacy_snapshot t) x j) = Inr j1
    \<and> tracks j1 t"
proof -
  have p: "\<not> pmax (hs_fill_anomaly_deviation s) d < d" by (rule pmax_not_less) fact+
  have a: "pmax (pmax (pmax (hs_fill_anomaly_deviation s) d) d) d = pmax (hs_fill_anomaly_deviation s) d"
    "pmax (pmax (hs_fill_anomaly_deviation s) d) d = pmax (hs_fill_anomaly_deviation s) d"
    using p by (auto simp: pmax_def)
  consider (new) "\<not> k" "hs_fill_within_limit s" | (again) "\<not> k" "\<not> hs_fill_within_limit s"
    | (resolved) "k" "\<not> hs_fill_within_limit s" | (fine) "k" "hs_fill_within_limit s" by blast
  then show ?thesis
  proof cases
    case again
    then have "hs_fill_recovery_checks s = 0" "hs_fill_anomaly_resolved_at_utc s = None" "hs_last_fill_recovery_at_utc s = None"
      using assms(2,4,8) by (auto simp: fill_ok_def split: if_splits)
    then show ?thesis
      using assms(1) again p a
      by (simp add: assms(3) fill_check_def Let_def project_recovery_def project_anomaly_def tracks_def)
  qed (use assms(1) p a in \<open>simp_all add: assms(3) fill_check_def Let_def project_recovery_def project_anomaly_def tracks_def\<close>)
qed

lemma project_flat:
  assumes "tracks j s" "\<not> stale_recovery x s" "t = settle (flat_recovery b x s)" "fill_ok s"
  shows "\<exists>j1. project_recovery (Some b) (rj_active j) (legacy_snapshot t) x (project_anomaly (legacy_snapshot t) x j) = Inr j1
    \<and> tracks j1 t"
proof -
  have act: "\<not> hs_fill_within_limit s" using assms(2) by (simp add: stale_recovery_def)
  have fresh: "case hs_last_fill_recovery_at_utc s of None \<Rightarrow> True | Some y \<Rightarrow> y < x"
    using assms(2) by (auto simp: stale_recovery_def split: option.splits)
  have a: "pmax (pmax (hs_fill_anomaly_deviation s) (hs_fill_deviation s)) (hs_fill_deviation s) = hs_fill_anomaly_deviation s"
    using assms(1) act by (intro pmax_absorb) (simp add: tracks_def)
  show ?thesis
    using assms(1) act fresh a
    by (cases "b \<and> API_SUCCESSES_REQUIRED \<le> min API_SUCCESSES_REQUIRED (hs_fill_recovery_checks s + 1)")
      (auto simp: assms(3) flat_recovery_def Let_def project_recovery_def project_anomaly_def tracks_def)
qed

lemma timely_latest: "timely (Some x) s \<Longrightarrow> latest_observation (hs_last_observation_at_utc s) (Some x) = Some x"
  by (cases "hs_last_observation_at_utc s") (auto simp: timely_def)

text \<open>
  A deviating fill during an active episode resets the progress of recovery in the monitor
  but not in the projection of the events. Histories without one restart exactly; nothing is
  lost before the first flat-account check of the episode.
\<close>

definition renews_anomaly :: "observation \<Rightarrow> health_snapshot \<Rightarrow> bool" where
  "renews_anomaly obs s = (case obs of
     FillCheck e a _ \<Rightarrow> \<not> float_deviation (decimal_deviation e a) \<le> FILL_DEVIATION_LIMIT
       \<and> \<not> hs_fill_within_limit s \<and> hs_last_fill_recovery_at_utc s \<noteq> None
   | _ \<Rightarrow> False)"

definition untimed_fill :: "observation \<Rightarrow> bool" where
  "untimed_fill obs = (case obs of FillCheck _ _ None \<Rightarrow> True | _ \<Rightarrow> False)"

text \<open>An identity without a marker; of a reconciliation, when a flat-account check waits.\<close>

definition base_id_ok :: "string \<Rightarrow> monitor \<Rightarrow> bool" where
  "base_id_ok base m \<longleftrightarrow> base \<noteq> [] \<and> fill_recovery_marker base = Inr None
     \<and> (hm_pending_fill_recovery m \<noteq> None \<longrightarrow> starts_with ''health:reconcile:'' base)"

lemma project_observation:
  assumes "tracks j s" "invariant s" "orderly obs s" "\<not> renews_anomaly obs s" "\<not> untimed_fill obs"
    and m: "m = fst (apply_observation obs \<lparr> hm_snapshot = s, hm_pending_fill_recovery = None \<rparr>)"
    and "reduced_ok (hm_snapshot m)" "base_id_ok base m" "persistence_event_id base m = Inr event_id"
    and e: "sv_event_type e = ''HEALTH_STATE''" "sv_payload e = stored_payload (hm_snapshot m)" "sv_event_id e = event_id"
  shows "\<exists>j1. project_event e j = Inr j1 \<and> rj_latest j1 = Some (hm_snapshot m) \<and> tracks j1 (hm_snapshot m)"
proof -
  let ?m = "\<lparr> hm_snapshot = s, hm_pending_fill_recovery = None \<rparr>"
  let ?t = "hm_snapshot m"
  let ?o = "case hs_last_observation_at_utc ?t of Some x \<Rightarrow> x | None \<Rightarrow> sv_occurred_at_utc e"
  have wf: "wf_snapshot s" "fill_ok s" using assms(2) by (simp_all add: invariant_def coherent_def)
  have inv: "invariant ?t"
    unfolding m by (rule health_step_invariant [OF observation_step]) (use assms(2,3) wf in simp_all)
  have goal: ?thesis if "fill_recovery_marker event_id = Inr marker"
    "\<exists>j1. project_recovery marker (rj_active j) (legacy_snapshot ?t) ?o (project_anomaly (legacy_snapshot ?t) ?o j) = Inr j1
      \<and> tracks j1 ?t" for marker
    using that project_event_restores [OF e(1,2) _ _ assms(7)] inv by (fastforce simp: e(3) invariant_def)
  have id: "event_id = (case hm_pending_fill_recovery m of None \<Rightarrow> base
      | Some b \<Rightarrow> base @ FILL_RECOVERY_EVENT_SUFFIX @ (if b then ''eligible'' else ''ineligible''))"
    using assms(9) by (simp add: persistence_event_id_def split: if_splits)
  have untouched: ?thesis if "fill_untouched ?m (apply_observation obs ?m)"
    using that project_untouched [OF assms(1)] assms(8) id
    by (intro goal [of None]) (auto simp: fill_untouched_def m base_id_ok_def)
  consider (fill) ex a d where "obs = FillCheck ex a d" | (flat) v d where "obs = FlatFillRecovery v d"
    | (other) "\<nexists>e a d. obs = FillCheck e a d" "\<nexists>v d. obs = FlatFillRecovery v d" by blast
  then show ?thesis
  proof cases
    case other
    then show ?thesis by (intro untouched untouched_observation)
  next
    case flat
    from recovery_observation [of ?m v d] show ?thesis
    proof
      assume "fill_untouched ?m (apply_observation (FlatFillRecovery v d) ?m)"
      then show ?thesis using untouched flat by simp
    next
      assume "\<exists>b x. d = utc x \<and> \<not> stale_recovery x (hm_snapshot ?m) \<and> apply_observation (FlatFillRecovery v d) ?m =
          observe (?m\<lparr> hm_pending_fill_recovery := Some b \<rparr>) (flat_recovery b x (hm_snapshot ?m))"
      then obtain b x where bx: "d = utc x" "\<not> stale_recovery x s" "?t = settle (flat_recovery b x s)"
        "hm_pending_fill_recovery m = Some b" unfolding m flat by auto
      have "timely (Some x) s" using assms(3) flat bx(1) by (simp add: orderly_def)
      then have "?o = x" using timely_latest by (simp add: bx(3) flat_recovery_def Let_def)
      then show ?thesis
        using project_flat [OF assms(1) bx(2,3) wf(2)] marker_of_pending [of base b] assms(8) id bx(4)
        by (intro goal [of "Some b"]) (simp_all add: base_id_ok_def)
    qed
  next
    case fill
    from fill_observation [of ?m ex a d] show ?thesis
    proof
      assume "fill_untouched ?m (apply_observation (FillCheck ex a d) ?m)"
      then show ?thesis using untouched fill by simp
    next
      let ?dev = "float_deviation (decimal_deviation ex a)"
      assume "\<exists>x dev. optional_utc_datetime d ''fill check time'' = Inr x \<and> (\<exists>y. dev = float_deviation (decimal_deviation ex a)
          \<and> positive_finite ex ''fill prices'' = Inr y)
        \<and> apply_observation (FillCheck ex a d) ?m = observe ?m (fill_check (dev \<le> FILL_DEVIATION_LIMIT) dev x (hm_snapshot ?m))"
      then obtain x y where x: "optional_utc_datetime d ''fill check time'' = Inr x" "positive_finite ex ''fill prices'' = Inr y"
        "apply_observation (FillCheck ex a d) ?m = observe ?m (fill_check (?dev \<le> FILL_DEVIATION_LIMIT) ?dev x s)" by auto
      then obtain z where z: "x = Some z" "d = Some (utc z)"
        using assms(5) fill by (auto simp: optional_utc_Inr untimed_fill_def split: option.splits)
      have t: "?t = settle (fill_check (?dev \<le> FILL_DEVIATION_LIMIT) ?dev (Some z) s)" "hm_pending_fill_recovery m = None"
        unfolding m fill x(3) z(1) by simp_all
      have num: "wf_number ex" "isfinite (float_of_dec (decimal_deviation ex a))" "timely (Some z) s"
        using assms(3) fill z(2) by (simp_all add: orderly_def)
      have "good_amount ?dev" by (rule good_float_deviation [OF decimal_deviation_nonneg [OF x(2) num(1)] num(2)])
      then have nan: "?dev \<noteq> NaN" "hs_fill_anomaly_deviation s \<noteq> NaN"
        using wf(1) by (auto simp: good_amount_def wf_snapshot_def)
      have "?o = z" using timely_latest [OF num(3)] by (simp add: t(1) fill_check_def Let_def)
      then show ?thesis
        using project_fill [OF assms(1) wf(2) t(1)] nan wf_snapshot_facts(10,11) [OF wf(1)] assms(4,8) id t(2) fill
        by (intro goal [of None]) (auto simp: base_id_ok_def renews_anomaly_def)
    qed
  qed
qed

section \<open>Histories\<close>

text \<open>
  A life of a monitor: observations, each followed by the append of the snapshot under the
  identity that \<open>persistence_event_id\<close> gives, at a logical time.
\<close>

type_synonym life = "(observation \<times> string \<times> instant) list"

definition live_step :: "observation \<Rightarrow> monitor \<Rightarrow> monitor" where
  "live_step obs m = fst (apply_observation obs m)"

definition health_event :: "string \<Rightarrow> instant \<Rightarrow> monitor \<Rightarrow> stored_event" where
  "health_event base logical m = \<lparr> sv_sequence = 0,
     sv_event_id = (case persistence_event_id base m of Inl _ \<Rightarrow> base | Inr i \<Rightarrow> i),
     sv_event_type = ''HEALTH_STATE'', sv_occurred_at_utc = logical, sv_payload = stored_payload (hm_snapshot m) \<rparr>"

definition persisted_monitor :: "monitor \<Rightarrow> monitor" where
  "persisted_monitor m = m\<lparr> hm_pending_fill_recovery := None \<rparr>"

fun health_events :: "life \<Rightarrow> monitor \<Rightarrow> stored_event list" where
  "health_events [] m = []"
| "health_events ((obs, base, logical) # rest) m =
     health_event base logical (live_step obs m) # health_events rest (persisted_monitor (live_step obs m))"

fun final_monitor :: "life \<Rightarrow> monitor \<Rightarrow> monitor" where
  "final_monitor [] m = m"
| "final_monitor ((obs, base, logical) # rest) m = final_monitor rest (persisted_monitor (live_step obs m))"

text \<open>What the life must respect: the exceptions of the section before, and no other.\<close>

fun regular_life :: "life \<Rightarrow> monitor \<Rightarrow> bool" where
  "regular_life [] m = True"
| "regular_life ((obs, base, logical) # rest) m =
     (orderly obs (hm_snapshot m) \<and> \<not> renews_anomaly obs (hm_snapshot m) \<and> \<not> untimed_fill obs
      \<and> reduced_ok (hm_snapshot (live_step obs m)) \<and> base_id_ok base (live_step obs m)
      \<and> regular_life rest (persisted_monitor (live_step obs m)))"

lemma projection_simulates:
  assumes "tracks j (hm_snapshot m)" "invariant (hm_snapshot m)" "hm_pending_fill_recovery m = None" "regular_life steps m"
    and "rj_latest j = Some (hm_snapshot m) \<or> steps \<noteq> []"
  shows "\<exists>j1. efold project_event (health_events steps m) j = Inr j1 \<and> rj_latest j1 = Some (hm_snapshot (final_monitor steps m))"
  using assms
proof (induction steps arbitrary: j m)
  case Nil
  then show ?case by simp
next
  case (Cons st rest)
  obtain obs base logical where st: "st = (obs, base, logical)" by (metis prod_cases3)
  let ?m1 = "live_step obs m"
  note reg = Cons.prems(4) [unfolded st regular_life.simps]
  have m: "?m1 = fst (apply_observation obs \<lparr> hm_snapshot = hm_snapshot m, hm_pending_fill_recovery = None \<rparr>)"
    using Cons.prems(3) unfolding live_step_def by (cases m) simp
  have base: "base_id_ok base ?m1" using reg by simp
  then obtain i where i: "persistence_event_id base ?m1 = Inr i" by (simp add: persistence_event_id_def base_id_ok_def)
  have "\<exists>j1. project_event (health_event base logical ?m1) j = Inr j1 \<and> rj_latest j1 = Some (hm_snapshot ?m1)
      \<and> tracks j1 (hm_snapshot ?m1)"
    by (rule project_observation [OF Cons.prems(1,2) _ _ _ m _ base i]) (use reg i in \<open>simp_all add: health_event_def\<close>)
  then obtain j1 where j1: "project_event (health_event base logical ?m1) j = Inr j1"
    "rj_latest j1 = Some (hm_snapshot ?m1)" "tracks j1 (hm_snapshot ?m1)" by blast
  have inv: "invariant (hm_snapshot ?m1)" unfolding live_step_def
    by (rule health_step_invariant [OF observation_step Cons.prems(2)]) (use reg Cons.prems(2) in \<open>simp_all add: invariant_def\<close>)
  have "\<exists>j2. efold project_event (health_events rest (persisted_monitor ?m1)) j1 = Inr j2
      \<and> rj_latest j2 = Some (hm_snapshot (final_monitor rest (persisted_monitor ?m1)))"
    by (rule Cons.IH) (use j1 inv reg in \<open>simp_all add: persisted_monitor_def\<close>)
  then show ?case by (simp add: st j1(1))
qed

text \<open>The health events of a history, up to the sequence numbers that the store gives them.\<close>

definition health_history :: "stored_event list \<Rightarrow> stored_event list" where
  "health_history events = map (\<lambda>e. e\<lparr> sv_sequence := 0 \<rparr>) (filter (\<lambda>e. sv_event_type e = ''HEALTH_STATE'') events)"

lemma project_other_events:
  "efold project_event events j = efold project_event (health_history events) j"
proof (induction events arbitrary: j)
  case (Cons e events)
  have "sv_event_type e \<noteq> ''HEALTH_STATE'' \<Longrightarrow> project_event e j = Inr j" by (simp add: project_event_def)
  moreover have "project_event (e\<lparr> sv_sequence := 0 \<rparr>) j = project_event e j"
    by (simp add: project_event_def cong: option.case_cong)
  ultimately show ?case using Cons by (auto simp: health_history_def intro!: ebind_cong)
qed (simp add: health_history_def)

lemma tracks_initial: "tracks initial_projection healthy"
  by (simp add: tracks_def initial_projection_def healthy_def)

lemma final_monitor_ok:
  assumes "regular_life steps m" "invariant (hm_snapshot m)" "reduced_ok (hm_snapshot m)" "hm_pending_fill_recovery m = None"
  shows "invariant (hm_snapshot (final_monitor steps m)) \<and> reduced_ok (hm_snapshot (final_monitor steps m))
    \<and> hm_pending_fill_recovery (final_monitor steps m) = None"
  using assms
proof (induction steps arbitrary: m)
  case (Cons st rest)
  obtain obs base logical where st: "st = (obs, base, logical)" by (metis prod_cases3)
  note reg = Cons.prems(1) [unfolded st regular_life.simps]
  have "invariant (hm_snapshot (live_step obs m))" unfolding live_step_def
    by (rule health_step_invariant [OF observation_step Cons.prems(2)]) (use reg Cons.prems(2) in \<open>simp_all add: invariant_def\<close>)
  then show ?case using Cons.IH [of "persisted_monitor (live_step obs m)"] reg by (simp add: st persisted_monitor_def)
qed simp

lemma projection_of_life:
  assumes "regular_life steps fresh_monitor" and "steps \<noteq> []"
    and "health_history events = health_events steps fresh_monitor"
  shows "ebind (project_fill_recovery_evidence events) new_monitor = Inr (final_monitor steps fresh_monitor)"
proof -
  have fresh: "hm_snapshot fresh_monitor = healthy" "hm_pending_fill_recovery fresh_monitor = None"
    by (simp_all add: fresh_monitor_def)
  let ?m = "final_monitor steps fresh_monitor"
  have "efold project_event events initial_projection = efold project_event (health_events steps fresh_monitor) initial_projection"
    unfolding project_other_events [of events] assms(3) ..
  moreover obtain j where "efold project_event (health_events steps fresh_monitor) initial_projection = Inr j"
    "rj_latest j = Some (hm_snapshot ?m)"
    using projection_simulates [of initial_projection fresh_monitor steps] tracks_initial invariant_healthy(1) assms(1,2) fresh
    by auto
  ultimately have p: "project_fill_recovery_evidence events = Inr (hm_snapshot ?m)"
    by (simp add: project_fill_recovery_evidence_def)
  have ok: "invariant (hm_snapshot ?m)" "reduced_ok (hm_snapshot ?m)" "hm_pending_fill_recovery ?m = None"
    using final_monitor_ok [OF assms(1)] invariant_healthy fresh by simp_all
  then have "new_monitor (hm_snapshot ?m) = Inr ?m"
    by (simp add: new_monitor_def from_to_mapping invariant_def)
  then show ?thesis by (simp add: p)
qed

text \<open>
  C21: A monitor restarted from the store is the monitor that stopped. Over every regular life,
  whatever other events stand between, the projection of the history of health events is
  exactly the last snapshot persisted, with the episode, progress and times of fill recovery
  that the stored payloads do not hold; and the monitor built from it is that monitor.
\<close>

theorem restart_restores_monitor:
  assumes "regular_life steps fresh_monitor" and "steps \<noteq> []"
    and "health_history events = health_events steps fresh_monitor"
  shows "ebind (project_fill_recovery_evidence events) new_monitor = Inr (final_monitor steps fresh_monitor)"
  by (rule projection_of_life [OF assms])

text \<open>A life with a deviating fill and one clean flat-account check.\<close>

definition sample_life :: life where
  "sample_life =
     [(FillCheck (HInt 1) (HInt 3) (Some (utc 600000000)), ''health:reconcile:1'', 600000000),
      (FlatFillRecovery (VBool True) (utc 1200000000), ''health:reconcile:2'', 1200000000)]"

lemma health_history_events: "health_history (health_events steps m) = health_events steps m"
  by (induction steps m rule: health_events.induct) (simp_all add: health_event_def health_history_def)

definition sample_monitor :: monitor where
  "sample_monitor = \<lparr> hm_snapshot = settle (fill_check False (Fin (1, 1)) (Some 600000000) healthy),
     hm_pending_fill_recovery = None \<rparr>"

lemma sample_deviation: "decimal_deviation (HInt 1) (HInt 3) = Dec (2, 0)"
  by code_simp

lemma sample_first_step:
  "live_step (FillCheck (HInt 1) (HInt 3) (Some (utc 600000000))) fresh_monitor = sample_monitor"
proof -
  have "is_ok (positive_finite (HInt 1) ''fill prices'')" "is_ok (positive_finite (HInt 3) ''fill prices'')" by code_simp+
  then obtain x y where p: "positive_finite (HInt 1) ''fill prices'' = Inr x" "positive_finite (HInt 3) ''fill prices'' = Inr y"
    by (auto simp: is_ok_iff)
  have d: "\<not> Dec (2, 0) \<le> FILL_DEVIATION_LIMIT_DECIMAL" "float_deviation (Dec (2, 0)) = Fin (1, 1)" by code_simp+
  show ?thesis
    by (simp add: live_step_def record_fill_check_def at_time_def optional_utc_datetime_def utc_datetime_def p
        sample_deviation d Let_def observe_def finish_observation_def sample_monitor_def fresh_monitor_def del: dle)
qed

lemma sample_life_regular: "regular_life sample_life fresh_monitor"
proof -
  let ?o1 = "FillCheck (HInt 1) (HInt 3) (Some (utc 600000000))" and ?o2 = "FlatFillRecovery (VBool True) (utc 1200000000)"
  have m1: "persisted_monitor sample_monitor = sample_monitor" by (simp add: persisted_monitor_def sample_monitor_def)
  have "isfinite (float_of_dec (decimal_deviation (HInt 1) (HInt 3)))" unfolding sample_deviation by code_simp
  then have o1: "orderly ?o1 (hm_snapshot fresh_monitor)"
    by (simp add: orderly_def fresh_monitor_def healthy_def in_dt_range_def dt_min_def dt_max_def timely_def)
  have "hs_last_observation_at_utc (hm_snapshot sample_monitor) = Some 600000000" by code_simp
  then have o2: "orderly ?o2 (hm_snapshot sample_monitor)"
    by (simp add: orderly_def in_dt_range_def dt_min_def dt_max_def timely_def)
  have "\<not> renews_anomaly ?o1 (hm_snapshot fresh_monitor)" by (simp add: renews_anomaly_def fresh_monitor_def healthy_def)
  moreover have "reduced_ok (hm_snapshot sample_monitor)" "base_id_ok ''health:reconcile:1'' sample_monitor" by code_simp+
  moreover have "\<not> renews_anomaly ?o2 (hm_snapshot sample_monitor)" by (simp add: renews_anomaly_def)
  moreover have "reduced_ok (hm_snapshot (live_step ?o2 sample_monitor))" "base_id_ok ''health:reconcile:2'' (live_step ?o2 sample_monitor)"
    by code_simp+
  ultimately show ?thesis by (simp add: sample_life_def o1 o2 untimed_fill_def sample_first_step m1)
qed

theorem restart_restores_monitor_witness:
  "ebind (project_fill_recovery_evidence (health_events sample_life fresh_monitor)) new_monitor
     = Inr (final_monitor sample_life fresh_monitor)"
  by (rule restart_restores_monitor [OF sample_life_regular _ health_history_events]) (simp add: sample_life_def)

end
