(* ===== verification/Health_Store.thy ===== *)
theory Health_Store
  imports Health_Restart Store_History
begin

text \<open>
  The health monitor and the store together: what an append adds to the evidence of the
  store, that \<open>persist\<close> appends the payload the projection reads, and that \<open>from_store\<close> after
  it recovers the monitor that persisted.
\<close>

section \<open>What an append adds to the evidence\<close>

lemma next_sequence_above:
  assumes "r \<in> set (db_events d)" shows "er_sequence r < next_sequence d"
proof -
  have "er_sequence r \<le> foldr (\<lambda>r m. max (er_sequence r) m) es z" if "r \<in> set es" for es z
    using that by (induction es) auto
  from this [OF assms] show ?thesis by (simp add: next_sequence_def)
qed

lemma insort_append: "f x \<le> f y \<Longrightarrow> insort_key f x (zs @ [y]) = insort_key f x zs @ [y]"
  by (induction zs) auto

lemma sort_key_append_above:
  "(\<And>x. x \<in> set xs \<Longrightarrow> f x \<le> f y) \<Longrightarrow> sort_key f (xs @ [y]) = sort_key f xs @ [y]"
  by (induction xs) (simp_all add: insort_append)

lemma replay_rows_snoc: "replay_rows H (rs @ [r]) = ebind (replay_rows H rs) (replay_row H r)"
proof -
  have "efold (replay_row H) [r] = replay_row H r"
    by (rule ext) (simp, metis ebind_Inl ebind_Inr efold.simps(1) sum.exhaust)
  then show ?thesis by (simp add: replay_rows_def efold_append del: efold.simps)
qed

text \<open>Appending an event to a verified database appends its evidence, and nothing else.\<close>

lemma append_event_body_row:
  assumes "append_event_body H n s d = Inr (d1, k)"
  shows "db_events d1 = db_events d @ [\<lparr> er_sequence = k, er_event_id = en_event_id n, er_event_type = en_event_type n,
      er_occurred_at_utc = en_text n, er_payload_json = en_payload n \<rparr>]" "k = next_sequence d"
proof -
  obtain d2 where d2: "insert_event (en_event_id n) (en_event_type n) (en_text n) (en_payload n) d = Inr (d2, k)"
    "refresh_snapshot H (en_text n) d2 = Inr d1"
    using assms by (auto simp: append_event_body_def)
  show "db_events d1 = db_events d @ [\<lparr> er_sequence = k, er_event_id = en_event_id n, er_event_type = en_event_type n,
      er_occurred_at_utc = en_text n, er_payload_json = en_payload n \<rparr>]" "k = next_sequence d"
    using insert_event_Inr [OF d2(1)] refresh_snapshot_Inr [OF d2(2)] by auto
qed

lemma append_event_evidence:
  assumes "replay_and_verify H d = Inr s" "append_event_body H n s d = Inr (d1, k)" "replay_and_verify H d1 = Inr s1"
  shows "\<exists>p t. row_payload (en_payload n) = Inr p \<and> parse_stored_timestamp (en_text n) = Inr (en_text n, t)
    \<and> pn_event_evidence s1 = pn_event_evidence s @ [\<lparr> sv_sequence = k, sv_event_id = en_event_id n,
        sv_event_type = en_event_type n, sv_occurred_at_utc = t, sv_payload = p \<rparr>]
    \<and> (en_event_type n = ''HEALTH_STATE'' \<longrightarrow> pn_health_state s1 = p)"
proof -
  let ?r = "\<lparr> er_sequence = k, er_event_id = en_event_id n, er_event_type = en_event_type n,
      er_occurred_at_utc = en_text n, er_payload_json = en_payload n \<rparr>"
  note row = append_event_body_row [OF assms(2)]
  obtain r0 where r0: "replay_rows H (sort_key er_sequence (db_events d)) = Inr r0" "pn_event_evidence s = rp_evidence r0"
    using replay_and_verify_Inr [OF assms(1)] by (auto simp: snapshot_from_components_def Let_def)
  obtain r1 where r1: "replay_rows H (sort_key er_sequence (db_events d1)) = Inr r1" "pn_event_evidence s1 = rp_evidence r1"
    "pn_health_state s1 = lg_health_state (rp_ledger r1)"
    using replay_and_verify_Inr [OF assms(3)] by (auto simp: snapshot_from_components_def Let_def)
  have "sort_key er_sequence (db_events d1) = sort_key er_sequence (db_events d) @ [?r]"
    unfolding row(1) using next_sequence_above [of _ d] by (intro sort_key_append_above) (simp add: row(2) less_imp_le)
  then have "replay_row H ?r r0 = Inr r1" using r1(1) r0(1) by (simp add: replay_rows_snoc)
  from replay_row_Inr [OF this] obtain p t g l where h: "r1 = row_step H ?r p t g r0 l" "row_payload (en_payload n) = Inr p"
    "apply_event H (en_event_id n) (en_event_type n) p t (rp_ledger r0) = Inr l"
    "parse_stored_timestamp (en_text n) = Inr (en_text n, t)" by auto
  have "en_event_type n = ''HEALTH_STATE'' \<Longrightarrow> lg_health_state l = p" using h(3) by (auto simp: apply_event_def)
  then show ?thesis using h r0(2) r1(2,3) by (simp add: row_step_def)
qed

section \<open>Stored health payloads\<close>

lemma stored_payload_normal:
  assumes "wf_snapshot s"
  shows "normalize_obj (stored_payload s) = Inr (stored_payload s)" "sort_members (stored_payload s) = stored_payload s"
proof -
  let ?n = "map (\<lambda>kv. (fst kv, thaw (snd kv))) (to_storage_mapping s)"
  have "normalize_obj (to_storage_mapping s) = Inr ?n"
    using canonical_storage [OF assms] by (auto simp: canonical_payload_def)
  then have "normalize_obj ?n = Inr ?n" by (rule normalize_idem(3))
  then show "normalize_obj (stored_payload s) = Inr (stored_payload s)"
    unfolding stored_payload_def by (rule normalize_sort(3))
  show "sort_members (stored_payload s) = stored_payload s"
    unfolding stored_payload_def by (rule sort_members_fixed [OF sorted_sort_members sort_idem(3)])
qed

lemma row_payload_stored:
  assumes "wf_snapshot s" shows "row_payload (Compact (JObj (stored_payload s))) = Inr (stored_payload s)"
  using stored_payload_normal [OF assms]
  by (simp add: row_payload_def canonical_payload_def canonical_json_value_def as_corrupt_def)

text \<open>A payload of this form equals itself, as Python compares it.\<close>

lemma json_eq_strings [simp]: "json_eq (JTuple (map JStr rs)) (JTuple (map JStr rs))"
  by (simp add: list_all_iff)

lemma freeze_list [simp]: "freeze_json (JList (map JStr rs)) = JTuple (map JStr rs)"
  by simp

lemma members_eq_refl:
  assumes "distinct (map fst p)" "\<And>kv. kv \<in> set p \<Longrightarrow> json_eq (snd kv) (snd kv)"
  shows "members_eq p p"
  using assms by (auto simp: members_eq_def list_all_iff map_of_eq_Some_iff split: option.split dest: eq_key_imp_eq_value)


lemma freeze_eq_self:
  assumes "distinct (map fst p)" "\<And>kv. kv \<in> set p \<Longrightarrow> json_eq (freeze_json (snd kv)) (freeze_json (snd kv))"
  shows "members_eq (freeze_members p) (freeze_members p)"
proof (rule members_eq_refl)
  show "distinct (map fst (freeze_members p))" using assms(1) by (simp add: freeze_members_def comp_def case_prod_unfold)
  show "json_eq (snd kv) (snd kv)" if "kv \<in> set (freeze_members p)" for kv
    using that assms(2) by (auto simp: freeze_members_def)
qed

lemma feq_refl: "isfinite x \<Longrightarrow> feq x x"
  by (simp add: feq_iff_rat)

lemma stored_payload_self:
  assumes "wf_snapshot s"
  shows "members_eq (freeze_members (stored_payload s)) (freeze_members (stored_payload s))"
proof (rule freeze_eq_self)
  let ?n = "map (\<lambda>kv. (fst kv, thaw (snd kv))) (to_storage_mapping s)"
  have map: "map_of (stored_payload s) = map_of ?n" by (rule map_of_stored)
  have dn: "distinct (map fst ?n)" unfolding storage_mapping_eq by simp
  have "mset (map fst (sort_members kvs)) = mset (map fst kvs)" for kvs
  proof (induction kvs)
    case (Cons kv kvs)
    have "mset (map fst (insert_member x xs)) = add_mset (fst x) (mset (map fst xs))" for x xs
      by (induction xs) auto
    then show ?case using Cons by simp
  qed simp
  then show d: "distinct (map fst (stored_payload s))"
    using dn unfolding stored_payload_def by (metis mset_eq_imp_distinct_iff)
  show "json_eq (freeze_json (snd kv)) (freeze_json (snd kv))" if "kv \<in> set (stored_payload s)" for kv
  proof -
    have "map_of ?n (fst kv) = Some (snd kv)" using that d map by (metis map_of_is_SomeI prod.collapse)
    then have "kv \<in> set ?n" by (metis map_of_SomeD prod.collapse)
    then have "snd kv \<in> snd ` set ?n" by (rule imageI)
    moreover have "json_eq (freeze_json v) (freeze_json v)" if "v \<in> snd ` set ?n" for v
    proof -
      have dt: "json_eq (freeze_json (optional_datetime x)) (freeze_json (optional_datetime x))" for x by (cases x) simp_all
      have num: "feq (Fin (m, 0)) (Fin (m, 0))" for m by (simp add: feq_def)
      show ?thesis using that wf_snapshot_facts(6-8) [OF assms]
        unfolding storage_mapping_eq by (auto simp: dt num feq_refl good_amount_def list_all_iff simp del: freeze_json.simps(2))
    qed
    ultimately show ?thesis by blast
  qed
qed

section \<open>Persist, then recover\<close>

lemma health_tail_parses:
  assumes "\<And>e. e \<in> set events \<Longrightarrow> sv_event_type e = ''HEALTH_STATE'' \<Longrightarrow> is_ok (from_event_mapping (sv_payload e))"
  shows "efold (\<lambda>e latest. if sv_event_type e = ''HEALTH_STATE'' then ebind (from_event_mapping (sv_payload e)) (\<lambda>_. Inr (Some e))
     else Inr latest) events l = Inr (fold (\<lambda>e latest. if sv_event_type e = ''HEALTH_STATE'' then Some e else latest) events l)"
  using assms
proof (induction events arbitrary: l)
  case (Cons e events)
  then have "sv_event_type e = ''HEALTH_STATE'' \<Longrightarrow> is_ok (from_event_mapping (sv_payload e))" by simp
  then show ?case using Cons by (auto simp: is_ok_iff)
qed simp

lemma projection_parses:
  assumes "efold project_event events j = Inr j1" "e \<in> set events" "sv_event_type e = ''HEALTH_STATE''"
  shows "is_ok (from_event_mapping (sv_payload e))"
  using assms
proof (induction events arbitrary: j)
  case (Cons x events)
  then show ?case by (cases "e = x") (auto simp: project_event_def is_ok_iff split: if_splits)
qed simp

text \<open>The append that \<open>persist\<close> makes for a new identity.\<close>

lemma persist_new:
  assumes "load_snapshot H st = Inr state" "matching_events event_id state = []" "wf_snapshot (hm_snapshot m)"
    and "persist H event_id (utc logical) m st = (st1, m1, Inr k)" "in_dt_range logical"
  shows "\<exists>state1. load_snapshot H st1 = Inr state1 \<and> m1 = persisted_monitor m
    \<and> pn_event_evidence state1 = pn_event_evidence state @ [\<lparr> sv_sequence = k, sv_event_id = event_id,
        sv_event_type = ''HEALTH_STATE'', sv_occurred_at_utc = logical, sv_payload = stored_payload (hm_snapshot m) \<rparr>]
    \<and> pn_health_state state1 = stored_payload (hm_snapshot m)"
proof -
  let ?payload = "to_storage_mapping (hm_snapshot m)"
  let ?a = "\<lparr> ea_event_id = event_id, ea_event_type = ''HEALTH_STATE'', ea_occurred_at = TsDatetime (utc logical),
      ea_payload = JObj ?payload \<rparr>"
  have id: "event_id \<noteq> []"
    using assms(4) by (auto simp: persist_def utc_datetime_def ensure_def)
  have ready: "ebind (utc_datetime (utc logical) ''logical event time'') (\<lambda>logical.
        ebind (ensure (event_id \<noteq> []) (ValueError ''event_id must be non-empty'')) (\<lambda>_.
        ebind (load_snapshot H st) (\<lambda>state. Inr (logical, matching_events event_id state)))) = Inr (logical, [])"
    using id assms(1,2) by (simp add: utc_datetime_def)
  note P = assms(4) [unfolded persist_def ready sum.case prod.case Let_def]
  obtain st2 where app: "store_append_event H ?a st = (st2, Inr k)" "st1 = st2" "m1 = persisted_monitor m"
  proof (cases "store_append_event H ?a st")
    case (Pair st2 r)
    show ?thesis
    proof (cases r)
      case (Inr n)
      then show ?thesis using P Pair that by (auto simp: persisted_def persisted_monitor_def)
    next
      case (Inl e)
      then have "st2 = st" using Pair unfolding store_append_event_def by (metis with_args_transact_Inl)
      then have "duplicate_outcome H event_id logical ?payload st2 \<noteq> Inr x" for x
        using assms(1,2) by (simp add: duplicate_outcome_def validate_duplicate_event_def)
      then show ?thesis using P Pair Inl by (auto simp: persisted_def split: if_splits)
    qed
  qed
  obtain n d where n: "normalize_event ?a = Inr n" "ss_initialized st" "\<not> ss_closed st"
    "mutation H (append_event_body H n) (ss_db st) = Inr (d, k)" "st2 = st\<lparr>ss_db := d\<rparr>"
    using app(1) unfolding store_append_event_def with_args_transact_Inr by blast
  have state: "replay_and_verify H (ss_db st) = Inr state"
    using assms(1) n(2,3) by (simp add: load_snapshot_def ensure_ready_def ensure_not_closed_def)
  then obtain state1 where b: "append_event_body H n state (ss_db st) = Inr (d, k)" "replay_and_verify H d = Inr state1"
    using n(4) by (auto simp: mutation_Inr)
  have en: "en_event_id n = event_id" "en_event_type n = ''HEALTH_STATE''" "en_text n = iso_z logical"
    "en_payload n = Compact (JObj (stored_payload (hm_snapshot m)))"
    using n(1) canonical_storage [OF assms(3)]
    by (auto simp: normalize_event_def canonical_timestamp_def nonempty_text_def split: if_splits)
  have t: "parse_stored_timestamp (iso_z logical) = Inr (w, x) \<Longrightarrow> x = logical" for w x
    using parse_iso [OF assms(5)] by (auto simp: parse_stored_timestamp_def split: if_splits)
  have "load_snapshot H st1 = Inr state1"
    using n(2,3,5) b(2) app(2) by (simp add: load_snapshot_def ensure_ready_def ensure_not_closed_def)
  then show ?thesis
    using append_event_evidence [OF state b] row_payload_stored [OF assms(3)] app(3) t by (auto simp: en)
qed

lemma health_history_snoc:
  "health_history (events @ [e]) = health_history events
     @ (if sv_event_type e = ''HEALTH_STATE'' then [e\<lparr> sv_sequence := 0 \<rparr>] else [])"
  by (simp add: health_history_def)

lemma health_events_snoc:
  "health_events (steps @ [(obs, base, logical)]) m =
     health_events steps m @ [health_event base logical (live_step obs (final_monitor steps m))]"
  by (induction steps m rule: health_events.induct) simp_all

lemma final_monitor_snoc:
  "final_monitor (steps @ [(obs, base, logical)]) m = persisted_monitor (live_step obs (final_monitor steps m))"
  by (induction steps m rule: health_events.induct) simp_all

lemma regular_life_snoc:
  "regular_life (steps @ [(obs, base, logical)]) m \<longleftrightarrow> regular_life steps m
     \<and> regular_life [(obs, base, logical)] (final_monitor steps m)"
  by (induction steps m rule: health_events.induct) auto

text \<open>
  C22: The monitor and the store compose. When the health events of a verified store are those
  of a regular life, and the monitor makes one more observation and persists it under a new
  identity, then \<open>from_store\<close> on the committed store returns exactly the monitor that
  persisted: crash and restart after a commit lose nothing.
\<close>

theorem persist_then_recover:
  assumes "load_snapshot H st = Inr state"
    and "health_history (pn_event_evidence state) = health_events steps fresh_monitor"
    and "regular_life (steps @ [(obs, base, logical)]) fresh_monitor"
    and "m = live_step obs (final_monitor steps fresh_monitor)"
    and "persistence_event_id base m = Inr event_id" and "matching_events event_id state = []"
    and "in_dt_range logical"
    and "persist H event_id (utc logical) m st = (st1, m1, Inr k)"
  shows "from_store H st1 = Inr m1 \<and> hm_snapshot m1 = hm_snapshot m"
proof -
  let ?steps = "steps @ [(obs, base, logical)]"
  have final: "final_monitor ?steps fresh_monitor = persisted_monitor m"
    by (simp add: final_monitor_snoc assms(4))
  have inv: "invariant (hm_snapshot m)"
    using final_monitor_ok [OF assms(3)] invariant_healthy final by (simp add: fresh_monitor_def persisted_monitor_def)
  then obtain state1 where s1: "load_snapshot H st1 = Inr state1" "m1 = persisted_monitor m"
    "pn_event_evidence state1 = pn_event_evidence state @ [\<lparr> sv_sequence = k, sv_event_id = event_id,
        sv_event_type = ''HEALTH_STATE'', sv_occurred_at_utc = logical, sv_payload = stored_payload (hm_snapshot m) \<rparr>]"
    "pn_health_state state1 = stored_payload (hm_snapshot m)"
    using persist_new [OF assms(1,6) _ assms(8,7)] by (auto simp: invariant_def)
  have hist: "health_history (pn_event_evidence state1) = health_events ?steps fresh_monitor"
    unfolding s1(3) health_history_snoc health_events_snoc assms(2)
    by (simp add: health_event_def assms(5) flip: assms(4))
  have rec: "ebind (project_fill_recovery_evidence (pn_event_evidence state1)) new_monitor = Inr m1"
    using projection_of_life [OF assms(3) _ hist] by (simp add: final s1(2))
  then obtain j where "efold project_event (pn_event_evidence state1) initial_projection = Inr j"
    by (auto simp: project_fill_recovery_evidence_def)
  from projection_parses [OF this] have tail: "health_tail (pn_event_evidence state1) =
      Inr (Some \<lparr> sv_sequence = k, sv_event_id = event_id, sv_event_type = ''HEALTH_STATE'',
        sv_occurred_at_utc = logical, sv_payload = stored_payload (hm_snapshot m) \<rparr>)"
    unfolding health_tail_def by (subst health_tail_parses) (auto simp: s1(3))
  have "members_eq (freeze_members (stored_payload (hm_snapshot m))) (freeze_members (stored_payload (hm_snapshot m)))"
    by (rule stored_payload_self) (use inv in \<open>simp add: invariant_def\<close>)
  then have "from_store H st1 = Inr m1"
    using rec by (simp add: from_store_def s1(1,4) tail)
  then show ?thesis by (simp add: s1(2) persisted_monitor_def)
qed

end
