(* ===== verification/Health_Samples.thy ===== *)
theory Health_Samples
  imports Health_Store Store_Runs
begin

text \<open>A concrete persist: the first failure of a fresh monitor, on the empty store.\<close>

definition sample_health_payload :: "(string \<times> json) list" where
  "sample_health_payload =
     [(''api_failure_latched'', JBool False), (''api_failures'', JInt 1), (''api_latch_activated_at_utc'', JNull),
      (''api_successes'', JInt 0), (''fill_deviation'', JFloat 0), (''fill_within_limit'', JBool True),
      (''halt_entries'', JBool False), (''last_failure_at_utc'', JStr ''1970-01-01T00:00:00Z''),
      (''last_observation_at_utc'', JStr ''1970-01-01T00:00:00Z''), (''last_success_at_utc'', JNull),
      (''latest_candle_valid'', JBool True), (''ledger_btc_difference'', JFloat 0), (''ledger_cash_difference'', JFloat 0),
      (''ledger_matches'', JBool True), (''reasons'', JList []), (''resume_reduced'', JBool False),
      (''retry_attempts'', JInt 0), (''schema_valid'', JBool True), (''stage'', JStr ''NORMAL''),
      (''timestamps_monotonic'', JBool True), (''unresolved_orders'', JInt 0), (''version'', JInt 2)]"

definition sample_live :: monitor where
  "sample_live = fst (apply_observation (ApiFailure (utc 0)) fresh_monitor)"

lemma sample_live_payload: "stored_payload (hm_snapshot sample_live) = sample_health_payload"
  by code_simp

definition sample_health_row :: event_row where
  "sample_health_row = \<lparr> er_sequence = 1, er_event_id = ''health:1'', er_event_type = ''HEALTH_STATE'',
     er_occurred_at_utc = ''1970-01-01T00:00:00Z'', er_payload_json = Compact (JObj sample_health_payload) \<rparr>"

definition sample_health_mapping :: json where
  "sample_health_mapping = JObj
        [(''average_entry_price'', JNull), (''breaker_state'', JObj []),
         (''btc_cost_basis'', JFloat (Fin (0, 0))),
         (''btc_quantity'', JFloat (Fin (0, 0))),
         (''cash'', JFloat (Fin (25, 2))),
         (''equity'', JFloat (Fin (25, 2))), (''event_digest'', JStr ''1''),
         (''health_state'', JObj sample_health_payload),
         (''initial_equity'', JFloat (Fin (25, 2))),
         (''last_price'', JNull), (''last_sequence'', JInt 1),
         (''market'', JStr ''KRW-BTC''), (''pending_orders'', JList []),
         (''position_state'', JStr ''FLAT'')]"

definition sample_health_replay :: replay where
  "sample_health_replay = \<lparr> rp_ledger = initial_ledger\<lparr> lg_health_state := sample_health_payload \<rparr>,
     rp_evidence = [\<lparr> sv_sequence = 1, sv_event_id = ''health:1'', sv_event_type = ''HEALTH_STATE'',
       sv_occurred_at_utc = 0, sv_payload = sample_health_payload \<rparr>],
     rp_previous = Some 0, rp_expected = 2, rp_digest = ''1'',
     rp_mappings = [sample_snapshot_values ! 0, sample_health_mapping],
     rp_timestamps = [''1970-01-01T00:00:00Z'', ''1970-01-01T00:00:00Z''] \<rparr>"

definition sample_health_db :: db where
  "sample_health_db = sample_empty_db\<lparr> db_events := [sample_health_row],
     db_snapshots := db_snapshots sample_empty_db @ [\<lparr> sn_sequence = 1, sn_state_json = Compact sample_health_mapping,
       sn_created_at_utc = ''1970-01-01T00:00:00Z'' \<rparr>], db_sqlite_sequence := Some 1 \<rparr>"

lemma sample_health_texts:
  "snapshot_json (sample_state sample_health_replay 1) = Inr (Compact sample_health_mapping)"
  by code_simp


lemma sample_health_snapshots:
  "verify_snapshots (db_snapshots sample_health_db) (rp_mappings sample_health_replay) (rp_timestamps sample_health_replay) = Inr ()"
  by code_simp

lemma sample_health_wf: "wf_snapshot (hm_snapshot sample_live)"
proof -
  have "orderly_run [ApiFailure (utc 0)] fresh_monitor"
    by (rule api_orderly_run [of 0]) (simp_all add: in_dt_range_def dt_min_def dt_max_def fresh_monitor_def healthy_def)
  from invariant_fresh [OF this] show ?thesis by (simp add: invariant_def sample_live_def)
qed

lemma sample_health_parts:
  "validate_known_state_payload ''HEALTH_STATE'' sample_health_payload True = Inr ()"
  "envelope_digest sample_sha (envelope ''health:1'' ''HEALTH_STATE'' ''1970-01-01T00:00:00Z'' sample_health_payload ''0'' 1) = Inr ''1''"
  "snapshot_mapping (snapshot_from_components (initial_ledger\<lparr> lg_health_state := sample_health_payload \<rparr>) 1 [] ''1'') = sample_health_mapping"
  "initial_replay sample_sha = initial_replay sample_sha\<lparr> rp_mappings := [sample_snapshot_values ! 0] \<rparr>"
  by code_simp+


lemma sample_health_row_step:
  "replay_row sample_sha sample_health_row (initial_replay sample_sha) = Inr sample_health_replay"
proof -
  have p: "row_payload (Compact (JObj sample_health_payload)) = Inr sample_health_payload"
    using row_payload_stored [OF sample_health_wf] by (simp add: sample_live_payload)
  have t: "parse_stored_timestamp ''1970-01-01T00:00:00Z'' = Inr (''1970-01-01T00:00:00Z'', 0)"
    using epoch_parses by (simp add: EPOCH_def)
  have v: "stored_text ''health:1'' ''invalid event id'' = Inr ''health:1''"
    "stored_text ''HEALTH_STATE'' ''invalid event type'' = Inr ''HEALTH_STATE''"
    by code_simp+
  have i: "initial_replay sample_sha = \<lparr> rp_ledger = initial_ledger, rp_evidence = [], rp_previous = None, rp_expected = 1,
     rp_digest = ''0'', rp_mappings = [sample_snapshot_values ! 0], rp_timestamps = [''1970-01-01T00:00:00Z''] \<rparr>"
    using sample_health_parts(4) by (simp add: initial_replay_def sample_sha_def EPOCH_def)
  show ?thesis unfolding i
    by (simp add: replay_row_def sample_health_row_def p t sample_health_parts(1-3) apply_event_def sample_health_replay_def v)
qed

lemma sample_health_verified:
  "replay_and_verify sample_sha sample_health_db = Inr (sample_state sample_health_replay 1)"
  "rebuild_from_events sample_sha sample_health_db = Inr (sample_health_replay, sample_state sample_health_replay 1)"
proof -
  have a: "validate_schema_and_identity sample_health_db = Inr ()"
    by (rule sample_schema) (simp_all add: sample_health_db_def sample_empty_db_def sample_db_def)
  have b: "sort_key er_sequence (db_events sample_health_db) = [sample_health_row]"
    by (simp add: sample_health_db_def)
  have c: "replay_rows sample_sha [sample_health_row] = Inr sample_health_replay"
    by (simp add: replay_rows_def sample_health_row_step)
  have d: "(case db_sqlite_sequence sample_health_db of None \<Rightarrow> 0 | Some n \<Rightarrow> n) = 1"
    by (simp add: sample_health_db_def)
  have e: "(if rp_evidence sample_health_replay = [] then 0 else sv_sequence (last (rp_evidence sample_health_replay))) = 1"
    by (simp add: sample_health_replay_def)
  have f: "verify_order_projection (db_orders sample_health_db) (lg_orders (rp_ledger sample_health_replay)) = Inr ()"
    by (simp add: sample_health_db_def sample_health_replay_def sample_empty_db_def initial_ledger_def verify_order_projection_def)
  have g: "sort_key sn_sequence (db_snapshots sample_health_db) = db_snapshots sample_health_db"
    by (simp add: sample_health_db_def sample_empty_db_def sample_db_def sample_snapshot_values_def sample_timestamps_def)
  have h: "map sn_sequence (db_snapshots sample_health_db) = map int [0..<length (rp_mappings sample_health_replay)]"
    by (simp add: sample_health_db_def sample_empty_db_def sample_db_def sample_snapshot_values_def sample_timestamps_def
        sample_health_replay_def upt_rec)
  show "replay_and_verify sample_sha sample_health_db = Inr (sample_state sample_health_replay 1)"
    "rebuild_from_events sample_sha sample_health_db = Inr (sample_health_replay, sample_state sample_health_replay 1)"
    by (rule verified_by_parts [OF a b c d e f g h sample_health_snapshots])+
qed

lemma sample_health_normalized:
  "normalize_event \<lparr> ea_event_id = ''health:1'', ea_event_type = ''HEALTH_STATE'', ea_occurred_at = TsDatetime (utc 0),
      ea_payload = JObj (to_storage_mapping (hm_snapshot sample_live)) \<rparr>
    = Inr \<lparr> en_event_id = ''health:1'', en_event_type = ''HEALTH_STATE'', en_text = ''1970-01-01T00:00:00Z'', en_at = 0,
        en_payload = Compact (JObj sample_health_payload) \<rparr>"
proof -
  have v: "nonempty_text ''health:1'' ''event id must be non-empty'' = Inr ''health:1''"
    "nonempty_text ''HEALTH_STATE'' ''event type must be non-empty'' = Inr ''HEALTH_STATE''"
    "canonical_timestamp (TsDatetime (utc 0)) = Inr (''1970-01-01T00:00:00Z'', 0)"
    "validate_known_state_payload ''HEALTH_STATE'' (to_storage_mapping (hm_snapshot sample_live)) False = Inr ()"
    "validate_known_state_payload ''HEALTH_STATE''
      (map (\<lambda>kv. (fst kv, thaw (snd kv))) (to_storage_mapping (hm_snapshot sample_live))) False = Inr ()"
    by code_simp+
  show ?thesis
    using canonical_storage [OF sample_health_wf] v by (simp add: normalize_event_def sample_live_payload)
qed

lemma sample_health_append:
  "append_event_body sample_sha \<lparr> en_event_id = ''health:1'', en_event_type = ''HEALTH_STATE'',
      en_text = ''1970-01-01T00:00:00Z'', en_at = 0, en_payload = Compact (JObj sample_health_payload) \<rparr> s sample_empty_db
    = Inr (sample_health_db, 1)"
proof -
  let ?d = "sample_health_db\<lparr> db_snapshots := db_snapshots sample_empty_db \<rparr>"
  have r: "refresh_snapshot sample_sha ''1970-01-01T00:00:00Z'' ?d = Inr sample_health_db"
    by (rule sample_refresh [OF _ sample_health_verified(2) sample_health_texts])
      (simp_all add: sample_health_db_def sample_empty_db_def sample_db_def sample_snapshot_values_def
        sample_timestamps_def snapshot_from_components_def Let_def)
  then show ?thesis
    by (simp add: append_event_body_def sample_health_db_def sample_empty_db_def sample_db_def
        validate_timestamp_order_def insert_event_def next_sequence_def sample_health_row_def event_row_of_def)
qed

definition sample_empty_store :: store where
  "sample_empty_store = \<lparr> ss_db = sample_empty_db, ss_initialized = True, ss_closed = False, ss_read_only = False \<rparr>"

lemma sample_empty_loads: "\<exists>state. load_snapshot sample_sha sample_empty_store = Inr state \<and> pn_event_evidence state = []"
proof -
  obtain s where s: "replay_and_verify sample_sha sample_empty_db = Inr s"
    using created_verified(1) [OF sample_created] by (auto simp: is_ok_iff)
  then have "pn_event_evidence s = []"
    using replay_and_verify_Inr [OF s] created_verified(2) [OF sample_created]
    by (auto simp: snapshot_from_components_def Let_def replay_rows_def initial_replay_def)
  then show ?thesis
    using s by (simp add: load_snapshot_def sample_empty_store_def ensure_ready_def ensure_not_closed_def)
qed

lemma sample_health_persists:
  "persist sample_sha ''health:1'' (utc 0) sample_live sample_empty_store
    = (sample_empty_store\<lparr> ss_db := sample_health_db \<rparr>, persisted_monitor sample_live, Inr 1)"
proof -
  obtain state where state: "load_snapshot sample_sha sample_empty_store = Inr state" "pn_event_evidence state = []"
    using sample_empty_loads by blast
  have v: "is_ok (replay_and_verify sample_sha sample_empty_db)" by (rule created_verified(1) [OF sample_created])
  have "store_append_event sample_sha \<lparr> ea_event_id = ''health:1'', ea_event_type = ''HEALTH_STATE'',
      ea_occurred_at = TsDatetime (utc 0), ea_payload = JObj (to_storage_mapping (hm_snapshot sample_live)) \<rparr>
      sample_empty_store = (sample_empty_store\<lparr> ss_db := sample_health_db \<rparr>, Inr 1)"
    unfolding store_append_event_def with_args_transact_Inr
    using v sample_health_append sample_health_verified(1)
    by (auto simp: sample_health_normalized sample_empty_store_def mutation_Inr is_ok_iff)
  then show ?thesis
    by (simp add: persist_def utc_datetime_def state matching_events_def Let_def persisted_def persisted_monitor_def)
qed

theorem persist_then_recover_witness:
  "from_store sample_sha (sample_empty_store\<lparr> ss_db := sample_health_db \<rparr>) = Inr (persisted_monitor sample_live)"
proof -
  obtain state where state: "load_snapshot sample_sha sample_empty_store = Inr state" "pn_event_evidence state = []"
    using sample_empty_loads by blast
  have live: "sample_live = live_step (ApiFailure (utc 0)) (final_monitor [] fresh_monitor)"
    by (simp add: sample_live_def live_step_def)
  have "orderly (ApiFailure (utc 0)) (hm_snapshot fresh_monitor)"
    by (simp add: orderly_def in_dt_range_def dt_min_def dt_max_def fresh_monitor_def healthy_def timely_def)
  moreover have "reduced_ok (hm_snapshot sample_live)" "base_id_ok ''health:1'' sample_live" by code_simp+
  ultimately have r: "regular_life ([] @ [(ApiFailure (utc 0), ''health:1'', 0)]) fresh_monitor"
    by (simp add: sample_live_def live_step_def renews_anomaly_def untimed_fill_def)
  have h: "health_history (pn_event_evidence state) = health_events [] fresh_monitor"
    by (simp add: state(2) health_history_def)
  have i: "persistence_event_id ''health:1'' sample_live = Inr ''health:1''" by code_simp
  have "matching_events ''health:1'' state = []" by (simp add: matching_events_def state(2))
  moreover have "in_dt_range 0" by (simp add: in_dt_range_def dt_min_def dt_max_def)
  ultimately show ?thesis
    using persist_then_recover [OF state(1) h r live i _ _ sample_health_persists] by blast
qed

end
