(* ===== verification/PaperData.thy ===== *)
theory PaperData
  imports StoreOps PyEquality Sizer Strategy
begin

text \<open>
  The data of the paper broker, \<open>src/autobit/execution/paper_broker.py\<close>: its frozen
  dataclasses, the readers of arguments and of payload fields, the four-hour boundaries, the
  deterministic identities and the costs of a fill.

  A payload number is an int or a float; a decimal is \<open>Decimal(str(x))\<close>. Where an operation
  of \<open>decimal\<close> can meet an infinity, its outcome is written out.
\<close>

section \<open>Records\<close>

definition FOUR_HOURS :: timedelta where "FOUR_HOURS = hours 4"

definition ACTIVE :: "order_status list" where
  "ACTIVE = [CREATED, SUBMITTED, ACCEPTED, PARTIAL]"

record entry_context =
  ec_signal_price :: pyfloat
  ec_entry_atr :: pyfloat
  ec_initial_atr_mult :: pyfloat
  ec_baseline_atr_pct :: pyfloat
  ec_risk_rate :: pyfloat
  ec_exposure_cap :: pyfloat
  ec_risk_event_id :: string

record paper_order =
  po_order_id :: string
  po_idempotency_key :: string
  po_side :: string
  po_reason :: string
  po_signal_at_utc :: instant
  po_requested_quantity :: pyfloat
  po_filled_quantity :: pyfloat
  po_remainder_quantity :: pyfloat
  po_status :: order_status
  po_order_kind :: string
  po_parent_order_id :: "string option"
  po_eligible_open_utc :: instant
  po_fee_rate :: pyfloat
  po_slippage_rate :: pyfloat
  po_execution_context :: "entry_context option"

record paper_fill =
  pf_fill_id :: string
  pf_order_id :: string
  pf_side :: string
  pf_reason :: string
  pf_quantity :: pyfloat
  pf_reference_price :: pyfloat
  pf_fill_price :: pyfloat
  pf_fee :: pyfloat
  pf_slippage :: pyfloat
  pf_fill_time :: instant

record paper_stop =
  pp_stop_id :: string
  pp_stop_price :: pyfloat
  pp_reason :: string
  pp_observed_at_utc :: instant
  pp_active_after_utc :: instant
  pp_source_id :: string
  pp_fee_rate :: pyfloat
  pp_slippage_rate :: pyfloat

record paper_trade =
  pt_entry_time :: instant
  pt_exit_time :: instant
  pt_quantity :: pyfloat
  pt_entry_price :: pyfloat
  pt_exit_price :: pyfloat
  pt_gross_pnl :: pyfloat
  pt_net_pnl :: pyfloat
  pt_fees :: pyfloat
  pt_exit_reason :: string

record paper_reconciliation =
  pr_cash :: pyfloat
  pr_btc_quantity :: pyfloat
  pr_equity :: pyfloat
  pr_position_state :: position_state
  pr_active_orders :: "paper_order list"
  pr_fills :: "paper_fill list"
  pr_completed_trades :: "paper_trade list"
  pr_total_fees :: pyfloat
  pr_total_slippage :: pyfloat
  pr_active_stop :: "paper_stop option"

text \<open>\<open>_Ledger\<close>; its mappings by order id are lists in the order of insertion.\<close>

record paper_ledger =
  pl_snapshot :: paper_snapshot
  pl_orders :: "paper_order list"
  pl_active_orders :: "paper_order list"
  pl_fills :: "paper_fill list"
  pl_trades :: "paper_trade list"
  pl_active_stop :: "paper_stop option"
  pl_open_stops :: "paper_stop list"
  pl_total_fees :: pyfloat
  pl_total_slippage :: pyfloat
  pl_position_observations :: "(string \<times> stored_event) list"

abbreviation unreconciled :: "string \<Rightarrow> exn" where
  "unreconciled \<equiv> PaperReconciliationError"

section \<open>Arguments\<close>

definition paper_timestamp :: "timestamp \<Rightarrow> (string \<times> instant) res" where
  "paper_timestamp v =
     (let e = ValueError ''timestamp must be canonical aware UTC with Z'' in case v of
        TsText s \<Rightarrow> (case parse_z s of None \<Rightarrow> Inl e | Some t \<Rightarrow> if iso_z t = s then Inr (s, t) else Inl e)
      | TsDatetime (Naive _) \<Rightarrow> Inl e
      | TsDatetime (Aware l off) \<Rightarrow> if off \<noteq> 0 then Inl e else Inr (iso_z l, l))"

definition text_arg :: "string \<Rightarrow> string \<Rightarrow> string res" where
  "text_arg v label = (if v = [] then Inl (ValueError (label @ '' must be non-empty'')) else Inr v)"

definition reason_arg :: "string \<Rightarrow> string res" where
  "reason_arg v = ebind (text_arg v ''reason'') (\<lambda>r.
     if reason_pattern r then Inr r else Inl (ValueError ''reason must be an uppercase code''))"

definition number_arg :: "pyval \<Rightarrow> string \<Rightarrow> pyfloat res" where
  "number_arg v label = finite_number (is_bool v) (py_float v) (label @ '' must be finite'')"

definition positive_arg :: "pyval \<Rightarrow> string \<Rightarrow> pyfloat res" where
  "positive_arg v label = ebind (number_arg v label) (\<lambda>x.
     if x \<le> 0 then Inl (ValueError (label @ '' must be finite and positive'')) else Inr x)"

definition nonnegative_arg :: "pyval \<Rightarrow> string \<Rightarrow> pyfloat res" where
  "nonnegative_arg v label = ebind (number_arg v label) (\<lambda>x.
     if x < 0 then Inl (ValueError (label @ '' must be finite and non-negative'')) else Inr x)"

definition rate_arg :: "pyval \<Rightarrow> pyfloat res" where
  "rate_arg v = catch is_value_error (nonnegative_arg v ''fee and slippage rates'')
     (\<lambda>_. Inl (ValueError ''fee and slippage rates must be finite and non-negative''))"

section \<open>Evidence\<close>

definition payload_text :: "members \<Rightarrow> string \<Rightarrow> string res" where
  "payload_text p k = (case map_of p k of
     None \<Rightarrow> Inl (unreconciled (''paper evidence lacks '' @ k))
   | Some (JStr s) \<Rightarrow> if s = [] then Inl (unreconciled (''paper evidence has invalid '' @ k)) else Inr s
   | Some _ \<Rightarrow> Inl (unreconciled (''paper evidence has invalid '' @ k)))"

definition payload_number :: "members \<Rightarrow> string \<Rightarrow> pyfloat res" where
  "payload_number p k = (case map_of p k of
     None \<Rightarrow> Inl (unreconciled (''paper evidence lacks '' @ k))
   | Some (JInt n) \<Rightarrow> float_of_int n
   | Some (JFloat x) \<Rightarrow> if isfinite x then Inr x else Inl (unreconciled (''paper evidence has invalid '' @ k))
   | Some _ \<Rightarrow> Inl (unreconciled (''paper evidence has invalid '' @ k)))"

definition require_keys :: "members \<Rightarrow> string list \<Rightarrow> string \<Rightarrow> unit res" where
  "require_keys p ks label = ensure (keys_are p ks) (unreconciled (label @ '' fields are invalid''))"

definition evidence_timestamp :: "string \<Rightarrow> (string \<times> instant) res" where
  "evidence_timestamp v = catch is_value_error (paper_timestamp (TsText v))
     (\<lambda>_. Inl (unreconciled ''paper evidence timestamp is invalid''))"

text \<open>\<open>_decimal\<close> of a number of a fill, which the store admits as a number only.\<close>

definition json_decimal :: "json \<Rightarrow> decimal res" where
  "json_decimal v = (case v of JInt n \<Rightarrow> Inr (Dec (bnorm 10 n 0)) | JFloat x \<Rightarrow> Inr (dec_of_float x)
     | _ \<Rightarrow> Inl DecimalSignal)"

text \<open>\<open>_exact\<close>: equality as decimals; an infinity equals itself only.\<close>

definition exact :: "pyfloat \<Rightarrow> pyfloat \<Rightarrow> bool" where
  "exact x y = (if isfinite x \<and> isfinite y then deq (dec_of_float x) (dec_of_float y) else x = y \<and> x \<noteq> NaN)"

section \<open>Four-hour boundaries\<close>

definition is_boundary :: "instant \<Rightarrow> bool" where
  "is_boundary t \<longleftrightarrow> t mod FOUR_HOURS = 0"

definition require_boundary :: "instant \<Rightarrow> string \<Rightarrow> unit res" where
  "require_boundary t label = ensure (is_boundary t) (ValueError (label @ '' must be an exact four-hour UTC boundary''))"

definition next_boundary :: "instant \<Rightarrow> instant res" where
  "next_boundary t = ebind (require_boundary t ''timestamp'') (\<lambda>_. dt_add t FOUR_HOURS)"

section \<open>Costs\<close>

definition computed_fill_price :: "pyfloat \<Rightarrow> pyfloat \<Rightarrow> string \<Rightarrow> pyfloat" where
  "computed_fill_price reference rate side =
     (let r = dec_of_float rate; one = Dec (1, 0)
      in float_of_dec (dec_of_float reference * (if side = ''BUY'' then one + r else one - r)))"

text \<open>An infinite price makes the fee infinite, or undefined when the rate is zero.\<close>

definition computed_fee :: "pyfloat \<Rightarrow> pyfloat \<Rightarrow> pyfloat \<Rightarrow> pyfloat res" where
  "computed_fee quantity price rate =
     (if isfinite price then Inr (float_of_dec (dec_of_float quantity * dec_of_float price * dec_of_float rate))
      else if feq rate 0 then Inl DecimalSignal else Inr PInf)"

definition ddist :: "decimal \<Rightarrow> decimal \<Rightarrow> decimal" where
  "ddist x y = (let d = x - y in if d < 0 then 0 - d else d)"

definition computed_slippage :: "pyfloat \<Rightarrow> pyfloat \<Rightarrow> pyfloat \<Rightarrow> pyfloat" where
  "computed_slippage quantity price reference =
     (if isfinite price then float_of_dec (ddist (dec_of_float price) (dec_of_float reference) * dec_of_float quantity)
      else PInf)"

text \<open>\<open>quantity * price + fee > cash\<close> of decimals; an infinite fee exceeds all cash.\<close>

definition exceeds_cash :: "pyfloat \<Rightarrow> pyfloat \<Rightarrow> pyfloat \<Rightarrow> pyfloat \<Rightarrow> bool" where
  "exceeds_cash quantity price fee cash \<longleftrightarrow> \<not> isfinite fee
     \<or> dec_of_float cash < dec_of_float quantity * dec_of_float price + dec_of_float fee"

section \<open>Identities\<close>

definition order_key :: "string \<Rightarrow> string \<Rightarrow> string \<Rightarrow> string option \<Rightarrow> string" where
  "order_key signal side reason parent =
     MARKET @ '':'' @ signal @ '':'' @ side @ '':'' @ reason @ '':''
       @ (case parent of None \<Rightarrow> ''ROOT'' | Some p \<Rightarrow> if p = [] then ''ROOT'' else p)"

definition order_identity :: "sha256 \<Rightarrow> string \<Rightarrow> string \<Rightarrow> string \<Rightarrow> string option \<Rightarrow> string \<times> string" where
  "order_identity H signal side reason parent =
     (let key = order_key signal side reason parent in (key, ''paper-order:'' @ sha_text H key))"

definition order_meta_id :: "sha256 \<Rightarrow> string \<Rightarrow> string" where
  "order_meta_id H order_id = ''paper-order-meta:'' @ sha_text H order_id"

definition fill_meta_id :: "sha256 \<Rightarrow> string \<Rightarrow> string" where
  "fill_meta_id H fill_id = ''paper-fill-meta:'' @ sha_text H fill_id"

definition entry_context_id :: "sha256 \<Rightarrow> string \<Rightarrow> string" where
  "entry_context_id H order_id = ''paper-entry-context:'' @ sha_text H order_id"

definition execution_id :: "sha256 \<Rightarrow> string \<Rightarrow> string" where
  "execution_id H order_id = ''paper-execution:'' @ sha_text H order_id"

definition position_observation_id :: "sha256 \<Rightarrow> string \<Rightarrow> instant \<Rightarrow> string" where
  "position_observation_id H order_id t = ''paper-position:'' @ sha_text H (order_id @ ''|'' @ iso_z t)"

text \<open>The identity of a stop and of the event that sets it.\<close>

definition stop_identity :: "sha256 \<Rightarrow> string \<Rightarrow> string \<Rightarrow> string \<Rightarrow> string" where
  "stop_identity H source_id observed reason =
     ''paper-stop:'' @ sha_text H (MARKET @ ''|'' @ source_id @ ''|'' @ observed @ ''|'' @ reason)"

definition stop_set_id :: "sha256 \<Rightarrow> string \<Rightarrow> string" where
  "stop_set_id H stop_id = ''paper-stop-set:'' @ sha_text H stop_id"

definition lower_char :: "char \<Rightarrow> char" where
  "lower_char c = (let n = code c in if 65 \<le> n \<and> n \<le> 90 then char_of (n + 32) else c)"

definition lower :: "string \<Rightarrow> string" where
  "lower s = map lower_char s"

definition stop_terminal_id :: "sha256 \<Rightarrow> string \<Rightarrow> string \<Rightarrow> string \<Rightarrow> string" where
  "stop_terminal_id H action stop_id identity =
     ''paper-stop-'' @ lower action @ '':'' @ sha_text H (stop_id @ ''|'' @ identity)"

text \<open>
  \<open>repr\<close> of a positive finite float: the shortest digits, positional when the decimal point
  lies from 4 places before them to 16 places into them, else with an exponent.
\<close>

definition show_exponent :: "int \<Rightarrow> string" where
  "show_exponent e = (if e < 0 then ''-'' else ''+'') @ (if \<bar>e\<bar> < 10 then ''0'' else []) @ show_int \<bar>e\<bar>"

definition show_float :: "pyfloat \<Rightarrow> string" where
  "show_float x = (case dec_of_float x of Dec (m, e) \<Rightarrow>
     if m = 0 then ''0.0'' else
     let sign = (if m < 0 then ''-'' else []); ds = show_int \<bar>m\<bar>; n = int (length ds); point = n + e in
     sign @ (if - 4 < point \<and> point \<le> 16 then
         (if point \<le> 0 then ''0.'' @ replicate (nat (- point)) (CHR ''0'') @ ds
          else if n \<le> point then ds @ replicate (nat (point - n)) (CHR ''0'') @ ''.0''
          else take (nat point) ds @ ''.'' @ drop (nat point) ds)
       else hd ds # (if n = 1 then [] else ''.'' @ tl ds) @ ''e'' @ show_exponent (point - 1)))"

definition fill_identity :: "sha256 \<Rightarrow> string \<Rightarrow> string \<Rightarrow> pyfloat \<Rightarrow> string" where
  "fill_identity H order_id candle quantity =
     ''paper-fill:'' @ sha_text H (order_id @ ''|'' @ candle @ ''|'' @ show_float quantity)"

text \<open>The entry of an ordered mapping.\<close>

definition find_paper :: "string \<Rightarrow> paper_order list \<Rightarrow> paper_order option" where
  "find_paper order_id orders = List.find (\<lambda>x. po_order_id x = order_id) orders"

definition is_paper_order :: "string option \<Rightarrow> bool" where
  "is_paper_order parent = (case parent of None \<Rightarrow> False | Some p \<Rightarrow> starts_with ''paper-order:'' p)"

end
