(* ===== verification/PaperEvidence.thy ===== *)
theory PaperEvidence
  imports PaperData
begin

text \<open>
  The readers of the evidence of the paper broker, \<open>src/autobit/execution/paper_broker.py\<close>:
  an order from its creation, statuses, fill and metadata; a fill from its metadata; stops and
  their terminal events; the trades of a list of fills; the size that a fill at the open may
  have. Every reader raises \<open>PaperReconciliationError\<close> on evidence that contradicts itself.
\<close>

section \<open>Entry contexts and the execution cap\<close>

definition CONTEXT_KEYS :: "string list" where
  "CONTEXT_KEYS = [''signal_price'', ''entry_atr'', ''initial_atr_mult'', ''baseline_atr_pct'', ''risk_rate'',
     ''exposure_cap'', ''risk_event_id'']"

text \<open>\<open>_entry_context\<close>. The source reads the numbers in the order of a set; here it is fixed.\<close>

definition parse_entry_context :: "json option \<Rightarrow> entry_context res" where
  "parse_entry_context v = (case v of
     Some (JObj p) \<Rightarrow>
       ebind (ensure (keys_are p CONTEXT_KEYS) (unreconciled ''entry context schema is invalid'')) (\<lambda>_.
       ebind (payload_number p ''signal_price'') (\<lambda>price.
       ebind (payload_number p ''entry_atr'') (\<lambda>atr.
       ebind (payload_number p ''initial_atr_mult'') (\<lambda>mult.
       ebind (payload_number p ''baseline_atr_pct'') (\<lambda>baseline.
       ebind (payload_number p ''risk_rate'') (\<lambda>rate.
       ebind (payload_number p ''exposure_cap'') (\<lambda>cap.
       ebind (ensure (\<not> list_ex (\<lambda>x. x \<le> 0) [price, atr, mult, baseline, rate, cap])
         (unreconciled ''entry context values must be positive'')) (\<lambda>_.
       ebind (ensure (\<not> (flit 2 100 < rate \<or> flit 70 100 < cap))
         (unreconciled ''entry context exceeds approved risk limits'')) (\<lambda>_.
       ebind (payload_text p ''risk_event_id'') (\<lambda>risk.
       Inr \<lparr> ec_signal_price = price, ec_entry_atr = atr, ec_initial_atr_mult = mult,
             ec_baseline_atr_pct = baseline, ec_risk_rate = rate, ec_exposure_cap = cap,
             ec_risk_event_id = risk \<rparr>))))))))))
   | _ \<Rightarrow> Inl (unreconciled ''entry context schema is invalid''))"

definition same_context :: "entry_context \<Rightarrow> entry_context \<Rightarrow> bool" where
  "same_context a b \<longleftrightarrow> feq (ec_signal_price a) (ec_signal_price b) \<and> feq (ec_entry_atr a) (ec_entry_atr b)
     \<and> feq (ec_initial_atr_mult a) (ec_initial_atr_mult b) \<and> feq (ec_baseline_atr_pct a) (ec_baseline_atr_pct b)
     \<and> feq (ec_risk_rate a) (ec_risk_rate b) \<and> feq (ec_exposure_cap a) (ec_exposure_cap b)
     \<and> ec_risk_event_id a = ec_risk_event_id b"

text \<open>
  \<open>math.nextafter(x, 0.0)\<close>, on the 53-bit significand and the exponent of a positive float:
  one unit less, or the largest significand of the next binade below.
\<close>

definition significand :: "pyfloat \<Rightarrow> int \<times> int" where
  "significand x = (case x of
     Fin (n, e) \<Rightarrow> (let q = max (blen 2 n + e - 53) (- 1074) in (n * ipow 2 (e - q), q))
   | _ \<Rightarrow> (0, 0))"

definition float_at :: "int \<Rightarrow> int \<Rightarrow> pyfloat" where
  "float_at k q = Fin (bnorm 2 k q)"

text \<open>\<open>while result > 0 and too_much(result): result = nextafter(result, 0)\<close>.\<close>

function shrink :: "(pyfloat \<Rightarrow> bool) \<Rightarrow> int \<Rightarrow> int \<Rightarrow> pyfloat" where
  "shrink too_much k q =
     (if 0 < k \<and> too_much (float_at k q)
      then if k = 4503599627370496 \<and> - 1074 < q then shrink too_much 9007199254740991 (q - 1)
           else shrink too_much (k - 1) q
      else float_at k q)"
  by pat_completeness auto
termination
  by (relation "measures [\<lambda>(_, k, q). nat (q + 1074), \<lambda>(_, k, q). nat k]") auto

declare shrink.simps [simp del]

definition context_size :: "entry_context \<Rightarrow> pyfloat \<Rightarrow> pyfloat \<Rightarrow> cost_config \<Rightarrow> size_decision res" where
  "context_size c entry cash costs =
     ebind (initial_stop_price (VFloat entry) (VFloat (ec_entry_atr c)) (VFloat (ec_initial_atr_mult c))) (\<lambda>stop.
     ebind (py_div (ec_entry_atr c) entry) (\<lambda>atr_pct.
     calculate_size \<lparr> si_equity = VFloat cash, si_cash = VFloat cash, si_entry = VFloat entry, si_stop = VFloat stop,
       si_current_atr_pct = VFloat atr_pct, si_baseline_atr_pct = VFloat (ec_baseline_atr_pct c),
       si_risk_rate = VFloat (ec_risk_rate c), si_exposure_cap = VFloat (ec_exposure_cap c), si_costs = costs \<rparr>))"

definition too_expensive :: "pyfloat \<Rightarrow> pyfloat \<Rightarrow> pyfloat \<Rightarrow> pyfloat \<Rightarrow> bool" where
  "too_expensive price rate cash quantity =
     (case computed_fee quantity price rate of Inl _ \<Rightarrow> True | Inr fee \<Rightarrow> exceeds_cash quantity price fee cash)"

text \<open>
  \<open>_execution_quantity\<close> of a bound order. A size above zero has a finite price, whose fee is
  defined, so that the loop meets no exception.
\<close>

definition execution_quantity :: "entry_context \<Rightarrow> pyfloat \<Rightarrow> pyfloat \<Rightarrow> pyfloat \<Rightarrow> pyfloat res" where
  "execution_quantity c rate price cash =
     ebind (context_size c price cash \<lparr> fee_rate = rate, slippage_rate = 0 \<rparr>) (\<lambda>d.
     let quantity = sd_quantity d; (k, q) = significand quantity
     in Inr (if 0 < quantity then shrink (too_expensive price rate cash) k q else quantity))"

section \<open>Statuses\<close>

definition reason_json :: "string option \<Rightarrow> json" where
  "reason_json r = (case r of None \<Rightarrow> JNull | Some s \<Rightarrow> JStr s)"

definition validate_status_identity :: "sha256 \<Rightarrow> stored_event \<Rightarrow> string \<Rightarrow> string \<Rightarrow> string option \<Rightarrow> unit res" where
  "validate_status_identity H e own_key expected_key reason =
     ebind (payload_text (sv_payload e) ''idempotency_key'') (\<lambda>key.
     ebind (ensure (key = expected_key) (unreconciled ''paper status idempotency key is invalid'')) (\<lambda>_.
     ebind (ensure (sv_event_id e = status_event_id H key \<and> starts_with (own_key @ '':'') key)
       (unreconciled ''paper status event id is invalid'')) (\<lambda>_.
     ensure (field (sv_payload e) ''reason'' = reason_json reason) (unreconciled ''paper status reason is invalid''))))"

definition status_of_event :: "string \<Rightarrow> stored_event \<Rightarrow> order_status res" where
  "status_of_event order_id e =
     ebind (require_keys (sv_payload e) [''idempotency_key'', ''order_id'', ''reason'', ''status''] ''paper order status'') (\<lambda>_.
     ebind (payload_text (sv_payload e) ''order_id'') (\<lambda>oid.
     ebind (ensure (oid = order_id) (unreconciled ''paper status changes order identity'')) (\<lambda>_.
     ebind (payload_text (sv_payload e) ''status'') (\<lambda>s. case map_of STATUS_NAMES s of
       None \<Rightarrow> Inl (unreconciled ''paper order status is invalid'') | Some st \<Rightarrow> Inr st))))"

section \<open>Orders\<close>

text \<open>The metadata of an order, before the lifecycle is looked at.\<close>

record order_meta =
  om_key :: string
  om_side :: string
  om_reason :: string
  om_requested :: pyfloat
  om_fee_rate :: pyfloat
  om_slippage_rate :: pyfloat
  om_parent :: "string option"
  om_signal_text :: string
  om_signal_time :: instant
  om_eligible_text :: string
  om_eligible_time :: instant
  om_kind :: string

definition ORDER_META_KEYS :: "string list" where
  "ORDER_META_KEYS = [''eligible_open_utc'', ''fee_rate'', ''idempotency_key'', ''order_id'', ''order_kind'',
     ''parent_order_id'', ''reason'', ''requested_quantity'', ''side'', ''signal_at_utc'', ''slippage_rate'']"

definition parent_value :: "json \<Rightarrow> string option res" where
  "parent_value v = (case v of JNull \<Rightarrow> Inr None
     | JStr s \<Rightarrow> if s = [] then Inl (unreconciled ''paper order parent is invalid'') else Inr (Some s)
     | _ \<Rightarrow> Inl (unreconciled ''paper order parent is invalid''))"

definition boundary_evidence :: "instant \<Rightarrow> string \<Rightarrow> unit res" where
  "boundary_evidence t label = catch is_value_error (require_boundary t label)
     (\<lambda>_. Inl (unreconciled (label @ '' must be an exact four-hour UTC boundary'')))"

definition read_order_meta :: "sha256 \<Rightarrow> string \<Rightarrow> stored_event \<Rightarrow> order_meta res" where
  "read_order_meta H order_id e =
     (let m = sv_payload e in
      ebind (require_keys m ORDER_META_KEYS ''paper order metadata'') (\<lambda>_.
      ebind (ensure (sv_event_id e = order_meta_id H order_id)
        (unreconciled ''paper order metadata id is not deterministic'')) (\<lambda>_.
      ebind (payload_text m ''order_id'') (\<lambda>oid.
      ebind (ensure (oid = order_id) (unreconciled ''paper order metadata changes order identity'')) (\<lambda>_.
      ebind (payload_text m ''idempotency_key'') (\<lambda>key.
      ebind (payload_text m ''side'') (\<lambda>side.
      ebind (ensure (side = ''BUY'' \<or> side = ''SELL'') (unreconciled ''paper order side is invalid'')) (\<lambda>_.
      ebind (payload_text m ''reason'') (\<lambda>reason.
      ebind (ensure (reason_pattern reason) (unreconciled ''paper order reason is invalid'')) (\<lambda>_.
      ebind (payload_number m ''requested_quantity'') (\<lambda>requested.
      ebind (ensure (\<not> requested \<le> 0) (unreconciled ''paper order quantity is invalid'')) (\<lambda>_.
      ebind (payload_number m ''fee_rate'') (\<lambda>fee.
      ebind (payload_number m ''slippage_rate'') (\<lambda>slippage.
      ebind (ensure (\<not> (fee < 0 \<or> slippage < 0)) (unreconciled ''paper order cost binding is invalid'')) (\<lambda>_.
      ebind (parent_value (field m ''parent_order_id'')) (\<lambda>parent.
      ebind (ebind (payload_text m ''signal_at_utc'') evidence_timestamp) (\<lambda>(signal_text, signal_time).
      ebind (ebind (payload_text m ''eligible_open_utc'') evidence_timestamp) (\<lambda>(eligible_text, eligible_time).
      ebind (payload_text m ''order_kind'') (\<lambda>kind.
      ebind (ensure (kind = ''MARKET'' \<or> kind = ''STOP'') (unreconciled ''paper order kind is invalid'')) (\<lambda>_.
      Inr \<lparr> om_key = key, om_side = side, om_reason = reason, om_requested = requested, om_fee_rate = fee,
            om_slippage_rate = slippage, om_parent = parent, om_signal_text = signal_text,
            om_signal_time = signal_time, om_eligible_text = eligible_text, om_eligible_time = eligible_time,
            om_kind = kind \<rparr>))))))))))))))))))))"

text \<open>When an order may be filled: a market order at the next open, a stop at its trigger.\<close>

definition check_order_times :: "order_meta \<Rightarrow> instant \<Rightarrow> unit res" where
  "check_order_times m created_at =
     ebind (boundary_evidence (om_signal_time m) ''paper order signal'') (\<lambda>_.
     ebind (boundary_evidence (om_eligible_time m) ''paper order eligible open'') (\<lambda>_.
     if om_kind m = ''MARKET'' then
       ebind (next_boundary (om_signal_time m)) (\<lambda>next.
       ebind (ensure (om_eligible_time m = next) (unreconciled ''market order eligible open is not immediate'')) (\<lambda>_.
       ensure (created_at = om_signal_time m) (unreconciled ''market order creation time is not signal time'')))
     else
       ebind (ensure (om_side m = ''SELL'' \<and> (case om_parent m of None \<Rightarrow> False | Some p \<Rightarrow> starts_with ''paper-stop:'' p))
         (unreconciled ''stop order identity is invalid'')) (\<lambda>_.
       ebind (ensure (\<not> om_eligible_time m < om_signal_time m)
         (unreconciled ''stop order fill predates its observation'')) (\<lambda>_.
       ensure (created_at = om_eligible_time m) (unreconciled ''stop order creation is not trigger time'')))))"

text \<open>A chain of comparisons, each of which reads a field first; the first that fails ends it.\<close>

definition same_text :: "members \<Rightarrow> string \<Rightarrow> string \<Rightarrow> exn \<Rightarrow> unit res" where
  "same_text p k v e = ebind (payload_text p k) (\<lambda>x. ensure (x = v) e)"

definition same_number :: "members \<Rightarrow> string \<Rightarrow> pyfloat \<Rightarrow> exn \<Rightarrow> unit res" where
  "same_number p k v e = ebind (payload_number p k) (\<lambda>x. ensure (exact x v) e)"

definition CREATION_KEYS :: "string list" where
  "CREATION_KEYS = [''filled_quantity'', ''idempotency_key'', ''order_id'', ''requested_quantity'', ''side'', ''status'']"

definition check_creation :: "order_meta \<Rightarrow> string \<Rightarrow> stored_event \<Rightarrow> unit res" where
  "check_creation m order_id creation =
     (let p = sv_payload creation; differs = unreconciled ''paper order creation contradicts metadata'' in
      ebind (require_keys p CREATION_KEYS ''paper order creation'') (\<lambda>_.
      ebind (same_text p ''idempotency_key'' (om_key m) differs) (\<lambda>_.
      ebind (same_text p ''order_id'' order_id differs) (\<lambda>_.
      ebind (same_text p ''side'' (om_side m) differs) (\<lambda>_.
      ebind (same_text p ''status'' (status_value CREATED) differs) (\<lambda>_.
      ebind (same_number p ''requested_quantity'' (om_requested m) differs) (\<lambda>_.
      same_number p ''filled_quantity'' 0 differs)))))))"

definition fill_meta_of :: "(string \<times> stored_event) list \<Rightarrow> stored_event \<Rightarrow> stored_event option" where
  "fill_meta_of fill_metadata raw = map_of fill_metadata (sv_event_id raw)"

text \<open>The quantity filled so far by the only fill, within the window and the size of the order.\<close>

definition accumulated_quantity :: "order_meta \<Rightarrow> stored_event list \<Rightarrow> pyfloat res" where
  "accumulated_quantity m raw_fills = (case raw_fills of
     [] \<Rightarrow> Inr 0
   | [raw] \<Rightarrow>
       ebind (ensure (\<not> (sv_occurred_at_utc raw < om_signal_time m
           \<or> om_kind m = ''MARKET'' \<and> sv_occurred_at_utc raw = om_signal_time m))
         (unreconciled ''paper fill is not strictly after its signal'')) (\<lambda>_.
       ebind (ensure (sv_occurred_at_utc raw = om_eligible_time m)
         (unreconciled ''paper fill is outside its eligible open'')) (\<lambda>_.
       ebind (payload_number (sv_payload raw) ''quantity'') (\<lambda>quantity.
       ebind (ensure (\<not> dec_of_float (om_requested m) < dec_of_float quantity)
         (unreconciled ''paper fill exceeds requested quantity'')) (\<lambda>_. Inr quantity))))
   | _ \<Rightarrow> Inl (unreconciled ''paper order has more than one fill''))"

text \<open>The first two statuses: SUBMITTED and ACCEPTED, at the creation.\<close>

definition check_acceptance ::
  "sha256 \<Rightarrow> order_meta \<Rightarrow> stored_event \<Rightarrow> stored_event \<Rightarrow> stored_event list \<Rightarrow> order_status list \<Rightarrow> unit res" where
  "check_acceptance H m creation meta statuses values =
     (case (statuses, values) of
        (e1 # e2 # _, SUBMITTED # ACCEPTED # _) \<Rightarrow>
          ebind (ensure (sv_occurred_at_utc e1 = sv_occurred_at_utc creation)
            (unreconciled ''paper order acceptance time is not causal'')) (\<lambda>_.
          ebind (validate_status_identity H e1 (om_key m) (om_key m @ '':submitted'') None) (\<lambda>_.
          ebind (ensure (sv_occurred_at_utc e2 = sv_occurred_at_utc creation)
            (unreconciled ''paper order acceptance time is not causal'')) (\<lambda>_.
          ebind (validate_status_identity H e2 (om_key m) (om_key m @ '':accepted'') None) (\<lambda>_.
          ensure (sv_sequence creation < sv_sequence e1 \<and> sv_sequence e1 < sv_sequence e2 \<and> sv_sequence e2 < sv_sequence meta)
            (unreconciled ''paper order evidence sequence is not causal'')))))
      | _ \<Rightarrow> Inl (unreconciled ''paper order lifecycle must begin CREATED, SUBMITTED, ACCEPTED''))"

definition check_no_fill_end :: "order_meta \<Rightarrow> stored_event \<Rightarrow> stored_event \<Rightarrow> unit res" where
  "check_no_fill_end m meta e = ensure (sv_occurred_at_utc e = om_eligible_time m \<and> sv_sequence meta < sv_sequence e)
     (unreconciled ''paper terminal no-fill time is not causal'')"

definition no_fill_status ::
  "sha256 \<Rightarrow> order_meta \<Rightarrow> stored_event \<Rightarrow> bool \<Rightarrow> stored_event list \<Rightarrow> order_status list \<Rightarrow> order_status res" where
  "no_fill_status H m meta bound statuses values =
     (case (drop 2 statuses, drop 2 values) of
        ([], _) \<Rightarrow> Inr ACCEPTED
      | ([e], [INSUFFICIENT_CASH]) \<Rightarrow>
          ebind (validate_status_identity H e (om_key m) (om_key m @ '':insufficient:'' @ om_eligible_text m)
            (Some ''INSUFFICIENT_CASH'')) (\<lambda>_.
          ebind (check_no_fill_end m meta e) (\<lambda>_. Inr INSUFFICIENT_CASH))
      | ([e], [REJECTED]) \<Rightarrow>
          ebind (ensure bound (unreconciled ''paper no-fill lifecycle is invalid'')) (\<lambda>_.
          ebind (validate_status_identity H e (om_key m) (om_key m @ '':execution-cap:'' @ om_eligible_text m)
            (Some ''EXECUTION_CAP'')) (\<lambda>_.
          ebind (check_no_fill_end m meta e) (\<lambda>_. Inr REJECTED)))
      | _ \<Rightarrow> Inl (unreconciled ''paper no-fill lifecycle is invalid''))"

definition filled_status ::
  "sha256 \<Rightarrow> order_meta \<Rightarrow> stored_event \<Rightarrow> stored_event \<Rightarrow> stored_event option \<Rightarrow> stored_event list \<Rightarrow> order_status list
     \<Rightarrow> order_status res" where
  "filled_status H m meta raw meta_fill statuses values =
     (case (drop 2 statuses, drop 2 values) of
        ([e], [COMPLETED]) \<Rightarrow>
          ebind (validate_status_identity H e (om_key m) (om_key m @ '':completed:'' @ om_eligible_text m)
            (Some (om_reason m))) (\<lambda>_.
          ebind (ensure (case meta_fill of None \<Rightarrow> False | Some f \<Rightarrow> sv_sequence meta < sv_sequence raw
              \<and> sv_sequence raw < sv_sequence e \<and> sv_sequence e < sv_sequence f)
            (unreconciled ''completed paper fill sequence is not causal'')) (\<lambda>_.
          ebind (ensure (sv_occurred_at_utc e = om_eligible_time m)
            (unreconciled ''completed paper fill status time is invalid'')) (\<lambda>_. Inr COMPLETED)))
      | _ \<Rightarrow> Inl (unreconciled ''completed paper fill lacks exact lifecycle''))"

definition partial_status ::
  "sha256 \<Rightarrow> order_meta \<Rightarrow> stored_event \<Rightarrow> stored_event \<Rightarrow> stored_event option \<Rightarrow> bool \<Rightarrow> stored_event list
     \<Rightarrow> order_status list \<Rightarrow> order_status res" where
  "partial_status H m meta raw meta_fill bound statuses values =
     (case (drop 2 statuses, drop 2 values) of
        ([e, c], [PARTIAL, CANCELED]) \<Rightarrow>
          ebind (validate_status_identity H e (om_key m) (om_key m @ '':partial:'' @ om_eligible_text m)
            (Some (om_reason m))) (\<lambda>_.
          ebind (validate_status_identity H c (om_key m) (om_key m @ '':cancel-remainder:'' @ om_eligible_text m)
            (Some (if bound \<and> field (sv_payload c) ''reason'' = JStr ''EXECUTION_CAP''
               then ''EXECUTION_CAP'' else ''PARTIAL_REMAINDER''))) (\<lambda>_.
          ebind (ensure (case meta_fill of None \<Rightarrow> False | Some f \<Rightarrow> sv_sequence meta < sv_sequence raw
              \<and> sv_sequence raw < sv_sequence e \<and> sv_sequence e < sv_sequence f \<and> sv_sequence f < sv_sequence c)
            (unreconciled ''partial paper fill sequence is not causal'')) (\<lambda>_.
          ebind (ensure (sv_occurred_at_utc e = om_eligible_time m \<and> sv_occurred_at_utc c = om_eligible_time m)
            (unreconciled ''partial paper fill status time is invalid'')) (\<lambda>_. Inr CANCELED))))
      | _ \<Rightarrow> Inl (unreconciled ''partial paper fill lacks exact lifecycle''))"

text \<open>\<open>_paper_order_from_evidence\<close>.\<close>

definition paper_order_from_evidence ::
  "sha256 \<Rightarrow> string \<Rightarrow> stored_event \<Rightarrow> stored_event list \<Rightarrow> stored_event list \<Rightarrow> stored_event
     \<Rightarrow> (string \<times> stored_event) list \<Rightarrow> entry_context option \<Rightarrow> paper_order res" where
  "paper_order_from_evidence H order_id creation statuses raw_fills meta fill_metadata context =
     ebind (read_order_meta H order_id meta) (\<lambda>m.
     ebind (check_order_times m (sv_occurred_at_utc creation)) (\<lambda>_.
     ebind (ensure (order_identity H (om_signal_text m) (om_side m) (om_reason m) (om_parent m) = (om_key m, order_id))
       (unreconciled ''paper order identity is not deterministic'')) (\<lambda>_.
     ebind (check_creation m order_id creation) (\<lambda>_.
     ebind (ensure (sv_occurred_at_utc meta = sv_occurred_at_utc creation)
       (unreconciled ''paper order metadata time is not creation time'')) (\<lambda>_.
     ebind (accumulated_quantity m raw_fills) (\<lambda>accumulated.
     ebind (emap (status_of_event order_id) statuses) (\<lambda>values.
     ebind (check_acceptance H m creation meta statuses values) (\<lambda>_.
     ebind (case raw_fills of
         [] \<Rightarrow> no_fill_status H m meta (context \<noteq> None) statuses values
       | raw # _ \<Rightarrow> if exact accumulated (om_requested m)
           then filled_status H m meta raw (fill_meta_of fill_metadata raw) statuses values
           else partial_status H m meta raw (fill_meta_of fill_metadata raw) (context \<noteq> None) statuses values) (\<lambda>final.
     Inr \<lparr> po_order_id = order_id, po_idempotency_key = om_key m, po_side = om_side m, po_reason = om_reason m,
           po_signal_at_utc = om_signal_time m, po_requested_quantity = om_requested m,
           po_filled_quantity = accumulated,
           po_remainder_quantity = float_of_dec (dec_of_float (om_requested m) - dec_of_float accumulated),
           po_status = final, po_order_kind = om_kind m, po_parent_order_id = om_parent m,
           po_eligible_open_utc = om_eligible_time m, po_fee_rate = om_fee_rate m,
           po_slippage_rate = om_slippage_rate m, po_execution_context = context \<rparr>)))))))))"

section \<open>Fills\<close>

definition FILL_META_KEYS :: "string list" where
  "FILL_META_KEYS = [''fee'', ''fee_rate'', ''fill_id'', ''fill_price'', ''order_id'', ''quantity'', ''reason'',
     ''reference_price'', ''side'', ''slippage'', ''slippage_rate'']"

text \<open>The metadata names the fill and the order that it belongs to.\<close>

definition check_fill_binding :: "members \<Rightarrow> string \<Rightarrow> string \<Rightarrow> string \<Rightarrow> pyfloat \<Rightarrow> pyfloat \<Rightarrow> pyfloat \<Rightarrow> paper_order \<Rightarrow> unit res" where
  "check_fill_binding m fill_id order_id side quantity price fee x =
     (let differs = unreconciled ''paper fill metadata contradicts order or ledger'' in
      ebind (same_text m ''fill_id'' fill_id differs) (\<lambda>_.
      ebind (same_text m ''order_id'' order_id differs) (\<lambda>_.
      ebind (ensure (order_id = po_order_id x) differs) (\<lambda>_.
      ebind (same_text m ''side'' side differs) (\<lambda>_.
      ebind (ensure (side = po_side x) differs) (\<lambda>_.
      ebind (same_text m ''reason'' (po_reason x) differs) (\<lambda>_.
      ebind (same_number m ''quantity'' quantity differs) (\<lambda>_.
      ebind (same_number m ''fill_price'' price differs) (\<lambda>_.
      ebind (same_number m ''fee'' fee differs) (\<lambda>_.
      ebind (same_number m ''fee_rate'' (po_fee_rate x) differs) (\<lambda>_.
      same_number m ''slippage_rate'' (po_slippage_rate x) differs)))))))))))"

definition check_fill_costs :: "members \<Rightarrow> string \<Rightarrow> pyfloat \<Rightarrow> pyfloat \<Rightarrow> pyfloat \<Rightarrow> pyfloat \<Rightarrow> paper_order \<Rightarrow> pyfloat res" where
  "check_fill_costs m side quantity price fee reference x =
     (let costs = unreconciled ''paper fill costs are inconsistent'';
          expected_price = computed_fill_price reference (po_slippage_rate x) side;
          expected_slippage = computed_slippage quantity expected_price reference in
      ebind (computed_fee quantity expected_price (po_fee_rate x)) (\<lambda>expected_fee.
      ebind (ensure (exact price expected_price) costs) (\<lambda>_.
      ebind (ensure (exact fee expected_fee) costs) (\<lambda>_.
      ebind (same_number m ''slippage'' expected_slippage costs) (\<lambda>_. Inr expected_slippage)))))"

text \<open>\<open>_paper_fill_from_evidence\<close>.\<close>

definition paper_fill_from_evidence :: "sha256 \<Rightarrow> stored_event \<Rightarrow> stored_event \<Rightarrow> paper_order \<Rightarrow> paper_fill res" where
  "paper_fill_from_evidence H raw meta x =
     (let m = sv_payload meta; p = sv_payload raw in
      ebind (require_keys m FILL_META_KEYS ''paper fill metadata'') (\<lambda>_.
      ebind (ensure (sv_event_id meta = fill_meta_id H (sv_event_id raw))
        (unreconciled ''paper fill metadata id is not deterministic'')) (\<lambda>_.
      ebind (ensure (sv_occurred_at_utc meta = sv_occurred_at_utc raw)
        (unreconciled ''paper fill metadata time is inconsistent'')) (\<lambda>_.
      ebind (payload_number p ''quantity'') (\<lambda>quantity.
      ebind (payload_number p ''price'') (\<lambda>price.
      ebind (payload_number p ''fee'') (\<lambda>fee.
      ebind (payload_text p ''side'') (\<lambda>side.
      ebind (payload_text p ''order_id'') (\<lambda>order_id.
      ebind (ensure (sv_event_id raw = fill_identity H order_id (iso_z (sv_occurred_at_utc raw)) quantity)
        (unreconciled ''paper fill id is not deterministic'')) (\<lambda>_.
      ebind (check_fill_binding m (sv_event_id raw) order_id side quantity price fee x) (\<lambda>_.
      ebind (payload_number m ''reference_price'') (\<lambda>reference.
      ebind (check_fill_costs m side quantity price fee reference x) (\<lambda>slippage.
      Inr \<lparr> pf_fill_id = sv_event_id raw, pf_order_id = order_id, pf_side = side, pf_reason = po_reason x,
            pf_quantity = quantity, pf_reference_price = reference, pf_fill_price = price, pf_fee = fee,
            pf_slippage = slippage, pf_fill_time = sv_occurred_at_utc raw \<rparr>)))))))))))))"

section \<open>Trades\<close>

definition dsum :: "decimal list \<Rightarrow> decimal" where
  "dsum ds = foldl (+) 0 ds"

abbreviation fill_quantity :: "paper_fill \<Rightarrow> decimal" where
  "fill_quantity f \<equiv> dec_of_float (pf_quantity f)"

abbreviation fill_value :: "paper_fill \<Rightarrow> decimal" where
  "fill_value f \<equiv> dec_of_float (pf_quantity f) * dec_of_float (pf_fill_price f)"

text \<open>The trade of a round trip: its entry fills and its exit fills.\<close>

definition trade_of :: "paper_fill list \<Rightarrow> paper_fill list \<Rightarrow> paper_trade res" where
  "trade_of entries exits =
     (let entry_quantity = dsum (map fill_quantity entries); exit_quantity = dsum (map fill_quantity exits);
          entry_value = dsum (map fill_value entries); exit_value = dsum (map fill_value exits);
          fees = dsum (map (\<lambda>f. dec_of_float (pf_fee f)) (entries @ exits)); gross = exit_value - entry_value
      in ebind (ensure (deq entry_quantity exit_quantity)
           (unreconciled ''round-trip fill quantities do not reconcile'')) (\<lambda>_.
         Inr \<lparr> pt_entry_time = pf_fill_time (hd entries), pt_exit_time = pf_fill_time (last exits),
           pt_quantity = float_of_dec entry_quantity, pt_entry_price = float_of_dec (ddiv entry_value entry_quantity),
           pt_exit_price = float_of_dec (ddiv exit_value exit_quantity), pt_gross_pnl = float_of_dec gross,
           pt_net_pnl = float_of_dec (gross - fees), pt_fees = float_of_dec fees,
           pt_exit_reason = pf_reason (last exits) \<rparr>))"

record trade_loop =
  tl_entries :: "paper_fill list"
  tl_exits :: "paper_fill list"
  tl_position :: decimal
  tl_trades :: "paper_trade list"

definition trade_step :: "paper_fill \<Rightarrow> trade_loop \<Rightarrow> trade_loop res" where
  "trade_step f l =
     (if pf_side f = ''BUY'' then
        ebind (ensure (\<not> 0 < tl_position l) (unreconciled ''paper fills contain pyramiding'')) (\<lambda>_.
        Inr (l\<lparr> tl_entries := tl_entries l @ [f], tl_position := tl_position l + fill_quantity f \<rparr>))
      else
        ebind (ensure (\<not> (tl_position l \<le> 0 \<or> tl_position l < fill_quantity f))
          (unreconciled ''paper fills contain an unmatched sell'')) (\<lambda>_.
        let position = tl_position l - fill_quantity f; exits = tl_exits l @ [f]
        in if \<not> deq position 0 then Inr (l\<lparr> tl_exits := exits, tl_position := position \<rparr>)
           else ebind (trade_of (tl_entries l) exits) (\<lambda>t.
             Inr \<lparr> tl_entries = [], tl_exits = [], tl_position = 0, tl_trades = tl_trades l @ [t] \<rparr>)))"

definition completed_trades :: "paper_fill list \<Rightarrow> paper_trade list res" where
  "completed_trades fills =
     ebind (efold trade_step fills \<lparr> tl_entries = [], tl_exits = [], tl_position = 0, tl_trades = [] \<rparr>)
       (\<lambda>l. Inr (tl_trades l))"

section \<open>Stops\<close>

definition STOP_KEYS :: "string list" where
  "STOP_KEYS = [''action'', ''active_after_utc'', ''fee_rate'', ''reason'', ''slippage_rate'', ''source_id'', ''stop_id'', ''stop_price'']"

definition stop_from_event :: "sha256 \<Rightarrow> stored_event \<Rightarrow> paper_stop res" where
  "stop_from_event H e =
     (let p = sv_payload e; observed = sv_occurred_at_utc e in
      ebind (require_keys p STOP_KEYS ''paper stop metadata'') (\<lambda>_.
      ebind (same_text p ''action'' ''SET'' (unreconciled ''stop SET evidence is invalid'')) (\<lambda>_.
      ebind (payload_text p ''reason'') (\<lambda>reason.
      ebind (ensure (reason_pattern reason) (unreconciled ''paper stop reason is invalid'')) (\<lambda>_.
      ebind (payload_text p ''source_id'') (\<lambda>source.
      ebind (boundary_evidence observed ''stop observation'') (\<lambda>_.
      ebind (ebind (payload_text p ''active_after_utc'') evidence_timestamp) (\<lambda>(_, active_after).
      ebind (next_boundary observed) (\<lambda>next.
      ebind (ensure (active_after = observed \<or> active_after = next)
        (unreconciled ''stop active time is neither the fill boundary nor next four-hour boundary'')) (\<lambda>_.
      ebind (payload_text p ''stop_id'') (\<lambda>stop_id.
      ebind (ensure (stop_id = stop_identity H source (iso_z observed) reason \<and> sv_event_id e = stop_set_id H stop_id)
        (unreconciled ''paper stop identity is not deterministic'')) (\<lambda>_.
      ebind (payload_number p ''stop_price'') (\<lambda>price.
      ebind (payload_number p ''fee_rate'') (\<lambda>fee.
      ebind (payload_number p ''slippage_rate'') (\<lambda>slippage.
      ebind (ensure (\<not> price \<le> 0) (unreconciled ''paper stop price is invalid'')) (\<lambda>_.
      ebind (ensure (\<not> (fee < 0 \<or> slippage < 0)) (unreconciled ''paper stop cost binding is invalid'')) (\<lambda>_.
      Inr \<lparr> pp_stop_id = stop_id, pp_stop_price = price, pp_reason = reason, pp_observed_at_utc = observed,
            pp_active_after_utc = active_after, pp_source_id = source, pp_fee_rate = fee,
            pp_slippage_rate = slippage \<rparr>)))))))))))))))))"

definition validate_stop_terminal :: "sha256 \<Rightarrow> stored_event \<Rightarrow> paper_stop \<Rightarrow> unit res" where
  "validate_stop_terminal H e stop =
     (let p = sv_payload e in
      ebind (require_keys p [''action'', ''identity'', ''stop_id''] ''paper stop terminal metadata'') (\<lambda>_.
      ebind (payload_text p ''action'') (\<lambda>action.
      ebind (payload_text p ''identity'') (\<lambda>identity.
      ebind (same_text p ''stop_id'' (pp_stop_id stop) (unreconciled ''paper stop terminal changes stop identity'')) (\<lambda>_.
      ebind (ensure (sv_event_id e = stop_terminal_id H action (pp_stop_id stop) identity)
        (unreconciled ''paper stop terminal identity is not deterministic'')) (\<lambda>_.
      ebind (ensure (\<not> sv_occurred_at_utc e < pp_observed_at_utc stop)
        (unreconciled ''paper stop terminal time is not causal'')) (\<lambda>_.
      ensure (\<not> (action = ''TRIGGERED'' \<and> sv_occurred_at_utc e < pp_active_after_utc stop))
        (unreconciled ''paper stop triggered before it became active''))))))))"

section \<open>History before an event\<close>

text \<open>Cash and BTC after the fills before a sequence, as the checks of a bound entry count them.\<close>

definition before_sequence :: "int \<Rightarrow> stored_event list \<Rightarrow> stored_event list" where
  "before_sequence n evidence = filter (\<lambda>e. sv_event_type e = ''FILL'') (takeWhile (\<lambda>e. sv_sequence e < n) evidence)"

definition balance_step :: "stored_event \<Rightarrow> decimal \<times> decimal \<Rightarrow> (decimal \<times> decimal) res" where
  "balance_step raw s = (case s of (cash, btc) \<Rightarrow>
     let p = sv_payload raw in
     ebind (json_decimal (field p ''quantity'')) (\<lambda>q.
     ebind (json_decimal (field p ''price'')) (\<lambda>price.
     ebind (json_decimal (field p ''fee'')) (\<lambda>fee.
     if field p ''side'' = JStr ''BUY'' then Inr (cash - (q * price + fee), btc + q)
     else Inr (cash + (q * price - fee), btc - q)))))"

definition balances_before :: "int \<Rightarrow> stored_event list \<Rightarrow> (decimal \<times> decimal) res" where
  "balances_before n evidence = efold balance_step (before_sequence n evidence) (Dec (1, 2), 0)"

text \<open>\<open>_inventory_before_sequence\<close>.\<close>

definition inventory_step :: "stored_event \<Rightarrow> decimal \<Rightarrow> decimal res" where
  "inventory_step e inventory =
     ebind (payload_number (sv_payload e) ''quantity'') (\<lambda>x.
     ebind (payload_text (sv_payload e) ''side'') (\<lambda>side.
     ebind (if side = ''BUY'' then Inr (inventory + dec_of_float x)
        else if side = ''SELL'' then Inr (inventory - dec_of_float x)
        else Inl (unreconciled ''fill side is invalid'')) (\<lambda>y.
     ebind (ensure (\<not> y < 0) (unreconciled ''fill history has negative inventory'')) (\<lambda>_. Inr y))))"

definition inventory_before_sequence :: "int \<Rightarrow> stored_event list \<Rightarrow> decimal res" where
  "inventory_before_sequence n evidence = efold inventory_step (before_sequence n evidence) 0"

text \<open>\<open>_paper_source_at_sequence\<close>: the entry that is open before a sequence.\<close>

definition source_step :: "string \<Rightarrow> string \<Rightarrow> decimal \<Rightarrow> decimal \<times> string option \<Rightarrow> (decimal \<times> string option) res" where
  "source_step order_id side quantity s = (case s of (position, source) \<Rightarrow>
     if side = ''BUY'' then
       ebind (ensure (deq position 0) (unreconciled ''paper fills contain pyramiding'')) (\<lambda>_. Inr (quantity, Some order_id))
     else
       ebind (ensure (\<not> position < quantity) (unreconciled ''paper fills contain an unmatched sell'')) (\<lambda>_.
       let p = position - quantity in Inr (p, if deq p 0 then None else source)))"

definition source_event :: "paper_order list \<Rightarrow> stored_event \<Rightarrow> decimal \<times> string option \<Rightarrow> (decimal \<times> string option) res" where
  "source_event orders e s =
     ebind (payload_text (sv_payload e) ''order_id'') (\<lambda>order_id.
     if find_paper order_id orders = None then Inr s
     else ebind (payload_number (sv_payload e) ''quantity'') (\<lambda>x.
          ebind (payload_text (sv_payload e) ''side'') (\<lambda>side. source_step order_id side (dec_of_float x) s)))"

definition paper_source_at_sequence :: "int \<Rightarrow> stored_event list \<Rightarrow> paper_order list \<Rightarrow> string option res" where
  "paper_source_at_sequence n evidence orders =
     ebind (efold (source_event orders) (before_sequence n evidence) (0, None)) (\<lambda>(_, source). Inr source)"

text \<open>\<open>_open_entry_identity\<close> of the fills of a ledger.\<close>

definition open_entry_identity :: "paper_fill list \<Rightarrow> string res" where
  "open_entry_identity fills =
     ebind (efold (\<lambda>f. source_step (pf_order_id f) (pf_side f) (fill_quantity f)) fills (0, None)) (\<lambda>(position, source).
     case source of
       Some s \<Rightarrow> if position \<le> 0 then Inl (ValueError ''stop requires a filled paper entry'') else Inr s
     | None \<Rightarrow> Inl (ValueError ''stop requires a filled paper entry''))"

section \<open>Bound entries\<close>

definition is_version_one :: "members \<Rightarrow> bool" where
  "is_version_one p \<longleftrightarrow> field p ''version'' = JInt 1"

definition json_is :: "json option \<Rightarrow> pyfloat \<Rightarrow> bool" where
  "json_is v x = (case v of None \<Rightarrow> False | Some w \<Rightarrow> json_eq w (JFloat x))"

text \<open>The risk state that the context names is that of the same signal.\<close>

definition check_risk_ancestry :: "entry_context \<Rightarrow> instant \<Rightarrow> stored_event \<Rightarrow> stored_event list \<Rightarrow> unit res" where
  "check_risk_ancestry c signal_at meta evidence =
     ensure (case List.find (\<lambda>e. sv_event_id e = ec_risk_event_id c) evidence of
         None \<Rightarrow> False
       | Some risk \<Rightarrow> sv_event_type risk = ''BREAKER_STATE'' \<and> sv_sequence risk < sv_sequence meta
           \<and> map_of (sv_payload risk) ''last_risk_at_utc'' = Some (JStr (iso_z signal_at))
           \<and> json_is (map_of (sv_payload risk) ''decision_risk_rate'') (ec_risk_rate c)
           \<and> json_is (map_of (sv_payload risk) ''decision_exposure_cap'') (ec_exposure_cap c))
       (unreconciled ''entry context lacks same-signal risk ancestry'')"

definition order_costs :: "paper_order \<Rightarrow> cost_config" where
  "order_costs x = \<lparr> fee_rate = po_fee_rate x, slippage_rate = po_slippage_rate x \<rparr>"

text \<open>\<open>_validate_entry_context_binding\<close>.\<close>

definition validate_entry_context_binding ::
  "sha256 \<Rightarrow> stored_event \<Rightarrow> paper_order \<Rightarrow> entry_context \<Rightarrow> stored_event list \<Rightarrow> stored_event \<Rightarrow> unit res" where
  "validate_entry_context_binding H e x c evidence meta =
     ebind (require_keys (sv_payload e) [''order_id'', ''context'', ''version''] ''entry context'') (\<lambda>_.
     ebind (ensure (is_version_one (sv_payload e) \<and> sv_event_id e = entry_context_id H (po_order_id x)
         \<and> po_signal_at_utc x \<le> sv_occurred_at_utc e \<and> sv_occurred_at_utc e \<le> po_eligible_open_utc x
         \<and> po_side x = ''BUY'' \<and> sv_sequence meta < sv_sequence e)
       (unreconciled ''entry context order ancestry is invalid'')) (\<lambda>_.
     ebind (case List.find (\<lambda>p. sv_sequence p = sv_sequence e - 1) evidence of
         None \<Rightarrow> Inl (OtherError ''StopIteration'') | Some p \<Rightarrow> Inr p) (\<lambda>previous.
     ebind (ensure (sv_occurred_at_utc e = max (po_signal_at_utc x) (sv_occurred_at_utc previous))
       (unreconciled ''entry context timestamp is not causal'')) (\<lambda>_.
     ebind (check_risk_ancestry c (po_signal_at_utc x) meta evidence) (\<lambda>_.
     ebind (balances_before (sv_sequence meta) evidence) (\<lambda>(cash, btc).
     ebind (context_size c (ec_signal_price c) (float_of_dec cash) (order_costs x)) (\<lambda>size.
     ensure (\<not> (\<not> deq btc 0 \<or> sd_quantity size + flit 1 1000000000000 < po_requested_quantity x))
       (unreconciled ''entry context contradicts signal sizing''))))))))"

text \<open>The end of a bound entry: what the execution at the open must have led to.\<close>

definition check_execution_end ::
  "int \<Rightarrow> paper_order \<Rightarrow> pyfloat \<Rightarrow> pyfloat \<Rightarrow> pyfloat \<Rightarrow> stored_event list \<Rightarrow> stored_event \<Rightarrow> unit res" where
  "check_execution_end sequence x attempted cap price raw_fills terminal =
     (let quantity = pmin attempted cap; reason = field (sv_payload terminal) ''reason'' in
      ebind (ensure (sequence < sv_sequence terminal)
        (unreconciled ''execution is not before terminal evidence'')) (\<lambda>_.
      if quantity \<le> 0 then
        ensure (raw_fills = [] \<and> po_status x = REJECTED \<and> reason = JStr ''EXECUTION_CAP'')
          (unreconciled ''zero execution cap lacks exact rejection'')
      else
        ebind (ensure (case raw_fills of
            [raw] \<Rightarrow> sequence < sv_sequence raw \<and> json_is (map_of (sv_payload raw) ''quantity'') quantity
              \<and> json_is (map_of (sv_payload raw) ''price'') price
          | _ \<Rightarrow> False) (unreconciled ''execution contradicts actual-open fill'')) (\<lambda>_.
        ensure (po_requested_quantity x \<le> quantity
            \<or> reason = JStr (if cap < attempted then ''EXECUTION_CAP'' else ''PARTIAL_REMAINDER''))
          (unreconciled ''execution cap or partial reason is inconsistent''))))"

definition EXECUTION_KEYS :: "string list" where
  "EXECUTION_KEYS = [''version'', ''order_id'', ''reference_price'', ''attempted_quantity'']"

definition validate_execution ::
  "sha256 \<Rightarrow> stored_event list \<Rightarrow> paper_order option \<Rightarrow> stored_event option \<Rightarrow> string \<Rightarrow> stored_event
     \<Rightarrow> stored_event list \<Rightarrow> stored_event list \<Rightarrow> unit res" where
  "validate_execution H evidence order context order_id e raw_fills statuses =
     ebind (require_keys (sv_payload e) EXECUTION_KEYS ''execution'') (\<lambda>_.
     case (order, context, Option.bind order po_execution_context) of
       (Some x, Some ce, Some c) \<Rightarrow>
         ebind (ensure (po_side x = ''BUY'' \<and> is_version_one (sv_payload e) \<and> sv_event_id e = execution_id H order_id
             \<and> sv_occurred_at_utc e = po_eligible_open_utc x \<and> sv_sequence ce < sv_sequence e)
           (unreconciled ''execution ancestry is invalid'')) (\<lambda>_.
         ebind (payload_number (sv_payload e) ''reference_price'') (\<lambda>reference.
         ebind (payload_number (sv_payload e) ''attempted_quantity'') (\<lambda>attempted.
         ebind (ensure (\<not> (reference \<le> 0 \<or> \<not> (0 < attempted \<and> attempted \<le> po_requested_quantity x)))
           (unreconciled ''execution prices or quantities are invalid'')) (\<lambda>_.
         ebind (balances_before (sv_sequence e) evidence) (\<lambda>(cash, btc).
         ebind (ensure (deq btc 0) (unreconciled ''execution must begin flat'')) (\<lambda>_.
         let price = computed_fill_price reference (po_slippage_rate x) ''BUY'' in
         ebind (execution_quantity c (po_fee_rate x) price (float_of_dec cash)) (\<lambda>cap.
         check_execution_end (sv_sequence e) x attempted cap price raw_fills (last statuses))))))))
     | _ \<Rightarrow> Inl (unreconciled ''execution ancestry is invalid''))"

section \<open>Position observations\<close>

definition OBSERVATION_KEYS :: "string list" where
  "OBSERVATION_KEYS = [''version'', ''order_id'', ''fill_id'', ''previous_event_id'', ''initial_stop'', ''high_water'',
     ''candle_highs'']"

definition json_items :: "json \<Rightarrow> json list option" where
  "json_items v = (case v of JList xs \<Rightarrow> Some xs | JTuple xs \<Rightarrow> Some xs | _ \<Rightarrow> None)"

definition json_evidence_timestamp :: "json \<Rightarrow> (string \<times> instant) res" where
  "json_evidence_timestamp v = (case v of JStr s \<Rightarrow> evidence_timestamp s
     | _ \<Rightarrow> Inl (unreconciled ''paper evidence timestamp is invalid''))"

text \<open>One candle of the history: the next four hours, and a high above zero.\<close>

definition high_step :: "json \<Rightarrow> instant \<times> pyfloat \<Rightarrow> (instant \<times> pyfloat) res" where
  "high_step item s = (case s of (next_at, high_water) \<Rightarrow> (case json_items item of
     Some [t, h] \<Rightarrow>
       ebind (json_evidence_timestamp t) (\<lambda>(_, candle).
       ebind (finite_number (is_json_bool h) (json_float h) ''position high must be finite'') (\<lambda>high.
       ebind (ensure (\<not> (candle \<noteq> next_at \<or> high \<le> 0)) (unreconciled ''position candle history is not contiguous'')) (\<lambda>_.
       ebind (dt_add next_at FOUR_HOURS) (\<lambda>following. Inr (following, pmax high_water high)))))
   | _ \<Rightarrow> Inl (unreconciled ''position candle evidence schema is invalid'')))"

text \<open>The initial stop that an observation must keep: that of the context or of the hard stop.\<close>

definition expected_initial :: "paper_order \<Rightarrow> paper_fill \<Rightarrow> pyfloat option \<Rightarrow> pyfloat option res" where
  "expected_initial x f hard_stop = (case po_execution_context x of
     None \<Rightarrow> Inr hard_stop
   | Some c \<Rightarrow> ebind (initial_stop_price (VFloat (pf_fill_price f)) (VFloat (ec_entry_atr c))
       (VFloat (ec_initial_atr_mult c))) (\<lambda>s. Inr (Some s)))"

definition check_initial :: "pyfloat \<Rightarrow> pyfloat option \<Rightarrow> paper_fill \<Rightarrow> stored_event option \<Rightarrow> unit res" where
  "check_initial initial expected f prior =
     ensure (case expected of None \<Rightarrow> False
       | Some x \<Rightarrow> \<not> initial \<le> 0 \<and> \<not> pf_fill_price f \<le> initial \<and> feq initial x
           \<and> (case prior of None \<Rightarrow> True | Some e \<Rightarrow> json_is (map_of (sv_payload e) ''initial_stop'') initial))
       (unreconciled ''position observation changes immutable initial risk'')"

record observation_loop =
  ol_observations :: "(string \<times> stored_event) list"
  ol_initial_stops :: "(string \<times> pyfloat) list"

definition put :: "string \<Rightarrow> 'a \<Rightarrow> (string \<times> 'a) list \<Rightarrow> (string \<times> 'a) list" where
  "put k v ps = (if k \<in> set (map fst ps) then map (\<lambda>p. if fst p = k then (k, v) else p) ps else ps @ [(k, v)])"

text \<open>The checks of a position event, after its order and fill are found.\<close>

definition check_position ::
  "paper_order \<Rightarrow> paper_fill \<Rightarrow> stored_event option \<Rightarrow> pyfloat option \<Rightarrow> stored_event \<Rightarrow> unit res" where
  "check_position x f prior hard_stop e =
     (let p = sv_payload e in
      ebind (ensure (field p ''previous_event_id'' = (case prior of None \<Rightarrow> JNull | Some q \<Rightarrow> JStr (sv_event_id q)))
        (unreconciled ''position observation chain is invalid'')) (\<lambda>_.
      ebind (payload_number p ''initial_stop'') (\<lambda>initial.
      ebind (expected_initial x f hard_stop) (\<lambda>expected.
      ebind (check_initial initial expected f prior) (\<lambda>_.
      case json_items (field p ''candle_highs'') of
        None \<Rightarrow> Inl (unreconciled ''position observation has no candle evidence'')
      | Some [] \<Rightarrow> Inl (unreconciled ''position observation has no candle evidence'')
      | Some highs \<Rightarrow>
          ebind (case prior of None \<Rightarrow> Inr (pf_fill_time f, 0)
             | Some q \<Rightarrow> ebind (dt_add (sv_occurred_at_utc q) FOUR_HOURS) (\<lambda>t.
                 ebind (json_float (field (sv_payload q) ''high_water'')) (\<lambda>h. Inr (t, h)))) (\<lambda>start.
          ebind (efold high_step highs start) (\<lambda>(next_at, high_water).
          ebind (payload_number p ''high_water'') (\<lambda>stored.
          ensure (\<not> (next_at - FOUR_HOURS \<noteq> sv_occurred_at_utc e \<or> \<not> feq stored high_water))
            (unreconciled ''position high-water or boundary is inconsistent''))))))))) "

definition position_event ::
  "sha256 \<Rightarrow> stored_event list \<Rightarrow> paper_order list \<Rightarrow> paper_fill list \<Rightarrow> stored_event \<Rightarrow> observation_loop \<Rightarrow> observation_loop res" where
  "position_event H evidence orders fills e l =
     (let p = sv_payload e; ancestry = unreconciled ''position observation ancestry is invalid'' in
      ebind (require_keys p OBSERVATION_KEYS ''position observation'') (\<lambda>_.
      ebind (payload_text p ''order_id'') (\<lambda>order_id.
      case (find_paper order_id orders, List.find (\<lambda>f. pf_order_id f = order_id \<and> pf_side f = ''BUY'') (rev fills)) of
        (Some x, Some f) \<Rightarrow>
          ebind (ensure (is_version_one p \<and> field p ''fill_id'' = JStr (pf_fill_id f)) ancestry) (\<lambda>_.
          ebind (paper_source_at_sequence (sv_sequence e) evidence orders) (\<lambda>source.
          ebind (ensure (source = Some order_id
              \<and> sv_event_id e = position_observation_id H order_id (sv_occurred_at_utc e)) ancestry) (\<lambda>_.
          ebind (check_position x f (map_of (ol_observations l) order_id) (map_of (ol_initial_stops l) order_id) e) (\<lambda>_.
          Inr (l\<lparr> ol_observations := put order_id e (ol_observations l) \<rparr>)))))
      | _ \<Rightarrow> Inl ancestry)))"

text \<open>
  The first hard stop of an entry is its initial stop. The scan of the ledger has read every such
  event as a stop, so its source is a text and its price a number.
\<close>

definition hard_stop_event :: "stored_event \<Rightarrow> observation_loop \<Rightarrow> observation_loop res" where
  "hard_stop_event e l =
     (let p = sv_payload e in
      if sv_event_type e = ''PAPER_STOP'' \<and> map_of p ''action'' = Some (JStr ''SET'')
         \<and> map_of p ''reason'' = Some (JStr ''HARD_STOP'') then
        ebind (payload_text p ''source_id'') (\<lambda>source. ebind (payload_number p ''stop_price'') (\<lambda>price.
        Inr (if source \<in> set (map fst (ol_initial_stops l)) then l
             else l\<lparr> ol_initial_stops := ol_initial_stops l @ [(source, price)] \<rparr>)))
      else Inr l)"

definition validated_position_observations ::
  "sha256 \<Rightarrow> stored_event list \<Rightarrow> paper_order list \<Rightarrow> paper_fill list \<Rightarrow> (string \<times> stored_event) list res" where
  "validated_position_observations H evidence orders fills =
     ebind (efold (\<lambda>e l. ebind (hard_stop_event e l) (\<lambda>l1.
         if sv_event_type e = ''PAPER_POSITION'' then position_event H evidence orders fills e l1 else Inr l1))
       evidence \<lparr> ol_observations = [], ol_initial_stops = [] \<rparr>) (\<lambda>l. Inr (ol_observations l))"

end
