(* ===== verification/PaperLedger.thy ===== *)
theory PaperLedger
  imports PaperEvidence
begin

text \<open>
  \<open>PaperBroker._build_ledger\<close>: the events of the store are sorted by their type, every order
  and fill is read back, and the whole is checked against the snapshot that the store replays.
  The dictionaries of the source are lists of pairs in the order of insertion.
\<close>

section \<open>The scan of the events\<close>

record paper_scan =
  sk_created :: "(string \<times> stored_event) list"
  sk_statuses :: "(string \<times> stored_event) list"
  sk_fills :: "(string \<times> stored_event) list"
  sk_order_meta :: "(string \<times> stored_event) list"
  sk_fill_meta :: "(string \<times> stored_event) list"
  sk_contexts :: "(string \<times> stored_event) list"
  sk_executions :: "(string \<times> stored_event) list"
  sk_active_stop :: "paper_stop option"
  sk_known_stops :: "paper_stop list"
  sk_open_stops :: "paper_stop list"
  sk_stop_sets :: "(string \<times> stored_event) list"
  sk_terminals :: "stored_event list"

definition empty_scan :: paper_scan where
  "empty_scan = \<lparr> sk_created = [], sk_statuses = [], sk_fills = [], sk_order_meta = [], sk_fill_meta = [],
     sk_contexts = [], sk_executions = [], sk_active_stop = None, sk_known_stops = [], sk_open_stops = [],
     sk_stop_sets = [], sk_terminals = [] \<rparr>"

text \<open>The events of a key, in order.\<close>

definition events_of :: "string \<Rightarrow> (string \<times> stored_event) list \<Rightarrow> stored_event list" where
  "events_of k ps = map snd (filter (\<lambda>p. fst p = k) ps)"

text \<open>\<open>d[key] = event\<close> after the check that the key is new.\<close>

definition add_new :: "string \<Rightarrow> stored_event \<Rightarrow> string \<Rightarrow> (string \<times> stored_event) list \<Rightarrow> (string \<times> stored_event) list res" where
  "add_new k e message ps = ebind (ensure (k \<notin> set (map fst ps)) (unreconciled message)) (\<lambda>_. Inr (ps @ [(k, e)]))"

definition last_stop :: "paper_stop list \<Rightarrow> paper_stop option" where
  "last_stop ss = (if ss = [] then None else Some (last ss))"

text \<open>A new stop: of the same entry, and tighter than the active one.\<close>

definition scan_stop_set :: "sha256 \<Rightarrow> stored_event \<Rightarrow> paper_scan \<Rightarrow> paper_scan res" where
  "scan_stop_set H e s =
     ebind (stop_from_event H e) (\<lambda>c.
     ebind (ensure (pp_stop_id c \<notin> set (map pp_stop_id (sk_known_stops s)))
       (unreconciled ''duplicate paper stop identity'')) (\<lambda>_.
     ebind (case sk_active_stop s of None \<Rightarrow> Inr ()
       | Some a \<Rightarrow>
           ebind (ensure (pp_source_id c = pp_source_id a) (unreconciled ''stop update changes position source'')) (\<lambda>_.
           ensure (\<not> dec_of_float (pp_stop_price c) \<le> dec_of_float (pp_stop_price a))
             (unreconciled ''persisted protective stop is not tighter''))) (\<lambda>_.
     Inr (s\<lparr> sk_known_stops := sk_known_stops s @ [c], sk_open_stops := sk_open_stops s @ [c],
             sk_stop_sets := sk_stop_sets s @ [(pp_stop_id c, e)], sk_active_stop := Some c \<rparr>))))"

definition scan_stop_end :: "sha256 \<Rightarrow> stored_event \<Rightarrow> paper_scan \<Rightarrow> paper_scan res" where
  "scan_stop_end H e s =
     ebind (payload_text (sv_payload e) ''stop_id'') (\<lambda>stop_id.
     case List.find (\<lambda>c. pp_stop_id c = stop_id) (sk_open_stops s) of
       None \<Rightarrow> Inl (unreconciled ''stop terminal event has no active stop'')
     | Some c \<Rightarrow>
         ebind (validate_stop_terminal H e c) (\<lambda>_.
         let open = filter (\<lambda>x. pp_stop_id x \<noteq> stop_id) (sk_open_stops s)
         in Inr (s\<lparr> sk_terminals := sk_terminals s @ [e], sk_open_stops := open,
                   sk_active_stop := last_stop open \<rparr>)))"

definition scan_event :: "sha256 \<Rightarrow> stored_event \<Rightarrow> paper_scan \<Rightarrow> paper_scan res" where
  "scan_event H e s =
     (let t = sv_event_type e; p = sv_payload e in
      if t = ''ORDER_CREATED'' then ebind (payload_text p ''order_id'') (\<lambda>k.
        ebind (add_new k e ''duplicate order creation evidence'' (sk_created s)) (\<lambda>x. Inr (s\<lparr> sk_created := x \<rparr>)))
      else if t = ''ORDER_STATUS'' then ebind (payload_text p ''order_id'') (\<lambda>k.
        ebind (ensure (k \<in> set (map fst (sk_created s))) (unreconciled ''order status lacks creation evidence'')) (\<lambda>_.
        Inr (s\<lparr> sk_statuses := sk_statuses s @ [(k, e)] \<rparr>)))
      else if t = ''FILL'' then
        ebind (ensure (sv_event_id e \<notin> set (map (sv_event_id \<circ> snd) (sk_fills s)))
          (unreconciled ''duplicate fill evidence'')) (\<lambda>_.
        ebind (payload_text p ''order_id'') (\<lambda>k. Inr (s\<lparr> sk_fills := sk_fills s @ [(k, e)] \<rparr>)))
      else if t = ''PAPER_ORDER'' then ebind (payload_text p ''order_id'') (\<lambda>k.
        ebind (add_new k e ''duplicate paper order metadata'' (sk_order_meta s)) (\<lambda>x. Inr (s\<lparr> sk_order_meta := x \<rparr>)))
      else if t = ''PAPER_FILL'' then ebind (payload_text p ''fill_id'') (\<lambda>k.
        ebind (add_new k e ''duplicate paper fill metadata'' (sk_fill_meta s)) (\<lambda>x. Inr (s\<lparr> sk_fill_meta := x \<rparr>)))
      else if t = ''PAPER_ENTRY_CONTEXT'' then ebind (payload_text p ''order_id'') (\<lambda>k.
        ebind (add_new k e ''duplicate entry context'' (sk_contexts s)) (\<lambda>x. Inr (s\<lparr> sk_contexts := x \<rparr>)))
      else if t = ''PAPER_EXECUTION'' then ebind (payload_text p ''order_id'') (\<lambda>k.
        ebind (add_new k e ''duplicate paper execution evidence'' (sk_executions s)) (\<lambda>x. Inr (s\<lparr> sk_executions := x \<rparr>)))
      else if t = ''PAPER_STOP'' then ebind (payload_text p ''action'') (\<lambda>action.
        if action = ''SET'' then scan_stop_set H e s
        else if action = ''CANCELED'' \<or> action = ''TRIGGERED'' then scan_stop_end H e s
        else Inl (unreconciled ''unknown paper stop action''))
      else Inr s)"

section \<open>Orders\<close>

definition read_order :: "sha256 \<Rightarrow> paper_scan \<Rightarrow> string \<times> stored_event \<Rightarrow> paper_order res" where
  "read_order H s km = (case km of (order_id, meta) \<Rightarrow>
     ebind (case map_of (sk_created s) order_id of
         None \<Rightarrow> Inl (unreconciled ''paper order metadata lacks creation evidence'') | Some c \<Rightarrow> Inr c) (\<lambda>creation.
     ebind (case map_of (sk_contexts s) order_id of
         None \<Rightarrow> Inr None
       | Some e \<Rightarrow> ebind (parse_entry_context (map_of (sv_payload e) ''context'')) (\<lambda>c. Inr (Some c))) (\<lambda>context.
     paper_order_from_evidence H order_id creation (events_of order_id (sk_statuses s))
       (events_of order_id (sk_fills s)) meta (sk_fill_meta s) context)))"

definition check_contexts :: "sha256 \<Rightarrow> stored_event list \<Rightarrow> paper_scan \<Rightarrow> paper_order list \<Rightarrow> unit res" where
  "check_contexts H evidence s orders = efold (\<lambda>(order_id, e) _.
     case (find_paper order_id orders, map_of (sk_order_meta s) order_id) of
       (Some x, Some meta) \<Rightarrow> (case po_execution_context x of
           Some c \<Rightarrow> validate_entry_context_binding H e x c evidence meta
         | None \<Rightarrow> Inl (unreconciled ''entry context has no paper order''))
     | _ \<Rightarrow> Inl (unreconciled ''entry context has no paper order'')) (sk_contexts s) ()"

text \<open>\<open>_validate_executions\<close>.\<close>

definition check_executions :: "sha256 \<Rightarrow> stored_event list \<Rightarrow> paper_scan \<Rightarrow> paper_order list \<Rightarrow> unit res" where
  "check_executions H evidence s orders =
     ebind (efold (\<lambda>(order_id, e) _. validate_execution H evidence (find_paper order_id orders)
         (map_of (sk_contexts s) order_id) order_id e (events_of order_id (sk_fills s)) (events_of order_id (sk_statuses s)))
       (sk_executions s) ()) (\<lambda>_.
     ensure (\<forall>x \<in> set orders. po_execution_context x = None \<or> po_status x = ACCEPTED
         \<or> po_order_id x \<in> set (map fst (sk_executions s)))
       (unreconciled ''bound entry terminal lacks execution evidence''))"

definition paper_fill_ids :: "paper_scan \<Rightarrow> paper_order list \<Rightarrow> string list" where
  "paper_fill_ids s orders =
     map (sv_event_id \<circ> snd) (filter (\<lambda>p. find_paper (fst p) orders \<noteq> None) (sk_fills s))"

section \<open>Ancestry\<close>

text \<open>A child sells what is left of its canceled parent, for the same reason at the same costs.\<close>

definition check_child :: "paper_scan \<Rightarrow> paper_order list \<Rightarrow> paper_order \<Rightarrow> string \<Rightarrow> unit res" where
  "check_child s orders x parent_id = (case find_paper parent_id orders of
     None \<Rightarrow> Inl (unreconciled ''remainder child lacks its paper parent'')
   | Some parent \<Rightarrow>
       ebind (ensure (\<not> is_paper_order (po_parent_order_id parent))
         (unreconciled ''remainder order has recursive ancestry'')) (\<lambda>_.
       ebind (ensure (po_side parent = ''SELL'' \<and> po_side x = ''SELL'')
         (unreconciled ''remainder ancestry must be SELL orders'')) (\<lambda>_.
       ebind (ensure (po_status parent = CANCELED \<and> \<not> po_filled_quantity parent \<le> 0)
         (unreconciled ''remainder parent is not a partial canceled exit'')) (\<lambda>_.
       ebind (ensure (po_reason x = po_reason parent) (unreconciled ''remainder child changes exit reason'')) (\<lambda>_.
       case events_of parent_id (sk_fills s) of
         [f] \<Rightarrow>
           ebind (ensure (po_signal_at_utc x = sv_occurred_at_utc f)
             (unreconciled ''remainder child time is not parent fill time'')) (\<lambda>_.
           ebind (ensure (exact (po_requested_quantity x) (po_remainder_quantity parent))
             (unreconciled ''remainder child quantity is not exact'')) (\<lambda>_.
           ensure (exact (po_fee_rate x) (po_fee_rate parent) \<and> exact (po_slippage_rate x) (po_slippage_rate parent))
             (unreconciled ''remainder child changes cost binding'')))
       | _ \<Rightarrow> Inl (unreconciled ''remainder parent fill is ambiguous''))))))"

text \<open>A stop order sells the whole inventory at its trigger, not above the stop price.\<close>

definition check_stop_fill :: "stored_event list \<Rightarrow> paper_scan \<Rightarrow> paper_order \<Rightarrow> paper_stop \<Rightarrow> stored_event \<Rightarrow> unit res" where
  "check_stop_fill evidence s x stop f =
     ebind (inventory_before_sequence (sv_sequence f) evidence) (\<lambda>inventory.
     ebind (payload_number (sv_payload f) ''quantity'') (\<lambda>quantity.
     ebind (ensure (deq (dec_of_float (po_requested_quantity x)) inventory \<and> deq (dec_of_float quantity) inventory
         \<and> deq (inventory - dec_of_float quantity) 0)
       (unreconciled ''stop exit does not cover the exact full inventory'')) (\<lambda>_.
     let late = unreconciled ''stop exit reference is inconsistent with the stop price'' in
     case fill_meta_of (sk_fill_meta s) f of None \<Rightarrow> Inl late
     | Some meta \<Rightarrow> ebind (payload_number (sv_payload meta) ''reference_price'') (\<lambda>reference.
         ensure (\<not> dec_of_float (pp_stop_price stop) < dec_of_float reference) late))))"

definition check_stop_order :: "stored_event list \<Rightarrow> paper_scan \<Rightarrow> paper_order \<Rightarrow> string \<Rightarrow> unit res" where
  "check_stop_order evidence s x parent_id =
     (case List.find (\<lambda>c. pp_stop_id c = parent_id) (sk_known_stops s) of
        None \<Rightarrow> Inl (unreconciled ''stop order ancestry is invalid'')
      | Some stop \<Rightarrow>
          ebind (ensure (po_order_kind x = ''STOP'') (unreconciled ''stop order ancestry is invalid'')) (\<lambda>_.
          ebind (ensure (po_reason x = pp_reason stop \<and> po_signal_at_utc x = pp_observed_at_utc stop
              \<and> pp_active_after_utc stop \<le> po_eligible_open_utc x \<and> exact (po_fee_rate x) (pp_fee_rate stop)
              \<and> exact (po_slippage_rate x) (pp_slippage_rate stop))
            (unreconciled ''stop order changes persisted stop binding'')) (\<lambda>_.
          case (po_status x, events_of (po_order_id x) (sk_fills s)) of
            (COMPLETED, [f]) \<Rightarrow> check_stop_fill evidence s x stop f
          | _ \<Rightarrow> Inl (unreconciled ''stop exit must complete in one fill''))))"

definition check_parent :: "stored_event list \<Rightarrow> paper_scan \<Rightarrow> paper_order list \<Rightarrow> paper_order \<Rightarrow> unit res" where
  "check_parent evidence s orders x = (case po_parent_order_id x of
     None \<Rightarrow> Inr ()
   | Some p \<Rightarrow>
       if starts_with ''paper-order:'' p then check_child s orders x p
       else if starts_with ''paper-stop:'' p then check_stop_order evidence s x p
       else Inl (unreconciled ''paper order has unknown parent identity''))"

definition children_of :: "string \<Rightarrow> paper_order list \<Rightarrow> paper_order list" where
  "children_of order_id orders = filter (\<lambda>x. po_parent_order_id x = Some order_id \<and> is_paper_order (Some order_id)) orders"

definition check_children :: "paper_order list \<Rightarrow> unit res" where
  "check_children orders =
     ebind (ensure (\<forall>x \<in> set orders. \<not> is_paper_order (po_parent_order_id x)
         \<or> length (children_of (the (po_parent_order_id x)) orders) = 1)
       (unreconciled ''partial exit has duplicate remainder children'')) (\<lambda>_.
     ensure (\<forall>x \<in> set orders. \<not> (po_side x = ''SELL'' \<and> po_status x = CANCELED \<and> 0 < po_filled_quantity x
         \<and> 0 < po_remainder_quantity x \<and> children_of (po_order_id x) orders = []))
       (unreconciled ''partial exit lacks its exact remainder child''))"

section \<open>Balances\<close>

record paper_balance =
  pb_cash :: decimal
  pb_btc :: decimal
  pb_fees :: decimal
  pb_slippage :: decimal
  pb_fills :: "paper_fill list"

definition empty_balance :: paper_balance where
  "empty_balance = \<lparr> pb_cash = Dec (1, 2), pb_btc = 0, pb_fees = 0, pb_slippage = 0, pb_fills = [] \<rparr>"

text \<open>A fill of a bound entry: after the context, from a flat account, within the cap.\<close>

definition check_bound_fill ::
  "paper_scan \<Rightarrow> paper_order \<Rightarrow> stored_event \<Rightarrow> decimal \<Rightarrow> pyfloat \<Rightarrow> paper_balance \<Rightarrow> unit res" where
  "check_bound_fill s x raw quantity price b = (case (po_execution_context x, map_of (sk_contexts s) (po_order_id x)) of
     (Some c, Some ce) \<Rightarrow>
       ebind (ensure (\<not> (sv_sequence raw \<le> sv_sequence ce \<or> \<not> deq (pb_btc b) 0))
         (unreconciled ''entry context is not before a flat BUY fill'')) (\<lambda>_.
       ebind (execution_quantity c (po_fee_rate x) price (float_of_dec (pb_cash b))) (\<lambda>cap.
       ebind (ensure (\<not> dec_of_float (pmin (po_requested_quantity x) cap) < quantity)
         (unreconciled ''paper fill exceeds actual-open execution cap'')) (\<lambda>_.
       ensure (field (sv_payload (last (events_of (po_order_id x) (sk_statuses s)))) ''reason'' \<noteq> JStr ''EXECUTION_CAP''
           \<or> (cap < po_requested_quantity x \<and> deq quantity (dec_of_float cap)))
         (unreconciled ''execution-cap cancellation contradicts fill''))))
   | _ \<Rightarrow> Inr ())"

definition move_balance :: "string \<Rightarrow> decimal \<Rightarrow> decimal \<Rightarrow> decimal \<Rightarrow> paper_balance \<Rightarrow> paper_balance res" where
  "move_balance side quantity price fee b =
     ebind (if side = ''BUY'' then
          Inr (b\<lparr> pb_cash := pb_cash b - (quantity * price + fee), pb_btc := pb_btc b + quantity \<rparr>)
        else if side = ''SELL'' then
          Inr (b\<lparr> pb_cash := pb_cash b + (quantity * price - fee), pb_btc := pb_btc b - quantity \<rparr>)
        else Inl (unreconciled ''invalid fill side'')) (\<lambda>b1.
     ebind (ensure (\<not> (pb_cash b1 < 0 \<or> pb_btc b1 < 0)) (unreconciled ''paper ledger has negative balance'')) (\<lambda>_.
     Inr b1))"

text \<open>One raw fill; a fill of a paper order is read back with its metadata.\<close>

definition balance_fill :: "sha256 \<Rightarrow> paper_scan \<Rightarrow> paper_order list \<Rightarrow> string \<times> stored_event \<Rightarrow> paper_balance \<Rightarrow> paper_balance res" where
  "balance_fill H s orders kr b = (case kr of (order_id, raw) \<Rightarrow>
     let p = sv_payload raw in
     ebind (payload_number p ''quantity'') (\<lambda>quantity.
     ebind (payload_number p ''price'') (\<lambda>price.
     ebind (payload_number p ''fee'') (\<lambda>fee.
     ebind (payload_text p ''side'') (\<lambda>side.
     ebind (case find_paper order_id orders of None \<Rightarrow> Inr ()
        | Some x \<Rightarrow> check_bound_fill s x raw (dec_of_float quantity) (float_of_dec (dec_of_float price)) b) (\<lambda>_.
     ebind (move_balance side (dec_of_float quantity) (dec_of_float price) (dec_of_float fee) b) (\<lambda>b1.
     case (find_paper order_id orders, fill_meta_of (sk_fill_meta s) raw) of
       (Some x, Some meta) \<Rightarrow> ebind (paper_fill_from_evidence H raw meta x) (\<lambda>f.
         Inr (b1\<lparr> pb_fees := pb_fees b1 + dec_of_float (pf_fee f),
                  pb_slippage := pb_slippage b1 + dec_of_float (pf_slippage f), pb_fills := pb_fills b1 @ [f] \<rparr>))
     | _ \<Rightarrow> Inr b1)))))))"

section \<open>Projection and position\<close>

definition is_active :: "paper_order \<Rightarrow> bool" where
  "is_active x \<longleftrightarrow> po_status x \<in> set ACTIVE"

definition matches_projection :: "paper_order \<Rightarrow> stored_order \<Rightarrow> bool" where
  "matches_projection x p \<longleftrightarrow> so_idempotency_key p = po_idempotency_key x \<and> so_side p = po_side x
     \<and> so_status p = po_status x \<and> exact (so_requested_quantity p) (po_requested_quantity x)
     \<and> exact (so_filled_quantity p) (po_filled_quantity x)"

definition projected :: "string \<Rightarrow> paper_snapshot \<Rightarrow> stored_order option" where
  "projected order_id snapshot = List.find (\<lambda>p. so_order_id p = order_id) (rev (pn_pending_orders snapshot))"

definition check_projection :: "paper_snapshot \<Rightarrow> paper_order list \<Rightarrow> unit res" where
  "check_projection snapshot orders =
     (let active = filter is_active orders;
          paper_projected = filter (\<lambda>i. find_paper i orders \<noteq> None) (map so_order_id (pn_pending_orders snapshot));
          e = unreconciled ''active paper order projection contradicts broker evidence'' in
      ebind (ensure (set paper_projected = set (map po_order_id active)) e) (\<lambda>_.
      ensure (\<forall>x \<in> set active. case projected (po_order_id x) snapshot of None \<Rightarrow> False
          | Some p \<Rightarrow> matches_projection x p) e))"

text \<open>At most one order is active, and it fits the inventory.\<close>

definition check_reservation :: "paper_order list \<Rightarrow> decimal \<Rightarrow> paper_stop option \<Rightarrow> unit res" where
  "check_reservation active btc active_stop =
     ebind (ensure (\<not> 1 < length active) (unreconciled ''more than one active paper order'')) (\<lambda>_.
     ebind (ensure (\<not> btc < dsum (map (\<lambda>x. dec_of_float (po_remainder_quantity x))
         (filter (\<lambda>x. po_side x = ''SELL'') active))) (unreconciled ''active exits reserve more BTC than owned'')) (\<lambda>_.
     ebind (ensure (\<not> (list_ex (\<lambda>x. po_side x = ''BUY'') active \<and> 0 < btc))
       (unreconciled ''active entry would pyramid an existing position'')) (\<lambda>_.
     ensure (\<not> (active_stop \<noteq> None \<and> btc \<le> 0)) (unreconciled ''active stop has no owned BTC''))))"

definition derived_position :: "paper_order list \<Rightarrow> decimal \<Rightarrow> position_state" where
  "derived_position active btc = (case active of
     x # _ \<Rightarrow> if po_side x = ''BUY'' then ENTRY_PENDING else EXIT_PENDING
   | [] \<Rightarrow> if 0 < btc then LONG else FLAT)"

text \<open>Orders or fills that the broker did not make.\<close>

definition generic_evidence :: "paper_scan \<Rightarrow> paper_order list \<Rightarrow> bool" where
  "generic_evidence s orders \<longleftrightarrow> list_ex (\<lambda>p. find_paper (fst p) orders = None) (sk_created s @ sk_fills s)"

definition check_position_state :: "paper_snapshot \<Rightarrow> paper_scan \<Rightarrow> paper_order list \<Rightarrow> paper_order list \<Rightarrow> decimal \<Rightarrow> unit res" where
  "check_position_state snapshot s orders active btc =
     ensure (generic_evidence s orders \<or> pn_position_state snapshot = HALTED
         \<or> pn_position_state snapshot = derived_position active btc)
       (unreconciled ''position state contradicts paper evidence'')"

text \<open>The fills by time, then by sequence.\<close>

fun insert_fill :: "(paper_fill \<Rightarrow> int) \<Rightarrow> paper_fill \<Rightarrow> paper_fill list \<Rightarrow> paper_fill list" where
  "insert_fill k f [] = [f]"
| "insert_fill k f (g # gs) = (if pf_fill_time f < pf_fill_time g \<or> pf_fill_time f = pf_fill_time g \<and> k f \<le> k g
     then f # g # gs else g # insert_fill k f gs)"

definition sequence_of :: "paper_scan \<Rightarrow> paper_fill \<Rightarrow> int" where
  "sequence_of s f = (case List.find (\<lambda>p. sv_event_id (snd p) = pf_fill_id f) (sk_fills s) of
     None \<Rightarrow> 0 | Some p \<Rightarrow> sv_sequence (snd p))"

definition sort_fills :: "paper_scan \<Rightarrow> paper_fill list \<Rightarrow> paper_fill list" where
  "sort_fills s fills = foldr (insert_fill (sequence_of s)) fills []"

section \<open>Stops in the ledger\<close>

text \<open>A stop that is active at its observation follows the only fill of its entry.\<close>

definition check_boundary_stop :: "paper_scan \<Rightarrow> paper_fill list \<Rightarrow> paper_stop \<Rightarrow> stored_event \<Rightarrow> unit res" where
  "check_boundary_stop s fills stop e =
     ensure (pp_reason stop = ''HARD_STOP''
         \<and> (case filter (\<lambda>f. pf_order_id f = pp_source_id stop) fills of
              [f] \<Rightarrow> pf_side f = ''BUY'' \<and> pf_fill_time f = pp_observed_at_utc stop | _ \<Rightarrow> False)
         \<and> (case events_of (pp_source_id stop) (sk_fills s) of
              [raw] \<Rightarrow> (case fill_meta_of (sk_fill_meta s) raw of None \<Rightarrow> False
                | Some meta \<Rightarrow> sv_sequence meta < sv_sequence e) | _ \<Rightarrow> False))
       (unreconciled ''fill-boundary stop lacks causal entry fill evidence'')"

definition check_stop :: "stored_event list \<Rightarrow> paper_scan \<Rightarrow> paper_order list \<Rightarrow> paper_fill list \<Rightarrow> paper_stop \<Rightarrow> unit res" where
  "check_stop evidence s orders fills stop =
     ebind (ensure (case find_paper (pp_source_id stop) orders of None \<Rightarrow> False
         | Some x \<Rightarrow> po_side x = ''BUY'' \<and> \<not> po_filled_quantity x \<le> 0)
       (unreconciled ''paper stop source is not a filled entry'')) (\<lambda>_.
     case map_of (sk_stop_sets s) (pp_stop_id stop) of None \<Rightarrow> Inl KeyError
     | Some e \<Rightarrow>
         ebind (paper_source_at_sequence (sv_sequence e) evidence orders) (\<lambda>source.
         ebind (ensure (source = Some (pp_source_id stop))
           (unreconciled ''paper stop source was not open when observed'')) (\<lambda>_.
         if pp_active_after_utc stop = pp_observed_at_utc stop then check_boundary_stop s fills stop e else Inr ())))"

text \<open>The stop versions that a trigger at a fill could choose from, oldest first.\<close>

definition eligible_versions :: "paper_scan \<Rightarrow> string list \<Rightarrow> stored_event \<Rightarrow> string list" where
  "eligible_versions s ended f = map pp_stop_id (filter (\<lambda>c.
     (case map_of (sk_stop_sets s) (pp_stop_id c) of None \<Rightarrow> False | Some e \<Rightarrow> sv_sequence e < sv_sequence f)
     \<and> pp_stop_id c \<notin> set ended \<and> pp_active_after_utc c \<le> sv_occurred_at_utc f) (sk_known_stops s))"

definition stop_ids_before :: "int \<Rightarrow> stored_event list \<Rightarrow> string list res" where
  "stop_ids_before n terminals =
     emap (\<lambda>e. payload_text (sv_payload e) ''stop_id'') (filter (\<lambda>e. sv_sequence e < n) terminals)"

definition check_trigger :: "paper_scan \<Rightarrow> paper_order \<Rightarrow> stored_event \<Rightarrow> string \<Rightarrow> unit res" where
  "check_trigger s related f stop_id =
     ebind (ensure (po_parent_order_id related = Some stop_id)
       (unreconciled ''triggered stop exit ancestry is invalid'')) (\<lambda>_.
     ebind (stop_ids_before (sv_sequence f) (sk_terminals s)) (\<lambda>ended.
     let versions = eligible_versions s ended f in
     ensure (versions \<noteq> [] \<and> last versions = stop_id)
       (unreconciled ''triggered stop is not the latest eligible open version'')))"

text \<open>A terminal event of a stop follows the completed sale that left the account flat.\<close>

definition check_terminal ::
  "stored_event list \<Rightarrow> paper_scan \<Rightarrow> paper_order list \<Rightarrow> stored_event \<Rightarrow> string list \<Rightarrow> string list res" where
  "check_terminal evidence s orders e triggered =
     ebind (payload_text (sv_payload e) ''identity'') (\<lambda>identity.
     case (find_paper identity orders, map_of (sk_order_meta s) identity) of
       (Some related, Some order_meta) \<Rightarrow>
         ebind (ensure (po_side related = ''SELL'') (unreconciled ''paper stop terminal lacks its exit order'')) (\<lambda>_.
         case (po_status related, events_of identity (sk_fills s)) of
           (COMPLETED, [f]) \<Rightarrow>
             ebind (ensure (case fill_meta_of (sk_fill_meta s) f of None \<Rightarrow> False
                 | Some meta \<Rightarrow> sv_sequence order_meta < sv_sequence f \<and> sv_sequence f < sv_sequence meta
                     \<and> sv_sequence meta < sv_sequence e)
               (unreconciled ''paper stop terminal sequence is not causal'')) (\<lambda>_.
             ebind (ensure (sv_occurred_at_utc e = sv_occurred_at_utc f)
               (unreconciled ''paper stop terminal time is not causal'')) (\<lambda>_.
             ebind (inventory_before_sequence (sv_sequence e) evidence) (\<lambda>inventory.
             ebind (ensure (deq inventory 0)
               (unreconciled ''paper stop terminal did not leave inventory exactly flat'')) (\<lambda>_.
             ebind (payload_text (sv_payload e) ''action'') (\<lambda>action.
             ebind (payload_text (sv_payload e) ''stop_id'') (\<lambda>stop_id.
             ebind (if action = ''TRIGGERED'' then
                  ebind (check_trigger s related f stop_id) (\<lambda>_. Inr (triggered @ [identity]))
                else Inr triggered) (\<lambda>t1.
             ebind (ensure (\<not> (action = ''CANCELED'' \<and> po_parent_order_id related = Some stop_id))
               (unreconciled ''canceled stop is bound to a trigger order'')) (\<lambda>_. Inr t1))))))))
         | _ \<Rightarrow> Inl (unreconciled ''paper stop terminal exit lifecycle is incomplete''))
     | _ \<Rightarrow> Inl (unreconciled ''paper stop terminal lacks its exit order''))"

definition check_terminals :: "stored_event list \<Rightarrow> paper_scan \<Rightarrow> paper_order list \<Rightarrow> unit res" where
  "check_terminals evidence s orders =
     ebind (efold (check_terminal evidence s orders) (sk_terminals s) []) (\<lambda>triggered.
     ensure (set triggered = set (map po_order_id (filter (\<lambda>x. po_order_kind x = ''STOP'') orders)))
       (unreconciled ''stop exit lifecycle lacks exactly one triggered terminal''))"

section \<open>The ledger\<close>

fun insert_paper_order :: "paper_order \<Rightarrow> paper_order list \<Rightarrow> paper_order list" where
  "insert_paper_order x [] = [x]"
| "insert_paper_order x (y # ys) = (if po_signal_at_utc x < po_signal_at_utc y
     \<or> po_signal_at_utc x = po_signal_at_utc y \<and> po_order_id x \<le> po_order_id y
     then x # y # ys else y # insert_paper_order x ys)"

definition sort_orders :: "paper_order list \<Rightarrow> paper_order list" where
  "sort_orders xs = foldr insert_paper_order xs []"

text \<open>\<open>_build_ledger\<close> of a replayed snapshot.\<close>

definition ledger_of :: "sha256 \<Rightarrow> paper_snapshot \<Rightarrow> paper_ledger res" where
  "ledger_of H snapshot =
     (let evidence = pn_event_evidence snapshot in
      ebind (efold (scan_event H) evidence empty_scan) (\<lambda>s.
      ebind (emap (read_order H s) (sk_order_meta s)) (\<lambda>orders.
      ebind (check_contexts H evidence s orders) (\<lambda>_.
      ebind (check_executions H evidence s orders) (\<lambda>_.
      ebind (ensure (set (map fst (sk_fill_meta s)) = set (paper_fill_ids s orders))
        (unreconciled ''paper fill metadata does not match paper order fills'')) (\<lambda>_.
      ebind (efold (\<lambda>x _. check_parent evidence s orders x) orders ()) (\<lambda>_.
      ebind (check_children orders) (\<lambda>_.
      ebind (efold (balance_fill H s orders) (sk_fills s) empty_balance) (\<lambda>b.
      ebind (ensure (feq (float_of_dec (pb_cash b)) (pn_cash snapshot))
        (unreconciled ''cash does not reconcile to immutable fills'')) (\<lambda>_.
      ebind (ensure (feq (float_of_dec (pb_btc b)) (pn_btc_quantity snapshot))
        (unreconciled ''BTC does not reconcile to immutable fills'')) (\<lambda>_.
      ebind (check_projection snapshot orders) (\<lambda>_.
      let active = filter is_active orders; fills = sort_fills s (pb_fills b) in
      ebind (check_reservation active (pb_btc b) (sk_active_stop s)) (\<lambda>_.
      ebind (completed_trades fills) (\<lambda>trades.
      ebind (check_position_state snapshot s orders active (pb_btc b)) (\<lambda>_.
      ebind (efold (\<lambda>c _. check_stop evidence s orders fills c) (sk_known_stops s) ()) (\<lambda>_.
      ebind (check_terminals evidence s orders) (\<lambda>_.
      ebind (validated_position_observations H evidence orders fills) (\<lambda>observations.
      Inr \<lparr> pl_snapshot = snapshot, pl_orders = orders, pl_active_orders = sort_orders active, pl_fills = fills,
            pl_trades = trades, pl_active_stop = sk_active_stop s, pl_open_stops = sk_open_stops s,
            pl_total_fees = float_of_dec (pb_fees b), pl_total_slippage = float_of_dec (pb_slippage b),
            pl_position_observations = observations \<rparr>))))))))))))))))))"

definition build_ledger :: "sha256 \<Rightarrow> db \<Rightarrow> paper_ledger res" where
  "build_ledger H d = ebind (replay_and_verify H d) (ledger_of H)"

end
