(* ===== verification/Paper_Reading.thy ===== *)
theory Paper_Reading
  imports PaperLedger
begin

text \<open>
  What the readers of the evidence establish: the shape of an order that \<open>_paper_order_from_evidence\<close>
  returns, the agreement of a fill with its order, and the accounting of the scan of the events.
\<close>

section \<open>Lists\<close>

lemma emap_member: "emap f xs = Inr ys \<Longrightarrow> y \<in> set ys \<Longrightarrow> \<exists>x \<in> set xs. f x = Inr y"
  by (induction xs arbitrary: ys) auto

lemma emap_map: "emap f xs = Inr ys \<Longrightarrow> (\<And>x y. f x = Inr y \<Longrightarrow> g y = h x) \<Longrightarrow> map g ys = map h xs"
  by (induction xs arbitrary: ys) auto

lemma find_Some: "List.find P xs = Some x \<Longrightarrow> x \<in> set xs \<and> P x"
  by (induction xs) (auto split: if_splits)

lemma find_paper_Some: "find_paper i orders = Some x \<Longrightarrow> x \<in> set orders \<and> po_order_id x = i"
  unfolding find_paper_def by (drule find_Some) simp

lemma efold_each: "efold f xs s = Inr t \<Longrightarrow> x \<in> set xs \<Longrightarrow> \<exists>u v. f x u = Inr v"
  by (induction xs arbitrary: s) auto

section \<open>Orders\<close>

text \<open>
  A well-formed order: its times are four-hour boundaries, a market order is for the next open, a
  stop order sells; and its status agrees with what is filled.
\<close>

definition order_times_ok :: "paper_order \<Rightarrow> bool" where
  "order_times_ok x \<longleftrightarrow> is_boundary (po_signal_at_utc x) \<and> is_boundary (po_eligible_open_utc x)
     \<and> (if po_order_kind x = ''MARKET'' then po_eligible_open_utc x = po_signal_at_utc x + FOUR_HOURS
        else po_order_kind x = ''STOP'' \<and> po_side x = ''SELL'' \<and> po_signal_at_utc x \<le> po_eligible_open_utc x)"

definition order_status_ok :: "paper_order \<Rightarrow> bool" where
  "order_status_ok x \<longleftrightarrow> (case po_status x of
     ACCEPTED \<Rightarrow> po_filled_quantity x = 0
   | INSUFFICIENT_CASH \<Rightarrow> po_filled_quantity x = 0
   | REJECTED \<Rightarrow> po_filled_quantity x = 0 \<and> po_execution_context x \<noteq> None
   | COMPLETED \<Rightarrow> exact (po_filled_quantity x) (po_requested_quantity x)
   | CANCELED \<Rightarrow> dec_of_float (po_filled_quantity x) < dec_of_float (po_requested_quantity x)
   | _ \<Rightarrow> False)"

definition order_ok :: "sha256 \<Rightarrow> paper_order \<Rightarrow> bool" where
  "order_ok H x \<longleftrightarrow> order_times_ok x \<and> order_status_ok x \<and> po_side x \<in> {''BUY'', ''SELL''}
     \<and> reason_pattern (po_reason x) \<and> 0 < po_requested_quantity x \<and> isfinite (po_requested_quantity x)
     \<and> dec_of_float (po_filled_quantity x) \<le> dec_of_float (po_requested_quantity x)
     \<and> order_identity H (iso_z (po_signal_at_utc x)) (po_side x) (po_reason x) (po_parent_order_id x)
         = (po_idempotency_key x, po_order_id x)"

lemma payload_number_finite: "payload_number p k = Inr x \<Longrightarrow> isfinite x"
  by (auto simp: payload_number_def float_of_int_def Let_def split: option.splits json.splits if_splits)

lemma payload_number_pos: "payload_number p k = Inr x \<Longrightarrow> \<not> x \<le> 0 \<Longrightarrow> 0 < x"
  using payload_number_finite by (auto simp: fl_ord)

text \<open>The decimal of a positive float is positive, whether or not the machine has the float.\<close>

lemma dec_positive:
  assumes "isfinite x" "0 < x"
  shows "0 < dval (dec_of_float x)"
proof -
  obtain m e where x: "x = Fin (m, e)" using assms(1) by (cases x) auto
  have m: "0 < m" using assms(2) by (simp add: x less_iff_rat bval_pos_iff)
  have pos: "0 < dval c" if "float_of_dec c = x" for c
    using that rt_nonpos [OF rt_float_of_dec, of c] assms(2) less_not_le_float by (metis not_less)
  have "0 < dval (exact_dec (m, e))" using m by (simp add: dval_exact_dec bval_pos_iff)
  then show ?thesis using m
    by (auto simp: dec_of_float_def x simp del: digits_search.simps split: option.split dest!: digits_search_Some pos [unfolded x])
qed

lemma paper_timestamp_text: "paper_timestamp (TsText s) = Inr (u, t) \<Longrightarrow> u = s \<and> iso_z t = u"
  by (auto simp: paper_timestamp_def Let_def split: option.splits if_splits)

lemma evidence_timestamp_text: "evidence_timestamp s = Inr (u, t) \<Longrightarrow> u = s \<and> iso_z t = u"
  unfolding evidence_timestamp_def catch_def
  by (auto dest: paper_timestamp_text split: sum.splits if_splits)

lemma read_order_meta:
  assumes "read_order_meta H i e = Inr m"
  shows "om_side m \<in> {''BUY'', ''SELL''}" "reason_pattern (om_reason m)" "0 < om_requested m" "isfinite (om_requested m)"
    "om_signal_text m = iso_z (om_signal_time m)" "om_kind m \<in> {''MARKET'', ''STOP''}"
  using assms
  by (auto simp: read_order_meta_def Let_def dest: payload_number_finite evidence_timestamp_text intro: payload_number_pos)

lemma boundary_evidence: "boundary_evidence t l = Inr u \<longleftrightarrow> is_boundary t"
  by (auto simp: boundary_evidence_def require_boundary_def ensure_def)

lemma next_boundary: "next_boundary t = Inr u \<Longrightarrow> u = t + FOUR_HOURS"
  by (auto simp: next_boundary_def dt_add_def split: if_splits)

lemma check_order_times:
  assumes "check_order_times m t = Inr u" "om_kind m \<in> {''MARKET'', ''STOP''}"
  shows "is_boundary (om_signal_time m) \<and> is_boundary (om_eligible_time m)
    \<and> (if om_kind m = ''MARKET'' then om_eligible_time m = om_signal_time m + FOUR_HOURS
       else om_kind m = ''STOP'' \<and> om_side m = ''SELL'' \<and> om_signal_time m \<le> om_eligible_time m)"
  using assms by (auto simp: check_order_times_def boundary_evidence not_less split: if_splits dest: next_boundary)

text \<open>The only fill of an order and its quantity.\<close>

lemma accumulated_quantity:
  assumes "accumulated_quantity m raws = Inr a"
  shows "(raws = [] \<and> a = 0) \<or> (\<exists>raw. raws = [raw] \<and> payload_number (sv_payload raw) ''quantity'' = Inr a
    \<and> sv_occurred_at_utc raw = om_eligible_time m \<and> om_signal_time m \<le> sv_occurred_at_utc raw
    \<and> (om_kind m = ''MARKET'' \<longrightarrow> om_signal_time m < sv_occurred_at_utc raw)
    \<and> \<not> dec_of_float (om_requested m) < dec_of_float a)"
  using assms by (auto simp: accumulated_quantity_def not_less split: list.splits)

lemma no_fill_status:
  "no_fill_status H m meta bound ss vs = Inr st \<Longrightarrow> st \<in> {ACCEPTED, INSUFFICIENT_CASH} \<or> st = REJECTED \<and> bound"
  by (auto simp: no_fill_status_def split: list.splits order_status.splits)

lemma filled_status: "filled_status H m meta raw f ss vs = Inr st \<Longrightarrow> st = COMPLETED"
  by (auto simp: filled_status_def split: list.splits order_status.splits)

lemma partial_status: "partial_status H m meta raw f bound ss vs = Inr st \<Longrightarrow> st = CANCELED"
  by (auto simp: partial_status_def split: list.splits order_status.splits)

lemma paper_order_from_evidence:
  assumes "paper_order_from_evidence H i creation ss raws meta fm c = Inr x"
  shows "order_ok H x \<and> po_order_id x = i \<and> po_execution_context x = c
    \<and> (\<forall>raw \<in> set raws. raws = [raw] \<and> payload_number (sv_payload raw) ''quantity'' = Inr (po_filled_quantity x)
         \<and> sv_occurred_at_utc raw = po_eligible_open_utc x)"
proof -
  obtain m u a vs st where m: "read_order_meta H i meta = Inr m"
    and t: "check_order_times m (sv_occurred_at_utc creation) = Inr u"
    and d: "order_identity H (om_signal_text m) (om_side m) (om_reason m) (om_parent m) = (om_key m, i)"
    and a: "accumulated_quantity m raws = Inr a"
    and r: "(case raws of
         [] \<Rightarrow> no_fill_status H m meta (c \<noteq> None) ss vs
       | raw # _ \<Rightarrow> if exact a (om_requested m) then filled_status H m meta raw (fill_meta_of fm raw) ss vs
           else partial_status H m meta raw (fill_meta_of fm raw) (c \<noteq> None) ss vs) = Inr st"
    and x: "x = \<lparr> po_order_id = i, po_idempotency_key = om_key m, po_side = om_side m, po_reason = om_reason m,
           po_signal_at_utc = om_signal_time m, po_requested_quantity = om_requested m, po_filled_quantity = a,
           po_remainder_quantity = float_of_dec (dec_of_float (om_requested m) - dec_of_float a),
           po_status = st, po_order_kind = om_kind m, po_parent_order_id = om_parent m,
           po_eligible_open_utc = om_eligible_time m, po_fee_rate = om_fee_rate m,
           po_slippage_rate = om_slippage_rate m, po_execution_context = c \<rparr>"
    using assms unfolding paper_order_from_evidence_def ebind_eq_Inr ensure_eq_Inr sum.inject
    by (elim exE conjE) (rule that, assumption+, erule sym)
  have st: "case raws of [] \<Rightarrow> st \<in> {ACCEPTED, INSUFFICIENT_CASH} \<or> st = REJECTED \<and> c \<noteq> None
      | _ \<Rightarrow> if exact a (om_requested m) then st = COMPLETED else st = CANCELED"
    using r by (auto split: list.splits if_splits dest: no_fill_status filled_status partial_status)
  note R = read_order_meta [OF m] and T = check_order_times [OF t read_order_meta(6) [OF m]]
  have times: "order_times_ok x" using T by (simp add: x order_times_ok_def split: if_splits)
  have le: "dval (dec_of_float a) \<le> dval (dec_of_float (om_requested m))"
    using accumulated_quantity [OF a] dec_positive [OF R(4,3)] by auto
  have status: "order_status_ok x"
  proof (cases raws)
    case Nil
    then have "a = 0" using accumulated_quantity [OF a] by auto
    then show ?thesis using st Nil by (auto simp: x order_status_ok_def)
  next
    case (Cons raw rest)
    then have "payload_number (sv_payload raw) ''quantity'' = Inr a" using accumulated_quantity [OF a] by auto
    then have "exact a (om_requested m) \<longleftrightarrow> dval (dec_of_float a) = dval (dec_of_float (om_requested m))"
      using payload_number_finite R(4) by (simp add: exact_def)
    then show ?thesis using st Cons le by (auto simp: x order_status_ok_def split: if_splits)
  qed
  have "order_ok H x"
    unfolding order_ok_def using R(1-4) d le times status by (simp add: x R(5) [symmetric])
  moreover have "\<forall>raw \<in> set raws. raws = [raw] \<and> payload_number (sv_payload raw) ''quantity'' = Inr a
      \<and> sv_occurred_at_utc raw = om_eligible_time m"
    using accumulated_quantity [OF a] by auto
  ultimately show ?thesis by (simp add: x)
qed

end
