(* ===== verification/PaperBroker.thy ===== *)
theory PaperBroker
  imports PaperLedger
begin

text \<open>
  The operations of \<open>PaperBroker\<close>, \<open>src/autobit/execution/paper_broker.py\<close>. A mutation is one
  outer transaction of the store: it reads the ledger from the events, decides, and appends
  events through the operations of the store, each of which verifies the database. Inside the
  transaction an operation maps the database to the new one and its result; an exception
  leaves the store as it was. The fault hook of the tests may raise at its boundaries.
\<close>

record broker =
  br_fee_rate :: pyfloat
  br_slippage_rate :: pyfloat
  br_fault_hook :: "string \<Rightarrow> exn option"

definition new_broker :: "sha256 \<Rightarrow> pyval \<Rightarrow> pyval \<Rightarrow> (string \<Rightarrow> exn option) \<Rightarrow> store \<Rightarrow> broker res" where
  "new_broker H fee slippage hook st =
     ebind (rate_arg fee) (\<lambda>f.
     ebind (rate_arg slippage) (\<lambda>s.
     ebind (load_snapshot H st) (\<lambda>snapshot.
     ebind (ensure (\<not> (pn_market snapshot \<noteq> MARKET \<or> \<not> feq (pn_initial_equity snapshot) (flit 100 1)))
       (ValueError ''paper broker requires normalized-100 KRW-BTC state'')) (\<lambda>_.
     Inr \<lparr> br_fee_rate = f, br_slippage_rate = s, br_fault_hook = hook \<rparr>))))"

definition fault :: "broker \<Rightarrow> string \<Rightarrow> unit res" where
  "fault B boundary = (case br_fault_hook B boundary of None \<Rightarrow> Inr () | Some e \<Rightarrow> Inl e)"

text \<open>The outer transaction, and a transaction inside it; both verify before they end.\<close>

definition nested :: "sha256 \<Rightarrow> (db \<Rightarrow> (db \<times> 'a) res) \<Rightarrow> db \<Rightarrow> (db \<times> 'a) res" where
  "nested H work d = ebind (work d) (\<lambda>(d1, x). ebind (replay_and_verify H d1) (\<lambda>_. Inr (d1, x)))"

definition store_ledger :: "sha256 \<Rightarrow> store \<Rightarrow> paper_ledger res" where
  "store_ledger H st = ebind (load_snapshot H st) (ledger_of H)"

definition the_order :: "sha256 \<Rightarrow> string \<Rightarrow> db \<Rightarrow> paper_order res" where
  "the_order H order_id d =
     ebind (text_arg order_id ''order id'') (\<lambda>i.
     ebind (build_ledger H d) (\<lambda>l. case find_paper i (pl_orders l) of
       None \<Rightarrow> Inl (ValueError (''unknown order id: '' @ i)) | Some x \<Rightarrow> Inr x))"

section \<open>Writing\<close>

text \<open>An event of the broker, and a status of one of its orders.\<close>

definition write_event :: "sha256 \<Rightarrow> string \<Rightarrow> string \<Rightarrow> timestamp \<Rightarrow> members \<Rightarrow> db \<Rightarrow> db res" where
  "write_event H event_id event_type t payload d =
     ebind (append_event H \<lparr> ea_event_id = event_id, ea_event_type = event_type, ea_occurred_at = t,
       ea_payload = JObj payload \<rparr> d) (\<lambda>(d1, _). Inr d1)"

definition write_status :: "sha256 \<Rightarrow> string \<Rightarrow> string \<Rightarrow> order_status \<Rightarrow> string \<Rightarrow> string option \<Rightarrow> db \<Rightarrow> db res" where
  "write_status H order_id key status t reason d =
     ebind (transition_order_status H \<lparr> ta_order_id = order_id, ta_idempotency_key = key, ta_status = status,
       ta_occurred_at = TsText t, ta_reason = reason \<rparr> d) (\<lambda>(d1, _). Inr d1)"

text \<open>The arguments of \<open>_submit_order_in_transaction\<close>.\<close>

record order_request =
  oq_signal_text :: string
  oq_signal_time :: instant
  oq_occurred_at :: string
  oq_side :: string
  oq_quantity :: pyfloat
  oq_reason :: string
  oq_parent :: "string option"
  oq_key :: string
  oq_order_id :: string
  oq_kind :: string
  oq_eligible :: instant
  oq_fee_rate :: pyfloat
  oq_slippage_rate :: pyfloat

definition order_meta_payload :: "order_request \<Rightarrow> members" where
  "order_meta_payload q = [(''idempotency_key'', JStr (oq_key q)), (''eligible_open_utc'', JStr (iso_z (oq_eligible q))),
     (''fee_rate'', JFloat (oq_fee_rate q)), (''order_id'', JStr (oq_order_id q)), (''order_kind'', JStr (oq_kind q)),
     (''parent_order_id'', reason_json (oq_parent q)), (''reason'', JStr (oq_reason q)),
     (''requested_quantity'', JFloat (oq_quantity q)), (''side'', JStr (oq_side q)),
     (''signal_at_utc'', JStr (oq_signal_text q)), (''slippage_rate'', JFloat (oq_slippage_rate q))]"

definition accepted_order :: "order_request \<Rightarrow> paper_order" where
  "accepted_order q = \<lparr> po_order_id = oq_order_id q, po_idempotency_key = oq_key q, po_side = oq_side q,
     po_reason = oq_reason q, po_signal_at_utc = oq_signal_time q, po_requested_quantity = oq_quantity q,
     po_filled_quantity = 0, po_remainder_quantity = oq_quantity q, po_status = ACCEPTED, po_order_kind = oq_kind q,
     po_parent_order_id = oq_parent q, po_eligible_open_utc = oq_eligible q, po_fee_rate = oq_fee_rate q,
     po_slippage_rate = oq_slippage_rate q, po_execution_context = None \<rparr>"

definition submit_order :: "sha256 \<Rightarrow> broker \<Rightarrow> order_request \<Rightarrow> db \<Rightarrow> (db \<times> paper_order) res" where
  "submit_order H B q d =
     ebind (record_order_once H \<lparr> oa_idempotency_key = oq_key q, oa_side = oq_side q,
         oa_requested_quantity = VFloat (oq_quantity q), oa_order_id = Some (oq_order_id q),
         oa_occurred_at = Some (TsText (oq_occurred_at q)), oa_status = CREATED \<rparr> d) (\<lambda>(d1, created).
     if \<not> created then
       ebind (build_ledger H d1) (\<lambda>l. case find_paper (oq_order_id q) (pl_orders l) of
         None \<Rightarrow> Inl (unreconciled ''order retry lacks broker metadata'') | Some x \<Rightarrow> Inr (d1, x))
     else
       ebind (fault B ''created'') (\<lambda>_.
       ebind (write_status H (oq_order_id q) (oq_key q @ '':submitted'') SUBMITTED (oq_occurred_at q) None d1) (\<lambda>d2.
       ebind (fault B ''submitted'') (\<lambda>_.
       ebind (write_status H (oq_order_id q) (oq_key q @ '':accepted'') ACCEPTED (oq_occurred_at q) None d2) (\<lambda>d3.
       ebind (fault B ''accepted'') (\<lambda>_.
       ebind (write_event H (order_meta_id H (oq_order_id q)) ''PAPER_ORDER'' (TsText (oq_occurred_at q))
         (order_meta_payload q) d3) (\<lambda>d4.
       Inr (d4, accepted_order q))))))))"

definition deactivate_stop :: "sha256 \<Rightarrow> paper_stop \<Rightarrow> string \<Rightarrow> string \<Rightarrow> string \<Rightarrow> db \<Rightarrow> db res" where
  "deactivate_stop H stop t action identity d =
     write_event H (stop_terminal_id H action (pp_stop_id stop) identity) ''PAPER_STOP'' (TsText t)
       [(''action'', JStr action), (''identity'', JStr identity), (''stop_id'', JStr (pp_stop_id stop))] d"

section \<open>Filling an order\<close>

text \<open>What a fill is decided from: its order, its candle and its price.\<close>

record fill_request =
  fq_order :: paper_order
  fq_candle_text :: string
  fq_candle_time :: instant
  fq_reference :: pyfloat
  fq_price :: pyfloat

text \<open>A bound entry records its attempt and is capped by the size at the open.\<close>

definition cap_execution :: "sha256 \<Rightarrow> fill_request \<Rightarrow> pyfloat \<Rightarrow> pyfloat \<Rightarrow> db \<Rightarrow> (db \<times> bool \<times> pyfloat) res" where
  "cap_execution H q quantity cash d =
     (let x = fq_order q in case (po_side x = ''BUY'', po_execution_context x) of
        (True, Some c) \<Rightarrow>
          ebind (write_event H (execution_id H (po_order_id x)) ''PAPER_EXECUTION'' (TsDatetime (utc (fq_candle_time q)))
            [(''version'', JInt 1), (''order_id'', JStr (po_order_id x)), (''reference_price'', JFloat (fq_reference q)),
             (''attempted_quantity'', JFloat quantity)] d) (\<lambda>d1.
          ebind (execution_quantity c (po_fee_rate x) (fq_price q) cash) (\<lambda>cap.
          Inr (d1, cap < quantity, pmin quantity cap)))
      | _ \<Rightarrow> Inr (d, False, quantity))"

definition fill_meta_payload :: "fill_request \<Rightarrow> string \<Rightarrow> pyfloat \<Rightarrow> pyfloat \<Rightarrow> members" where
  "fill_meta_payload q fill_id quantity fee =
     (let x = fq_order q in
      [(''fee'', JFloat fee), (''fee_rate'', JFloat (po_fee_rate x)), (''fill_id'', JStr fill_id),
       (''fill_price'', JFloat (fq_price q)), (''order_id'', JStr (po_order_id x)), (''quantity'', JFloat quantity),
       (''reason'', JStr (po_reason x)), (''reference_price'', JFloat (fq_reference q)), (''side'', JStr (po_side x)),
       (''slippage'', JFloat (computed_slippage quantity (fq_price q) (fq_reference q))),
       (''slippage_rate'', JFloat (po_slippage_rate x))])"

definition made_fill :: "fill_request \<Rightarrow> string \<Rightarrow> pyfloat \<Rightarrow> pyfloat \<Rightarrow> paper_fill" where
  "made_fill q fill_id quantity fee = \<lparr> pf_fill_id = fill_id, pf_order_id = po_order_id (fq_order q),
     pf_side = po_side (fq_order q), pf_reason = po_reason (fq_order q), pf_quantity = quantity,
     pf_reference_price = fq_reference q, pf_fill_price = fq_price q, pf_fee = fee,
     pf_slippage = computed_slippage quantity (fq_price q) (fq_reference q), pf_fill_time = fq_candle_time q \<rparr>"

text \<open>What is left of a partial sale goes into one child order at the next open.\<close>

definition child_request :: "sha256 \<Rightarrow> fill_request \<Rightarrow> pyfloat \<Rightarrow> order_request res" where
  "child_request H q quantity =
     (let x = fq_order q; rest = dec_of_float (po_remainder_quantity x) - dec_of_float quantity in
      ebind (ensure (\<not> is_paper_order (po_parent_order_id x))
        (unreconciled ''remainder child cannot create another remainder child'')) (\<lambda>_.
      ebind (ensure (\<not> rest \<le> 0) (unreconciled ''partial sell left no remainder'')) (\<lambda>_.
      ebind (next_boundary (fq_candle_time q)) (\<lambda>eligible.
      let (key, child_id) = order_identity H (fq_candle_text q) ''SELL'' (po_reason x) (Some (po_order_id x)) in
      Inr \<lparr> oq_signal_text = fq_candle_text q, oq_signal_time = fq_candle_time q, oq_occurred_at = fq_candle_text q,
            oq_side = ''SELL'', oq_quantity = float_of_dec rest, oq_reason = po_reason x,
            oq_parent = Some (po_order_id x), oq_key = key, oq_order_id = child_id, oq_kind = ''MARKET'',
            oq_eligible = eligible, oq_fee_rate = po_fee_rate x, oq_slippage_rate = po_slippage_rate x \<rparr>))))"

definition finish_partial :: "sha256 \<Rightarrow> broker \<Rightarrow> fill_request \<Rightarrow> pyfloat \<Rightarrow> bool \<Rightarrow> db \<Rightarrow> db res" where
  "finish_partial H B q quantity capped d =
     (let x = fq_order q in
      ebind (write_status H (po_order_id x) (po_idempotency_key x @ '':cancel-remainder:'' @ fq_candle_text q) CANCELED
        (fq_candle_text q) (Some (if capped then ''EXECUTION_CAP'' else ''PARTIAL_REMAINDER'')) d) (\<lambda>d1.
      if po_side x = ''SELL'' then
        ebind (child_request H q quantity) (\<lambda>r. ebind (submit_order H B r d1) (\<lambda>(d2, _). Inr d2))
      else Inr d1))"

text \<open>A market sale that leaves the account flat cancels the open stops.\<close>

definition cancel_stops :: "sha256 \<Rightarrow> fill_request \<Rightarrow> paper_stop list \<Rightarrow> db \<Rightarrow> db res" where
  "cancel_stops H q stops d =
     (let x = fq_order q in
      if po_side x = ''SELL'' \<and> po_order_kind x = ''MARKET'' then
        ebind (replay_and_verify H d) (\<lambda>snapshot.
        if deq (dec_of_float (pn_btc_quantity snapshot)) 0
        then efold (\<lambda>s. deactivate_stop H s (fq_candle_text q) ''CANCELED'' (po_order_id x)) stops d
        else Inr d)
      else Inr d)"

text \<open>The fill of a quantity: the fill, its status, its metadata and what follows from it.\<close>

definition write_fill ::
  "sha256 \<Rightarrow> broker \<Rightarrow> fill_request \<Rightarrow> paper_stop list \<Rightarrow> pyfloat \<Rightarrow> pyfloat \<Rightarrow> bool \<Rightarrow> db \<Rightarrow> (db \<times> paper_fill option) res" where
  "write_fill H B q stops quantity fee capped d =
     (let x = fq_order q; fill_id = fill_identity H (po_order_id x) (fq_candle_text q) quantity;
          status = (if deq (dec_of_float quantity) (dec_of_float (po_remainder_quantity x)) then COMPLETED else PARTIAL) in
      ebind (append_fill H \<lparr> fa_order_id = po_order_id x, fa_side = po_side x, fa_quantity = VFloat quantity,
        fa_price = VFloat (fq_price q), fa_fee = VFloat fee, fa_occurred_at = TsText (fq_candle_text q),
        fa_fill_id = Some fill_id \<rparr> d) (\<lambda>(d1, appended).
      if \<not> appended then Inr (d1, None)
      else
        ebind (write_status H (po_order_id x)
          (po_idempotency_key x @ '':'' @ lower (status_value status) @ '':'' @ fq_candle_text q) status
          (fq_candle_text q) (Some (po_reason x)) d1) (\<lambda>d2.
        ebind (write_event H (fill_meta_id H fill_id) ''PAPER_FILL'' (TsText (fq_candle_text q))
          (fill_meta_payload q fill_id quantity fee) d2) (\<lambda>d3.
        ebind (if status = PARTIAL then finish_partial H B q quantity capped d3 else Inr d3) (\<lambda>d4.
        ebind (cancel_stops H q stops d4) (\<lambda>d5.
        ebind (fault B ''fill'') (\<lambda>_.
        Inr (d5, Some (made_fill q fill_id quantity fee)))))))))"

definition reject_fill :: "sha256 \<Rightarrow> fill_request \<Rightarrow> string \<Rightarrow> order_status \<Rightarrow> string \<Rightarrow> db \<Rightarrow> (db \<times> paper_fill option) res" where
  "reject_fill H q tag status reason d =
     ebind (write_status H (po_order_id (fq_order q)) (po_idempotency_key (fq_order q) @ tag @ fq_candle_text q) status
       (fq_candle_text q) (Some reason) d) (\<lambda>d1. Inr (d1, None))"

text \<open>The fill that cash and inventory allow, of the quantity after the cap.\<close>

definition fill_within ::
  "sha256 \<Rightarrow> broker \<Rightarrow> fill_request \<Rightarrow> paper_stop list \<Rightarrow> paper_snapshot \<Rightarrow> pyfloat \<Rightarrow> bool \<Rightarrow> db \<Rightarrow> (db \<times> paper_fill option) res" where
  "fill_within H B q stops current quantity capped d =
     (let x = fq_order q in
      ebind (computed_fee quantity (fq_price q) (po_fee_rate x)) (\<lambda>fee.
      if po_side x = ''BUY'' \<and> exceeds_cash quantity (fq_price q) fee (pn_cash current) then
        reject_fill H q '':insufficient:'' INSUFFICIENT_CASH ''INSUFFICIENT_CASH'' d
      else
        ebind (ensure (\<not> (po_side x = ''SELL'' \<and> dec_of_float (pn_btc_quantity current) < dec_of_float quantity))
          (ValueError ''sell fill exceeds owned BTC'')) (\<lambda>_.
        write_fill H B q stops quantity fee capped d)))"

text \<open>\<open>_process_order_in_transaction\<close>.\<close>

definition process_order ::
  "sha256 \<Rightarrow> broker \<Rightarrow> paper_order \<Rightarrow> string \<Rightarrow> instant \<Rightarrow> pyfloat \<Rightarrow> pyfloat option \<Rightarrow> paper_stop list \<Rightarrow> db
     \<Rightarrow> (db \<times> paper_fill option) res" where
  "process_order H B x candle_text candle_time reference actual stops d =
     (let remainder = po_remainder_quantity x;
          quantity = (case actual of None \<Rightarrow> remainder | Some v \<Rightarrow> v);
          price = computed_fill_price reference (po_slippage_rate x) (po_side x);
          q = \<lparr> fq_order = x, fq_candle_text = candle_text, fq_candle_time = candle_time, fq_reference = reference,
                fq_price = price \<rparr> in
      ebind (ensure (\<not> dec_of_float remainder < dec_of_float quantity)
        (ValueError ''actual quantity exceeds order remainder'')) (\<lambda>_.
      ebind (ensure (isfinite price \<and> \<not> price \<le> 0)
        (ValueError ''slippage produces a non-positive fill price'')) (\<lambda>_.
      ebind (replay_and_verify H d) (\<lambda>current.
      ebind (cap_execution H q quantity (pn_cash current) d) (\<lambda>(d1, capped, allowed).
      if allowed \<le> 0 then reject_fill H q '':execution-cap:'' REJECTED ''EXECUTION_CAP'' d1
      else fill_within H B q stops current allowed capped d1)))))"

section \<open>Submitting orders\<close>

text \<open>A retry must repeat the order that the identity stands for.\<close>

definition assert_same_order :: "paper_order \<Rightarrow> order_request \<Rightarrow> unit res" where
  "assert_same_order x q = ensure (po_idempotency_key x = oq_key q \<and> po_side x = oq_side q \<and> po_reason x = oq_reason q
     \<and> po_signal_at_utc x = oq_signal_time q \<and> exact (po_requested_quantity x) (oq_quantity q)
     \<and> po_parent_order_id x = oq_parent q)
     (IdempotencyConflictError ''deterministic order identity has conflicting payload'')"

definition context_payload :: "entry_context \<Rightarrow> json" where
  "context_payload c = JObj [(''signal_price'', JFloat (ec_signal_price c)), (''entry_atr'', JFloat (ec_entry_atr c)),
     (''initial_atr_mult'', JFloat (ec_initial_atr_mult c)), (''baseline_atr_pct'', JFloat (ec_baseline_atr_pct c)),
     (''risk_rate'', JFloat (ec_risk_rate c)), (''exposure_cap'', JFloat (ec_exposure_cap c)),
     (''risk_event_id'', JStr (ec_risk_event_id c))]"

text \<open>The body of \<open>bind_entry_context\<close>.\<close>

definition bind_context :: "sha256 \<Rightarrow> string \<Rightarrow> entry_context \<Rightarrow> db \<Rightarrow> (db \<times> paper_order) res" where
  "bind_context H order_id c d =
     ebind (the_order H order_id d) (\<lambda>x. case po_execution_context x of
       Some bound \<Rightarrow> ebind (ensure (same_context bound c) (IdempotencyConflictError ''entry execution context conflicts''))
         (\<lambda>_. Inr (d, x))
     | None \<Rightarrow>
         ebind (ensure (\<not> (po_side x \<noteq> ''BUY'' \<or> po_status x \<noteq> ACCEPTED))
           (ValueError ''entry context requires an unfilled accepted BUY'')) (\<lambda>_.
         ebind (replay_and_verify H d) (\<lambda>snapshot.
         let t = max (po_signal_at_utc x) (sv_occurred_at_utc (last (pn_event_evidence snapshot))) in
         ebind (write_event H (entry_context_id H order_id) ''PAPER_ENTRY_CONTEXT'' (TsDatetime (utc t))
           [(''order_id'', JStr order_id), (''context'', context_payload c), (''version'', JInt 1)] d) (\<lambda>d1.
         ebind (the_order H order_id d1) (\<lambda>y. Inr (d1, y))))))"

definition bind_entry_context :: "sha256 \<Rightarrow> string \<Rightarrow> json \<Rightarrow> store \<Rightarrow> store \<times> paper_order res" where
  "bind_entry_context H order_id context =
     with_args (parse_entry_context (Some context)) (\<lambda>c. transaction H (bind_context H order_id c))"

text \<open>The order with its context, when one is given.\<close>

definition finish_entry :: "sha256 \<Rightarrow> json option \<Rightarrow> db \<times> paper_order \<Rightarrow> (db \<times> paper_order) res" where
  "finish_entry H context dx = (case context of
     None \<Rightarrow> Inr dx
   | Some v \<Rightarrow> ebind (parse_entry_context (Some v)) (\<lambda>c.
       nested H (bind_context H (po_order_id (snd dx)) c) (fst dx)))"

definition market_request ::
  "sha256 \<Rightarrow> broker \<Rightarrow> string \<Rightarrow> instant \<Rightarrow> string \<Rightarrow> pyfloat \<Rightarrow> string \<Rightarrow> string option \<Rightarrow> instant \<Rightarrow> order_request" where
  "market_request H B text t side quantity reason parent eligible =
     (let (key, order_id) = order_identity H text side reason parent in
      \<lparr> oq_signal_text = text, oq_signal_time = t, oq_occurred_at = text, oq_side = side, oq_quantity = quantity,
        oq_reason = reason, oq_parent = parent, oq_key = key, oq_order_id = order_id, oq_kind = ''MARKET'',
        oq_eligible = eligible, oq_fee_rate = br_fee_rate B, oq_slippage_rate = br_slippage_rate B \<rparr>)"

definition entry_body ::
  "sha256 \<Rightarrow> broker \<Rightarrow> (instant \<Rightarrow> order_request) \<Rightarrow> json option \<Rightarrow> db \<Rightarrow> (db \<times> paper_order) res" where
  "entry_body H B request context d =
     (let q0 = request 0 in
      ebind (build_ledger H d) (\<lambda>l. case find_paper (oq_order_id q0) (pl_orders l) of
        Some x \<Rightarrow> ebind (assert_same_order x q0) (\<lambda>_. finish_entry H context (d, x))
      | None \<Rightarrow>
          ebind (ensure (\<not> (0 < pn_btc_quantity (pl_snapshot l) \<or> pn_pending_orders (pl_snapshot l) \<noteq> []))
            (ValueError ''entry requires a flat account with no active order'')) (\<lambda>_.
          ebind (next_boundary (oq_signal_time q0)) (\<lambda>eligible.
          ebind (submit_order H B (request eligible) d) (finish_entry H context)))))"

definition submit_entry ::
  "sha256 \<Rightarrow> broker \<Rightarrow> timestamp \<Rightarrow> pyval \<Rightarrow> string \<Rightarrow> json option \<Rightarrow> store \<Rightarrow> store \<times> paper_order res" where
  "submit_entry H B signal_at quantity reason context =
     with_args
       (ebind (paper_timestamp signal_at) (\<lambda>(text, t).
        ebind (positive_arg quantity ''quantity'') (\<lambda>n.
        ebind (reason_arg reason) (\<lambda>r. Inr (text, t, n, r)))))
       (\<lambda>(text, t, n, r). transaction H (entry_body H B (market_request H B text t ''BUY'' n r None) context))"

definition exit_body ::
  "sha256 \<Rightarrow> broker \<Rightarrow> pyfloat \<Rightarrow> (instant \<Rightarrow> order_request) \<Rightarrow> db \<Rightarrow> (db \<times> paper_order) res" where
  "exit_body H B owned request d =
     (let q0 = request 0 in
      ebind (build_ledger H d) (\<lambda>l. case find_paper (oq_order_id q0) (pl_orders l) of
        Some x \<Rightarrow> ebind (assert_same_order x q0) (\<lambda>_. Inr (d, x))
      | None \<Rightarrow>
          ebind (ensure (oq_parent q0 = None) (ValueError ''remainder child orders are broker-managed'')) (\<lambda>_.
          ebind (ensure (exact owned (pn_btc_quantity (pl_snapshot l)))
            (ValueError ''owned quantity does not match paper ledger'')) (\<lambda>_.
          ebind (ensure (\<not> dec_of_float owned < dec_of_float (oq_quantity q0))
            (ValueError ''sell quantity exceeds position'')) (\<lambda>_.
          ebind (ensure (pn_pending_orders (pl_snapshot l) = [])
            (ValueError ''an active exit already holds reserved position'')) (\<lambda>_.
          ebind (next_boundary (oq_signal_time q0)) (\<lambda>eligible. submit_order H B (request eligible) d)))))))"

definition submit_exit ::
  "sha256 \<Rightarrow> broker \<Rightarrow> timestamp \<Rightarrow> pyval \<Rightarrow> pyval \<Rightarrow> string \<Rightarrow> string option \<Rightarrow> store \<Rightarrow> store \<times> paper_order res" where
  "submit_exit H B signal_at quantity owned reason parent =
     with_args
       (ebind (paper_timestamp signal_at) (\<lambda>(text, t).
        ebind (positive_arg quantity ''quantity'') (\<lambda>n.
        ebind (nonnegative_arg owned ''owned quantity'') (\<lambda>o1.
        ebind (reason_arg reason) (\<lambda>r. Inr (text, t, n, o1, r))))))
       (\<lambda>(text, t, n, o1, r). transaction H (exit_body H B o1 (market_request H B text t ''SELL'' n r parent)))"

text \<open>\<open>submit\<close>: a sale without a stated inventory takes that of the replayed state.\<close>

definition submit ::
  "sha256 \<Rightarrow> broker \<Rightarrow> timestamp \<Rightarrow> string \<Rightarrow> pyval \<Rightarrow> string \<Rightarrow> pyval option \<Rightarrow> string option \<Rightarrow> store \<Rightarrow> store \<times> paper_order res" where
  "submit H B signal_at side quantity reason owned parent st =
     with_args (valid_side side) (\<lambda>s st.
       if s = ''BUY'' then
         if owned \<noteq> None then (st, Inl (ValueError ''owned quantity is only valid for a sell''))
         else submit_entry H B signal_at quantity reason None st
       else with_args (case owned of Some v \<Rightarrow> Inr v
           | None \<Rightarrow> ebind (load_snapshot H st) (\<lambda>snapshot. Inr (VFloat (pn_btc_quantity snapshot))))
         (\<lambda>v. submit_exit H B signal_at quantity v reason parent) st) st"

section \<open>Processing a candle\<close>

definition open_body ::
  "sha256 \<Rightarrow> broker \<Rightarrow> string \<Rightarrow> string \<Rightarrow> instant \<Rightarrow> pyfloat \<Rightarrow> pyfloat option \<Rightarrow> db \<Rightarrow> (db \<times> paper_fill option) res" where
  "open_body H B order_id text t reference actual d =
     ebind (build_ledger H d) (\<lambda>l. case find_paper order_id (pl_orders l) of
       None \<Rightarrow> Inl (ValueError (''unknown order id: '' @ order_id))
     | Some x \<Rightarrow>
         if \<not> is_active x then Inr (d, None)
         else
           ebind (ensure (\<not> t \<le> po_signal_at_utc x)
             (ValueError ''market fill candle must be strictly later than signal'')) (\<lambda>_.
           ebind (ensure (po_order_kind x = ''MARKET'') (ValueError ''process_open requires a market order'')) (\<lambda>_.
           ebind (ensure (t = po_eligible_open_utc x)
             (ValueError ''market order is eligible only at the immediately following open'')) (\<lambda>_.
           ebind (ensure (case actual of None \<Rightarrow> True
               | Some v \<Rightarrow> \<not> (is_paper_order (po_parent_order_id x) \<and> \<not> exact v (po_remainder_quantity x)))
             (ValueError ''remainder child must fill completely'')) (\<lambda>_.
           process_order H B x text t reference actual (pl_open_stops l) d)))))"

definition process_open ::
  "sha256 \<Rightarrow> broker \<Rightarrow> string \<Rightarrow> timestamp \<Rightarrow> pyval \<Rightarrow> pyval option \<Rightarrow> store \<Rightarrow> store \<times> paper_fill option res" where
  "process_open H B order_id candle_at open_price actual =
     with_args
       (ebind (text_arg order_id ''order id'') (\<lambda>i.
        ebind (paper_timestamp candle_at) (\<lambda>(text, t).
        ebind (positive_arg open_price ''open price'') (\<lambda>reference.
        ebind (case actual of None \<Rightarrow> Inr None
           | Some v \<Rightarrow> ebind (positive_arg v ''actual quantity'') (\<lambda>n. Inr (Some n))) (\<lambda>a.
        Inr (i, text, t, reference, a))))))
       (\<lambda>(i, text, t, reference, a). transaction H (open_body H B i text t reference a))"

text \<open>The price at which a stop triggers in a candle, if it does.\<close>

definition stop_reference :: "paper_stop \<Rightarrow> pyfloat \<Rightarrow> pyfloat \<Rightarrow> pyfloat option" where
  "stop_reference stop open_value low =
     (if open_value \<le> pp_stop_price stop then Some open_value
      else if low \<le> pp_stop_price stop then Some (pp_stop_price stop) else None)"

definition stop_request :: "sha256 \<Rightarrow> paper_stop \<Rightarrow> string \<Rightarrow> instant \<Rightarrow> pyfloat \<Rightarrow> order_request" where
  "stop_request H stop text t quantity =
     (let signal = iso_z (pp_observed_at_utc stop);
          (key, order_id) = order_identity H signal ''SELL'' (pp_reason stop) (Some (pp_stop_id stop)) in
      \<lparr> oq_signal_text = signal, oq_signal_time = pp_observed_at_utc stop, oq_occurred_at = text, oq_side = ''SELL'',
        oq_quantity = quantity, oq_reason = pp_reason stop, oq_parent = Some (pp_stop_id stop), oq_key = key,
        oq_order_id = order_id, oq_kind = ''STOP'', oq_eligible = t, oq_fee_rate = pp_fee_rate stop,
        oq_slippage_rate = pp_slippage_rate stop \<rparr>)"

text \<open>The stop with the latest version triggers and the others are canceled.\<close>

definition trigger_stop ::
  "sha256 \<Rightarrow> broker \<Rightarrow> paper_ledger \<Rightarrow> paper_stop \<Rightarrow> pyfloat \<Rightarrow> string \<Rightarrow> instant \<Rightarrow> db \<Rightarrow> (db \<times> paper_fill option) res" where
  "trigger_stop H B l stop reference text t d =
     ebind (ensure (\<not> pn_btc_quantity (pl_snapshot l) \<le> 0) (unreconciled ''active stop has no owned BTC'')) (\<lambda>_.
     ebind (ensure (pn_pending_orders (pl_snapshot l) = [])
       (unreconciled ''stop trigger conflicts with an active order'')) (\<lambda>_.
     let q = stop_request H stop text t (pn_btc_quantity (pl_snapshot l)) in
     ebind (submit_order H B q d) (\<lambda>(d1, x).
     ebind (process_order H B x text t reference None [] d1) (\<lambda>(d2, f).
     ebind (efold (\<lambda>s. deactivate_stop H s text (if pp_stop_id s = pp_stop_id stop then ''TRIGGERED'' else ''CANCELED'')
       (oq_order_id q)) (pl_open_stops l) d2) (\<lambda>d3. Inr (d3, f))))))"

definition stop_body ::
  "sha256 \<Rightarrow> broker \<Rightarrow> string \<Rightarrow> instant \<Rightarrow> pyfloat \<Rightarrow> pyfloat \<Rightarrow> db \<Rightarrow> (db \<times> paper_fill option) res" where
  "stop_body H B text t open_value low d =
     ebind (build_ledger H d) (\<lambda>l.
     case last_stop (filter (\<lambda>s. pp_active_after_utc s \<le> t) (pl_open_stops l)) of
       None \<Rightarrow> Inr (d, None)
     | Some stop \<Rightarrow> (case stop_reference stop open_value low of
           None \<Rightarrow> Inr (d, None)
         | Some reference \<Rightarrow> trigger_stop H B l stop reference text t d))"

definition process_intrabar_stop ::
  "sha256 \<Rightarrow> broker \<Rightarrow> timestamp \<Rightarrow> pyval \<Rightarrow> pyval \<Rightarrow> store \<Rightarrow> store \<times> paper_fill option res" where
  "process_intrabar_stop H B candle_at open_price low_price =
     with_args
       (ebind (paper_timestamp candle_at) (\<lambda>(text, t).
        ebind (require_boundary t ''stop candle'') (\<lambda>_.
        ebind (positive_arg open_price ''open price'') (\<lambda>o1.
        ebind (positive_arg low_price ''low price'') (\<lambda>low.
        ebind (ensure (\<not> o1 < low) (ValueError ''low price cannot exceed open price'')) (\<lambda>_.
        Inr (text, t, o1, low)))))))
       (\<lambda>(text, t, o1, low). transaction H (stop_body H B text t o1 low))"

section \<open>Stops\<close>

record stop_request_args =
  sq_text :: string
  sq_time :: instant
  sq_active_text :: string
  sq_active_time :: instant
  sq_price :: pyfloat
  sq_reason :: string
  sq_source :: "string option"

definition read_stop_args ::
  "timestamp \<Rightarrow> pyval \<Rightarrow> timestamp option \<Rightarrow> string \<Rightarrow> string option \<Rightarrow> stop_request_args res" where
  "read_stop_args observed_at price active_after reason source =
     ebind (paper_timestamp observed_at) (\<lambda>(text, t).
     ebind (require_boundary t ''stop observation'') (\<lambda>_.
     ebind (next_boundary t) (\<lambda>required.
     ebind (case active_after of
         None \<Rightarrow> Inr (iso_z required, required)
       | Some a \<Rightarrow> ebind (paper_timestamp a) (\<lambda>(active_text, active).
           if active = t \<or> active = required then Inr (active_text, active)
           else Inl (ValueError ''stop active time must be the fill boundary or next four-hour boundary''))) (\<lambda>(active_text, active).
     ebind (positive_arg price ''stop price'') (\<lambda>p.
     ebind (reason_arg reason) (\<lambda>r.
     Inr \<lparr> sq_text = text, sq_time = t, sq_active_text = active_text, sq_active_time = active, sq_price = p,
           sq_reason = r, sq_source = source \<rparr>))))))"

text \<open>The entry that the stop protects, and the conditions of a stop at the fill boundary.\<close>

definition stop_source :: "stop_request_args \<Rightarrow> paper_ledger \<Rightarrow> string res" where
  "stop_source a l =
     ebind (case sq_source a of Some s \<Rightarrow> text_arg s ''stop source id'' | None \<Rightarrow> open_entry_identity (pl_fills l)) (\<lambda>source.
     ebind (open_entry_identity (pl_fills l)) (\<lambda>current.
     ebind (ensure (source = current) (ValueError ''stop source must be the currently open paper entry'')) (\<lambda>_.
     ebind (ensure (sq_active_time a \<noteq> sq_time a
         \<or> (sq_reason a = ''HARD_STOP'' \<and> pl_active_stop l = None
            \<and> (case filter (\<lambda>f. pf_order_id f = source \<and> pf_side f = ''BUY'') (pl_fills l) of
                 [f] \<Rightarrow> pf_fill_time f = sq_time a | _ \<Rightarrow> False)))
       (ValueError ''fill-boundary stop requires the current entry fill and initial hard stop'')) (\<lambda>_. Inr source))))"

definition stop_candidate :: "sha256 \<Rightarrow> broker \<Rightarrow> stop_request_args \<Rightarrow> string \<Rightarrow> paper_stop" where
  "stop_candidate H B a source = \<lparr> pp_stop_id = stop_identity H source (sq_text a) (sq_reason a), pp_stop_price = sq_price a,
     pp_reason = sq_reason a, pp_observed_at_utc = sq_time a, pp_active_after_utc = sq_active_time a,
     pp_source_id = source, pp_fee_rate = br_fee_rate B, pp_slippage_rate = br_slippage_rate B \<rparr>"

definition same_stop :: "paper_stop \<Rightarrow> paper_stop \<Rightarrow> bool" where
  "same_stop a b \<longleftrightarrow> pp_stop_id a = pp_stop_id b \<and> exact (pp_stop_price a) (pp_stop_price b) \<and> pp_reason a = pp_reason b
     \<and> pp_observed_at_utc a = pp_observed_at_utc b \<and> pp_active_after_utc a = pp_active_after_utc b
     \<and> pp_source_id a = pp_source_id b"

definition write_stop :: "sha256 \<Rightarrow> stop_request_args \<Rightarrow> paper_stop \<Rightarrow> db \<Rightarrow> db res" where
  "write_stop H a c = write_event H (stop_set_id H (pp_stop_id c)) ''PAPER_STOP'' (TsText (sq_text a))
     [(''action'', JStr ''SET''), (''active_after_utc'', JStr (sq_active_text a)), (''fee_rate'', JFloat (pp_fee_rate c)),
      (''reason'', JStr (pp_reason c)), (''source_id'', JStr (pp_source_id c)), (''stop_id'', JStr (pp_stop_id c)),
      (''stop_price'', JFloat (pp_stop_price c)), (''slippage_rate'', JFloat (pp_slippage_rate c))]"

definition set_stop_body :: "sha256 \<Rightarrow> broker \<Rightarrow> stop_request_args \<Rightarrow> db \<Rightarrow> (db \<times> paper_stop) res" where
  "set_stop_body H B a d =
     ebind (build_ledger H d) (\<lambda>l.
     ebind (stop_source a l) (\<lambda>source.
     let c = stop_candidate H B a source in
     case List.find (\<lambda>e. sv_event_id e = stop_set_id H (pp_stop_id c)) (pn_event_evidence (pl_snapshot l)) of
       Some e \<Rightarrow>
         ebind (stop_from_event H e) (\<lambda>persisted.
         ebind (ensure (same_stop persisted c) (IdempotencyConflictError ''stop identity has conflicting evidence'')) (\<lambda>_.
         Inr (d, persisted)))
     | None \<Rightarrow>
         ebind (ensure (\<not> pn_btc_quantity (pl_snapshot l) \<le> 0) (ValueError ''stop requires owned BTC'')) (\<lambda>_.
         case pl_active_stop l of
           None \<Rightarrow> ebind (write_stop H a c d) (\<lambda>d1. Inr (d1, c))
         | Some s \<Rightarrow>
             ebind (ensure (\<not> dec_of_float (pp_stop_price c) < dec_of_float (pp_stop_price s))
               (ValueError ''protective stop cannot loosen'')) (\<lambda>_.
             if exact (pp_stop_price c) (pp_stop_price s) then Inr (d, s)
             else ebind (write_stop H a c d) (\<lambda>d1. Inr (d1, c))))))"

definition set_stop ::
  "sha256 \<Rightarrow> broker \<Rightarrow> timestamp \<Rightarrow> pyval \<Rightarrow> timestamp option \<Rightarrow> string \<Rightarrow> string option \<Rightarrow> store \<Rightarrow> store \<times> paper_stop res" where
  "set_stop H B observed_at price active_after reason source =
     with_args (read_stop_args observed_at price active_after reason source)
       (\<lambda>a. transaction H (set_stop_body H B a))"

section \<open>Views and observations\<close>

definition active_stop :: "sha256 \<Rightarrow> store \<Rightarrow> paper_stop option res" where
  "active_stop H st = ebind (store_ledger H st) (\<lambda>l. Inr (pl_active_stop l))"

definition position_observation :: "sha256 \<Rightarrow> string \<Rightarrow> store \<Rightarrow> stored_event option res" where
  "position_observation H order_id st =
     ebind (store_ledger H st) (\<lambda>l. Inr (map_of (pl_position_observations l) order_id))"

definition is_hard_stop_of :: "string \<Rightarrow> stored_event \<Rightarrow> bool" where
  "is_hard_stop_of order_id e \<longleftrightarrow> sv_event_type e = ''PAPER_STOP''
     \<and> map_of (sv_payload e) ''action'' = Some (JStr ''SET'') \<and> map_of (sv_payload e) ''source_id'' = Some (JStr order_id)
     \<and> map_of (sv_payload e) ''reason'' = Some (JStr ''HARD_STOP'')"

definition initial_stop :: "sha256 \<Rightarrow> string \<Rightarrow> store \<Rightarrow> pyfloat option res" where
  "initial_stop H order_id st =
     ebind (store_ledger H st) (\<lambda>l. case List.find (is_hard_stop_of order_id) (pn_event_evidence (pl_snapshot l)) of
       None \<Rightarrow> Inr None | Some e \<Rightarrow> ebind (json_float (field (sv_payload e) ''stop_price'')) (\<lambda>x. Inr (Some x)))"

definition order :: "sha256 \<Rightarrow> string \<Rightarrow> store \<Rightarrow> paper_order res" where
  "order H order_id st =
     ebind (text_arg order_id ''order id'') (\<lambda>i.
     ebind (store_ledger H st) (\<lambda>l. case find_paper i (pl_orders l) of
       None \<Rightarrow> Inl (ValueError (''unknown order id: '' @ i)) | Some x \<Rightarrow> Inr x))"

definition reconcile :: "sha256 \<Rightarrow> store \<Rightarrow> paper_reconciliation res" where
  "reconcile H st = ebind (store_ledger H st) (\<lambda>l.
     Inr \<lparr> pr_cash = pn_cash (pl_snapshot l), pr_btc_quantity = pn_btc_quantity (pl_snapshot l),
       pr_equity = pn_equity (pl_snapshot l), pr_position_state = pn_position_state (pl_snapshot l),
       pr_active_orders = sort_orders (filter is_active (pl_orders l)), pr_fills = pl_fills l,
       pr_completed_trades = pl_trades l, pr_total_fees = pl_total_fees l, pr_total_slippage = pl_total_slippage l,
       pr_active_stop = pl_active_stop l \<rparr>)"

text \<open>
  \<open>observe_position\<close>: the next highs of the open position, pairs of a time and a price as the
  service builds them. The ledger is read again, so that a history with a gap is rolled back.
\<close>

definition highest :: "(string \<times> pyfloat) list \<Rightarrow> pyfloat" where
  "highest hs = foldl (\<lambda>m h. pmax m (snd h)) (snd (hd hs)) (tl hs)"

definition observe_body ::
  "sha256 \<Rightarrow> string \<Rightarrow> (string \<times> pyfloat) list \<Rightarrow> pyfloat \<Rightarrow> db \<Rightarrow> (db \<times> unit) res" where
  "observe_body H order_id highs initial d =
     ebind (build_ledger H d) (\<lambda>l.
     let prior = map_of (pl_position_observations l) order_id in
     case List.find (\<lambda>f. pf_order_id f = order_id) (pl_fills l) of
       None \<Rightarrow> Inl (OtherError ''StopIteration'')
     | Some f \<Rightarrow>
         if highs = [] then Inl IndexError
         else
           ebind (evidence_timestamp (fst (last highs))) (\<lambda>(_, t).
           ebind (case prior of None \<Rightarrow> Inr (highest highs)
              | Some e \<Rightarrow> ebind (json_float (field (sv_payload e) ''high_water'')) (\<lambda>h. Inr (pmax (highest highs) h))) (\<lambda>high.
           ebind (write_event H (position_observation_id H order_id t) ''PAPER_POSITION'' (TsDatetime (utc t))
             [(''version'', JInt 1), (''order_id'', JStr order_id), (''fill_id'', JStr (pf_fill_id f)),
              (''previous_event_id'', reason_json (map_option sv_event_id prior)), (''initial_stop'', JFloat initial),
              (''high_water'', JFloat high),
              (''candle_highs'', JList (map (\<lambda>h. JList [JStr (fst h), JFloat (snd h)]) highs))] d) (\<lambda>d1.
           ebind (build_ledger H d1) (\<lambda>_. Inr (d1, ()))))))"

definition observe_position ::
  "sha256 \<Rightarrow> string \<Rightarrow> (string \<times> pyfloat) list \<Rightarrow> pyfloat \<Rightarrow> store \<Rightarrow> store \<times> unit res" where
  "observe_position H order_id highs initial = transaction H (observe_body H order_id highs initial)"

end
