(* ===== verification/Paper_Samples.thy ===== *)
theory Paper_Samples
  imports Store_Samples PaperBroker
begin

text \<open>
  A concrete history for the witnesses: an entry that was filled at the next open, and the hard
  stop that was set at that open. The payloads are those that the broker writes.
\<close>

definition sample_broker :: broker where
  "sample_broker = \<lparr> br_fee_rate = 0, br_slippage_rate = 0, br_fault_hook = (\<lambda>_. None) \<rparr>"

text \<open>\<open>2024-01-01T00:00:00Z\<close>, and four hours later.\<close>

definition sample_signal :: instant where "sample_signal = 1704067200000000"

definition sample_open :: instant where "sample_open = sample_signal + FOUR_HOURS"

definition sample_request :: order_request where
  "sample_request = market_request sample_sha sample_broker (iso_z sample_signal) sample_signal ''BUY'' 1 ''ENTRY'' None sample_open"

definition sample_order :: paper_order where "sample_order = accepted_order sample_request"

definition sample_fill_request :: fill_request where
  "sample_fill_request = \<lparr> fq_order = sample_order, fq_candle_text = iso_z sample_open, fq_candle_time = sample_open,
     fq_reference = flit 50 1, fq_price = flit 50 1 \<rparr>"

definition sample_fill_id :: string where
  "sample_fill_id = fill_identity sample_sha (po_order_id sample_order) (iso_z sample_open) 1"

definition sample_stop :: paper_stop where
  "sample_stop = \<lparr> pp_stop_id = ''paper-stop:0'', pp_stop_price = Fin (5, 3), pp_reason = ''HARD_STOP'',
     pp_observed_at_utc = 1704081600000000, pp_active_after_utc = 1704081600000000, pp_source_id = ''paper-order:0'',
     pp_fee_rate = 0, pp_slippage_rate = 0 \<rparr>"

definition sample_created :: stored_event where
  "sample_created = \<lparr> sv_sequence = 1, sv_event_id = ''order-created:0'', sv_event_type =
     ''ORDER_CREATED'', sv_occurred_at_utc = 1704067200000000, sv_payload = [(''filled_quantity'', JFloat
     (Fin (0, 0))), (''idempotency_key'', JStr ''KRW-BTC:2024-01-01T00:00:00Z:BUY:ENTRY:ROOT''),
     (''order_id'', JStr ''paper-order:0''), (''requested_quantity'', JFloat (Fin (1, 0))), (''side'', JStr
     ''BUY''), (''status'', JStr ''CREATED'')] \<rparr>"

definition sample_submitted :: stored_event where
  "sample_submitted = \<lparr> sv_sequence = 2, sv_event_id = ''order-status:0'', sv_event_type =
     ''ORDER_STATUS'', sv_occurred_at_utc = 1704067200000000, sv_payload = [(''idempotency_key'', JStr
     ''KRW-BTC:2024-01-01T00:00:00Z:BUY:ENTRY:ROOT:submitted''), (''order_id'', JStr ''paper-order:0''),
     (''reason'', JNull), (''status'', JStr ''SUBMITTED'')] \<rparr>"

definition sample_accepted :: stored_event where
  "sample_accepted = \<lparr> sv_sequence = 3, sv_event_id = ''order-status:0'', sv_event_type =
     ''ORDER_STATUS'', sv_occurred_at_utc = 1704067200000000, sv_payload = [(''idempotency_key'', JStr
     ''KRW-BTC:2024-01-01T00:00:00Z:BUY:ENTRY:ROOT:accepted''), (''order_id'', JStr ''paper-order:0''),
     (''reason'', JNull), (''status'', JStr ''ACCEPTED'')] \<rparr>"

definition sample_order_meta :: stored_event where
  "sample_order_meta = \<lparr> sv_sequence = 4, sv_event_id = ''paper-order-meta:0'', sv_event_type =
     ''PAPER_ORDER'', sv_occurred_at_utc = 1704067200000000, sv_payload = [(''idempotency_key'', JStr
     ''KRW-BTC:2024-01-01T00:00:00Z:BUY:ENTRY:ROOT''), (''eligible_open_utc'', JStr
     ''2024-01-01T04:00:00Z''), (''fee_rate'', JFloat (Fin (0, 0))), (''order_id'', JStr ''paper-order:0''),
     (''order_kind'', JStr ''MARKET''), (''parent_order_id'', JNull), (''reason'', JStr ''ENTRY''),
     (''requested_quantity'', JFloat (Fin (1, 0))), (''side'', JStr ''BUY''), (''signal_at_utc'', JStr
     ''2024-01-01T00:00:00Z''), (''slippage_rate'', JFloat (Fin (0, 0)))] \<rparr>"

definition sample_raw_fill :: stored_event where
  "sample_raw_fill = \<lparr> sv_sequence = 5, sv_event_id = ''paper-fill:0'', sv_event_type = ''FILL'',
     sv_occurred_at_utc = 1704081600000000, sv_payload = [(''fee'', JFloat (Fin (0, 0))), (''order_id'', JStr
     ''paper-order:0''), (''price'', JFloat (Fin (25, 1))), (''quantity'', JFloat (Fin (1, 0))), (''side'',
     JStr ''BUY'')] \<rparr>"

definition sample_completed :: stored_event where
  "sample_completed = \<lparr> sv_sequence = 6, sv_event_id = ''order-status:0'', sv_event_type =
     ''ORDER_STATUS'', sv_occurred_at_utc = 1704081600000000, sv_payload = [(''idempotency_key'', JStr
     ''KRW-BTC:2024-01-01T00:00:00Z:BUY:ENTRY:ROOT:completed:2024-01-01T04:00:00Z''), (''order_id'', JStr
     ''paper-order:0''), (''reason'', JStr ''ENTRY''), (''status'', JStr ''COMPLETED'')] \<rparr>"

definition sample_fill_meta :: stored_event where
  "sample_fill_meta = \<lparr> sv_sequence = 7, sv_event_id = ''paper-fill-meta:0'', sv_event_type =
     ''PAPER_FILL'', sv_occurred_at_utc = 1704081600000000, sv_payload = [(''fee'', JFloat (Fin (0, 0))),
     (''fee_rate'', JFloat (Fin (0, 0))), (''fill_id'', JStr ''paper-fill:0''), (''fill_price'', JFloat (Fin
     (25, 1))), (''order_id'', JStr ''paper-order:0''), (''quantity'', JFloat (Fin (1, 0))), (''reason'',
     JStr ''ENTRY''), (''reference_price'', JFloat (Fin (25, 1))), (''side'', JStr ''BUY''), (''slippage'',
     JFloat (Fin (0, 0))), (''slippage_rate'', JFloat (Fin (0, 0)))] \<rparr>"

definition sample_stop_set :: stored_event where
  "sample_stop_set = \<lparr> sv_sequence = 8, sv_event_id = ''paper-stop-set:0'', sv_event_type =
     ''PAPER_STOP'', sv_occurred_at_utc = 1704081600000000, sv_payload = [(''action'', JStr ''SET''),
     (''active_after_utc'', JStr ''2024-01-01T04:00:00Z''), (''fee_rate'', JFloat (Fin (0, 0))), (''reason'',
     JStr ''HARD_STOP''), (''source_id'', JStr ''paper-order:0''), (''stop_id'', JStr ''paper-stop:0''),
     (''stop_price'', JFloat (Fin (5, 3))), (''slippage_rate'', JFloat (Fin (0, 0)))] \<rparr>"

definition sample_evidence :: "stored_event list" where
  "sample_evidence = [sample_created, sample_submitted, sample_accepted, sample_order_meta, sample_raw_fill,
     sample_completed, sample_fill_meta, sample_stop_set]"

definition sample_paper_snapshot :: paper_snapshot where
  "sample_paper_snapshot = (initial_snapshot sample_sha)\<lparr> pn_cash := flit 50 1, pn_btc_quantity := 1,
     pn_position_state := LONG, pn_event_evidence := sample_evidence \<rparr>"

text \<open>The ledger of the history, its stages evaluated one by one.\<close>

definition sample_bought :: paper_order where
  "sample_bought = \<lparr> po_order_id = ''paper-order:0'', po_idempotency_key = ''KRW-BTC:2024-01-01T00:00:00Z:BUY:ENTRY:ROOT'',
     po_side = ''BUY'', po_reason = ''ENTRY'', po_signal_at_utc = 1704067200000000, po_requested_quantity = 1,
     po_filled_quantity = 1, po_remainder_quantity = 0, po_status = COMPLETED, po_order_kind = ''MARKET'',
     po_parent_order_id = None, po_eligible_open_utc = 1704081600000000, po_fee_rate = 0, po_slippage_rate = 0,
     po_execution_context = None \<rparr>"

definition sample_fill :: paper_fill where
  "sample_fill = \<lparr> pf_fill_id = ''paper-fill:0'', pf_order_id = ''paper-order:0'', pf_side = ''BUY'', pf_reason = ''ENTRY'',
     pf_quantity = 1, pf_reference_price = Fin (25, 1), pf_fill_price = Fin (25, 1), pf_fee = 0, pf_slippage = 0,
     pf_fill_time = 1704081600000000 \<rparr>"

definition sample_scan :: paper_scan where
  "sample_scan = \<lparr> sk_created = [(''paper-order:0'', sample_created)],
     sk_statuses = [(''paper-order:0'', sample_submitted), (''paper-order:0'', sample_accepted), (''paper-order:0'', sample_completed)],
     sk_fills = [(''paper-order:0'', sample_raw_fill)], sk_order_meta = [(''paper-order:0'', sample_order_meta)],
     sk_fill_meta = [(''paper-fill:0'', sample_fill_meta)], sk_contexts = [], sk_executions = [],
     sk_active_stop = Some sample_stop, sk_known_stops = [sample_stop], sk_open_stops = [sample_stop],
     sk_stop_sets = [(''paper-stop:0'', sample_stop_set)], sk_terminals = [] \<rparr>"

definition sample_balance :: paper_balance where
  "sample_balance = \<lparr> pb_cash = Dec (5, 1), pb_btc = Dec (1, 0), pb_fees = 0, pb_slippage = 0, pb_fills = [sample_fill] \<rparr>"

lemma sample_scanned: "efold (scan_event sample_sha) sample_evidence empty_scan = Inr sample_scan"
  by code_simp

lemma sample_read: "emap (read_order sample_sha sample_scan) (sk_order_meta sample_scan) = Inr [sample_bought]"
  by code_simp

lemma sample_found [simp]:
  "find_paper ''paper-order:0'' [sample_bought] = Some sample_bought" "po_order_id sample_bought = ''paper-order:0''"
  by (simp_all add: find_paper_def sample_bought_def)

lemma sample_fields [simp]:
  "po_side sample_bought = ''BUY''" "po_status sample_bought = COMPLETED" "po_filled_quantity sample_bought = 1"
  "po_parent_order_id sample_bought = None" "po_order_kind sample_bought = ''MARKET''" "po_execution_context sample_bought = None"
  "pp_stop_id sample_stop = ''paper-stop:0''" "pp_reason sample_stop = ''HARD_STOP''" "pp_source_id sample_stop = ''paper-order:0''"
  "pp_observed_at_utc sample_stop = 1704081600000000" "pp_active_after_utc sample_stop = 1704081600000000"
  "sv_sequence sample_stop_set = 8"
  "sk_created sample_scan = [(''paper-order:0'', sample_created)]" "sk_fills sample_scan = [(''paper-order:0'', sample_raw_fill)]"
  "sk_fill_meta sample_scan = [(''paper-fill:0'', sample_fill_meta)]" "sk_contexts sample_scan = []" "sk_executions sample_scan = []"
  "sk_active_stop sample_scan = Some sample_stop" "sk_known_stops sample_scan = [sample_stop]"
  "sk_open_stops sample_scan = [sample_stop]" "sk_stop_sets sample_scan = [(''paper-stop:0'', sample_stop_set)]"
  "sk_terminals sample_scan = []"
  by (simp_all add: sample_bought_def sample_stop_def sample_stop_set_def sample_scan_def)

lemma sample_bindings:
  "check_contexts sample_sha sample_evidence sample_scan [sample_bought] = Inr ()"
  "check_executions sample_sha sample_evidence sample_scan [sample_bought] = Inr ()"
  "efold (\<lambda>x _. check_parent sample_evidence sample_scan [sample_bought] x) [sample_bought] () = Inr ()"
  "check_children [sample_bought] = Inr ()"
  by (simp_all add: check_contexts_def check_executions_def check_parent_def check_children_def is_paper_order_def)

lemma sample_fill_ids: "map fst (sk_fill_meta sample_scan) = paper_fill_ids sample_scan [sample_bought]"
  by (simp add: paper_fill_ids_def sample_raw_fill_def)

text \<open>The numbers of the fill, and the fill itself.\<close>

lemma sample_numbers:
  "payload_number (sv_payload sample_raw_fill) ''quantity'' = Inr 1"
  "payload_number (sv_payload sample_raw_fill) ''price'' = Inr (Fin (25, 1))"
  "payload_number (sv_payload sample_raw_fill) ''fee'' = Inr 0"
  "payload_text (sv_payload sample_raw_fill) ''side'' = Inr ''BUY''"
  "payload_text (sv_payload sample_raw_fill) ''order_id'' = Inr ''paper-order:0''"
  by (simp_all add: sample_raw_fill_def payload_number_def payload_text_def one_pyfloat_def zero_pyfloat_def)

lemma sample_decimals [simp]: "dec_of_float 1 = Dec (1, 0)" "dec_of_float (Fin (25, 1)) = Dec (5, 1)"
  by code_simp+

lemma sample_fill_read: "paper_fill_from_evidence sample_sha sample_raw_fill sample_fill_meta sample_bought = Inr sample_fill"
  by code_simp

lemma sample_moved:
  "move_balance ''BUY'' (Dec (1, 0)) (Dec (5, 1)) 0 empty_balance = Inr (sample_balance\<lparr> pb_fills := [] \<rparr>)"
  by code_simp

lemma sample_balanced: "efold (balance_fill sample_sha sample_scan [sample_bought]) (sk_fills sample_scan) empty_balance = Inr sample_balance"
proof -
  have "fill_meta_of (sk_fill_meta sample_scan) sample_raw_fill = Some sample_fill_meta"
    by (simp add: fill_meta_of_def sample_raw_fill_def)
  moreover have "check_bound_fill sample_scan sample_bought sample_raw_fill q p empty_balance = Inr ()" for q p
    by (simp add: check_bound_fill_def)
  moreover have "(0 :: decimal) + 0 = 0" by code_simp
  ultimately have "balance_fill sample_sha sample_scan [sample_bought] (''paper-order:0'', sample_raw_fill) empty_balance
      = Inr sample_balance"
    by (simp add: balance_fill_def sample_numbers sample_moved sample_fill_read)
      (simp add: sample_balance_def sample_fill_def)
  then show ?thesis by simp
qed

lemma sample_reconciled:
  "feq (float_of_dec (pb_cash sample_balance)) (pn_cash sample_paper_snapshot)"
  "feq (float_of_dec (pb_btc sample_balance)) (pn_btc_quantity sample_paper_snapshot)"
  by code_simp+

lemma sample_position:
  "check_projection sample_paper_snapshot [sample_bought] = Inr ()"
  "filter is_active [sample_bought] = []"
  "sort_fills sample_scan (pb_fills sample_balance) = [sample_fill]"
  "completed_trades [sample_fill] = Inr []"
  "check_reservation [] (pb_btc sample_balance) (sk_active_stop sample_scan) = Inr ()"
  "check_position_state sample_paper_snapshot sample_scan [sample_bought] [] (pb_btc sample_balance) = Inr ()"
  by (simp_all add: check_projection_def is_active_def ACTIVE_def sample_paper_snapshot_def
      initial_snapshot_def sort_fills_def sample_balance_def completed_trades_def trade_step_def sample_fill_def
      check_reservation_def check_position_state_def derived_position_def dsum_def bval_def)

lemma sample_inventory:
  "before_sequence 8 sample_evidence = [sample_raw_fill]"
  by (simp add: before_sequence_def sample_evidence_def sample_created_def sample_submitted_def sample_accepted_def
      sample_order_meta_def sample_raw_fill_def sample_completed_def sample_fill_meta_def sample_stop_set_def)

lemma sample_stops:
  "efold (\<lambda>c _. check_stop sample_evidence sample_scan [sample_bought] [sample_fill] c) (sk_known_stops sample_scan) () = Inr ()"
  "check_terminals sample_evidence sample_scan [sample_bought] = Inr ()"
proof -
  have "paper_source_at_sequence 8 sample_evidence [sample_bought] = Inr (Some ''paper-order:0'')"
    by (simp add: paper_source_at_sequence_def sample_inventory source_event_def sample_numbers source_step_def)
  moreover have "check_boundary_stop sample_scan [sample_fill] sample_stop sample_stop_set = Inr ()"
    by (simp add: check_boundary_stop_def sample_fill_def events_of_def fill_meta_of_def sample_raw_fill_def
        sample_fill_meta_def)
  moreover have "\<not> (1 :: pyfloat) \<le> 0" by code_simp
  ultimately show "efold (\<lambda>c _. check_stop sample_evidence sample_scan [sample_bought] [sample_fill] c) (sk_known_stops sample_scan) () = Inr ()"
    by (simp add: check_stop_def)
  show "check_terminals sample_evidence sample_scan [sample_bought] = Inr ()"
    by (simp add: check_terminals_def)
qed

lemma sample_observations: "validated_position_observations sample_sha sample_evidence [sample_bought] [sample_fill] = Inr []"
  by code_simp

definition sample_ledger :: paper_ledger where
  "sample_ledger = \<lparr> pl_snapshot = sample_paper_snapshot, pl_orders = [sample_bought], pl_active_orders = [],
     pl_fills = [sample_fill], pl_trades = [], pl_active_stop = Some sample_stop, pl_open_stops = [sample_stop],
     pl_total_fees = 0, pl_total_slippage = 0, pl_position_observations = [] \<rparr>"

lemma sample_ledger: "ledger_of sample_sha sample_paper_snapshot = Inr sample_ledger"
proof -
  have e: "pn_event_evidence sample_paper_snapshot = sample_evidence"
    by (simp add: sample_paper_snapshot_def)
  have z: "float_of_dec (pb_fees sample_balance) = 0" "float_of_dec (pb_slippage sample_balance) = 0"
    by code_simp+
  show ?thesis
    unfolding ledger_of_def Let_def e sample_scanned ebind_Inr sample_read sample_bindings sample_fill_ids
      sample_balanced sample_position sample_stops sample_observations ensure_def
    using z by (simp add: sample_reconciled sample_ledger_def sort_orders_def)
qed

end
