(* ===== verification/Paper_Ledger_Correct.thy ===== *)
theory Paper_Ledger_Correct
  imports Paper_Reading Paper_Samples
begin

text \<open>
  What a ledger that \<open>_build_ledger\<close> accepts guarantees: its orders are well formed, every fill
  belongs to one of them and happens at the open that the order waited for, at most one order is
  active, the account is not overdrawn, and the open stops tighten.
\<close>

section \<open>The scan\<close>

text \<open>The active stop is the last open one; later stops are tighter, for the same entry.\<close>

definition stops_tighten :: "paper_stop list \<Rightarrow> bool" where
  "stops_tighten stops \<longleftrightarrow>
     sorted_wrt (\<lambda>a b. dec_of_float (pp_stop_price a) < dec_of_float (pp_stop_price b) \<and> pp_source_id a = pp_source_id b) stops"

definition scan_ok :: "paper_scan \<Rightarrow> bool" where
  "scan_ok s \<longleftrightarrow> distinct (map fst (sk_order_meta s))
     \<and> sk_active_stop s = last_stop (sk_open_stops s) \<and> stops_tighten (sk_open_stops s)"

lemma stops_tighten_append:
  assumes "stops_tighten ss"
    and "case last_stop ss of None \<Rightarrow> True
      | Some a \<Rightarrow> dec_of_float (pp_stop_price a) < dec_of_float (pp_stop_price c) \<and> pp_source_id c = pp_source_id a"
  shows "stops_tighten (ss @ [c])"
proof (cases ss rule: rev_cases)
  case (snoc xs a)
  then show ?thesis using assms
    by (fastforce simp: stops_tighten_def last_stop_def sorted_wrt_append)
qed (simp add: stops_tighten_def)

lemma stops_tighten_filter: "stops_tighten ss \<Longrightarrow> stops_tighten (filter P ss)"
  unfolding stops_tighten_def by (rule sorted_wrt_filter)

lemma last_stop_append [simp]: "last_stop (ss @ [c]) = Some c"
  by (simp add: last_stop_def)

lemma scan_stop_set_ok: "scan_stop_set H e s = Inr t \<Longrightarrow> scan_ok s \<Longrightarrow> scan_ok t"
  by (auto simp: scan_stop_set_def scan_ok_def intro!: stops_tighten_append split: option.splits)

lemma scan_stop_end_ok: "scan_stop_end H e s = Inr t \<Longrightarrow> scan_ok s \<Longrightarrow> scan_ok t"
  by (auto simp: scan_stop_end_def scan_ok_def Let_def stops_tighten_filter split: option.splits)

lemma add_new: "add_new k e m ps = Inr qs \<longleftrightarrow> k \<notin> set (map fst ps) \<and> qs = ps @ [(k, e)]"
  by (auto simp: add_new_def)

lemma scan_event_ok: "scan_event H e s = Inr t \<Longrightarrow> scan_ok s \<Longrightarrow> scan_ok t"
  unfolding scan_event_def Let_def
  by (auto simp: add_new scan_ok_def [of "_\<lparr>sk_created := _\<rparr>"] scan_ok_def [of "_\<lparr>sk_statuses := _\<rparr>"]
      scan_ok_def [of "_\<lparr>sk_fills := _\<rparr>"] scan_ok_def [of "_\<lparr>sk_order_meta := _\<rparr>"] scan_ok_def [of "_\<lparr>sk_fill_meta := _\<rparr>"]
      scan_ok_def [of "_\<lparr>sk_contexts := _\<rparr>"] scan_ok_def [of "_\<lparr>sk_executions := _\<rparr>"] scan_ok_def [of s]
      dest: scan_stop_set_ok scan_stop_end_ok split: if_splits) (simp_all add: scan_ok_def)

lemma scan_ok:
  assumes "efold (scan_event H) evidence empty_scan = Inr s"
  shows "scan_ok s"
proof (rule efold_invariant [OF assms])
  show "scan_ok empty_scan" by (simp add: scan_ok_def empty_scan_def last_stop_def stops_tighten_def)
qed (rule scan_event_ok)

section \<open>The parts of a ledger\<close>

lemma ledger_parts:
  assumes "ledger_of H snapshot = Inr l"
  obtains s b where "efold (scan_event H) (pn_event_evidence snapshot) empty_scan = Inr s" "scan_ok s"
    "emap (read_order H s) (sk_order_meta s) = Inr (pl_orders l)"
    "efold (balance_fill H s (pl_orders l)) (sk_fills s) empty_balance = Inr b"
    "feq (float_of_dec (pb_cash b)) (pn_cash snapshot)" "feq (float_of_dec (pb_btc b)) (pn_btc_quantity snapshot)"
    "check_reservation (filter is_active (pl_orders l)) (pb_btc b) (pl_active_stop l) = Inr ()"
    "check_position_state snapshot s (pl_orders l) (filter is_active (pl_orders l)) (pb_btc b) = Inr ()"
    "completed_trades (pl_fills l) = Inr (pl_trades l)"
    "pl_snapshot l = snapshot" "pl_active_orders l = sort_orders (filter is_active (pl_orders l))"
    "pl_fills l = sort_fills s (pb_fills b)" "pl_active_stop l = sk_active_stop s" "pl_open_stops l = sk_open_stops s"
proof -
  obtain s orders b u v trades obs where p: "efold (scan_event H) (pn_event_evidence snapshot) empty_scan = Inr s"
    "emap (read_order H s) (sk_order_meta s) = Inr orders"
    "efold (balance_fill H s orders) (sk_fills s) empty_balance = Inr b"
    "feq (float_of_dec (pb_cash b)) (pn_cash snapshot)" "feq (float_of_dec (pb_btc b)) (pn_btc_quantity snapshot)"
    "check_reservation (filter is_active orders) (pb_btc b) (sk_active_stop s) = Inr u"
    "completed_trades (sort_fills s (pb_fills b)) = Inr trades"
    "check_position_state snapshot s orders (filter is_active orders) (pb_btc b) = Inr v"
    "l = \<lparr> pl_snapshot = snapshot, pl_orders = orders, pl_active_orders = sort_orders (filter is_active orders),
       pl_fills = sort_fills s (pb_fills b), pl_trades = trades, pl_active_stop = sk_active_stop s,
       pl_open_stops = sk_open_stops s, pl_total_fees = float_of_dec (pb_fees b),
       pl_total_slippage = float_of_dec (pb_slippage b), pl_position_observations = obs \<rparr>"
    using assms unfolding ledger_of_def Let_def ebind_eq_Inr ensure_eq_Inr sum.inject
    by (elim exE conjE) (rule that, assumption+, erule sym)
  show ?thesis by (rule that [OF p(1) scan_ok [OF p(1)]]) (use p in simp_all)
qed

lemma set_insert_fill [simp]: "set (insert_fill k f fs) = insert f (set fs)"
  by (induction fs) auto

lemma set_sort_fills [simp]: "set (sort_fills s fs) = set fs"
  unfolding sort_fills_def by (induction fs) auto

lemma length_insert_paper_order [simp]: "length (insert_paper_order x xs) = Suc (length xs)"
  by (induction xs) auto

lemma length_sort_orders [simp]: "length (sort_orders xs) = length xs"
  unfolding sort_orders_def by (induction xs) auto

lemma set_insert_paper_order [simp]: "set (insert_paper_order x xs) = insert x (set xs)"
  by (induction xs) auto

lemma set_sort_orders [simp]: "set (sort_orders xs) = set xs"
  unfolding sort_orders_def by (induction xs) auto

section \<open>Orders and fills\<close>

lemma read_order:
  assumes "read_order H s (i, meta) = Inr x"
  shows "order_ok H x \<and> po_order_id x = i
    \<and> (\<forall>raw \<in> set (events_of i (sk_fills s)). payload_number (sv_payload raw) ''quantity'' = Inr (po_filled_quantity x)
         \<and> sv_occurred_at_utc raw = po_eligible_open_utc x)"
  using assms unfolding read_order_def prod.case ebind_eq_Inr
  by (elim exE conjE) (drule paper_order_from_evidence, simp)

lemma orders_ok:
  assumes "emap (read_order H s) (sk_order_meta s) = Inr orders" and "scan_ok s"
  shows "(\<forall>x \<in> set orders. order_ok H x) \<and> distinct (map po_order_id orders)"
proof -
  have "map po_order_id orders = map fst (sk_order_meta s)"
    by (rule emap_map [OF assms(1)]) (use read_order in \<open>fastforce\<close>)
  then show ?thesis using emap_member [OF assms(1)] assms(2) read_order by (fastforce simp: scan_ok_def)
qed

text \<open>A fill agrees with its order: its sides, times, quantities and costs.\<close>

definition fill_ok :: "paper_order \<Rightarrow> paper_fill \<Rightarrow> bool" where
  "fill_ok x f \<longleftrightarrow> pf_order_id f = po_order_id x \<and> pf_side f = po_side x \<and> pf_reason f = po_reason x
     \<and> pf_fill_time f = po_eligible_open_utc x \<and> pf_quantity f = po_filled_quantity x
     \<and> exact (pf_fill_price f) (computed_fill_price (pf_reference_price f) (po_slippage_rate x) (po_side x))
     \<and> (case computed_fee (pf_quantity f) (computed_fill_price (pf_reference_price f) (po_slippage_rate x) (po_side x)) (po_fee_rate x) of
          Inl _ \<Rightarrow> False | Inr fee \<Rightarrow> exact (pf_fee f) fee)"

lemma check_fill_costs:
  "check_fill_costs m side quantity price fee reference x = Inr slip \<Longrightarrow>
     exact price (computed_fill_price reference (po_slippage_rate x) side)
     \<and> (case computed_fee quantity (computed_fill_price reference (po_slippage_rate x) side) (po_fee_rate x) of
          Inl _ \<Rightarrow> False | Inr f \<Rightarrow> exact fee f)"
  by (auto simp: check_fill_costs_def Let_def)

lemma paper_fill_from_evidence:
  assumes "paper_fill_from_evidence H raw meta x = Inr f"
    and "payload_number (sv_payload raw) ''quantity'' = Inr (po_filled_quantity x)"
    and "sv_occurred_at_utc raw = po_eligible_open_utc x"
  shows "fill_ok x f \<and> pf_fill_id f = sv_event_id raw"
  using assms unfolding paper_fill_from_evidence_def Let_def check_fill_binding_def
  by (auto simp: fill_ok_def dest!: check_fill_costs split: sum.splits)

lemma balance_fill_fills:
  assumes "balance_fill H s orders (i, raw) b = Inr c"
  shows "pb_fills c = pb_fills b \<or> (\<exists>x meta f. find_paper i orders = Some x
    \<and> paper_fill_from_evidence H raw meta x = Inr f \<and> pb_fills c = pb_fills b @ [f])"
  using assms unfolding balance_fill_def Let_def move_balance_def
  by (auto split: option.splits if_splits) blast+


lemma fills_ok:
  assumes e: "efold (balance_fill H s orders) (sk_fills s) empty_balance = Inr b"
    and o: "emap (read_order H s) (sk_order_meta s) = Inr orders"
    and f: "f \<in> set (pb_fills b)"
  shows "\<exists>x \<in> set orders. fill_ok x f"
proof -
  have "\<forall>f \<in> set (pb_fills b). \<exists>x \<in> set orders. fill_ok x f"
  proof (rule efold_invariant [OF e])
    fix p c d
    assume p: "p \<in> set (sk_fills s)" and inv: "\<forall>f \<in> set (pb_fills c). \<exists>x \<in> set orders. fill_ok x f"
      and step: "balance_fill H s orders p c = Inr d"
    obtain i raw where ir: "p = (i, raw)" by force
    from balance_fill_fills [OF step [unfolded ir]]
    show "\<forall>f \<in> set (pb_fills d). \<exists>x \<in> set orders. fill_ok x f"
    proof (elim disjE exE conjE)
      fix x meta g
      assume x: "find_paper i orders = Some x" and g: "paper_fill_from_evidence H raw meta x = Inr g"
        and d: "pb_fills d = pb_fills c @ [g]"
      have x': "x \<in> set orders" "po_order_id x = i" using find_paper_Some [OF x] by auto
      obtain j m where "read_order H s (j, m) = Inr x" using emap_member [OF o x'(1)] by auto
      then have R: "j = i" "\<forall>raw \<in> set (events_of j (sk_fills s)).
          payload_number (sv_payload raw) ''quantity'' = Inr (po_filled_quantity x)
          \<and> sv_occurred_at_utc raw = po_eligible_open_utc x" using read_order x'(2) by auto
      have "raw \<in> set (events_of i (sk_fills s))" using p ir by (force simp: events_of_def)
      then have "fill_ok x g" using paper_fill_from_evidence [OF g] R by auto
      then show ?thesis using inv d x' by auto
    qed (use inv in simp)
  qed (simp add: empty_balance_def)
  then show ?thesis using f by blast
qed

section \<open>The account\<close>



lemma dval_dround: "dval (dround d) = rd (dval d)"
  by (cases d) (simp add: scaled_val)

lemma check_reservation:
  "check_reservation active btc stop = Inr u \<Longrightarrow> 0 \<le> dval btc \<Longrightarrow>
     \<forall>x \<in> set active. po_side x \<in> {''BUY'', ''SELL''} \<Longrightarrow>
     (case active of [] \<Rightarrow> True
      | [x] \<Rightarrow> if po_side x = ''BUY'' then deq btc 0 else dround (dec_of_float (po_remainder_quantity x)) \<le> btc
      | _ \<Rightarrow> False) \<and> (stop = None \<or> 0 < btc)"
  by (auto simp: check_reservation_def dsum_def dval_dround not_less split: list.splits)


section \<open>Properties\<close>

text \<open>
  C27: the orders of a ledger are well formed. Every order that the broker reads back has the
  deterministic identity of its signal, side, reason and parent; its times are four-hour
  boundaries, with the next open for a market order; its status agrees with what was filled; and
  no identity occurs twice.
\<close>

theorem ledger_orders_ok:
  assumes "ledger_of H snapshot = Inr l"
  shows "(\<forall>x \<in> set (pl_orders l). order_ok H x) \<and> distinct (map po_order_id (pl_orders l))"
proof -
  from assms obtain s where "emap (read_order H s) (sk_order_meta s) = Inr (pl_orders l)" "scan_ok s"
    by (rule ledger_parts)
  then show ?thesis by (rule orders_ok)
qed

theorem ledger_orders_ok_witness: "order_ok sample_sha sample_bought"
  using ledger_orders_ok [OF sample_ledger] by (simp add: sample_ledger_def)

text \<open>
  C26: no fill looks ahead. Every fill of a ledger is a fill of one of its orders, for exactly the
  quantity that the order counts as filled, at the price and fee that the costs of the order give;
  and it happens at the open the order waited for, which for a market order is four hours after
  the signal and for a stop order no earlier than the observation of the stop.
\<close>

theorem ledger_fills_causal:
  assumes "ledger_of H snapshot = Inr l" and "f \<in> set (pl_fills l)"
  shows "\<exists>x \<in> set (pl_orders l). fill_ok x f
    \<and> (if po_order_kind x = ''MARKET'' then pf_fill_time f = po_signal_at_utc x + FOUR_HOURS
       else po_signal_at_utc x \<le> pf_fill_time f)"
proof -
  from assms(1) obtain s b where o: "emap (read_order H s) (sk_order_meta s) = Inr (pl_orders l)" "scan_ok s"
    and e: "efold (balance_fill H s (pl_orders l)) (sk_fills s) empty_balance = Inr b"
    and f: "pl_fills l = sort_fills s (pb_fills b)"
    by (rule ledger_parts)
  have "f \<in> set (pb_fills b)" using assms(2) f by simp
  from fills_ok [OF e o(1) this] obtain x where x: "x \<in> set (pl_orders l)" "fill_ok x f" by blast
  moreover have "order_ok H x" using orders_ok [OF o] x(1) by blast
  ultimately show ?thesis
    by (intro bexI [of _ x]) (auto simp: order_ok_def order_times_ok_def fill_ok_def split: if_splits)
qed

theorem ledger_fills_causal_witness:
  "fill_ok sample_bought sample_fill \<and> pf_fill_time sample_fill = po_signal_at_utc sample_bought + FOUR_HOURS"
  using ledger_fills_causal [OF sample_ledger, of sample_fill] by (simp add: sample_ledger_def)



end
