(* ===== verification/Paper_Sizes.thy ===== *)
theory Paper_Sizes
  imports PaperEvidence
begin

text \<open>
  The numbers of the paper broker. The loop of \<open>_execution_quantity\<close> walks down the floats one
  by one: a positive float is a significand of 53 bits and an exponent, and no float lies between
  a significand and its predecessor, so that the result is the greatest affordable size. The
  slippage of a fill is adverse: a purchase fills at the reference or above, a sale at it or below.
\<close>

section \<open>Significands\<close>

definition fits :: "int \<Rightarrow> int \<Rightarrow> bool" where
  "fits k q \<longleftrightarrow> 0 \<le> k \<and> k < 2 ^ 53 \<and> - 1074 \<le> q \<and> (2 ^ 52 \<le> k \<or> q = - 1074)"

definition sval :: "int \<Rightarrow> int \<Rightarrow> rat" where
  "sval k q = of_int k * pw 2 q"

lemma rat_float_at [simp]: "rat_of (float_at k q) = sval k q"
  by (simp add: float_at_def sval_def bval_bnorm)

lemma isfinite_float_at [simp]: "isfinite (float_at k q)"
  by (simp add: float_at_def)

lemma float_at_eq: "sval k q = sval l r \<Longrightarrow> float_at k q = float_at l r"
  unfolding float_at_def sval_def
  by (rule arg_cong [of _ _ Fin], rule canon_inj [OF two_le_two]) (simp_all add: canon_bnorm bval_bnorm)

lemma float_at_value: "wf_float y \<Longrightarrow> isfinite y \<Longrightarrow> rat_of y = sval k q \<Longrightarrow> y = float_at k q"
  unfolding isfinite_iff float_at_def sval_def
  by (elim exE, simp, rule canon_inj [OF two_le_two]) (simp_all add: canon_bnorm bval_bnorm)

lemma sval_mono: "k \<le> l \<Longrightarrow> sval k q \<le> sval l q"
  by (simp add: sval_def mult_right_mono)

lemma sval_shift: "sval (2 * k) q = sval k (q + 1)"
  using pw_add [of 2 q 1] by (simp add: sval_def)

text \<open>The predecessor, and that nothing lies between.\<close>

definition below :: "int \<Rightarrow> int \<Rightarrow> int \<times> int" where
  "below k q = (if k = 2 ^ 52 \<and> - 1074 < q then (2 ^ 53 - 1, q - 1) else (k - 1, q))"

lemma below_fits: "fits k q \<Longrightarrow> 0 < k \<Longrightarrow> below k q = (l, r) \<Longrightarrow> fits l r \<and> sval l r \<le> sval k q"
proof -
  assume a: "fits k q" "0 < k" "below k q = (l, r)"
  have "sval (2 ^ 53 - 1) (q - 1) \<le> sval (2 * 2 ^ 52) (q - 1)" by (rule sval_mono) simp
  also have "\<dots> = sval (2 ^ 52) q" unfolding sval_shift by simp
  finally have "sval (2 ^ 53 - 1) (q - 1) \<le> sval (2 ^ 52) q" .
  then show ?thesis using a sval_mono [of "k - 1" k q] by (auto simp: below_def fits_def split: if_splits)
qed

text \<open>A significand of a lower exponent is smaller than every full one.\<close>

lemma lower_exponent: "k < 2 ^ 53 \<Longrightarrow> q < r \<Longrightarrow> sval k q \<le> sval (2 ^ 53 - 1) (r - 1)"
proof -
  assume k: "k < 2 ^ 53" and qr: "q < r"
  have "sval k q \<le> sval (2 ^ 53 - 1) q" by (rule sval_mono) (use k in simp)
  also have "\<dots> \<le> sval (2 ^ 53 - 1) (r - 1)"
    unfolding sval_def by (rule mult_left_mono, rule pw_mono) (use qr in simp_all)
  finally show ?thesis .
qed

lemma half_exponent: "sval (2 ^ 53 - 1) (r - 1) < sval (2 ^ 52) r"
proof -
  have "sval (2 ^ 53 - 1) (r - 1) < sval (2 * 2 ^ 52) (r - 1)"
    unfolding sval_def by (rule mult_strict_right_mono) simp_all
  also have "\<dots> = sval (2 ^ 52) r" unfolding sval_shift by simp
  finally show ?thesis .
qed

lemma no_gap:
  assumes k: "fits k q" "0 < k" and l: "fits l r" and less: "sval l r < sval k q"
    and b: "below k q = (i, j)"
  shows "sval l r \<le> sval i j"
proof -
  have "r \<le> q"
  proof (rule ccontr)
    assume "\<not> r \<le> q"
    then have "2 ^ 52 \<le> l" "q < r" using l k by (auto simp: fits_def)
    then have "sval k q \<le> sval (2 ^ 53 - 1) (r - 1)" "sval (2 ^ 52) r \<le> sval l r"
      using lower_exponent [of k q r] sval_mono [of "2 ^ 52" l r] k by (auto simp: fits_def)
    then show False using less half_exponent [of r] by linarith
  qed
  then consider "r = q" | "r < q" by linarith
  then show ?thesis
  proof cases
    case 1
    have "l < k" by (rule ccontr) (use less 1 sval_mono [of k l q] in simp)
    moreover from this have "k = 2 ^ 52 \<and> - 1074 < q \<longrightarrow> False" using l 1 by (auto simp: fits_def)
    ultimately show ?thesis using b 1 sval_mono [of l "k - 1" q] by (auto simp: below_def split: if_splits)
  next
    case 2
    then have "sval l r \<le> sval (2 ^ 53 - 1) (q - 1)" using lower_exponent [of l r q] l by (simp add: fits_def)
    moreover have "2 ^ 52 \<le> k" "- 1074 < q" using k 2 l by (auto simp: fits_def)
    ultimately show ?thesis using b half_exponent [of q] sval_mono [of "2 ^ 52" "k - 1" q]
      by (cases "k = 2 ^ 52") (auto simp: below_def split: if_splits)
  qed
qed

text \<open>Every nonnegative float of the machine has its significand.\<close>

lemma odd_in_range:
  fixes n m :: int
  assumes "n mod 2 \<noteq> 0" "sval n e = sval m f" "\<bar>m\<bar> \<le> 2 ^ 53"
  shows "f \<le> e \<and> \<bar>n\<bar> < 2 ^ 53"
proof -
  have "f \<le> e"
  proof (rule ccontr)
    assume "\<not> f \<le> e"
    then have d: "0 < f - e" by simp
    then have "pw 2 f = pw 2 e * of_int (2 ^ nat (f - e))" using pw_add [of 2 e "f - e"] pw_nat [of "f - e" 2] by simp
    then have "(of_int n :: rat) = of_int (m * 2 ^ nat (f - e))" using assms(2) by (simp add: sval_def)
    then have "n = m * 2 ^ nat (f - e)" by (simp only: of_int_eq_iff)
    then show False using d assms(1) by simp
  qed
  moreover have "\<bar>n\<bar> \<le> \<bar>m\<bar>"
  proof -
    have "pw 2 e = pw 2 f * of_int (2 ^ nat (e - f))"
      using \<open>f \<le> e\<close> pw_add [of 2 f "e - f"] pw_nat [of "e - f" 2] by simp
    then have "(of_int (n * 2 ^ nat (e - f)) :: rat) = of_int m" using assms(2) by (simp add: sval_def)
    then have "m = n * 2 ^ nat (e - f)" by (simp only: of_int_eq_iff)
    then show ?thesis using mult_left_mono [of 1 "2 ^ nat (e - f)" "\<bar>n\<bar>"] by (simp add: abs_mult)
  qed
  moreover have "\<bar>n\<bar> \<noteq> 2 ^ 53"
  proof
    assume "\<bar>n\<bar> = 2 ^ 53"
    then have "n = 2 ^ 53 \<or> n = - (2 ^ 53)" by linarith
    then show False using assms(1) by auto
  qed
  ultimately show ?thesis using assms(3) by linarith
qed

lemma significand:
  assumes "wf_float x" "isfinite x" "0 < x" and s: "significand x = (k, q)"
  shows "fits k q \<and> rat_of x = sval k q"
proof -
  obtain n e where x: "x = Fin (n, e)" using assms(2) by (cases x) auto
  have n: "0 < n" using assms(3) by (simp add: x less_iff_rat bval_pos_iff)
  have c: "n mod 2 \<noteq> 0" using assms(1) n by (simp add: x canon_def)
  obtain m f where m: "sval n e = sval m f" "\<bar>m\<bar> \<le> 2 ^ 53" "- 1074 \<le> f"
    using assms(1) by (auto simp: x on_grid_def bval_def sval_def)
  have e: "- 1074 \<le> e" "n < 2 ^ 53" using odd_in_range [OF c m(1,2)] m(3) n by auto
  define b where "b = blen 2 n"
  have bn: "2 ^ nat (b - 1) \<le> n" "n < 2 ^ nat b" using blen_bounds [of 2 n] n by (simp_all add: b_def)
  have b53: "b \<le> 53"
  proof (rule ccontr)
    assume "\<not> b \<le> 53"
    then have "(2 :: int) ^ 53 \<le> 2 ^ nat (b - 1)" by (intro power_increasing) auto
    then show False using bn e by simp
  qed
  have b1: "1 \<le> b" using bn n by (cases "b \<le> 0") auto
  have q: "q = max (b + e - 53) (- 1074)" and k: "k = n * 2 ^ nat (e - q)"
    using s by (auto simp: significand_def x b_def Let_def ipow_eq)
  have qe: "q \<le> e" using b53 e q by auto
  have "pw 2 e = of_int (2 ^ nat (e - q)) * pw 2 q" using qe pw_add [of 2 "e - q" q] pw_nat [of "e - q" 2] by simp
  then have v: "sval n e = sval k q" by (simp add: k sval_def)
  have "k < 2 ^ nat b * 2 ^ nat (e - q)" unfolding k by (rule mult_strict_right_mono) (use bn in simp_all)
  also have "\<dots> = 2 ^ (nat b + nat (e - q))" by (simp add: power_add)
  also have "\<dots> \<le> 2 ^ 53" by (rule power_increasing) (use q b1 qe in auto)
  finally have hi: "k < 2 ^ 53" .
  have lo: "2 ^ 52 \<le> k" if "q \<noteq> - 1074"
  proof -
    have "nat (b - 1) + nat (e - q) = 52" using that q b1 qe by auto
    then have "2 ^ 52 = 2 ^ nat (b - 1) * (2 :: int) ^ nat (e - q)" by (metis power_add)
    also have "\<dots> \<le> k" unfolding k by (rule mult_right_mono) (use bn in simp_all)
    finally show ?thesis .
  qed
  have "0 \<le> k" using n by (simp add: k)
  then show ?thesis using hi lo q v by (auto simp: fits_def x bval_def sval_def)
qed

section \<open>The loop\<close>

lemma shrink_step:
  "shrink P k q = (if 0 < k \<and> P (float_at k q) then (case below k q of (l, r) \<Rightarrow> shrink P l r) else float_at k q)"
  by (subst shrink.simps) (simp add: below_def)

text \<open>The result is the greatest float, from the start downwards, that the condition releases.\<close>

lemma shrink:
  assumes "fits k q"
  shows "\<exists>l r. shrink P k q = float_at l r \<and> fits l r \<and> sval l r \<le> sval k q
    \<and> (0 < l \<longrightarrow> \<not> P (float_at l r))
    \<and> (\<forall>i j. fits i j \<and> sval l r < sval i j \<and> sval i j \<le> sval k q
         \<longrightarrow> P (float_at i j))"
  using assms
proof (induction P k q rule: shrink.induct)
  case (1 P k q)
  show ?case
  proof (cases "0 < k \<and> P (float_at k q)")
    case False
    then show ?thesis using 1(3) by (intro exI [of _ k] exI [of _ q]) (auto simp: shrink_step [of P k q] not_le [symmetric])
  next
    case True
    obtain k1 q1 where b: "below k q = (k1, q1)" by force
    have f: "fits k1 q1" "sval k1 q1 \<le> sval k q" using below_fits [OF 1(3) _ b] True by auto
    have s: "shrink P k q = shrink P k1 q1" using True b by (simp add: shrink_step [of P k q])
    have "\<exists>l r. shrink P k1 q1 = float_at l r \<and> fits l r \<and> sval l r \<le> sval k1 q1
        \<and> (0 < l \<longrightarrow> \<not> P (float_at l r))
        \<and> (\<forall>i j. fits i j \<and> sval l r < sval i j \<and> sval i j \<le> sval k1 q1
             \<longrightarrow> P (float_at i j))"
      using 1(1,2) True f(1) b by (auto simp: below_def split: if_splits)
    then obtain l r where lr: "shrink P k1 q1 = float_at l r" "fits l r" "sval l r \<le> sval k1 q1"
      "0 < l \<longrightarrow> \<not> P (float_at l r)"
      and up: "\<And>i j. fits i j \<Longrightarrow> sval l r < sval i j \<Longrightarrow> sval i j \<le> sval k1 q1
        \<Longrightarrow> P (float_at i j)" by blast
    have "P (float_at i j)" if "fits i j" "sval l r < sval i j" "sval i j \<le> sval k q" for i j
    proof (cases "sval i j = sval k q")
      case True
      then show ?thesis using \<open>0 < k \<and> P (float_at k q)\<close> float_at_eq by metis
    next
      case False
      then have "sval i j \<le> sval k1 q1" using that no_gap [OF 1(3) _ that(1) _ b] True by linarith
      then show ?thesis using up that by blast
    qed
    then show ?thesis using lr f s by (intro exI [of _ l] exI [of _ r]) auto
  qed
qed

section \<open>The size at the open\<close>

lemma size_candidates_wf: "size_candidates v = Inr cs \<Longrightarrow> c \<in> set cs \<Longrightarrow> wf_float (snd c)"
  by (auto simp: size_candidates_def) (drule py_div_wf, assumption)+

lemma calculate_size_wf:
  assumes "calculate_size i = Inr d"
  shows "wf_float (sd_quantity d) \<and> isfinite (sd_quantity d)"
proof -
  have "wf_float (sd_quantity (choose_size v cs)) \<and> isfinite (sd_quantity (choose_size v cs))"
    if "size_candidates v = Inr cs" for v cs
    by (rule choose_size_cases [OF refl, of v cs])
       (use size_candidates_wf [OF that] in \<open>auto simp: invalid_size_def\<close>)
  then show ?thesis using assms
    by (auto simp: calculate_size_def invalid_size_def split: option.splits if_splits)
qed

lemma context_size_wf: "context_size c price cash costs = Inr d \<Longrightarrow> wf_float (sd_quantity d) \<and> isfinite (sd_quantity d)"
  by (auto simp: context_size_def dest: calculate_size_wf)

text \<open>A float is affordable when its value and its fee leave the cash at least zero.\<close>

lemma execution_greatest:
  assumes e: "execution_quantity c rate price cash = Inr n"
    and d: "context_size c price cash \<lparr> fee_rate = rate, slippage_rate = 0 \<rparr> = Inr d" and pos: "0 < sd_quantity d"
  shows "isfinite n \<and> 0 \<le> n \<and> n \<le> sd_quantity d \<and> (0 < n \<longrightarrow> \<not> too_expensive price rate cash n)
    \<and> (\<forall>y. wf_float y \<and> isfinite y \<and> n < y \<and> y \<le> sd_quantity d \<longrightarrow> too_expensive price rate cash y)"
proof -
  note wf = context_size_wf [OF d]
  obtain k q where kq: "significand (sd_quantity d) = (k, q)" by force
  have S: "fits k q" "rat_of (sd_quantity d) = sval k q" using significand wf pos kq by auto
  have n: "n = shrink (too_expensive price rate cash) k q" using e d kq pos by (simp add: execution_quantity_def)
  obtain l r where R: "n = float_at l r" "fits l r" "sval l r \<le> sval k q"
    "0 < l \<longrightarrow> \<not> too_expensive price rate cash (float_at l r)"
    and up: "\<And>i j. fits i j \<Longrightarrow> sval l r < sval i j \<Longrightarrow> sval i j \<le> sval k q \<Longrightarrow> too_expensive price rate cash (float_at i j)"
    using shrink [OF S(1), of "too_expensive price rate cash"] n by auto
  have l: "0 \<le> l" using R(2) by (simp add: fits_def)
  have val: "rat_of n = sval l r" "isfinite n" by (simp_all add: R(1))
  have sgn: "0 < n \<longleftrightarrow> 0 < l" "0 \<le> n"
    using l val by (simp_all add: fl_ord sval_def zero_less_mult_iff)
  have "too_expensive price rate cash y" if y: "wf_float y" "isfinite y" "n < y" "y \<le> sd_quantity d" for y
  proof -
    have "0 < y" using sgn(2) y(3) by (rule le_less_trans_float)
    obtain i j where ij: "significand y = (i, j)" by force
    have Y: "fits i j" "rat_of y = sval i j" using significand [OF y(1,2) \<open>0 < y\<close> ij] by auto
    have "y = float_at i j" by (rule float_at_value [OF y(1,2) Y(2)])
    then show ?thesis using up [OF Y(1)] y Y S(2) val wf by (simp add: fl_ord)
  qed
  then show ?thesis using R sgn val S(2) wf by (auto simp: fl_ord)
qed

text \<open>
  C29: the sizing loop of a bound entry ends with the greatest affordable size. Whenever the sizer
  decides on a positive size at the open, the walk down the floats returns; its result is between
  zero and the decided size, its value and its fee fit the cash when it is above zero, and no
  machine float between the result and the decided size would have been affordable.
\<close>

theorem execution_quantity_greatest:
  assumes d: "context_size c price cash \<lparr> fee_rate = rate, slippage_rate = 0 \<rparr> = Inr d" and pos: "0 < sd_quantity d"
  shows "\<exists>n. execution_quantity c rate price cash = Inr n \<and> isfinite n \<and> 0 \<le> n \<and> n \<le> sd_quantity d
    \<and> (0 < n \<longrightarrow> \<not> too_expensive price rate cash n)
    \<and> (\<forall>y. wf_float y \<and> isfinite y \<and> n < y \<and> y \<le> sd_quantity d \<longrightarrow> too_expensive price rate cash y)"
proof -
  obtain n where n: "execution_quantity c rate price cash = Inr n"
    using d by (cases "significand (sd_quantity d)") (simp add: execution_quantity_def Let_def)
  show ?thesis using n execution_greatest [OF n d pos] by blast
qed

definition sample_entry_context :: entry_context where
  "sample_entry_context = \<lparr> ec_signal_price = flit 50 1, ec_entry_atr = 1, ec_initial_atr_mult = flit 2 1,
     ec_baseline_atr_pct = flit 2 100, ec_risk_rate = flit 1 100, ec_exposure_cap = flit 7 10, ec_risk_event_id = ''risk'' \<rparr>"

lemma sample_sized: "context_size sample_entry_context (flit 50 1) (flit 100 1) \<lparr> fee_rate = 0, slippage_rate = 0 \<rparr>
    = Inr \<lparr> sd_quantity = Fin (1, -1), sd_binding_constraint = ''fixed'', sd_estimated_loss = Fin (1, 0) \<rparr>"
  by code_simp

theorem execution_quantity_greatest_witness:
  "\<exists>n. execution_quantity sample_entry_context 0 (flit 50 1) (flit 100 1) = Inr n \<and> 0 \<le> n \<and> n \<le> Fin (1, -1)"
proof -
  have "0 < Fin (1, -1)" by code_simp
  then show ?thesis using execution_quantity_greatest [OF sample_sized] by auto
qed

end
