(* ===== verification/Paper_Digits.thy ===== *)
theory Paper_Digits
  imports Paper_Sizes Paper_Reading
begin

text \<open>
  \<open>Decimal(str(x))\<close> has at most 17 digits: the nearest decimal of 17 digits reads back as the
  float, so that the search of the shortest text succeeds, and a decimal of the context holds the
  result exactly. On this rest the exact remainder of an order and the adverse slippage of a fill.
\<close>

section \<open>A number close to a float rounds to it\<close>

lemma rhe_near: "\<bar>t - of_int n\<bar> < 1 / 2 \<Longrightarrow> rhe t = n"
proof -
  assume "\<bar>t - of_int n\<bar> < 1 / 2"
  then have "\<bar>of_int (rhe t) - of_int n\<bar> < (1 :: rat)" using rhe_error [of t] by linarith
  then have "\<bar>rhe t - n\<bar> < 1" by linarith
  then show ?thesis by simp
qed

lemma close_rounds:
  assumes x: "wf_float x" "isfinite x" "0 < x" and close: "\<bar>y - rat_of x\<bar> * (2 * 10 ^ 16) \<le> rat_of x"
  shows "rp y = rat_of x"
proof -
  define r where "r = rat_of x"
  obtain k q where s: "significand x = (k, q)" by force
  have f: "fits k q" "r = sval k q" using significand [OF x s] by (auto simp: r_def)
  have r: "0 < r" using x by (simp add: r_def fl_ord)
  have near: "\<bar>y - r\<bar> * (2 * 10 ^ 16) \<le> r" using close by (simp add: r_def)
  have "(r - y) * (2 * 10 ^ 16) \<le> \<bar>y - r\<bar> * (2 * 10 ^ 16)" by (rule mult_right_mono) simp_all
  then have y: "r * (1 - 1 / (2 * 10 ^ 16)) \<le> y" using near by (simp add: algebra_simps)
  have ypos: "0 < y" using y r by (simp add: field_simps)
  define e where "e = expo 2 y"
  have e: "pw 2 e \<le> y" "y < pw 2 (e + 1)" using expo [of 2 y] ypos by (auto simp: e_def is_expo_def)
  define c where "c = qexp 2 53 (- 1022) y"
  have c: "c = max e (- 1022) - 52" by (simp add: c_def qexp_def e_def)
  define u where "u = pw 2 c"
  have u: "0 < u" by (simp add: u_def)
  have qc: "c \<le> q"
  proof (rule ccontr)
    assume "\<not> c \<le> q"
    then have "q + 53 \<le> e" using f(1) c by (auto simp: fits_def)
    then have le: "pw 2 (q + 53) \<le> pw 2 e" by (intro pw_mono) simp_all
    obtain p where p: "p = pw 2 q" "0 < p" by simp
    have "pw 2 (q + 53) = 2 ^ 53 * p" using pw_add [of 2 q 53] by (simp add: p)
    then have "2 ^ 53 * p \<le> y" using e(1) le by simp
    moreover have "r \<le> (2 ^ 53 - 1) * p"
      using f sval_mono [of k "2 ^ 53 - 1" q] by (simp add: fits_def sval_def p)
    ultimately have pr: "p \<le> y - r" "r < 2 ^ 53 * p" using p(2) by simp_all
    then have "p * (2 * 10 ^ 16) \<le> \<bar>y - r\<bar> * (2 * 10 ^ 16)" by (intro mult_right_mono) simp_all
    then show False using p(2) pr(2) near by simp
  qed
  have "pw 2 q = of_int (2 ^ nat (q - c)) * u" using qc pw_add [of 2 "q - c" c] pw_nat [of "q - c" 2] by (simp add: u_def)
  then have ru: "r = of_int (k * 2 ^ nat (q - c)) * u" using f(2) by (simp add: sval_def)
  have "pw 2 (e + 1) \<le> pw 2 (c + 53)" using c by (intro pw_mono) simp_all
  also have "\<dots> = u * 2 ^ 53" using pw_add [of 2 c 53] by (simp add: u_def)
  finally have "y < u * 2 ^ 53" using e(2) by simp
  then have "r * (1 - 1 / (2 * 10 ^ 16)) < u * 2 ^ 53" using y by linarith
  then have "\<bar>y - r\<bar> < u / 2" using near u by simp
  then have "\<bar>y / u - of_int (k * 2 ^ nat (q - c))\<bar> < 1 / 2"
    using u by (simp add: ru abs_less_iff field_simps)
  then have "rhe (y / u) = k * 2 ^ nat (q - c)" by (rule rhe_near)
  then have "rp y = of_int (k * 2 ^ nat (q - c)) * u" using ypos by (simp add: round_prec_pos u_def c_def)
  then show ?thesis by (simp add: ru flip: r_def)
qed

text \<open>The least positive float, and the same for every sign, as the float itself.\<close>

lemma least_float:
  assumes "wf_float x" "isfinite x" "0 < x"
  shows "pw 2 (- 1074) \<le> rat_of x"
proof -
  obtain k q where s: "significand x = (k, q)" by force
  have k: "fits k q" "rat_of x = sval k q" using significand [OF assms s] by auto
  have "0 < rat_of x" using assms by (simp add: fl_ord)
  then have "0 < k" using k by (auto simp: fits_def sval_def zero_less_mult_iff)
  then have one: "sval 1 q \<le> sval k q" by (intro sval_mono) simp
  have "pw 2 (- 1074) \<le> pw 2 q" using k(1) by (intro pw_mono) (auto simp: fits_def)
  also have "\<dots> = sval 1 q" by (simp add: sval_def)
  finally show ?thesis unfolding k(2) using one by (rule order_trans)
qed

lemma close_reads_back:
  assumes x: "wf_float x" "isfinite x" and close: "\<bar>dval c - rat_of x\<bar> * (2 * 10 ^ 16) \<le> \<bar>rat_of x\<bar>"
  shows "float_of_dec c = x"
proof -
  have "rp (dval c) = rat_of x"
  proof -
    consider "0 < x" | "rat_of x = 0" | "rat_of x < 0" using x by (fastforce simp: fl_ord)
    then show ?thesis
    proof cases
      case 1
      then show ?thesis using close_rounds [OF x] close x by (simp add: fl_ord)
    next
      case 2
      then show ?thesis using close by simp
    next
      case 3
      have neg: "wf_float (- x)" "isfinite (- x)" "0 < - x" "rat_of (- x) = - rat_of x"
        using x 3 by (cases x; auto simp: uminus_pyfloat_def fl_ord canon_bneg)+
      have "\<bar>- dval c - rat_of (- x)\<bar> = \<bar>dval c - rat_of x\<bar>" using neg(4) by linarith
      then have "rp (- dval c) = rat_of (- x)" using close 3 neg by (intro close_rounds) simp_all
      then show ?thesis using neg(4) by (simp add: round_prec_minus)
    qed
  qed
  moreover have "rounds_to (rat_of x) x" by (rule rt_self [OF x])
  ultimately have r: "rounds_to (dval c) x" using rp_wf [OF x] by (simp add: rounds_to_def)
  then have "x \<le> float_of_dec c" "float_of_dec c \<le> x" using rt_mono [OF r rt_float_of_dec] rt_mono [OF rt_float_of_dec r] by auto
  then have "isfinite (float_of_dec c)" "rat_of (float_of_dec c) = rat_of x"
    using x le_finite_between [of x x "float_of_dec c"] by (auto simp: fl_ord)
  then show ?thesis by (intro wf_eq x) simp_all
qed

section \<open>The candidates of the search\<close>

text \<open>The quotient of the search is the scaled magnitude.\<close>

lemma scaled_quotient:
  assumes "0 < d" "0 < a"
  shows "of_int (if 0 \<le> q then a else a * ipow 10 (- q)) / of_int (if 0 \<le> q then d * ipow 10 q else d)
    = of_int a / of_int d / pw 10 q"
proof (cases "0 \<le> q")
  case True
  then show ?thesis using pw_ipow [OF True, of 10] by simp
next
  case False
  then have "pw 10 q = 1 / of_int (ipow 10 (- q))"
    using pw_ipow [of "- q" 10] power_int_minus_divide [of "10 :: rat" "- q"] by simp
  then show ?thesis using False by simp
qed

lemma digits_try_grid:
  assumes "digits_try x s a d n = Some c" "0 < a" "0 < d" "\<bar>s\<bar> \<le> 1" "1 \<le> n" "n \<le> 17"
    "- 400 \<le> expo_frac 10 a d"
  shows "on_grid 10 28 (- 999999) (dval c)"
proof -
  define v where "v = (of_int a :: rat) / of_int d"
  define E where "E = expo_frac 10 a d"
  define q where "q = E - (n - 1)"
  have E: "pw 10 E \<le> v" "v < pw 10 (E + 1)" using expo_frac [of 10 a d] assms by (auto simp: is_expo_def E_def v_def)
  define num where "num = (if 0 \<le> q then a else a * ipow 10 (- q))"
  define den where "den = (if 0 \<le> q then d * ipow 10 q else d)"
  have den: "0 < den" using assms(3) by (simp add: den_def)
  have quot: "of_int num / of_int den = v / pw 10 q"
    using scaled_quotient [OF assms(3,2), of q] by (simp add: num_def den_def v_def)
  have "v / pw 10 q < pw 10 (E + 1) / pw 10 q" using E(2) by (intro divide_strict_right_mono) simp_all
  also have "\<dots> = pw 10 n" using power_int_diff [of "10 :: rat" "E + 1" q] by (simp add: q_def)
  also have "\<dots> \<le> pw 10 17" using assms(6) by (intro pw_mono) simp_all
  finally have up: "v / pw 10 q < 10 ^ 17" by simp
  have lo: "0 \<le> v / pw 10 q" using assms by (simp add: v_def)
  have "\<lfloor>v / pw 10 q\<rfloor> = num div den" using floor_divide_of_int_eq [of num den] quot by metis
  moreover have "0 \<le> \<lfloor>v / pw 10 q\<rfloor>" "\<lfloor>v / pw 10 q\<rfloor> < 10 ^ 17" using up lo by (simp_all add: floor_less_iff)
  ultimately have low: "0 \<le> num div den" "num div den < 10 ^ 17" by simp_all
  have near: "0 \<le> rhe_div num den" "rhe_div num den \<le> 10 ^ 17"
    unfolding rhe_div [OF den] quot using up lo by (auto intro: rhe_ge rhe_le)
  define far where "far = (if rhe_div num den = num div den then num div den + 1 else num div den)"
  have far: "0 \<le> far" "far \<le> 10 ^ 17" using low by (auto simp: far_def)
  have "c = Dec (bnorm 10 (s * rhe_div num den) q) \<or> c = Dec (bnorm 10 (s * far) q)"
    using assms(1) by (auto simp: digits_try_def Let_def num_def den_def q_def E_def far_def split: if_splits)
  then obtain m where c: "c = Dec (bnorm 10 (s * m) q)" and m: "0 \<le> m" "m \<le> 10 ^ 17" using near far by blast
  have "\<bar>s * m\<bar> \<le> 1 * 10 ^ 17" unfolding abs_mult using assms(4) m by (intro mult_mono) auto
  then show ?thesis using assms(5-7)
    by (intro on_gridI [of _ "s * m" 10 q]) (simp_all add: c bval_bnorm q_def E_def)
qed

lemma digits_17:
  assumes x: "wf_float x" "isfinite x" and a: "0 < a" "0 < d" and v: "rat_of x = of_int s * (of_int a / of_int d)" "\<bar>s\<bar> = 1"
  shows "digits_try x s a d 17 \<noteq> None"
proof -
  define w where "w = (of_int a :: rat) / of_int d"
  define E where "E = expo_frac 10 a d"
  define q where "q = E - (17 - 1)"
  have E: "pw 10 E \<le> w" using expo_frac [of 10 a d] a by (auto simp: is_expo_def E_def w_def)
  define num where "num = (if 0 \<le> q then a else a * ipow 10 (- q))"
  define den where "den = (if 0 \<le> q then d * ipow 10 q else d)"
  have den: "0 < den" using a by (simp add: den_def)
  define near where "near = rhe_div num den"
  have "near = rhe (w / pw 10 q)"
    unfolding near_def rhe_div [OF den] using scaled_quotient [OF a(2,1), of q] by (simp add: num_def den_def w_def)
  then have "\<bar>of_int near - w / pw 10 q\<bar> \<le> 1 / 2" using rhe_error by simp
  then have "\<bar>of_int near - w / pw 10 q\<bar> * pw 10 q \<le> 1 / 2 * pw 10 q" by (rule mult_right_mono) simp
  moreover have "\<bar>of_int near - w / pw 10 q\<bar> * pw 10 q = \<bar>of_int near * pw 10 q - w\<bar>"
  proof -
    have "\<bar>of_int near - w / pw 10 q\<bar> * \<bar>pw 10 q\<bar> = \<bar>(of_int near - w / pw 10 q) * pw 10 q\<bar>" by (rule abs_mult [symmetric])
    then show ?thesis by (simp add: left_diff_distrib)
  qed
  ultimately have near: "\<bar>of_int near * pw 10 q - w\<bar> \<le> pw 10 q / 2" by linarith
  have "pw 10 E = pw 10 q * 10 ^ 16" using pw_add [of 10 q 16] by (simp add: q_def)
  then have "pw 10 q / 2 * (2 * 10 ^ 16) \<le> w" using E by simp
  moreover have "\<bar>of_int near * pw 10 q - w\<bar> * (2 * 10 ^ 16) \<le> pw 10 q / 2 * (2 * 10 ^ 16)"
    by (rule mult_right_mono [OF near]) simp
  ultimately have close: "\<bar>of_int near * pw 10 q - w\<bar> * (2 * 10 ^ 16) \<le> w" by linarith
  have w: "0 < w" using a by (simp add: w_def)
  have sc: "dval (Dec (bnorm 10 (s * near) q)) = of_int s * (of_int near * pw 10 q)" by (simp add: bval_bnorm)
  have "\<bar>dval (Dec (bnorm 10 (s * near) q)) - rat_of x\<bar> = \<bar>of_int near * pw 10 q - w\<bar>"
    unfolding sc v(1) w_def [symmetric] right_diff_distrib [symmetric] abs_mult using v(2)
    by (metis abs_mult mult_1 of_int_1 of_int_abs)
  moreover have "\<bar>rat_of x\<bar> = w" unfolding v(1) w_def [symmetric] abs_mult using v(2) w
    by (metis abs_of_pos mult_1 of_int_1 of_int_abs)
  ultimately have "float_of_dec (Dec (bnorm 10 (s * near) q)) = x"
    using close by (intro close_reads_back x) simp
  then show ?thesis
    unfolding digits_try_def Let_def E_def [symmetric] q_def [symmetric] num_def [symmetric] den_def [symmetric]
      near_def [symmetric] by simp
qed

section \<open>The text of a float is short\<close>

lemma digits_search_17:
  assumes "digits_try x s a d 17 \<noteq> None"
  shows "\<exists>n c. 1 \<le> n \<and> n \<le> 17 \<and> digits_try x s a d n = Some c
    \<and> digits_search x s a d [1,2,3,4,5,6,7,8,9,10,11,12,13,14,15,16,17] = Some c"
proof -
  have "\<exists>n \<in> set ns. \<exists>c. digits_try x s a d n = Some c \<and> digits_search x s a d ns = Some c"
    if "17 \<in> set ns" for ns
    using that assms by (induction ns) (fastforce split: option.splits)+
  from this [of "[1,2,3,4,5,6,7,8,9,10,11,12,13,14,15,16,17]"] show ?thesis by fastforce
qed

lemma decimal_exact:
  assumes x: "wf_float x" "isfinite x"
  shows "rd (dval (dec_of_float x)) = dval (dec_of_float x)"
proof -
  obtain m e where m: "x = Fin (m, e)" using x by (cases x) auto
  define a where "a = (if 0 \<le> e then \<bar>m\<bar> * ipow 2 e else \<bar>m\<bar>)"
  define d where "d = (if 0 \<le> e then 1 else ipow 2 (- e))"
  show ?thesis
  proof (cases "m = 0")
    case True
    then show ?thesis by (simp add: dec_of_float_def m)
  next
    case False
    have pos: "0 < a" "0 < d" using False by (simp_all add: a_def d_def ipow_pos)
    have v: "of_int a / of_int d = \<bar>rat_of x\<bar>"
    proof (cases "0 \<le> e")
      case True
      then show ?thesis using pw_ipow [OF True, of 2] ipow_pos [of 2 e] by (simp add: a_def d_def m bval_def abs_mult)
    next
      case False
      then have "pw 2 e = 1 / of_int (ipow 2 (- e))"
        using pw_ipow [of "- e" 2] power_int_minus_divide [of "2 :: rat" "- e"] by simp
      then show ?thesis using False ipow_pos [of 2 "- e"] by (simp add: a_def d_def m bval_def abs_mult)
    qed
    have sg: "rat_of x = of_int (sgn m) * (of_int a / of_int d)" "\<bar>sgn m\<bar> = 1"
      using False unfolding v by (auto simp: m bval_def abs_mult sgn_if mult_less_0_iff)
    from digits_search_17 [OF digits_17 [OF x pos sg]] obtain n c where n: "1 \<le> n" "n \<le> 17"
      "digits_try x (sgn m) a d n = Some c"
      and c: "digits_search x (sgn m) a d [1,2,3,4,5,6,7,8,9,10,11,12,13,14,15,16,17] = Some c" by blast
    have "dec_of_float x = c"
      using c False by (simp add: dec_of_float_def m a_def d_def del: digits_search.simps)
    moreover have "- 400 \<le> expo_frac 10 a d"
    proof (rule ccontr)
      assume "\<not> ?thesis"
      then have "pw 10 (expo_frac 10 a d + 1) \<le> pw 10 (- 400)" by (intro pw_mono) simp_all
      then have lt: "\<bar>rat_of x\<bar> < pw 10 (- 400)"
        using expo_frac [of 10 a d] pos v by (simp add: is_expo_def)
      have le1: "pw 10 (- 400) \<le> pw 2 (- 1074)" by (simp add: power_int_def divide_simps)
      have le2: "pw 2 (- 1074) \<le> \<bar>rat_of x\<bar>"
      proof -
        consider "0 < rat_of x" | "rat_of x < 0" using sg pos False by (fastforce simp: m bval_def)
        then show ?thesis
        proof cases
          case 1
          then show ?thesis using least_float [OF x] x by (simp add: fl_ord)
        next
          case 2
          have "wf_float (- x)" "isfinite (- x)" "0 < - x" "rat_of (- x) = - rat_of x"
            using x 2 by (cases x; auto simp: uminus_pyfloat_def fl_ord canon_bneg)+
          from least_float [OF this(1-3)] this(4) 2 show ?thesis by simp
        qed
      qed
      from less_le_trans [OF lt order_trans [OF le1 le2]] show False by (rule less_irrefl [THEN notE])
    qed
    ultimately show ?thesis
      using digits_try_grid [OF n(3) pos _ n(1,2)] sg(2) by (intro round_prec_id) simp_all
  qed
qed

section \<open>Slippage is adverse\<close>

lemma decimal_one_exact: "rd 1 = 1"
proof -
  have "dec_of_float 1 = Dec (1, 0)" "dval (Dec (1, 0)) = 1" "isfinite (1 :: pyfloat)" by code_simp+
  then show ?thesis using decimal_exact [OF wf_1] by simp
qed

text \<open>
  The slippage of a fill is adverse, also after rounding. With a positive reference price and
  a rate that is not negative, a purchase is filled at the reference price or above it and a sale
  at the reference price or below it, though the price is rounded twice as a decimal and once as
  a float.
\<close>

theorem slippage_adverse:
  assumes r: "wf_float r" "isfinite r" "0 < r" and s: "wf_float s" "isfinite s" "0 \<le> s"
  shows "r \<le> computed_fill_price r s ''BUY'' \<and> computed_fill_price r s ''SELL'' \<le> r"
proof -
  have dr: "0 < dval (dec_of_float r)" by (rule dec_of_float_pos [OF r])
  have ds: "0 \<le> dval (dec_of_float s)" by (rule dec_of_float_nonneg [OF s])
  have one: "bval 10 (1, 0) = 1" by code_simp
  have exact: "float_of_dec (dec_of_float r) = r" "rd (dval (dec_of_float r)) = dval (dec_of_float r)"
    by (rule float_of_dec_of_float [OF r(1,2)] decimal_exact [OF r(1,2)])+
  have "1 \<le> rd (1 + dval (dec_of_float s))" using rd_mono [of 1 "1 + dval (dec_of_float s)"] ds decimal_one_exact by simp
  then have "dval (dec_of_float r) \<le> dval (dec_of_float r) * rd (1 + dval (dec_of_float s))" using dr by simp
  then have buy: "dval (dec_of_float r) \<le> dval (dec_of_float r * (Dec (1, 0) + dec_of_float s))"
    by (simp add: one) (metis exact(2) rd_mono)
  have "rd (1 - dval (dec_of_float s)) \<le> 1" using rd_mono [of "1 - dval (dec_of_float s)" 1] ds decimal_one_exact by simp
  then have "dval (dec_of_float r) * rd (1 - dval (dec_of_float s)) \<le> dval (dec_of_float r)" using dr by simp
  then have sell: "dval (dec_of_float r * (Dec (1, 0) - dec_of_float s)) \<le> dval (dec_of_float r)"
    by (simp add: one) (metis exact(2) rd_mono)
  show ?thesis using float_of_dec_mono [OF buy] float_of_dec_mono [OF sell] exact(1)
    by (simp add: computed_fill_price_def)
qed

theorem slippage_adverse_witness:
  "flit 50 1 \<le> computed_fill_price (flit 50 1) (flit 5 10000) ''BUY''
    \<and> computed_fill_price (flit 50 1) (flit 5 10000) ''SELL'' \<le> flit 50 1"
proof -
  have "0 < flit 50 1" "0 \<le> flit 5 10000" "isfinite (flit 50 1)" "isfinite (flit 5 10000)" by code_simp+
  then show ?thesis using slippage_adverse [of "flit 50 1" "flit 5 10000"] by (simp only: wf_lit zero_less_numeral zero_less_one simp_thms)
qed

end
