(* ===== verification/Paper_Trades.thy ===== *)
theory Paper_Trades
  imports Paper_Samples Paper_Digits
begin

text \<open>
  \<open>_completed_trades\<close> is one loop over all fills with an accumulated state. The reference reads
  the fills as a sequence of round trips, each a purchase and the sales that sell it off, and
  makes one trade of each; the loop computes the same, errors included.
\<close>

section \<open>The reference\<close>

text \<open>The sales that sell a position off, and what follows; \<open>None\<close> when it stays open.\<close>

fun sell_off :: "decimal \<Rightarrow> paper_fill list \<Rightarrow> (paper_fill list \<times> paper_fill list) option res" where
  "sell_off p [] = Inr None"
| "sell_off p (f # fs) =
     (if pf_side f = ''BUY'' then Inl (unreconciled ''paper fills contain pyramiding'')
      else if p < fill_quantity f then Inl (unreconciled ''paper fills contain an unmatched sell'')
      else if deq (p - fill_quantity f) 0 then Inr (Some ([f], fs))
      else ebind (sell_off (p - fill_quantity f) fs) (\<lambda>r. Inr (map_option (\<lambda>(ss, rest). (f # ss, rest)) r)))"

lemma sell_off_shorter: "sell_off p fs = Inr (Some (ss, rest)) \<Longrightarrow> length rest < length fs"
proof (induction fs arbitrary: p ss)
  case (Cons f fs)
  show ?case
  proof (cases "deq (p - fill_quantity f) 0")
    case True
    then show ?thesis using Cons.prems by (auto split: if_splits)
  next
    case False
    then obtain r where "sell_off (p - fill_quantity f) fs = Inr (Some (r, rest))"
      using Cons.prems by (auto split: if_splits)
    from Cons.IH [OF this] show ?thesis by simp
  qed
qed simp

lemma sell_off_rest: "sell_off p fs = Inr (Some (ss, rest)) \<Longrightarrow> set rest \<subseteq> set fs"
  by (induction fs arbitrary: p ss) (fastforce split: if_splits simp del: deq dval_sub)+

function round_trips :: "paper_fill list \<Rightarrow> paper_trade list res" where
  "round_trips [] = Inr []"
| "round_trips (b # fs) =
     (if pf_side b \<noteq> ''BUY'' then Inl (unreconciled ''paper fills contain an unmatched sell'')
      else (case sell_off (0 + fill_quantity b) fs of
          Inl e \<Rightarrow> Inl e
        | Inr None \<Rightarrow> Inr []
        | Inr (Some (ss, rest)) \<Rightarrow>
            ebind (trade_of [b] ss) (\<lambda>t. ebind (round_trips rest) (\<lambda>ts. Inr (t # ts)))))"
  by pat_completeness auto
termination
  by (relation "measure length") (auto dest: sell_off_shorter)

section \<open>The loop in a trip\<close>

abbreviation flat_loop :: "paper_trade list \<Rightarrow> trade_loop" where
  "flat_loop ts \<equiv> \<lparr> tl_entries = [], tl_exits = [], tl_position = 0, tl_trades = ts \<rparr>"

abbreviation trades_from :: "paper_fill list \<Rightarrow> trade_loop \<Rightarrow> paper_trade list res" where
  "trades_from fs l \<equiv> ebind (efold trade_step fs l) (\<lambda>l. Inr (tl_trades l))"

lemma loop_sell_off:
  assumes "0 < dval p"
  shows "trades_from fs \<lparr> tl_entries = es, tl_exits = xs, tl_position = p, tl_trades = ts \<rparr> =
    (case sell_off p fs of
       Inl e \<Rightarrow> Inl e
     | Inr None \<Rightarrow> Inr ts
     | Inr (Some (ss, rest)) \<Rightarrow> ebind (trade_of es (xs @ ss)) (\<lambda>t. trades_from rest (flat_loop (ts @ [t]))))"
  using assms
proof (induction fs arbitrary: p xs)
  case (Cons f fs)
  let ?r = "p - fill_quantity f"
  show ?case
  proof (cases "pf_side f = ''BUY'' \<or> p < fill_quantity f")
    case True
    then show ?thesis using Cons.prems by (auto simp: trade_step_def ensure_def)
  next
    case False
    then have step: "trade_step f \<lparr> tl_entries = es, tl_exits = xs, tl_position = p, tl_trades = ts \<rparr> =
      (if \<not> deq ?r 0 then Inr \<lparr> tl_entries = es, tl_exits = xs @ [f], tl_position = ?r, tl_trades = ts \<rparr>
       else ebind (trade_of es (xs @ [f])) (\<lambda>t. Inr (flat_loop (ts @ [t]))))"
      using Cons.prems by (simp add: trade_step_def Let_def del: deq dval_sub)
    show ?thesis
    proof (cases "deq ?r 0")
      case True
      then show ?thesis using False by (simp add: step ebind_assoc del: deq dval_sub)
    next
      case False
      have "0 \<le> dval ?r" using \<open>\<not> (_ \<or> _)\<close> by (simp add: rd_nonneg not_less)
      then have "0 < dval ?r" using False by (simp add: less_le del: dval_sub)
      from Cons.IH [OF this, of "xs @ [f]"] show ?thesis using \<open>\<not> (_ \<or> _)\<close> False
        by (simp add: step del: deq dval_sub) (auto split: sum.split option.split)
    qed
  qed
qed simp

text \<open>A purchase of a positive size opens a position: a decimal of 28 digits holds every float.\<close>

lemma opens_position:
  assumes "wf_float x" "isfinite x" "0 < x"
  shows "0 < dval (0 + dec_of_float x)"
  using dec_positive [OF assms(2,3)] decimal_exact [OF assms(1,2)] by simp

section \<open>The property\<close>

definition real_purchase :: "paper_fill \<Rightarrow> bool" where
  "real_purchase f \<longleftrightarrow> pf_side f \<noteq> ''BUY'' \<or> wf_float (pf_quantity f) \<and> isfinite (pf_quantity f) \<and> 0 < pf_quantity f"

lemma trades_from_flat:
  assumes "\<forall>f \<in> set fs. real_purchase f"
  shows "trades_from fs (flat_loop ts) = ebind (round_trips fs) (\<lambda>us. Inr (ts @ us))"
  using assms
proof (induction fs arbitrary: ts rule: round_trips.induct)
  case (2 b fs)
  show ?case
  proof (cases "pf_side b = ''BUY''")
    case True
    have p: "0 < dval (0 + fill_quantity b)"
      using 2(2) True by (intro opens_position) (auto simp: real_purchase_def)
    have "trade_step b (flat_loop ts) = Inr \<lparr> tl_entries = [b], tl_exits = [], tl_position = 0 + fill_quantity b, tl_trades = ts \<rparr>"
      using True by (simp add: trade_step_def)
    then have e: "trades_from (b # fs) (flat_loop ts) = (case sell_off (0 + fill_quantity b) fs of
         Inl e \<Rightarrow> Inl e | Inr None \<Rightarrow> Inr ts
       | Inr (Some (ss, rest)) \<Rightarrow> ebind (trade_of [b] ss) (\<lambda>t. trades_from rest (flat_loop (ts @ [t]))))"
      using loop_sell_off [OF p, of fs "[b]" "[]" ts] unfolding append_Nil by simp
    have "trades_from rest (flat_loop (ts @ [t])) = ebind (round_trips rest) (\<lambda>us. Inr ((ts @ [t]) @ us))"
      if s: "sell_off (0 + fill_quantity b) fs = Inr (Some (ss, rest))" and t: "trade_of [b] ss = Inr t" for ss rest t
    proof (rule 2(1))
      show "\<forall>f \<in> set rest. real_purchase f" using sell_off_rest [OF s] 2(2) by auto
    qed (use True s t in simp_all)
    note rest = this
    show ?thesis
    proof (cases "sell_off (0 + fill_quantity b) fs")
      case (Inr r)
      show ?thesis
      proof (cases r)
        case (Some p)
        obtain ss rest' where p: "p = (ss, rest')" by force
        show ?thesis unfolding e using True Inr Some p rest [of ss rest']
          by (cases "trade_of [b] ss") (simp_all add: ebind_assoc)
      qed (use e True Inr in simp)
    qed (use e True in simp)
  next
    case False
    then show ?thesis by (simp add: trade_step_def ensure_def)
  qed
qed simp

text \<open>
  C28: the trades are the round trips. The loop over all fills with its accumulated entries, exits
  and position computes exactly what the reference computes trip by trip, for every list of fills
  whose purchases have a positive size: the same trades in the same order, or the same error.
\<close>

theorem completed_trades_round_trips:
  assumes "\<forall>f \<in> set fills. real_purchase f"
  shows "completed_trades fills = round_trips fills"
  using trades_from_flat [OF assms, of "[]"] by (cases "round_trips fills") (simp_all add: completed_trades_def)

definition sample_sale :: paper_fill where
  "sample_sale = sample_fill\<lparr> pf_side := ''SELL'', pf_fill_price := 1 \<rparr>"

theorem completed_trades_round_trips_witness:
  "completed_trades [sample_fill, sample_sale] = round_trips [sample_fill, sample_sale]
    \<and> is_ok (completed_trades [sample_fill, sample_sale])"
proof -
  have "(0 :: pyfloat) < 1" "deq (0 + Dec (1, 0) - Dec (1, 0)) 0" "\<not> 0 + Dec (1, 0) < Dec (1, 0)" "\<not> 0 + Dec (1, 0) \<le> 0"
    "\<not> (0 :: decimal) < 0" "deq (0 + Dec (1, 0)) (0 + Dec (1, 0))"
    by code_simp+
  then have "is_ok (completed_trades [sample_fill, sample_sale])"
    by (simp add: completed_trades_def trade_step_def trade_of_def dsum_def Let_def sample_sale_def sample_fill_def is_ok_ebind
        del: deq dle dless dval_add dval_sub)
  moreover have "\<forall>f \<in> set [sample_fill, sample_sale]. real_purchase f"
    using \<open>0 < 1\<close> by (simp add: real_purchase_def sample_sale_def sample_fill_def one_pyfloat_def [symmetric])
  ultimately show ?thesis using completed_trades_round_trips by blast
qed

end
