(* ===== verification/Paper_Read_Back.thy ===== *)
theory Paper_Read_Back
  imports Paper_Digits Paper_Samples
begin

text \<open>
  What the broker writes, its readers accept: the events of a submitted order read back as the
  order that the submission returned, the events of a fill as the fill, and the event of a stop
  as the stop. The store keeps a payload as a mapping, so only the mapping of its keys matters.
\<close>

section \<open>Payloads as mappings\<close>

definition carries :: "stored_event \<Rightarrow> members \<Rightarrow> bool" where
  "carries e p \<longleftrightarrow> map_of (sv_payload e) = map_of p"

lemma carries_keys: "carries e p \<Longrightarrow> keys_are (sv_payload e) ks \<longleftrightarrow> keys_are p ks"
  by (metis carries_def keys_are_def dom_map_of_conv_image_fst list.set_map)

lemma carries_readers:
  assumes "carries e p"
  shows "payload_text (sv_payload e) k = payload_text p k" "payload_number (sv_payload e) k = payload_number p k"
    "field (sv_payload e) k = field p k" "require_keys (sv_payload e) ks label = require_keys p ks label"
  using assms carries_keys [OF assms]
  by (simp_all add: carries_def payload_text_def payload_number_def field_def require_keys_def)

lemma payload_text_JStr: "map_of p k = Some (JStr s) \<Longrightarrow> s \<noteq> [] \<Longrightarrow> payload_text p k = Inr s"
  by (simp add: payload_text_def)

lemma payload_number_JFloat: "map_of p k = Some (JFloat x) \<Longrightarrow> isfinite x \<Longrightarrow> payload_number p k = Inr x"
  by (simp add: payload_number_def)

lemma exact_refl [simp]: "isfinite x \<Longrightarrow> exact x x"
  by (simp add: exact_def)






lemma text_same: "payload_text p k = Inr v \<Longrightarrow> same_text p k v e = Inr ()"
  by (simp add: same_text_def)

lemma number_same: "payload_number p k = Inr v \<Longrightarrow> same_number p k v e = Inr ()"
  by (frule payload_number_finite) (simp add: same_number_def)

section \<open>Orders\<close>
















lemma sample_request: "sample_request = \<lparr> oq_signal_text = ''2024-01-01T00:00:00Z'', oq_signal_time = 1704067200000000,
   oq_occurred_at = ''2024-01-01T00:00:00Z'', oq_side = ''BUY'', oq_quantity = 1, oq_reason = ''ENTRY'', oq_parent = None,
   oq_key = ''KRW-BTC:2024-01-01T00:00:00Z:BUY:ENTRY:ROOT'', oq_order_id = ''paper-order:0'', oq_kind = ''MARKET'',
   oq_eligible = 1704081600000000, oq_fee_rate = 0, oq_slippage_rate = 0 \<rparr>"
  by code_simp




section \<open>Fills\<close>

text \<open>A fill that the broker makes: its price and fee are those of its order and its reference.\<close>

definition fill_ok_request :: "fill_request \<Rightarrow> pyfloat \<Rightarrow> pyfloat \<Rightarrow> bool" where
  "fill_ok_request q quantity fee \<longleftrightarrow> (let x = fq_order q in
     po_order_id x \<noteq> [] \<and> po_side x \<noteq> [] \<and> po_reason x \<noteq> []
     \<and> list_all isfinite [quantity, fee, fq_price q, fq_reference q, po_fee_rate x, po_slippage_rate x,
          computed_slippage quantity (fq_price q) (fq_reference q)]
     \<and> computed_fill_price (fq_reference q) (po_slippage_rate x) (po_side x) = fq_price q
     \<and> computed_fee quantity (fq_price q) (po_fee_rate x) = Inr fee
     \<and> iso_z (fq_candle_time q) = fq_candle_text q)"

text \<open>The two events of a fill.\<close>

definition filled_as :: "sha256 \<Rightarrow> fill_request \<Rightarrow> pyfloat \<Rightarrow> pyfloat \<Rightarrow> stored_event \<Rightarrow> stored_event \<Rightarrow> bool" where
  "filled_as H q quantity fee raw meta \<longleftrightarrow>
     (let x = fq_order q; fill_id = fill_identity H (po_order_id x) (fq_candle_text q) quantity in
      sv_occurred_at_utc raw = fq_candle_time q \<and> sv_occurred_at_utc meta = fq_candle_time q
      \<and> sv_event_id raw = fill_id \<and> sv_event_id meta = fill_meta_id H fill_id
      \<and> carries raw (fill_payload \<lparr> fn_order_id = po_order_id x, fn_side = po_side x, fn_quantity = quantity,
           fn_price = fq_price q, fn_fee = fee, fn_text = fq_candle_text q, fn_at = fq_candle_time q \<rparr>)
      \<and> carries meta (fill_meta_payload q fill_id quantity fee))"

lemma fill_identity_nonempty: "fill_identity H i t n \<noteq> []"
  by (simp add: fill_identity_def)

text \<open>
  A fill reads back as it was made. The fill event of the store and the metadata of the broker
  read back as exactly the fill that the broker returned, its costs recomputed and found equal.
\<close>

theorem fill_read_back:
  assumes q: "fill_ok_request q quantity fee" and w: "filled_as H q quantity fee raw meta"
  shows "paper_fill_from_evidence H raw meta (fq_order q)
    = Inr (made_fill q (fill_identity H (po_order_id (fq_order q)) (fq_candle_text q) quantity) quantity fee)"
proof -
  define x where "x = fq_order q"
  define i where "i = fill_identity H (po_order_id x) (fq_candle_text q) quantity"
  have i: "i \<noteq> []" by (simp add: i_def fill_identity_nonempty)
  have e: "sv_occurred_at_utc raw = fq_candle_time q" "sv_occurred_at_utc meta = fq_candle_time q"
    "sv_event_id raw = i" "sv_event_id meta = fill_meta_id H i"
    using w by (simp_all add: filled_as_def Let_def x_def i_def)
  have r: "carries raw [(''fee'', JFloat fee), (''order_id'', JStr (po_order_id x)), (''price'', JFloat (fq_price q)),
      (''quantity'', JFloat quantity), (''side'', JStr (po_side x))]" and m: "carries meta (fill_meta_payload q i quantity fee)"
    using w by (simp_all add: filled_as_def Let_def x_def i_def fill_payload_def)
  have f: "po_order_id x \<noteq> []" "po_side x \<noteq> []" "po_reason x \<noteq> []" "isfinite quantity" "isfinite fee"
    "isfinite (fq_price q)" "isfinite (fq_reference q)" "isfinite (po_fee_rate x)" "isfinite (po_slippage_rate x)"
    "isfinite (computed_slippage quantity (fq_price q) (fq_reference q))"
    "computed_fill_price (fq_reference q) (po_slippage_rate x) (po_side x) = fq_price q"
    "computed_fee quantity (fq_price q) (po_fee_rate x) = Inr fee" "iso_z (fq_candle_time q) = fq_candle_text q"
    using q by (simp_all add: fill_ok_request_def Let_def x_def)
  have keys: "require_keys (fill_meta_payload q i quantity fee) FILL_META_KEYS l = Inr ()" for l
    by (auto simp: require_keys_def keys_are_def fill_meta_payload_def FILL_META_KEYS_def Let_def)
  have b: "check_fill_binding (sv_payload meta) i (po_order_id x) (po_side x) quantity (fq_price q) fee x = Inr ()"
    unfolding check_fill_binding_def Let_def same_text_def same_number_def carries_readers [OF m]
    using f i by (simp add: fill_meta_payload_def Let_def x_def [symmetric] payload_text_def payload_number_def)
  have c: "check_fill_costs (sv_payload meta) (po_side x) quantity (fq_price q) fee (fq_reference q) x
      = Inr (computed_slippage quantity (fq_price q) (fq_reference q))"
    unfolding check_fill_costs_def Let_def f same_number_def carries_readers [OF m]
    using f by (simp add: fill_meta_payload_def Let_def x_def [symmetric] payload_number_def)
  have n: "payload_number (sv_payload meta) ''reference_price'' = Inr (fq_reference q)"
    unfolding carries_readers [OF m] using f by (simp add: fill_meta_payload_def Let_def payload_number_def)
  have p: "payload_number (sv_payload raw) ''quantity'' = Inr quantity" "payload_number (sv_payload raw) ''price'' = Inr (fq_price q)"
    "payload_number (sv_payload raw) ''fee'' = Inr fee" "payload_text (sv_payload raw) ''side'' = Inr (po_side x)"
    "payload_text (sv_payload raw) ''order_id'' = Inr (po_order_id x)"
    unfolding carries_readers [OF r] using f by (simp_all add: payload_number_def payload_text_def)
  have k: "require_keys (sv_payload meta) FILL_META_KEYS l = Inr ()" for l
    unfolding carries_readers [OF m] by (rule keys)
  show ?thesis
    unfolding paper_fill_from_evidence_def Let_def x_def [symmetric] k p n e f(13)
    using b c by (simp add: i_def made_fill_def x_def)
qed

lemma sample_fill_request: "sample_fill_request = \<lparr> fq_order = sample_order, fq_candle_text = ''2024-01-01T04:00:00Z'',
   fq_candle_time = 1704081600000000, fq_reference = Fin (25, 1), fq_price = Fin (25, 1) \<rparr>"
proof -
  have "iso_z 1704081600000000 = ''2024-01-01T04:00:00Z''" "sample_open = 1704081600000000" "flit 50 1 = Fin (25, 1)"
    by code_simp+
  then show ?thesis by (simp add: sample_fill_request_def)
qed

lemma sample_accepted_order: "sample_order = accepted_order sample_request"
  by (simp add: sample_order_def)

lemma sample_order_fields: "po_order_id sample_order = ''paper-order:0''" "po_side sample_order = ''BUY''"
  "po_reason sample_order = ''ENTRY''" "po_fee_rate sample_order = 0" "po_slippage_rate sample_order = 0"
  by (simp_all add: sample_order_def accepted_order_def sample_request)

lemma sample_fill_numbers:
  "computed_fill_price (Fin (25, 1)) 0 ''BUY'' = Fin (25, 1)" "computed_fee 1 (Fin (25, 1)) 0 = Inr 0"
  "computed_slippage 1 (Fin (25, 1)) (Fin (25, 1)) = Fin (0, 0)" "isfinite (Fin (25, 1))" "isfinite (Fin (0, 0))"
  "isfinite (1 :: pyfloat)" "isfinite (0 :: pyfloat)"
  "iso_z 1704081600000000 = ''2024-01-01T04:00:00Z''" "fill_meta_id sample_sha ''paper-fill:0'' = ''paper-fill-meta:0''"
  "fill_identity sample_sha ''paper-order:0'' ''2024-01-01T04:00:00Z'' 1 = ''paper-fill:0''"
  by code_simp+

lemma sample_fill_ok: "fill_ok_request sample_fill_request 1 0"
  by (simp add: fill_ok_request_def sample_fill_request sample_order_fields sample_fill_numbers)

lemma sample_filled: "filled_as sample_sha sample_fill_request 1 0 sample_raw_fill sample_fill_meta"
  by (simp add: filled_as_def sample_fill_request sample_order_fields sample_fill_numbers carries_def fill_payload_def
      fill_meta_payload_def sample_raw_fill_def sample_fill_meta_def one_pyfloat_def zero_pyfloat_def
      sample_fill_numbers [unfolded one_pyfloat_def zero_pyfloat_def])

theorem fill_read_back_witness:
  "paper_fill_from_evidence sample_sha sample_raw_fill sample_fill_meta sample_order = Inr sample_fill"
proof -
  have "made_fill sample_fill_request ''paper-fill:0'' 1 0 = sample_fill"
    by (simp add: made_fill_def sample_fill_request sample_order_fields sample_fill_numbers sample_fill_def zero_pyfloat_def)
  then show ?thesis
    using fill_read_back [OF sample_fill_ok sample_filled]
    by (simp add: sample_fill_request sample_order_fields sample_fill_numbers)
qed

end
