(* ===== verification/Paper_Broker_Correct.thy ===== *)
theory Paper_Broker_Correct
  imports Paper_Reading PaperBroker
begin

text \<open>
  What the public operations of the paper broker promise. An operation is one transaction of the
  store: when it raises, the store is as it was; when it returns, only the database has changed
  and the new one verifies. A fill happens only at the open for which its order is eligible,
  within the order, the cash and the position of the replayed account, and at recomputable costs;
  a protective stop that replaces another is never looser.
\<close>

section \<open>The boundary of a call\<close>

text \<open>The body of a call ran on the database and its result was committed.\<close>

definition committed :: "sha256 \<Rightarrow> (db \<Rightarrow> (db \<times> 'a) res) \<Rightarrow> store \<Rightarrow> store \<Rightarrow> 'a \<Rightarrow> bool" where
  "committed H work st st' x \<longleftrightarrow> work (ss_db st) = Inr (ss_db st', x) \<and> st' = st\<lparr>ss_db := ss_db st'\<rparr>
     \<and> is_ok (replay_and_verify H (ss_db st'))"

lemma transaction_Inl: "transaction H work st = (st', Inl e) \<Longrightarrow> st' = st"
  by (auto simp: transaction_def transact_public_def commit_def split: sum.splits)

lemma transaction_Inr: "transaction H work st = (st', Inr x) \<Longrightarrow> committed H work st st' x"
  by (auto simp: transaction_def transact_public_def commit_def committed_def is_ok_def split: sum.splits)

lemma with_args_Inl: "with_args m (\<lambda>n. transaction H (work n)) st = (st', Inl e) \<Longrightarrow> st' = st"
  by (auto simp: with_args_def dest: transaction_Inl split: sum.splits)

lemma with_args_Inr: "with_args m (\<lambda>n. transaction H (work n)) st = (st', Inr x)
    \<Longrightarrow> \<exists>n. m = Inr n \<and> committed H (work n) st st' x"
  by (auto simp: with_args_def dest: transaction_Inr split: sum.splits)

lemma build_ledger_snapshot: "build_ledger H d = Inr l \<Longrightarrow> replay_and_verify H d = Inr s \<Longrightarrow> pl_snapshot l = s"
  by (auto simp: build_ledger_def ledger_of_def Let_def)

section \<open>Fills\<close>

text \<open>
  A fill of an order that the account allows: the price and the fee are the recomputed ones, the
  quantity is the attempted one or its cap at the open, and a purchase fits the cash and a sale
  the position of the replayed account.
\<close>

definition allowed_fill :: "paper_snapshot \<Rightarrow> paper_order \<Rightarrow> pyfloat \<Rightarrow> paper_fill \<Rightarrow> bool" where
  "allowed_fill s x attempted f \<longleftrightarrow>
     pf_order_id f = po_order_id x \<and> pf_side f = po_side x \<and> pf_reason f = po_reason x
     \<and> pf_fill_price f = computed_fill_price (pf_reference_price f) (po_slippage_rate x) (po_side x)
     \<and> isfinite (pf_fill_price f) \<and> \<not> pf_fill_price f \<le> 0
     \<and> computed_fee (pf_quantity f) (pf_fill_price f) (po_fee_rate x) = Inr (pf_fee f)
     \<and> pf_slippage f = computed_slippage (pf_quantity f) (pf_fill_price f) (pf_reference_price f)
     \<and> \<not> pf_quantity f \<le> 0 \<and> \<not> dec_of_float (po_remainder_quantity x) < dec_of_float attempted
     \<and> (if po_side x = ''BUY''
        then \<not> exceeds_cash (pf_quantity f) (pf_fill_price f) (pf_fee f) (pn_cash s)
          \<and> (case po_execution_context x of None \<Rightarrow> pf_quantity f = attempted
             | Some c \<Rightarrow> \<exists>cap. execution_quantity c (po_fee_rate x) (pf_fill_price f) (pn_cash s) = Inr cap
                 \<and> pf_quantity f = pmin attempted cap)
        else pf_quantity f = attempted
          \<and> (if po_side x = ''SELL'' then \<not> dec_of_float (pn_btc_quantity s) < dec_of_float (pf_quantity f) else True))"

lemma write_fill_made: "write_fill H B q stops quantity fee capped d = Inr (d1, Some f)
    \<Longrightarrow> f = made_fill q (fill_identity H (po_order_id (fq_order q)) (fq_candle_text q) quantity) quantity fee"
  by (auto simp: write_fill_def Let_def split: if_splits)

lemma reject_fill_none: "reject_fill H q tag v reason d \<noteq> Inr (d1, Some f)"
  by (auto simp: reject_fill_def)

lemma process_order_fill:
  assumes "process_order H B x text t reference actual stops d = Inr (d1, Some f)" and s: "replay_and_verify H d = Inr s"
  shows "allowed_fill s x (case actual of None \<Rightarrow> po_remainder_quantity x | Some v \<Rightarrow> v) f
    \<and> pf_reference_price f = reference \<and> pf_fill_time f = t"
  using assms
  by (auto simp: process_order_def Let_def fill_within_def cap_execution_def reject_fill_none allowed_fill_def made_fill_def
      split: if_splits option.splits bool.splits prod.splits dest!: write_fill_made)

text \<open>The order of an id in the ledger of a database, active and eligible at this open.\<close>

definition eligible_order :: "sha256 \<Rightarrow> db \<Rightarrow> string \<Rightarrow> paper_ledger \<Rightarrow> paper_order \<Rightarrow> instant \<Rightarrow> bool" where
  "eligible_order H d order_id l x t \<longleftrightarrow> build_ledger H d = Inr l \<and> find_paper order_id (pl_orders l) = Some x
     \<and> is_active x \<and> po_order_kind x = ''MARKET'' \<and> t = po_eligible_open_utc x \<and> po_signal_at_utc x < t"

lemma open_body_fill:
  assumes "open_body H B i text t reference actual d = Inr (d1, Some f)"
  shows "\<exists>l x attempted. eligible_order H d i l x (pf_fill_time f) \<and> allowed_fill (pl_snapshot l) x attempted f
    \<and> pf_fill_time f = t \<and> pf_reference_price f = reference"
proof -
  from assms obtain l where l: "build_ledger H d = Inr l" unfolding open_body_def ebind_eq_Inr by blast
  with assms obtain x where f: "find_paper i (pl_orders l) = Some x"
    by (cases "find_paper i (pl_orders l)") (simp_all add: open_body_def)
  have act: "is_active x" using assms l f by (cases "is_active x") (simp_all add: open_body_def)
  then have x: "po_order_kind x = ''MARKET''" "t = po_eligible_open_utc x" "po_signal_at_utc x < t"
    and p: "process_order H B x text t reference actual (pl_open_stops l) d = Inr (d1, Some f)"
    using assms l f by (auto simp: open_body_def)
  from l obtain s where s: "replay_and_verify H d = Inr s" unfolding build_ledger_def ebind_eq_Inr by blast
  with build_ledger_snapshot [OF l s] have "replay_and_verify H d = Inr (pl_snapshot l)" by simp
  from process_order_fill [OF p this] show ?thesis using l x f act by (auto simp: eligible_order_def)
qed

text \<open>
  C23: processing an open is atomic and fills only what is allowed. When \<open>process_open\<close> raises, the
  store is as it was. When it returns no fill, at most the database has changed, and it verifies.
  When it returns a fill, the order was active in the ledger before the call, a market order whose
  eligible open is the time of the fill and strictly later than its signal; the price, the fee and
  the slippage are the recomputed ones; the quantity is within the remainder, and for a bound
  entry the cap at the open; and a purchase fits the cash and a sale the position of the account.
\<close>

theorem process_open_safe:
  "case process_open H B order_id candle_at open_price actual st of
     (st', Inl e) \<Rightarrow> st' = st
   | (st', Inr None) \<Rightarrow> st' = st\<lparr>ss_db := ss_db st'\<rparr> \<and> is_ok (replay_and_verify H (ss_db st'))
   | (st', Inr (Some f)) \<Rightarrow> st' = st\<lparr>ss_db := ss_db st'\<rparr> \<and> is_ok (replay_and_verify H (ss_db st'))
       \<and> (\<exists>l x attempted. eligible_order H (ss_db st) order_id l x (pf_fill_time f)
            \<and> allowed_fill (pl_snapshot l) x attempted f)"
proof -
  obtain st' r where run: "process_open H B order_id candle_at open_price actual st = (st', r)" by force
  show ?thesis
  proof (cases r)
    case (Inl e)
    then show ?thesis using run unfolding process_open_def by (auto simp: case_prod_unfold dest!: with_args_Inl)
  next
    case (Inr y)
    obtain u t reference a where c: "committed H (open_body H B order_id u t reference a) st st' y"
      using run unfolding process_open_def Inr
      by (auto simp: case_prod_unfold text_arg_def split: if_splits dest!: with_args_Inr)
    then show ?thesis using run Inr open_body_fill unfolding committed_def by (fastforce split: option.splits)
  qed
qed

section \<open>Protective stops\<close>

text \<open>What a new stop must satisfy in the ledger before the call.\<close>

definition new_stop_allowed :: "paper_ledger \<Rightarrow> paper_stop \<Rightarrow> bool" where
  "new_stop_allowed l c \<longleftrightarrow> \<not> pn_btc_quantity (pl_snapshot l) \<le> 0
     \<and> open_entry_identity (pl_fills l) = Inr (pp_source_id c) \<and> is_boundary (pp_observed_at_utc c)
     \<and> (case pl_active_stop l of
          None \<Rightarrow> if pp_active_after_utc c = pp_observed_at_utc c then pp_reason c = ''HARD_STOP''
                  else pp_active_after_utc c = pp_observed_at_utc c + FOUR_HOURS
        | Some s \<Rightarrow> pp_active_after_utc c = pp_observed_at_utc c + FOUR_HOURS
            \<and> \<not> dec_of_float (pp_stop_price c) < dec_of_float (pp_stop_price s))"

lemma read_stop_args:
  assumes "read_stop_args observed_at price active_after reason source = Inr a"
  shows "is_boundary (sq_time a) \<and> (sq_active_time a = sq_time a \<or> sq_active_time a = sq_time a + FOUR_HOURS)"
  using assms
  by (auto simp: read_stop_args_def require_boundary_def split: option.splits if_splits dest!: next_boundary)

lemma set_stop_body_new:
  assumes "set_stop_body H B a d = Inr (d1, c)" and a: "is_boundary (sq_time a)"
    "sq_active_time a = sq_time a \<or> sq_active_time a = sq_time a + FOUR_HOURS"
  shows "\<exists>l. build_ledger H d = Inr l \<and> (if d1 = d then True else new_stop_allowed l c)"
proof -
  obtain l source where l: "build_ledger H d = Inr l" "stop_source a l = Inr source"
    using assms(1) unfolding set_stop_body_def ebind_eq_Inr by blast
  define c0 where "c0 = stop_candidate H B a source"
  have src: "open_entry_identity (pl_fills l) = Inr source"
    "sq_active_time a \<noteq> sq_time a \<or> sq_reason a = ''HARD_STOP'' \<and> pl_active_stop l = None"
    using l(2) unfolding stop_source_def ebind_eq_Inr ensure_eq_Inr by blast+
  have c0: "pp_source_id c0 = source" "pp_observed_at_utc c0 = sq_time a" "pp_active_after_utc c0 = sq_active_time a"
    "pp_reason c0 = sq_reason a" by (simp_all add: c0_def stop_candidate_def)
  have main: "(case List.find (\<lambda>e. sv_event_id e = stop_set_id H (pp_stop_id c0)) (pn_event_evidence (pl_snapshot l)) of
       Some e \<Rightarrow>
         ebind (stop_from_event H e) (\<lambda>persisted.
         ebind (ensure (same_stop persisted c0) (IdempotencyConflictError ''stop identity has conflicting evidence'')) (\<lambda>_.
         Inr (d, persisted)))
     | None \<Rightarrow>
         ebind (ensure (\<not> pn_btc_quantity (pl_snapshot l) \<le> 0) (ValueError ''stop requires owned BTC'')) (\<lambda>_.
         case pl_active_stop l of
           None \<Rightarrow> ebind (write_stop H a c0 d) (\<lambda>d1. Inr (d1, c0))
         | Some s \<Rightarrow>
             ebind (ensure (\<not> dec_of_float (pp_stop_price c0) < dec_of_float (pp_stop_price s))
               (ValueError ''protective stop cannot loosen'')) (\<lambda>_.
             if exact (pp_stop_price c0) (pp_stop_price s) then Inr (d, s)
             else ebind (write_stop H a c0 d) (\<lambda>d1. Inr (d1, c0))))) = Inr (d1, c)"
    using assms(1) l by (simp only: set_stop_body_def ebind_Inr Let_def c0_def)
  have "d1 = d \<or> new_stop_allowed l c"
  proof (cases "List.find (\<lambda>e. sv_event_id e = stop_set_id H (pp_stop_id c0)) (pn_event_evidence (pl_snapshot l))")
    case None
    then show ?thesis using main c0 src a
      by (cases "pl_active_stop l") (auto simp: new_stop_allowed_def simp del: dless split: if_splits)
  next
    case (Some e)
    then show ?thesis using main by simp
  qed
  then show ?thesis using l(1) by auto
qed

text \<open>
  C24: a stop protects the open entry and never loosens. When \<open>set_stop\<close> raises, the store is as it
  was. When it returns, either the stop was already in the evidence or is the active one and the
  database is unchanged, or a new stop was written: the account owns bitcoin, its source is the
  open entry, it becomes active at its observation, as the first hard stop at the fill, or at the
  next boundary, and its price is not below that of the stop that was active.
\<close>

theorem set_stop_tightens:
  "case set_stop H B observed_at price active_after reason source st of
     (st', Inl e) \<Rightarrow> st' = st
   | (st', Inr c) \<Rightarrow> st' = st\<lparr>ss_db := ss_db st'\<rparr> \<and> is_ok (replay_and_verify H (ss_db st'))
       \<and> (\<exists>l. build_ledger H (ss_db st) = Inr l \<and> (if ss_db st' = ss_db st then True else new_stop_allowed l c))"
proof -
  obtain st' r where run: "set_stop H B observed_at price active_after reason source st = (st', r)" by force
  show ?thesis
  proof (cases r)
    case (Inl e)
    then show ?thesis using run unfolding set_stop_def by (auto dest!: with_args_Inl)
  next
    case (Inr c)
    obtain a where "read_stop_args observed_at price active_after reason source = Inr a"
      and w: "committed H (set_stop_body H B a) st st' c"
      using run unfolding set_stop_def Inr by (auto dest!: with_args_Inr)
    then show ?thesis using run Inr read_stop_args set_stop_body_new unfolding committed_def by fastforce
  qed
qed

end
