(* ===== verification/PyDate.thy ===== *)
theory PyDate
  imports PyText
begin

text \<open>
  Python's \<open>date\<close>: the ISO text of a day and \<open>date.fromisoformat\<close> of Python 3.12, which also
  reads the basic format and ISO weeks. A day is its number from 1970-01-01.
\<close>

definition date_iso :: "int \<Rightarrow> string" where
  "date_iso n = (let (y, m, d) = civil_from_days (n + EPOCH_DAYS) in pad 4 y @ ''-'' @ pad 2 m @ ''-'' @ pad 2 d)"

definition day_number :: "int \<Rightarrow> int \<Rightarrow> int \<Rightarrow> int option" where
  "day_number y m d =
     (if 1 \<le> y \<and> 1 \<le> m \<and> m \<le> 12 \<and> 1 \<le> d \<and> d \<le> month_lengths y ! nat (m - 1)
      then Some (days_from_civil y m d - EPOCH_DAYS) else None)"

text \<open>The day of an ISO week date; Monday is the first day.\<close>

definition weekday_of :: "int \<Rightarrow> int" where
  "weekday_of n = (n + 3) mod 7"

definition week_one :: "int \<Rightarrow> int" where
  "week_one y = (let first = days_from_civil y 1 1 - EPOCH_DAYS; w = weekday_of first
     in if 3 < w then first - w + 7 else first - w)"

definition has_week_53 :: "int \<Rightarrow> bool" where
  "has_week_53 y = (let w = weekday_of (days_from_civil y 1 1 - EPOCH_DAYS) in w = 3 \<or> (w = 2 \<and> is_leap y))"

definition iso_week_day :: "int \<Rightarrow> int \<Rightarrow> int \<Rightarrow> int option" where
  "iso_week_day y w d =
     (if 1 \<le> y \<and> 1 \<le> w \<and> (w \<le> 52 \<or> (w = 53 \<and> has_week_53 y)) \<and> 1 \<le> d \<and> d \<le> 7
      then (let n = week_one y + (w - 1) * 7 + d - 1 in if n \<le> date_of dt_max then Some n else None) else None)"

definition dash :: "bool \<Rightarrow> string \<Rightarrow> string option" where
  "dash separated s = (if separated then expect CHR ''-'' s else Some s)"

definition date_from_iso :: "string \<Rightarrow> int option" where
  "date_from_iso s0 =
     (if length s0 \<notin> {7, 8, 10} then None
      else Option.bind (digits 0 4 s0) (\<lambda>(y, s1).
      let separated = (s1 \<noteq> [] \<and> hd s1 = CHR ''-''); s2 = (if separated then tl s1 else s1) in
      if s2 \<noteq> [] \<and> hd s2 = CHR ''W'' then
        Option.bind (digits 0 2 (tl s2)) (\<lambda>(w, s3).
        if s3 = [] then iso_week_day y w 1
        else Option.bind (dash separated s3) (\<lambda>s4.
          Option.bind (digits 0 1 s4) (\<lambda>(d, _). iso_week_day y w d)))
      else
        Option.bind (digits 0 2 s2) (\<lambda>(m, s3).
        Option.bind (dash separated s3) (\<lambda>s4.
        Option.bind (digits 0 2 s4) (\<lambda>(d, s5). if s5 = [] then day_number y m d else None)))))"

end
