(* ===== verification/ServiceRisk.thy ===== *)
theory ServiceRisk
  imports PaperBroker RiskState HealthMonitor PyDate
begin

text \<open>
  The risk evidence of the paper service, \<open>src/autobit/paper/service.py\<close>: the stored form of the
  risk state and its strict reader, the health gate that the health events of the store give,
  and the validation of the chain of risk and health events and of the alert events.
\<close>

definition RISK_STATE_VERSION :: int where "RISK_STATE_VERSION = 2"

section \<open>Times\<close>

text \<open>\<open>_require_cycle_end\<close>; \<open>_safe_add\<close>; \<open>_clock_utc\<close> of a reading; \<open>_latest_matured_end\<close>.\<close>

definition require_cycle_end :: "pydatetime \<Rightarrow> instant res" where
  "require_cycle_end v = (case v of
     Naive _ \<Rightarrow> Inl (ValueError ''end_utc must be timezone-aware UTC'')
   | Aware l offset \<Rightarrow>
       if offset \<noteq> 0 then Inl (ValueError ''end_utc must use UTC'')
       else if l mod FOUR_HOURS \<noteq> 0 then Inl (ValueError ''end_utc must be an exact four-hour UTC boundary'')
       else Inr l)"

definition safe_add :: "instant \<Rightarrow> timedelta \<Rightarrow> string \<Rightarrow> instant res" where
  "safe_add t d message = (case dt_add t d of Inl _ \<Rightarrow> Inl (ValueError message) | Inr u \<Rightarrow> Inr u)"

definition clock_utc :: "pydatetime \<Rightarrow> instant res" where
  "clock_utc v =
     (if \<not> is_aware v then Inl (ValueError ''clock must return a timezone-aware datetime'')
      else catch (\<lambda>e. e = OverflowError \<or> is_value_error e) (astimezone_utc v)
        (\<lambda>_. Inl (ValueError ''clock returned an invalid datetime'')))"

definition CYCLE_MATURITY_DELAY :: timedelta where "CYCLE_MATURITY_DELAY = minutes 10"

definition latest_matured_end :: "instant \<Rightarrow> instant res" where
  "latest_matured_end now =
     ebind (safe_add now (- CYCLE_MATURITY_DELAY) ''clock is outside the supported cycle range'') (\<lambda>eligible.
     Inr (eligible div FOUR_HOURS * FOUR_HOURS))"

definition strict_stored_datetime :: "json \<Rightarrow> instant res" where
  "strict_stored_datetime v =
     (let e = Inl (ValueError ''stored datetime must be canonical UTC'')
      in case v of JStr s \<Rightarrow> (case parse_z s of None \<Rightarrow> e | Some t \<Rightarrow> if iso_z t = s then Inr t else e) | _ \<Rightarrow> e)"

definition optional_stored_datetime :: "json \<Rightarrow> instant option res" where
  "optional_stored_datetime v =
     (if v = JNull then Inr None else ebind (strict_stored_datetime v) (\<lambda>t. Inr (Some t)))"

section \<open>Strict values\<close>

definition finite_from :: "pyfloat res \<Rightarrow> string \<Rightarrow> pyfloat res" where
  "finite_from m label = ebind m (\<lambda>x. if \<not> isfinite x \<or> x < 0
     then Inl (ValueError (label @ '' must be finite and non-negative'')) else Inr x)"

text \<open>\<open>_finite_nonnegative\<close> of a stored value and of a cell, and \<open>_positive_finite\<close> of a cell.\<close>

definition finite_nonnegative :: "json \<Rightarrow> string \<Rightarrow> pyfloat res" where
  "finite_nonnegative v label =
     (if is_json_bool v then Inl (ValueError (label @ '' must be finite and non-negative''))
      else finite_from (json_float v) label)"

definition cell_positive :: "pyval \<Rightarrow> string \<Rightarrow> pyfloat res" where
  "cell_positive v label =
     ebind (if is_bool v then Inl (ValueError (label @ '' must be finite and non-negative''))
            else finite_from (py_float v) label) (\<lambda>x.
     if x \<le> 0 then Inl (PaperServiceError (label @ '' must be positive'')) else Inr x)"

definition nonnegative_int :: "json \<Rightarrow> string \<Rightarrow> int res" where
  "nonnegative_int v label = (case v of
     JInt n \<Rightarrow> if n < 0 then Inl (ValueError (label @ '' must be a non-negative integer'')) else Inr n
   | _ \<Rightarrow> Inl (ValueError (label @ '' must be a non-negative integer'')))"

definition service_bool :: "json \<Rightarrow> string \<Rightarrow> bool res" where
  "service_bool v label = (case v of JBool b \<Rightarrow> Inr b | _ \<Rightarrow> Inl (ValueError (label @ '' must be a bool'')))"

text \<open>Membership in a set of strings; a value that holds a mapping cannot be hashed.\<close>

fun hashable :: "json \<Rightarrow> bool" where
  "hashable (JObj _) = False"
| "hashable (JList vs) = list_all hashable vs"
| "hashable (JTuple vs) = list_all hashable vs"
| "hashable _ = True"

definition member_of :: "json \<Rightarrow> string list \<Rightarrow> bool res" where
  "member_of v ss = (if \<not> hashable v then Inl TypeError else Inr (case v of JStr s \<Rightarrow> s \<in> set ss | _ \<Rightarrow> False))"

section \<open>The stored risk state\<close>

definition json_date :: "int option \<Rightarrow> json" where
  "json_date d = (case d of None \<Rightarrow> JNull | Some n \<Rightarrow> JStr (date_iso n))"

definition risk_state_payload :: "risk_state \<Rightarrow> members" where
  "risk_state_payload s =
     [(''consecutive_losses'', JInt (rk_consecutive_losses s)),
      (''daily_baseline_equity'', JFloat (rk_daily_baseline_equity s)),
      (''daily_date'', json_date (rk_daily_date s)),
      (''daily_halt_started_at_utc'', optional_datetime (rk_daily_halt_started_at s)),
      (''decision_exposure_cap'', JFloat (rd_exposure_cap (rk_decision s))),
      (''decision_halted_until_utc'', optional_datetime (rd_halted_until (rk_decision s))),
      (''decision_reasons'', JList (map JStr (rd_reasons (rk_decision s)))),
      (''decision_risk_rate'', JFloat (rd_risk_rate (rk_decision s))),
      (''equity_history'', JList (map (\<lambda>(t, x). JObj [(''at_utc'', JStr (iso_z t)), (''equity'', JFloat x)]) (rk_equity_history s))),
      (''equity_peak'', JFloat (rk_equity_peak s)),
      (''halt_entries'', JBool (rd_risk_rate (rk_decision s) \<le> 0)),
      (''last_equity'', JFloat (rk_last_equity s)),
      (''last_risk_at_utc'', optional_datetime (rk_last_risk_at s)),
      (''processed_trade_count'', JInt (rk_processed_trade_count s)),
      (''profitable_trades_since_streak_halt'', JInt (rk_profitable_trades s)),
      (''recovery_started_at_utc'', optional_datetime (rk_recovery_started_at s)),
      (''risk_started_at_utc'', optional_datetime (rk_risk_started_at s)),
      (''streak_halt_started_at_utc'', optional_datetime (rk_streak_halt_started_at s)),
      (''version'', JInt RISK_STATE_VERSION),
      (''volatility_halted'', JBool (rk_volatility_halted s)),
      (''volatility_stable_bars'', JInt (rk_volatility_stable_bars s)),
      (''weekly_halt_started_at_utc'', optional_datetime (rk_weekly_halt_started_at s))]"

definition history_item :: "json \<Rightarrow> (instant \<times> pyfloat) res" where
  "history_item v = (case v of
     JObj p \<Rightarrow>
       ebind (ensure (keys_are p [''at_utc'', ''equity'']) (ValueError ''invalid equity history item'')) (\<lambda>_.
       ebind (strict_stored_datetime (field p ''at_utc'')) (\<lambda>t.
       ebind (finite_nonnegative (field p ''equity'') ''history equity'') (\<lambda>x. Inr (t, x))))
   | _ \<Rightarrow> Inl (ValueError ''invalid equity history item''))"

fun increasing :: "instant list \<Rightarrow> bool" where
  "increasing (s # t # ts) \<longleftrightarrow> s < t \<and> increasing (t # ts)"
| "increasing _ \<longleftrightarrow> True"

definition stored_history :: "json \<Rightarrow> (instant \<times> pyfloat) list res" where
  "stored_history v = (case json_items v of
     None \<Rightarrow> Inl (ValueError ''invalid equity history'')
   | Some items \<Rightarrow>
       ebind (emap history_item items) (\<lambda>h.
       ebind (ensure (increasing (map fst h)) (ValueError ''risk history is not strictly increasing'')) (\<lambda>_. Inr h)))"

definition stored_reasons :: "json \<Rightarrow> string list res" where
  "stored_reasons v = (case json_items v of
     None \<Rightarrow> Inl (ValueError ''invalid risk reasons'')
   | Some items \<Rightarrow> (case json_strings items of
       None \<Rightarrow> Inl (ValueError ''invalid risk reason'')
     | Some rs \<Rightarrow> if [] \<in> set rs then Inl (ValueError ''invalid risk reason'') else Inr rs))"

definition stored_date :: "json \<Rightarrow> int option res" where
  "stored_date v = (case v of
     JStr s \<Rightarrow> (case date_from_iso s of None \<Rightarrow> Inl (ValueError ''Invalid isoformat string'') | Some n \<Rightarrow> Inr (Some n))
   | _ \<Rightarrow> Inr None)"

definition stored_decision :: "members \<Rightarrow> risk_decision res" where
  "stored_decision p =
     ebind (stored_reasons (field p ''decision_reasons'')) (\<lambda>reasons.
     ebind (finite_nonnegative (field p ''decision_risk_rate'') ''decision risk rate'') (\<lambda>rate.
     ebind (finite_nonnegative (field p ''decision_exposure_cap'') ''decision exposure cap'') (\<lambda>cap.
     ebind (optional_stored_datetime (field p ''decision_halted_until_utc'')) (\<lambda>halted.
     Inr \<lparr> rd_risk_rate = rate, rd_exposure_cap = cap, rd_halted_until = halted, rd_reasons = reasons \<rparr>))))"

text \<open>The fields of the state, after the date, the history and the decision.\<close>

definition stored_fields :: "members \<Rightarrow> int option \<Rightarrow> (instant \<times> pyfloat) list \<Rightarrow> risk_decision \<Rightarrow> risk_state res" where
  "stored_fields p daily_date history decision =
     ebind (finite_nonnegative (field p ''equity_peak'') ''equity peak'') (\<lambda>peak.
     ebind (finite_nonnegative (field p ''daily_baseline_equity'') ''daily baseline'') (\<lambda>daily.
     ebind (optional_stored_datetime (field p ''risk_started_at_utc'')) (\<lambda>started.
     ebind (finite_nonnegative (field p ''last_equity'') ''last equity'') (\<lambda>last_equity.
     ebind (optional_stored_datetime (field p ''last_risk_at_utc'')) (\<lambda>last_risk.
     ebind (nonnegative_int (field p ''consecutive_losses'') ''loss count'') (\<lambda>losses.
     ebind (nonnegative_int (field p ''processed_trade_count'') ''trade cursor'') (\<lambda>trades.
     ebind (optional_stored_datetime (field p ''recovery_started_at_utc'')) (\<lambda>recovery.
     ebind (optional_stored_datetime (field p ''daily_halt_started_at_utc'')) (\<lambda>daily_halt.
     ebind (optional_stored_datetime (field p ''weekly_halt_started_at_utc'')) (\<lambda>weekly_halt.
     ebind (optional_stored_datetime (field p ''streak_halt_started_at_utc'')) (\<lambda>streak_halt.
     ebind (nonnegative_int (field p ''profitable_trades_since_streak_halt'') ''profitable trade count'') (\<lambda>profitable.
     ebind (service_bool (field p ''volatility_halted'') ''volatility halt'') (\<lambda>volatility.
     ebind (nonnegative_int (field p ''volatility_stable_bars'') ''volatility stable bars'') (\<lambda>stable.
     Inr \<lparr> rk_equity_peak = peak, rk_daily_date = daily_date, rk_daily_baseline_equity = daily,
           rk_equity_history = history, rk_risk_started_at = started, rk_last_equity = last_equity,
           rk_last_risk_at = last_risk, rk_consecutive_losses = losses, rk_processed_trade_count = trades,
           rk_recovery_started_at = recovery, rk_daily_halt_started_at = daily_halt,
           rk_weekly_halt_started_at = weekly_halt, rk_streak_halt_started_at = streak_halt,
           rk_profitable_trades = profitable, rk_volatility_halted = volatility,
           rk_volatility_stable_bars = stable, rk_decision = decision,
           rk_initial_equity = rk_initial_equity RiskState \<rparr>))))))))))))))"

definition stored_risk_state :: "members \<Rightarrow> risk_state res" where
  "stored_risk_state p =
     ebind (stored_date (field p ''daily_date'')) (\<lambda>daily_date.
     ebind (stored_history (field p ''equity_history'')) (\<lambda>history.
     ebind (stored_decision p) (\<lambda>decision.
     ebind (stored_fields p daily_date history decision) (\<lambda>s.
     ebind (service_bool (field p ''halt_entries'') ''halt entries'') (\<lambda>halt.
     ebind (ensure (halt = (rd_risk_rate decision \<le> 0)) (ValueError ''halt flag contradicts risk decision'')) (\<lambda>_.
     ebind (ensure (\<not> (rk_last_risk_at s \<noteq> None \<and> history \<noteq> [] \<and> rk_last_risk_at s \<noteq> Some (fst (last history))))
       (ValueError ''risk cursor contradicts equity history'')) (\<lambda>_. Inr s)))))))"

definition RISK_KEYS :: "string list" where
  "RISK_KEYS = map fst (risk_state_payload RiskState)"

definition risk_state_from_payload :: "members \<Rightarrow> risk_state res" where
  "risk_state_from_payload p =
     (if p = [] then Inr RiskState
      else ebind (ensure (keys_are p RISK_KEYS
          \<and> (case field p ''version'' of JInt v \<Rightarrow> v = 1 \<or> v = RISK_STATE_VERSION | _ \<Rightarrow> False))
        (corrupt ''persisted breaker state has an invalid schema'')) (\<lambda>_.
      catch (\<lambda>e. is_value_error e \<or> e \<in> {TypeError, OverflowError, KeyError}) (stored_risk_state p)
        (\<lambda>_. Inl (corrupt ''persisted breaker state is invalid''))))"

section \<open>The health gate\<close>

record health_gate =
  hg_action :: "health_action option"
  hg_event_id :: "string option"
  hg_sequence :: int
  hg_version :: int

definition EMPTY_HEALTH :: exn where "EMPTY_HEALTH = HealthStateError ''health event payload must not be empty''"

fun is_health_error :: "exn \<Rightarrow> bool" where
  "is_health_error (HealthStateError _) = True"
| "is_health_error _ = False"

text \<open>The loop over the health events: the last one that is read, or the gate of one that is not.\<close>

fun gate_loop :: "stored_event list \<Rightarrow> (health_snapshot \<times> stored_event) option \<Rightarrow> health_gate res" where
  "gate_loop [] latest = (case latest of
     None \<Rightarrow> ebind (new_monitor healthy) (\<lambda>m.
       Inr \<lparr> hg_action = Some (current_action m), hg_event_id = None, hg_sequence = 0, hg_version = 1 \<rparr>)
   | Some (s, e) \<Rightarrow> ebind (new_monitor s) (\<lambda>m.
       Inr \<lparr> hg_action = Some (current_action m), hg_event_id = Some (sv_event_id e), hg_sequence = sv_sequence e,
         hg_version = (case field (sv_payload e) ''version'' of JInt v \<Rightarrow> v | _ \<Rightarrow> 0) \<rparr>))"
| "gate_loop (e # es) latest = (case from_event_mapping (sv_payload e) of
     Inr s \<Rightarrow> gate_loop es (Some (s, e))
   | Inl x \<Rightarrow>
       if sv_payload e = [] \<or> \<not> is_health_error x then Inl x
       else Inr \<lparr> hg_action = None, hg_event_id = Some (sv_event_id e), hg_sequence = sv_sequence e, hg_version = 0 \<rparr>)"

definition health_gate_from_events :: "stored_event list \<Rightarrow> health_gate res" where
  "health_gate_from_events events = gate_loop events None"

definition gate_events :: "stored_event list \<Rightarrow> stored_event list" where
  "gate_events events = filter (\<lambda>e. sv_event_type e = ''HEALTH_STATE'') events"

definition health_gate_from_snapshot :: "paper_snapshot \<Rightarrow> health_gate res" where
  "health_gate_from_snapshot snapshot =
     (let events = gate_events (pn_event_evidence snapshot) in
      ebind (health_gate_from_events events) (\<lambda>gate.
      if hg_event_id gate = None then
        ebind (ensure (pn_health_state snapshot = []) (corrupt ''health projection has no event evidence'')) (\<lambda>_. Inr gate)
      else if hg_action gate = None then Inr gate
      else
        ebind (from_mapping (pn_health_state snapshot)) (\<lambda>projected.
        ebind (from_event_mapping (sv_payload (last events))) (\<lambda>latest.
        ebind (ensure (projected = latest) (corrupt ''health projection contradicts event evidence'')) (\<lambda>_. Inr gate)))))"

definition apply_health_action :: "risk_decision \<Rightarrow> health_action option \<Rightarrow> risk_decision" where
  "apply_health_action d action = (case action of
     None \<Rightarrow> apply_health_recovery d (VBool False) (VBool False)
   | Some a \<Rightarrow> apply_health_recovery d (VBool (\<not> ha_halt_entries a)) (VBool (ha_resume_reduced a)))"

definition health_risk_followup_id :: "sha256 \<Rightarrow> instant \<Rightarrow> health_gate \<Rightarrow> string res" where
  "health_risk_followup_id H bar_at g = (case hg_event_id g of
     None \<Rightarrow> Inl (corrupt ''health risk followup lacks event identity'')
   | Some i \<Rightarrow>
       if hg_sequence g \<le> 0 then Inl (corrupt ''health risk followup lacks event identity'')
       else Inr (''risk-health:'' @ iso_z bar_at @ '':'' @ show_int (hg_sequence g) @ '':v'' @ show_int (hg_version g)
         @ '':'' @ sha_text H i))"

section \<open>The chain of risk and health events\<close>

record risk_chain =
  rc_projection :: risk_state
  rc_latest_base :: risk_state
  rc_base_event :: "stored_event option"
  rc_risk_event :: "stored_event option"

record chain_scan =
  cs_chain :: risk_chain
  cs_health :: "stored_event list"
  cs_previous :: "stored_event option"
  cs_version :: int

definition no_chain :: chain_scan where
  "no_chain = \<lparr> cs_chain = \<lparr> rc_projection = RiskState, rc_latest_base = RiskState, rc_base_event = None, rc_risk_event = None \<rparr>,
     cs_health = [], cs_previous = None, cs_version = 1 \<rparr>"

text \<open>A risk event that overlays the latest base with the latest health event.\<close>

definition check_followup :: "sha256 \<Rightarrow> chain_scan \<Rightarrow> stored_event \<Rightarrow> risk_state \<Rightarrow> risk_chain res" where
  "check_followup H s e candidate =
     (let c = cs_chain s; base = rc_latest_base c in
      case (rc_base_event c, rk_last_risk_at base) of
        (Some _, Some t) \<Rightarrow>
          ebind (ensure (rk_last_risk_at candidate = Some t) (corrupt ''health risk followup changes the risk cursor'')) (\<lambda>_.
          ebind (health_gate_from_events (cs_health s)) (\<lambda>gate.
          ebind (if hg_event_id gate = None then Inr False
            else ebind (health_risk_followup_id H t gate) (\<lambda>i. Inr (i = sv_event_id e))) (\<lambda>bound.
          ebind (ensure bound (corrupt ''health risk followup is not bound to the latest health event'')) (\<lambda>_.
          ebind (ensure (candidate = base\<lparr> rk_decision := apply_health_action (rk_decision base) (hg_action gate) \<rparr>)
            (corrupt ''health risk followup decision is inconsistent'')) (\<lambda>_.
          ebind (ensure (sv_occurred_at_utc e = (case cs_previous s of None \<Rightarrow> t | Some p \<Rightarrow> max t (sv_occurred_at_utc p)))
            (corrupt ''health risk followup timestamp is inconsistent'')) (\<lambda>_.
          Inr (c\<lparr> rc_projection := candidate \<rparr>)))))))
      | _ \<Rightarrow> Inl (corrupt ''health risk followup lacks canonical base''))"

text \<open>A canonical risk event: the base of its bar.\<close>

definition check_base :: "chain_scan \<Rightarrow> stored_event \<Rightarrow> risk_state \<Rightarrow> risk_chain res" where
  "check_base s e candidate =
     (case rk_last_risk_at candidate of
        None \<Rightarrow> Inl (corrupt ''canonical risk event lacks its cursor'')
      | Some t \<Rightarrow>
          ebind (ensure (sv_event_id e = ''risk:'' @ iso_z t) (corrupt ''breaker event identity is not canonical'')) (\<lambda>_.
          ebind (ensure (sv_occurred_at_utc e = t) (corrupt ''risk cursor contradicts its event envelope'')) (\<lambda>_.
          ebind (ensure (''health_recovery_reduced'' \<notin> set (rd_reasons (rk_decision candidate)))
            (corrupt ''canonical risk event contains an unbound health marker'')) (\<lambda>_.
          ebind (ensure (case rk_last_risk_at (rc_latest_base (cs_chain s)) of None \<Rightarrow> True | Some b \<Rightarrow> b < t)
            (corrupt ''canonical risk cursors are not strictly increasing'')) (\<lambda>_.
          Inr ((cs_chain s)\<lparr> rc_latest_base := candidate, rc_projection := candidate, rc_base_event := Some e \<rparr>))))))"

definition chain_step :: "sha256 \<Rightarrow> stored_event \<Rightarrow> chain_scan \<Rightarrow> chain_scan res" where
  "chain_step H e s0 =
     (let s = (if sv_event_type e = ''HEALTH_STATE'' then s0\<lparr> cs_health := cs_health s0 @ [e] \<rparr> else s0) in
      if sv_event_type e \<noteq> ''BREAKER_STATE'' then Inr (s\<lparr> cs_previous := Some e \<rparr>)
      else
        ebind (ensure (sv_payload e \<noteq> []) (corrupt ''persisted breaker event has an empty schema'')) (\<lambda>_.
        ebind (risk_state_from_payload (sv_payload e)) (\<lambda>candidate.
        let version = (case field (sv_payload e) ''version'' of JInt v \<Rightarrow> v | _ \<Rightarrow> 0) in
        ebind (ensure (\<not> version < cs_version s) (corrupt ''breaker policy version downgrade is invalid'')) (\<lambda>_.
        ebind (if starts_with ''risk-health:'' (sv_event_id e) then check_followup H s e candidate
          else check_base s e candidate) (\<lambda>c.
        Inr (s\<lparr> cs_chain := c\<lparr> rc_risk_event := Some e \<rparr>, cs_previous := Some e, cs_version := version \<rparr>))))))"

definition validate_chain :: "sha256 \<Rightarrow> paper_snapshot \<Rightarrow> risk_chain res" where
  "validate_chain H snapshot =
     ebind (health_gate_from_snapshot snapshot) (\<lambda>_.
     ebind (efold (chain_step H) (pn_event_evidence snapshot) no_chain) (\<lambda>s.
     let c = cs_chain s in
     ebind (if rc_risk_event c = None
       then ensure (pn_breaker_state snapshot = []) (corrupt ''breaker projection has no event evidence'')
       else ebind (risk_state_from_payload (pn_breaker_state snapshot)) (\<lambda>stored.
         ensure (stored = rc_projection c
             \<and> json_eq (field (pn_breaker_state snapshot) ''version'') (JInt (cs_version s)))
           (corrupt ''breaker projection contradicts event evidence''))) (\<lambda>_.
     Inr c)))"

section \<open>The chain of alerts\<close>

definition ALERT_SOURCE_TYPES :: "string list" where
  "ALERT_SOURCE_TYPES = [''HEALTH_STATE'', ''PAPER_CYCLE'']"

definition alert_digest :: "sha256 \<Rightarrow> string \<Rightarrow> string \<Rightarrow> string" where
  "alert_digest H source_id source_type = sha_text H (source_id @ ''|'' @ source_type)"

definition ALERT_KEYS :: "string list" where
  "ALERT_KEYS = [''source_event_id'', ''source_event_type'', ''version'']"

text \<open>The envelope of an alert event and the source that it names.\<close>

definition alert_source :: "stored_event \<Rightarrow> (string \<times> stored_event) list \<Rightarrow> (string \<times> string) res" where
  "alert_source e prior =
     (let p = sv_payload e in
      ebind (ensure (keys_are p (if sv_event_type e = ''ALERT_ATTEMPT'' then ALERT_KEYS else ''failure_code'' # ALERT_KEYS)
          \<and> (case field p ''version'' of JInt _ \<Rightarrow> True | _ \<Rightarrow> False)) (corrupt ''alert evidence payload is invalid'')) (\<lambda>_.
      ebind (ensure (field p ''version'' = JInt 1) (corrupt ''alert evidence version is invalid'')) (\<lambda>_.
      case field p ''source_event_id'' of
        JStr i \<Rightarrow>
          ebind (ensure (i \<noteq> []) (corrupt ''alert evidence source identity is invalid'')) (\<lambda>_.
          ebind (member_of (field p ''source_event_type'') ALERT_SOURCE_TYPES) (\<lambda>known.
          case (known, field p ''source_event_type'') of
            (True, JStr ty) \<Rightarrow>
              ebind (ensure (case map_of prior i of None \<Rightarrow> False | Some source \<Rightarrow> sv_event_type source = ty)
                (corrupt ''alert evidence has no matching prior source'')) (\<lambda>_. Inr (i, ty))
          | _ \<Rightarrow> Inl (corrupt ''alert evidence source identity is invalid'')))
      | _ \<Rightarrow> Inl (corrupt ''alert evidence source identity is invalid''))))"

definition alert_step :: "sha256 \<Rightarrow> stored_event \<Rightarrow> (string \<times> stored_event) list \<Rightarrow> (string \<times> stored_event) list res" where
  "alert_step H e prior =
     (if sv_event_type e \<notin> {''ALERT_ATTEMPT'', ''ALERT_FAILURE''} then Inr ((sv_event_id e, e) # prior)
      else
        ebind (alert_source e prior) (\<lambda>(i, ty).
        let digest = alert_digest H i ty; attempt_id = ''alert-attempt:'' @ digest in
        ebind (if sv_event_type e = ''ALERT_ATTEMPT''
          then ensure (sv_event_id e = attempt_id) (corrupt ''alert evidence identity is invalid'')
          else
            ebind (ensure (field (sv_payload e) ''failure_code'' = JStr ''DELIVERY_FAILED''
                \<and> sv_event_id e = ''alert-failure:'' @ digest)
              (corrupt ''alert evidence failure payload is invalid'')) (\<lambda>_.
            ensure (case map_of prior attempt_id of None \<Rightarrow> False | Some a \<Rightarrow> sv_event_type a = ''ALERT_ATTEMPT'')
              (corrupt ''alert evidence failure has no prior attempt''))) (\<lambda>_.
        Inr ((sv_event_id e, e) # prior))))"

definition validate_alert_chain :: "sha256 \<Rightarrow> stored_event list \<Rightarrow> unit res" where
  "validate_alert_chain H events = ebind (efold (alert_step H) events []) (\<lambda>_. Inr ())"

end
