(* ===== verification/ServiceCycle.thy ===== *)
theory ServiceCycle
  imports ServiceRisk
begin

text \<open>
  The chronology of the paper service, \<open>src/autobit/paper/service.py\<close>: the completions and
  attempts of cycles in the evidence of the store, and the resolution of the oldest cycle that is
  not finished. A set of times is the list of its elements; \<open>broker.order\<close> reads the store again.
\<close>

section \<open>Completed cycles\<close>

definition cycle_event_id :: "instant \<Rightarrow> string" where
  "cycle_event_id t = ''cycle:'' @ iso_z t"

definition CYCLE_KEYS :: "string list" where
  "CYCLE_KEYS = [''created_order_ids'', ''end_utc'', ''filled_order_ids'', ''reason_codes'', ''status'']"

definition cycle_texts :: "json \<Rightarrow> string list res" where
  "cycle_texts v = (case json_items v of
     None \<Rightarrow> Inl (corrupt ''cycle completion list evidence is invalid'')
   | Some items \<Rightarrow> (case json_strings items of
       None \<Rightarrow> Inl (corrupt ''cycle completion list evidence is invalid'')
     | Some ss \<Rightarrow> if [] \<in> set ss then Inl (corrupt ''cycle completion list evidence is invalid'') else Inr ss))"

text \<open>The event of a completion, without the orders it names.\<close>

definition check_cycle_payload :: "stored_event \<Rightarrow> instant \<Rightarrow> (string list \<times> string list) res" where
  "check_cycle_payload e end_at =
     (let p = sv_payload e in
      ebind (ensure (sv_event_type e = ''PAPER_CYCLE'' \<and> sv_occurred_at_utc e = end_at)
        (corrupt ''cycle completion evidence is inconsistent'')) (\<lambda>_.
      ebind (ensure (keys_are p CYCLE_KEYS \<and> field p ''end_utc'' = JStr (iso_z end_at))
        (corrupt ''cycle completion payload is inconsistent'')) (\<lambda>_.
      ebind (member_of (field p ''status'') [''PROCESSED'', ''UNSAFE_DATA'']) (\<lambda>known.
      ebind (ensure known (corrupt ''cycle completion status is invalid'')) (\<lambda>_.
      ebind (cycle_texts (field p ''created_order_ids'')) (\<lambda>created.
      ebind (cycle_texts (field p ''filled_order_ids'')) (\<lambda>filled.
      ebind (cycle_texts (field p ''reason_codes'')) (\<lambda>_.
      ebind (ensure (distinct created \<and> distinct filled) (corrupt ''cycle mutation identities must be unique'')) (\<lambda>_.
      ebind (ensure (\<not> (field p ''status'' = JStr ''UNSAFE_DATA'' \<and> (created \<noteq> [] \<or> filled \<noteq> [])))
        (corrupt ''unsafe cycle cannot claim mutation identities'')) (\<lambda>_.
      Inr (created, filled)))))))))))"

definition named_evidence :: "string \<Rightarrow> string \<Rightarrow> stored_event \<Rightarrow> stored_event list \<Rightarrow> stored_event list" where
  "named_evidence event_type order_id e events =
     filter (\<lambda>c. sv_event_type c = event_type \<and> map_of (sv_payload c) ''order_id'' = Some (JStr order_id)
       \<and> sv_sequence c < sv_sequence e) events"

definition cycle_order :: "sha256 \<Rightarrow> store \<Rightarrow> string \<Rightarrow> string \<Rightarrow> paper_order res" where
  "cycle_order H st order_id message = catch is_value_error (order H order_id st) (\<lambda>_. Inl (corrupt message))"

definition check_created :: "sha256 \<Rightarrow> store \<Rightarrow> stored_event list \<Rightarrow> stored_event \<Rightarrow> instant \<Rightarrow> string \<Rightarrow> unit res" where
  "check_created H st events e bar_at order_id =
     ebind (ensure (length (named_evidence ''PAPER_ORDER'' order_id e events) = 1)
       (corrupt ''cycle created order lacks prior paper order evidence'')) (\<lambda>_.
     ebind (cycle_order H st order_id ''cycle created order does not exist'') (\<lambda>x.
     ebind (ensure (po_order_kind x = ''MARKET'' \<and> po_parent_order_id x = None)
       (corrupt ''cycle created order kind is invalid'')) (\<lambda>_.
     ensure (po_signal_at_utc x = bar_at) (corrupt ''cycle created order does not belong to its signal bar''))))"

definition check_filled ::
  "sha256 \<Rightarrow> store \<Rightarrow> stored_event list \<Rightarrow> paper_reconciliation \<Rightarrow> stored_event \<Rightarrow> instant \<Rightarrow> string \<Rightarrow> unit res" where
  "check_filled H st events account e bar_at order_id =
     ebind (ensure
         (length (filter (\<lambda>c. sv_occurred_at_utc c = bar_at) (named_evidence ''PAPER_FILL'' order_id e events)) = 1
          \<and> length (filter (\<lambda>f. pf_order_id f = order_id \<and> pf_fill_time f = bar_at) (pr_fills account)) = 1)
       (corrupt ''cycle filled order lacks broker fill evidence for its fill bar'')) (\<lambda>_.
     ebind (cycle_order H st order_id ''cycle filled order does not exist'') (\<lambda>x.
     ebind (ensure (po_order_kind x \<in> {''MARKET'', ''STOP''}) (corrupt ''cycle filled order kind is invalid'')) (\<lambda>_.
     ensure (\<not> (po_order_kind x = ''STOP'' \<and> po_side x \<noteq> ''SELL'')) (corrupt ''cycle stop fill side is invalid''))))"

definition validate_cycle_event ::
  "sha256 \<Rightarrow> store \<Rightarrow> stored_event list \<Rightarrow> stored_event \<Rightarrow> instant \<Rightarrow> paper_reconciliation option \<Rightarrow> unit res" where
  "validate_cycle_event H st events e end_at reconciliation =
     ebind (check_cycle_payload e end_at) (\<lambda>(created, filled).
     ebind (case reconciliation of Some r \<Rightarrow> Inr r | None \<Rightarrow> reconcile H st) (\<lambda>account.
     ebind (dt_add end_at (- FOUR_HOURS)) (\<lambda>bar_at.
     ebind (efold (\<lambda>i _. check_created H st events e bar_at i) created ()) (\<lambda>_.
     efold (\<lambda>i _. check_filled H st events account e bar_at i) filled ()))))"

definition has_completed_cycle :: "sha256 \<Rightarrow> store \<Rightarrow> paper_snapshot \<Rightarrow> instant \<Rightarrow> bool res" where
  "has_completed_cycle H st snapshot end_at =
     (case filter (\<lambda>e. sv_event_id e = cycle_event_id end_at) (pn_event_evidence snapshot) of
        [] \<Rightarrow> Inr False
      | [e] \<Rightarrow> ebind (validate_cycle_event H st (pn_event_evidence snapshot) e end_at None) (\<lambda>_. Inr True)
      | _ \<Rightarrow> Inl (corrupt ''cycle completion identity is duplicated''))"

definition completed_step ::
  "sha256 \<Rightarrow> store \<Rightarrow> stored_event list \<Rightarrow> paper_reconciliation \<Rightarrow> instant \<Rightarrow> stored_event \<Rightarrow> instant list \<Rightarrow> instant list res" where
  "completed_step H st events account latest e done_ends =
     (if sv_event_type e \<noteq> ''PAPER_CYCLE'' \<and> \<not> starts_with ''cycle:'' (sv_event_id e) then Inr done_ends
      else
        ebind (as_corrupt ''cycle completion boundary is invalid'' (require_cycle_end (utc (sv_occurred_at_utc e)))) (\<lambda>end_at.
        ebind (ensure (sv_event_id e = cycle_event_id end_at) (corrupt ''cycle completion identity is inconsistent'')) (\<lambda>_.
        ebind (ensure (\<not> latest < end_at) (corrupt ''cycle completion is later than latest matured end'')) (\<lambda>_.
        ebind (validate_cycle_event H st events e end_at (Some account)) (\<lambda>_.
        ebind (ensure (end_at \<notin> set done_ends) (corrupt ''cycle completion boundary is duplicated'')) (\<lambda>_.
        Inr (done_ends @ [end_at])))))))"

fun contiguous :: "instant list \<Rightarrow> bool" where
  "contiguous (s # t # ts) \<longleftrightarrow> t - s = FOUR_HOURS \<and> contiguous (t # ts)"
| "contiguous _ \<longleftrightarrow> True"

text \<open>The completed ends in ascending order.\<close>

definition completed_cycle_ends ::
  "sha256 \<Rightarrow> store \<Rightarrow> paper_snapshot \<Rightarrow> paper_reconciliation \<Rightarrow> instant \<Rightarrow> instant list res" where
  "completed_cycle_ends H st snapshot account latest =
     ebind (efold (completed_step H st (pn_event_evidence snapshot) account latest) (pn_event_evidence snapshot) []) (\<lambda>ends.
     ebind (ensure (contiguous (sort ends)) (corrupt ''cycle completion chronology is not contiguous'')) (\<lambda>_.
     Inr (sort ends)))"

section \<open>Attempts\<close>

definition cycle_attempt_id :: "instant \<Rightarrow> string" where
  "cycle_attempt_id t = ''paper-cycle-attempt:'' @ iso_z t"

definition first_uncompleted :: "instant list \<Rightarrow> instant res" where
  "first_uncompleted completed = (case completed of
     [] \<Rightarrow> Inl (ValueError ''completed cycle chain cannot be empty'')
   | _ \<Rightarrow> safe_add (last completed) FOUR_HOURS ''cycle cursor is outside datetime range'')"

definition attempt_target :: "members \<Rightarrow> (instant \<times> instant) res" where
  "attempt_target p =
     catch (\<lambda>e. is_value_error e \<or> e \<in> {TypeError, OverflowError})
       (ebind (strict_stored_datetime (field p ''end_utc'')) (\<lambda>t.
        ebind (require_cycle_end (utc t)) (\<lambda>target.
        ebind (dt_add target (- FOUR_HOURS)) (\<lambda>observed. Inr (target, observed)))))
       (\<lambda>_. Inl (corrupt ''cycle attempt target is invalid''))"

definition attempt_step ::
  "instant \<Rightarrow> stored_event \<Rightarrow> (instant \<times> stored_event) list \<Rightarrow> (instant \<times> stored_event) list res" where
  "attempt_step latest e attempts =
     (if sv_event_type e \<noteq> ''PAPER_CYCLE_ATTEMPT'' then
        ebind (ensure (\<not> starts_with ''paper-cycle-attempt:'' (sv_event_id e))
          (corrupt ''cycle attempt identity has the wrong event type'')) (\<lambda>_. Inr attempts)
      else
        ebind (ensure (keys_are (sv_payload e) [''end_utc'', ''version''] \<and> field (sv_payload e) ''version'' = JInt 1)
          (corrupt ''cycle attempt payload is invalid'')) (\<lambda>_.
        ebind (attempt_target (sv_payload e)) (\<lambda>(target, observed).
        ebind (ensure (sv_event_id e = cycle_attempt_id target) (corrupt ''cycle attempt identity is inconsistent'')) (\<lambda>_.
        ebind (ensure (sv_occurred_at_utc e = observed) (corrupt ''cycle attempt envelope is inconsistent'')) (\<lambda>_.
        ebind (ensure (\<not> latest < target) (corrupt ''cycle attempt target is not yet mature'')) (\<lambda>_.
        ebind (ensure (target \<notin> set (map fst attempts)) (corrupt ''cycle attempt target is duplicated'')) (\<lambda>_.
        Inr (attempts @ [(target, e)]))))))))"

text \<open>An attempt that was completed comes before its completion.\<close>

definition attempt_precedes :: "stored_event list \<Rightarrow> instant list \<Rightarrow> instant \<times> stored_event \<Rightarrow> bool" where
  "attempt_precedes events completed a \<longleftrightarrow> fst a \<notin> set completed
     \<or> (case map_of (rev (map (\<lambda>e. (sv_occurred_at_utc e, e)) (filter (\<lambda>e. sv_event_type e = ''PAPER_CYCLE'') events))) (fst a) of
          None \<Rightarrow> False | Some terminal \<Rightarrow> sv_sequence (snd a) < sv_sequence terminal)"

definition unfinished_of :: "instant list \<Rightarrow> instant list \<Rightarrow> instant list" where
  "unfinished_of attempted completed = sort (filter (\<lambda>t. t \<notin> set completed) attempted)"

definition validated_cycle_attempts :: "stored_event list \<Rightarrow> instant list \<Rightarrow> instant \<Rightarrow> instant list res" where
  "validated_cycle_attempts events completed latest_matured =
     ebind (require_cycle_end (utc latest_matured)) (\<lambda>latest.
     ebind (efold (attempt_step latest) events []) (\<lambda>attempts.
     ebind (ensure (list_all (attempt_precedes events completed) attempts)
       (corrupt ''cycle attempt is not prior to its terminal cycle'')) (\<lambda>_.
     let unfinished = unfinished_of (map fst attempts) completed in
     ebind (ensure (\<not> 1 < length unfinished) (corrupt ''cycle attempts contain multiple unfinished targets'')) (\<lambda>_.
     ebind (if completed \<noteq> [] \<and> unfinished \<noteq> [] then
         ebind (first_uncompleted completed) (\<lambda>expected.
         ensure (hd unfinished = expected) (corrupt ''cycle attempt contradicts completed chronology''))
       else Inr ()) (\<lambda>_.
     Inr (map fst attempts))))))"

definition require_attempt_target :: "instant \<Rightarrow> instant list \<Rightarrow> instant list \<Rightarrow> unit res" where
  "require_attempt_target requested attempted completed =
     (case unfinished_of attempted completed of
        [] \<Rightarrow> Inr ()
      | t # _ \<Rightarrow> ensure (requested = t) (PaperServiceError ''requested cycle skips the durable cycle attempt''))"

section \<open>The oldest unfinished cycle\<close>

definition observed_cycle_end :: "instant \<Rightarrow> instant \<Rightarrow> string \<Rightarrow> instant res" where
  "observed_cycle_end observed_at latest label =
     ebind (require_cycle_end (utc observed_at)) (\<lambda>t.
     ebind (safe_add t FOUR_HOURS (label @ '' cycle is outside datetime range'')) (\<lambda>cycle_end.
     ebind (ensure (\<not> latest < cycle_end) (corrupt (label @ '' is later than latest matured evidence''))) (\<lambda>_.
     Inr cycle_end)))"

definition future_obligation_end :: "instant \<Rightarrow> instant \<Rightarrow> string \<Rightarrow> instant res" where
  "future_obligation_end basis latest label =
     ebind (require_cycle_end (utc basis)) (\<lambda>t.
     ebind (safe_add t FOUR_HOURS (label @ '' cycle is outside datetime range'')) (\<lambda>obligation.
     if obligation \<le> latest then Inr obligation
     else
       ebind (safe_add latest FOUR_HOURS ''latest matured successor is outside datetime range'') (\<lambda>next_end.
       ebind (ensure (obligation = next_end) (corrupt (label @ '' skips beyond the next cycle''))) (\<lambda>_. Inr obligation))))"

text \<open>The cycles that the evidence shows as observed, and those that it demands.\<close>

type_synonym cursors = "instant list \<times> instant list"

definition order_cursors :: "instant \<Rightarrow> paper_order \<Rightarrow> cursors \<Rightarrow> cursors res" where
  "order_cursors latest x c = (case c of (observed, obligations) \<Rightarrow>
     ebind (observed_cycle_end (po_signal_at_utc x) latest ''order signal'') (\<lambda>signal_cycle.
     if po_order_kind x = ''MARKET'' then
       ebind (ensure (po_eligible_open_utc x = signal_cycle)
         (PaperServiceError ''market order timing evidence is contradictory'')) (\<lambda>_.
       ebind (future_obligation_end (po_eligible_open_utc x) latest ''order execution'') (\<lambda>t.
       Inr (signal_cycle # observed, t # obligations)))
     else if po_order_kind x = ''STOP'' then
       ebind (ensure (po_side x = ''SELL'') (corrupt ''stop order side is invalid'')) (\<lambda>_.
       ebind (observed_cycle_end (po_eligible_open_utc x) latest ''stop order trigger'') (\<lambda>t.
       Inr (t # signal_cycle # observed, obligations)))
     else Inl (corrupt ''paper order kind is invalid'')))"

definition fill_cursors :: "instant \<Rightarrow> paper_fill \<Rightarrow> cursors \<Rightarrow> cursors res" where
  "fill_cursors latest f c =
     ebind (observed_cycle_end (pf_fill_time f) latest ''fill observation'') (\<lambda>t. Inr (t # fst c, snd c))"

definition stop_cursors :: "instant \<Rightarrow> paper_stop option \<Rightarrow> cursors \<Rightarrow> cursors res" where
  "stop_cursors latest stop c = (case stop of
     None \<Rightarrow> Inr c
   | Some s \<Rightarrow>
       ebind (observed_cycle_end (pp_observed_at_utc s) latest ''stop observation'') (\<lambda>observed.
       ebind (ensure (pp_active_after_utc s = pp_observed_at_utc s \<or> pp_active_after_utc s = observed)
         (PaperServiceError ''stop timing evidence is contradictory'')) (\<lambda>_.
       ebind (future_obligation_end (pp_active_after_utc s) latest ''stop activation'') (\<lambda>t.
       Inr (observed # fst c, t # snd c)))))"

text \<open>The orders of the account and of the evidence, each read once.\<close>

definition event_order :: "sha256 \<Rightarrow> store \<Rightarrow> stored_event \<Rightarrow> (string \<times> paper_order) list \<Rightarrow> (string \<times> paper_order) list res" where
  "event_order H st e orders =
     (if sv_event_type e \<noteq> ''PAPER_ORDER'' then Inr orders
      else (case map_of (sv_payload e) ''order_id'' of
          Some (JStr i) \<Rightarrow>
            if i = [] then Inl (corrupt ''paper order identity is invalid'')
            else ebind (order H i st) (\<lambda>x. Inr (put i x orders))
        | _ \<Rightarrow> Inl (corrupt ''paper order identity is invalid'')))"

definition evidence_orders :: "sha256 \<Rightarrow> store \<Rightarrow> stored_event list \<Rightarrow> paper_order list \<Rightarrow> paper_order list res" where
  "evidence_orders H st events active =
     ebind (efold (event_order H st) events (foldl (\<lambda>ps x. put (po_order_id x) x ps) [] active)) (\<lambda>ps.
     Inr (map snd ps))"

definition collect_cursors ::
  "sha256 \<Rightarrow> store \<Rightarrow> stored_event list \<Rightarrow> paper_reconciliation \<Rightarrow> risk_state \<Rightarrow> instant \<Rightarrow> instant list \<Rightarrow> cursors res" where
  "collect_cursors H st events account risk latest obligations =
     ebind (case rk_last_risk_at risk of
         None \<Rightarrow> Inr []
       | Some t \<Rightarrow> ebind (observed_cycle_end t latest ''risk observation'') (\<lambda>o1. Inr [o1])) (\<lambda>observed.
     ebind (evidence_orders H st events (pr_active_orders account)) (\<lambda>orders.
     ebind (efold (order_cursors latest) orders (observed, obligations)) (\<lambda>c1.
     ebind (efold (fill_cursors latest) (pr_fills account) c1) (\<lambda>c2.
     stop_cursors latest (pr_active_stop account) c2))))"

text \<open>The evidence may not contradict the chain of completed cycles.\<close>

definition check_chronology :: "instant list \<Rightarrow> cursors \<Rightarrow> unit res" where
  "check_chronology completed c = (case c of (observed, obligations) \<Rightarrow>
     if completed \<noteq> [] then
       ebind (first_uncompleted completed) (\<lambda>next.
       ebind (ensure (list_all (\<lambda>t. t \<in> set completed \<or> t = next) observed)
         (corrupt ''direct paper evidence contradicts completed cycle chronology'')) (\<lambda>_.
       ensure (list_all (\<lambda>t. t \<in> set completed \<or> \<not> t < next) obligations)
         (corrupt ''paper obligation would require a chronological rollback'')))
     else ensure (\<not> 1 < length (remdups observed))
       (corrupt ''direct paper evidence skips an uncompleted cycle chronology''))"

definition OPERATIONAL_ONLY :: "string list" where
  "OPERATIONAL_ONLY = [''HEALTH_STATE'', ''ALERT_ATTEMPT'', ''ALERT_FAILURE'', ''PAPER_CYCLE_ATTEMPT'']"

text \<open>The validated chronology of a snapshot: its completions and its attempts.\<close>

definition cycle_evidence :: "sha256 \<Rightarrow> store \<Rightarrow> paper_snapshot \<Rightarrow> paper_reconciliation \<Rightarrow> instant \<Rightarrow> cursors res" where
  "cycle_evidence H st snapshot account latest =
     ebind (completed_cycle_ends H st snapshot account latest) (\<lambda>completed.
     ebind (validated_cycle_attempts (pn_event_evidence snapshot) completed latest) (\<lambda>attempted.
     Inr (completed, attempted)))"

definition oldest_required_end :: "sha256 \<Rightarrow> store \<Rightarrow> pydatetime \<Rightarrow> instant res" where
  "oldest_required_end H st latest_matured =
     ebind (require_cycle_end latest_matured) (\<lambda>latest.
     ebind (load_snapshot H st) (\<lambda>snapshot.
     ebind (validate_chain H snapshot) (\<lambda>chain.
     ebind (validate_alert_chain H (pn_event_evidence snapshot)) (\<lambda>_.
     ebind (reconcile H st) (\<lambda>account.
     ebind (cycle_evidence H st snapshot account latest) (\<lambda>(completed, attempted).
     if pn_event_evidence snapshot = [] then Inr latest
     else
       ebind (if completed = [] then Inr [] else ebind (first_uncompleted completed) (\<lambda>t. Inr [t])) (\<lambda>next.
       ebind (collect_cursors H st (pn_event_evidence snapshot) account (rc_projection chain) latest
         (unfinished_of attempted completed @ next)) (\<lambda>(observed, obligations).
       ebind (check_chronology completed (observed, obligations)) (\<lambda>_.
       case unfinished_of (observed @ obligations) completed of
         t # _ \<Rightarrow> Inr t
       | [] \<Rightarrow>
           if list_all (\<lambda>e. sv_event_type e \<in> set OPERATIONAL_ONLY) (pn_event_evidence snapshot) then Inr latest
           else Inl (PaperServiceError ''durable paper evidence has no resolvable cycle cursor''))))))))))"

end
