(* ===== verification/PaperService.thy ===== *)
theory PaperService
  imports ServiceCycle Engine
begin

text \<open>
  \<open>PaperService\<close>, \<open>src/autobit/paper/service.py\<close>: one restart-safe decision cycle for a completed
  candle. The state of a process is the store, the fencing epoch of the lease, the epoch its candle
  source is bound to with the frames that it has prepared, the number of clock readings so far, and
  the alerts and the sleeps so far, and whether the last call of the application ended in a sleep; an operation maps it to the state it leaves behind and its
  result or exception.

  The collaborators are parameters: the clock, the candle source, which may take its time and
  change the store meanwhile (it renews the lease of the epoch it is bound to, and other
  processes run), the frame operations of pandas (\<open>canonicalize_ohlcv\<close>,
  \<open>compute_trend_indicators\<close>), and the fault hook of the tests. A frame is the list of its rows
  with their times.
\<close>

type_synonym frame = "(instant \<times> row) list"

text \<open>What a candle source returns: a frame with a time index, or any other object.\<close>

datatype loaded = Candles frame | OtherFrame | NotFrame

text \<open>An alert as it is handed to the notifier.\<close>

record alert =
  al_event_id :: string
  al_event_type :: string
  al_payload :: members

record service =
  pv_store :: store
  pv_epoch :: "int option"
  pv_bound :: "int option"
  pv_ticks :: nat
  pv_prepared :: "(instant \<times> loaded) list"
  pv_sent :: "alert list"
  pv_slept :: "pyfloat list"
  pv_delayed :: bool

record service_env =
  cx_hash :: sha256
  cx_broker :: broker
  cx_owner :: string
  cx_token :: string
  cx_ttl :: timedelta
  cx_strategy :: strategy_config
  cx_risk :: risk_config
  cx_costs :: cost_config
  cx_clock :: "nat \<Rightarrow> pydatetime"
  cx_load :: "instant \<Rightarrow> service \<Rightarrow> service \<times> loaded res"
  cx_history :: "(instant \<Rightarrow> instant \<Rightarrow> service \<Rightarrow> service \<times> loaded res) option"
  cx_canonical :: "loaded \<Rightarrow> instant \<Rightarrow> frame res"
  cx_enrich :: "strategy_config \<Rightarrow> frame \<Rightarrow> frame res"
  cx_fault :: "string \<Rightarrow> exn option"

datatype cycle_status = PROCESSED | ALREADY_PROCESSED | LEASE_HELD | UNSAFE_DATA

fun cycle_status_value :: "cycle_status \<Rightarrow> string" where
  "cycle_status_value PROCESSED = ''PROCESSED''"
| "cycle_status_value ALREADY_PROCESSED = ''ALREADY_PROCESSED''"
| "cycle_status_value LEASE_HELD = ''LEASE_HELD''"
| "cycle_status_value UNSAFE_DATA = ''UNSAFE_DATA''"

record cycle_result =
  cr_status :: cycle_status
  cr_end :: instant
  cr_created :: "string list"
  cr_filled :: "string list"
  cr_reasons :: "string list"
  cr_equity :: "pyfloat option"

definition bare_result :: "cycle_status \<Rightarrow> instant \<Rightarrow> cycle_result" where
  "bare_result status end_at = \<lparr> cr_status = status, cr_end = end_at, cr_created = [], cr_filled = [],
     cr_reasons = [], cr_equity = None \<rparr>"

section \<open>Sequencing\<close>

type_synonym 'a proc = "service \<Rightarrow> service \<times> 'a res"

definition pdone :: "'a res \<Rightarrow> 'a proc" where
  "pdone r s = (s, r)"

definition pbind :: "'a proc \<Rightarrow> ('a \<Rightarrow> 'b proc) \<Rightarrow> 'b proc" where
  "pbind m f s = (case m s of (s1, Inl e) \<Rightarrow> (s1, Inl e) | (s1, Inr x) \<Rightarrow> f x s1)"

text \<open>A read of the store, and a call that changes it.\<close>

definition pread :: "(store \<Rightarrow> 'a res) \<Rightarrow> 'a proc" where
  "pread f s = (s, f (pv_store s))"

definition pcall :: "(store \<Rightarrow> store \<times> 'a res) \<Rightarrow> 'a proc" where
  "pcall f s = (case f (pv_store s) of (st, r) \<Rightarrow> (s\<lparr>pv_store := st\<rparr>, r))"

definition pcatch :: "(exn \<Rightarrow> bool) \<Rightarrow> 'a proc \<Rightarrow> 'a proc \<Rightarrow> 'a proc" where
  "pcatch c m h s = (case m s of (s1, Inl e) \<Rightarrow> if c e then h s1 else (s1, Inl e) | r \<Rightarrow> r)"

text \<open>\<open>finally\<close>: what it raises replaces the outcome.\<close>

definition pfinally :: "'a proc \<Rightarrow> 'b proc \<Rightarrow> 'a proc" where
  "pfinally m f s = (case m s of (s1, r) \<Rightarrow> (case f s1 of (s2, Inl e) \<Rightarrow> (s2, Inl e) | (s2, Inr _) \<Rightarrow> (s2, r)))"

definition pfault :: "service_env \<Rightarrow> string \<Rightarrow> unit proc" where
  "pfault C boundary = pdone (case cx_fault C boundary of None \<Rightarrow> Inr () | Some e \<Rightarrow> Inl e)"

definition pclock :: "service_env \<Rightarrow> instant proc" where
  "pclock C s = (s\<lparr>pv_ticks := pv_ticks s + 1\<rparr>, clock_utc (cx_clock C (pv_ticks s)))"

text \<open>How a sequence returns.\<close>

lemma pbind_Inr: "pbind m f s = (s2, Inr y) \<Longrightarrow> \<exists>s1 x. m s = (s1, Inr x) \<and> f x s1 = (s2, Inr y)"
  by (auto simp: pbind_def split: prod.splits sum.splits)

lemma pdone_Inr [simp]: "pdone r s = (s1, Inr y) \<longleftrightarrow> s1 = s \<and> r = Inr y"
  by (auto simp: pdone_def)

section \<open>The lease\<close>

definition new_service :: "service_env \<Rightarrow> store \<Rightarrow> service res" where
  "new_service C st =
     ebind (ensure (cx_owner C \<noteq> []) (ValueError ''lease owner must be non-empty'')) (\<lambda>_.
     ebind (ensure (cx_token C \<noteq> []) (ValueError ''lease token must be non-empty'')) (\<lambda>_.
     ebind (ensure (0 < cx_ttl C) (ValueError ''lease ttl must be positive'')) (\<lambda>_.
     Inr \<lparr> pv_store = st, pv_epoch = None, pv_bound = None, pv_ticks = 0, pv_prepared = [], pv_sent = [], pv_slept = [], pv_delayed = False \<rparr>)))"

definition lease_request :: "service_env \<Rightarrow> lease_args proc" where
  "lease_request C =
     pbind (pclock C) (\<lambda>now.
     pbind (pdone (safe_add now (cx_ttl C) ''lease expiry is outside datetime range'')) (\<lambda>expiry.
     pdone (Inr \<lparr> la_owner = cx_owner C, la_token = cx_token C, la_now = TsDatetime (utc now),
       la_expires = TsDatetime (utc expiry) \<rparr>)))"

definition acquire_lease :: "service_env \<Rightarrow> bool proc" where
  "acquire_lease C =
     pbind (lease_request C) (\<lambda>a.
     pbind (pcall (store_acquire_cycle_lease_epoch (cx_hash C) a)) (\<lambda>epoch s.
     (case epoch of None \<Rightarrow> (s, Inr False)
      | Some e \<Rightarrow> (s\<lparr>pv_epoch := Some e, pv_bound := Some e\<rparr>, Inr True))))"

definition renew_lease :: "service_env \<Rightarrow> bool proc" where
  "renew_lease C s = (case pv_epoch s of
     None \<Rightarrow> (s, Inr False)
   | Some e \<Rightarrow>
       pbind (lease_request C) (\<lambda>a.
       pbind (pcall (store_renew_cycle_lease (cx_hash C) a (VInt e))) (\<lambda>renewed s1.
       ((if renewed then s1\<lparr>pv_bound := pv_epoch s1\<rparr> else s1), Inr renewed))) s)"

definition release_lease :: "service_env \<Rightarrow> bool proc" where
  "release_lease C s = (case pv_epoch s of
     None \<Rightarrow> (s, Inr False)
   | Some e \<Rightarrow> pcall (store_release_cycle_lease (cx_hash C) (cx_owner C) (cx_token C) (Some (VInt e)))
       (s\<lparr>pv_epoch := None\<rparr>))"

text \<open>
  \<open>fenced_cycle_transaction\<close>: the work runs on the database inside one fenced transaction. When
  the section is rolled back, the state is that at its start; no clock is read after that.
\<close>

definition work_on :: "'a proc \<Rightarrow> service \<Rightarrow> db \<Rightarrow> (db \<times> service \<times> 'a) res" where
  "work_on work s d = (case work (s\<lparr>pv_store := (pv_store s)\<lparr>ss_db := d\<rparr>\<rparr>) of
     (s1, Inl e) \<Rightarrow> Inl e | (s1, Inr x) \<Rightarrow> Inr (ss_db (pv_store s1), s1, x))"

definition fenced_at :: "service_env \<Rightarrow> instant proc \<Rightarrow> int \<Rightarrow> 'a proc \<Rightarrow> 'a proc" where
  "fenced_at C clock e work =
     pbind clock (\<lambda>now s1.
       (case store_cycle_lease_transaction (cx_hash C) (cx_owner C) (cx_token C) (VInt e) (TsDatetime (utc now))
           (work_on work s1) (pv_store s1) of
          (st, Inl x) \<Rightarrow> (s1\<lparr>pv_store := st\<rparr>, Inl x)
        | (st, Inr (s2, y)) \<Rightarrow> (s2\<lparr>pv_store := st\<rparr>, Inr y)))"

definition fenced_cycle :: "service_env \<Rightarrow> 'a proc \<Rightarrow> 'a proc" where
  "fenced_cycle C work s = (case pv_epoch s of
     None \<Rightarrow> (s, Inl (CycleLeaseLostError ''paper cycle mutation has no acquired lease epoch''))
   | Some e \<Rightarrow> fenced_at C (pclock C) e work s)"

section \<open>Reading\<close>

definition validated_snapshot :: "service_env \<Rightarrow> store \<Rightarrow> paper_snapshot res" where
  "validated_snapshot C st =
     ebind (load_snapshot (cx_hash C) st) (\<lambda>snapshot. ebind (validate_chain (cx_hash C) snapshot) (\<lambda>_. Inr snapshot))"

definition account :: "service_env \<Rightarrow> paper_reconciliation proc" where
  "account C = pread (reconcile (cx_hash C))"

definition read_cycle_evidence :: "service_env \<Rightarrow> instant \<Rightarrow> store \<Rightarrow> cursors res" where
  "read_cycle_evidence C latest st =
     ebind (validated_snapshot C st) (\<lambda>snapshot.
     ebind (validate_alert_chain (cx_hash C) (pn_event_evidence snapshot)) (\<lambda>_.
     ebind (reconcile (cx_hash C) st) (\<lambda>r. cycle_evidence (cx_hash C) st snapshot r latest)))"

definition is_completed :: "service_env \<Rightarrow> instant \<Rightarrow> store \<Rightarrow> bool res" where
  "is_completed C end_at st =
     ebind (validated_snapshot C st) (\<lambda>snapshot. has_completed_cycle (cx_hash C) st snapshot end_at)"

definition result_after_lost_lease :: "service_env \<Rightarrow> instant \<Rightarrow> cycle_result proc" where
  "result_after_lost_lease C end_at =
     pbind (pread (is_completed C end_at)) (\<lambda>finished.
     pdone (Inr (bare_result (if finished then ALREADY_PROCESSED else LEASE_HELD) end_at)))"

text \<open>The lease is renewed and the cycle is still open; otherwise the result of the call.\<close>

definition still_leased :: "service_env \<Rightarrow> instant \<Rightarrow> cycle_result option proc" where
  "still_leased C end_at =
     pbind (renew_lease C) (\<lambda>renewed.
     if \<not> renewed then pbind (result_after_lost_lease C end_at) (\<lambda>r. pdone (Inr (Some r)))
     else pbind (pread (is_completed C end_at)) (\<lambda>finished.
       pdone (Inr (if finished then Some (bare_result ALREADY_PROCESSED end_at) else None))))"

section \<open>Frames\<close>

definition cell_true :: "pyval \<Rightarrow> bool" where
  "cell_true v = (case v of VNone \<Rightarrow> False | VBool b \<Rightarrow> b | VNpBool b \<Rightarrow> b | VInt n \<Rightarrow> n \<noteq> 0
     | VFloat x \<Rightarrow> \<not> feq x 0 | VObj \<Rightarrow> True)"

definition price_cell :: "row \<Rightarrow> string \<Rightarrow> pyfloat option" where
  "price_cell r k = (case r k of None \<Rightarrow> None
     | Some v \<Rightarrow> (case py_float v of Inr x \<Rightarrow> if isfinite x \<and> 0 < x then Some x else None | Inl _ \<Rightarrow> None))"

definition volume_cell :: "row \<Rightarrow> pyfloat option" where
  "volume_cell r = (case r ''volume'' of None \<Rightarrow> None
     | Some v \<Rightarrow> (case py_float v of Inr x \<Rightarrow> if isfinite x \<and> 0 \<le> x then Some x else None | Inl _ \<Rightarrow> None))"

text \<open>
  \<open>_safe_execution_row\<close>; a cell that is no number makes the row unsafe. The columns are float64, so
  that \<open>float\<close> of a cell does not overflow.
\<close>

definition safe_execution_row :: "row \<Rightarrow> bool" where
  "safe_execution_row r =
     (case (price_cell r ''open'', price_cell r ''high'', price_cell r ''low'', price_cell r ''close'', volume_cell r) of
        (Some o1, Some h, Some l, Some c, Some _) \<Rightarrow>
          pmax (pmax o1 c) l \<le> h \<and> l \<le> pmin (pmin o1 c) h
          \<and> \<not> cell_true (row_get r ''is_quarantined'') \<and> \<not> cell_true (row_get r ''is_filled'')
      | _ \<Rightarrow> False)"

definition row_at :: "frame \<Rightarrow> instant \<Rightarrow> row option" where
  "row_at f t = map_of f t"

definition cell_float :: "row \<Rightarrow> string \<Rightarrow> pyfloat res" where
  "cell_float r k = (case r k of None \<Rightarrow> Inl KeyError | Some v \<Rightarrow> py_float v)"

text \<open>\<open>pd.date_range(start, last, freq="4h")\<close>, and the rows of a half-open interval.\<close>

definition four_hour_range :: "instant \<Rightarrow> instant \<Rightarrow> instant list" where
  "four_hour_range start last_at =
     (if last_at < start then [] else map (\<lambda>k. start + int k * FOUR_HOURS) [0..<Suc (nat ((last_at - start) div FOUR_HOURS))])"

definition rows_between :: "frame \<Rightarrow> instant \<Rightarrow> instant \<Rightarrow> frame" where
  "rows_between f start end_at = filter (\<lambda>p. start \<le> fst p \<and> fst p < end_at) f"

definition validated_position_frame :: "service_env \<Rightarrow> loaded \<Rightarrow> instant \<Rightarrow> instant \<Rightarrow> frame res" where
  "validated_position_frame C v start end_at =
     (let expected = four_hour_range start (end_at - FOUR_HOURS) in
      ebind (ensure (case v of Candles f \<Rightarrow> map fst f = expected | _ \<Rightarrow> False)
        (PaperServiceError ''position history must cover its exact contiguous interval'')) (\<lambda>_.
      ebind (cx_canonical C v end_at) (\<lambda>canonical.
      ebind (ensure (map fst canonical = expected \<and> list_all (\<lambda>p. safe_execution_row (snd p)) canonical)
        (PaperServiceError ''position history contains unsafe candle evidence'')) (\<lambda>_. Inr canonical))))"

definition load_enriched :: "service_env \<Rightarrow> instant \<Rightarrow> frame proc" where
  "load_enriched C end_at =
     pbind (cx_load C end_at) (\<lambda>raw. pdone (
       if raw = NotFrame then Inl TypeError
       else ebind (cx_canonical C raw end_at) (cx_enrich C (cx_strategy C))))"

section \<open>The open position\<close>

definition entry_step :: "paper_fill \<Rightarrow> decimal \<times> paper_fill option \<Rightarrow> (decimal \<times> paper_fill option) res" where
  "entry_step f s = (case s of (inventory, entry) \<Rightarrow>
     if pf_side f = ''BUY'' then
       ebind (ensure (deq inventory 0) (PaperServiceError ''open position contains pyramiding'')) (\<lambda>_.
       Inr (inventory + dec_of_float (pf_quantity f), Some f))
     else
       (let rest = inventory - dec_of_float (pf_quantity f) in
        ebind (ensure (\<not> rest < 0) (PaperServiceError ''open position fill history oversells'')) (\<lambda>_.
        Inr (rest, if deq rest 0 then None else entry))))"

definition open_entry :: "paper_reconciliation \<Rightarrow> paper_fill res" where
  "open_entry r =
     ebind (ensure (\<not> pr_btc_quantity r \<le> 0) (PaperServiceError ''cannot reconstruct a flat position'')) (\<lambda>_.
     ebind (efold entry_step (pr_fills r) (0, None)) (\<lambda>(inventory, entry).
     case entry of
       Some f \<Rightarrow> ebind (ensure (deq inventory (dec_of_float (pr_btc_quantity r)))
         (PaperServiceError ''open position does not reconcile to paper fills'')) (\<lambda>_. Inr f)
     | None \<Rightarrow> Inl (PaperServiceError ''open position does not reconcile to paper fills'')))"

record open_position =
  op_order :: paper_order
  op_entry_fill :: paper_fill
  op_entry_price :: pyfloat
  op_initial_stop :: pyfloat
  op_current_stop :: pyfloat
  op_high_water :: pyfloat
  op_held_bars :: int

definition position_of ::
  "paper_order \<Rightarrow> paper_fill \<Rightarrow> paper_stop option \<Rightarrow> pyfloat \<Rightarrow> pyfloat \<Rightarrow> instant \<Rightarrow> open_position" where
  "position_of x f stop initial high bar_at = \<lparr> op_order = x, op_entry_fill = f, op_entry_price = pf_fill_price f,
     op_initial_stop = initial, op_current_stop = (case stop of None \<Rightarrow> initial | Some s \<Rightarrow> pp_stop_price s),
     op_high_water = high, op_held_bars = (bar_at - pf_fill_time f) div FOUR_HOURS \<rparr>"

text \<open>The initial stop: of the evidence, of the entry context, or of the signal candle.\<close>

definition entry_stop :: "service_env \<Rightarrow> store \<Rightarrow> paper_order \<Rightarrow> paper_fill \<Rightarrow> frame \<Rightarrow> pyfloat res" where
  "entry_stop C st x f enriched =
     ebind (PaperBroker.initial_stop (cx_hash C) (po_order_id x) st) (\<lambda>stored.
     case (stored, po_execution_context x) of
       (Some v, _) \<Rightarrow> Inr v
     | (None, Some c) \<Rightarrow> initial_stop_price (VFloat (pf_fill_price f)) (VFloat (ec_entry_atr c)) (VFloat (ec_initial_atr_mult c))
     | (None, None) \<Rightarrow> (case row_at enriched (po_signal_at_utc x) of
           None \<Rightarrow> Inl (PaperServiceError ''entry signal candle is absent from public history'')
         | Some r \<Rightarrow>
             ebind (cell_positive (row_get r (atr_column (cx_strategy C))) ''entry ATR'') (\<lambda>atr.
             initial_stop_price (VFloat (pf_fill_price f)) (VFloat atr) (VFloat (initial_atr_mult (cx_strategy C))))))"

text \<open>\<open>pd.to_numeric(..., errors="coerce")\<close> of a cell.\<close>

definition to_numeric :: "pyval \<Rightarrow> pyfloat" where
  "to_numeric v = (case py_float v of Inr x \<Rightarrow> x | Inl _ \<Rightarrow> NaN)"

definition held_high :: "frame \<Rightarrow> pyfloat res" where
  "held_high held =
     (let highs = map (\<lambda>p. to_numeric (row_get (snd p) ''high'')) held in
      ebind (ensure (held \<noteq> [] \<and> NaN \<notin> set highs) (PaperServiceError ''held candle history is incomplete'')) (\<lambda>_.
      Inr (foldl pmax (hd highs) (tl highs))))"

definition rebuilt_position ::
  "service_env \<Rightarrow> paper_reconciliation \<Rightarrow> frame \<Rightarrow> instant \<Rightarrow> store \<Rightarrow> paper_fill \<Rightarrow> paper_order \<Rightarrow> open_position res" where
  "rebuilt_position C r enriched bar_at st f x =
     ebind (entry_stop C st x f enriched) (\<lambda>initial.
     ebind (ensure (isfinite initial \<and> \<not> initial \<le> 0) (PaperServiceError ''reconstructed initial stop is invalid'')) (\<lambda>_.
     ebind (held_high (rows_between enriched (pf_fill_time f) (bar_at + 1))) (\<lambda>high.
     Inr (position_of x f (pr_active_stop r) initial high bar_at))))"

text \<open>\<open>_open_position\<close>: from the observation of this candle, or rebuilt from the history.\<close>

definition reconstruct_position :: "service_env \<Rightarrow> paper_reconciliation \<Rightarrow> frame \<Rightarrow> instant \<Rightarrow> store \<Rightarrow> open_position res" where
  "reconstruct_position C r enriched bar_at st =
     ebind (open_entry r) (\<lambda>f.
     ebind (order (cx_hash C) (pf_order_id f) st) (\<lambda>x.
     ebind (position_observation (cx_hash C) (po_order_id x) st) (\<lambda>observation.
     case observation of
       Some e \<Rightarrow>
         if sv_occurred_at_utc e = bar_at then
           ebind (json_float (field (sv_payload e) ''initial_stop'')) (\<lambda>initial.
           ebind (json_float (field (sv_payload e) ''high_water'')) (\<lambda>high.
           Inr (position_of x f (pr_active_stop r) initial high bar_at)))
         else rebuilt_position C r enriched bar_at st f x
     | None \<Rightarrow> rebuilt_position C r enriched bar_at st f x)))"

definition context_of :: "open_position \<Rightarrow> pyfloat \<Rightarrow> position_context" where
  "context_of p quantity = \<lparr> pc_entry_price = op_entry_price p, pc_initial_stop = op_initial_stop p,
     pc_current_stop = op_current_stop p, pc_high_water = op_high_water p, pc_quantity = quantity,
     pc_held_bars = op_held_bars p \<rparr>"

section \<open>Events of a cycle\<close>

definition append_service_event :: "service_env \<Rightarrow> string \<Rightarrow> string \<Rightarrow> instant \<Rightarrow> members \<Rightarrow> unit proc" where
  "append_service_event C event_id event_type t payload =
     pbind (pcall (store_append_event (cx_hash C) \<lparr> ea_event_id = event_id, ea_event_type = event_type,
       ea_occurred_at = TsDatetime (utc t), ea_payload = JObj payload \<rparr>)) (\<lambda>_. pdone (Inr ()))"

definition completion_payload :: "cycle_result \<Rightarrow> members" where
  "completion_payload r =
     [(''created_order_ids'', JList (map JStr (cr_created r))), (''end_utc'', JStr (iso_z (cr_end r))),
      (''filled_order_ids'', JList (map JStr (cr_filled r))), (''reason_codes'', JList (map JStr (cr_reasons r))),
      (''status'', JStr (cycle_status_value (cr_status r)))]"

definition record_completion :: "service_env \<Rightarrow> cycle_result \<Rightarrow> unit proc" where
  "record_completion C r = fenced_cycle C
     (append_service_event C (cycle_event_id (cr_end r)) ''PAPER_CYCLE'' (cr_end r) (completion_payload r))"

definition record_attempt :: "service_env \<Rightarrow> instant \<Rightarrow> instant list \<Rightarrow> unit proc" where
  "record_attempt C end_at attempted =
     (if end_at \<in> set attempted then pdone (Inr ())
      else pbind (pdone (safe_add end_at (- FOUR_HOURS) ''cycle attempt is outside datetime range'')) (\<lambda>observed.
        fenced_cycle C (append_service_event C (cycle_attempt_id end_at) ''PAPER_CYCLE_ATTEMPT'' observed
          [(''end_utc'', JStr (iso_z end_at)), (''version'', JInt 1)])))"

section \<open>Entry contexts\<close>

definition context_json :: "service_env \<Rightarrow> row \<Rightarrow> risk_decision \<Rightarrow> string \<Rightarrow> json res" where
  "context_json C r d event_id =
     ebind (cell_float r ''close'') (\<lambda>close.
     ebind (cell_float r (atr_column (cx_strategy C))) (\<lambda>atr.
     ebind (cell_float r ''baseline_atr_pct'') (\<lambda>baseline.
     Inr (context_payload \<lparr> ec_signal_price = close, ec_entry_atr = atr,
       ec_initial_atr_mult = initial_atr_mult (cx_strategy C), ec_baseline_atr_pct = baseline,
       ec_risk_rate = rd_risk_rate d, ec_exposure_cap = rd_exposure_cap d, ec_risk_event_id = event_id \<rparr>))))"

definition entry_context_of :: "service_env \<Rightarrow> instant \<Rightarrow> row \<Rightarrow> risk_decision \<Rightarrow> store \<Rightarrow> json res" where
  "entry_context_of C bar_at r d st =
     ebind (load_snapshot (cx_hash C) st) (\<lambda>snapshot.
     ebind (validate_chain (cx_hash C) snapshot) (\<lambda>chain.
     case rc_risk_event chain of
       None \<Rightarrow> Inl (PaperServiceError ''entry sizing lacks same-signal risk evidence'')
     | Some e \<Rightarrow>
         ebind (ensure (rk_last_risk_at (rc_projection chain) = Some bar_at)
           (PaperServiceError ''entry sizing lacks same-signal risk evidence'')) (\<lambda>_.
         context_json C r d (sv_event_id e))))"

definition signal_risk_events :: "stored_event list \<Rightarrow> instant \<Rightarrow> stored_event list" where
  "signal_risk_events events t = filter (\<lambda>e. sv_event_type e = ''BREAKER_STATE''
     \<and> map_of (sv_payload e) ''last_risk_at_utc'' = Some (JStr (iso_z t))) events"

text \<open>\<open>_legacy_entry_context\<close>: an order of the service before contexts were bound at submission.\<close>

definition legacy_entry_context :: "service_env \<Rightarrow> paper_order \<Rightarrow> json option proc" where
  "legacy_entry_context C x =
     pbind (pread (load_snapshot (cx_hash C))) (\<lambda>snapshot.
     case signal_risk_events (pn_event_evidence snapshot) (po_signal_at_utc x) of
       [] \<Rightarrow> pdone (Inr None)
     | e # es \<Rightarrow>
         (let found = last (e # es) in
          pbind (pdone (risk_state_from_payload (sv_payload found))) (\<lambda>risk.
          pbind (pdone (dt_add (po_signal_at_utc x) FOUR_HOURS)) (\<lambda>signal_end.
          pbind (cx_load C signal_end) (\<lambda>raw. pdone (
            ebind (cx_canonical C raw signal_end) (\<lambda>canonical.
            ebind (cx_enrich C (cx_strategy C) canonical) (\<lambda>original.
            case (if int (length original) = warmup_bars (cx_strategy C) + 1 \<and> original \<noteq> []
                \<and> fst (last original) = po_signal_at_utc x then Some (snd (last original)) else None) of
              None \<Rightarrow> Inl (PaperServiceError ''legacy entry requires its original complete signal window'')
            | Some r \<Rightarrow> ebind (context_json C r (rk_decision risk) (sv_event_id found)) (\<lambda>v. Inr (Some v))))))))))"

definition needs_context :: "instant \<Rightarrow> paper_order \<Rightarrow> bool" where
  "needs_context bar_at x \<longleftrightarrow> po_eligible_open_utc x = bar_at \<and> po_side x = ''BUY'' \<and> po_execution_context x = None"

fun prepare_contexts :: "service_env \<Rightarrow> instant \<Rightarrow> paper_order list \<Rightarrow> (string \<times> json option) list proc" where
  "prepare_contexts C bar_at [] = pdone (Inr [])"
| "prepare_contexts C bar_at (x # xs) =
     (if po_eligible_open_utc x < bar_at then pdone (Inl (PaperServiceError ''active market order missed its eligible open''))
      else if needs_context bar_at x then
        pbind (legacy_entry_context C x) (\<lambda>v.
        pbind (prepare_contexts C bar_at xs) (\<lambda>vs. pdone (Inr ((po_order_id x, v) # vs))))
      else prepare_contexts C bar_at xs)"

section \<open>The open of the candle\<close>

text \<open>One active order at the open: its context is bound, and it is filled.\<close>

definition open_order ::
  "service_env \<Rightarrow> instant \<Rightarrow> row \<Rightarrow> (string \<times> json option) list \<Rightarrow> paper_order \<Rightarrow> paper_fill option proc" where
  "open_order C bar_at r prepared x =
     (if po_eligible_open_utc x < bar_at then pdone (Inl (PaperServiceError ''active market order missed its eligible open''))
      else if po_eligible_open_utc x \<noteq> bar_at then pdone (Inr None)
      else
        pbind (if needs_context bar_at x then (case map_of prepared (po_order_id x) of
            None \<Rightarrow> pdone (Inl (PaperServiceError ''pending BUY changed during legacy context preparation''))
          | Some None \<Rightarrow> pdone (Inr ())
          | Some (Some v) \<Rightarrow> pbind (pcall (bind_entry_context (cx_hash C) (po_order_id x) v)) (\<lambda>_. pdone (Inr ())))
          else pdone (Inr ())) (\<lambda>_.
        pbind (pdone (cell_float r ''open'')) (\<lambda>open_value.
        pcall (process_open (cx_hash C) (cx_broker C) (po_order_id x) (TsDatetime (utc bar_at)) (VFloat open_value) None))))"

text \<open>The fills of the open in order, and whether the last one was a purchase.\<close>

fun open_orders ::
  "service_env \<Rightarrow> instant \<Rightarrow> row \<Rightarrow> (string \<times> json option) list \<Rightarrow> paper_order list \<Rightarrow> string list \<times> bool
     \<Rightarrow> (string list \<times> bool) proc" where
  "open_orders C bar_at r prepared [] done_fills = pdone (Inr done_fills)"
| "open_orders C bar_at r prepared (x # xs) done_fills =
     pbind (open_order C bar_at r prepared x) (\<lambda>f.
     open_orders C bar_at r prepared xs (case f of None \<Rightarrow> done_fills
       | Some y \<Rightarrow> (fst done_fills @ [pf_order_id y], pf_side y = ''BUY'')))"

text \<open>\<open>_ensure_stop\<close>: the initial hard stop, or a candidate above the active one.\<close>

definition ensure_stop ::
  "service_env \<Rightarrow> instant \<Rightarrow> paper_reconciliation \<Rightarrow> frame \<Rightarrow> instant option \<Rightarrow> pyfloat option \<Rightarrow> unit proc" where
  "ensure_stop C bar_at r enriched active_after candidate =
     pbind (pread (reconstruct_position C r enriched bar_at)) (\<lambda>p.
     case pr_active_stop r of
       None \<Rightarrow> fenced_cycle C (pbind (pcall (set_stop (cx_hash C) (cx_broker C) (TsDatetime (utc bar_at))
           (VFloat (op_initial_stop p)) (map_option (\<lambda>t. TsDatetime (utc t)) active_after) ''HARD_STOP''
           (Some (po_order_id (op_order p))))) (\<lambda>_. pdone (Inr ())))
     | Some s \<Rightarrow> (case candidate of
           None \<Rightarrow> pdone (Inr ())
         | Some v \<Rightarrow>
             if dec_of_float (pp_stop_price s) < dec_of_float v then
               fenced_cycle C (pbind (pcall (set_stop (cx_hash C) (cx_broker C) (TsDatetime (utc bar_at)) (VFloat v) None
                 ''TRAILING_STOP'' (Some (po_order_id (op_order p))))) (\<lambda>_. pdone (Inr ())))
             else pdone (Inr ())))"

text \<open>After the open: the stop of a new position, and the stops that the candle triggers.\<close>

definition protect_open ::
  "service_env \<Rightarrow> instant \<Rightarrow> row \<Rightarrow> frame \<Rightarrow> string list \<times> bool \<Rightarrow> string list proc" where
  "protect_open C bar_at r enriched opened = (case opened of (filled, entered) \<Rightarrow>
     pbind (if entered then pfault C ''after_pending_open'' else pdone (Inr ())) (\<lambda>_.
     pbind (account C) (\<lambda>a.
     pbind (if 0 < pr_btc_quantity a \<and> pr_active_orders a = [] \<and> pr_active_stop a = None then
         pbind (ensure_stop C bar_at a enriched (if entered then Some bar_at else None) None) (\<lambda>_. account C)
       else pdone (Inr a)) (\<lambda>b.
     if 0 < pr_btc_quantity b \<and> pr_active_orders b = [] then
       pbind (pdone (cell_float r ''open'')) (\<lambda>open_value.
       pbind (pdone (cell_float r ''low'')) (\<lambda>low.
       pbind (pcall (process_intrabar_stop (cx_hash C) (cx_broker C) (TsDatetime (utc bar_at)) (VFloat open_value) (VFloat low))) (\<lambda>f.
       pdone (Inr (case f of None \<Rightarrow> filled | Some y \<Rightarrow> filled @ [pf_order_id y])))))
     else pdone (Inr filled)))))"

text \<open>The fenced section of the open; nothing when the cycle was completed meanwhile.\<close>

definition execute_open ::
  "service_env \<Rightarrow> instant \<Rightarrow> instant \<Rightarrow> row \<Rightarrow> frame \<Rightarrow> (string \<times> json option) list \<Rightarrow> string list option proc" where
  "execute_open C end_at bar_at r enriched prepared = fenced_cycle C (
     pbind (pread (validated_snapshot C)) (\<lambda>snapshot.
     pbind (pdone (validate_alert_chain (cx_hash C) (pn_event_evidence snapshot))) (\<lambda>_.
     pbind (pread (\<lambda>st. has_completed_cycle (cx_hash C) st snapshot end_at)) (\<lambda>finished.
     if finished then pdone (Inr None)
     else
       pbind (account C) (\<lambda>a.
       pbind (open_orders C bar_at r prepared (pr_active_orders a) ([], False)) (\<lambda>opened.
       pbind (protect_open C bar_at r enriched opened) (\<lambda>filled.
       pdone (Inr (Some filled)))))))))"

end
