(* ===== verification/ServiceRun.thy ===== *)
theory ServiceRun
  imports PaperService
begin

text \<open>
  The cycle of \<open>PaperService\<close>, \<open>src/autobit/paper/service.py\<close>: the observation of the open position,
  the risk decision of the candle with its health overlay, the policy and the orders that follow
  from it, and \<open>process_completed_candle\<close> around them.
\<close>

section \<open>The observation of the position\<close>

text \<open>The candles since the last observation, from this frame or from the history of the source.\<close>

definition position_history :: "service_env \<Rightarrow> frame \<Rightarrow> instant \<Rightarrow> instant \<Rightarrow> instant \<Rightarrow> frame proc" where
  "position_history C enriched start bar_at end_at =
     (let held = rows_between enriched start end_at in
      pbind (if map fst held = four_hour_range start bar_at then pdone (Inr (Candles held))
        else (case cx_history C of
            None \<Rightarrow> pdone (Inl (PaperServiceError ''public position-history backfill is unavailable''))
          | Some loader \<Rightarrow>
              pbind (loader start end_at) (\<lambda>v.
              pbind (renew_lease C) (\<lambda>renewed.
              if renewed then pdone (Inr v)
              else pdone (Inl (CycleLeaseLostError ''paper cycle lease was lost during position-history backfill'')))))) (\<lambda>v.
      pdone (validated_position_frame C v start end_at)))"

definition row_highs :: "frame \<Rightarrow> (string \<times> pyfloat) list res" where
  "row_highs f = emap (\<lambda>(t, r). ebind (cell_float r ''high'') (\<lambda>h. Inr (iso_z t, h))) f"

definition new_observation ::
  "service_env \<Rightarrow> instant \<Rightarrow> frame \<Rightarrow> paper_fill \<Rightarrow> stored_event option \<Rightarrow> unit proc" where
  "new_observation C bar_at enriched entry observation =
     pbind (pdone (case observation of None \<Rightarrow> Inr (pf_fill_time entry)
       | Some e \<Rightarrow> dt_add (sv_occurred_at_utc e) FOUR_HOURS)) (\<lambda>start.
     pbind (pdone (dt_add bar_at FOUR_HOURS)) (\<lambda>end_at.
     pbind (position_history C enriched start bar_at end_at) (\<lambda>held.
     pbind (case observation of
         Some e \<Rightarrow> pdone (ebind (json_float (field (sv_payload e) ''initial_stop'')) (\<lambda>x. Inr (Some x)))
       | None \<Rightarrow> pread (PaperBroker.initial_stop (cx_hash C) (pf_order_id entry))) (\<lambda>initial. case initial of
       None \<Rightarrow> pdone (Inl (PaperServiceError ''position history lacks immutable initial protection''))
     | Some x \<Rightarrow>
         pbind (fenced_cycle C (pbind (pdone (row_highs held)) (\<lambda>highs.
           pcall (PaperBroker.observe_position (cx_hash C) (pf_order_id entry) highs x)))) (\<lambda>_.
         pfault C ''after_position_observation'')))))"

definition observe_held :: "service_env \<Rightarrow> instant \<Rightarrow> paper_reconciliation \<Rightarrow> frame \<Rightarrow> unit proc" where
  "observe_held C bar_at r enriched =
     pbind (pdone (open_entry r)) (\<lambda>entry.
     pbind (pread (position_observation (cx_hash C) (pf_order_id entry))) (\<lambda>observation.
     case observation of
       Some e \<Rightarrow>
         if bar_at < sv_occurred_at_utc e
         then pdone (Inl (PaperServiceError ''position observation is ahead of current candle''))
         else if sv_occurred_at_utc e = bar_at then pdone (Inr ())
         else new_observation C bar_at enriched entry observation
     | None \<Rightarrow> new_observation C bar_at enriched entry observation))"

section \<open>The risk decision\<close>

definition mark_to_market :: "paper_reconciliation \<Rightarrow> pyfloat \<Rightarrow> pyfloat res" where
  "mark_to_market r close =
     (let x = float_of_dec (dec_of_float (pr_cash r) + dec_of_float (pr_btc_quantity r) * dec_of_float close) in
      if \<not> isfinite x \<or> x < 0 then Inl (PaperServiceError ''mark-to-market equity is invalid'') else Inr x)"

definition trade_observation :: "paper_trade \<Rightarrow> closed_trade_observation" where
  "trade_observation t = \<lparr> ct_net_pnl = pt_net_pnl t, ct_exit_time = utc (pt_exit_time t) \<rparr>"

text \<open>\<open>_advance_risk_state\<close>: the facts of the candle and the broker for the risk account.\<close>

definition advance_from_row ::
  "service_env \<Rightarrow> risk_state \<Rightarrow> instant \<Rightarrow> pyfloat \<Rightarrow> row \<Rightarrow> paper_trade list \<Rightarrow> bool \<Rightarrow> risk_state res" where
  "advance_from_row C prior bar_at equity r trades system_healthy =
     ebind (cell_positive (row_get r ''close'') ''risk close'') (\<lambda>close.
     ebind (cell_positive (row_get r (atr_column (cx_strategy C))) ''risk ATR'') (\<lambda>atr.
     ebind (cell_positive (row_get r ''baseline_atr_pct'') ''baseline ATR percent'') (\<lambda>baseline.
     catch is_value_error
       (ebind (py_div atr close) (\<lambda>pct.
        ebind (py_div pct baseline) (\<lambda>ratio.
        advance_risk_state prior \<lparr> ro_now = utc bar_at, ro_equity = equity,
          ro_closed_trades = map trade_observation trades, ro_volatility_ratio = ratio,
          ro_volatility_bar_valid = VBool (cell_true (row_get r ''warmup_complete'') \<and> cell_true (row_get r ''entry_data_valid'')),
          ro_system_healthy = VBool system_healthy \<rparr> (cx_risk C))))
       (\<lambda>e. Inl (PaperServiceError (exn_text e))))))"

text \<open>\<open>_persist_health_risk_followup\<close>; an existing follow-up must be the same.\<close>

definition persist_followup :: "service_env \<Rightarrow> instant \<Rightarrow> risk_state \<Rightarrow> risk_decision \<Rightarrow> health_gate \<Rightarrow> unit proc" where
  "persist_followup C bar_at base final gate =
     pbind (pdone (ensure (\<not> (hg_event_id gate = None \<or> hg_sequence gate \<le> 0))
       (corrupt ''changed health decision lacks event evidence''))) (\<lambda>_.
     let corrected = base\<lparr> rk_decision := final \<rparr> in
     pbind (pread (load_snapshot (cx_hash C))) (\<lambda>snapshot.
     pbind (pdone (health_risk_followup_id (cx_hash C) bar_at gate)) (\<lambda>event_id.
     case filter (\<lambda>e. sv_event_id e = event_id) (pn_event_evidence snapshot) of
       [] \<Rightarrow> append_service_event C event_id ''BREAKER_STATE''
         (if pn_event_evidence snapshot = [] then bar_at
          else max bar_at (sv_occurred_at_utc (last (pn_event_evidence snapshot)))) (risk_state_payload corrected)
     | [e] \<Rightarrow> pdone (
         ebind (ensure (sv_event_type e = ''BREAKER_STATE'') (corrupt ''health risk followup identity conflicts'')) (\<lambda>_.
         ebind (risk_state_from_payload (sv_payload e)) (\<lambda>s.
         ensure (s = corrected) (corrupt ''health risk followup identity conflicts''))))
     | _ \<Rightarrow> pdone (Inl (corrupt ''health risk followup identity is duplicated'')))))"

definition overlay_followup :: "service_env \<Rightarrow> instant \<Rightarrow> risk_state \<Rightarrow> risk_decision \<Rightarrow> health_gate \<Rightarrow> unit proc" where
  "overlay_followup C bar_at base final gate =
     pbind (fenced_cycle C (persist_followup C bar_at base final gate)) (\<lambda>_. pfault C ''after_health_risk_followup'')"

text \<open>The decision of a candle that was already decided: only its health overlay may change.\<close>

definition repeated_decision :: "service_env \<Rightarrow> instant \<Rightarrow> risk_chain \<Rightarrow> health_gate \<Rightarrow> risk_decision proc" where
  "repeated_decision C bar_at chain gate =
     (let base = rc_latest_base chain; stored = rc_projection chain;
          final = apply_health_action (rk_decision base) (hg_action gate) in
      pbind (pdone (ensure (rk_last_risk_at base = Some bar_at) (corrupt ''risk projection lacks its canonical base''))) (\<lambda>_.
      pbind (pdone (if hg_event_id gate = None then Inr None
        else ebind (health_risk_followup_id (cx_hash C) bar_at gate) (\<lambda>i. Inr (Some i)))) (\<lambda>overlay_id.
      let bound = ((case rc_risk_event chain of None \<Rightarrow> False | Some e \<Rightarrow> Some (sv_event_id e) = overlay_id)
          \<and> rk_decision stored = final) in
      if rk_decision stored \<noteq> final \<or> (final \<noteq> rk_decision base \<and> \<not> bound)
      then pbind (overlay_followup C bar_at base final gate) (\<lambda>_. pdone (Inr final))
      else pdone (Inr final))))"

definition new_decision ::
  "service_env \<Rightarrow> instant \<Rightarrow> row \<Rightarrow> pyfloat \<Rightarrow> paper_reconciliation \<Rightarrow> risk_state \<Rightarrow> health_gate \<Rightarrow> risk_decision proc" where
  "new_decision C bar_at r equity a stored gate =
     pbind (pdone (advance_from_row C stored bar_at equity r (pr_completed_trades a)
       (case hg_action gate of None \<Rightarrow> False | Some x \<Rightarrow> \<not> ha_halt_entries x))) (\<lambda>base.
     pbind (fenced_cycle C (append_service_event C (''risk:'' @ iso_z bar_at) ''BREAKER_STATE'' bar_at
       (risk_state_payload base))) (\<lambda>_.
     let final = apply_health_action (rk_decision base) (hg_action gate) in
     pbind (if final \<noteq> rk_decision base then overlay_followup C bar_at base final gate else pdone (Inr ())) (\<lambda>_.
     pdone (Inr final))))"

definition risk_decision_of :: "service_env \<Rightarrow> instant \<Rightarrow> row \<Rightarrow> pyfloat \<Rightarrow> paper_reconciliation \<Rightarrow> risk_decision proc" where
  "risk_decision_of C bar_at r equity a =
     pbind (pread (\<lambda>st.
       ebind (load_snapshot (cx_hash C) st) (\<lambda>snapshot.
       ebind (validate_chain (cx_hash C) snapshot) (\<lambda>chain.
       ebind (health_gate_from_snapshot snapshot) (\<lambda>gate. Inr (chain, gate)))))) (\<lambda>(chain, gate).
     case rk_last_risk_at (rc_projection chain) of
       None \<Rightarrow> new_decision C bar_at r equity a (rc_projection chain) gate
     | Some t \<Rightarrow>
         if bar_at < t then pdone (Inl (PaperServiceError ''risk state timestamp is ahead of the current candle''))
         else if t = bar_at then repeated_decision C bar_at chain gate
         else new_decision C bar_at r equity a (rc_projection chain) gate)"

section \<open>The policy and its orders\<close>

definition current_position ::
  "service_env \<Rightarrow> paper_reconciliation \<Rightarrow> frame \<Rightarrow> instant \<Rightarrow> store \<Rightarrow> position_context option res" where
  "current_position C a enriched bar_at st =
     (if 0 < pr_btc_quantity a
      then ebind (reconstruct_position C a enriched bar_at st) (\<lambda>p. Inr (Some (context_of p (pr_btc_quantity a))))
      else Inr None)"

definition decision_text :: "decision \<Rightarrow> string" where
  "decision_text d = (case dc_reason d of None \<Rightarrow> [] | Some r \<Rightarrow> r)"

text \<open>What the decision does; the ids of the orders that it created.\<close>

definition act_on ::
  "service_env \<Rightarrow> instant \<Rightarrow> row \<Rightarrow> frame \<Rightarrow> paper_reconciliation \<Rightarrow> position_context option \<Rightarrow> decision \<Rightarrow> string list proc" where
  "act_on C bar_at r enriched a position d = (case dc_action d of
     Sell \<Rightarrow>
       if pr_active_orders a = [] then
         pbind (fenced_cycle C (pcall (submit_exit (cx_hash C) (cx_broker C) (TsDatetime (utc bar_at))
           (VFloat (dc_quantity d)) (VFloat (pr_btc_quantity a)) (decision_text d) None))) (\<lambda>x.
         pdone (Inr [po_order_id x]))
       else pdone (Inr [])
   | Buy \<Rightarrow>
       pbind (fenced_cycle C (pbind (pread (entry_context_of C bar_at r (dc_risk d))) (\<lambda>context.
         pcall (submit_entry (cx_hash C) (cx_broker C) (TsDatetime (utc bar_at)) (VFloat (dc_quantity d))
           (decision_text d) (Some context))))) (\<lambda>x.
       pbind (pfault C ''after_order_acceptance'') (\<lambda>_. pdone (Inr [po_order_id x])))
   | Hold \<Rightarrow>
       if position \<noteq> None \<and> pr_active_orders a = [] then
         pbind (ensure_stop C bar_at a enriched None (dc_next_stop d)) (\<lambda>_. pdone (Inr []))
       else pdone (Inr []))"

definition decide_cycle ::
  "service_env \<Rightarrow> instant \<Rightarrow> instant \<Rightarrow> row \<Rightarrow> frame \<Rightarrow> string list \<Rightarrow> cycle_result proc" where
  "decide_cycle C end_at bar_at r enriched filled =
     pbind (account C) (\<lambda>a0.
     pbind (if 0 < pr_btc_quantity a0 then observe_held C bar_at a0 enriched else pdone (Inr ())) (\<lambda>_.
     pbind (pdone (ebind (cell_float r ''close'') (mark_to_market a0))) (\<lambda>equity.
     pbind (risk_decision_of C bar_at r equity a0) (\<lambda>risk.
     pbind (account C) (\<lambda>a.
     pbind (pread (current_position C a enriched bar_at)) (\<lambda>position.
     pbind (pdone (decide \<lparr> se_strategy = cx_strategy C, se_costs = cx_costs C \<rparr> \<lparr> di_row = r, di_cash = VFloat (pr_cash a),
       di_equity = VFloat equity, di_position = position, di_has_pending_order = (pr_active_orders a \<noteq> []),
       di_risk = risk \<rparr>)) (\<lambda>d.
     pbind (act_on C bar_at r enriched a position d) (\<lambda>created.
     let result = \<lparr> cr_status = PROCESSED, cr_end = end_at, cr_created = created, cr_filled = filled,
       cr_reasons = rd_reasons risk, cr_equity = Some equity \<rparr> in
     pbind (record_completion C result) (\<lambda>_. pdone (Inr result))))))))))"

section \<open>One cycle\<close>

text \<open>An unsafe latest candle completes the cycle, unless something waits for it.\<close>

definition unsafe_cycle :: "service_env \<Rightarrow> instant \<Rightarrow> cycle_result proc" where
  "unsafe_cycle C end_at =
     pbind (account C) (\<lambda>a.
     pbind (if 0 < pr_btc_quantity a \<or> pr_active_orders a \<noteq> [] then pdone (Inr True)
       else pread (\<lambda>st. ebind (load_snapshot (cx_hash C) st) (\<lambda>snapshot. Inr (pn_pending_orders snapshot \<noteq> [])))) (\<lambda>waiting.
     if waiting then pdone (Inl (PaperServiceError ''unsafe latest candle prevents pending execution or protection obligation''))
     else
       (let result = (bare_result UNSAFE_DATA end_at)\<lparr> cr_reasons := [''LATEST_CANDLE_UNSAFE''] \<rparr> in
        pbind (record_completion C result) (\<lambda>_. pdone (Inr result)))))"

definition trade_cycle :: "service_env \<Rightarrow> instant \<Rightarrow> instant \<Rightarrow> row \<Rightarrow> frame \<Rightarrow> cycle_result proc" where
  "trade_cycle C end_at bar_at r enriched =
     pbind (account C) (\<lambda>a.
     pbind (prepare_contexts C bar_at (pr_active_orders a)) (\<lambda>prepared.
     pbind (still_leased C end_at) (\<lambda>ended. case ended of
       Some result \<Rightarrow> pdone (Inr result)
     | None \<Rightarrow>
         pbind (execute_open C end_at bar_at r enriched prepared) (\<lambda>opened. case opened of
           None \<Rightarrow> pdone (Inr (bare_result ALREADY_PROCESSED end_at))
         | Some filled \<Rightarrow> decide_cycle C end_at bar_at r enriched filled))))"

definition leased_cycle :: "service_env \<Rightarrow> instant \<Rightarrow> instant \<Rightarrow> cycle_result proc" where
  "leased_cycle C end_at latest =
     pbind (pread (read_cycle_evidence C latest)) (\<lambda>(completed, attempted).
     if end_at \<in> set completed then pdone (Inr (bare_result ALREADY_PROCESSED end_at))
     else
       pbind (pdone (require_attempt_target end_at attempted completed)) (\<lambda>_.
       pbind (record_attempt C end_at attempted) (\<lambda>_.
       pbind (pfault C ''after_cycle_attempt'') (\<lambda>_.
       pbind (load_enriched C end_at) (\<lambda>enriched.
       pbind (pdone (dt_add end_at (- FOUR_HOURS))) (\<lambda>bar_at.
       pbind (still_leased C end_at) (\<lambda>ended. case ended of
         Some result \<Rightarrow> pdone (Inr result)
       | None \<Rightarrow> (case row_at enriched bar_at of
             None \<Rightarrow> unsafe_cycle C end_at
           | Some r \<Rightarrow> if safe_execution_row r then trade_cycle C end_at bar_at r enriched else unsafe_cycle C end_at))))))))"

definition is_lease_lost :: "exn \<Rightarrow> bool" where
  "is_lease_lost e = (case e of CycleLeaseLostError _ \<Rightarrow> True | _ \<Rightarrow> False)"

definition process_completed_candle :: "service_env \<Rightarrow> pydatetime \<Rightarrow> cycle_result proc" where
  "process_completed_candle C end_utc =
     pbind (pdone (require_cycle_end end_utc)) (\<lambda>end_at.
     pbind (pclock C) (\<lambda>now.
     pbind (pdone (dt_add end_at CYCLE_MATURITY_DELAY)) (\<lambda>matured.
     pbind (pdone (ensure (\<not> now < matured) (ValueError ''completed candle must be at least ten minutes old''))) (\<lambda>_.
     pbind (pdone (latest_matured_end now)) (\<lambda>latest.
     pbind (pread (read_cycle_evidence C latest)) (\<lambda>(completed, attempted).
     if end_at \<in> set completed then pdone (Inr (bare_result ALREADY_PROCESSED end_at))
     else
       pbind (pdone (require_attempt_target end_at attempted completed)) (\<lambda>_.
       pbind (acquire_lease C) (\<lambda>acquired.
       if \<not> acquired then pdone (Inr (bare_result LEASE_HELD end_at))
       else
         pfinally
           (pcatch is_lease_lost (leased_cycle C end_at latest) (result_after_lost_lease C end_at))
           (release_lease C)))))))))"

end
