(* ===== verification/Service_Relation.thy ===== *)
theory Service_Relation
  imports ServiceRun
begin

text \<open>
  Two relations on the states of the service, one for a whole operation and one for the work inside
  a fenced transaction, and what they must satisfy so that every operation of the service stays
  within them. Each property of the changes that the service makes is an instance.
\<close>

section \<open>Operations within a relation\<close>

definition inside :: "(service \<Rightarrow> service \<Rightarrow> bool) \<Rightarrow> 'a proc \<Rightarrow> bool" where
  "inside R m \<longleftrightarrow> (\<forall>s. R s (fst (m s)))"

lemma insideI: "(\<And>s. R s (fst (m s))) \<Longrightarrow> inside R m"
  by (simp add: inside_def)

lemma insideD: "inside R m \<Longrightarrow> m s = (s1, r) \<Longrightarrow> R s s1"
  by (metis fst_conv inside_def)

definition preorder_rel :: "(service \<Rightarrow> service \<Rightarrow> bool) \<Rightarrow> bool" where
  "preorder_rel R \<longleftrightarrow> reflp R \<and> transp R"

lemma inside_same: "preorder_rel R \<Longrightarrow> (\<And>s. fst (m s) = s) \<Longrightarrow> inside R m"
  by (simp add: inside_def preorder_rel_def reflp_def)

lemma inside_pdone: "preorder_rel R \<Longrightarrow> inside R (pdone r)"
  by (rule inside_same) (simp_all add: pdone_def)

lemma inside_pread: "preorder_rel R \<Longrightarrow> inside R (pread f)"
  by (rule inside_same) (simp_all add: pread_def)

lemma inside_pfault: "preorder_rel R \<Longrightarrow> inside R (pfault C b)"
  by (simp add: pfault_def inside_pdone)

lemma inside_pbind: "preorder_rel R \<Longrightarrow> inside R m \<Longrightarrow> (\<And>x. inside R (f x)) \<Longrightarrow> inside R (pbind m f)"
  unfolding inside_def pbind_def preorder_rel_def transp_def
  by (auto split: prod.splits sum.splits) (metis fst_conv)+

lemma inside_pcatch: "preorder_rel R \<Longrightarrow> inside R m \<Longrightarrow> inside R h \<Longrightarrow> inside R (pcatch c m h)"
  unfolding inside_def pcatch_def preorder_rel_def transp_def
  by (auto split: prod.splits sum.splits) (metis fst_conv)+

lemma inside_pfinally: "preorder_rel R \<Longrightarrow> inside R m \<Longrightarrow> inside R f \<Longrightarrow> inside R (pfinally m f)"
  unfolding inside_def pfinally_def preorder_rel_def transp_def
  by (auto split: prod.splits sum.splits) (metis fst_conv)+

lemma inside_if: "inside R m \<Longrightarrow> inside R n \<Longrightarrow> inside R (if b then m else n)"
  by simp

lemma inside_option: "inside R m \<Longrightarrow> (\<And>x. inside R (f x)) \<Longrightarrow> inside R (case v of None \<Rightarrow> m | Some x \<Rightarrow> f x)"
  by (cases v) auto

lemma inside_prod: "(\<And>x y. inside R (f x y)) \<Longrightarrow> inside R (case p of (x, y) \<Rightarrow> f x y)"
  by (cases p) auto

lemma inside_list: "inside R m \<Longrightarrow> (\<And>x xs. inside R (f x xs)) \<Longrightarrow> inside R (case v of [] \<Rightarrow> m | x # xs \<Rightarrow> f x xs)"
  by (cases v) auto

lemma inside_action: "inside R h \<Longrightarrow> inside R b \<Longrightarrow> inside R m \<Longrightarrow> inside R (case a of Hold \<Rightarrow> h | Buy \<Rightarrow> b | Sell \<Rightarrow> m)"
  by (cases a) auto

section \<open>Fenced transactions\<close>

lemma fenced_commit:
  assumes "store_cycle_lease_transaction H owner token (VInt e) (TsDatetime (utc t)) work st = (st', r)"
  shows "case r of Inl _ \<Rightarrow> st' = st
    | Inr y \<Rightarrow> fence H owner token e t (ss_db st) = Inr () \<and> is_ok (replay_and_verify H (ss_db st))
        \<and> work (ss_db st) = Inr (ss_db st', y) \<and> st' = st\<lparr>ss_db := ss_db st'\<rparr> \<and> is_ok (replay_and_verify H (ss_db st'))"
  using assms
  by (auto simp: store_cycle_lease_transaction_def with_args_def transact_public_def commit_def fenced_def mutation_def
      prepare_fence_def positive_epoch_def canonical_timestamp_def nonempty_text_def is_ok_def
      split: sum.splits prod.splits if_splits)

text \<open>What a fenced transaction leaves behind: one more reading of the clock, or what its work leaves.\<close>

inductive fenced_effect :: "(service \<Rightarrow> service \<Rightarrow> bool) \<Rightarrow> service_env \<Rightarrow> service \<Rightarrow> service \<Rightarrow> bool"
  for W :: "service \<Rightarrow> service \<Rightarrow> bool" and C :: service_env where
  stays: "fenced_effect W C s s"
| ticks: "fenced_effect W C s (s\<lparr>pv_ticks := Suc (pv_ticks s)\<rparr>)"
| commits: "W (s\<lparr>pv_ticks := Suc (pv_ticks s)\<rparr>) s1 \<Longrightarrow> astimezone_utc (cx_clock C (pv_ticks s)) = Inr now
    \<Longrightarrow> fence (cx_hash C) (cx_owner C) (cx_token C) e now (ss_db (pv_store s)) = Inr ()
    \<Longrightarrow> is_ok (replay_and_verify (cx_hash C) (ss_db (pv_store s)))
    \<Longrightarrow> is_ok (replay_and_verify (cx_hash C) (ss_db (pv_store s1)))
    \<Longrightarrow> fenced_effect W C s (s1\<lparr>pv_store := (pv_store s)\<lparr>ss_db := ss_db (pv_store s1)\<rparr>\<rparr>)"

text \<open>A reading of the clock: what it gives is the instant of the next reading.\<close>

definition reads_clock :: "service_env \<Rightarrow> instant proc \<Rightarrow> bool" where
  "reads_clock C m \<longleftrightarrow> (\<forall>s. \<exists>r. m s = (s\<lparr>pv_ticks := Suc (pv_ticks s)\<rparr>, r)
     \<and> (\<forall>now. r = Inr now \<longrightarrow> astimezone_utc (cx_clock C (pv_ticks s)) = Inr now))"

lemma clock_utc_reading: "clock_utc v = Inr now \<Longrightarrow> astimezone_utc v = Inr now"
  by (auto simp: clock_utc_def catch_def split: if_splits sum.splits)

lemma reads_pclock: "reads_clock C (pclock C)"
  by (auto simp: reads_clock_def pclock_def clock_utc_reading)

lemma fenced_at_effect:
  fixes work :: "'a proc"
  assumes "reads_clock C clock" and "inside W work"
  shows "fenced_effect W C s (fst (fenced_at C clock e work s))"
proof -
  obtain r where r: "clock s = (s\<lparr>pv_ticks := Suc (pv_ticks s)\<rparr>, r)"
      "\<And>now. r = Inr now \<Longrightarrow> astimezone_utc (cx_clock C (pv_ticks s)) = Inr now"
    using assms(1) by (force simp: reads_clock_def)
  show ?thesis
  proof (cases r)
    case (Inl x)
    then show ?thesis using r(1) by (simp add: fenced_at_def pbind_def fenced_effect.ticks)
  next
    case (Inr now)
    let ?s = "s\<lparr>pv_ticks := Suc (pv_ticks s)\<rparr>"
    obtain st y where y: "store_cycle_lease_transaction (cx_hash C) (cx_owner C) (cx_token C) (VInt e) (TsDatetime (utc now))
        (work_on work ?s) (pv_store ?s) = (st, y)" by force
    show ?thesis
    proof (cases y)
      case (Inl x)
      then have "pv_store s = st" using fenced_commit [OF y] by simp
      then show ?thesis using r(1) Inr y Inl by (auto simp: fenced_at_def pbind_def fenced_effect.ticks)
    next
      case (Inr p)
      obtain s2 x where p: "p = (s2, x)" by force
      from fenced_commit [OF y] Inr p have f: "fence (cx_hash C) (cx_owner C) (cx_token C) e now (ss_db (pv_store s)) = Inr ()"
        "is_ok (replay_and_verify (cx_hash C) (ss_db (pv_store s)))" "st = (pv_store s)\<lparr>ss_db := ss_db st\<rparr>"
        "is_ok (replay_and_verify (cx_hash C) (ss_db st))" "work_on work ?s (ss_db (pv_store s)) = Inr (ss_db st, s2, x)"
        by simp_all
      from f(5) have w: "work ?s = (s2, Inr x)" "ss_db (pv_store s2) = ss_db st"
        by (auto simp: work_on_def split: prod.splits sum.splits)
      have "W ?s s2" using insideD [OF assms(2) w(1)] .
      then have "fenced_effect W C s (s2\<lparr>pv_store := (pv_store s)\<lparr>ss_db := ss_db (pv_store s2)\<rparr>\<rparr>)"
        using f r(2) \<open>r = Inr now\<close> w(2) by (intro fenced_effect.commits) auto
      then show ?thesis using r(1) \<open>r = Inr now\<close> y Inr p f(3) w(2) by (simp add: fenced_at_def pbind_def)
    qed
  qed
qed

lemma fenced_cycle_effect: "inside W work \<Longrightarrow> fenced_effect W C s (fst (fenced_cycle C work s))"
  by (auto simp: fenced_cycle_def fenced_effect.stays reads_pclock intro: fenced_at_effect split: option.split)

section \<open>The writes of a cycle\<close>

text \<open>The operations that change the store inside the fenced transactions of a cycle.\<close>

inductive cycle_write :: "service_env \<Rightarrow> store \<Rightarrow> store \<Rightarrow> bool" for C :: service_env where
  event: "cycle_write C st (fst (store_append_event (cx_hash C) a st))"
| binds: "cycle_write C st (fst (bind_entry_context (cx_hash C) i v st))"
| entry: "cycle_write C st (fst (submit_entry (cx_hash C) (cx_broker C) t q r w st))"
| exit: "cycle_write C st (fst (submit_exit (cx_hash C) (cx_broker C) t q n r p st))"
| opens: "cycle_write C st (fst (process_open (cx_hash C) (cx_broker C) i t v a st))"
| stops: "cycle_write C st (fst (process_intrabar_stop (cx_hash C) (cx_broker C) t v u st))"
| protects: "cycle_write C st (fst (set_stop (cx_hash C) (cx_broker C) t p x r y st))"
| observes: "cycle_write C st (fst (observe_position (cx_hash C) i hs z st))"

section \<open>The contract of a relation\<close>

text \<open>
  \<open>R\<close> bounds a whole operation and \<open>W\<close> the work inside a fenced transaction: the service stays
  within \<open>R\<close> when the collaborators do.
\<close>

locale service_relation =
  fixes C :: service_env and R W :: "service \<Rightarrow> service \<Rightarrow> bool"
  assumes R_preorder: "preorder_rel R" and W_preorder: "preorder_rel W"
    and R_clock: "R s (s\<lparr>pv_ticks := Suc (pv_ticks s)\<rparr>)"
    and R_acquire: "R s (fst (acquire_lease C s))"
    and R_renew: "R s (fst (renew_lease C s))"
    and R_release: "R s (fst (release_lease C s))"
    and R_load: "R s (fst (cx_load C t s))"
    and R_history: "cx_history C = Some loader \<Longrightarrow> R s (fst (loader t u s))"
    and R_fenced: "fenced_effect W C s s1 \<Longrightarrow> R s s1"
    and W_fenced: "fenced_effect W C s s1 \<Longrightarrow> W s s1"
    and W_write: "cycle_write C (pv_store s) st \<Longrightarrow> W s (s\<lparr>pv_store := st\<rparr>)"
begin

lemmas R_rules = inside_pdone [OF R_preorder] inside_pread [OF R_preorder] inside_pfault [OF R_preorder]
  inside_pbind [OF R_preorder] inside_pcatch [OF R_preorder] inside_pfinally [OF R_preorder]
  inside_if [of R] inside_option [of R] inside_prod [of R] inside_list [of R]

lemmas W_rules = inside_pdone [OF W_preorder] inside_pread [OF W_preorder] inside_pfault [OF W_preorder]
  inside_pbind [OF W_preorder] inside_pcatch [OF W_preorder] inside_pfinally [OF W_preorder]
  inside_if [of W] inside_option [of W] inside_prod [of W] inside_list [of W]

lemma R_calls:
  "inside R (pclock C)" "inside R (acquire_lease C)" "inside R (renew_lease C)" "inside R (release_lease C)"
  "inside R (cx_load C t)"
  using R_clock R_acquire R_renew R_release R_load by (auto simp: inside_def pclock_def)

lemma R_section: "inside W work \<Longrightarrow> inside R (fenced_cycle C work)"
  by (rule insideI) (rule R_fenced, rule fenced_cycle_effect)

lemma W_section: "inside W work \<Longrightarrow> inside W (fenced_cycle C work)"
  by (rule insideI) (rule W_fenced, rule fenced_cycle_effect)

lemma W_call: "(\<And>st. cycle_write C st (fst (f st))) \<Longrightarrow> inside W (pcall f)"
  by (rule insideI) (auto simp: pcall_def split: prod.splits intro!: W_write, metis fst_conv)

lemma W_calls:
  "inside W (pcall (store_append_event (cx_hash C) a))" "inside W (pcall (bind_entry_context (cx_hash C) i v))"
  "inside W (pcall (submit_entry (cx_hash C) (cx_broker C) t q r w))"
  "inside W (pcall (submit_exit (cx_hash C) (cx_broker C) t q n r p))"
  "inside W (pcall (process_open (cx_hash C) (cx_broker C) i t v1 a1))"
  "inside W (pcall (process_intrabar_stop (cx_hash C) (cx_broker C) t v1 u))"
  "inside W (pcall (set_stop (cx_hash C) (cx_broker C) t p1 x r y))"
  "inside W (pcall (observe_position (cx_hash C) i hs z))"
  by (rule W_call, rule cycle_write.intros)+

lemma R_account: "inside R (account C)" and W_account: "inside W (account C)"
  unfolding account_def by (rule R_rules W_rules)+

lemma W_append: "inside W (append_service_event C i ty t p)"
  unfolding append_service_event_def by (intro W_rules W_calls)

lemma R_lost: "inside R (result_after_lost_lease C t)"
  unfolding result_after_lost_lease_def by (intro R_rules)

lemma R_still: "inside R (still_leased C t)"
  unfolding still_leased_def by (intro R_rules R_calls R_lost)

lemma R_enriched: "inside R (load_enriched C t)"
  unfolding load_enriched_def by (intro R_rules R_calls)

lemma R_completion: "inside R (record_completion C r)"
  unfolding record_completion_def by (intro R_section W_append)

lemma R_attempt: "inside R (record_attempt C t ts)"
  unfolding record_attempt_def by (intro R_rules R_section W_append)

lemma R_legacy: "inside R (legacy_entry_context C x)"
  unfolding legacy_entry_context_def Let_def by (intro R_rules R_calls)

lemma R_prepare: "inside R (prepare_contexts C t xs)"
proof (induction xs)
  case Nil
  show ?case unfolding prepare_contexts.simps by (rule R_rules)
next
  case (Cons x xs)
  then show ?case unfolding prepare_contexts.simps by (intro R_rules R_legacy)
qed

lemma R_stop: "inside R (ensure_stop C t a f u v)" and W_stop: "inside W (ensure_stop C t a f u v)"
  unfolding ensure_stop_def by (intro R_rules R_section W_rules W_calls W_section)+

lemma W_open_order: "inside W (open_order C t r ps x)"
  unfolding open_order_def by (intro W_rules W_calls)

lemma W_open_orders: "inside W (open_orders C t r ps xs d)"
proof (induction xs arbitrary: d)
  case Nil
  show ?case unfolding open_orders.simps by (rule W_rules)
next
  case (Cons x xs)
  then show ?case unfolding open_orders.simps by (intro W_rules W_open_order)
qed

lemma W_protect: "inside W (protect_open C t r f o1)"
  unfolding protect_open_def by (intro W_rules W_account W_stop W_calls)

lemma R_execute: "inside R (execute_open C t u r f p)"
  unfolding execute_open_def by (intro R_section W_rules W_account W_open_orders W_protect)

lemma R_position_history: "inside R (position_history C f a b c)"
proof (cases "cx_history C")
  case None
  show ?thesis unfolding position_history_def Let_def None option.case by (intro R_rules)
next
  case (Some loader)
  have "inside R (loader a c)" by (rule insideI) (rule R_history [OF Some])
  then show ?thesis unfolding position_history_def Let_def Some option.case by (intro R_rules R_calls)
qed

lemma R_observation: "inside R (new_observation C t f e v)"
  unfolding new_observation_def by (intro R_rules R_position_history R_section W_rules W_calls)

lemma R_observe: "inside R (observe_held C t a f)"
  unfolding observe_held_def by (intro R_rules R_observation)

lemma W_followup: "inside W (persist_followup C b d1 d2 g)"
  unfolding persist_followup_def Let_def by (intro W_rules W_append)

lemma R_overlay: "inside R (overlay_followup C t b d g)"
  unfolding overlay_followup_def by (intro R_rules R_section W_followup)

lemma R_repeated: "inside R (repeated_decision C t c g)"
  unfolding repeated_decision_def Let_def by (intro R_rules R_overlay)

lemma R_new_decision: "inside R (new_decision C t r x a k g)"
  unfolding new_decision_def Let_def by (intro R_rules R_section W_append R_overlay)

lemma R_risk: "inside R (risk_decision_of C t r x a)"
  unfolding risk_decision_of_def by (intro R_rules R_new_decision R_repeated)

lemma R_act: "inside R (act_on C t r f a p d)"
  unfolding act_on_def by (intro inside_action R_rules R_section W_rules W_calls R_stop)

lemma R_decide: "inside R (decide_cycle C t u r f l)"
  unfolding decide_cycle_def Let_def by (intro R_rules R_account R_observe R_risk R_act R_completion)

lemma R_unsafe: "inside R (unsafe_cycle C t)"
  unfolding unsafe_cycle_def Let_def by (intro R_rules R_account R_completion)

lemma R_trade: "inside R (trade_cycle C t u r f)"
  unfolding trade_cycle_def by (intro R_rules R_account R_prepare R_still R_execute R_decide)

lemma R_leased: "inside R (leased_cycle C t u)"
  unfolding leased_cycle_def by (intro R_rules R_attempt R_enriched R_still R_unsafe R_trade)

text \<open>The whole cycle stays within the relation.\<close>

lemma process_inside: "inside R (process_completed_candle C t)"
  unfolding process_completed_candle_def by (intro R_rules R_calls R_leased R_lost)

end

end
