(* ===== verification/Service_Steps.thy ===== *)
theory Service_Steps
  imports Service_Relation
begin

text \<open>
  What a cycle of the paper service may do to the store. A step is a lease operation of this
  process, an action of the candle source, or one transaction that starts while this process holds
  the lease and ends in a database that verifies; every operation of the service is a sequence of
  such steps.
\<close>

section \<open>The steps\<close>

inductive service_step :: "service_env \<Rightarrow> store \<Rightarrow> store \<Rightarrow> bool" for C :: service_env where
  acquire: "astimezone_utc (cx_clock C k) = Inr now \<Longrightarrow> service_step C st (fst (store_acquire_cycle_lease_epoch (cx_hash C)
      \<lparr> la_owner = cx_owner C, la_token = cx_token C, la_now = TsDatetime (utc now), la_expires = TsDatetime (utc expiry) \<rparr> st))"
| renew: "astimezone_utc (cx_clock C k) = Inr now \<Longrightarrow> service_step C st (fst (store_renew_cycle_lease (cx_hash C)
      \<lparr> la_owner = cx_owner C, la_token = cx_token C, la_now = TsDatetime (utc now), la_expires = TsDatetime (utc expiry) \<rparr> (VInt e) st))"
| release: "service_step C st (fst (store_release_cycle_lease (cx_hash C) (cx_owner C) (cx_token C) (Some (VInt e)) st))"
| candles: "service_step C (pv_store s) (pv_store (fst (cx_load C t s)))"
| history: "cx_history C = Some loader \<Longrightarrow> service_step C (pv_store s) (pv_store (fst (loader t u s)))"
| fenced: "astimezone_utc (cx_clock C k) = Inr now \<Longrightarrow> fence (cx_hash C) (cx_owner C) (cx_token C) e now (ss_db st) = Inr ()
    \<Longrightarrow> is_ok (replay_and_verify (cx_hash C) (ss_db st)) \<Longrightarrow> is_ok (replay_and_verify (cx_hash C) d)
    \<Longrightarrow> service_step C st (st\<lparr>ss_db := d\<rparr>)"

text \<open>The states of the service, by the stores that they hold.\<close>

definition stepped :: "service_env \<Rightarrow> service \<Rightarrow> service \<Rightarrow> bool" where
  "stepped C s s1 \<longleftrightarrow> (service_step C)\<^sup>*\<^sup>* (pv_store s) (pv_store s1)"

lemma stepped_preorder: "preorder_rel (stepped C)"
  by (auto simp: preorder_rel_def stepped_def intro!: reflpI transpI intro: rtranclp_trans)

lemma stepped_store: "pv_store s1 = pv_store s \<Longrightarrow> stepped C s s1"
  by (simp add: stepped_def)

lemma stepped_one: "service_step C (pv_store s) (pv_store s1) \<Longrightarrow> stepped C s s1"
  by (auto simp: stepped_def)

section \<open>The lease\<close>

text \<open>A lease request names this process and a reading of its clock.\<close>

lemma lease_request_result: "lease_request C s = (s1, r) \<Longrightarrow> pv_store s1 = pv_store s \<and> (\<forall>a. r = Inr a \<longrightarrow>
    (\<exists>k now expiry. astimezone_utc (cx_clock C k) = Inr now \<and> a = \<lparr> la_owner = cx_owner C,
    la_token = cx_token C, la_now = TsDatetime (utc now), la_expires = TsDatetime (utc expiry) \<rparr>))"
  by (auto simp: lease_request_def pbind_def pdone_def pclock_def split: prod.splits sum.splits dest: clock_utc_reading)

lemma acquire_stepped: "stepped C s (fst (acquire_lease C s))"
proof -
  obtain s1 r where r: "lease_request C s = (s1, r)" by force
  show ?thesis
  proof (cases r)
    case (Inl e)
    then show ?thesis using lease_request_result [OF r] by (simp add: acquire_lease_def pbind_def r stepped_store)
  next
    case (Inr a)
    then have "service_step C (pv_store s) (fst (store_acquire_cycle_lease_epoch (cx_hash C) a (pv_store s1)))"
      using lease_request_result [OF r] by (auto intro: service_step.acquire)
    then show ?thesis
      by (intro stepped_one) (auto simp: acquire_lease_def pbind_def r Inr pcall_def split: prod.splits sum.splits option.splits)
  qed
qed

lemma renew_stepped: "stepped C s (fst (renew_lease C s))"
proof (cases "pv_epoch s")
  case None
  then show ?thesis by (simp add: renew_lease_def stepped_store)
next
  case (Some e)
  obtain s1 r where r: "lease_request C s = (s1, r)" by force
  show ?thesis
  proof (cases r)
    case (Inl x)
    then show ?thesis using lease_request_result [OF r] by (simp add: renew_lease_def Some pbind_def r stepped_store)
  next
    case (Inr a)
    then have "service_step C (pv_store s) (fst (store_renew_cycle_lease (cx_hash C) a (VInt e) (pv_store s1)))"
      using lease_request_result [OF r] by (auto intro: service_step.renew)
    then show ?thesis
      by (intro stepped_one) (auto simp: renew_lease_def Some pbind_def r Inr pcall_def split: prod.splits sum.splits)
  qed
qed

lemma release_stepped: "stepped C s (fst (release_lease C s))"
  by (auto simp: release_lease_def pcall_def stepped_store split: option.splits prod.splits intro!: stepped_one)
    (metis fst_conv service_step.release)

section \<open>The cycle\<close>

lemma fenced_stepped: "fenced_effect W C s s1 \<Longrightarrow> stepped C s s1"
proof (induction rule: fenced_effect.induct)
  case (commits s s1 now e)
  then have "service_step C (pv_store s) ((pv_store s)\<lparr>ss_db := ss_db (pv_store s1)\<rparr>)" by (intro service_step.fenced)
  then show ?case by (intro stepped_one) simp
qed (simp_all add: stepped_store)

interpretation cycle_steps: service_relation C "stepped C" "\<lambda>_ _. True" for C
proof
  show "preorder_rel (stepped C)" by (rule stepped_preorder)
  show "preorder_rel (\<lambda>_ _. True)" by (simp add: preorder_rel_def reflp_def transp_def)
  show "stepped C s (fst (cx_load C t s))" for s t by (intro stepped_one service_step.candles)
  show "stepped C s (fst (loader t u s))" if "cx_history C = Some loader" for loader t u s
    using that by (intro stepped_one service_step.history)
qed (simp_all add: stepped_store acquire_stepped renew_stepped release_stepped fenced_stepped)

text \<open>
  Every change of the store is a lease operation or is fenced. Whatever the candle, the clock
  and the candle source do, the store that a cycle leaves behind is reached from the store before it
  by steps of three kinds only: the acquisition, renewal and release of the lease of this process;
  the actions of the candle source; and transactions that start while the stored lease is the
  unexpired one of this process and its epoch at a reading of the clock, and that end in a database that verifies.
\<close>

theorem cycle_is_fenced:
  "(service_step C)\<^sup>*\<^sup>* (pv_store s) (pv_store (fst (process_completed_candle C t s)))"
  using cycle_steps.process_inside [of C t] by (simp add: inside_def stepped_def)

end
