(* ===== verification/Service_Chronology.thy ===== *)
theory Service_Chronology
  imports ServiceRun
begin

text \<open>
  The chronology of the cycles: the completions of a store form one contiguous chain, the attempts
  are at most one cycle ahead of it, and the oldest required end is the one that continues it.
\<close>

section \<open>Completions\<close>

lemma require_cycle_end_utc [simp]: "require_cycle_end (utc t) = Inr u \<longleftrightarrow> u = t \<and> t mod FOUR_HOURS = 0"
  by (auto simp: require_cycle_end_def)

text \<open>What a completed end is: on the grid, not later than \<open>latest\<close>, with a start in the calendar.\<close>

definition end_ok :: "instant \<Rightarrow> instant \<Rightarrow> bool" where
  "end_ok latest t \<longleftrightarrow> t mod FOUR_HOURS = 0 \<and> t \<le> latest \<and> dt_min \<le> t - FOUR_HOURS"

lemma completed_step_Inr:
  assumes "completed_step H st evs a latest e ends = Inr ends'"
  shows "ends' = ends \<or> (\<exists>u. ends' = ends @ [u] \<and> u \<notin> set ends \<and> sv_event_id e = cycle_event_id u \<and> end_ok latest u)"
  using assms
  by (auto simp: completed_step_def as_corrupt_def catch_def validate_cycle_event_def end_ok_def in_dt_range_def
      split: if_splits sum.splits)

lemma completed_ends_ok:
  assumes "efold (completed_step H st evs a latest) es [] = Inr ends"
  shows "distinct ends \<and> (\<forall>t \<in> set ends. end_ok latest t)"
proof (rule efold_invariant [OF assms])
  fix e ends1 ends2
  assume "distinct ends1 \<and> (\<forall>t \<in> set ends1. end_ok latest t)" "completed_step H st evs a latest e ends1 = Inr ends2"
  then show "distinct ends2 \<and> (\<forall>t \<in> set ends2. end_ok latest t)" using completed_step_Inr by fastforce
qed simp

lemma completed_chain:
  assumes "completed_cycle_ends H st snapshot a latest = Inr completed"
  shows "sorted completed" "distinct completed" "contiguous completed" "\<forall>t \<in> set completed. end_ok latest t"
proof -
  obtain ends where e: "efold (completed_step H st (pn_event_evidence snapshot) a latest) (pn_event_evidence snapshot) [] = Inr ends"
    "completed = sort ends" "contiguous completed"
    using assms by (auto simp: completed_cycle_ends_def)
  show "sorted completed" "distinct completed" "contiguous completed" "\<forall>t \<in> set completed. end_ok latest t"
    using completed_ends_ok [OF e(1)] e(2,3) by simp_all
qed

lemma sorted_last: "sorted ts \<Longrightarrow> t \<in> set ts \<Longrightarrow> t \<le> last ts"
  by (induction ts) auto

lemma first_uncompleted_Inr:
  "first_uncompleted ts = Inr t \<longleftrightarrow> ts \<noteq> [] \<and> t = last ts + FOUR_HOURS \<and> in_dt_range t"
  by (cases ts) (auto simp: first_uncompleted_def safe_add_def dt_add_def split: if_splits)

lemma next_not_completed: "sorted ts \<Longrightarrow> ts \<noteq> [] \<Longrightarrow> last ts + FOUR_HOURS \<notin> set ts"
  using sorted_last [of ts] by (force simp: FOUR_HOURS_def hours_def)

section \<open>Attempts\<close>

definition mature :: "instant \<Rightarrow> instant \<Rightarrow> bool" where
  "mature latest t \<longleftrightarrow> t mod FOUR_HOURS = 0 \<and> t \<le> latest"

lemma attempt_step_Inr:
  assumes "attempt_step latest e a1 = Inr a2" shows "a2 = a1 \<or> (\<exists>x. a2 = a1 @ [x] \<and> mature latest (fst x))"
  using assms
  by (auto simp: attempt_step_def attempt_target_def catch_def mature_def split: if_splits sum.splits)

lemma attempts_mature:
  assumes "efold (attempt_step latest) es [] = Inr attempts"
  shows "\<forall>a \<in> set attempts. mature latest (fst a)"
proof (rule efold_invariant [OF assms])
  fix e a1 a2
  assume "\<forall>a \<in> set a1. mature latest (fst a)" "attempt_step latest e a1 = Inr a2"
  then show "\<forall>a \<in> set a2. mature latest (fst a)"
    using attempt_step_Inr by fastforce
qed simp

lemma validated_attempts:
  assumes "validated_cycle_attempts events completed latest = Inr attempted"
  shows "\<forall>t \<in> set attempted. mature latest t"
    "completed \<noteq> [] \<Longrightarrow> unfinished_of attempted completed \<noteq> [] \<Longrightarrow>
       first_uncompleted completed = Inr (hd (unfinished_of attempted completed))"
proof -
  obtain attempts where e: "efold (attempt_step latest) events [] = Inr attempts" "attempted = map fst attempts"
    and u: "(if completed \<noteq> [] \<and> unfinished_of attempted completed \<noteq> [] then
         ebind (first_uncompleted completed) (\<lambda>expected.
         ensure (hd (unfinished_of attempted completed) = expected) (corrupt ''cycle attempt contradicts completed chronology''))
       else Inr ()) = Inr ()"
    using assms by (auto simp: validated_cycle_attempts_def Let_def)
  show "\<forall>t \<in> set attempted. mature latest t" using attempts_mature [OF e(1)] e(2) by simp
  show "completed \<noteq> [] \<Longrightarrow> unfinished_of attempted completed \<noteq> [] \<Longrightarrow>
      first_uncompleted completed = Inr (hd (unfinished_of attempted completed))"
    using u by (cases "first_uncompleted completed") auto
qed

section \<open>The evidence of the account\<close>

definition cursors_ok :: "instant \<Rightarrow> cursors \<Rightarrow> bool" where
  "cursors_ok latest c \<longleftrightarrow> (\<forall>t \<in> set (fst c) \<union> set (snd c). t mod FOUR_HOURS = 0 \<and> t \<le> latest + FOUR_HOURS)"

text \<open>A reader of evidence only adds cursors, and only such as are due.\<close>

definition adds :: "instant \<Rightarrow> cursors \<Rightarrow> cursors \<Rightarrow> bool" where
  "adds latest c d \<longleftrightarrow> set (snd c) \<subseteq> set (snd d) \<and> (cursors_ok latest c \<longrightarrow> cursors_ok latest d)"

lemma adds_refl: "adds latest c c"
  by (simp add: adds_def)

lemma adds_trans: "adds latest c d \<Longrightarrow> adds latest d e \<Longrightarrow> adds latest c e"
  by (auto simp: adds_def)

lemma grid_next: "t mod FOUR_HOURS = 0 \<Longrightarrow> (t + FOUR_HOURS) mod FOUR_HOURS = 0"
  by simp

lemma observed_end_ok:
  assumes "observed_cycle_end t latest label = Inr u" shows "u mod FOUR_HOURS = 0 \<and> u \<le> latest + FOUR_HOURS"
  using assms by (auto simp: observed_cycle_end_def safe_add_def dt_add_def FOUR_HOURS_def hours_def split: if_splits)

lemma obligation_ok:
  assumes "future_obligation_end t latest label = Inr u" shows "u mod FOUR_HOURS = 0 \<and> u \<le> latest + FOUR_HOURS"
  using assms by (auto simp: future_obligation_end_def safe_add_def dt_add_def FOUR_HOURS_def hours_def split: if_splits)

lemma order_adds: "order_cursors latest x c = Inr d \<Longrightarrow> adds latest c d"
  by (cases c) (auto simp: order_cursors_def adds_def cursors_ok_def split: if_splits dest!: observed_end_ok obligation_ok)

lemma fill_adds: "fill_cursors latest f c = Inr d \<Longrightarrow> adds latest c d"
  by (cases c) (auto simp: fill_cursors_def adds_def cursors_ok_def dest!: observed_end_ok)

lemma stop_adds: "stop_cursors latest v c = Inr d \<Longrightarrow> adds latest c d"
  by (cases c) (auto simp: stop_cursors_def adds_def cursors_ok_def split: option.splits if_splits
      dest!: observed_end_ok obligation_ok)

lemma efold_adds:
  assumes "efold f xs c = Inr d" "\<And>x c d. f x c = Inr d \<Longrightarrow> adds latest c d" shows "adds latest c d"
proof (rule efold_invariant [OF assms(1), where P = "adds latest c"])
  show "\<And>x s t. x \<in> set xs \<Longrightarrow> adds latest c s \<Longrightarrow> f x s = Inr t \<Longrightarrow> adds latest c t"
    using assms(2) adds_trans by blast
qed (rule adds_refl)

lemma collected:
  assumes "collect_cursors H st events a risk latest obligations = Inr c"
    and "\<forall>t \<in> set obligations. t mod FOUR_HOURS = 0 \<and> t \<le> latest + FOUR_HOURS"
  shows "set obligations \<subseteq> set (snd c)" "cursors_ok latest c"
proof -
  obtain observed orders c1 c2 where o1: "(case rk_last_risk_at risk of None \<Rightarrow> Inr []
       | Some t \<Rightarrow> ebind (observed_cycle_end t latest ''risk observation'') (\<lambda>o1. Inr [o1])) = Inr observed"
    and c: "efold (order_cursors latest) orders (observed, obligations) = Inr c1"
      "efold (fill_cursors latest) (pr_fills a) c1 = Inr c2" "stop_cursors latest (pr_active_stop a) c2 = Inr c"
    using assms(1) by (auto simp: collect_cursors_def)
  have "\<forall>t \<in> set observed. t mod FOUR_HOURS = 0 \<and> t \<le> latest + FOUR_HOURS"
    using o1 by (auto split: option.splits dest!: observed_end_ok)
  then have "cursors_ok latest (observed, obligations)" using assms(2) by (auto simp: cursors_ok_def)
  moreover have "adds latest (observed, obligations) c"
  proof -
    have "adds latest (observed, obligations) c1" by (rule efold_adds [OF c(1)]) (rule order_adds)
    moreover have "adds latest c1 c2" by (rule efold_adds [OF c(2)]) (rule fill_adds)
    ultimately show ?thesis using stop_adds [OF c(3)] adds_trans by blast
  qed
  ultimately show "set obligations \<subseteq> set (snd c)" "cursors_ok latest c" by (auto simp: adds_def)
qed

section \<open>The oldest required end\<close>

lemma sort_hd: "sort xs = t # ts \<Longrightarrow> t \<in> set xs \<and> (\<forall>x \<in> set xs. t \<le> x)"
  by (metis set_ConsD sorted_simps(2) sorted_sort set_sort list.set_intros(1) order_refl)

lemma chronology_least:
  assumes "check_chronology completed (observed, obligations) = Inr ()" "completed \<noteq> []" "sorted completed"
    and "last completed + FOUR_HOURS \<in> set obligations"
  shows "\<exists>ts. unfinished_of (observed @ obligations) completed = (last completed + FOUR_HOURS) # ts"
proof -
  let ?n = "last completed + FOUR_HOURS"
  have n: "?n \<notin> set completed" using next_not_completed assms(2,3) by blast
  have all: "\<forall>t \<in> set (observed @ obligations). t \<in> set completed \<or> ?n \<le> t"
    using assms(1,2) by (auto simp: check_chronology_def list_all_iff first_uncompleted_Inr)
  obtain t ts where u: "unfinished_of (observed @ obligations) completed = t # ts"
    using n assms(4) by (cases "unfinished_of (observed @ obligations) completed")
      (auto simp: unfinished_of_def filter_empty_conv dest!: arg_cong [where f = set])
  from sort_hd [OF u [unfolded unfinished_of_def]] have "t \<le> ?n" "?n \<le> t" using n all assms(4) by auto
  then have "t = ?n" by simp
  then show ?thesis using u by simp
qed

text \<open>The end that validated evidence demands.\<close>

definition due_end ::
  "sha256 \<Rightarrow> store \<Rightarrow> stored_event list \<Rightarrow> risk_state \<Rightarrow> paper_reconciliation \<Rightarrow> instant \<Rightarrow> instant list \<Rightarrow> instant list \<Rightarrow> instant res" where
  "due_end H st events risk a latest completed attempted =
     (if events = [] then Inr latest
      else
        ebind (if completed = [] then Inr [] else ebind (first_uncompleted completed) (\<lambda>t. Inr [t])) (\<lambda>next.
        ebind (collect_cursors H st events a risk latest (unfinished_of attempted completed @ next)) (\<lambda>(observed, obligations).
        ebind (check_chronology completed (observed, obligations)) (\<lambda>_.
        case unfinished_of (observed @ obligations) completed of
          t # _ \<Rightarrow> Inr t
        | [] \<Rightarrow>
            if list_all (\<lambda>e. sv_event_type e \<in> set OPERATIONAL_ONLY) events then Inr latest
            else Inl (PaperServiceError ''durable paper evidence has no resolvable cycle cursor'')))))"

lemma oldest_due: "oldest_required_end H st v =
     ebind (require_cycle_end v) (\<lambda>latest.
     ebind (load_snapshot H st) (\<lambda>snapshot.
     ebind (validate_chain H snapshot) (\<lambda>chain.
     ebind (validate_alert_chain H (pn_event_evidence snapshot)) (\<lambda>_.
     ebind (reconcile H st) (\<lambda>a.
     ebind (cycle_evidence H st snapshot a latest) (\<lambda>(completed, attempted).
     due_end H st (pn_event_evidence snapshot) (rc_projection chain) a latest completed attempted))))))"
  unfolding oldest_required_end_def due_end_def by (rule refl)

lemma latest_on_grid: "require_cycle_end v = Inr t \<Longrightarrow> t mod FOUR_HOURS = 0"
  by (auto simp: require_cycle_end_def split: pydatetime.splits if_splits)

lemma due_continues:
  assumes due: "due_end H st events risk a latest completed attempted = Inr t" and events: "events \<noteq> []"
    and latest: "latest mod FOUR_HOURS = 0" and sorted: "sorted completed" and "\<forall>u \<in> set completed. end_ok latest u"
    and "\<forall>u \<in> set attempted. mature latest u"
  shows "t mod FOUR_HOURS = 0 \<and> t \<le> latest + FOUR_HOURS \<and> t \<notin> set completed
    \<and> (completed \<noteq> [] \<longrightarrow> t = last completed + FOUR_HOURS \<and> in_dt_range t)"
proof -
  obtain next1 observed obligations
    where n: "(if completed = [] then Inr [] else ebind (first_uncompleted completed) (\<lambda>t. Inr [t])) = Inr next1"
      and c: "collect_cursors H st events a risk latest (unfinished_of attempted completed @ next1) = Inr (observed, obligations)"
      and chron: "check_chronology completed (observed, obligations) = Inr ()"
      and t: "case unfinished_of (observed @ obligations) completed of [] \<Rightarrow> t = latest | u # _ \<Rightarrow> t = u"
  proof -
    from due events obtain next1 p where
      n: "(if completed = [] then Inr [] else ebind (first_uncompleted completed) (\<lambda>t. Inr [t])) = Inr next1"
      and c: "collect_cursors H st events a risk latest (unfinished_of attempted completed @ next1) = Inr p"
      and r: "(case p of (observed, obligations) \<Rightarrow> ebind (check_chronology completed (observed, obligations)) (\<lambda>_.
        case unfinished_of (observed @ obligations) completed of
          t # _ \<Rightarrow> Inr t
        | [] \<Rightarrow>
            if list_all (\<lambda>e. sv_event_type e \<in> set OPERATIONAL_ONLY) events then Inr latest
            else Inl (PaperServiceError ''durable paper evidence has no resolvable cycle cursor''))) = Inr t"
      unfolding due_end_def by (simp only: if_False ebind_eq_Inr) blast
    obtain observed obligations where p: "p = (observed, obligations)" by force
    have chron: "check_chronology completed (observed, obligations) = Inr ()"
      and t: "(case unfinished_of (observed @ obligations) completed of
          t # _ \<Rightarrow> Inr t
        | [] \<Rightarrow>
            if list_all (\<lambda>e. sv_event_type e \<in> set OPERATIONAL_ONLY) events then Inr latest
            else Inl (PaperServiceError ''durable paper evidence has no resolvable cycle cursor'')) = Inr t"
      using r by (auto simp: p)
    have "case unfinished_of (observed @ obligations) completed of [] \<Rightarrow> t = latest | u # _ \<Rightarrow> t = u"
      using t by (cases "unfinished_of (observed @ obligations) completed") (auto split: if_splits)
    then show ?thesis using that n c chron p by blast
  qed
  have four: "0 < FOUR_HOURS" by (simp add: FOUR_HOURS_def hours_def)
  have "u mod FOUR_HOURS = 0 \<and> u \<le> latest + FOUR_HOURS" if "u \<in> set (unfinished_of attempted completed @ next1)" for u
  proof (cases "u \<in> set attempted")
    case True
    then show ?thesis using assms(6) four by (auto simp: mature_def)
  next
    case False
    then have "completed \<noteq> []" "u = last completed + FOUR_HOURS"
      using that n by (auto simp: unfinished_of_def first_uncompleted_Inr split: if_splits)
    then show ?thesis using assms(5) by (auto simp: end_ok_def)
  qed
  then have k: "set (unfinished_of attempted completed @ next1) \<subseteq> set obligations" "cursors_ok latest (observed, obligations)"
    using collected [OF c] by simp_all
  show ?thesis
  proof (cases "completed = []")
    case True
    show ?thesis
    proof (cases "unfinished_of (observed @ obligations) completed")
      case Nil
      then show ?thesis using t latest four True by simp
    next
      case (Cons u us)
      then show ?thesis using sort_hd [OF Cons [unfolded unfinished_of_def]] t k(2) True by (auto simp: cursors_ok_def)
    qed
  next
    case False
    then have f: "next1 = [last completed + FOUR_HOURS]" "in_dt_range (last completed + FOUR_HOURS)"
      using n by (auto simp: first_uncompleted_Inr)
    then obtain us where "unfinished_of (observed @ obligations) completed = (last completed + FOUR_HOURS) # us"
      using chronology_least [OF chron False sorted] k(1) by auto
    then have u: "t = last completed + FOUR_HOURS" using t by simp
    have "last completed + FOUR_HOURS \<in> set obligations" using k(1) f(1) by simp
    then have "t mod FOUR_HOURS = 0 \<and> t \<le> latest + FOUR_HOURS" using k(2) unfolding u cursors_ok_def by (metis UnI2 snd_conv)
    then show ?thesis using f(2) u next_not_completed [OF sorted False] by simp
  qed
qed

lemma oldest_parts:
  assumes "oldest_required_end (cx_hash C) st v = Inr t"
  shows "\<exists>latest completed attempted. require_cycle_end v = Inr latest
    \<and> read_cycle_evidence C latest st = Inr (completed, attempted) \<and> sorted completed \<and> contiguous completed
    \<and> (\<forall>u \<in> set completed. end_ok latest u)
    \<and> (completed \<noteq> [] \<longrightarrow> unfinished_of attempted completed \<noteq> [] \<longrightarrow>
        first_uncompleted completed = Inr (hd (unfinished_of attempted completed)))
    \<and> t mod FOUR_HOURS = 0 \<and> t \<le> latest + FOUR_HOURS \<and> t \<notin> set completed
    \<and> (completed \<noteq> [] \<longrightarrow> t = last completed + FOUR_HOURS \<and> in_dt_range t)"
proof -
  obtain latest snapshot chain a completed attempted where p: "require_cycle_end v = Inr latest"
    "load_snapshot (cx_hash C) st = Inr snapshot" "validate_chain (cx_hash C) snapshot = Inr chain"
    "validate_alert_chain (cx_hash C) (pn_event_evidence snapshot) = Inr ()" "reconcile (cx_hash C) st = Inr a"
    "cycle_evidence (cx_hash C) st snapshot a latest = Inr (completed, attempted)"
    and due: "due_end (cx_hash C) st (pn_event_evidence snapshot) (rc_projection chain) a latest completed attempted = Inr t"
    using assms by (auto simp: oldest_due)
  have c: "completed_cycle_ends (cx_hash C) st snapshot a latest = Inr completed"
    "validated_cycle_attempts (pn_event_evidence snapshot) completed latest = Inr attempted"
    using p(6) by (auto simp: cycle_evidence_def)
  note K = completed_chain [OF c(1)] and A = validated_attempts [OF c(2)]
  have read: "read_cycle_evidence C latest st = Inr (completed, attempted)"
    using p by (simp add: read_cycle_evidence_def validated_snapshot_def)
  have g: "latest mod FOUR_HOURS = 0" by (rule latest_on_grid [OF p(1)])
  show ?thesis
  proof (cases "pn_event_evidence snapshot = []")
    case True
    then have "completed = []" using c(1) by (simp add: completed_cycle_ends_def)
    moreover have "t = latest" using due True by (simp add: due_end_def)
    ultimately show ?thesis using p(1) read g by (auto simp: FOUR_HOURS_def hours_def)
  next
    case False
    show ?thesis
      by (rule exI [of _ latest], rule exI [of _ completed], rule exI [of _ attempted])
        (intro conjI; use p(1) read K A(2) due_continues [OF due False g K(1,4) A(1)] in blast)
  qed
qed

text \<open>
  C9: the oldest required end continues the chain. The completions of a store are contiguous, and the
  end that the service asks for next is on the four-hour grid, not completed, at most one cycle after
  the latest matured one and, once a cycle was completed, exactly the one after the last: no candle
  is skipped or decided again, and an unfinished attempt does not refuse it.
\<close>

theorem oldest_end_continues:
  "case (require_cycle_end v, oldest_required_end (cx_hash C) st v) of
     (Inr latest, Inr t) \<Rightarrow> (\<exists>completed attempted. read_cycle_evidence C latest st = Inr (completed, attempted)
       \<and> sorted completed \<and> contiguous completed
       \<and> t mod FOUR_HOURS = 0 \<and> t \<le> latest + FOUR_HOURS \<and> t \<notin> set completed
       \<and> (if completed = [] then True
          else t = last completed + FOUR_HOURS \<and> require_attempt_target t attempted completed = Inr ()))
   | _ \<Rightarrow> True"
proof (cases "oldest_required_end (cx_hash C) st v")
  case (Inr t)
  from oldest_parts [OF Inr] obtain latest completed attempted where o1: "require_cycle_end v = Inr latest"
    "read_cycle_evidence C latest st = Inr (completed, attempted)" "sorted completed" "contiguous completed"
    "t mod FOUR_HOURS = 0" "t \<le> latest + FOUR_HOURS" "t \<notin> set completed"
    "completed \<noteq> [] \<longrightarrow> t = last completed + FOUR_HOURS \<and> in_dt_range t"
    "completed \<noteq> [] \<longrightarrow> unfinished_of attempted completed \<noteq> [] \<longrightarrow>
        first_uncompleted completed = Inr (hd (unfinished_of attempted completed))"
    by (elim exE conjE)
  have "require_attempt_target t attempted completed = Inr ()" if "completed \<noteq> []"
    using o1(8,9) that
    by (cases "unfinished_of attempted completed") (auto simp: require_attempt_target_def first_uncompleted_Inr)
  then show ?thesis using o1(1-8) by (simp add: Inr)
qed (simp split: sum.split)

end
