(* ===== verification/Service_Once.thy ===== *)
theory Service_Once
  imports Service_Chronology Store_History
begin

text \<open>
  A candle is decided at most once. A cycle that returns a result of its own has recorded its
  completion in the store; a cycle whose completion is recorded does nothing and says so; and
  every other outcome is an exception or a report that the lease or the cycle is taken.
\<close>

section \<open>Recorded events\<close>

definition recorded :: "string \<Rightarrow> store \<Rightarrow> bool" where
  "recorded i st \<longleftrightarrow> i \<in> set (map er_event_id (db_events (ss_db st)))"

lemma recorded_evidence:
  assumes "replay_and_verify H d = Inr s" and "i \<in> set (map er_event_id (db_events d))"
  shows "\<exists>e \<in> set (pn_event_evidence s). sv_event_id e = i"
proof -
  from replay_and_verify_Inr [OF assms(1)] obtain r where r: "replay_rows H (sort_key er_sequence (db_events d)) = Inr r"
    "s = snapshot_from_components (rp_ledger r) (if rp_evidence r = [] then 0 else sv_sequence (last (rp_evidence r)))
          (rp_evidence r) (rp_digest r)" by blast
  have "map sv_event_id (pn_event_evidence s) = map er_event_id (sort_key er_sequence (db_events d))"
    using replay_rows_evidence [OF r(1)] by (simp add: r(2) snapshot_from_components_def Let_def)
  then have "set (map sv_event_id (pn_event_evidence s)) = set (map er_event_id (db_events d))" by simp
  then have "i \<in> set (map sv_event_id (pn_event_evidence s))" using assms(2) by simp
  then show ?thesis by auto
qed

lemma snapshot_evidence: "load_snapshot H st = Inr s \<Longrightarrow> recorded i st \<Longrightarrow> \<exists>e \<in> set (pn_event_evidence s). sv_event_id e = i"
  using recorded_evidence by (auto simp: load_snapshot_def recorded_def)

lemma appended_recorded:
  assumes "store_append_event H a st = (st', Inr n)" shows "recorded (ea_event_id a) st'"
proof -
  obtain en where en: "normalize_event a = Inr en"
    using assms by (auto simp: store_append_event_def with_args_def split: sum.splits)
  then have id: "en_event_id en = ea_event_id a" by (auto simp: normalize_event_def nonempty_text_def split: if_splits)
  obtain cur d1 where b: "append_event_body H en cur (ss_db st) = Inr (d1, n)" "ss_db st' = d1"
    using assms en
    by (auto simp: store_append_event_def with_args_def transact_def commit_def mutation_def split: sum.splits)
  obtain d2 where d2: "insert_event (en_event_id en) (en_event_type en) (en_text en) (en_payload en) (ss_db st) = Inr (d2, n)"
    "refresh_snapshot H (en_text en) d2 = Inr d1"
    using b(1) by (auto simp: append_event_body_def)
  from refresh_snapshot_Inr [OF d2(2)] have "db_events d1 = db_events d2" by auto
  then show ?thesis using insert_event_Inr [OF d2(1)] b(2) id by (simp add: recorded_def)
qed

section \<open>A returned result is recorded\<close>

lemma fenced_Inr:
  assumes "fenced_cycle C work s = (s', Inr y)"
  shows "\<exists>t t'. work t = (t', Inr y) \<and> ss_db (pv_store s') = ss_db (pv_store t')"
  using assms
  by (fastforce simp: fenced_cycle_def fenced_at_def pbind_def pclock_def work_on_def store_cycle_lease_transaction_def with_args_def
      transact_public_def commit_def fenced_def mutation_def split: option.splits prod.splits sum.splits)

lemma completion_recorded:
  assumes "record_completion C r s = (s', Inr ())" shows "recorded (cycle_event_id (cr_end r)) (pv_store s')"
proof -
  obtain t t' where w: "append_service_event C (cycle_event_id (cr_end r)) ''PAPER_CYCLE'' (cr_end r) (completion_payload r) t
      = (t', Inr ())" and db: "ss_db (pv_store s') = ss_db (pv_store t')"
    using fenced_Inr [OF assms [unfolded record_completion_def]] by blast
  from w obtain st' n where a: "store_append_event (cx_hash C) \<lparr> ea_event_id = cycle_event_id (cr_end r),
      ea_event_type = ''PAPER_CYCLE'', ea_occurred_at = TsDatetime (utc (cr_end r)), ea_payload = JObj (completion_payload r) \<rparr>
      (pv_store t) = (st', Inr n)" "pv_store t' = st'"
    by (auto simp: append_service_event_def pbind_def pcall_def pdone_def split: prod.splits sum.splits)
  show ?thesis using appended_recorded [OF a(1)] a(2) db by (simp add: recorded_def)
qed

text \<open>The results that end a cycle, and what such a result means for the store.\<close>

definition ends_cycle :: "cycle_result \<Rightarrow> bool" where
  "ends_cycle r \<longleftrightarrow> cr_status r = PROCESSED \<or> cr_status r = UNSAFE_DATA"

definition records :: "instant \<Rightarrow> cycle_result proc \<Rightarrow> bool" where
  "records t m \<longleftrightarrow> (\<forall>s s' r. m s = (s', Inr r) \<and> ends_cycle r \<longrightarrow> recorded (cycle_event_id t) (pv_store s') \<and> cr_end r = t)"

named_theorems records_intros

lemma records_pbind [records_intros]: "(\<And>x. records t (f x)) \<Longrightarrow> records t (pbind m f)"
  unfolding records_def by (meson pbind_Inr)

lemma records_bare [records_intros]: "records t (pdone (Inr (bare_result ALREADY_PROCESSED u)))"
    "records t (pdone (Inr (bare_result LEASE_HELD u)))" "records t (pdone (Inl e))"
  by (auto simp: records_def bare_result_def ends_cycle_def)

lemma records_if [records_intros]: "records t m \<Longrightarrow> records t n \<Longrightarrow> records t (if b then m else n)"
  by simp

lemma records_prod [records_intros]: "(\<And>x y. records t (f x y)) \<Longrightarrow> records t (case p of (x, y) \<Rightarrow> f x y)"
  by (cases p) auto

lemma records_completion: "cr_end r = t \<Longrightarrow> records t (pbind (record_completion C r) (\<lambda>_. pdone (Inr r)))"
  unfolding records_def by (auto dest!: pbind_Inr completion_recorded)

lemma records_lost [records_intros]: "records t (result_after_lost_lease C t)"
  by (auto simp: records_def result_after_lost_lease_def bare_result_def ends_cycle_def split: if_splits dest!: pbind_Inr)

lemma still_leased_bare:
  assumes "still_leased C t s = (s', Inr (Some r))" shows "\<not> ends_cycle r"
  using assms by (auto simp: still_leased_def result_after_lost_lease_def bare_result_def ends_cycle_def
      dest!: pbind_Inr split: if_splits)

lemma records_still [records_intros]:
  assumes "records t n"
  shows "records t (pbind (still_leased C t) (\<lambda>ended. case ended of Some r \<Rightarrow> pdone (Inr r) | None \<Rightarrow> n))"
  unfolding records_def
proof (intro allI impI, elim conjE)
  fix s s' r
  assume m: "pbind (still_leased C t) (\<lambda>ended. case ended of Some r \<Rightarrow> pdone (Inr r) | None \<Rightarrow> n) s = (s', Inr r)"
    and e: "ends_cycle r"
  from pbind_Inr [OF m] obtain s1 v where v: "still_leased C t s = (s1, Inr v)"
    "(case v of Some r \<Rightarrow> pdone (Inr r) | None \<Rightarrow> n) s1 = (s', Inr r)" by blast
  show "recorded (cycle_event_id t) (pv_store s') \<and> cr_end r = t"
  proof (cases v)
    case None
    then have "n s1 = (s', Inr r)" using v(2) by simp
    then show ?thesis using assms e unfolding records_def by blast
  next
    case (Some r1)
    then show ?thesis using v e still_leased_bare by fastforce
  qed
qed

lemma records_decide [records_intros]: "records t (decide_cycle C t u r f l)"
  unfolding decide_cycle_def Let_def by (intro records_pbind records_completion) simp

lemma records_unsafe [records_intros]: "records t (unsafe_cycle C t)"
  unfolding unsafe_cycle_def Let_def
  by (intro records_pbind records_if records_bare records_completion) (simp add: bare_result_def)

lemma records_option [records_intros]: "records t n \<Longrightarrow> (\<And>x. records t (f x)) \<Longrightarrow> records t (case v of None \<Rightarrow> n | Some x \<Rightarrow> f x)"
  by (cases v) auto

lemma records_trade [records_intros]: "records t (trade_cycle C t u r f)"
proof -
  have still: "records t (pbind (still_leased C t) (\<lambda>ended. case ended of
       Some result \<Rightarrow> pdone (Inr result)
     | None \<Rightarrow> pbind (execute_open C t u r f p) (\<lambda>opened. case opened of
           None \<Rightarrow> pdone (Inr (bare_result ALREADY_PROCESSED t))
         | Some filled \<Rightarrow> decide_cycle C t u r f filled)))" for p
    by (rule records_still) (intro records_pbind records_option records_bare records_decide)
  show ?thesis unfolding trade_cycle_def by (rule still | rule records_pbind)+
qed

lemma records_leased: "records t (leased_cycle C t u)"
proof -
  have still: "records t (pbind (still_leased C t) (\<lambda>ended. case ended of Some result \<Rightarrow> pdone (Inr result)
       | None \<Rightarrow> (case row_at enriched bar_at of
             None \<Rightarrow> unsafe_cycle C t
           | Some r \<Rightarrow> if safe_execution_row r then trade_cycle C t bar_at r enriched else unsafe_cycle C t)))" for enriched bar_at
    by (rule records_still) (intro records_option records_if records_unsafe records_trade)
  show ?thesis unfolding leased_cycle_def by (rule still | rule records_pbind | rule records_prod records_if records_bare)+
qed

lemma records_pcatch: "records t m \<Longrightarrow> records t h \<Longrightarrow> records t (pcatch c m h)"
  unfolding records_def pcatch_def by (auto split: prod.splits sum.splits if_splits)

text \<open>The release of the lease keeps the events.\<close>

lemma lease_only_events: "lease_only d d1 \<Longrightarrow> db_events d1 = db_events d"
  by (auto simp: lease_only_def set_lease_def)

lemma released_events:
  assumes "store_release_cycle_lease H owner token e st = (st', r)"
  shows "db_events (ss_db st') = db_events (ss_db st)"
proof (cases "ss_db st' = ss_db st")
  case False
  then obtain o1 t1 e1 s x where "release_body H o1 t1 e1 s (ss_db st) = Inr (ss_db st', x)"
    using assms by (auto simp: store_release_cycle_lease_def with_args_def transact_def commit_def mutation_def
        split: sum.splits prod.splits)
  then show ?thesis by (rule lease_only_events [OF release_lease_only])
qed simp

lemma release_keeps: "release_lease C s = (s', r) \<Longrightarrow> recorded i (pv_store s') \<longleftrightarrow> recorded i (pv_store s)"
  by (auto simp: release_lease_def pcall_def recorded_def dest!: released_events split: option.splits prod.splits)

lemma records_released: "records t m \<Longrightarrow> records t (pfinally m (release_lease C))"
  unfolding records_def pfinally_def by (fastforce split: prod.splits sum.splits simp: release_keeps)

lemma records_process:
  assumes "require_cycle_end v = Inr t" shows "records t (process_completed_candle C v)"
proof -
  have "records t (pbind (pdone (Inr t)) f) = records t (f t)" for f
    by (simp add: records_def pbind_def pdone_def)
  then show ?thesis unfolding process_completed_candle_def assms
    by simp (intro records_pbind records_prod records_if records_bare records_released records_pcatch
        records_leased records_lost)
qed

text \<open>A candle whose start is no datetime is never decided.\<close>

definition quiet :: "cycle_result proc \<Rightarrow> bool" where
  "quiet m \<longleftrightarrow> (\<forall>s s' r. m s = (s', Inr r) \<longrightarrow> \<not> ends_cycle r)"

lemma quiet_pbind: "(\<And>x. quiet (f x)) \<Longrightarrow> quiet (pbind m f)"
  unfolding quiet_def by (meson pbind_Inr)

lemma quiet_bare: "quiet (pdone (Inr (bare_result ALREADY_PROCESSED u)))"
    "quiet (pdone (Inr (bare_result LEASE_HELD u)))" "quiet (pbind (pdone (Inl e)) f)"
  by (auto simp: quiet_def bare_result_def ends_cycle_def pbind_def pdone_def)

lemma quiet_if: "quiet m \<Longrightarrow> quiet n \<Longrightarrow> quiet (if b then m else n)"
  by simp

lemma quiet_prod: "(\<And>x y. quiet (f x y)) \<Longrightarrow> quiet (case p of (x, y) \<Rightarrow> f x y)"
  by (cases p) auto

lemma quiet_lost: "quiet (result_after_lost_lease C t)"
  by (auto simp: quiet_def result_after_lost_lease_def bare_result_def ends_cycle_def split: if_splits dest!: pbind_Inr)

lemma quiet_pcatch: "quiet m \<Longrightarrow> quiet h \<Longrightarrow> quiet (pcatch c m h)"
  unfolding quiet_def pcatch_def by (auto split: prod.splits sum.splits if_splits)

lemma quiet_pfinally: "quiet m \<Longrightarrow> quiet (pfinally m f)"
  unfolding quiet_def pfinally_def by (auto split: prod.splits sum.splits)

lemma quiet_leased: "dt_add t (- FOUR_HOURS) = Inl e \<Longrightarrow> quiet (leased_cycle C t u)"
  unfolding leased_cycle_def by (simp only:) (intro quiet_pbind quiet_prod quiet_if quiet_bare)

lemma quiet_process:
  assumes "require_cycle_end v = Inr t" and "\<not> in_dt_range t" shows "quiet (process_completed_candle C v)"
proof -
  have one: "quiet (pbind (pdone (Inr t)) f) = quiet (f t)" for f
    by (simp add: quiet_def pbind_def pdone_def)
  show ?thesis
  proof (cases "dt_add t CYCLE_MATURITY_DELAY")
    case (Inl e)
    then show ?thesis unfolding process_completed_candle_def assms(1) one
      by (simp only:) (intro quiet_pbind quiet_bare)
  next
    case (Inr m)
    then have "dt_add t (- FOUR_HOURS) = Inl OverflowError" using assms(2)
      by (auto simp: dt_add_def in_dt_range_def CYCLE_MATURITY_DELAY_def minutes_def FOUR_HOURS_def hours_def split: if_splits)
    then show ?thesis unfolding process_completed_candle_def assms(1) one
      by (intro quiet_pbind quiet_prod quiet_if quiet_bare quiet_pfinally quiet_pcatch quiet_lost quiet_leased)
  qed
qed

section \<open>A recorded cycle does nothing\<close>

lemma iso_z_inj: "in_dt_range t \<Longrightarrow> in_dt_range u \<Longrightarrow> iso_z t = iso_z u \<Longrightarrow> t = u"
  by (metis option.inject parse_iso)

lemma completed_keeps:
  assumes "efold (completed_step H st evs a latest) es ends = Inr ends'" shows "set ends \<subseteq> set ends'"
  using assms
proof (induction es arbitrary: ends)
  case (Cons e es)
  then obtain e1 where "completed_step H st evs a latest e ends = Inr e1" "set e1 \<subseteq> set ends'" by auto
  then show ?case by (auto simp: completed_step_def split: if_splits)
qed simp

lemma cycle_id_prefix: "starts_with ''cycle:'' (cycle_event_id t)"
  by (simp add: starts_with_def cycle_event_id_def)

lemma completed_contains:
  assumes "efold (completed_step H st evs a latest) es ends = Inr ends'" and "e \<in> set es"
    and id: "sv_event_id e = cycle_event_id t" and t: "in_dt_range t" and l: "\<forall>u \<in> set ends'. u \<le> dt_max"
  shows "t \<in> set ends'"
  using assms(1,2)
proof (induction es arbitrary: ends)
  case (Cons x es)
  then obtain e1 where s: "completed_step H st evs a latest x ends = Inr e1"
    "efold (completed_step H st evs a latest) es e1 = Inr ends'" by auto
  show ?case
  proof (cases "x = e")
    case True
    then obtain u where u: "e1 = ends @ [u]" "cycle_event_id t = cycle_event_id u" "end_ok latest u"
      using s(1) id cycle_id_prefix [of t]
      by (auto simp: completed_step_def validate_cycle_event_def end_ok_def in_dt_range_def split: if_splits)
    have "u \<in> set ends'" using completed_keeps [OF s(2)] u(1) by auto
    moreover have "in_dt_range u" using u(3) l calculation
      by (auto simp: end_ok_def in_dt_range_def FOUR_HOURS_def hours_def)
    then have "t = u" using u(2) t iso_z_inj by (simp add: cycle_event_id_def)
    ultimately show ?thesis by simp
  next
    case False
    then show ?thesis using Cons s(2) by simp
  qed
qed simp

lemma recorded_completed:
  assumes "read_cycle_evidence C latest st = Inr (completed, attempted)" and "recorded (cycle_event_id t) st"
    and "in_dt_range t" "\<forall>u \<in> set completed. u \<le> dt_max"
  shows "t \<in> set completed"
proof -
  from assms(1) obtain snapshot a where s: "load_snapshot (cx_hash C) st = Inr snapshot"
    and c: "completed_cycle_ends (cx_hash C) st snapshot a latest = Inr completed"
    by (auto simp: read_cycle_evidence_def validated_snapshot_def cycle_evidence_def)
  from snapshot_evidence [OF s assms(2)] obtain e where e: "e \<in> set (pn_event_evidence snapshot)"
    "sv_event_id e = cycle_event_id t" by blast
  from c obtain ends where "efold (completed_step (cx_hash C) st (pn_event_evidence snapshot) a latest)
      (pn_event_evidence snapshot) [] = Inr ends" "completed = sort ends"
    by (auto simp: completed_cycle_ends_def)
  then show ?thesis using completed_contains e assms(3,4) by auto
qed




lemma ended_recorded:
  assumes m: "process_completed_candle C t s = (s1, Inr r)" and e: "ends_cycle r"
  shows "require_cycle_end t = Inr (cr_end r)" "recorded (cycle_event_id (cr_end r)) (pv_store s1)" "in_dt_range (cr_end r)"
proof -
  obtain u where u: "require_cycle_end t = Inr u"
    using m by (cases "require_cycle_end t") (auto simp: process_completed_candle_def pbind_def pdone_def)
  have R: "recorded (cycle_event_id u) (pv_store s1)" "cr_end r = u"
    using records_process [OF u] m e unfolding records_def by blast+
  then show "require_cycle_end t = Inr (cr_end r)" "recorded (cycle_event_id (cr_end r)) (pv_store s1)" using u by simp_all
  show "in_dt_range (cr_end r)" using quiet_process [OF u] m e R(2) unfolding quiet_def by blast
qed


text \<open>
  C10: the service makes progress. After a cycle that returned \<open>PROCESSED\<close> or \<open>UNSAFE_DATA\<close>, the end
  that the service asks for next, at whatever time and with whatever latest matured end, is later
  than the end of that cycle, by at least four hours.
\<close>

theorem next_cycle_advances:
  "case process_completed_candle C t s of
     (s1, Inl _) \<Rightarrow> True
   | (s1, Inr r) \<Rightarrow>
       if cr_status r = PROCESSED \<or> cr_status r = UNSAFE_DATA then
         (case oldest_required_end H (pv_store s1) v of Inl _ \<Rightarrow> True | Inr u \<Rightarrow> cr_end r + FOUR_HOURS \<le> u)
       else True"
proof -
  obtain s1 o1 where one: "process_completed_candle C t s = (s1, o1)" by force
  have step: "cr_end r + FOUR_HOURS \<le> u"
    if "o1 = Inr r" "ends_cycle r" and oldest: "oldest_required_end H (pv_store s1) v = Inr u" for r u
  proof -
    note E = ended_recorded [OF one [unfolded that(1)] that(2)]
    from oldest_parts [where C = "C\<lparr>cx_hash := H\<rparr>"] oldest obtain latest completed attempted
      where o2: "read_cycle_evidence (C\<lparr>cx_hash := H\<rparr>) latest (pv_store s1) = Inr (completed, attempted)"
        "sorted completed" "completed \<noteq> [] \<longrightarrow> u = last completed + FOUR_HOURS \<and> in_dt_range u" by fastforce
    have "x \<le> dt_max" if "x \<in> set completed" for x
    proof -
      have "u = last completed + FOUR_HOURS" "in_dt_range u" using o2(3) that by auto
      then show ?thesis using sorted_last [OF o2(2) that] by (auto simp: in_dt_range_def FOUR_HOURS_def hours_def)
    qed
    then have "cr_end r \<in> set completed" using recorded_completed [OF o2(1) E(2,3)] by blast
    then show ?thesis using sorted_last [OF o2(2)] o2(3) by fastforce
  qed
  show ?thesis
  proof (cases o1)
    case (Inr r)
    then show ?thesis using step [OF Inr] unfolding one Inr ends_cycle_def by (simp split: sum.split)
  qed (simp add: one)
qed

end
