(* ===== verification/Service_Safety.thy ===== *)
theory Service_Safety
  imports ServiceRun
begin

text \<open>
  What the health evidence of the store does to the decisions of a cycle: while it halts entries,
  or cannot be read, the risk decision of the candle is blocked, and the policy buys nothing and
  sells what is held.
\<close>

definition gate_halts :: "health_gate \<Rightarrow> bool" where
  "gate_halts g \<longleftrightarrow> (case hg_action g of None \<Rightarrow> True | Some a \<Rightarrow> ha_halt_entries a)"

lemma halted_overlay: "gate_halts g \<Longrightarrow> apply_health_action d (hg_action g) = blocked ''system_unhealthy''"
  by (auto simp: gate_halts_def apply_health_action_def apply_health_recovery_def split: option.splits)

text \<open>Whatever branch makes it, the decision of the candle carries the overlay of the gate.\<close>

definition overlays :: "health_gate \<Rightarrow> risk_decision proc \<Rightarrow> bool" where
  "overlays g m \<longleftrightarrow> (\<forall>s s' d. m s = (s', Inr d) \<longrightarrow> (\<exists>base. d = apply_health_action base (hg_action g)))"

lemma overlays_pbind: "(\<And>x. overlays g (f x)) \<Longrightarrow> overlays g (pbind m f)"
  unfolding overlays_def by (meson pbind_Inr)

lemma overlays_done: "overlays g (pdone (Inr (apply_health_action d (hg_action g))))" "overlays g (pdone (Inl e))"
  by (auto simp: overlays_def pdone_def)

lemma overlays_if: "overlays g m \<Longrightarrow> overlays g n \<Longrightarrow> overlays g (if b then m else n)"
  by simp

lemma overlays_repeated: "overlays g (repeated_decision C t c g)"
  unfolding repeated_decision_def Let_def by (intro overlays_pbind overlays_if overlays_done)

lemma overlays_new: "overlays g (new_decision C t r x a k g)"
  unfolding new_decision_def Let_def by (intro overlays_pbind overlays_if overlays_done)

lemma decision_overlaid:
  assumes "risk_decision_of C bar_at r x a s = (s', Inr d)"
  shows "\<exists>snapshot g base. load_snapshot (cx_hash C) (pv_store s) = Inr snapshot
    \<and> health_gate_from_snapshot snapshot = Inr g \<and> d = apply_health_action base (hg_action g)"
proof -
  obtain snapshot chain g where g: "load_snapshot (cx_hash C) (pv_store s) = Inr snapshot"
    "health_gate_from_snapshot snapshot = Inr g"
    and m: "(case rk_last_risk_at (rc_projection chain) of
       None \<Rightarrow> new_decision C bar_at r x a (rc_projection chain) g
     | Some t \<Rightarrow>
         if bar_at < t then pdone (Inl (PaperServiceError ''risk state timestamp is ahead of the current candle''))
         else if t = bar_at then repeated_decision C bar_at chain g
         else new_decision C bar_at r x a (rc_projection chain) g) s = (s', Inr d)"
    using assms by (auto simp: risk_decision_of_def pread_def dest!: pbind_Inr)
  have "overlays g (case rk_last_risk_at (rc_projection chain) of
       None \<Rightarrow> new_decision C bar_at r x a (rc_projection chain) g
     | Some t \<Rightarrow>
         if bar_at < t then pdone (Inl (PaperServiceError ''risk state timestamp is ahead of the current candle''))
         else if t = bar_at then repeated_decision C bar_at chain g
         else new_decision C bar_at r x a (rc_projection chain) g)"
    by (simp add: overlays_repeated overlays_new overlays_done split: option.split)
  then show ?thesis using g m unfolding overlays_def by blast
qed

lemma blocked_policy:
  "decide e (i\<lparr> di_risk := blocked ''system_unhealthy'' \<rparr>) = Inr (case di_position i of
     None \<Rightarrow> hold (blocked ''system_unhealthy'')
   | Some p \<Rightarrow> if positive (VFloat (pc_quantity p)) then sell (blocked ''system_unhealthy'') ''SYSTEM_EXIT'' p
       else hold (blocked ''system_unhealthy''))"
proof -
  have "(0::pyfloat) \<le> 0" by code_simp
  then show ?thesis
    by (simp add: decide_def decide_position_def decide_entry_def forced_exit_reason_def blocked_def Let_def split: option.split)
qed

text \<open>
  C11: an unhealthy system does not trade. While the last health event of the store halts entries, or
  a health event cannot be read, every risk decision that a cycle returns is the block of an
  unhealthy system, whatever the account and the candle are; and the policy under it holds without a
  position and sells the whole position with \<open>SYSTEM_EXIT\<close>: it never buys.
\<close>

theorem unhealthy_never_buys:
  "case risk_decision_of C bar_at r x a s of
     (s', Inl _) \<Rightarrow> True
   | (s', Inr d) \<Rightarrow> (\<exists>snapshot g. load_snapshot (cx_hash C) (pv_store s) = Inr snapshot
       \<and> health_gate_from_snapshot snapshot = Inr g
       \<and> (if gate_halts g then
            d = blocked ''system_unhealthy''
            \<and> (\<forall>e i. decide e (i\<lparr> di_risk := d \<rparr>) = Inr (case di_position i of
                 None \<Rightarrow> hold d
               | Some p \<Rightarrow> if positive (VFloat (pc_quantity p)) then sell d ''SYSTEM_EXIT'' p else hold d))
          else \<exists>base. d = apply_health_action base (hg_action g)))"
proof -
  obtain s' o1 where m: "risk_decision_of C bar_at r x a s = (s', o1)" by force
  show ?thesis
  proof (cases o1)
    case (Inr d)
    from decision_overlaid [OF m [unfolded Inr]] obtain snapshot g base where g:
      "load_snapshot (cx_hash C) (pv_store s) = Inr snapshot" "health_gate_from_snapshot snapshot = Inr g"
      "d = apply_health_action base (hg_action g)" by blast
    show ?thesis
    proof (cases "gate_halts g")
      case True
      then have "d = blocked ''system_unhealthy''" using halted_overlay g(3) by simp
      then show ?thesis using g(1,2) True by (auto simp: m Inr blocked_policy)
    qed (use g in \<open>auto simp: m Inr\<close>)
  qed (simp add: m)
qed

end
