(* ===== verification/Service_Restart.thy ===== *)
theory Service_Restart
  imports ServiceRun RiskState_Correct Health_Parse
begin

text \<open>
  A restart keeps the risk account: what the service stores of a risk state reads back as that
  state, for every state that an account can reach and for the health overlay of its decision.
\<close>

section \<open>Dates\<close>

lemma length_pad [simp]: "length (pad k n) = k"
  by (induction k n rule: pad.induct) simp_all

lemma digits_first: "digits 0 2 (c # s) \<noteq> None \<Longrightarrow> c \<noteq> CHR ''W'' \<and> c \<noteq> CHR ''-''"
  by (auto simp: numeral_2_eq_2 digit_value_def Let_def split: option.splits if_splits)

lemma date_round_trip:
  assumes "in_dt_range t" shows "date_from_iso (date_iso (date_of t)) = Some (date_of t)"
proof -
  define n where "n = date_of t + EPOCH_DAYS"
  obtain y m d where c: "civil_from_days n = (y, m, d)" by (metis prod_cases3)
  have n: "0 \<le> n" "n \<le> 3652058"
    using assms by (auto simp: n_def date_of_def in_dt_range_def dt_min_def dt_max_def EPOCH_DAYS_def)
  note C = civil_round_trip [OF n(1) c]
  have y: "y < 10000" by (rule days_year_range [OF n C(7)])
  have "month_lengths y ! nat (m - 1) \<le> 31"
    using C(2,3) by (auto simp: month_lengths_def nth_Cons split: nat.splits)
  then have d: "d < 100" using C(5) by simp
  have iso: "date_iso (date_of t) = pad 4 y @ CHR ''-'' # pad 2 m @ CHR ''-'' # pad 2 d"
    by (simp add: date_iso_def n_def [symmetric] c)
  have m: "digits 0 2 (pad 2 m @ s) = Some (m, s)" for s using C(2,3) by (intro digits_pad0) auto
  have dd: "digits 0 2 (pad 2 d) = Some (d, [])" using digits_pad0 [of d 2 "[]"] C(4) d by simp
  have yy: "digits 0 4 (pad 4 y @ s) = Some (y, s)" for s using C(6) y by (intro digits_pad0) auto
  have ne: "pad 2 m @ s \<noteq> []" "hd (pad 2 m @ s) \<noteq> CHR ''W''" for s
  proof -
    obtain a r where a: "pad 2 m @ s = a # r" using length_pad [of 2 m] by (cases "pad 2 m") auto
    then show "pad 2 m @ s \<noteq> []" "hd (pad 2 m @ s) \<noteq> CHR ''W''" using digits_first [of a r] m [of s] by auto
  qed
  have "day_number y m d = Some (date_of t)"
    using C by (simp add: day_number_def n_def)
  then show ?thesis using ne [of "CHR ''-'' # pad 2 d"]
    by (simp add: iso date_from_iso_def yy m dd dash_def Let_def)
qed

section \<open>The states that can be stored\<close>

definition amount_ok :: "pyfloat \<Rightarrow> bool" where
  "amount_ok x \<longleftrightarrow> isfinite x \<and> 0 \<le> x"

definition storable_time :: "instant option \<Rightarrow> bool" where
  "storable_time v \<longleftrightarrow> (case v of None \<Rightarrow> True | Some t \<Rightarrow> in_dt_range t)"

definition decision_storable :: "risk_decision \<Rightarrow> bool" where
  "decision_storable d \<longleftrightarrow> amount_ok (rd_risk_rate d) \<and> amount_ok (rd_exposure_cap d) \<and> storable_time (rd_halted_until d)
     \<and> [] \<notin> set (rd_reasons d)"

definition storable :: "risk_state \<Rightarrow> bool" where
  "storable s \<longleftrightarrow> amount_ok (rk_equity_peak s) \<and> amount_ok (rk_daily_baseline_equity s) \<and> amount_ok (rk_last_equity s)
     \<and> (case rk_daily_date s of None \<Rightarrow> True | Some n \<Rightarrow> \<exists>t. in_dt_range t \<and> n = date_of t)
     \<and> list_all (\<lambda>(t, x). in_dt_range t \<and> amount_ok x) (rk_equity_history s)
     \<and> increasing (map fst (rk_equity_history s))
     \<and> (rk_last_risk_at s = None \<or> rk_equity_history s = [] \<or> rk_last_risk_at s = Some (fst (last (rk_equity_history s))))
     \<and> list_all storable_time (rk_risk_started_at s # rk_last_risk_at s # halt_starts s)
     \<and> list_all (\<lambda>n. 0 \<le> n) [rk_consecutive_losses s, rk_processed_trade_count s, rk_profitable_trades s,
         rk_volatility_stable_bars s]
     \<and> decision_storable (rk_decision s) \<and> rk_initial_equity s = rk_initial_equity RiskState"

lemma strict_stored_iso [simp]: "in_dt_range t \<Longrightarrow> strict_stored_datetime (JStr (iso_z t)) = Inr t"
  by (simp add: strict_stored_datetime_def parse_iso)

lemma optional_stored [simp]: "storable_time v \<Longrightarrow> optional_stored_datetime (optional_datetime v) = Inr v"
  by (cases v) (simp_all add: optional_stored_datetime_def storable_time_def)

lemma finite_nonnegative_float [simp]: "amount_ok x \<Longrightarrow> finite_nonnegative (JFloat x) label = Inr x"
  by (auto simp: finite_nonnegative_def finite_from_def amount_ok_def le_iff_rat less_iff_rat)

lemma nonnegative_int_int [simp]: "0 \<le> n \<Longrightarrow> nonnegative_int (JInt n) label = Inr n"
  by (simp add: nonnegative_int_def)

lemma service_bool_bool [simp]: "service_bool (JBool b) label = Inr b"
  by (simp add: service_bool_def)

lemma stored_date_iso [simp]:
  "(case v of None \<Rightarrow> True | Some n \<Rightarrow> \<exists>t. in_dt_range t \<and> n = date_of t) \<Longrightarrow> stored_date (json_date v) = Inr v"
  by (cases v) (auto simp: stored_date_def json_date_def date_round_trip)

lemma stored_reasons_list [simp]: "[] \<notin> set rs \<Longrightarrow> stored_reasons (JList (map JStr rs)) = Inr rs"
  by (simp add: stored_reasons_def json_items_def)

lemma history_items:
  "list_all (\<lambda>(t, x). in_dt_range t \<and> amount_ok x) h \<Longrightarrow>
     emap history_item (map (\<lambda>(t, x). JObj [(''at_utc'', JStr (iso_z t)), (''equity'', JFloat x)]) h) = Inr h"
  by (induction h) (auto simp: history_item_def keys_are_def field_def)

lemma stored_history_list:
  "list_all (\<lambda>(t, x). in_dt_range t \<and> amount_ok x) h \<Longrightarrow> increasing (map fst h) \<Longrightarrow>
     stored_history (JList (map (\<lambda>(t, x). JObj [(''at_utc'', JStr (iso_z t)), (''equity'', JFloat x)]) h)) = Inr h"
  by (simp add: stored_history_def json_items_def history_items)

lemma payload_fields:
  "field (risk_state_payload s) ''consecutive_losses'' = JInt (rk_consecutive_losses s)"
  "field (risk_state_payload s) ''daily_baseline_equity'' = JFloat (rk_daily_baseline_equity s)"
  "field (risk_state_payload s) ''daily_date'' = json_date (rk_daily_date s)"
  "field (risk_state_payload s) ''daily_halt_started_at_utc'' = optional_datetime (rk_daily_halt_started_at s)"
  "field (risk_state_payload s) ''decision_exposure_cap'' = JFloat (rd_exposure_cap (rk_decision s))"
  "field (risk_state_payload s) ''decision_halted_until_utc'' = optional_datetime (rd_halted_until (rk_decision s))"
  "field (risk_state_payload s) ''decision_reasons'' = JList (map JStr (rd_reasons (rk_decision s)))"
  "field (risk_state_payload s) ''decision_risk_rate'' = JFloat (rd_risk_rate (rk_decision s))"
  "field (risk_state_payload s) ''equity_history'' =
     JList (map (\<lambda>(t, x). JObj [(''at_utc'', JStr (iso_z t)), (''equity'', JFloat x)]) (rk_equity_history s))"
  "field (risk_state_payload s) ''equity_peak'' = JFloat (rk_equity_peak s)"
  "field (risk_state_payload s) ''halt_entries'' = JBool (rd_risk_rate (rk_decision s) \<le> 0)"
  "field (risk_state_payload s) ''last_equity'' = JFloat (rk_last_equity s)"
  "field (risk_state_payload s) ''last_risk_at_utc'' = optional_datetime (rk_last_risk_at s)"
  "field (risk_state_payload s) ''processed_trade_count'' = JInt (rk_processed_trade_count s)"
  "field (risk_state_payload s) ''profitable_trades_since_streak_halt'' = JInt (rk_profitable_trades s)"
  "field (risk_state_payload s) ''recovery_started_at_utc'' = optional_datetime (rk_recovery_started_at s)"
  "field (risk_state_payload s) ''risk_started_at_utc'' = optional_datetime (rk_risk_started_at s)"
  "field (risk_state_payload s) ''streak_halt_started_at_utc'' = optional_datetime (rk_streak_halt_started_at s)"
  "field (risk_state_payload s) ''version'' = JInt RISK_STATE_VERSION"
  "field (risk_state_payload s) ''volatility_halted'' = JBool (rk_volatility_halted s)"
  "field (risk_state_payload s) ''volatility_stable_bars'' = JInt (rk_volatility_stable_bars s)"
  "field (risk_state_payload s) ''weekly_halt_started_at_utc'' = optional_datetime (rk_weekly_halt_started_at s)"
  by (simp_all add: field_def risk_state_payload_def)

lemma payload_keys: "keys_are (risk_state_payload s) RISK_KEYS"
  by (simp add: keys_are_def RISK_KEYS_def risk_state_payload_def)

lemma storable_reads:
  assumes "storable s" shows "risk_state_from_payload (risk_state_payload s) = Inr s"
proof -
  note S = assms [unfolded storable_def decision_storable_def halt_starts_def, simplified]
  have d: "stored_decision (risk_state_payload s) = Inr (rk_decision s)"
    using S by (simp add: stored_decision_def payload_fields)
  have f: "stored_fields (risk_state_payload s) (rk_daily_date s) (rk_equity_history s) (rk_decision s) = Inr s"
    using S by (simp add: stored_fields_def payload_fields)
  have "stored_risk_state (risk_state_payload s) = Inr s"
    using S unfolding stored_risk_state_def payload_fields
    by (auto simp: d f stored_history_list payload_fields)
  moreover have "risk_state_payload s \<noteq> []" by (simp add: risk_state_payload_def)
  ultimately show ?thesis
    by (simp add: risk_state_from_payload_def payload_keys payload_fields RISK_STATE_VERSION_def catch_def)
qed

section \<open>Every reachable account can be stored\<close>

lemma increasing_sorted: "sorted_wrt (\<lambda>x y. fst x < fst y) h \<Longrightarrow> increasing (map fst h)"
proof -
  have "sorted_wrt (<) ts \<Longrightarrow> increasing ts" for ts by (induction ts rule: increasing.induct) auto
  then show "sorted_wrt (\<lambda>x y. fst x < fst y) h \<Longrightarrow> increasing (map fst h)" by (simp add: sorted_wrt_map)
qed

text \<open>What the invariant of the account leaves open.\<close>

definition storable_rest :: "risk_state \<Rightarrow> bool" where
  "storable_rest s \<longleftrightarrow> amount_ok (rk_daily_baseline_equity s) \<and> storable_time (rk_risk_started_at s)
     \<and> (\<forall>x \<in> set (rk_equity_history s). in_dt_range (fst x)) \<and> storable_time (rd_halted_until (rk_decision s))
     \<and> [] \<notin> set (rd_reasons (rk_decision s)) \<and> rk_initial_equity s = rk_initial_equity RiskState"

lemma storable_intro:
  assumes inv: "risk_inv s" and rest: "storable_rest s" shows "storable s"
proof -
  have amount: "amount_ok (rd_risk_rate (rk_decision s))" "amount_ok (rd_exposure_cap (rk_decision s))"
  proof -
    have f: "isfinite BASE_RISK_RATE" "isfinite MAX_EXPOSURE" by code_simp+
    have b: "decision_bounded (rk_decision s)" using inv by (simp add: risk_inv_def)
    then show "amount_ok (rd_risk_rate (rk_decision s))" "amount_ok (rd_exposure_cap (rk_decision s))"
      using isfinite_le [OF f(1)] isfinite_le [OF f(2)] by (simp_all add: decision_bounded_def amount_ok_def)
  qed
  have equity: "amount_ok (rk_equity_peak s)" "amount_ok (rk_last_equity s)"
    using inv less_imp_le_float by (simp_all add: risk_inv_def amount_ok_def)
  have ints: "list_all (\<lambda>n. 0 \<le> n) [rk_consecutive_losses s, rk_processed_trade_count s, rk_profitable_trades s,
      rk_volatility_stable_bars s]" using inv by (simp add: risk_inv_def)
  have t: "time_inv s" using inv by (simp add: risk_inv_def)
  show ?thesis
  proof (cases "rk_last_risk_at s")
    case None
    then have "rk_equity_history s = []" "rk_daily_date s = None" "\<forall>x \<in> set (halt_starts s). x = None"
      using t by (auto simp: time_inv_def)
    then show ?thesis using rest amount equity ints None
      by (auto simp: storable_def storable_rest_def decision_storable_def list_all_iff storable_time_def)
  next
    case (Some l)
    then have H: "history_inv s l" "in_dt_range l" "rk_daily_date s = Some (date_of l)"
      "\<forall>t. Some t \<in> set (halt_starts s) \<longrightarrow> dt_min \<le> t \<and> t \<le> l"
      using t by (auto simp: time_inv_def)
    then have "\<forall>v \<in> set (halt_starts s). storable_time v"
      by (auto simp: storable_time_def in_dt_range_def split: option.splits)
    moreover have "list_all (\<lambda>(t, x). in_dt_range t \<and> amount_ok x) (rk_equity_history s)"
      using H(1) rest by (auto simp: list_all_iff history_inv_def storable_rest_def amount_ok_def)
    ultimately show ?thesis using rest amount equity ints Some H increasing_sorted [of "rk_equity_history s"]
      by (auto simp: storable_def storable_rest_def decision_storable_def list_all_iff history_inv_def storable_time_def)
  qed
qed

text \<open>The rules of the breakers give reasons that are texts and ends that are datetimes.\<close>

definition acc_storable :: "breaker_acc \<Rightarrow> bool" where
  "acc_storable a \<longleftrightarrow> [] \<notin> set (ba_reasons a) \<and> (\<forall>t. Some t \<in> set (ba_halts a) \<longrightarrow> in_dt_range t)"

lemma acc_add [simp]: "acc_storable a \<Longrightarrow> r \<noteq> [] \<Longrightarrow> storable_time v \<Longrightarrow> acc_storable (add_halt r v a)"
  by (auto simp: acc_storable_def add_halt_def storable_time_def)

lemma acc_reduce [simp]: "acc_storable a \<Longrightarrow> r \<noteq> [] \<Longrightarrow> acc_storable (reduce r p a)"
  by (auto simp: acc_storable_def reduce_def)

lemma expiry_time_ok: "expiry_of start n = Inr v \<Longrightarrow> storable_time v"
  by (auto simp: expiry_of_def storable_time_def split: option.splits)

lemma time_ok_Some [simp]: "storable_time (Some t) \<longleftrightarrow> in_dt_range t" "storable_time None"
  by (simp_all add: storable_time_def)

lemma acc_drawdown: "drawdown_rule now dd start = Inr a \<Longrightarrow> acc_storable a"
  by (auto simp: drawdown_rule_def Let_def acc_storable_def add_halt_def split: prod.splits option.splits if_splits)

lemma acc_daily: "daily_rule now loss start r a = Inr b \<Longrightarrow> acc_storable a \<Longrightarrow> acc_storable b"
  by (auto simp: daily_rule_def split: if_splits dest: expiry_time_ok)

lemma acc_weekly: "weekly_rule now loss start r a = Inr b \<Longrightarrow> acc_storable a \<Longrightarrow> acc_storable b"
  by (auto simp: weekly_rule_def split: if_splits dest: expiry_time_ok)

lemma acc_streak: "streak_rule now losses p start r a = Inr b \<Longrightarrow> acc_storable a \<Longrightarrow> acc_storable b"
  by (auto simp: streak_rule_def split: if_splits dest: expiry_time_ok)

lemma acc_volatility: "acc_storable a \<Longrightarrow> acc_storable (volatility_rule ratio h bars r a)"
  by (simp add: volatility_rule_def)

lemma acc_rules: "apply_rules f = Inr a \<Longrightarrow> acc_storable a"
  by (auto simp: apply_rules_def Let_def) (blast intro: acc_volatility acc_streak acc_weekly acc_daily acc_drawdown)

lemma decision_of_storable:
  assumes "acc_storable a"
  shows "storable_time (rd_halted_until (decision_of a))" "[] \<notin> set (rd_reasons (decision_of a))"
proof -
  have "in_dt_range (Max (set (map the (ba_halts a))))" if "ba_halts a \<noteq> []" "None \<notin> set (ba_halts a)"
  proof -
    have "Max (set (map the (ba_halts a))) \<in> set (map the (ba_halts a))" using that(1) by (intro Max_in) auto
    then obtain v where v: "v \<in> set (ba_halts a)" "Max (set (map the (ba_halts a))) = the v" by auto
    have "\<exists>t. v = Some t" using v(1) that(2) by (metis option.exhaust)
    then show ?thesis using assms v(1) unfolding v(2) by (auto simp: acc_storable_def)
  qed
  then show "storable_time (rd_halted_until (decision_of a))" by (simp add: decision_of_def)
  show "[] \<notin> set (rd_reasons (decision_of a))" using assms by (simp add: decision_of_def acc_storable_def)
qed

lemma evaluated_storable:
  assumes "evaluate_risk x = Inr d" shows "storable_time (rd_halted_until d)" "[] \<notin> set (rd_reasons d)"
  using assms
  by (auto simp: evaluate_risk_def blocked_def invalid_decision_def invalid_config_decision_def
      split: if_splits pyval.splits option.splits dest!: acc_rules dest: decision_of_storable)

lemma storable_rest_step:
  assumes inv: "risk_inv s" and rest: "storable_rest s" and adv: "advance_risk_state s x c = Inr s'"
  shows "storable_rest s'"
  using adv
proof (cases rule: advance_cases)
  case (1 st d ends)
  define bar where "bar = instant_of (ro_now x)"
  have st: "st_daily_baseline st = daily_baseline s bar" "st_started st = started_at s bar" "in_dt_range bar"
    "st_history st = recent_history s bar (ro_equity x) (bar - days 7)"
    using 1(2) by (auto simp: risk_step_of_Inr bar_def)
  have "amount_ok (daily_baseline s bar)"
    using inv rest by (auto simp: daily_baseline_def storable_rest_def risk_inv_def amount_ok_def Let_def)
  moreover have "in_dt_range (started_at s bar)"
    using rest st(3) by (auto simp: started_at_def storable_rest_def split: option.splits)
  moreover have "\<forall>y \<in> set (st_history st). in_dt_range (fst y)"
    using rest st(3) by (auto simp: st(4) recent_history_def storable_rest_def)
  ultimately show ?thesis using evaluated_storable [OF 1(4)] rest st(1,2)
    by (simp add: storable_rest_def 1(6))
qed

lemma storable_rest_initial: "storable_rest RiskState"
proof -
  have "amount_ok (flit 100 1)" unfolding amount_ok_def by code_simp
  then show ?thesis by (simp add: storable_rest_def RiskState_def)
qed

text \<open>The health overlay can be stored as well.\<close>

lemma half_bounded:
  assumes "0 \<le> x" "x \<le> b" "isfinite b" "isfinite (half b)" shows "amount_ok (half x)"
proof -
  have two: "isfinite (flit 2 1)" "0 < flit 2 1" by code_simp+
  have x: "isfinite x" using isfinite_le assms(1-3) by blast
  have "0 \<le> half x" "half x \<le> half b"
    using fdiv_nonneg [OF x two(1) assms(1) two(2)] fdiv_mono [OF x assms(3) two(1) assms(2) two(2)]
    by (simp_all add: half_def)
  then show ?thesis using isfinite_le [OF assms(4)] by (simp add: amount_ok_def)
qed

lemma apply_health_storable:
  assumes "decision_storable d" "decision_bounded d" shows "decision_storable (apply_health_action d a)"
proof -
  have f: "isfinite BASE_RISK_RATE" "isfinite (half BASE_RISK_RATE)" "isfinite MAX_EXPOSURE" "isfinite (half MAX_EXPOSURE)"
    by code_simp+
  have "amount_ok (half (rd_risk_rate d))" "amount_ok (half (rd_exposure_cap d))"
    using assms(2) half_bounded [OF _ _ f(1,2)] half_bounded [OF _ _ f(3,4)] by (simp_all add: decision_bounded_def)
  moreover have "(0::pyfloat) \<le> 0" by code_simp
  ultimately show ?thesis using assms(1)
    by (simp add: apply_health_action_def apply_health_recovery_def blocked_def decision_storable_def amount_ok_def
        split: option.split)
qed

text \<open>
  C17: a restart keeps the risk account. The state of an account after any accepted observations,
  and that state with the health overlay of its decision, read back from what the service stores
  of them exactly as they were.
\<close>

theorem risk_account_round_trip:
  assumes "advance_all c xs RiskState = Inr s"
  shows "risk_state_from_payload (risk_state_payload s) = Inr s
    \<and> (let t = s\<lparr> rk_decision := apply_health_action (rk_decision s) action \<rparr> in
       risk_state_from_payload (risk_state_payload t) = Inr t)"
proof -
  have "risk_inv s \<and> storable_rest s"
  proof (rule efold_invariant [where P = "\<lambda>s. risk_inv s \<and> storable_rest s"])
    show "efold (\<lambda>x st. advance_risk_state st x c) xs RiskState = Inr s" using assms by (simp add: advance_all_def)
  qed (use risk_inv_step storable_rest_step risk_inv_initial storable_rest_initial in blast)+
  then have s: "storable s" and b: "decision_bounded (rk_decision s)" using storable_intro by (auto simp: risk_inv_def)
  moreover have "storable (s\<lparr> rk_decision := apply_health_action (rk_decision s) action \<rparr>)"
    using s apply_health_storable [OF _ b] by (simp add: storable_def halt_starts_def)
  ultimately show ?thesis using storable_reads by (simp add: Let_def)
qed

theorem risk_account_round_trip_witness:
  "risk_state_from_payload (risk_state_payload sample_state) = Inr sample_state"
  using risk_account_round_trip [OF sample_state(1)] by blast

end
