(* ===== verification/PaperAlerts.thy ===== *)
theory PaperAlerts
  imports ServiceRun
begin

text \<open>
  \<open>PaperAlerts\<close>, \<open>src/autobit/alerts/notifier.py\<close>: the delivery of an alert about an event of the
  store. The attempt is recorded before the notifier is called, under an identity made of the
  source, and an attempt that is already there is not made again. The notifier is a parameter: what
  it answers may depend on the alerts that it was handed before. The boundary is what the caller
  puts around the two changes of the store, a fenced transaction or nothing.
\<close>

type_synonym notifier = "alert list \<Rightarrow> alert \<Rightarrow> bool res"

definition null_notifier :: notifier where
  "null_notifier sent a = Inr True"

text \<open>\<open>SafeNotifier\<close>: a failing adapter is an alert that was not delivered.\<close>

definition safe_notifier :: "notifier \<Rightarrow> notifier" where
  "safe_notifier adapter sent a = catch (\<lambda>_. True) (adapter sent a) (\<lambda>_. Inr False)"

definition send_alert :: "notifier \<Rightarrow> alert \<Rightarrow> bool proc" where
  "send_alert n a s = (s\<lparr>pv_sent := pv_sent s @ [a]\<rparr>, n (pv_sent s) a)"

definition ALERT_VERSION :: int where "ALERT_VERSION = 1"

definition DURABLE_SOURCE_TYPES :: "string list" where
  "DURABLE_SOURCE_TYPES = [''HEALTH_STATE'', ''PAPER_CYCLE'']"

definition alert_conflict :: exn where
  "alert_conflict = corrupt ''alert identity has conflicting evidence''"

definition require_exact :: "stored_event list \<Rightarrow> string \<Rightarrow> members \<Rightarrow> unit res" where
  "require_exact matches event_type payload = (case matches of
     [e] \<Rightarrow> ensure (sv_event_type e = event_type \<and> members_eq (freeze_members (sv_payload e)) payload) alert_conflict
   | _ \<Rightarrow> Inl (corrupt ''alert identity is duplicated''))"

definition monotonic_time :: "paper_snapshot \<Rightarrow> instant \<Rightarrow> instant" where
  "monotonic_time snapshot t = (if pn_event_evidence snapshot = [] then t
     else max t (sv_occurred_at_utc (last (pn_event_evidence snapshot))))"

definition require_durable_source :: "sha256 \<Rightarrow> string \<Rightarrow> string \<Rightarrow> members \<Rightarrow> store \<Rightarrow> unit res" where
  "require_durable_source H source_id source_type payload st =
     ebind (ensure (source_type \<in> set DURABLE_SOURCE_TYPES) (ValueError ''alert durable source type is not supported'')) (\<lambda>_.
     ebind (load_snapshot H st) (\<lambda>snapshot. case matching_events source_id snapshot of
       [e] \<Rightarrow> ensure (sv_event_type e = source_type \<and> members_eq (freeze_members (sv_payload e)) payload)
         (ValueError ''alert durable source does not match'')
     | _ \<Rightarrow> Inl (ValueError ''alert durable source is missing'')))"

text \<open>\<open>_append_exact_once\<close>; the result says whether the event is new.\<close>

definition append_exact_once :: "sha256 \<Rightarrow> string \<Rightarrow> string \<Rightarrow> instant \<Rightarrow> members \<Rightarrow> bool proc" where
  "append_exact_once H event_id event_type t payload =
     pbind (pread (load_snapshot H)) (\<lambda>snapshot.
     if matching_events event_id snapshot \<noteq> []
     then pdone (ebind (require_exact (matching_events event_id snapshot) event_type payload) (\<lambda>_. Inr False))
     else pcatch is_idempotency_conflict
       (pbind (pcall (store_append_event H \<lparr> ea_event_id = event_id, ea_event_type = event_type,
          ea_occurred_at = TsDatetime (utc (monotonic_time snapshot t)), ea_payload = JObj payload \<rparr>)) (\<lambda>_. pdone (Inr True)))
       (pread (\<lambda>st. ebind (load_snapshot H st) (\<lambda>now.
          ebind (require_exact (matching_events event_id now) event_type payload) (\<lambda>_. Inr False)))))"

definition claim_attempt :: "sha256 \<Rightarrow> string \<Rightarrow> members \<Rightarrow> instant \<Rightarrow> bool proc" where
  "claim_attempt H event_id payload t = append_exact_once H event_id ''ALERT_ATTEMPT'' t payload"

definition attempt_id :: "sha256 \<Rightarrow> string \<Rightarrow> string \<Rightarrow> string" where
  "attempt_id H source_id source_type = ''alert-attempt:'' @ alert_digest H source_id source_type"

definition failure_id :: "sha256 \<Rightarrow> string \<Rightarrow> string \<Rightarrow> string" where
  "failure_id H source_id source_type = ''alert-failure:'' @ alert_digest H source_id source_type"

definition attempt_marker :: "string \<Rightarrow> string \<Rightarrow> members" where
  "attempt_marker source_id source_type = [(''source_event_id'', JStr source_id),
     (''source_event_type'', JStr source_type), (''version'', JInt ALERT_VERSION)]"

definition failure_marker :: "string \<Rightarrow> string \<Rightarrow> members" where
  "failure_marker source_id source_type = (''failure_code'', JStr ''DELIVERY_FAILED'') # attempt_marker source_id source_type"

type_synonym boundary = "bool proc \<Rightarrow> bool proc"

text \<open>\<open>deliver_alert_once\<close>: the result is nothing when the attempt was already there.\<close>

definition deliver_alert_once ::
  "sha256 \<Rightarrow> boundary \<Rightarrow> notifier \<Rightarrow> string \<Rightarrow> string \<Rightarrow> members \<Rightarrow> pydatetime \<Rightarrow> bool option proc" where
  "deliver_alert_once H around n source_id source_type payload logical_at =
     pbind (pdone (ensure (source_id \<noteq> []) (ValueError ''source event id must be non-empty''))) (\<lambda>_.
     pbind (pdone (ensure (source_type \<noteq> []) (ValueError ''source event type must be non-empty''))) (\<lambda>_.
     pbind (pdone (ensure (is_aware logical_at) (ValueError ''alert logical time must be timezone-aware''))) (\<lambda>_.
     pbind (pdone (astimezone_utc logical_at)) (\<lambda>logical.
     pbind (around
       (pbind (pread (require_durable_source H source_id source_type payload)) (\<lambda>_.
        claim_attempt H (attempt_id H source_id source_type) (attempt_marker source_id source_type) logical))) (\<lambda>claimed.
     if \<not> claimed then pdone (Inr None)
     else
       pbind (send_alert n \<lparr> al_event_id = source_id, al_event_type = source_type, al_payload = payload \<rparr>) (\<lambda>delivered.
       if delivered then pdone (Inr (Some True))
       else
         pbind (pcatch (\<lambda>_. True)
           (around (append_exact_once H (failure_id H source_id source_type) ''ALERT_FAILURE'' logical
             (failure_marker source_id source_type)))
           (pdone (Inr False))) (\<lambda>_. pdone (Inr (Some False)))))))))"

end
