(* ===== verification/PaperSource.thy ===== *)
theory PaperSource
  imports PaperAlerts
begin

text \<open>
  \<open>PaperSource\<close>, \<open>src/autobit/cli.py\<close>: the candle source of the paper application. It loads the
  public candles, validates the frame against the exact interval that was asked for, and records
  the outcome as a health observation, under the lease that it is bound to, before the service sees
  the candles.

  The public loader is a parameter. It may take its time: it gets the number of clock readings so
  far, and other processes may change the store meanwhile. So is the sleeper.
\<close>

section \<open>Public frames\<close>

text \<open>
  The index of a frame as a time index: not one, without a zone, or times with their offsets, where
  a missing time is \<open>None\<close>. Times are those of \<open>datetime\<close>, in microseconds.
\<close>

datatype public_index = BadIndex exn | NoZone | Zoned "(instant \<times> timedelta) option list"

record public_table =
  tb_columns :: "string list"
  tb_index :: public_index
  tb_rows :: "row list"

datatype public_frame = Table public_table | NotTable

record app_env =
  ap_base :: service_env
  ap_load :: "instant \<Rightarrow> nat \<Rightarrow> store \<Rightarrow> store \<times> public_frame res"
  ap_history :: "(instant \<Rightarrow> instant \<Rightarrow> nat \<Rightarrow> store \<Rightarrow> store \<times> public_frame res) option"
  ap_notifier :: "notifier option"
  ap_sleep :: "pyfloat \<Rightarrow> nat \<Rightarrow> store \<Rightarrow> store"

abbreviation app_hash :: "app_env \<Rightarrow> sha256" where
  "app_hash A \<equiv> cx_hash (ap_base A)"

definition PAPER_HISTORY_BARS :: int where "PAPER_HISTORY_BARS = 601"

definition FRAME_COLUMNS :: "string list" where
  "FRAME_COLUMNS = [''open'', ''high'', ''low'', ''close'', ''volume'']"

definition time_index_error :: "string \<Rightarrow> exn" where
  "time_index_error what = CandleTimestampError (''completed candle timestamps '' @ what)"

fun utc_times :: "public_index \<Rightarrow> instant list res" where
  "utc_times (BadIndex e) = (if e = TypeError \<or> is_value_error e then Inl (time_index_error ''are invalid'') else Inl e)"
| "utc_times NoZone = Inl (time_index_error ''must use UTC'')"
| "utc_times (Zoned ts) = emap (\<lambda>t. case t of Some (x, offset) \<Rightarrow>
     if offset = 0 then Inr x else Inl (time_index_error ''must use UTC'') | None \<Rightarrow> Inl (time_index_error ''must use UTC'')) ts"

definition is_na :: "pyval \<Rightarrow> bool" where
  "is_na v = (v = VNone \<or> v = VFloat NaN)"

definition only_columns :: "row \<Rightarrow> row" where
  "only_columns r k = (if k \<in> set FRAME_COLUMNS then r k else None)"

text \<open>The checks of the canonical frame.\<close>

definition canonical_rows :: "instant list \<Rightarrow> instant \<Rightarrow> frame \<Rightarrow> frame res" where
  "canonical_rows expected latest canonical =
     ebind (ensure (canonical \<noteq> [] \<and> fst (last canonical) = latest)
       (CandleLatestError ''exact latest completed candle is missing'')) (\<lambda>_.
     ebind (ensure (map fst canonical = expected)
       (CandleLatestError ''600-bar warmup plus execution candle is incomplete'')) (\<lambda>_.
     ebind (ensure (list_all (\<lambda>p. list_all (\<lambda>k. snd p k \<noteq> None) FRAME_COLUMNS) canonical) KeyError) (\<lambda>_.
     ebind (ensure (list_all (\<lambda>p. list_all (\<lambda>k. \<not> is_na (row_get (snd p) k)) FRAME_COLUMNS) canonical)
       (CandleSchemaError ''paper candle history contains invalid values'')) (\<lambda>_.
     Inr (map (\<lambda>(t, r). (t, only_columns r)) canonical)))))"

definition validated_public_frame :: "service_env \<Rightarrow> public_frame \<Rightarrow> instant \<Rightarrow> instant \<Rightarrow> frame res" where
  "validated_public_frame C v start end_at = (case v of
     NotTable \<Rightarrow> Inl (CandleSchemaError ''completed candle source must return a pandas DataFrame'')
   | Table t \<Rightarrow>
       ebind (ensure (set FRAME_COLUMNS \<subseteq> set (tb_columns t))
         (CandleSchemaError ''completed candle source schema is invalid'')) (\<lambda>_.
       ebind (utc_times (tb_index t)) (\<lambda>times.
       ebind (ensure (sorted_wrt (<) times) (time_index_error ''must be unique and increasing'')) (\<lambda>_.
       ebind (ensure (list_all (\<lambda>x. x mod FOUR_HOURS = 0) times) (time_index_error ''must align to four hours'')) (\<lambda>_.
       ebind (ensure (list_all (\<lambda>x. x < end_at) times)
         (CandleLatestError ''completed candle source crossed its exclusive end'')) (\<lambda>_.
       ebind (dt_add end_at (- FOUR_HOURS)) (\<lambda>latest.
       ebind (ensure (times = four_hour_range start latest)
         (CandleLatestError ''paper candle history must contain the exact contiguous completed interval'')) (\<lambda>_.
       ebind (catch is_value_error (cx_canonical C (Candles (zip times (tb_rows t))) end_at)
         (\<lambda>_. Inl (CandleSchemaError ''completed candle values are invalid'')))
         (canonical_rows (four_hour_range start latest) latest)))))))))"

definition validated_paper_frame :: "service_env \<Rightarrow> public_frame \<Rightarrow> instant \<Rightarrow> frame res" where
  "validated_paper_frame C v end_at =
     ebind (dt_add end_at (- hours (4 * PAPER_HISTORY_BARS))) (\<lambda>start. validated_public_frame C v start end_at)"

section \<open>Reading\<close>

definition paper_end :: "pydatetime \<Rightarrow> instant res" where
  "paper_end v =
     ebind (ensure (is_aware v) (ValueError ''paper candle end must be timezone-aware UTC'')) (\<lambda>_.
     ebind (astimezone_utc v) (\<lambda>t.
     ebind (ensure (t mod FOUR_HOURS = 0) (ValueError ''paper candle end must align to four hours'')) (\<lambda>_. Inr t)))"

definition app_now :: "app_env \<Rightarrow> instant proc" where
  "app_now A s = (s\<lparr>pv_ticks := Suc (pv_ticks s)\<rparr>,
     let v = cx_clock (ap_base A) (pv_ticks s) in
     if is_aware v then astimezone_utc v else Inl (ValueError ''paper clock must return an aware datetime''))"

definition app_sleep :: "app_env \<Rightarrow> pyfloat \<Rightarrow> unit proc" where
  "app_sleep A d s = (s\<lparr>pv_slept := pv_slept s @ [d], pv_store := ap_sleep A d (pv_ticks s) (pv_store s)\<rparr>, Inr ())"

definition public_call :: "(nat \<Rightarrow> store \<Rightarrow> store \<times> 'a res) \<Rightarrow> 'a proc" where
  "public_call f s = pcall (f (pv_ticks s)) s"

text \<open>The outcome of a call, an exception included.\<close>

definition outcome_of :: "'a proc \<Rightarrow> 'a res proc" where
  "outcome_of m s = (case m s of (s1, r) \<Rightarrow> (s1, Inr r))"

text \<open>\<open>_format_utc\<close>: whole seconds.\<close>

definition format_utc :: "instant \<Rightarrow> string" where
  "format_utc t = iso_z (t - t mod 1000000)"

definition monotonic_event_time :: "sha256 \<Rightarrow> instant \<Rightarrow> store \<Rightarrow> instant res" where
  "monotonic_event_time H t st = ebind (load_snapshot H st) (\<lambda>snapshot. Inr (monotonic_time snapshot t))"

definition find_event :: "sha256 \<Rightarrow> string \<Rightarrow> store \<Rightarrow> stored_event option res" where
  "find_event H event_id st =
     ebind (load_snapshot H st) (\<lambda>snapshot. case matching_events event_id snapshot of
       [] \<Rightarrow> Inr None
     | [e] \<Rightarrow> Inr (Some e)
     | _ \<Rightarrow> Inl (StoreError ''event identity is duplicated''))"

definition event_by_id :: "sha256 \<Rightarrow> string \<Rightarrow> store \<Rightarrow> stored_event res" where
  "event_by_id H event_id st =
     ebind (find_event H event_id st) (\<lambda>found. case found of
       None \<Rightarrow> Inl (StoreError ''required durable event is missing'') | Some e \<Rightarrow> Inr e)"

section \<open>Observations\<close>

text \<open>One observation of a monitor that lives for this call.\<close>

definition recording :: "(monitor \<Rightarrow> monitor \<times> health_action res) \<Rightarrow> monitor \<Rightarrow> monitor res" where
  "recording f m = (case f m of (m1, Inr _) \<Rightarrow> Inr m1 | (_, Inl e) \<Rightarrow> Inl e)"

definition schema_fault :: "exn \<Rightarrow> bool" where
  "schema_fault e \<longleftrightarrow> e = TypeError \<or> is_value_error e"

text \<open>What a failed load is recorded as.\<close>

definition failure_outcome :: "exn \<Rightarrow> string" where
  "failure_outcome e = (case e of CandleTimestampError _ \<Rightarrow> ''timestamp'' | CandleLatestError _ \<Rightarrow> ''candle''
     | _ \<Rightarrow> if schema_fault e then ''schema'' else ''failure'')"

definition record_failure :: "exn \<Rightarrow> instant \<Rightarrow> instant \<Rightarrow> monitor \<Rightarrow> monitor res" where
  "record_failure e end_at observed = recording (case e of
     CandleTimestampError _ \<Rightarrow> record_timestamp_check (VBool False) (utc observed)
   | CandleLatestError _ \<Rightarrow> record_candle_check (utc end_at) None (utc observed) (VBool True)
   | _ \<Rightarrow> if schema_fault e then record_schema_check (VBool False) (utc observed) else record_api_failure (utc observed))"

text \<open>A good load clears what was broken before it, and counts as a success.\<close>

definition record_success :: "instant \<Rightarrow> instant \<Rightarrow> monitor \<Rightarrow> monitor res" where
  "record_success end_at observed m =
     (let s = hm_snapshot m in
      ebind (if hs_schema_valid s then Inr m else recording (record_schema_check (VBool True) (utc observed)) m) (\<lambda>m1.
      ebind (if hs_timestamps_monotonic s then Inr m1
        else recording (record_timestamp_check (VBool True) (utc observed)) m1) (\<lambda>m2.
      ebind (if hs_latest_candle_valid s then Inr m2
        else recording (record_candle_check (utc end_at) (Some (utc end_at)) (utc observed) (VBool True)) m2) (\<lambda>m3.
      recording (record_api_success (utc observed)) m3))))"

definition persist_monitor :: "sha256 \<Rightarrow> string \<Rightarrow> instant \<Rightarrow> monitor \<Rightarrow> unit proc" where
  "persist_monitor H event_id t m s = (case persist H event_id (utc t) m (pv_store s) of
     (st, _, r) \<Rightarrow> (s\<lparr>pv_store := st\<rparr>, ebind r (\<lambda>_. Inr ())))"

section \<open>The bound lease\<close>

definition unbound_lease :: exn where
  "unbound_lease = CycleLeaseLostError ''observed candle source has no bound lease epoch''"

definition renew_bound_lease :: "app_env \<Rightarrow> unit proc" where
  "renew_bound_lease A s = (let C = ap_base A in case pv_bound s of
     None \<Rightarrow> (s, Inl unbound_lease)
   | Some e \<Rightarrow>
       pbind (app_now A) (\<lambda>now.
       pbind (pdone (safe_add now (cx_ttl C) ''lease expiry is outside datetime range'')) (\<lambda>expiry.
       pbind (pcall (store_renew_cycle_lease (cx_hash C) \<lparr> la_owner = cx_owner C, la_token = cx_token C,
         la_now = TsDatetime (utc now), la_expires = TsDatetime (utc expiry) \<rparr> (VInt e))) (\<lambda>renewed.
       pdone (if renewed then Inr ()
         else Inl (CycleLeaseLostError ''paper cycle lease was lost during public candle work''))))) s)"

definition bound_transaction :: "app_env \<Rightarrow> 'a proc \<Rightarrow> 'a proc" where
  "bound_transaction A work s = (case pv_bound s of
     None \<Rightarrow> (s, Inl unbound_lease)
   | Some e \<Rightarrow> fenced_at (ap_base A) (app_now A) e work s)"

definition public_event_id :: "instant \<Rightarrow> instant \<Rightarrow> string \<Rightarrow> string" where
  "public_event_id end_at observed outcome =
     ''health:public:'' @ format_utc end_at @ '':'' @ format_utc observed @ '':'' @ outcome"

definition persist_observation :: "app_env \<Rightarrow> monitor \<Rightarrow> instant \<Rightarrow> instant \<Rightarrow> string \<Rightarrow> stored_event proc" where
  "persist_observation A m end_at observed outcome =
     (let H = app_hash A; event_id = public_event_id end_at observed outcome in
      pbind (renew_bound_lease A) (\<lambda>_.
      pbind (bound_transaction A (
        pbind (pdone (dt_add end_at (- FOUR_HOURS))) (\<lambda>t.
        pbind (pread (monotonic_event_time H t)) (\<lambda>logical.
        persist_monitor H event_id logical m)))) (\<lambda>_.
      pread (event_by_id H event_id))))"

text \<open>\<open>_notify\<close>: whatever the delivery raises is dropped.\<close>

definition notify_event :: "app_env \<Rightarrow> boundary \<Rightarrow> stored_event \<Rightarrow> unit proc" where
  "notify_event A around e = (case ap_notifier A of
     None \<Rightarrow> pdone (Inr ())
   | Some n \<Rightarrow> pcatch (\<lambda>_. True)
       (pbind (deliver_alert_once (app_hash A) around n (sv_event_id e) (sv_event_type e)
         (freeze_members (sv_payload e)) (utc (sv_occurred_at_utc e))) (\<lambda>_. pdone (Inr ())))
       (pdone (Inr ())))"

definition observe_outcome :: "app_env \<Rightarrow> monitor \<Rightarrow> instant \<Rightarrow> instant \<Rightarrow> string \<Rightarrow> unit proc" where
  "observe_outcome A m end_at observed outcome =
     pbind (persist_observation A m end_at observed outcome) (\<lambda>e. notify_event A (bound_transaction A) e)"

section \<open>Loading\<close>

definition prepare_candles :: "app_env \<Rightarrow> pydatetime \<Rightarrow> loaded proc" where
  "prepare_candles A v =
     pbind (pdone (paper_end v)) (\<lambda>end_at.
     pbind (app_now A) (\<lambda>observed.
     pbind (pread (from_store (app_hash A))) (\<lambda>m.
     pbind (outcome_of (pbind (public_call (ap_load A end_at)) (\<lambda>raw.
       pdone (validated_paper_frame (ap_base A) raw end_at)))) (\<lambda>r. case r of
       Inl e \<Rightarrow>
         pbind (pdone (record_failure e end_at observed m)) (\<lambda>m1.
         pbind (observe_outcome A m1 end_at observed (failure_outcome e)) (\<lambda>_. pdone (Inl e)))
     | Inr f \<Rightarrow>
         pbind (pdone (record_success end_at observed m)) (\<lambda>m1.
         pbind (observe_outcome A m1 end_at observed ''success'') (\<lambda>_ s.
         (s\<lparr>pv_prepared := (end_at, Candles f) # filter (\<lambda>p. fst p \<noteq> end_at) (pv_prepared s)\<rparr>, Inr (Candles f))))))))"

definition drop_prepared :: "instant \<Rightarrow> unit proc" where
  "drop_prepared t s = (s\<lparr>pv_prepared := filter (\<lambda>p. fst p \<noteq> t) (pv_prepared s)\<rparr>, Inr ())"

definition observed_load :: "app_env \<Rightarrow> instant \<Rightarrow> loaded proc" where
  "observed_load A t =
     pbind (pdone (paper_end (utc t))) (\<lambda>end_at s.
       (case map_of (pv_prepared s) end_at of
          Some f \<Rightarrow> pbind (drop_prepared end_at) (\<lambda>_. pdone (Inr f)) s
        | None \<Rightarrow>
            pbind (prepare_candles A (utc end_at)) (\<lambda>f.
            pbind (drop_prepared end_at) (\<lambda>_. pdone (Inr f))) s))"

definition observed_history :: "app_env \<Rightarrow> instant \<Rightarrow> instant \<Rightarrow> loaded proc" where
  "observed_history A start end_at =
     pbind (app_now A) (\<lambda>observed.
     pbind (pread (from_store (app_hash A))) (\<lambda>m.
     pbind (outcome_of (case ap_history A of
         None \<Rightarrow> pdone (Inl (OtherError ''AttributeError''))
       | Some loader \<Rightarrow> pbind (public_call (loader start end_at)) (\<lambda>raw.
           pdone (validated_public_frame (ap_base A) raw start end_at)))) (\<lambda>r. case r of
       Inr f \<Rightarrow> pdone (Inr (Candles f))
     | Inl e \<Rightarrow>
         pbind (pdone (recording (if schema_fault e then record_schema_check (VBool False) (utc observed)
           else record_api_failure (utc observed)) m)) (\<lambda>m1.
         pbind (observe_outcome A m1 end_at observed ''position-history-failure'') (\<lambda>_. pdone (Inl e))))))"

end
