(* ===== verification/PaperApp.thy ===== *)
theory PaperApp
  imports PaperSource Scheduler
begin

text \<open>
  \<open>PaperApp\<close>, \<open>src/autobit/cli.py\<close>: \<open>_PaperApplication\<close>, which runs the paper service under a new
  \<open>PaperScheduler\<close> for each call, checks a halted account again, reconciles the health evidence
  after a cycle and delivers its alert, and the loop of \<open>paper-run\<close> around it. The scheduler may
  sleep more than once until its target; the number of its sleeps is bounded by the fuel, and a
  call that is still waiting when the fuel is spent is \<open>None\<close>.
\<close>

text \<open>\<open>except Exception as error: h\<close>.\<close>

definition phandle :: "'a proc \<Rightarrow> (exn \<Rightarrow> 'a proc) \<Rightarrow> 'a proc" where
  "phandle m h s = (case m s of (s1, Inl e) \<Rightarrow> h e s1 | r \<Rightarrow> r)"

text \<open>The environment of the service: its candle source is the observed one.\<close>

definition app_service :: "app_env \<Rightarrow> service_env" where
  "app_service A = (ap_base A)\<lparr>cx_load := observed_load A, cx_history := Some (observed_history A)\<rparr>"

definition set_delayed :: "bool \<Rightarrow> unit proc" where
  "set_delayed b s = (s\<lparr>pv_delayed := b\<rparr>, Inr ())"

section \<open>Retries\<close>

definition app_retry_delay :: "app_env \<Rightarrow> store \<Rightarrow> pyfloat res" where
  "app_retry_delay A st =
     ebind (from_store (app_hash A) st) (\<lambda>m. float_of_int (max 1 (ha_retry_delay_seconds (current_action m))))"

definition sleep_failsafe_retry :: "app_env \<Rightarrow> unit proc" where
  "sleep_failsafe_retry A =
     pbind (pread (\<lambda>st. Inr (case app_retry_delay A st of Inl _ \<Rightarrow> flit 300 1 | Inr d \<Rightarrow> d))) (\<lambda>d.
     pbind (app_sleep A d) (\<lambda>_. set_delayed True))"

definition preflight :: "app_env \<Rightarrow> unit proc" where
  "preflight A =
     pbind (app_now A) (\<lambda>now.
     pbind (pdone (latest_completed_end now)) (\<lambda>latest.
     pread (\<lambda>st. ebind (oldest_required_end (app_hash A) st (utc latest)) (\<lambda>_. Inr ()))))"

section \<open>The scheduler\<close>

text \<open>A new scheduler has no cursor, the default delay and the delays of the application.\<close>

definition scheduler_delay :: "app_env \<Rightarrow> store \<Rightarrow> pyfloat res" where
  "scheduler_delay A st = current_retry_delay
     \<lparr> ps_retry_delay_seconds = DEFAULT_RETRY_DELAY_SECONDS, ps_next_end = None \<rparr>
     \<lparr> se_clock = [], se_resolver = None, se_service = (\<lambda>_. Inr Finished),
       se_provider = Some (ebind (app_retry_delay A st) (\<lambda>d. Inr (VFloat d))) \<rparr>"

definition scheduler_retry :: "app_env \<Rightarrow> unit proc" where
  "scheduler_retry A =
     pbind (pread (\<lambda>st. Inr (case scheduler_delay A st of Inl _ \<Rightarrow> MAX_DYNAMIC_RETRY_DELAY_SECONDS | Inr d \<Rightarrow> d)))
       (app_sleep A)"

definition scheduler_now :: "app_env \<Rightarrow> instant proc" where
  "scheduler_now A s = (s\<lparr>pv_ticks := Suc (pv_ticks s)\<rparr>, sched_as_utc (cx_clock (ap_base A) (pv_ticks s)))"

text \<open>The end to process, its target and the time of the wake.\<close>

definition scheduler_start :: "app_env \<Rightarrow> (instant \<times> instant \<times> instant) proc" where
  "scheduler_start A =
     pbind (scheduler_now A) (\<lambda>wake.
     pbind (pdone (latest_completed_end wake)) (\<lambda>latest.
     pbind (pread (\<lambda>st. oldest_required_end (app_hash A) st (utc latest))) (\<lambda>required.
     pbind (pdone (resolved_end (utc required))) (\<lambda>e.
     pbind (pdone (safe_add e MATURITY_DELAY ''scheduler target is outside datetime range'')) (\<lambda>target.
     pdone (Inr (e, target, wake)))))))"

fun wait_until :: "nat \<Rightarrow> app_env \<Rightarrow> instant \<Rightarrow> instant \<Rightarrow> service \<Rightarrow> (service \<times> instant res) option" where
  "wait_until fuel A target wake s =
     (if wake < target then (case fuel of 0 \<Rightarrow> None
        | Suc n \<Rightarrow> (case pbind (app_sleep A (total_seconds (target - wake))) (\<lambda>_. scheduler_now A) s of
            (s1, Inl e) \<Rightarrow> Some (s1, Inl e)
          | (s1, Inr w) \<Rightarrow> wait_until n A target w s1))
      else Some (s, Inr wake))"

declare wait_until.simps [simp del]

definition scheduler_process :: "app_env \<Rightarrow> instant \<Rightarrow> instant \<Rightarrow> cycle_result proc" where
  "scheduler_process A e wake =
     pbind (pdone (latest_completed_end wake)) (\<lambda>latest.
     pbind (pdone (ensure (\<not> latest < e) (RuntimeError ''scheduler target did not mature a completed candle''))) (\<lambda>_.
     pbind (pdone (safe_add e Scheduler.FOUR_HOURS ''scheduler cursor is outside datetime range'')) (\<lambda>_.
     pbind (process_completed_candle (app_service A) (utc e)) (\<lambda>r.
     if cr_status r = LEASE_HELD then pbind (scheduler_retry A) (\<lambda>_. pdone (Inr r)) else pdone (Inr r)))))"

definition scheduler_failed :: "app_env \<Rightarrow> exn \<Rightarrow> cycle_result proc" where
  "scheduler_failed A e = pbind (scheduler_retry A) (\<lambda>_. pdone (Inl e))"

definition scheduled_run :: "nat \<Rightarrow> app_env \<Rightarrow> service \<Rightarrow> (service \<times> cycle_result res) option" where
  "scheduled_run fuel A s = (case scheduler_start A s of
     (s1, Inl x) \<Rightarrow> Some (scheduler_failed A x s1)
   | (s1, Inr (e, target, wake)) \<Rightarrow> (case wait_until fuel A target wake s1 of
       None \<Rightarrow> None
     | Some (s2, Inl x) \<Rightarrow> Some (scheduler_failed A x s2)
     | Some (s2, Inr w) \<Rightarrow> Some (phandle (scheduler_process A e w) (scheduler_failed A) s2)))"

section \<open>Health evidence after a cycle\<close>

definition health_events :: "paper_snapshot \<Rightarrow> stored_event list" where
  "health_events snapshot = filter (\<lambda>e. sv_event_type e = ''HEALTH_STATE'') (pn_event_evidence snapshot)"

definition reconcile_event_id :: "sha256 \<Rightarrow> instant \<Rightarrow> stored_event \<Rightarrow> string" where
  "reconcile_event_id H end_at e = ''health:reconcile:'' @ format_utc end_at @ '':'' @ show_int (sv_sequence e)
     @ '':'' @ sha_text H (sv_event_id e)"

text \<open>The fills of the cycle against their reference prices; an order without a fill is unresolved.\<close>

fun check_fills :: "cost_config \<Rightarrow> instant \<Rightarrow> (string \<times> paper_fill) list \<Rightarrow> string list \<Rightarrow> monitor \<Rightarrow> monitor res" where
  "check_fills costs observed fills [] m = Inr m"
| "check_fills costs observed fills (i # ids) m = (case map_of fills i of
     None \<Rightarrow> recording (set_unresolved_orders (VInt 1) (Some (utc observed))) m
   | Some f \<Rightarrow>
       (let multiplier = (if pf_side f = ''BUY'' then 1 + slippage_rate costs else 1 - slippage_rate costs) in
        ebind (recording (record_fill_check (HFloat (pf_reference_price f * multiplier)) (HFloat (pf_fill_price f))
          (Some (utc observed))) m) (check_fills costs observed fills ids)))"

definition reconciled_monitor ::
  "cost_config \<Rightarrow> paper_reconciliation \<Rightarrow> string list \<Rightarrow> instant \<Rightarrow> monitor \<Rightarrow> monitor res" where
  "reconciled_monitor costs a filled observed m =
     ebind (if hs_unresolved_orders (hm_snapshot m) \<noteq> 0
       then recording (set_unresolved_orders (VInt 0) (Some (utc observed))) m else Inr m) (\<lambda>m1.
     ebind (if \<not> hs_ledger_matches (hm_snapshot m1)
       then recording (record_ledger_check (HFloat (pr_cash a)) (HFloat (pr_cash a)) (HFloat (pr_btc_quantity a))
         (HFloat (pr_btc_quantity a)) (Some (utc observed))) m1 else Inr m1) (\<lambda>m2.
     check_fills costs observed (rev (map (\<lambda>f. (pf_order_id f, f)) (pr_fills a))) filled m2))"

definition flat_recovery_eligible :: "paper_reconciliation \<Rightarrow> paper_snapshot \<Rightarrow> health_snapshot \<Rightarrow> bool" where
  "flat_recovery_eligible a durable h \<longleftrightarrow> feq (pr_btc_quantity a) 0 \<and> pr_active_orders a = []
     \<and> pn_pending_orders durable = [] \<and> hs_unresolved_orders h = 0 \<and> hs_ledger_matches h
     \<and> hs_timestamps_monotonic h \<and> hs_schema_valid h \<and> hs_latest_candle_valid h"

definition flat_recovery_check ::
  "string \<Rightarrow> paper_reconciliation \<Rightarrow> instant \<Rightarrow> monitor \<Rightarrow> paper_snapshot \<Rightarrow> (monitor \<times> string) res" where
  "flat_recovery_check event_id a observed m durable =
     ebind (recording (record_flat_fill_recovery_check
       (VBool (flat_recovery_eligible a durable (hm_snapshot m))) (utc observed)) m) (\<lambda>m1.
     ebind (persistence_event_id event_id m1) (\<lambda>i. Inr (m1, i)))"

definition persist_fenced :: "app_env \<Rightarrow> string \<Rightarrow> instant \<Rightarrow> monitor \<Rightarrow> unit proc" where
  "persist_fenced A event_id end_at m = fenced_cycle (app_service A) (
     pbind (pread (monotonic_event_time (app_hash A) end_at)) (\<lambda>t. persist_monitor (app_hash A) event_id t m))"

definition record_reconciliation :: "app_env \<Rightarrow> instant \<Rightarrow> string list \<Rightarrow> bool \<Rightarrow> unit proc" where
  "record_reconciliation A end_at filled allow_flat =
     (let H = app_hash A in
      pbind (pread (load_snapshot H)) (\<lambda>snapshot. case rev (health_events snapshot) of
        [] \<Rightarrow> pdone (Inl (StoreError ''reconciliation requires durable health evidence''))
      | source # _ \<Rightarrow>
          (let event_id = reconcile_event_id H end_at source in
           pbind (pread (find_event H event_id)) (\<lambda>found.
           if found \<noteq> None then pdone (Inr ())
           else
             pbind (pread (from_store H)) (\<lambda>m.
             pbind (pread (reconcile H)) (\<lambda>a.
             pbind (app_now A) (\<lambda>observed.
             pbind (pdone (reconciled_monitor (cx_costs (ap_base A)) a filled observed m)) (\<lambda>m1.
             pbind (if allow_flat \<and> \<not> hs_fill_within_limit (hm_snapshot m1)
               then pbind (pread (load_snapshot H)) (\<lambda>durable. pdone (flat_recovery_check event_id a observed m1 durable))
               else pdone (Inr (m1, event_id))) (\<lambda>(m2, i).
             persist_fenced A i end_at m2)))))))))"

definition promote_after_reduced_cycle :: "app_env \<Rightarrow> instant \<Rightarrow> unit proc" where
  "promote_after_reduced_cycle A end_at =
     (let H = app_hash A; event_id = ''health:recovery:'' @ format_utc end_at in
      pbind (pread (from_store H)) (\<lambda>m.
      if ha_stage (current_action m) \<noteq> REDUCED then pdone (Inr ())
      else
        pbind (pread (find_event H event_id)) (\<lambda>found.
        if found \<noteq> None then pdone (Inr ())
        else
          pbind (app_now A) (\<lambda>now.
          pbind (pdone (recording (record_recovery_cycle_success (utc now)) m)) (\<lambda>m1.
          persist_fenced A event_id end_at m1)))))"

definition notify_cycle :: "app_env \<Rightarrow> instant \<Rightarrow> unit proc" where
  "notify_cycle A end_at =
     (if ap_notifier A = None then pdone (Inr ())
      else pbind (pread (event_by_id (app_hash A) (''cycle:'' @ format_utc end_at)))
        (notify_event A (fenced_cycle (app_service A))))"

section \<open>One run\<close>

definition holds_cycle :: "app_env \<Rightarrow> instant \<Rightarrow> store \<Rightarrow> bool res" where
  "holds_cycle A end_at st =
     ebind (load_snapshot (app_hash A) st) (\<lambda>snapshot. has_completed_cycle (app_hash A) st snapshot end_at)"

text \<open>A halted account whose latest candle is completed is observed again, after its delay.\<close>

definition halted_recheck :: "app_env \<Rightarrow> instant \<Rightarrow> health_action \<Rightarrow> cycle_result proc" where
  "halted_recheck A end_at action =
     (let C = app_service A; held = pdone (Inr (bare_result LEASE_HELD end_at)) in
      pbind (if 0 < ha_retry_delay_seconds action then
          pbind (pdone (float_of_int (ha_retry_delay_seconds action))) (\<lambda>d.
          pbind (app_sleep A d) (\<lambda>_. set_delayed True))
        else pdone (Inr ())) (\<lambda>_.
      pbind (acquire_lease C) (\<lambda>acquired.
      if \<not> acquired then held
      else pfinally (pcatch is_lease_lost
        (pbind (prepare_candles A (utc end_at)) (\<lambda>_.
         pbind (renew_lease C) (\<lambda>renewed.
         if \<not> renewed then held
         else
           pbind (record_reconciliation A end_at [] True) (\<lambda>_.
           pbind (pread (from_store (app_hash A))) (\<lambda>m.
           pbind (pread (reconcile (app_hash A))) (\<lambda>a.
           pdone (Inr ((bare_result ALREADY_PROCESSED end_at)\<lparr> cr_reasons := ha_reasons (current_action m),
             cr_equity := Some (pr_equity a) \<rparr>))))))))
        held) (release_lease C))))"

text \<open>What follows a cycle that was processed: reconciliation, promotion and its alert.\<close>

definition after_cycle :: "app_env \<Rightarrow> cycle_result \<Rightarrow> cycle_result proc" where
  "after_cycle A r =
     (let C = app_service A; end_at = cr_end r in
      if cr_status r \<noteq> PROCESSED \<and> cr_status r \<noteq> ALREADY_PROCESSED then pdone (Inr r)
      else pbind (acquire_lease C) (\<lambda>acquired.
      if \<not> acquired then pdone (Inr (bare_result LEASE_HELD end_at))
      else pfinally (phandle
        (pbind (record_reconciliation A end_at (cr_filled r) False) (\<lambda>_.
         pbind (if cr_status r = PROCESSED then promote_after_reduced_cycle A end_at else pdone (Inr ())) (\<lambda>_.
         pbind (notify_cycle A end_at) (\<lambda>_. pdone (Inr r)))))
        (\<lambda>e. if is_lease_lost e then pdone (Inr (bare_result LEASE_HELD end_at))
          else pbind (sleep_failsafe_retry A) (\<lambda>_. pdone (Inl e))))
        (release_lease C)))"

text \<open>The first part of a run: its result, or nothing when the scheduler is to run.\<close>

definition run_prelude :: "app_env \<Rightarrow> cycle_result option proc" where
  "run_prelude A =
     pbind (set_delayed False) (\<lambda>_.
     pbind (phandle (preflight A) (\<lambda>e. pbind (sleep_failsafe_retry A) (\<lambda>_. pdone (Inl e)))) (\<lambda>_.
     pbind (app_now A) (\<lambda>now.
     pbind (pdone (latest_completed_end now)) (\<lambda>current_end.
     pbind (pread (from_store (app_hash A))) (\<lambda>m.
     let action = current_action m in
     pbind (if ha_stage action = HALTED_STAGE then pread (holds_cycle A current_end) else pdone (Inr False)) (\<lambda>recheck.
     if recheck then pbind (halted_recheck A current_end action) (\<lambda>r. pdone (Inr (Some r)))
     else pdone (Inr None)))))))"

definition app_run_once :: "nat \<Rightarrow> app_env \<Rightarrow> service \<Rightarrow> (service \<times> cycle_result res) option" where
  "app_run_once fuel A s = (case run_prelude A s of
     (s1, Inl e) \<Rightarrow> Some (s1, Inl e)
   | (s1, Inr (Some r)) \<Rightarrow> Some (s1, Inr r)
   | (s1, Inr None) \<Rightarrow> (case scheduled_run fuel A s1 of
       None \<Rightarrow> None
     | Some (s2, Inl e) \<Rightarrow> Some (s2\<lparr>pv_delayed := True\<rparr>, Inl e)
     | Some (s2, Inr r) \<Rightarrow> Some (after_cycle A r s2)))"

section \<open>The loop\<close>

text \<open>One iteration of \<open>paper-run\<close>: an exception without a delay sleeps for five minutes.\<close>

definition app_iteration :: "nat \<Rightarrow> app_env \<Rightarrow> service \<Rightarrow> (service \<times> cycle_result res) option" where
  "app_iteration fuel A s = (case app_run_once fuel A s of
     None \<Rightarrow> None
   | Some (s1, Inl e) \<Rightarrow> Some (if pv_delayed s1 then (s1, Inl e) else (fst (app_sleep A (flit 300 1) s1), Inl e))
   | Some (s1, Inr r) \<Rightarrow> Some (s1, Inr r))"

text \<open>As many iterations as there are amounts of fuel, while each of them returns.\<close>

fun app_iterations :: "nat list \<Rightarrow> app_env \<Rightarrow> service \<Rightarrow> (service \<times> cycle_result res list) option" where
  "app_iterations [] A s = Some (s, [])"
| "app_iterations (n # ns) A s = (case app_iteration n A s of
     None \<Rightarrow> None
   | Some (s1, r) \<Rightarrow> (case app_iterations ns A s1 of None \<Rightarrow> None | Some (s2, rs) \<Rightarrow> Some (s2, r # rs)))"

text \<open>The application on a store: its broker and its service are built first.\<close>

definition new_application :: "app_env \<Rightarrow> store \<Rightarrow> (app_env \<times> service) res" where
  "new_application A st =
     ebind (new_broker (app_hash A) (VFloat (fee_rate (cx_costs (ap_base A))))
       (VFloat (slippage_rate (cx_costs (ap_base A)))) (\<lambda>_. None) st) (\<lambda>b.
     ebind (new_service (app_service A) st) (\<lambda>s.
     Inr (A\<lparr>ap_base := (ap_base A)\<lparr>cx_broker := b\<rparr>\<rparr>, s)))"

end
