(* ===== verification/App_Relation.thy ===== *)
theory App_Relation
  imports Service_Relation PaperApp
begin

text \<open>
  The contract of a relation for the whole application, as \<open>Service_Relation\<close> has it for one cycle.
  When the public loader, the sleeper, the lease and the delivery of an alert stay within the
  relation, so does every run of the application and the loop around it. The contract of the service
  follows, with the observed source as its candle source.
\<close>

lemma inside_phandle: "preorder_rel R \<Longrightarrow> inside R m \<Longrightarrow> (\<And>e. inside R (h e)) \<Longrightarrow> inside R (phandle m h)"
  unfolding inside_def phandle_def preorder_rel_def transp_def
  by (auto split: prod.splits sum.splits) (metis fst_conv)+

lemma inside_result: "inside R m \<Longrightarrow> (\<And>e. inside R (f e)) \<Longrightarrow> (\<And>x. inside R (g x))
    \<Longrightarrow> inside R (case r of Inl e \<Rightarrow> f e | Inr x \<Rightarrow> g x)"
  by (cases r) auto

lemma inside_outcome: "inside R m \<Longrightarrow> inside R (outcome_of m)"
  by (auto simp: inside_def outcome_of_def split: prod.splits) (metis fst_conv)

lemma fenced_at_app [simp]: "fenced_at (ap_base A) = (fenced_at (app_service A) :: instant proc \<Rightarrow> int \<Rightarrow> 'a proc \<Rightarrow> 'a proc)"
  by (simp add: fenced_at_def [abs_def] app_service_def)

lemma reads_app_now: "reads_clock (app_service A) (app_now A)"
  by (auto simp: reads_clock_def app_now_def app_service_def Let_def)

lemma bound_transaction_effect: "inside W work \<Longrightarrow> fenced_effect W (app_service A) s (fst (bound_transaction A work s))"
  by (auto simp: bound_transaction_def fenced_effect.stays reads_app_now intro: fenced_at_effect split: option.split)

section \<open>The contract\<close>

locale app_relation =
  fixes A :: app_env and R W :: "service \<Rightarrow> service \<Rightarrow> bool"
  assumes A_preorder: "preorder_rel R" and A_work_preorder: "preorder_rel W"
    and A_clock: "R s (s\<lparr>pv_ticks := Suc (pv_ticks s)\<rparr>)"
    and A_acquire: "R s (fst (acquire_lease (app_service A) s))"
    and A_renew: "R s (fst (renew_lease (app_service A) s))"
    and A_renew_bound: "R s (fst (renew_bound_lease A s))"
    and A_release: "R s (fst (release_lease (app_service A) s))"
    and A_public: "R s (s\<lparr>pv_store := fst (ap_load A t (pv_ticks s) (pv_store s))\<rparr>)"
    and A_history: "ap_history A = Some loader \<Longrightarrow> R s (s\<lparr>pv_store := fst (loader t u (pv_ticks s) (pv_store s))\<rparr>)"
    and A_prepared: "R s (s\<lparr>pv_prepared := fs\<rparr>)"
    and A_sleep: "R s (fst (app_sleep A d s))"
    and A_undelayed: "R s (s\<lparr>pv_delayed := False\<rparr>)"
    and A_delayed: "R s ((fst (app_sleep A d s))\<lparr>pv_delayed := True\<rparr>)"
    and A_notify_bound: "R s (fst (notify_event A (bound_transaction A) e s))"
    and A_notify_cycle: "R s (fst (notify_event A (fenced_cycle (app_service A)) e s))"
    and A_fenced: "fenced_effect W (app_service A) s s1 \<Longrightarrow> R s s1"
    and A_work_fenced: "fenced_effect W (app_service A) s s1 \<Longrightarrow> W s s1"
    and A_write: "cycle_write (app_service A) (pv_store s) st \<Longrightarrow> W s (s\<lparr>pv_store := st\<rparr>)"
begin

lemmas A_rules = inside_pdone [OF A_preorder] inside_pread [OF A_preorder] inside_pbind [OF A_preorder]
  inside_pcatch [OF A_preorder] inside_pfinally [OF A_preorder] inside_phandle [OF A_preorder]
  inside_if [of R] inside_option [of R] inside_prod [of R] inside_list [of R] inside_outcome [of R]

lemmas A_work_rules = inside_pdone [OF A_work_preorder] inside_pread [OF A_work_preorder]
  inside_pbind [OF A_work_preorder] inside_pcatch [OF A_work_preorder]

lemma A_refl: "R s s"
  using A_preorder by (simp add: preorder_rel_def reflp_def)

lemma A_work_refl: "W s s"
  using A_work_preorder by (simp add: preorder_rel_def reflp_def)

lemma A_trans: "R s t \<Longrightarrow> R t u \<Longrightarrow> R s u"
  using A_preorder by (meson preorder_rel_def transpD)

lemma A_now: "inside R (app_now A)" "inside R (scheduler_now A)"
  using A_clock by (simp_all add: inside_def app_now_def scheduler_now_def)

lemma A_lease: "inside R (acquire_lease (app_service A))" "inside R (renew_lease (app_service A))"
    "inside R (release_lease (app_service A))" "inside R (renew_bound_lease A)"
  using A_acquire A_renew A_release A_renew_bound by (simp_all add: inside_def)

lemma A_sleeps: "inside R (app_sleep A d)" "inside R (set_delayed False)"
  using A_sleep A_undelayed by (simp_all add: inside_def set_delayed_def)

lemma A_delays: "inside R (pbind (app_sleep A d) (\<lambda>_. set_delayed True))"
  using A_delayed by (simp add: inside_def pbind_def app_sleep_def set_delayed_def)

lemma A_notify: "inside R (notify_event A (bound_transaction A) e)" "inside R (notify_event A (fenced_cycle (app_service A)) e)"
  using A_notify_bound A_notify_cycle by (simp_all add: inside_def)

lemma A_section: "inside W work \<Longrightarrow> inside R (fenced_cycle (app_service A) work)"
  by (rule insideI) (rule A_fenced, rule fenced_cycle_effect)

lemma A_bound: "inside W work \<Longrightarrow> inside R (bound_transaction A work)"
  by (rule insideI) (rule A_fenced, rule bound_transaction_effect)

text \<open>A monitor is persisted by one event, or by none.\<close>

lemma A_persist: "inside W (persist_monitor (app_hash A) i t m)"
proof (rule insideI)
  fix s :: service
  have "fst (persist (app_hash A) i (utc t) m (pv_store s)) = pv_store s
      \<or> (\<exists>a. fst (persist (app_hash A) i (utc t) m (pv_store s)) = fst (store_append_event (app_hash A) a (pv_store s)))"
    by (auto simp: persist_def persisted_def Let_def split: sum.split prod.split) (metis fst_conv)+
  moreover have "W s (s\<lparr>pv_store := fst (store_append_event (app_hash A) a (pv_store s))\<rparr>)" for a :: event_args
    by (rule A_write) (use cycle_write.event [of "app_service A"] in \<open>simp add: app_service_def\<close>)
  ultimately show "W s (fst (persist_monitor (app_hash A) i t m s))"
    using A_work_refl [of s] by (auto simp: persist_monitor_def split: prod.split)
qed

section \<open>The candle source\<close>

lemma A_observation: "inside R (persist_observation A m t u o1)"
  unfolding persist_observation_def Let_def
  by (intro A_rules A_lease A_bound A_work_rules A_persist)

lemma A_outcome: "inside R (observe_outcome A m t u o1)"
  unfolding observe_outcome_def by (intro A_rules A_observation A_notify)

lemma A_call: "(\<And>s. R s (s\<lparr>pv_store := fst (f (pv_ticks s) (pv_store s))\<rparr>)) \<Longrightarrow> inside R (public_call f)"
  by (auto simp: inside_def public_call_def pcall_def split: prod.split) (metis fst_conv)

lemma A_drop: "inside R (drop_prepared t)"
  using A_prepared by (simp add: inside_def drop_prepared_def)

lemma A_keep: "inside R (\<lambda>s. (s\<lparr>pv_prepared := f s\<rparr>, r))"
  using A_prepared by (simp add: inside_def)

lemma A_prepare: "inside R (prepare_candles A v)"
proof -
  have load: "inside R (public_call (ap_load A t))" for t by (rule A_call) (rule A_public)
  show ?thesis unfolding prepare_candles_def
    by (intro A_rules A_now load inside_result [where R = R and m = "pdone (Inr ())"] A_outcome A_keep)
qed

lemma A_load: "inside R (observed_load A t)"
proof -
  have cases: "inside R (\<lambda>s. case map_of (pv_prepared s) e of Some f \<Rightarrow> m f s | None \<Rightarrow> n s)"
    if "\<And>f. inside R (m f)" "inside R n" for e and m :: "loaded \<Rightarrow> loaded proc" and n
    using that by (auto simp: inside_def split: option.split)
  show ?thesis unfolding observed_load_def
    by (intro A_rules cases A_drop A_prepare)
qed

lemma A_backfill: "inside R (observed_history A t u)"
proof -
  have load: "inside R (case ap_history A of None \<Rightarrow> pdone (Inl (OtherError ''AttributeError''))
       | Some loader \<Rightarrow> pbind (public_call (loader t u)) (\<lambda>raw. pdone (validated_public_frame (ap_base A) raw t u)))"
  proof (cases "ap_history A")
    case None
    show ?thesis unfolding None option.case by (rule A_rules)
  next
    case (Some loader)
    have "inside R (public_call (loader t u))" by (rule A_call) (rule A_history [OF Some])
    then show ?thesis unfolding Some option.case by (intro A_rules)
  qed
  show ?thesis unfolding observed_history_def
    by (intro A_rules A_now load inside_result [where R = R and m = "pdone (Inr ())"] A_outcome)
qed

end

sublocale app_relation \<subseteq> cycle: service_relation "app_service A" R W
proof
  show "R s (fst (cx_load (app_service A) t s))" for t s
    using A_load by (simp add: app_service_def inside_def)
  show "R s (fst (loader t u s))" if "cx_history (app_service A) = Some loader" for loader t u s
    using that A_backfill by (auto simp: app_service_def inside_def)
qed (rule A_preorder A_work_preorder A_clock A_acquire A_renew A_release A_fenced A_work_fenced A_write, assumption?)+

section \<open>A run\<close>

context app_relation
begin

lemma A_failsafe: "inside R (sleep_failsafe_retry A)"
  unfolding sleep_failsafe_retry_def by (intro A_rules A_delays)

lemma A_preflight: "inside R (preflight A)"
  unfolding preflight_def by (intro A_rules A_now)

lemma A_retry: "inside R (scheduler_retry A)"
  unfolding scheduler_retry_def by (intro A_rules A_sleeps)

lemma A_start: "inside R (scheduler_start A)"
  unfolding scheduler_start_def by (intro A_rules A_now)

lemma A_process: "inside R (scheduler_process A e w)"
  unfolding scheduler_process_def by (intro A_rules cycle.process_inside A_retry)

lemma A_wait: "wait_until fuel A target wake s = Some (s1, r) \<Longrightarrow> R s s1"
proof (induction fuel arbitrary: wake s)
  case 0
  then show ?case using A_refl by (simp add: wait_until.simps split: if_splits)
next
  case (Suc n)
  let ?m = "pbind (app_sleep A (total_seconds (target - wake))) (\<lambda>_. scheduler_now A)"
  obtain s2 q where q: "?m s = (s2, q)" by force
  have "inside R ?m" by (intro A_rules A_sleeps A_now)
  then have s2: "R s s2" using q by (rule insideD)
  show ?case
  proof (cases "wake < target")
    case False
    then show ?thesis using Suc.prems A_refl by (simp add: wait_until.simps)
  next
    case True
    show ?thesis
    proof (cases q)
      case (Inl e)
      then show ?thesis using Suc.prems True q s2 by (simp add: wait_until.simps)
    next
      case (Inr w)
      then have "wait_until n A target w s2 = Some (s1, r)" using Suc.prems True q by (simp add: wait_until.simps)
      then show ?thesis using A_trans [OF s2] Suc.IH by blast
    qed
  qed
qed

text \<open>A scheduled run that raises has slept last.\<close>

lemma A_failed: "scheduler_failed A e s = (s1, r) \<Longrightarrow> \<exists>d. s1 = fst (app_sleep A d s)"
  by (auto simp: scheduler_failed_def scheduler_retry_def pbind_def pread_def pdone_def app_sleep_def)

lemma A_scheduled:
  assumes "scheduled_run fuel A s = Some (s1, r)"
  shows "R s s1 \<and> (\<forall>e. r = Inl e \<longrightarrow> (\<exists>t d. R s t \<and> s1 = fst (app_sleep A d t)))"
proof -
  have failed: "R s u \<and> (\<forall>e. r = Inl e \<longrightarrow> (\<exists>t d. R s t \<and> u = fst (app_sleep A d t)))"
    if reached: "R s t" "scheduler_failed A x t = (u, r)" for t u :: service and x and r :: "cycle_result res"
  proof -
    obtain d where "u = fst (app_sleep A d t)" using A_failed [OF reached(2)] by blast
    then show ?thesis using A_sleep A_trans reached(1) by blast
  qed
  obtain t p where start: "scheduler_start A s = (t, p)" by force
  have t: "R s t" using A_start start by (rule insideD)
  show ?thesis
  proof (cases p)
    case (Inl x)
    then show ?thesis using assms start failed [OF t] by (simp add: scheduled_run_def)
  next
    case (Inr q)
    obtain e target wake where q: "q = (e, target, wake)" by (cases q)
    obtain u w where wait: "wait_until fuel A target wake t = Some (u, w)"
      using assms start Inr q by (auto simp: scheduled_run_def split: option.splits)
    have u: "R s u" using A_trans [OF t A_wait [OF wait]] .
    show ?thesis
    proof (cases w)
      case (Inl x)
      then show ?thesis using assms start Inr q wait failed [OF u] by (simp add: scheduled_run_def)
    next
      case (Inr now)
      then have h: "phandle (scheduler_process A e now) (scheduler_failed A) u = (s1, r)"
        using assms start \<open>p = Inr q\<close> q wait by (simp add: scheduled_run_def)
      obtain v y where v: "scheduler_process A e now u = (v, y)" by force
      have "R u v" using A_process v by (rule insideD)
      then have Rv: "R s v" using u A_trans by blast
      show ?thesis
      proof (cases y)
        case (Inl x)
        then show ?thesis using h v failed [OF Rv] by (simp add: phandle_def)
      next
        case (Inr c)
        then show ?thesis using h v Rv by (auto simp: phandle_def)
      qed
    qed
  qed
qed

section \<open>Around a cycle\<close>

lemma A_persist_fenced: "inside R (persist_fenced A i t m)"
  unfolding persist_fenced_def by (intro A_section A_work_rules A_persist)

lemma A_reconciliation: "inside R (record_reconciliation A t fs b)"
  unfolding record_reconciliation_def Let_def by (intro A_rules A_now A_persist_fenced)

lemma A_promote: "inside R (promote_after_reduced_cycle A t)"
  unfolding promote_after_reduced_cycle_def Let_def by (intro A_rules A_now A_persist_fenced)

lemma A_notify_end: "inside R (notify_cycle A t)"
  unfolding notify_cycle_def by (intro A_rules A_notify)

lemma A_halted: "inside R (halted_recheck A t action)"
  unfolding halted_recheck_def Let_def
  by (intro A_rules A_delays A_lease A_prepare A_reconciliation)

lemma A_after: "inside R (after_cycle A r)"
  unfolding after_cycle_def Let_def
  by (intro A_rules A_lease A_reconciliation A_promote A_notify_end A_failsafe)

lemma A_prelude: "inside R (run_prelude A)"
  unfolding run_prelude_def Let_def
  by (intro A_rules A_sleeps A_preflight A_failsafe A_now A_halted)

lemma run_once_inside: "app_run_once fuel A s = Some (s1, r) \<Longrightarrow> R s s1"
proof -
  assume run: "app_run_once fuel A s = Some (s1, r)"
  obtain t p where t: "run_prelude A s = (t, p)" by force
  have Rt: "R s t" using A_prelude t by (rule insideD)
  show ?thesis
  proof (cases "p = Inr None")
    case False
    then show ?thesis using run t Rt by (auto simp: app_run_once_def split: sum.splits option.splits)
  next
    case True
    then obtain u q where u: "scheduled_run fuel A t = Some (u, q)"
      using run t by (auto simp: app_run_once_def split: option.splits)
    have Ru: "R s u" using A_trans [OF Rt] A_scheduled [OF u] by blast
    show ?thesis
    proof (cases q)
      case (Inl e)
      then obtain v d where v: "R t v" "u = fst (app_sleep A d v)" using A_scheduled [OF u] by blast
      have "R s (u\<lparr>pv_delayed := True\<rparr>)" using A_trans [OF A_trans [OF Rt v(1)] A_delayed [of v d]] v(2) by simp
      then show ?thesis using run t True u Inl by (simp add: app_run_once_def)
    next
      case (Inr c)
      then have "after_cycle A c u = (s1, r)" using run t True u by (simp add: app_run_once_def)
      then show ?thesis using A_trans [OF Ru] insideD [OF A_after] by blast
    qed
  qed
qed

lemma iteration_inside: "app_iteration fuel A s = Some (s1, r) \<Longrightarrow> R s s1"
proof -
  assume it: "app_iteration fuel A s = Some (s1, r)"
  then obtain t q where t: "app_run_once fuel A s = Some (t, q)" by (auto simp: app_iteration_def split: option.splits)
  have "s1 = t \<or> (\<exists>d. s1 = fst (app_sleep A d t))"
    using it t by (auto simp: app_iteration_def split: sum.splits if_splits)
  then show ?thesis using run_once_inside [OF t] A_sleep A_trans by blast
qed

lemma iterations_inside: "app_iterations ns A s = Some (s1, rs) \<Longrightarrow> R s s1"
proof (induction ns arbitrary: s rs)
  case Nil
  then show ?case using A_refl by simp
next
  case (Cons n ns)
  then obtain t r qs where t: "app_iteration n A s = Some (t, r)" "app_iterations ns A t = Some (s1, qs)"
    by (auto split: option.splits)
  then show ?case using A_trans [OF iteration_inside [OF t(1)]] Cons.IH by blast
qed

end

end
