(* ===== verification/App_Steps.thy ===== *)
theory App_Steps
  imports App_Relation
begin

text \<open>
  What the application may do to the store. A step is a lease operation of this process at a
  reading of its clock, something that happened in the store while the process was loading candles
  or sleeping, or one fenced transaction. Every run of the application is a sequence of such steps:
  its health observations, reconciliations and alerts are fenced as its cycles are.
\<close>

section \<open>Delivery\<close>

lemma inside_append_once:
  assumes "preorder_rel W" and "\<And>a. inside W (pcall (store_append_event H a))"
  shows "inside W (append_exact_once H i ty t p)"
  unfolding append_exact_once_def
  by (intro inside_pbind inside_pread inside_pdone inside_if inside_pcatch assms)

lemma inside_deliver:
  assumes "preorder_rel R" "preorder_rel W" and "\<And>a. inside W (pcall (store_append_event H a))"
    and "\<And>m. inside W m \<Longrightarrow> inside R (around m)" and "\<And>a. inside R (send_alert n a)"
  shows "inside R (deliver_alert_once H around n i ty p t)"
  unfolding deliver_alert_once_def claim_attempt_def
  by (intro inside_pbind inside_pdone inside_if inside_pcatch assms(1,4,5) inside_append_once inside_pread assms(2,3))

lemma inside_notify:
  assumes "preorder_rel R" and "\<And>n e :: stored_event. ap_notifier A = Some n
    \<Longrightarrow> inside R (deliver_alert_once (app_hash A) around n (sv_event_id e) (sv_event_type e) (freeze_members (sv_payload e))
          (utc (sv_occurred_at_utc e)))"
  shows "inside R (notify_event A around e)"
proof (cases "ap_notifier A")
  case None
  then show ?thesis using assms(1) by (simp add: notify_event_def inside_pdone)
next
  case (Some n)
  have "inside R (deliver_alert_once (app_hash A) around n (sv_event_id e) (sv_event_type e) (freeze_members (sv_payload e))
      (utc (sv_occurred_at_utc e)))" by (rule assms(2)) (rule Some)
  then show ?thesis by (simp add: notify_event_def Some inside_pcatch inside_pbind inside_pdone assms(1))
qed

section \<open>Steps\<close>

inductive app_step :: "app_env \<Rightarrow> store \<Rightarrow> store \<Rightarrow> bool" for A :: app_env where
  acquires: "astimezone_utc (cx_clock (ap_base A) k) = Inr now \<Longrightarrow> app_step A st (fst (store_acquire_cycle_lease_epoch (app_hash A)
      \<lparr> la_owner = cx_owner (ap_base A), la_token = cx_token (ap_base A), la_now = TsDatetime (utc now),
        la_expires = TsDatetime (utc expiry) \<rparr> st))"
| renews: "astimezone_utc (cx_clock (ap_base A) k) = Inr now \<Longrightarrow> app_step A st (fst (store_renew_cycle_lease (app_hash A)
      \<lparr> la_owner = cx_owner (ap_base A), la_token = cx_token (ap_base A), la_now = TsDatetime (utc now),
        la_expires = TsDatetime (utc expiry) \<rparr> (VInt e) st))"
| releases: "app_step A st (fst (store_release_cycle_lease (app_hash A) (cx_owner (ap_base A)) (cx_token (ap_base A))
      (Some (VInt e)) st))"
| loads: "app_step A st (fst (ap_load A t k st))"
| backfills: "ap_history A = Some loader \<Longrightarrow> app_step A st (fst (loader t u k st))"
| sleeps: "app_step A st (ap_sleep A d k st)"
| fences: "astimezone_utc (cx_clock (ap_base A) k) = Inr now
    \<Longrightarrow> fence (app_hash A) (cx_owner (ap_base A)) (cx_token (ap_base A)) e now (ss_db st) = Inr ()
    \<Longrightarrow> is_ok (replay_and_verify (app_hash A) (ss_db st)) \<Longrightarrow> is_ok (replay_and_verify (app_hash A) d)
    \<Longrightarrow> app_step A st (st\<lparr>ss_db := d\<rparr>)"

definition app_stepped :: "app_env \<Rightarrow> service \<Rightarrow> service \<Rightarrow> bool" where
  "app_stepped A s s1 \<longleftrightarrow> (app_step A)\<^sup>*\<^sup>* (pv_store s) (pv_store s1)"

lemma app_stepped_preorder: "preorder_rel (app_stepped A)"
  by (auto simp: preorder_rel_def app_stepped_def intro!: reflpI transpI intro: rtranclp_trans)

lemma app_stepped_store: "pv_store s1 = pv_store s \<Longrightarrow> app_stepped A s s1"
  by (simp add: app_stepped_def)

lemma app_stepped_one: "app_step A (pv_store s) (pv_store s1) \<Longrightarrow> app_stepped A s s1"
  by (auto simp: app_stepped_def)

lemma app_service_fields [simp]:
  "cx_hash (app_service A) = app_hash A" "cx_owner (app_service A) = cx_owner (ap_base A)"
  "cx_token (app_service A) = cx_token (ap_base A)" "cx_clock (app_service A) = cx_clock (ap_base A)"
  by (simp_all add: app_service_def)

text \<open>The requests of the service name this process.\<close>

lemma app_request: "lease_request (app_service A) s = (s1, r) \<Longrightarrow> pv_store s1 = pv_store s \<and> (\<forall>a. r = Inr a \<longrightarrow>
    (\<exists>k now expiry. astimezone_utc (cx_clock (ap_base A) k) = Inr now \<and> a = \<lparr> la_owner = cx_owner (ap_base A),
    la_token = cx_token (ap_base A), la_now = TsDatetime (utc now), la_expires = TsDatetime (utc expiry) \<rparr>))"
  by (auto simp: lease_request_def pbind_def pdone_def pclock_def split: prod.splits sum.splits dest: clock_utc_reading)

lemma app_acquire_stepped: "app_stepped A s (fst (acquire_lease (app_service A) s))"
proof -
  obtain s1 r where r: "lease_request (app_service A) s = (s1, r)" by force
  show ?thesis
  proof (cases r)
    case (Inl e)
    then show ?thesis using app_request [OF r] by (simp add: acquire_lease_def pbind_def r app_stepped_store)
  next
    case (Inr a)
    then have "app_step A (pv_store s) (fst (store_acquire_cycle_lease_epoch (app_hash A) a (pv_store s1)))"
      using app_request [OF r] by (auto intro: app_step.acquires)
    then show ?thesis
      by (intro app_stepped_one) (auto simp: acquire_lease_def pbind_def r Inr pcall_def split: prod.splits sum.splits option.splits)
  qed
qed

lemma app_renew_stepped: "app_stepped A s (fst (renew_lease (app_service A) s))"
proof (cases "pv_epoch s")
  case None
  then show ?thesis by (simp add: renew_lease_def app_stepped_store)
next
  case (Some e)
  obtain s1 r where r: "lease_request (app_service A) s = (s1, r)" by force
  show ?thesis
  proof (cases r)
    case (Inl x)
    then show ?thesis using app_request [OF r] by (simp add: renew_lease_def Some pbind_def r app_stepped_store)
  next
    case (Inr a)
    then have "app_step A (pv_store s) (fst (store_renew_cycle_lease (app_hash A) a (VInt e) (pv_store s1)))"
      using app_request [OF r] by (auto intro: app_step.renews)
    then show ?thesis
      by (intro app_stepped_one) (auto simp: renew_lease_def Some pbind_def r Inr pcall_def split: prod.splits sum.splits)
  qed
qed

lemma app_release_stepped: "app_stepped A s (fst (release_lease (app_service A) s))"
  by (auto simp: release_lease_def pcall_def app_stepped_store split: option.splits prod.splits intro!: app_stepped_one)
    (metis fst_conv app_step.releases)

text \<open>The source renews the lease that it is bound to.\<close>

lemma app_bound_stepped: "app_stepped A s (fst (renew_bound_lease A s))"
proof (cases "pv_bound s")
  case None
  then show ?thesis by (simp add: renew_bound_lease_def app_stepped_store)
next
  case (Some e)
  let ?v = "cx_clock (ap_base A) (pv_ticks s)"
  show ?thesis
  proof (cases "\<exists>now expiry. is_aware ?v \<and> astimezone_utc ?v = Inr now
      \<and> safe_add now (cx_ttl (ap_base A)) ''lease expiry is outside datetime range'' = Inr expiry")
    case True
    then obtain now expiry where n: "is_aware ?v" "astimezone_utc ?v = Inr now"
      "safe_add now (cx_ttl (ap_base A)) ''lease expiry is outside datetime range'' = Inr expiry" by blast
    then have "app_step A (pv_store s) (fst (store_renew_cycle_lease (app_hash A) \<lparr> la_owner = cx_owner (ap_base A),
        la_token = cx_token (ap_base A), la_now = TsDatetime (utc now), la_expires = TsDatetime (utc expiry) \<rparr> (VInt e) (pv_store s)))"
      by (intro app_step.renews)
    then show ?thesis using n
      by (intro app_stepped_one)
        (auto simp: renew_bound_lease_def Some pbind_def pdone_def pcall_def app_now_def Let_def
          split: prod.splits sum.splits)
  next
    case False
    then show ?thesis
      by (intro app_stepped_store)
        (auto simp: renew_bound_lease_def Some pbind_def pdone_def app_now_def Let_def split: sum.splits if_splits)
  qed
qed

lemma app_fenced_stepped: "fenced_effect W (app_service A) s s1 \<Longrightarrow> app_stepped A s s1"
proof (induction rule: fenced_effect.induct)
  case (commits s s1 now e)
  then have "app_step A (pv_store s) ((pv_store s)\<lparr>ss_db := ss_db (pv_store s1)\<rparr>)"
    by (intro app_step.fences) simp_all
  then show ?case by (intro app_stepped_one) simp
qed (simp_all add: app_stepped_store)

lemma app_notify_stepped:
  assumes "\<And>m :: bool proc. inside (app_stepped A) (around m)"
  shows "app_stepped A s (fst (notify_event A around e s))"
proof -
  have true: "preorder_rel (\<lambda>_ _. True)" by (simp add: preorder_rel_def reflp_def transp_def)
  have "inside (app_stepped A) (send_alert n a)" for n a
    by (simp add: inside_def send_alert_def app_stepped_store)
  then have "inside (app_stepped A) (deliver_alert_once (app_hash A) around n i ty p t)" for n i ty p t
    using assms by (intro inside_deliver [OF app_stepped_preorder true]) (simp_all add: inside_def)
  then have "inside (app_stepped A) (notify_event A around e)"
    by (intro inside_notify app_stepped_preorder)
  then show ?thesis by (simp add: inside_def)
qed

interpretation app_steps: app_relation A "app_stepped A" "\<lambda>_ _. True" for A
proof
  have W: "inside (\<lambda>_ _. True) m" for m :: "bool proc" by (simp add: inside_def)
  show "preorder_rel (app_stepped A)" by (rule app_stepped_preorder)
  show "preorder_rel (\<lambda>_ _. True)" by (simp add: preorder_rel_def reflp_def transp_def)
  show "app_stepped A s (fst (notify_event A (bound_transaction A) e s))" for e s
    by (intro app_notify_stepped insideI app_fenced_stepped [where W = "\<lambda>_ _. True"] bound_transaction_effect W)
  show "app_stepped A s (fst (notify_event A (fenced_cycle (app_service A)) e s))" for e s
    by (intro app_notify_stepped insideI app_fenced_stepped [where W = "\<lambda>_ _. True"] fenced_cycle_effect W)
  show "app_stepped A s (s\<lparr>pv_store := fst (ap_load A t (pv_ticks s) (pv_store s))\<rparr>)" for s t
    by (intro app_stepped_one) (simp add: app_step.loads)
  show "app_stepped A s (s\<lparr>pv_store := fst (loader t u (pv_ticks s) (pv_store s))\<rparr>)"
    if "ap_history A = Some loader" for loader t u s
    using that by (intro app_stepped_one) (simp add: app_step.backfills)
  show "app_stepped A s (fst (app_sleep A d s))" and "app_stepped A s ((fst (app_sleep A d s))\<lparr>pv_delayed := True\<rparr>)" for d s
    by (intro app_stepped_one; simp add: app_sleep_def app_step.sleeps)+
qed (simp_all add: app_stepped_store app_acquire_stepped app_renew_stepped app_release_stepped app_bound_stepped
    app_fenced_stepped)

text \<open>
  C3: every change of the store by the application is a lease operation or is fenced. However many
  times the loop of the application runs, whatever the public candles, the clock and the notifier
  answer, and however often it raises, the store at the end is reached from the store at the start by
  steps of four kinds only: operations on the lease of this process at a reading of its clock; what
  the store underwent while the process was loading public candles; the same while it was sleeping;
  and transactions that start while the stored lease is the unexpired one of this process and its
  epoch, and that end in a database that verifies. Cycles, health observations, reconciliations,
  promotions and alert attempts are all among the last.
\<close>

theorem app_is_fenced:
  "case app_iterations ns A s of None \<Rightarrow> True
   | Some (s1, rs) \<Rightarrow> (app_step A)\<^sup>*\<^sup>* (pv_store s) (pv_store s1)"
  using app_steps.iterations_inside [of ns A s] by (auto simp: app_stepped_def split: option.splits)

end
