(* ===== verification/Event_Log.thy ===== *)
theory Event_Log
  imports Store_History PaperBroker
begin

text \<open>
  The event log of the store is append-only. Every call of the store that returns, and every
  operation of the paper broker over it, leaves the events that were there in their place and adds
  events at the end.
\<close>

definition appended :: "db \<Rightarrow> db \<Rightarrow> bool" where
  "appended d d1 \<longleftrightarrow> (\<exists>es. db_events d1 = db_events d @ es)"

lemma appended_refl [simp]: "appended d d"
  by (simp add: appended_def)

lemma appended_trans: "appended d1 d2 \<Longrightarrow> appended d d1 \<Longrightarrow> appended d d2"
  by (auto simp: appended_def)

lemma appended_ids: "appended d d1 \<Longrightarrow> set (map er_event_id (db_events d)) \<subseteq> set (map er_event_id (db_events d1))"
  by (auto simp: appended_def)

lemma extends_appended: "extends p d d1 \<Longrightarrow> \<exists>es. db_events d1 = db_events d @ es"
  by (auto simp: extends_def)

section \<open>The calls of the store\<close>

text \<open>Each rule gives the events after the call as those before and some more.\<close>

named_theorems log_dests

lemma append_event_log [log_dests]: "append_event H a d = Inr (d1, x) \<Longrightarrow> \<exists>es. db_events d1 = db_events d @ es"
  by (auto simp: append_event_def mutation_def dest!: append_event_extends extends_appended)

lemma record_order_log [log_dests]: "record_order_once H a d = Inr (d1, x) \<Longrightarrow> \<exists>es. db_events d1 = db_events d @ es"
  by (auto simp: record_order_once_def mutation_def dest!: record_order_extends extends_appended)

lemma append_fill_log [log_dests]: "append_fill H a d = Inr (d1, x) \<Longrightarrow> \<exists>es. db_events d1 = db_events d @ es"
  by (auto simp: append_fill_def mutation_def dest!: append_fill_extends extends_appended)

lemma transition_log [log_dests]: "transition_order_status H a d = Inr (d1, x) \<Longrightarrow> \<exists>es. db_events d1 = db_events d @ es"
  by (auto simp: transition_order_status_def mutation_def dest!: transition_extends extends_appended)

section \<open>The operations of the broker\<close>

lemma write_event_log [log_dests]: "write_event H i ty t p d = Inr d1 \<Longrightarrow> \<exists>es. db_events d1 = db_events d @ es"
  by (auto simp: write_event_def dest!: log_dests)

lemma write_status_log [log_dests]: "write_status H i k s t r d = Inr d1 \<Longrightarrow> \<exists>es. db_events d1 = db_events d @ es"
  by (auto simp: write_status_def dest!: log_dests)

lemma submit_order_log [log_dests]: "submit_order H B q d = Inr (d1, x) \<Longrightarrow> \<exists>es. db_events d1 = db_events d @ es"
  by (auto simp: submit_order_def dest!: log_dests split: if_splits option.splits)

lemma deactivate_log [log_dests]: "deactivate_stop H s t a i d = Inr d1 \<Longrightarrow> \<exists>es. db_events d1 = db_events d @ es"
  by (auto simp: deactivate_stop_def dest!: log_dests)

lemma deactivate_all_log [log_dests]:
  "efold (\<lambda>s. deactivate_stop H s t (f s) (g s)) ss d = Inr d1 \<Longrightarrow> \<exists>es. db_events d1 = db_events d @ es"
proof (induction ss arbitrary: d)
  case (Cons s ss)
  then obtain d2 where "deactivate_stop H s t (f s) (g s) d = Inr d2"
    "efold (\<lambda>s. deactivate_stop H s t (f s) (g s)) ss d2 = Inr d1" by auto
  then show ?case using Cons.IH deactivate_log by fastforce
qed simp

lemma cap_execution_log [log_dests]: "cap_execution H q n c d = Inr (d1, x) \<Longrightarrow> \<exists>es. db_events d1 = db_events d @ es"
  by (auto simp: cap_execution_def Let_def dest!: log_dests split: option.splits bool.splits)

lemma finish_partial_log [log_dests]: "finish_partial H B q n c d = Inr d1 \<Longrightarrow> \<exists>es. db_events d1 = db_events d @ es"
  by (auto simp: finish_partial_def Let_def dest!: log_dests split: if_splits)

lemma cancel_stops_log [log_dests]: "cancel_stops H q ss d = Inr d1 \<Longrightarrow> \<exists>es. db_events d1 = db_events d @ es"
  by (auto simp: cancel_stops_def Let_def dest!: log_dests split: if_splits)

lemma write_fill_log [log_dests]: "write_fill H B q ss n f c d = Inr (d1, x) \<Longrightarrow> \<exists>es. db_events d1 = db_events d @ es"
  by (auto simp: write_fill_def Let_def dest!: log_dests split: if_splits)

lemma reject_fill_log [log_dests]: "reject_fill H q g s r d = Inr (d1, x) \<Longrightarrow> \<exists>es. db_events d1 = db_events d @ es"
  by (auto simp: reject_fill_def dest!: log_dests)

lemma fill_within_log [log_dests]: "fill_within H B q ss s n c d = Inr (d1, x) \<Longrightarrow> \<exists>es. db_events d1 = db_events d @ es"
  by (auto simp: fill_within_def Let_def dest!: log_dests split: if_splits)

lemma process_order_log [log_dests]: "process_order H B x c t r a ss d = Inr (d1, y) \<Longrightarrow> \<exists>es. db_events d1 = db_events d @ es"
  by (auto simp: process_order_def Let_def dest!: log_dests split: if_splits)

lemma bind_context_log [log_dests]: "bind_context H i c d = Inr (d1, x) \<Longrightarrow> \<exists>es. db_events d1 = db_events d @ es"
  by (auto simp: bind_context_def Let_def dest!: log_dests split: option.splits)

lemma finish_entry_log [log_dests]: "finish_entry H v (d, y) = Inr (d1, x) \<Longrightarrow> \<exists>es. db_events d1 = db_events d @ es"
  by (auto simp: finish_entry_def nested_def dest!: log_dests split: option.splits)

lemma entry_body_log [log_dests]: "entry_body H B q v d = Inr (d1, x) \<Longrightarrow> \<exists>es. db_events d1 = db_events d @ es"
  by (auto simp: entry_body_def Let_def dest!: log_dests split: option.splits)

lemma exit_body_log [log_dests]: "exit_body H B n q d = Inr (d1, x) \<Longrightarrow> \<exists>es. db_events d1 = db_events d @ es"
  by (auto simp: exit_body_def Let_def dest!: log_dests split: option.splits)

lemma open_body_log [log_dests]: "open_body H B i c t r a d = Inr (d1, x) \<Longrightarrow> \<exists>es. db_events d1 = db_events d @ es"
  by (auto simp: open_body_def dest!: log_dests split: option.splits if_splits)

lemma trigger_stop_log [log_dests]: "trigger_stop H B l s r c t d = Inr (d1, x) \<Longrightarrow> \<exists>es. db_events d1 = db_events d @ es"
  by (auto simp: trigger_stop_def Let_def dest!: log_dests)

lemma stop_body_log [log_dests]: "stop_body H B c t p l d = Inr (d1, x) \<Longrightarrow> \<exists>es. db_events d1 = db_events d @ es"
  by (auto simp: stop_body_def dest!: log_dests split: option.splits)

lemma set_stop_body_log [log_dests]: "set_stop_body H B a d = Inr (d1, x) \<Longrightarrow> \<exists>es. db_events d1 = db_events d @ es"
  by (auto simp: set_stop_body_def Let_def write_stop_def dest!: log_dests split: option.splits if_splits)

lemma observe_body_log [log_dests]: "observe_body H i hs v d = Inr (d1, x) \<Longrightarrow> \<exists>es. db_events d1 = db_events d @ es"
  by (auto simp: observe_body_def Let_def dest!: log_dests split: option.splits if_splits)

section \<open>The public operations\<close>

lemma transaction_appended:
  assumes "\<And>d d1 x. body d = Inr (d1, x) \<Longrightarrow> \<exists>es. db_events d1 = db_events d @ es"
  shows "appended (ss_db st) (ss_db (fst (transaction H body st)))"
  using assms by (auto simp: transaction_def transact_public_def commit_def appended_def split: sum.splits)

lemma with_args_appended:
  "(\<And>n. appended (ss_db st) (ss_db (fst (f n st)))) \<Longrightarrow> appended (ss_db st) (ss_db (fst (with_args m f st)))"
  by (cases m) (auto simp: with_args_def)

lemma with_transaction_appended:
  assumes "\<And>n d d1 x. body n d = Inr (d1, x) \<Longrightarrow> \<exists>es. db_events d1 = db_events d @ es"
  shows "appended (ss_db st) (ss_db (fst (with_args m (\<lambda>n. transaction H (body n)) st)))"
  by (intro with_args_appended transaction_appended) (rule assms)

lemma store_call_appended: "appended (ss_db st) (ss_db (fst (run_store H c st)))"
proof (cases "snd (run_store H c st)")
  case (Inl e)
  then show ?thesis by (metis appended_refl prod.collapse run_store_Inl)
next
  case (Inr u)
  then have "run_call H c (ss_db st) = Inr (ss_db (fst (run_store H c st)))"
    using run_store_Inr [of H c st "fst (run_store H c st)"] by (metis (full_types) old.unit.exhaust prod.collapse)
  then show ?thesis
    by (cases c) (auto simp: appended_def acquire_cycle_lease_epoch_def renew_cycle_lease_def release_cycle_lease_def
        mutation_def dest!: log_dests acquire_lease_only renew_lease_only release_lease_only lease_only_extends [where p = undefined] extends_appended)
qed

lemma bind_entry_context_appended: "appended (ss_db st) (ss_db (fst (bind_entry_context H i v st)))"
  unfolding bind_entry_context_def by (intro with_transaction_appended) (rule bind_context_log)

lemma submit_entry_appended: "appended (ss_db st) (ss_db (fst (submit_entry H B t q r v st)))"
  unfolding submit_entry_def by (intro with_args_appended) (auto intro!: transaction_appended entry_body_log)

lemma submit_exit_appended: "appended (ss_db st) (ss_db (fst (submit_exit H B t q n r p st)))"
  unfolding submit_exit_def by (intro with_args_appended) (auto intro!: transaction_appended exit_body_log)

lemma process_open_appended: "appended (ss_db st) (ss_db (fst (process_open H B i t v a st)))"
  unfolding process_open_def by (intro with_args_appended) (auto intro!: transaction_appended open_body_log)

lemma process_stop_appended: "appended (ss_db st) (ss_db (fst (process_intrabar_stop H B t v w st)))"
  unfolding process_intrabar_stop_def by (intro with_args_appended) (auto intro!: transaction_appended stop_body_log)

lemma set_stop_appended: "appended (ss_db st) (ss_db (fst (set_stop H B t p a r s st)))"
  unfolding set_stop_def by (intro with_transaction_appended) (rule set_stop_body_log)

lemma observe_position_appended: "appended (ss_db st) (ss_db (fst (observe_position H i hs v st)))"
  unfolding observe_position_def by (intro transaction_appended) (rule observe_body_log)

lemmas broker_appended = bind_entry_context_appended submit_entry_appended submit_exit_appended process_open_appended
  process_stop_appended set_stop_appended observe_position_appended

lemma append_event_appended: "appended (ss_db st) (ss_db (fst (store_append_event H a st)))"
  using store_call_appended [of st H "AppendEvent a"] by (simp add: result_unit_def)

lemma lease_appended:
  "appended (ss_db st) (ss_db (fst (store_acquire_cycle_lease_epoch H a st)))"
  "appended (ss_db st) (ss_db (fst (store_renew_cycle_lease H a e st)))"
  "appended (ss_db st) (ss_db (fst (store_release_cycle_lease H ow to ep st)))"
  using store_call_appended [of st H "AcquireLease a"] store_call_appended [of st H "RenewLease a e"]
    store_call_appended [of st H "ReleaseLease ow to ep"] by (simp_all add: result_unit_def)

end
