(* ===== verification/App_Alerts.thy ===== *)
theory App_Alerts
  imports App_Steps Event_Log
begin

text \<open>
  What the application leaves behind besides the account: the event log, which it only appends to,
  the alerts it sent, and its sleeps. Other processes that use the store through its operations
  append to the log as well, which is what is asked of the collaborators here.
\<close>

definition event_ids :: "store \<Rightarrow> string set" where
  "event_ids st = set (map er_event_id (db_events (ss_db st)))"

lemma appended_event_ids: "appended (ss_db st) (ss_db st1) \<Longrightarrow> event_ids st \<subseteq> event_ids st1"
  by (auto simp: event_ids_def appended_def)

definition alert_key :: "sha256 \<Rightarrow> alert \<Rightarrow> string" where
  "alert_key H a = attempt_id H (al_event_id a) (al_event_type a)"

text \<open>
  Every alert that was sent has an attempt event of its own, which is not among the first events of
  the log.
\<close>

definition alerts_recorded :: "sha256 \<Rightarrow> string set \<Rightarrow> service \<Rightarrow> bool" where
  "alerts_recorded H first s \<longleftrightarrow> first \<subseteq> event_ids (pv_store s) \<and> distinct (map (alert_key H) (pv_sent s))
     \<and> set (map (alert_key H) (pv_sent s)) \<subseteq> event_ids (pv_store s) - first"

section \<open>The two relations\<close>

text \<open>The collaborators only append: the public loads and the sleeps, while which other processes run.\<close>

definition others_append :: "app_env \<Rightarrow> bool" where
  "others_append A \<longleftrightarrow> (\<forall>t k st. appended (ss_db st) (ss_db (fst (ap_load A t k st))))
     \<and> (\<forall>loader t u k st. ap_history A = Some loader \<longrightarrow> appended (ss_db st) (ss_db (fst (loader t u k st))))
     \<and> (\<forall>d k st. appended (ss_db st) (ss_db (ap_sleep A d k st)))"

definition app_log :: "app_env \<Rightarrow> service \<Rightarrow> service \<Rightarrow> bool" where
  "app_log A s s1 \<longleftrightarrow> (others_append A \<longrightarrow> appended (ss_db (pv_store s)) (ss_db (pv_store s1))
        \<and> (\<forall>first. alerts_recorded (app_hash A) first s \<longrightarrow> alerts_recorded (app_hash A) first s1))
     \<and> (\<exists>ds. pv_slept s1 = pv_slept s @ ds \<and> (pv_delayed s1 \<longrightarrow> pv_delayed s \<or> ds \<noteq> []))"

text \<open>Quiet work: it appends to the log and neither sends nor sleeps.\<close>

definition quiet :: "service \<Rightarrow> service \<Rightarrow> bool" where
  "quiet s s1 \<longleftrightarrow> appended (ss_db (pv_store s)) (ss_db (pv_store s1)) \<and> pv_sent s1 = pv_sent s
     \<and> pv_slept s1 = pv_slept s \<and> pv_delayed s1 = pv_delayed s"

lemma quiet_log: "quiet s s1 \<Longrightarrow> app_log A s s1"
  using appended_event_ids [of "pv_store s" "pv_store s1"] by (auto simp: quiet_def app_log_def alerts_recorded_def)

lemma quiet_preorder: "preorder_rel quiet"
  by (auto simp: preorder_rel_def quiet_def intro!: reflpI transpI intro: appended_trans)

lemma app_log_preorder: "preorder_rel (app_log A)"
proof -
  have "app_log A s u" if st: "app_log A s t" and tu: "app_log A t u" for s t u
  proof -
    obtain ds where ds: "pv_slept t = pv_slept s @ ds" "pv_delayed t \<longrightarrow> pv_delayed s \<or> ds \<noteq> []"
      using st by (auto simp: app_log_def)
    obtain es where es: "pv_slept u = pv_slept t @ es" "pv_delayed u \<longrightarrow> pv_delayed t \<or> es \<noteq> []"
      using tu by (auto simp: app_log_def)
    have "pv_slept u = pv_slept s @ (ds @ es) \<and> (pv_delayed u \<longrightarrow> pv_delayed s \<or> ds @ es \<noteq> [])" using ds es by auto
    moreover have "others_append A \<longrightarrow> appended (ss_db (pv_store s)) (ss_db (pv_store u))
        \<and> (\<forall>first. alerts_recorded (app_hash A) first s \<longrightarrow> alerts_recorded (app_hash A) first u)"
      using st tu by (auto simp: app_log_def intro: appended_trans)
    ultimately show ?thesis unfolding app_log_def by blast
  qed
  moreover have "app_log A s s" for s by (simp add: app_log_def)
  ultimately show ?thesis unfolding preorder_rel_def reflp_def transp_def by blast
qed

lemma app_log_trans: "app_log A s t \<Longrightarrow> app_log A t u \<Longrightarrow> app_log A s u"
  using app_log_preorder by (meson preorder_rel_def transpD)

lemma quiet_trans: "quiet s t \<Longrightarrow> quiet t u \<Longrightarrow> quiet s u"
  using quiet_preorder by (meson preorder_rel_def transpD)

text \<open>Changes of the other fields, and of the store by a call that only appends.\<close>

lemma quiet_fields [simp]:
  "quiet s (s\<lparr>pv_ticks := n\<rparr>)" "quiet s (s\<lparr>pv_epoch := e\<rparr>)" "quiet s (s\<lparr>pv_bound := e\<rparr>)" "quiet s (s\<lparr>pv_prepared := fs\<rparr>)"
  by (simp_all add: quiet_def)

lemma quiet_store: "appended (ss_db (pv_store s)) (ss_db st) \<Longrightarrow> quiet s (s\<lparr>pv_store := st\<rparr>)"
  by (simp add: quiet_def)

lemma quiet_write: "cycle_write C (pv_store s) st \<Longrightarrow> quiet s (s\<lparr>pv_store := st\<rparr>)"
  by (rule quiet_store) (auto elim!: cycle_write.cases simp: append_event_appended broker_appended)

lemma quiet_fenced: "fenced_effect quiet C s s1 \<Longrightarrow> quiet s s1"
  by (induction rule: fenced_effect.induct) (auto simp: quiet_def)

lemma inside_quiet_pcall: "(\<And>st. appended (ss_db st) (ss_db (fst (f st)))) \<Longrightarrow> inside quiet (pcall f)"
  by (auto simp: inside_def pcall_def split: prod.split intro!: quiet_store) (metis fst_conv)

lemmas quiet_rules = inside_pdone [OF quiet_preorder] inside_pread [OF quiet_preorder] inside_pbind [OF quiet_preorder]
  inside_pcatch [OF quiet_preorder] inside_if [of quiet] inside_option [of quiet] inside_prod [of quiet]

lemma quiet_clock: "inside quiet (pclock C)" "inside quiet (app_now A)"
  by (simp_all add: inside_def pclock_def app_now_def)

lemma quiet_request: "inside quiet (lease_request C)"
  unfolding lease_request_def by (intro quiet_rules quiet_clock)

lemma inside_quiet_fields: "inside quiet m \<Longrightarrow> (\<And>s. quiet s (f s)) \<Longrightarrow> inside quiet (\<lambda>s. case m s of (s1, r) \<Rightarrow> (f s1, r))"
  by (auto simp: inside_def split: prod.split) (metis fst_conv quiet_trans)

lemma quiet_acquire: "inside quiet (acquire_lease C)"
proof -
  have "inside quiet (\<lambda>s. case epoch of None \<Rightarrow> (s, Inr False)
      | Some e \<Rightarrow> (s\<lparr>pv_epoch := Some e, pv_bound := Some e\<rparr>, Inr True))" for epoch
    by (auto simp: inside_def quiet_def split: option.split)
  then show ?thesis unfolding acquire_lease_def
    by (intro quiet_rules quiet_request inside_quiet_pcall lease_appended)
qed

lemma quiet_renew: "inside quiet (renew_lease C)"
proof (rule insideI)
  fix s
  have "inside quiet (pbind (lease_request C) (\<lambda>a.
       pbind (pcall (store_renew_cycle_lease (cx_hash C) a (VInt e))) (\<lambda>renewed s1.
       ((if renewed then s1\<lparr>pv_bound := pv_epoch s1\<rparr> else s1), Inr renewed))))" for e
  proof -
    have "inside quiet (\<lambda>s1. ((if renewed then s1\<lparr>pv_bound := pv_epoch s1\<rparr> else s1), Inr renewed))" for renewed
      by (auto simp: inside_def quiet_def)
    then show ?thesis by (intro quiet_rules quiet_request inside_quiet_pcall lease_appended)
  qed
  then show "quiet s (fst (renew_lease C s))"
    by (auto simp: renew_lease_def inside_def quiet_def split: option.split)
qed

lemma quiet_release: "inside quiet (release_lease C)"
  by (auto simp: inside_def release_lease_def pcall_def quiet_def split: option.split prod.split)
    (metis fst_conv lease_appended(3))

lemma quiet_bound: "inside quiet (renew_bound_lease A)"
proof (rule insideI)
  fix s
  have "inside quiet (pbind (app_now A) (\<lambda>now.
       pbind (pdone (safe_add now (cx_ttl (ap_base A)) ''lease expiry is outside datetime range'')) (\<lambda>expiry.
       pbind (pcall (store_renew_cycle_lease (app_hash A) \<lparr> la_owner = cx_owner (ap_base A), la_token = cx_token (ap_base A),
         la_now = TsDatetime (utc now), la_expires = TsDatetime (utc expiry) \<rparr> (VInt e))) (\<lambda>renewed.
       pdone (if renewed then Inr ()
         else Inl (CycleLeaseLostError ''paper cycle lease was lost during public candle work''))))))" for e
    by (intro quiet_rules quiet_clock inside_quiet_pcall lease_appended)
  then show "quiet s (fst (renew_bound_lease A s))"
    by (auto simp: renew_bound_lease_def Let_def inside_def quiet_def split: option.split)
qed

section \<open>Delivery of an alert\<close>

text \<open>An attempt that is newly claimed was not in the log, and is.\<close>

lemma append_event_ids:
  assumes "store_append_event H a st = (st1, Inr n)"
  shows "ea_event_id a \<notin> event_ids st" "ea_event_id a \<in> event_ids st1"
proof -
  obtain en where en: "normalize_event a = Inr en"
    using assms by (auto simp: store_append_event_def with_args_def split: sum.splits)
  then have id: "en_event_id en = ea_event_id a" by (auto simp: normalize_event_def nonempty_text_def split: if_splits)
  obtain cur d1 where b: "append_event_body H en cur (ss_db st) = Inr (d1, n)" "ss_db st1 = d1"
    using assms en
    by (auto simp: store_append_event_def with_args_def transact_def commit_def mutation_def split: sum.splits)
  obtain d2 where d2: "insert_event (en_event_id en) (en_event_type en) (en_text en) (en_payload en) (ss_db st) = Inr (d2, n)"
    "refresh_snapshot H (en_text en) d2 = Inr d1"
    using b(1) by (auto simp: append_event_body_def)
  from refresh_snapshot_Inr [OF d2(2)] have "db_events d1 = db_events d2" by auto
  then show "ea_event_id a \<notin> event_ids st" "ea_event_id a \<in> event_ids st1"
    using insert_event_Inr [OF d2(1)] b(2) id by (simp_all add: event_ids_def)
qed

lemma append_once_new:
  assumes "append_exact_once H i ty t p s = (s1, Inr True)"
  shows "i \<notin> event_ids (pv_store s)" "i \<in> event_ids (pv_store s1)"
proof -
  obtain a st n where "store_append_event H a (pv_store s) = (st, Inr n)" "ea_event_id a = i" "pv_store s1 = st"
    using assms
    by (auto simp: append_exact_once_def pbind_def pread_def pdone_def pcatch_def pcall_def split: sum.splits prod.splits if_splits)
  then show "i \<notin> event_ids (pv_store s)" "i \<in> event_ids (pv_store s1)"
    using append_event_ids [of H a "pv_store s" st n] by auto
qed

lemma quiet_append_once: "inside quiet (append_exact_once H i ty t p)"
  by (intro inside_append_once quiet_preorder inside_quiet_pcall append_event_appended)

text \<open>What is asked of the boundary: quiet work stays quiet, and a result is that of the work on the store.\<close>

definition good_boundary :: "boundary \<Rightarrow> bool" where
  "good_boundary around \<longleftrightarrow> (\<forall>m. inside quiet m \<longrightarrow> inside quiet (around m))
     \<and> (\<forall>m s s1 x. around m s = (s1, Inr x) \<longrightarrow> (\<exists>t t1. pv_store t = pv_store s \<and> m t = (t1, Inr x)
          \<and> ss_db (pv_store s1) = ss_db (pv_store t1)))"

lemma fenced_at_result:
  assumes "reads_clock C clock" and "fenced_at C clock e work s = (s1, Inr x)"
  shows "\<exists>t t1. pv_store t = pv_store s \<and> work t = (t1, Inr x) \<and> ss_db (pv_store s1) = ss_db (pv_store t1)"
proof -
  obtain r where r: "clock s = (s\<lparr>pv_ticks := Suc (pv_ticks s)\<rparr>, r)" using assms(1) by (auto simp: reads_clock_def)
  then obtain now where c: "clock s = (s\<lparr>pv_ticks := Suc (pv_ticks s)\<rparr>, Inr now)"
    using assms(2) by (cases r) (simp_all add: fenced_at_def pbind_def)
  let ?t = "s\<lparr>pv_ticks := Suc (pv_ticks s)\<rparr>"
  obtain st s2 where f: "store_cycle_lease_transaction (cx_hash C) (cx_owner C) (cx_token C) (VInt e) (TsDatetime (utc now))
      (work_on work ?t) (pv_store ?t) = (st, Inr (s2, x))" "s1 = s2\<lparr>pv_store := st\<rparr>"
    using assms(2) c by (auto simp: fenced_at_def pbind_def split: sum.splits prod.splits)
  from fenced_commit [OF f(1)] have "work_on work ?t (ss_db (pv_store s)) = Inr (ss_db st, s2, x)" by simp
  then have "work ?t = (s2, Inr x)" "ss_db (pv_store s2) = ss_db st"
    by (auto simp: work_on_def split: prod.splits sum.splits)
  then show ?thesis using f(2) by (intro exI [of _ ?t] exI [of _ s2]) simp
qed

lemma good_boundaryI:
  assumes "\<And>m s. inside quiet m \<Longrightarrow> fenced_effect quiet C s (fst (around m s))"
    and "\<And>m s s1 x. around m s = (s1, Inr x) \<Longrightarrow> \<exists>clock e. reads_clock C clock \<and> fenced_at C clock e m s = (s1, Inr x)"
  shows "good_boundary around"
  unfolding good_boundary_def
proof (intro conjI allI impI)
  show "inside quiet (around m)" if "inside quiet m" for m
    using assms(1) [OF that] by (intro insideI quiet_fenced)
  show "\<exists>t t1. pv_store t = pv_store s \<and> m t = (t1, Inr x) \<and> ss_db (pv_store s1) = ss_db (pv_store t1)"
    if result: "around m s = (s1, Inr x)" for m s s1 x
  proof -
    obtain clock e where "reads_clock C clock" "fenced_at C clock e m s = (s1, Inr x)" using assms(2) [OF result] by blast
    then show ?thesis by (rule fenced_at_result)
  qed
qed

lemma good_fenced: "good_boundary (fenced_cycle C)"
proof (rule good_boundaryI)
  show "\<exists>clock e. reads_clock C clock \<and> fenced_at C clock e m s = (s1, Inr x)"
    if "fenced_cycle C m s = (s1, Inr x)" for m s s1 x
    using that reads_pclock by (auto simp: fenced_cycle_def split: option.splits)
qed (rule fenced_cycle_effect)

lemma good_bound: "good_boundary (bound_transaction A)"
proof (rule good_boundaryI)
  show "\<exists>clock e. reads_clock (app_service A) clock \<and> fenced_at (app_service A) clock e m s = (s1, Inr x)"
    if "bound_transaction A m s = (s1, Inr x)" for m s s1 x
    using that reads_app_now by (auto simp: bound_transaction_def split: option.splits)
qed (rule bound_transaction_effect)

lemma deliver_log:
  assumes "good_boundary around"
  shows "app_log A s (fst (deliver_alert_once (app_hash A) around n i ty p t s))"
proof -
  let ?H = "app_hash A"
  let ?claim = "\<lambda>l. pbind (pread (require_durable_source ?H i ty p)) (\<lambda>_. claim_attempt ?H (attempt_id ?H i ty) (attempt_marker i ty) l)"
  let ?a = "\<lparr> al_event_id = i, al_event_type = ty, al_payload = p \<rparr>"
  let ?fail = "\<lambda>l. pbind (pcatch (\<lambda>_. True) (around (append_exact_once ?H (failure_id ?H i ty) ''ALERT_FAILURE'' l (failure_marker i ty)))
           (pdone (Inr False))) (\<lambda>_. pdone (Inr (Some False)))"
  have quiet_around: "inside quiet (around m)" if "inside quiet m" for m
    using assms that by (simp add: good_boundary_def)
  have q: "inside quiet (around (?claim l))" for l
    unfolding claim_attempt_def by (intro quiet_around quiet_rules quiet_append_once)
  have qf: "inside quiet (?fail l)" for l by (intro quiet_rules quiet_around quiet_append_once)
  have refl: "app_log A s s" by (simp add: app_log_def)
  have claimed: "app_log A s (fst (pbind (around (?claim l)) (\<lambda>claimed. if \<not> claimed then pdone (Inr None)
     else pbind (send_alert n ?a) (\<lambda>delivered. if delivered then pdone (Inr (Some True)) else ?fail l)) s))" for l
  proof -
    obtain s1 r where r: "around (?claim l) s = (s1, r)" by force
    have qs: "quiet s s1" using q r by (rule insideD)
    show ?thesis
    proof (cases "r = Inr True")
      case False
      then show ?thesis using r quiet_log [OF qs] by (auto simp: pbind_def pdone_def split: sum.split)
    next
      case True
      obtain u u1 where u: "pv_store u = pv_store s" "?claim l u = (u1, Inr True)" "ss_db (pv_store s1) = ss_db (pv_store u1)"
        using assms r True unfolding good_boundary_def by blast
      then have "claim_attempt ?H (attempt_id ?H i ty) (attempt_marker i ty) l u = (u1, Inr True)"
        by (auto simp: pbind_def pread_def split: sum.splits)
      then have "append_exact_once ?H (attempt_id ?H i ty) ''ALERT_ATTEMPT'' l (attempt_marker i ty) u = (u1, Inr True)"
        by (simp add: claim_attempt_def)
      from append_once_new [OF this]
      have new: "attempt_id ?H i ty \<notin> event_ids (pv_store s)" "attempt_id ?H i ty \<in> event_ids (pv_store s1)"
        using u(1,3) by (simp_all add: event_ids_def)
      let ?s2 = "s1\<lparr>pv_sent := pv_sent s1 @ [?a]\<rparr>"
      have "alerts_recorded ?H first ?s2" if "alerts_recorded ?H first s" for first
        using that new qs appended_event_ids [of "pv_store s" "pv_store s1"]
        by (auto simp: alerts_recorded_def quiet_def alert_key_def)
      then have s2: "app_log A s ?s2" using quiet_log [OF qs, of A] by (auto simp: app_log_def)
      have "quiet ?s2 (fst (?fail l ?s2))" using qf by (simp add: inside_def)
      then have "app_log A s (fst (?fail l ?s2))" using app_log_trans [OF s2] quiet_log by blast
      then show ?thesis using r True s2 by (auto simp: pbind_def send_alert_def pdone_def split: sum.split)
    qed
  qed
  show ?thesis
    using refl claimed
    by (auto simp: deliver_alert_once_def ensure_def pbind_def [of "pdone x" for x] pdone_def split: sum.split)
qed

section \<open>The application\<close>

lemma app_log_load:
  assumes "others_append A \<Longrightarrow> appended (ss_db (pv_store s)) (ss_db st)" and "pv_slept s1 = pv_slept s @ ds"
    and "pv_delayed s1 \<Longrightarrow> pv_delayed s \<or> ds \<noteq> []" and "pv_store s1 = st" and "pv_sent s1 = pv_sent s"
  shows "app_log A s s1"
  using assms appended_event_ids [of "pv_store s" st] by (auto simp: app_log_def alerts_recorded_def)

lemma notify_log:
  assumes "good_boundary around" shows "app_log A s (fst (notify_event A around e s))"
proof -
  have "inside (app_log A) (notify_event A around e)"
    by (intro inside_notify app_log_preorder insideI deliver_log assms)
  then show ?thesis by (simp add: inside_def)
qed

interpretation app_logs: app_relation A "app_log A" quiet for A
proof
  show "preorder_rel (app_log A)" by (rule app_log_preorder)
  show "preorder_rel quiet" by (rule quiet_preorder)
  show "app_log A s (fst (acquire_lease (app_service A) s))" for s
    using quiet_acquire by (intro quiet_log) (simp add: inside_def)
  show "app_log A s (fst (renew_lease (app_service A) s))" for s
    using quiet_renew by (intro quiet_log) (simp add: inside_def)
  show "app_log A s (fst (release_lease (app_service A) s))" for s
    using quiet_release by (intro quiet_log) (simp add: inside_def)
  show "app_log A s (fst (renew_bound_lease A s))" for s
    using quiet_bound by (intro quiet_log) (simp add: inside_def)
  show "app_log A s (s\<lparr>pv_store := fst (ap_load A t (pv_ticks s) (pv_store s))\<rparr>)" for s t
    by (rule app_log_load) (auto simp: others_append_def)
  show "app_log A s (s\<lparr>pv_store := fst (loader t u (pv_ticks s) (pv_store s))\<rparr>)"
    if "ap_history A = Some loader" for loader t u s
    using that by (intro app_log_load) (auto simp: others_append_def)
  show "app_log A s (fst (app_sleep A d s))" for s d
    by (rule app_log_load [where ds = "[d]"]) (auto simp: others_append_def app_sleep_def)
  show "app_log A s ((fst (app_sleep A d s))\<lparr>pv_delayed := True\<rparr>)" for s d
    by (rule app_log_load [where ds = "[d]"]) (auto simp: others_append_def app_sleep_def)
  show "app_log A s (s\<lparr>pv_delayed := False\<rparr>)" for s
    by (rule app_log_load) auto
  show "app_log A s (fst (notify_event A (bound_transaction A) e s))" for e s
    by (rule notify_log) (rule good_bound)
  show "app_log A s (fst (notify_event A (fenced_cycle (app_service A)) e s))" for e s
    by (rule notify_log) (rule good_fenced)
  show "app_log A s s1" if "fenced_effect quiet (app_service A) s s1" for s s1
    using that by (intro quiet_log quiet_fenced)
qed (simp_all add: quiet_log quiet_fenced quiet_write)


text \<open>
  C5: an iteration that raises has slept. Whatever the exception, one call of the loop that ends in
  one sleeps at least once before the next, so that a fault which persists does not make the loop
  spin.
\<close>

theorem failing_iteration_sleeps:
  "case app_iteration fuel A s of Some (s1, Inl e) \<Rightarrow> \<exists>ds. ds \<noteq> [] \<and> pv_slept s1 = pv_slept s @ ds | _ \<Rightarrow> True"
proof (cases "app_iteration fuel A s")
  case (Some p)
  show ?thesis
  proof (cases "\<exists>s1 e. p = (s1, Inl e)")
    case True
    then obtain s1 e where p: "p = (s1, Inl e)" by blast
    then obtain u where u: "app_run_once fuel A s = Some (u, Inl e)"
        "s1 = (if pv_delayed u then u else fst (app_sleep A (flit 300 1) u))"
      using Some by (auto simp: app_iteration_def split: option.splits sum.splits if_splits)
    let ?s = "s\<lparr>pv_delayed := False\<rparr>"
    have "app_run_once fuel A ?s = app_run_once fuel A s"
      by (simp add: app_run_once_def run_prelude_def pbind_def set_delayed_def)
    then have "app_log A ?s u" using app_logs.run_once_inside u(1) by metis
    then obtain ds where ds: "pv_slept u = pv_slept s @ ds" "pv_delayed u \<longrightarrow> ds \<noteq> []" by (auto simp: app_log_def)
    then show ?thesis using Some p u(2) by (auto simp: app_sleep_def split: if_splits)
  qed (use Some in \<open>auto split: sum.split\<close>)
qed simp

end
