(* ===== verification/App_Frames.thy ===== *)
theory App_Frames
  imports App_Alerts
begin

text \<open>
  What the observed candle source hands to the service, and what it records when it has nothing to
  hand over.
\<close>

section \<open>Validated frames\<close>

definition full_row :: "row \<Rightarrow> bool" where
  "full_row r \<longleftrightarrow> list_all (\<lambda>k. case r k of None \<Rightarrow> False | Some v \<Rightarrow> \<not> is_na v) FRAME_COLUMNS"

lemma canonical_rows_Inr:
  assumes "canonical_rows expected latest f = Inr g"
  shows "map fst g = expected \<and> list_all (\<lambda>p. full_row (snd p)) g"
proof -
  have f: "map fst f = expected" "list_all (\<lambda>p. list_all (\<lambda>k. snd p k \<noteq> None) FRAME_COLUMNS) f"
      "list_all (\<lambda>p. list_all (\<lambda>k. \<not> is_na (row_get (snd p) k)) FRAME_COLUMNS) f"
      "g = map (\<lambda>(t, r). (t, only_columns r)) f"
    using assms by (auto simp: canonical_rows_def)
  have "full_row (only_columns r)"
    if "list_all (\<lambda>k. r k \<noteq> None) FRAME_COLUMNS" "list_all (\<lambda>k. \<not> is_na (row_get r k)) FRAME_COLUMNS" for r
    using that by (auto simp: full_row_def only_columns_def FRAME_COLUMNS_def row_get_def split: option.split)
  then show ?thesis using f by (auto simp: list_all_iff comp_def case_prod_unfold)
qed

lemma validated_public_Inr:
  assumes "validated_public_frame C v start end_at = Inr g"
  shows "map fst g = four_hour_range start (end_at - PaperData.FOUR_HOURS) \<and> list_all (\<lambda>p. full_row (snd p)) g"
proof (cases v)
  case (Table t)
  obtain latest canonical where "dt_add end_at (- PaperData.FOUR_HOURS) = Inr latest"
    "canonical_rows (four_hour_range start latest) latest canonical = Inr g"
    using assms by (auto simp: validated_public_frame_def Table)
  then show ?thesis using canonical_rows_Inr by (auto simp: dt_add_def split: if_splits)
qed (use assms in \<open>simp add: validated_public_frame_def\<close>)

lemma validated_paper_Inr:
  assumes "validated_paper_frame C v end_at = Inr g"
  shows "map fst g = four_hour_range (end_at - hours (4 * PAPER_HISTORY_BARS)) (end_at - PaperData.FOUR_HOURS)
    \<and> length g = 601 \<and> list_all (\<lambda>p. full_row (snd p)) g"
proof -
  have "validated_public_frame C v (end_at - hours (4 * PAPER_HISTORY_BARS)) end_at = Inr g"
    using assms by (auto simp: validated_paper_frame_def dt_add_def split: if_splits)
  from validated_public_Inr [OF this] have g: "map fst g
      = four_hour_range (end_at - hours (4 * PAPER_HISTORY_BARS)) (end_at - PaperData.FOUR_HOURS)"
    "list_all (\<lambda>p. full_row (snd p)) g" by simp_all
  have "length (map fst g) = 601"
    unfolding g(1) by (simp add: four_hour_range_def PAPER_HISTORY_BARS_def PaperData.FOUR_HOURS_def hours_def)
  then have "length g = 601" by (metis length_map)
  then show ?thesis using g by simp
qed

section \<open>The evidence of a load\<close>

text \<open>An event that is found is in the log.\<close>

lemma evidence_ids:
  assumes "load_snapshot H st = Inr s" shows "sv_event_id ` set (pn_event_evidence s) = event_ids st"
proof -
  have v: "replay_and_verify H (ss_db st) = Inr s" using assms by (simp add: load_snapshot_def)
  from replay_and_verify_Inr [OF v] obtain r where r: "replay_rows H (sort_key er_sequence (db_events (ss_db st))) = Inr r"
    "s = snapshot_from_components (rp_ledger r) (if rp_evidence r = [] then 0 else sv_sequence (last (rp_evidence r)))
          (rp_evidence r) (rp_digest r)" by blast
  have "map sv_event_id (pn_event_evidence s) = map er_event_id (sort_key er_sequence (db_events (ss_db st)))"
    using replay_rows_evidence [OF r(1)] by (simp add: r(2) snapshot_from_components_def Let_def)
  then have "set (map sv_event_id (pn_event_evidence s)) = set (map er_event_id (db_events (ss_db st)))" by simp
  then show ?thesis by (simp add: event_ids_def)
qed

lemma event_by_id_ids: "event_by_id H i st = Inr e \<Longrightarrow> i \<in> event_ids st"
proof -
  assume "event_by_id H i st = Inr e"
  then obtain s where s: "load_snapshot H st = Inr s" "(case matching_events i s of [] \<Rightarrow> Inr None
       | [e] \<Rightarrow> Inr (Some e) | _ \<Rightarrow> Inl (StoreError ''event identity is duplicated'')) = Inr (Some e)"
    by (auto simp: event_by_id_def find_event_def split: option.split_asm)
  from s(2) have "e \<in> set (matching_events i s)" by (simp split: list.split_asm)
  then have "i \<in> sv_event_id ` set (pn_event_evidence s)" by (auto simp: matching_events_def)
  then show ?thesis using evidence_ids [OF s(1)] by simp
qed

text \<open>A delivery only appends, whatever it sends.\<close>

definition grown :: "service \<Rightarrow> service \<Rightarrow> bool" where
  "grown s s1 \<longleftrightarrow> appended (ss_db (pv_store s)) (ss_db (pv_store s1))"

lemma grown_preorder: "preorder_rel grown"
  by (auto simp: preorder_rel_def grown_def intro!: reflpI transpI intro: appended_trans)

lemma notify_grown: "grown s (fst (notify_event A (bound_transaction A) e s))"
proof -
  have fenced: "fenced_effect grown C s s1 \<Longrightarrow> grown s s1" for C s s1
    by (induction rule: fenced_effect.induct) (auto simp: grown_def)
  have call: "inside grown (pcall (store_append_event H a))" for H a
    using append_event_appended by (auto simp: inside_def pcall_def grown_def split: prod.split) (metis fst_conv)
  have "inside grown (bound_transaction A m)" if "inside grown m" for m :: "bool proc"
    by (intro insideI fenced [of "app_service A"] bound_transaction_effect that)
  moreover have "inside grown (send_alert n a)" for n a by (simp add: inside_def send_alert_def grown_def)
  ultimately have "inside grown (notify_event A (bound_transaction A) e)"
    by (intro inside_notify inside_deliver [where W = grown] grown_preorder call)
  then show ?thesis by (simp add: inside_def)
qed

lemma observe_recorded:
  assumes "observe_outcome A m t u o1 s = (s1, Inr x)" shows "public_event_id t u o1 \<in> event_ids (pv_store s1)"
proof -
  obtain e s2 where e: "persist_observation A m t u o1 s = (s2, Inr e)"
      "notify_event A (bound_transaction A) e s2 = (s1, Inr x)"
    using assms by (auto simp: observe_outcome_def dest!: pbind_Inr)
  then have "public_event_id t u o1 \<in> event_ids (pv_store s2)"
    by (auto simp: persist_observation_def Let_def pread_def dest!: pbind_Inr event_by_id_ids)
  moreover have "event_ids (pv_store s2) \<subseteq> event_ids (pv_store s1)"
    using notify_grown [of s2 A e] e(2) by (auto simp: grown_def dest!: appended_event_ids)
  ultimately show ?thesis by blast
qed

lemma prepared_parts:
  assumes "prepare_candles A v s = (s1, Inr f)"
  obtains end_at observed t t1 m g raw where "paper_end v = Inr end_at"
    "validated_paper_frame (ap_base A) raw end_at = Inr g"
    "observe_outcome A m end_at observed ''success'' t = (t1, Inr ())" "f = Candles g"
    "s1 = t1\<lparr>pv_prepared := (end_at, Candles g) # filter (\<lambda>p. fst p \<noteq> end_at) (pv_prepared t1)\<rparr>"
proof -
  obtain end_at observed s2 m s3 r where a: "paper_end v = Inr end_at" "app_now A s = (s2, Inr observed)"
    "from_store (app_hash A) (pv_store s2) = Inr m"
    "outcome_of (pbind (public_call (ap_load A end_at)) (\<lambda>raw. pdone (validated_paper_frame (ap_base A) raw end_at))) s2 = (s3, Inr r)"
    "(case r of Inl e \<Rightarrow>
         pbind (pdone (record_failure e end_at observed m)) (\<lambda>m1.
         pbind (observe_outcome A m1 end_at observed (failure_outcome e)) (\<lambda>_. pdone (Inl e)))
     | Inr f \<Rightarrow>
         pbind (pdone (record_success end_at observed m)) (\<lambda>m1.
         pbind (observe_outcome A m1 end_at observed ''success'') (\<lambda>_ s.
         (s\<lparr>pv_prepared := (end_at, Candles f) # filter (\<lambda>p. fst p \<noteq> end_at) (pv_prepared s)\<rparr>, Inr (Candles f))))) s3 = (s1, Inr f)"
    using assms unfolding prepare_candles_def by (auto simp: pread_def dest!: pbind_Inr)
  obtain g where r: "r = Inr g" using a(5) by (cases r) (auto dest!: pbind_Inr)
  obtain raw where raw: "validated_paper_frame (ap_base A) raw end_at = Inr g"
    using a(4) unfolding r by (auto simp: outcome_of_def pbind_def pdone_def split: prod.splits sum.splits)
  obtain m1 t1 where "observe_outcome A m1 end_at observed ''success'' s3 = (t1, Inr ())" "f = Candles g"
      "s1 = t1\<lparr>pv_prepared := (end_at, Candles g) # filter (\<lambda>p. fst p \<noteq> end_at) (pv_prepared t1)\<rparr>"
    using a(5) unfolding r by (auto dest!: pbind_Inr)
  then show thesis using that a(1) raw by blast
qed

text \<open>
  C6: candles reach the service only in full and after they were recorded. A frame that the source
  prepares for an end is the one that is kept for it and handed over: its candles are the 601 four-hour candles before that end,
  without a gap and in order, each with its five values present; and the success of the load is an
  event of the log by then.
\<close>

theorem prepared_frame_exact:
  "case prepare_candles A v s of
     (s1, Inr f) \<Rightarrow> (\<exists>end_at observed g. paper_end v = Inr end_at \<and> f = Candles g \<and> map_of (pv_prepared s1) end_at = Some f
       \<and> map fst g = four_hour_range (end_at - hours (4 * PAPER_HISTORY_BARS)) (end_at - PaperData.FOUR_HOURS)
       \<and> length g = 601 \<and> list_all (\<lambda>p. full_row (snd p)) g
       \<and> public_event_id end_at observed ''success'' \<in> event_ids (pv_store s1))
   | _ \<Rightarrow> True"
proof (cases "\<exists>s1 f. prepare_candles A v s = (s1, Inr f)")
  case True
  then obtain s1 f where f: "prepare_candles A v s = (s1, Inr f)" by blast
  then obtain end_at observed t t1 m g raw where p: "paper_end v = Inr end_at"
      "validated_paper_frame (ap_base A) raw end_at = Inr g"
      "observe_outcome A m end_at observed ''success'' t = (t1, Inr ())" "f = Candles g"
      "s1 = t1\<lparr>pv_prepared := (end_at, Candles g) # filter (\<lambda>p. fst p \<noteq> end_at) (pv_prepared t1)\<rparr>"
    by (rule prepared_parts)
  show ?thesis
    using f p(1,4,5) observe_recorded [OF p(3)] validated_paper_Inr [OF p(2)] by auto
qed (auto split: sum.split prod.split)

section \<open>A load that fails\<close>

lemma observed_halts: "observe m u = (m1, r) \<Longrightarrow> derive_reasons u \<noteq> [] \<Longrightarrow> ha_halt_entries (current_action m1)"
  by (auto simp: observe_def finish_observation_def current_action_def action_of_def settle_def Let_def)

lemma schema_halts: "record_schema_check (VBool False) (utc t) m = (m1, r) \<Longrightarrow> ha_halt_entries (current_action m1)"
  by (rule observed_halts [of m "schema_check False t (hm_snapshot m)" m1 r])
    (auto simp: record_schema_check_def at_time_def utc_datetime_def derive_reasons_def filter_empty_conv
      HEALTH_REASON_ORDER_def reason_active_def schema_check_def seen_def)

lemma timestamp_halts: "record_timestamp_check (VBool False) (utc t) m = (m1, r) \<Longrightarrow> ha_halt_entries (current_action m1)"
  by (rule observed_halts [of m "timestamp_check False t (hm_snapshot m)" m1 r])
    (auto simp: record_timestamp_check_def at_time_def utc_datetime_def derive_reasons_def filter_empty_conv
      HEALTH_REASON_ORDER_def reason_active_def timestamp_check_def seen_def)

lemma candle_halts:
  assumes "record_candle_check (utc e) None (utc t) (VBool True) m = (m1, Inr a)" and "e + STALE_AFTER \<le> t"
  shows "ha_halt_entries (current_action m1)"
proof (rule observed_halts)
  show "observe m (candle_check False True t (hm_snapshot m)) = (m1, Inr a)"
    using assms by (auto simp: record_candle_check_def at_time_def utc_datetime_def optional_utc_datetime_def
        candle_valid_def dt_add_def split: if_splits)
  show "derive_reasons (candle_check False True t (hm_snapshot m)) \<noteq> []"
    by (auto simp: derive_reasons_def filter_empty_conv HEALTH_REASON_ORDER_def reason_active_def candle_check_def seen_def)
qed

lemma recording_Inr: "recording f m = Inr m1 \<Longrightarrow> \<exists>a. f m = (m1, Inr a)"
  by (auto simp: recording_def split: prod.splits sum.splits)

text \<open>
  C7: candles that cannot be used halt the account. The observation of a load that failed because of
  the form of its frame, its times or its missing candle, made when the candle has matured, leaves a
  monitor that halts entries.
\<close>

theorem failed_load_halts:
  assumes "schema_fault e" and "end_at + STALE_AFTER \<le> observed" and "record_failure e end_at observed m = Inr m1"
  shows "ha_halt_entries (current_action m1)"
proof (cases "(\<exists>x. e = CandleTimestampError x) \<or> (\<exists>x. e = CandleLatestError x)")
  case True
  then show ?thesis
    using assms(2,3) timestamp_halts candle_halts by (auto simp: record_failure_def dest!: recording_Inr)
next
  case False
  then have "record_failure e end_at observed = recording (record_schema_check (VBool False) (utc observed))"
    using assms(1) by (cases e) (auto simp: record_failure_def schema_fault_def)
  then show ?thesis using assms(3) schema_halts by (auto dest!: recording_Inr)
qed

end
