(* ===== verification/App_Samples.thy ===== *)
theory App_Samples
  imports App_Frames
begin

text \<open>
  A small application on which the properties of the loop are evaluated: the public loader returns
  something that is no frame, nothing else touches the store, and the store was never opened, so
  that every iteration raises in its first checks.
\<close>

definition sample_app :: app_env where
  "sample_app = \<lparr> ap_base = \<lparr> cx_hash = sample_sha, cx_broker = \<lparr> br_fee_rate = 0, br_slippage_rate = 0,
        br_fault_hook = (\<lambda>_. None) \<rparr>, cx_owner = ''worker'', cx_token = ''token'', cx_ttl = minutes 5,
        cx_strategy = StrategyConfig, cx_risk = RiskConfig, cx_costs = CostConfig,
        cx_clock = (\<lambda>k. utc (int k * hours 4)), cx_load = (\<lambda>_ s. (s, Inr NotFrame)), cx_history = None,
        cx_canonical = (\<lambda>_ _. Inl (ValueError ''no frame'')), cx_enrich = (\<lambda>_ f. Inr f), cx_fault = (\<lambda>_. None) \<rparr>,
      ap_load = (\<lambda>_ _ st. (st, Inr NotTable)), ap_history = None, ap_notifier = Some null_notifier,
      ap_sleep = (\<lambda>_ _ st. st) \<rparr>"

definition sample_process :: service where
  "sample_process = \<lparr> pv_store = \<lparr> ss_db = sample_empty_db, ss_initialized = False, ss_closed = True, ss_read_only = False \<rparr>,
     pv_epoch = None, pv_bound = None, pv_ticks = 0, pv_prepared = [], pv_sent = [], pv_slept = [], pv_delayed = False \<rparr>"





lemma sample_app_fields [simp]: "app_hash sample_app = sample_sha" "cx_clock (ap_base sample_app) 0 = utc 0"
    "ap_sleep sample_app d k st = st" "pv_ticks sample_process = 0" "pv_slept sample_process = []"
    "ss_closed (pv_store sample_process)" "pv_sent sample_process = []"
  by (simp_all add: sample_app_def sample_process_def)






text \<open>A load whose latest candle is missing, observed when the candle has matured.\<close>

theorem failed_load_halts_witness:
  "\<exists>m. record_failure (CandleLatestError []) 0 (minutes 10) \<lparr> hm_snapshot = healthy, hm_pending_fill_recovery = None \<rparr> = Inr m
    \<and> ha_halt_entries (current_action m)"
proof -
  let ?r = "record_failure (CandleLatestError []) 0 (minutes 10) \<lparr> hm_snapshot = healthy, hm_pending_fill_recovery = None \<rparr>"
  have "is_ok ?r"
    by (simp add: record_failure_def recording_def record_candle_check_def at_time_def utc_datetime_def optional_utc_datetime_def
        candle_valid_def dt_add_def in_dt_range_def dt_min_def dt_max_def STALE_AFTER_def minutes_def observe_def
        finish_observation_def is_ok_def Let_def)
  then obtain m where m: "?r = Inr m" by (auto simp: is_ok_def split: sum.splits)
  have "ha_halt_entries (current_action m)"
    by (rule failed_load_halts [OF _ _ m]) (simp_all add: schema_fault_def STALE_AFTER_def minutes_def)
  then show ?thesis using m by blast
qed

end
