(* ===== verification/Spec2Isabelle.thy ===== *)
theory Spec2Isabelle
  imports Sizer_Correct Breakers_Correct Engine_Correct RiskState_Correct Scheduler_Correct
    Store_Correct Lease_Correct Encoding_Correct Health_Correct Health_Restart Health_Samples
    Paper_Ledger_Correct Paper_Trades Paper_Read_Back Paper_Broker_Correct
    Service_Steps Service_Once Service_Safety Service_Restart
    App_Steps App_Alerts App_Frames App_Samples
begin

text \<open>
  autoBit: a verification development of the trading core under \<open>src/autobit\<close>.

  The program trades KRW-BTC on four-hour candles. A completed candle reaches the paper
  service through the scheduler; the risk account (\<open>core/risk_state.py\<close>) turns the equity and
  the closed trades into a risk decision with the breakers (\<open>risk/breakers.py\<close>); the strategy
  engine (\<open>core/engine.py\<close>) turns the candle's row, the position and the risk decision into one
  order with the strategy (\<open>strategy/donchian_trend.py\<close>) and the sizer
  (\<open>risk/position_sizer.py\<close>); and every order, fill and status change is an immutable event of
  the store (\<open>persistence/sqlite_store.py\<close>), whose replay is the ledger and whose cycle lease
  keeps two processes from trading at once. The paper service (\<open>paper/service.py\<close>) composes them: one
  call for a completed candle acquires the lease, fills and protects what is due at the open,
  observes the position, decides and submits, and records its completion.

  The embedded language. \<open>Prelude\<close> has the exceptions as values and the sequencing of code that
  may raise. \<open>Rounding\<close> and \<open>Scaled\<close> have correctly rounded arithmetic on scaled integers;
  \<open>PyFloat\<close> is binary64 with infinities and NaN on top of it, \<open>PyDecimal\<close> the 28-digit decimals
  of Python with \<open>Decimal(str(x))\<close>. Negative zero is identified with zero, which the modelled
  code never distinguishes. \<open>PyValue\<close> has the values of unchecked arguments, \<open>PyTime\<close> datetimes
  as microseconds with their range, \<open>PyIso\<close> their ISO texts, \<open>PyText\<close> the string methods, and
  \<open>PyJson\<close> JSON with its canonical form. A stored JSON text is known by the value it reads as and
  whether it is the compact text of that value.

  The components and their theories:
  \<^item> \<open>Config\<close>, \<open>Domain\<close>: the configuration records and the order and position states;
  \<^item> \<open>Sizer\<close>, \<open>Sizer_Correct\<close>: \<open>calculate_size\<close>; it returns on every input, its quantity is the
    least of the caps, respects every budget and is monotone;
  \<^item> \<open>Breakers\<close>, \<open>Breakers_Correct\<close>: \<open>evaluate_risk\<close>; its limits are bounded, trading is open
    exactly when nothing halts, and the end of a halt is exact;
  \<^item> \<open>Strategy\<close>, \<open>Engine\<close>, \<open>Engine_Correct\<close>: the entry, exit and stop rules and the policy over
    them; the priority of exits, the ratchet of the stop, the safety of entries;
  \<^item> \<open>RiskState\<close>, \<open>RiskState_Correct\<close>: \<open>advance_risk_state\<close>; the locale \<open>event_halt\<close> states the
    contract of the four halts and is interpreted for each; cooling off, the invariant of the
    account, and the exact condition under which an advance fails;
  \<^item> \<open>Scheduler\<close>, \<open>Scheduler_Correct\<close>: \<open>PaperScheduler\<close> with the clock, the service and the delay
    provider of a call as its environment; no candle is skipped or processed twice. The wait is a
    loop over the clock readings of the environment, which may end before it does; then the
    result is \<open>None\<close>;
  \<^item> \<open>StoreSchema\<close>, \<open>Store\<close>, \<open>StoreOps\<close>: the schema checks, the rows with the replay, and the
    calls with their transactions; SHA-256 is the parameter \<open>sha256\<close>;
  \<^item> \<open>Ledger_Correct\<close>, \<open>Store_History\<close>, \<open>Store_Runs\<close>, \<open>Store_Correct\<close>: the invariant of the
    replayed ledger, what each call does to the history, runs of calls from the created store, and
    the properties: soundness of every run, atomicity, idempotence, finality of terminal orders;
  \<^item> \<open>Lease_Correct\<close>: fencing, mutual exclusion and admission of the cycle lease;
  \<^item> \<open>Encoding_Correct\<close>: the round trips of timestamps, decimals and canonical JSON;
  \<^item> \<open>HealthState\<close>, \<open>HealthMonitor\<close>: \<open>paper/health.py\<close>, the snapshot with its parser and
    validator, the observations of the monitor, the projection of the stored events, and the
    monitor over the store (\<open>from_store\<close>, \<open>persist\<close>). The subclass \<open>EmptyHealthEventError\<close> is the
    value of \<open>HealthStateError\<close> with its message;
  \<^item> \<open>Health_Numbers\<close>, \<open>Health_Inv\<close>, \<open>Health_Parse\<close>: the invariant of the snapshot, as a step
    relation over settled updates, and the reading of what is written;
  \<^item> \<open>Health_Correct\<close>, \<open>Health_Restart\<close>, \<open>Health_Store\<close>, \<open>Health_Samples\<close>: faults halt entries,
    the stages move in their order, recovery completes, and a restart rebuilds the monitor, alone
    and through the store; with the exceptions the code has (a failure in the reduced stage, a
    renewed fill anomaly), which \<open>orderly\<close> and \<open>regular_life\<close> name;
  \<^item> \<open>PaperData\<close>, \<open>PaperEvidence\<close>, \<open>PaperLedger\<close>, \<open>PaperBroker\<close>: \<open>execution/paper_broker.py\<close>, its
    records and numbers, the readers of its events, the ledger that \<open>_build_ledger\<close> reads back from
    the replayed store, and its operations as transactions over the calls of the store. The fault
    hook is a function of the boundary; \<open>PyEquality\<close> is the equality of payload values;
  \<^item> \<open>Paper_Reading\<close>, \<open>Paper_Ledger_Correct\<close>: what the readers accept, and the soundness of every
    ledger that reconciles: well-formed orders, causal fills, an account that is the fold of its
    fills, stops that tighten;
  \<^item> \<open>Paper_Broker_Correct\<close>: the operations are atomic, a fill is only what the ledger before the
    call allows, a new stop is never looser;
  \<^item> \<open>Paper_Sizes\<close>, \<open>Paper_Digits\<close>: the floats as a significand and an exponent, the sizing loop of
    a bound entry, and the 17 digits that make \<open>Decimal(str(x))\<close> exact; slippage is adverse;
  \<^item> \<open>Paper_Trades\<close>: the loop that pairs fills into trades against a reference definition;
  \<^item> \<open>Paper_Read_Back\<close>: an order and a fill read back from their events as they were made;
  \<^item> \<open>Paper_Samples\<close>: a concrete history of the broker, evaluated, for the witnesses;
  \<^item> \<open>ServiceRisk\<close>, \<open>ServiceCycle\<close>, \<open>PaperService\<close>, \<open>ServiceRun\<close>: \<open>paper/service.py\<close>, in this order the
    stored risk state with the chains of risk, health and alert events (\<open>PyDate\<close> has the dates of
    Python); the completions and attempts of cycles with the oldest required end; the lease, the
    fenced sections, the open position and the open of the candle; and the observation, the risk
    decision and the cycle \<open>process_completed_candle\<close>. A call maps the state of the service, which is the
    store, the epoch, the epoch the source is bound to, the number of clock readings and, for the
    application, the prepared frames, the alerts sent and the sleeps, to the state it leaves behind and
    its result. The readings of the clock, the candle source (which may
    change the store, as other processes do meanwhile), \<open>canonicalize_ohlcv\<close> and
    \<open>compute_trend_indicators\<close> on frames, and the fault hook are fields of \<open>service_env\<close>; no property
    assumes anything of them;
  \<^item> \<open>Service_Relation\<close>: the locale \<open>service_relation\<close>, the contract of a relation on the states of the
    service (one for a call, one for the work inside a fenced transaction) under which every operation
    of the service stays within it. Each statement about what the service does is an interpretation;
  \<^item> \<open>Service_Steps\<close>: every change of the store by a cycle is a lease operation, an action of the candle
    source or a fenced transaction, as a step relation;
  \<^item> \<open>Service_Chronology\<close>, \<open>Service_Once\<close>: the chain of completed cycles and the end that continues it; a
    candle is decided at most once, and the next required end is a later one;
  \<^item> \<open>Service_Safety\<close>, \<open>Service_Restart\<close>: unhealthy evidence blocks every purchase; a reachable risk
    account reads back from what the service stores of it;
  \<^item> \<open>PaperAlerts\<close>, \<open>PaperSource\<close>, \<open>PaperApp\<close>: \<open>alerts/notifier.py\<close> and the paper application of
    \<open>cli.py\<close>, in this order the delivery of an alert at most once; the observed candle source, which
    validates a public frame and records health evidence under the lease that it is bound to; and one
    run of the application with its scheduler, the check of a halted account, the reconciliation and
    the alert of a cycle, and the retry loop. The public loader, the sleeper, both with what other
    processes do to the store meanwhile, and the notifier are fields of \<open>app_env\<close>. The scheduler sleeps
    until its target; the fuel of a run bounds the number of these sleeps, and a run that is still
    waiting then is \<open>None\<close>;
  \<^item> \<open>Event_Log\<close>: the calls of the store and of the broker only append to the event log;
  \<^item> \<open>App_Relation\<close>, \<open>App_Steps\<close>, \<open>App_Alerts\<close>, \<open>App_Frames\<close>, \<open>App_Samples\<close>: the contract of a relation for
    the application, of which the contract of the service is a sublocale, and its two interpretations:
    every change of the store is a lease operation, an action of others or fenced; the log is only
    appended to, no event is alerted twice and an iteration that raises has slept. The frames that the
    source hands over are exact, and a load that fails halts the account;
  \<^item> \<open>Store_Samples\<close>: a concrete store, evaluated, for the witnesses.

  The hypothesis \<open>wf_float\<close> (and \<open>wf_val\<close>, \<open>wf_json\<close>, \<open>wf_row\<close> on top of it) says of a float that
  it is a binary64 value, which every value of the running program is.

  Not modelled: the other commands of the command line, reports and the Telegram adapter (I/O); the collection and storage of candles
  (network and pandas); the indicators, whose columns reach the engine as a row of values; the
  backtest and the research tooling, which drive third-party libraries; opening, copying and
  configuring the database file. In the paper service the object identity of a pandas frame
  and the columns other than those that are read.
\<close>

end
